(* ===== verification/Prelude.thy ===== *)
theory Prelude
  imports Main "HOL-Library.State_Monad" "HOL-Library.Sublist" "HOL-Library.Word"
begin

text \<open>
  The vocabulary shared by every component: Go strings (byte strings) and the functions of
  package \<open>strings\<close> the sources call, Go maps with their nil value, Go errors with the
  wrapping done by \<open>fmt.Errorf\<close> and the reasons read by \<open>k8serrors\<close>, the fixed-width
  integer conversions, and the effect type of the model: a state monad over the operator's
  state whose fallible operations return a sum, \<open>Inl\<close> for the error. The locale
  \<open>effect_frame\<close> at the end proves once that a reflexive and transitive relation between
  the states before and after is kept by every control structure; the components instantiate
  it with their own frame conditions.
\<close>

named_theorems string_defs \<open>definitions of the modelled parts of package strings\<close>
named_theorems effect_simps \<open>equations that run effects\<close>

section \<open>Strings\<close>

text \<open>
  A Go string is a byte string, and \<^typ>\<open>string\<close> is a list of 8-bit characters, so
  \<open>len\<close> is \<^const>\<open>length\<close>.
\<close>

definition go_HasPrefix :: "string \<Rightarrow> string \<Rightarrow> bool" where
  "go_HasPrefix s p = prefix p s"

definition go_HasSuffix :: "string \<Rightarrow> string \<Rightarrow> bool" where
  "go_HasSuffix s p = suffix p s"

fun go_Contains :: "string \<Rightarrow> string \<Rightarrow> bool" where
  "go_Contains [] p = (p = [])"
| "go_Contains (c # s) p = (prefix p (c # s) \<or> go_Contains s p)"

definition go_ContainsAny :: "string \<Rightarrow> string \<Rightarrow> bool" where
  "go_ContainsAny s chars = list_ex (\<lambda>c. c \<in> set chars) s"

text \<open>\<open>strings.Cut\<close>: the text before and after the first separator, and whether it was found.\<close>

fun go_Cut :: "string \<Rightarrow> string \<Rightarrow> string \<times> string \<times> bool" where
  "go_Cut [] sep = ([], [], sep = [])"
| "go_Cut (c # s) sep =
     (if prefix sep (c # s) then ([], drop (length sep) (c # s), True)
      else (case go_Cut s sep of (b, a, ok) \<Rightarrow> (c # b, a, ok)))"

lemma go_Cut_after_le: "go_Cut s sep = (b, a, ok) \<Longrightarrow> length a \<le> length s - (if ok then length sep else 0)"
proof (induction s arbitrary: b a ok)
  case Nil
  then show ?case by auto
next
  case (Cons c s)
  show ?case
  proof (cases "prefix sep (c # s)")
    case True
    with Cons.prems show ?thesis by auto
  next
    case False
    obtain b' a' ok' where r: "go_Cut s sep = (b', a', ok')" by (cases "go_Cut s sep") auto
    from Cons.IH [OF r] Cons.prems False r show ?thesis by (auto split: if_splits)
  qed
qed

lemma go_Cut_shrinks: "go_Cut s sep = (b, a, True) \<Longrightarrow> sep \<noteq> [] \<Longrightarrow> length a < length s"
  using go_Cut_after_le [of s sep b a True] by (cases s) (auto simp: neq_Nil_conv)

text \<open>\<open>strings.Split\<close> for a non-empty separator, by repeated \<open>Cut\<close>.\<close>

function go_Split :: "string \<Rightarrow> string \<Rightarrow> string list" where
  "go_Split s sep =
     (if sep = [] then [s]
      else (case go_Cut s sep of (b, a, ok) \<Rightarrow> if ok then b # go_Split a sep else [s]))"
  by pat_completeness auto
termination
  by (relation "measure (\<lambda>(s, sep). length s)") (auto dest: go_Cut_shrinks [OF sym])

declare go_Split.simps [simp del]

text \<open>\<open>strings.Replace\<close> and \<open>strings.ReplaceAll\<close> for a non-empty old text.\<close>

function go_ReplaceAll :: "string \<Rightarrow> string \<Rightarrow> string \<Rightarrow> string" where
  "go_ReplaceAll s old new =
     (if old = [] \<or> s = [] then s
      else if prefix old s then new @ go_ReplaceAll (drop (length old) s) old new
      else hd s # go_ReplaceAll (tl s) old new)"
  by pat_completeness auto
termination
  by (relation "measure (\<lambda>(s, old, new). length s)") (auto simp: neq_Nil_conv)

declare go_ReplaceAll.simps [simp del]

lemma go_ReplaceAll_char:
  "go_ReplaceAll s [c] new = concat (map (\<lambda>x. if x = c then new else [x]) s)"
proof (induction s)
  case Nil
  show ?case by (simp add: go_ReplaceAll.simps)
next
  case (Cons x s)
  show ?case
    using Cons.IH by (cases "x = c") (simp_all add: go_ReplaceAll.simps [of "x # s"] go_ReplaceAll.simps [of "c # s"])
qed

text \<open>
  \<open>strings.TrimSpace\<close> removes leading and trailing Unicode white space. The white space
  characters are listed by their UTF-8 encodings, which are self-delimiting.
\<close>

definition space_encodings :: "string list" where
  "space_encodings =
     [[CHR 0x09], [CHR 0x0A], [CHR 0x0B], [CHR 0x0C], [CHR 0x0D], [CHR 0x20], [CHR 0xC2, CHR 0x85],
      [CHR 0xC2, CHR 0xA0], [CHR 0xE1, CHR 0x9A, CHR 0x80], [CHR 0xE2, CHR 0x80, CHR 0x80],
      [CHR 0xE2, CHR 0x80, CHR 0x81], [CHR 0xE2, CHR 0x80, CHR 0x82], [CHR 0xE2, CHR 0x80, CHR 0x83],
      [CHR 0xE2, CHR 0x80, CHR 0x84], [CHR 0xE2, CHR 0x80, CHR 0x85], [CHR 0xE2, CHR 0x80, CHR 0x86],
      [CHR 0xE2, CHR 0x80, CHR 0x87], [CHR 0xE2, CHR 0x80, CHR 0x88], [CHR 0xE2, CHR 0x80, CHR 0x89],
      [CHR 0xE2, CHR 0x80, CHR 0x8A], [CHR 0xE2, CHR 0x80, CHR 0xA8], [CHR 0xE2, CHR 0x80, CHR 0xA9],
      [CHR 0xE2, CHR 0x80, CHR 0xAF], [CHR 0xE2, CHR 0x81, CHR 0x9F], [CHR 0xE3, CHR 0x80, CHR 0x80]]"

definition leading_space :: "string \<Rightarrow> nat" where
  "leading_space s = (case filter (\<lambda>e. prefix e s) space_encodings of [] \<Rightarrow> 0 | e # _ \<Rightarrow> length e)"

definition trailing_space :: "string \<Rightarrow> nat" where
  "trailing_space s = (case filter (\<lambda>e. suffix e s) space_encodings of [] \<Rightarrow> 0 | e # _ \<Rightarrow> length e)"

function trim_space_left :: "string \<Rightarrow> string" where
  "trim_space_left s =
     (if s = [] \<or> leading_space s = 0 then s else trim_space_left (drop (leading_space s) s))"
  by pat_completeness auto
termination by (relation "measure length") auto

function trim_space_right :: "string \<Rightarrow> string" where
  "trim_space_right s =
     (if s = [] \<or> trailing_space s = 0 then s
      else trim_space_right (take (length s - trailing_space s) s))"
  by pat_completeness auto
termination by (relation "measure length") auto

declare trim_space_left.simps [simp del] trim_space_right.simps [simp del]

definition go_TrimSpace :: "string \<Rightarrow> string" where
  "go_TrimSpace s = trim_space_right (trim_space_left s)"

text \<open>\<open>strings.Trim\<close> for a cutset of ASCII characters.\<close>

definition go_Trim :: "string \<Rightarrow> string \<Rightarrow> string" where
  "go_Trim s cutset =
     rev (dropWhile (\<lambda>c. c \<in> set cutset) (rev (dropWhile (\<lambda>c. c \<in> set cutset) s)))"

text \<open>
  \<open>strings.EqualFold\<close>, used by the sources only against ASCII constants. Simple case folding
  sends exactly two non-ASCII characters to ASCII letters: U+017F to \<open>s\<close> and U+212A to \<open>k\<close>.
\<close>

definition fold_char :: "char \<Rightarrow> char" where
  "fold_char c = (let n = of_char c :: nat in if 65 \<le> n \<and> n \<le> 90 then char_of (n + 32) else c)"

fun fold_string :: "string \<Rightarrow> string" where
  "fold_string (a # b # s) =
     (if [a, b] = [CHR 0xC5, CHR 0xBF] then CHR ''s'' # fold_string s
      else (case s of
          c # t \<Rightarrow> if [a, b, c] = [CHR 0xE2, CHR 0x84, CHR 0xAA] then CHR ''k'' # fold_string t
                    else fold_char a # fold_string (b # s)
        | [] \<Rightarrow> fold_char a # fold_string (b # s)))"
| "fold_string s = map fold_char s"

definition go_EqualFold :: "string \<Rightarrow> string \<Rightarrow> bool" where
  "go_EqualFold s t = (fold_string s = fold_string t)"

fun go_Join :: "string list \<Rightarrow> string \<Rightarrow> string" where
  "go_Join [] sep = []"
| "go_Join [x] sep = x"
| "go_Join (x # y # xs) sep = x @ sep @ go_Join (y # xs) sep"

text \<open>\<open>strconv.Itoa\<close>.\<close>

fun nat_digits :: "nat \<Rightarrow> string" where
  "nat_digits n =
     (if n < 10 then [char_of (48 + n)] else nat_digits (n div 10) @ [char_of (48 + n mod 10)])"

declare nat_digits.simps [simp del]

definition go_Itoa :: "int \<Rightarrow> string" where
  "go_Itoa i = (if i < 0 then CHR ''-'' # nat_digits (nat (- i)) else nat_digits (nat i))"

text \<open>The verb \<open>%q\<close> on a string of printable characters.\<close>

definition go_Quote :: "string \<Rightarrow> string" where
  "go_Quote s = ''\"'' @ concat (map (\<lambda>c. if c = CHR ''\"'' \<or> c = CHR 0x5C then [CHR 0x5C, c] else [c]) s) @ ''\"''"

lemmas [string_defs] = go_HasPrefix_def go_HasSuffix_def go_ContainsAny_def go_TrimSpace_def
  go_Trim_def go_EqualFold_def go_Itoa_def go_Quote_def

lemma go_Contains_iff_sublist: "go_Contains s p \<longleftrightarrow> sublist p s"
  by (induction s) (auto simp: sublist_Cons_right)

lemma length_go_Trim_le: "length (go_Trim s cs) \<le> length s"
proof -
  have "length (dropWhile P xs) \<le> length xs" for P :: "char \<Rightarrow> bool" and xs
    by (rule length_dropWhile_le)
  then show ?thesis unfolding go_Trim_def by (metis length_rev order_trans)
qed

lemma hd_dropWhile_notin: "dropWhile P xs \<noteq> [] \<Longrightarrow> \<not> P (hd (dropWhile P xs))"
  by (rule hd_dropWhile)

lemma go_Trim_ends:
  assumes "go_Trim s cs \<noteq> []"
  shows "hd (go_Trim s cs) \<notin> set cs \<and> last (go_Trim s cs) \<notin> set cs"
proof
  let ?P = "\<lambda>c. c \<in> set cs"
  let ?l = "dropWhile ?P s"
  let ?r = "dropWhile ?P (rev ?l)"
  have t: "go_Trim s cs = rev ?r" by (simp add: go_Trim_def)
  with assms have r: "?r \<noteq> []" by simp
  from hd_dropWhile [OF r] show "last (go_Trim s cs) \<notin> set cs"
    by (simp add: t last_rev)
  obtain zs where zs: "rev ?l = zs @ ?r"
    using takeWhile_dropWhile_id [of ?P "rev ?l"] by metis
  then have l: "?l = rev ?r @ rev zs" by (metis rev_append rev_rev_ident)
  with r have "?l \<noteq> []" by (metis append_is_Nil_conv rev_is_Nil_conv)
  from hd_dropWhile [OF this] have "hd ?l \<notin> set cs" .
  moreover have "hd ?l = hd (rev ?r)" using l r by (metis hd_append2 rev_is_Nil_conv)
  ultimately show "hd (go_Trim s cs) \<notin> set cs" by (simp add: t)
qed

section \<open>Go maps\<close>

text \<open>A Go map is nil (\<^const>\<open>None\<close>) or a finite map; reading a nil map finds nothing.\<close>

type_synonym 'v gomap = "(string \<rightharpoonup> 'v) option"

definition mget :: "'v gomap \<Rightarrow> string \<Rightarrow> 'v option" where
  "mget m k = (case m of None \<Rightarrow> None | Some f \<Rightarrow> f k)"

definition mcontents :: "'v gomap \<Rightarrow> (string \<rightharpoonup> 'v)" where
  "mcontents m = (case m of None \<Rightarrow> Map.empty | Some f \<Rightarrow> f)"

definition mempty :: "'v gomap \<Rightarrow> bool" where
  "mempty m = (mcontents m = Map.empty)"

text \<open>Indexing with the zero value for a missing key, for maps of strings.\<close>

definition mstr :: "string gomap \<Rightarrow> string \<Rightarrow> string" where
  "mstr m k = (case mget m k of None \<Rightarrow> [] | Some v \<Rightarrow> v)"

lemma mget_simps [simp]: "mget None k = None" "mget (Some f) k = f k"
  by (simp_all add: mget_def)

lemma mcontents_simps [simp]: "mcontents None = Map.empty" "mcontents (Some f) = f"
  by (simp_all add: mcontents_def)

lemma mget_mcontents: "mget m k = mcontents m k"
  by (cases m) simp_all

section \<open>Fixed-width integers\<close>

text \<open>The conversions \<open>int32(x)\<close> and \<open>int64(x)\<close> keep the low bits, read in two's complement.\<close>

definition int32_of :: "int \<Rightarrow> int" where
  "int32_of x = (x + 2 ^ 31) mod 2 ^ 32 - 2 ^ 31"

definition int64_of :: "int \<Rightarrow> int" where
  "int64_of x = (x + 2 ^ 63) mod 2 ^ 64 - 2 ^ 63"

lemma int32_of_id: "- (2 ^ 31) \<le> x \<Longrightarrow> x < 2 ^ 31 \<Longrightarrow> int32_of x = x"
  by (simp add: int32_of_def)

lemma int32_of_bounds: "- (2 ^ 31) \<le> int32_of x \<and> int32_of x < 2 ^ 31"
  unfolding int32_of_def by simp

lemma int64_of_id: "- (2 ^ 63) \<le> x \<Longrightarrow> x < 2 ^ 63 \<Longrightarrow> int64_of x = x"
  by (simp add: int64_of_def)

section \<open>Errors\<close>

text \<open>
  An error is a status error of the API server with its reason, or text built by \<open>errors.New\<close>
  and \<open>fmt.Errorf\<close>, whose verb \<open>%w\<close> wraps another error. \<open>k8serrors.IsNotFound\<close> and
  \<open>IsAlreadyExists\<close> look for a status error through the wrapping.
\<close>

datatype api_reason = NotFound | AlreadyExists | OtherReason

datatype go_error = ApiError api_reason string | Errorf "fmt_part list"
  and fmt_part = Lit string | ArgS string | ArgQ string | ArgW go_error

abbreviation errors_New :: "string \<Rightarrow> go_error" where
  "errors_New s \<equiv> Errorf [Lit s]"

fun api_status :: "go_error \<Rightarrow> api_reason option"
  and api_status_parts :: "fmt_part list \<Rightarrow> api_reason option" where
  "api_status (ApiError r _) = Some r"
| "api_status (Errorf ps) = api_status_parts ps"
| "api_status_parts [] = None"
| "api_status_parts (ArgW e # ps) = (case api_status e of None \<Rightarrow> api_status_parts ps | Some r \<Rightarrow> Some r)"
| "api_status_parts (_ # ps) = api_status_parts ps"

definition IsNotFound :: "go_error \<Rightarrow> bool" where
  "IsNotFound e = (api_status e = Some NotFound)"

definition IsAlreadyExists :: "go_error \<Rightarrow> bool" where
  "IsAlreadyExists e = (api_status e = Some AlreadyExists)"

fun error_text :: "go_error \<Rightarrow> string"
  and parts_text :: "fmt_part list \<Rightarrow> string" where
  "error_text (ApiError _ s) = s"
| "error_text (Errorf ps) = parts_text ps"
| "parts_text [] = []"
| "parts_text (Lit s # ps) = s @ parts_text ps"
| "parts_text (ArgS s # ps) = s @ parts_text ps"
| "parts_text (ArgQ s # ps) = go_Quote s @ parts_text ps"
| "parts_text (ArgW e # ps) = error_text e @ parts_text ps"

section \<open>Effects\<close>

text \<open>
  An operation that may fail returns \<^typ>\<open>go_error + 'a\<close>. \<open>tryM\<close> is the idiom
  \<open>if err != nil { return err }\<close>; \<open>logged\<close> is the idiom that logs the error and goes on.
\<close>

type_synonym ('s, 'a) eff = "('s, go_error + 'a) state"

definition tryM :: "('s, 'a) eff \<Rightarrow> ('a \<Rightarrow> ('s, 'b) eff) \<Rightarrow> ('s, 'b) eff" where
  "tryM m k = do { r \<leftarrow> m; case r of Inl e \<Rightarrow> State_Monad.return (Inl e) | Inr x \<Rightarrow> k x }"

definition okM :: "'a \<Rightarrow> ('s, 'a) eff" where
  "okM x = State_Monad.return (Inr x)"

definition failM :: "go_error \<Rightarrow> ('s, 'a) eff" where
  "failM e = State_Monad.return (Inl e)"

definition logged :: "('s, unit) eff \<Rightarrow> ('s, unit) state" where
  "logged m = do { _ \<leftarrow> m; State_Monad.return () }"

definition pureE :: "go_error + 'a \<Rightarrow> ('s, 'a) eff" where
  "pureE r = State_Monad.return r"

text \<open>A \<open>for range\<close> loop whose body may return an error.\<close>

fun for_each :: "'x list \<Rightarrow> ('x \<Rightarrow> ('s, unit) eff) \<Rightarrow> ('s, unit) eff" where
  "for_each [] f = okM ()"
| "for_each (x # xs) f = tryM (f x) (\<lambda>_. for_each xs f)"

lemma run_okM [simp]: "run_state (okM x) s = (Inr x, s)"
  by (simp add: okM_def)

lemma run_failM [simp]: "run_state (failM e) s = (Inl e, s)"
  by (simp add: failM_def)

lemma run_pureE [simp]: "run_state (pureE r) s = (r, s)"
  by (simp add: pureE_def)

lemma run_logged: "run_state (logged m) s = ((), snd (run_state m s))"
  by (simp add: logged_def split: prod.splits)

lemma run_tryM:
  "run_state (tryM m k) s =
     (case run_state m s of (Inl e, t) \<Rightarrow> (Inl e, t) | (Inr x, t) \<Rightarrow> run_state (k x) t)"
  by (simp add: tryM_def split: prod.splits sum.splits)

lemma run_tryM_Inr [simp]: "run_state m s = (Inr x, t) \<Longrightarrow> run_state (tryM m k) s = run_state (k x) t"
  by (simp add: run_tryM)

lemma run_tryM_Inl [simp]: "run_state m s = (Inl e, t) \<Longrightarrow> run_state (tryM m k) s = (Inl e, t)"
  by (simp add: run_tryM)

lemma tryM_okM [simp]: "tryM (okM x) k = k x"
  by (rule state_ext) simp

lemma tryM_failM [simp]: "tryM (failM e) k = failM e"
  by (rule state_ext) simp

lemmas [effect_simps] = run_logged run_tryM

text \<open>Running a computation on a part of the state, given by its selector and update.\<close>

definition zoom :: "('s \<Rightarrow> 'w) \<Rightarrow> ('w \<Rightarrow> 's \<Rightarrow> 's) \<Rightarrow> ('w, 'a) state \<Rightarrow> ('s, 'a) state" where
  "zoom get put m = State (\<lambda>s. case run_state m (get s) of (a, w) \<Rightarrow> (a, put w s))"

lemma run_zoom: "run_state (zoom g p m) s = (case run_state m (g s) of (a, w) \<Rightarrow> (a, p w s))"
  by (simp add: zoom_def)

lemmas [effect_simps] = run_zoom

text \<open>Taking a run apart.\<close>

lemma bind_runE:
  assumes "run_state (State_Monad.bind m k) s = (x, t)"
  obtains a s' where "run_state m s = (a, s')" and "run_state (k a) s' = (x, t)"
  using assms by (cases "run_state m s") auto

lemma tryM_InrE:
  assumes "run_state (tryM m k) s = (Inr x, t)"
  obtains a s' where "run_state m s = (Inr a, s')" and "run_state (k a) s' = (Inr x, t)"
  using assms by (auto simp: run_tryM split: prod.splits sum.splits)

lemma tryM_InlE:
  assumes "run_state (tryM m k) s = (Inl e, t)"
  obtains (first) "run_state m s = (Inl e, t)"
    | (rest) a s' where "run_state m s = (Inr a, s')" and "run_state (k a) s' = (Inl e, t)"
  using assms by (auto simp: run_tryM split: prod.splits sum.splits)

subsection \<open>Frame conditions\<close>

text \<open>
  \<open>keeps R m\<close>: running \<open>m\<close> relates the state before to the state after by \<open>R\<close>, whether it
  succeeds or fails. For a reflexive and transitive \<open>R\<close> every control structure of the model
  keeps the relation when its parts do.
\<close>

definition keeps :: "('s \<Rightarrow> 's \<Rightarrow> bool) \<Rightarrow> ('s, 'a) state \<Rightarrow> bool" where
  "keeps R m \<longleftrightarrow> (\<forall>s. R s (snd (run_state m s)))"

lemma keepsI: "(\<And>s. R s (snd (run_state m s))) \<Longrightarrow> keeps R m"
  by (simp add: keeps_def)

lemma keepsD: "keeps R m \<Longrightarrow> R s (snd (run_state m s))"
  by (simp add: keeps_def)

lemma keeps_run: "keeps R m \<Longrightarrow> run_state m s = (a, t) \<Longrightarrow> R s t"
  by (metis keepsD snd_conv)

locale effect_frame =
  fixes R :: "'s \<Rightarrow> 's \<Rightarrow> bool"
  assumes frame_refl: "R s s"
    and frame_trans: "R s t \<Longrightarrow> R t u \<Longrightarrow> R s u"
begin

lemma keeps_return: "keeps R (State_Monad.return x)"
  by (rule keepsI) (simp add: frame_refl)

lemma keeps_okM: "keeps R (okM x)"
  by (rule keepsI) (simp add: frame_refl)

lemma keeps_failM: "keeps R (failM x)"
  by (rule keepsI) (simp add: frame_refl)

lemma keeps_pureE: "keeps R (pureE x)"
  by (rule keepsI) (simp add: frame_refl)

lemma keeps_get: "keeps R State_Monad.get"
  by (rule keepsI) (simp add: frame_refl)

lemma keeps_bind: "keeps R m \<Longrightarrow> (\<And>x. keeps R (k x)) \<Longrightarrow> keeps R (State_Monad.bind m k)"
proof (rule keepsI)
  fix s
  assume m: "keeps R m" and k: "\<And>x. keeps R (k x)"
  obtain a t where r: "run_state m s = (a, t)" by fastforce
  have "R s t" using m r by (rule keeps_run)
  moreover have "R t (snd (run_state (k a) t))" by (rule keepsD [OF k])
  ultimately show "R s (snd (run_state (State_Monad.bind m k) s))"
    using r by (auto intro: frame_trans)
qed

lemma keeps_tryM: "keeps R m \<Longrightarrow> (\<And>x. keeps R (k x)) \<Longrightarrow> keeps R (tryM m k)"
  unfolding tryM_def by (rule keeps_bind) (auto split: sum.split intro: keeps_return)

text \<open>The continuation only has to keep the relation for results the first part can return.\<close>

lemma keeps_tryM_result:
  assumes "keeps R m" and "\<And>x s t. run_state m s = (Inr x, t) \<Longrightarrow> keeps R (k x)"
  shows "keeps R (tryM m k)"
proof (rule keepsI)
  fix s
  obtain r t where r: "run_state m s = (r, t)" by fastforce
  have st: "R s t" using assms(1) r by (rule keeps_run)
  show "R s (snd (run_state (tryM m k) s))"
  proof (cases r)
    case (Inl e)
    then show ?thesis using r st by (simp add: run_tryM)
  next
    case (Inr x)
    with r assms(2) have "R t (snd (run_state (k x) t))" by (auto intro: keepsD)
    then show ?thesis using r Inr st by (auto simp: run_tryM intro: frame_trans)
  qed
qed

lemma keeps_logged: "keeps R m \<Longrightarrow> keeps R (logged m)"
  unfolding logged_def by (intro keeps_bind keeps_return)

lemma keeps_for_each: "(\<And>x. x \<in> set xs \<Longrightarrow> keeps R (f x)) \<Longrightarrow> keeps R (for_each xs f)"
  by (induction xs) (auto intro: keeps_okM keeps_tryM)

lemma keeps_if: "(b \<Longrightarrow> keeps R m) \<Longrightarrow> (\<not> b \<Longrightarrow> keeps R n) \<Longrightarrow> keeps R (if b then m else n)"
  by simp

lemma keeps_case_sum:
  "(\<And>e. x = Inl e \<Longrightarrow> keeps R (f e)) \<Longrightarrow> (\<And>a. x = Inr a \<Longrightarrow> keeps R (g a)) \<Longrightarrow> keeps R (case_sum f g x)"
  by (cases x) auto

lemma keeps_case_option:
  "(x = None \<Longrightarrow> keeps R m) \<Longrightarrow> (\<And>a. x = Some a \<Longrightarrow> keeps R (g a)) \<Longrightarrow> keeps R (case_option m g x)"
  by (cases x) auto

lemma keeps_case_prod:
  "(\<And>a b. x = (a, b) \<Longrightarrow> keeps R (f a b)) \<Longrightarrow> keeps R (case_prod f x)"
  by (cases x) auto

lemmas keeps_rules = keeps_return keeps_okM keeps_failM keeps_pureE keeps_get keeps_bind keeps_tryM
  keeps_logged keeps_for_each keeps_if keeps_case_sum keeps_case_option keeps_case_prod

end

end
