(* ===== verification/K8s_Types.thy ===== *)
theory K8s_Types
  imports Prelude
begin

text \<open>
  The Kubernetes API structs the sources fill in, as records with the fields the sources set
  or read (packages \<open>k8s.io/api\<close> and \<open>apimachinery\<close> are outside the repository; these are
  carriers only and no behaviour of those packages is defined here). Fields the operator only
  passes through have the opaque type \<open>affinity\<close>. A pointer is an \<^typ>\<open>'a option\<close>, a slice
  whose nil value is distinguished is an \<open>'a list option\<close>, and a quantity is named by its text.
\<close>

typedecl affinity

datatype quantity = Quantity string

record resource_requirements =
  rr_Requests :: "quantity gomap"
  rr_Limits :: "quantity gomap"

record object_meta =
  om_Name :: string
  om_Namespace :: string
  om_Labels :: "string gomap"
  om_Annotations :: "string gomap"
  om_ResourceVersion :: string
  om_OwnerReferences :: "string list"
  om_Generation :: int

record secret_key_selector =
  sks_Name :: string
  sks_Key :: string

section \<open>Pods\<close>

datatype env_source = FieldRef string | SecretKeyRef secret_key_selector

record env_var =
  ev_Name :: string
  ev_Value :: string
  ev_ValueFrom :: "env_source option"

record container_port =
  cp_Name :: string
  cp_ContainerPort :: int
  cp_Protocol :: string

record volume_mount =
  vm_Name :: string
  vm_MountPath :: string
  vm_SubPath :: string
  vm_ReadOnly :: bool

record key_to_path =
  kp_Key :: string
  kp_Path :: string

datatype volume_source =
    PVCSource string
  | EmptyDirSource string "quantity option"
  | ConfigMapSource string "key_to_path list" "int option"
  | SecretSource string "key_to_path list" "int option"
  | HostPathSource string "string option"
  | OtherSource string

record volume =
  vol_Name :: string
  vol_Source :: volume_source

record capabilities =
  cap_Add :: "string list"
  cap_Drop :: "string list"

record security_context =
  sc_Privileged :: "bool option"
  sc_AllowPrivilegeEscalation :: "bool option"
  sc_ReadOnlyRootFilesystem :: "bool option"
  sc_RunAsNonRoot :: "bool option"
  sc_RunAsUser :: "int option"
  sc_RunAsGroup :: "int option"
  sc_Capabilities :: "capabilities option"

record pod_security_context =
  psc_RunAsNonRoot :: "bool option"
  psc_RunAsUser :: "int option"
  psc_RunAsGroup :: "int option"
  psc_FSGroup :: "int option"
  psc_FSGroupChangePolicy :: "string option"
  psc_SeccompProfile :: "string option"
  psc_SELinuxType :: "string option"

record probe =
  pr_Path :: string
  pr_Port :: int
  pr_Scheme :: string
  pr_InitialDelaySeconds :: int
  pr_TimeoutSeconds :: int
  pr_PeriodSeconds :: int
  pr_SuccessThreshold :: int
  pr_FailureThreshold :: int

record container =
  co_Name :: string
  co_Image :: string
  co_ImagePullPolicy :: string
  co_Command :: "string list"
  co_Args :: "string list"
  co_Env :: "env_var list"
  co_EnvFrom :: "string list"
  co_Ports :: "container_port list"
  co_Resources :: resource_requirements
  co_VolumeMounts :: "volume_mount list"
  co_LivenessProbe :: "probe option"
  co_ReadinessProbe :: "probe option"
  co_StartupProbe :: "probe option"
  co_SecurityContext :: "security_context option"
  co_Lifecycle :: "string option"
  co_TerminationMessagePath :: string
  co_TerminationMessagePolicy :: string

record toleration =
  tol_Key :: string
  tol_Operator :: string
  tol_Value :: string
  tol_Effect :: string

record pod_spec =
  ps_Volumes :: "volume list"
  ps_InitContainers :: "container list"
  ps_Containers :: "container list"
  ps_TerminationGracePeriodSeconds :: "int option"
  ps_ServiceAccountName :: string
  ps_DeprecatedServiceAccount :: string
  ps_SecurityContext :: "pod_security_context option"
  ps_SchedulerName :: string
  ps_NodeSelector :: "string gomap"
  ps_Tolerations :: "toleration list option"
  ps_Affinity :: "affinity option"
  ps_PriorityClassName :: string

record pod_template =
  pt_Name :: string
  pt_Labels :: "string gomap"
  pt_Annotations :: "string gomap"
  pt_Spec :: pod_spec

section \<open>Objects\<close>

text \<open>\<open>intstr.IntOrString\<close> occurs only as an integer.\<close>

record update_strategy =
  us_Type :: string
  us_MaxSurge :: "int option"
  us_MaxUnavailable :: "int option"

record daemonset_spec =
  dss_Selector :: "string gomap"
  dss_MinReadySeconds :: int
  dss_UpdateStrategy :: update_strategy
  dss_Template :: pod_template

record daemonset_status =
  dst_DesiredNumberScheduled :: int
  dst_UpdatedNumberScheduled :: int
  dst_NumberAvailable :: int

record daemonset =
  ds_Meta :: object_meta
  ds_Spec :: daemonset_spec
  ds_Status :: daemonset_status

record deployment_spec =
  dps_Replicas :: "int option"
  dps_Selector :: "string gomap"
  dps_Strategy :: update_strategy
  dps_Template :: pod_template

record deployment_status =
  dpt_AvailableReplicas :: int
  dpt_UpdatedReplicas :: int

record deployment =
  dp_Meta :: object_meta
  dp_Spec :: deployment_spec
  dp_Status :: deployment_status

record claim_template =
  ct_Name :: string
  ct_AccessModes :: "string list"
  ct_Requests :: "quantity gomap"
  ct_StorageClassName :: "string option"

record statefulset_spec =
  sss_Replicas :: "int option"
  sss_ServiceName :: string
  sss_Selector :: "string gomap"
  sss_PodManagementPolicy :: string
  sss_UpdateStrategy :: update_strategy
  sss_RevisionHistoryLimit :: "int option"
  sss_Template :: pod_template
  sss_VolumeClaimTemplates :: "claim_template list"

record statefulset_status =
  sst_Replicas :: int
  sst_ReadyReplicas :: int

record statefulset =
  ss_Meta :: object_meta
  ss_Spec :: statefulset_spec
  ss_Status :: statefulset_status

record service_port =
  sp_Name :: string
  sp_Port :: int
  sp_Protocol :: string
  sp_TargetPort :: int

record service_spec =
  svs_Type :: string
  svs_ClusterIP :: string
  svs_Ports :: "service_port list"
  svs_Selector :: "string gomap"
  svs_IPFamilies :: "string list"
  svs_IPFamilyPolicy :: "string option"

record service =
  sv_Meta :: object_meta
  sv_Spec :: service_spec

record service_account =
  sa_Meta :: object_meta

record secret =
  se_Meta :: object_meta
  se_Type :: string
  se_Data :: "string gomap"

record config_map =
  cm_Meta :: object_meta
  cm_Data :: "string gomap"
  cm_BinaryData :: "string gomap"

datatype kind = KDaemonSet | KDeployment | KStatefulSet | KService | KServiceAccount | KSecret
  | KConfigMap | KPersistentVolumeClaim | KJob

datatype object = ODaemonSet daemonset | ODeployment deployment | OStatefulSet statefulset
  | OService service | OServiceAccount service_account | OSecret secret | OConfigMap config_map
  | OPersistentVolumeClaim object_meta | OJob object_meta

fun kind_of :: "object \<Rightarrow> kind" where
  "kind_of (ODaemonSet _) = KDaemonSet"
| "kind_of (ODeployment _) = KDeployment"
| "kind_of (OStatefulSet _) = KStatefulSet"
| "kind_of (OService _) = KService"
| "kind_of (OServiceAccount _) = KServiceAccount"
| "kind_of (OSecret _) = KSecret"
| "kind_of (OConfigMap _) = KConfigMap"
| "kind_of (OPersistentVolumeClaim _) = KPersistentVolumeClaim"
| "kind_of (OJob _) = KJob"

fun meta_of :: "object \<Rightarrow> object_meta" where
  "meta_of (ODaemonSet d) = ds_Meta d"
| "meta_of (ODeployment d) = dp_Meta d"
| "meta_of (OStatefulSet s) = ss_Meta s"
| "meta_of (OService s) = sv_Meta s"
| "meta_of (OServiceAccount s) = sa_Meta s"
| "meta_of (OSecret s) = se_Meta s"
| "meta_of (OConfigMap c) = cm_Meta c"
| "meta_of (OPersistentVolumeClaim m) = m"
| "meta_of (OJob m) = m"

text \<open>The zero values of Go's composite literals.\<close>

definition meta_named :: "string \<Rightarrow> string \<Rightarrow> object_meta" where
  "meta_named n ns = \<lparr>om_Name = n, om_Namespace = ns, om_Labels = None, om_Annotations = None,
     om_ResourceVersion = [], om_OwnerReferences = [], om_Generation = 0\<rparr>"

definition zero_pod_spec :: pod_spec where
  "zero_pod_spec = \<lparr>ps_Volumes = [], ps_InitContainers = [], ps_Containers = [],
     ps_TerminationGracePeriodSeconds = None, ps_ServiceAccountName = [],
     ps_DeprecatedServiceAccount = [], ps_SecurityContext = None, ps_SchedulerName = [],
     ps_NodeSelector = None, ps_Tolerations = None, ps_Affinity = None, ps_PriorityClassName = []\<rparr>"

definition zero_security_context :: security_context where
  "zero_security_context = \<lparr>sc_Privileged = None, sc_AllowPrivilegeEscalation = None,
     sc_ReadOnlyRootFilesystem = None, sc_RunAsNonRoot = None, sc_RunAsUser = None,
     sc_RunAsGroup = None, sc_Capabilities = None\<rparr>"

definition zero_pod_security_context :: pod_security_context where
  "zero_pod_security_context = \<lparr>psc_RunAsNonRoot = None, psc_RunAsUser = None, psc_RunAsGroup = None,
     psc_FSGroup = None, psc_FSGroupChangePolicy = None, psc_SeccompProfile = None,
     psc_SELinuxType = None\<rparr>"

definition zero_update_strategy :: update_strategy where
  "zero_update_strategy = \<lparr>us_Type = [], us_MaxSurge = None, us_MaxUnavailable = None\<rparr>"

abbreviation VolumeMount :: "string \<Rightarrow> string \<Rightarrow> string \<Rightarrow> bool \<Rightarrow> volume_mount" where
  "VolumeMount n p sub ro \<equiv> \<lparr>vm_Name = n, vm_MountPath = p, vm_SubPath = sub, vm_ReadOnly = ro\<rparr>"

abbreviation ContainerPort :: "string \<Rightarrow> int \<Rightarrow> string \<Rightarrow> container_port" where
  "ContainerPort n p proto \<equiv> \<lparr>cp_Name = n, cp_ContainerPort = p, cp_Protocol = proto\<rparr>"

abbreviation EnvVar :: "string \<Rightarrow> string \<Rightarrow> env_var" where
  "EnvVar n v \<equiv> \<lparr>ev_Name = n, ev_Value = v, ev_ValueFrom = None\<rparr>"

abbreviation EnvVarFrom :: "string \<Rightarrow> env_source \<Rightarrow> env_var" where
  "EnvVarFrom n src \<equiv> \<lparr>ev_Name = n, ev_Value = [], ev_ValueFrom = Some src\<rparr>"

text \<open>
  A label selector matches an object when every one of its entries is a label of it. The API
  server rejects a workload whose selector does not match its own pod template.
\<close>

definition matches :: "string gomap \<Rightarrow> string gomap \<Rightarrow> bool" where
  "matches sel labels \<longleftrightarrow> mcontents sel \<subseteq>\<^sub>m mcontents labels"

text \<open>Every volume mounted by a container is a volume or a claim template of its pod.\<close>

definition mount_names :: "pod_spec \<Rightarrow> string list" where
  "mount_names p = concat (map (map vm_Name \<circ> co_VolumeMounts) (ps_InitContainers p @ ps_Containers p))"

definition volume_names :: "pod_spec \<Rightarrow> string list" where
  "volume_names p = map vol_Name (ps_Volumes p)"

definition mounts_resolved :: "string list \<Rightarrow> pod_spec \<Rightarrow> bool" where
  "mounts_resolved claims p \<longleftrightarrow> set (mount_names p) \<subseteq> set (volume_names p) \<union> set claims"

end
