(* ===== verification/Api_Types.thy ===== *)
theory Api_Types
  imports K8s_Types
begin

text \<open>
  The custom resource (\<open>api/v1/loggingservice_types.go\<close>): one record per Go struct, its fields
  in the order of the source with a prefix per struct, and the pure methods declared on the
  structs. Pointers are options, so a method on a pointer receiver takes an option where the
  source calls it on a nil pointer. The methods that read Secrets are in \<open>Api_Secrets\<close>.
\<close>

section \<open>The structs\<close>

record mongodb_upgrade =
  mdu_MongoDBImage40 :: string
  mdu_MongoDBImage42 :: string
  mdu_MongoDBImage44 :: string

record generate_certs =
  gc_SecretName :: string
  gc_Enabled :: bool

record ca_ref =
  ca_SecretName :: string
  ca_SecretKey :: string

record cert_ref =
  cert_SecretName :: string
  cert_SecretKey :: string

record key_ref =
  key_SecretName :: string
  key_SecretKey :: string

record certificates =
  crt_CA :: "ca_ref option"
  crt_Cert :: "cert_ref option"
  crt_Key :: "key_ref option"

record tls_files =
  tls_GenerateCerts :: "generate_certs option"
  tls_Certificates :: certificates

record configmap_reload =
  cmr_DockerImage :: string
  cmr_Resources :: "resource_requirements option"

record credentials =
  cred_User :: "secret_key_selector option"
  cred_Password :: "secret_key_selector option"

record tls_config =
  tlc_CA :: "secret_key_selector option"
  tlc_Cert :: "secret_key_selector option"
  tlc_Key :: "secret_key_selector option"
  tlc_InsecureSkipVerify :: bool

record http_config =
  htc_Credentials :: "credentials option"
  htc_TLSConfig :: "tls_config option"

record content_pack_path =
  cpp_HTTPConfig :: "http_config option"
  cpp_URL :: string

record open_search =
  osr_HTTPConfig :: "http_config option"
  osr_Host :: string

record http_graylog_tls =
  hgt_GenerateCerts :: "generate_certs option"
  hgt_Cert :: "cert_ref option"
  hgt_Key :: "key_ref option"
  hgt_CACerts :: string
  hgt_KeyFilePassword :: string
  hgt_Enabled :: bool
  hgt_InsecureSkipVerify :: bool

record input_graylog_tls =
  igt_TLS :: tls_files
  igt_KeyFilePassword :: string
  igt_Enabled :: bool
  igt_InsecureSkipVerify :: bool

record graylog_tls =
  glt_HTTP :: "http_graylog_tls option"
  glt_Input :: "input_graylog_tls option"

record fluentd_tls_params =
  ftp_Version :: string
  ftp_Enabled :: bool
  ftp_NoDefaultCA :: bool
  ftp_AllCiphers :: bool
  ftp_RescueSslErrors :: bool
  ftp_NoVerify :: bool

record fluentd_tls =
  fdt_TLS :: tls_files
  fdt_FluentdTLSParams :: fluentd_tls_params

record fluentd_loki_tls =
  flt_Certificates :: certificates
  flt_FluentdTLSParams :: fluentd_tls_params

record fluentd_http_tls_params =
  fhp_Enabled :: bool
  fhp_VerifyMode :: string
  fhp_Version :: string
  fhp_Ciphers :: string

record fluentd_http_tls =
  fht_Certificates :: certificates
  fht_FluentdHttpTLSParams :: fluentd_http_tls_params

record fluentbit_tls_params =
  btp_KeyPasswd :: string
  btp_Enabled :: bool
  btp_Verify :: bool

record fluentbit_tls =
  fbt_TLS :: tls_files
  fbt_FluentbitTLSParams :: fluentbit_tls_params

record fluentbit_loki_tls =
  blt_Certificates :: certificates
  blt_FluentbitTLSParams :: fluentbit_tls_params

record fluentbit_http_tls =
  bht_Certificates :: certificates
  bht_FluentbitTLSParams :: fluentbit_tls_params

record auth_proxy =
  apx_Resources :: "resource_requirements option"
  apx_BindPasswordSecret :: "secret_key_selector option"
  apx_CA :: ca_ref
  apx_Cert :: cert_ref
  apx_Key :: key_ref
  apx_Image :: string
  apx_Install :: bool

record volume_settings =
  vset_StorageClassName :: string
  vset_StorageSize :: string
  vset_Bind :: bool

record stream_spec =
  str_Name :: string
  str_RotationStrategy :: string
  str_RotationPeriod :: string
  str_MaxSize :: int
  str_MaxNumberOfIndices :: int
  str_Install :: bool

record auth =
  auth_Token :: "secret_key_selector option"
  auth_User :: "secret_key_selector option"
  auth_Password :: "secret_key_selector option"

record fluentbit_http_routing =
  bhr_Enabled :: bool
  bhr_HeaderTag :: string

record loki_fluentbit =
  lfb_Enabled :: bool
  lfb_Host :: string
  lfb_Tenant :: string
  lfb_Auth :: "auth option"
  lfb_StaticLabels :: string
  lfb_LabelsMapping :: string
  lfb_TLS :: "fluentbit_loki_tls option"
  lfb_ExtraParams :: string

record http_fluentbit =
  hfb_Enabled :: bool
  hfb_Routing :: "fluentbit_http_routing option"
  hfb_Host :: string
  hfb_Port :: int
  hfb_Uri :: string
  hfb_Auth :: "auth option"
  hfb_Compress :: string
  hfb_TLS :: "fluentbit_http_tls option"
  hfb_JsonDateFormat :: string
  hfb_Format :: string
  hfb_ExtraParams :: string

record otel_fluentbit =
  ofb_Enabled :: bool
  ofb_Host :: string
  ofb_Port :: int
  ofb_LogsUri :: string
  ofb_Target :: string
  ofb_LogSuppressInterval :: int
  ofb_Auth :: "auth option"
  ofb_Compress :: string
  ofb_TLS :: "fluentbit_http_tls option"
  ofb_ExtraParams :: string

record output_fluentbit =
  obt_Loki :: "loki_fluentbit option"
  obt_Http :: "http_fluentbit option"
  obt_Otel :: "otel_fluentbit option"

record loki_fluentd =
  lfd_Enabled :: bool
  lfd_Host :: string
  lfd_Tenant :: string
  lfd_Auth :: "auth option"
  lfd_StaticLabels :: string
  lfd_LabelsMapping :: string
  lfd_TLS :: "fluentd_loki_tls option"
  lfd_ExtraParams :: string

record fluentd_http_routing =
  fhr_Enabled :: bool
  fhr_LogCategoryHeader :: string

record http_fluentd =
  hfd_Enabled :: bool
  hfd_Routing :: fluentd_http_routing
  hfd_Host :: string
  hfd_Path :: string
  hfd_Compress :: string
  hfd_Headers :: "string gomap"
  hfd_Auth :: "auth option"
  hfd_TLS :: "fluentd_http_tls option"
  hfd_ExtraParams :: string

record output_fluentd =
  odt_Loki :: "loki_fluentd option"
  odt_Http :: "http_fluentd option"

record fluentbit_db =
  fdb_Enabled :: "bool option"
  fdb_JournalMode :: string
  fdb_Sync :: string
  fdb_Locking :: "bool option"

record graylog =
  gl_GraylogResources :: "resource_requirements option"
  gl_MongoResources :: "resource_requirements option"
  gl_InitResources :: "resource_requirements option"
  gl_MongoDBUpgrade :: "mongodb_upgrade option"
  gl_AuthProxy :: "auth_proxy option"
  gl_TLS :: "graylog_tls option"
  gl_OpenSearch :: "open_search option"
  gl_Affinity :: "affinity option"
  gl_Annotations :: "string gomap"
  gl_Labels :: "string gomap"
  gl_NodeSelectorValue :: string
  gl_PathRepo :: string
  gl_PriorityClassName :: string
  gl_DockerImage :: string
  gl_MongoDBImage :: string
  gl_LogLevel :: string
  gl_ContentDeployPolicy :: string
  gl_JavaOpts :: string
  gl_ContentPackPaths :: string
  gl_CustomPluginsPaths :: string
  gl_Host :: string
  gl_InitSetupImage :: string
  gl_User :: string
  gl_Password :: string
  gl_ElasticsearchHost :: string
  gl_NodeSelectorKey :: string
  gl_InitContainerDockerImage :: string
  gl_GraylogSecretName :: string
  gl_ContentPacks :: "content_pack_path list option"
  gl_Streams :: "stream_spec list"
  gl_ProcessbufferProcessors :: int
  gl_OutputbufferProcessorThreadsMaxPoolSize :: int
  gl_RingSize :: int
  gl_ElasticsearchMaxTotalConnectionsPerRoute :: int
  gl_ElasticsearchMaxTotalConnections :: int
  gl_OutputBatchSize :: int
  gl_InputbufferRingSize :: int
  gl_OutputbufferProcessors :: int
  gl_MaxSize :: int
  gl_InputbufferProcessors :: int
  gl_StartupTimeout :: int
  gl_IndexShards :: "int option"
  gl_IndexReplicas :: "int option"
  gl_MaxNumberOfIndices :: int
  gl_LogsRotationSizeGb :: int
  gl_InputPort :: int
  gl_Replicas :: "int option"
  gl_S3Archive :: bool

record fluentd =
  fd_Resources :: "resource_requirements option"
  fd_Annotations :: "string gomap"
  fd_Labels :: "string gomap"
  fd_ExtraFields :: "string gomap"
  fd_CustomFilterConf :: string
  fd_SystemLogType :: string
  fd_CloudEventsReaderFormat :: string
  fd_GraylogHost :: string
  fd_DockerImage :: string
  fd_ConfigmapReload :: "configmap_reload option"
  fd_GraylogProtocol :: string
  fd_PriorityClassName :: string
  fd_MultilineFirstLineRegexp :: string
  fd_LogLevel :: string
  fd_TotalLimitSize :: string
  fd_CustomInputConf :: string
  fd_NodeSelectorKey :: string
  fd_CustomOutputConf :: string
  fd_NodeSelectorValue :: string
  fd_TLS :: fluentd_tls
  fd_AdditionalVolumeMounts :: "volume_mount list"
  fd_ExcludePath :: "string list"
  fd_AdditionalVolumes :: "volume list"
  fd_Tolerations :: "toleration list option"
  fd_Affinity :: "affinity option"
  fd_QueueLimitLength :: int
  fd_GraylogPort :: int
  fd_BillCycleConf :: bool
  fd_SystemLogging :: bool
  fd_SystemAuditLogging :: bool
  fd_KubeAuditLogging :: bool
  fd_KubeApiserverAuditLogging :: bool
  fd_ContainerLogging :: bool
  fd_WatchKubernetesMetadata :: bool
  fd_SecurityContextPrivileged :: bool
  fd_FileStorage :: bool
  fd_GraylogOutput :: bool
  fd_GraylogBufferFlushInterval :: string
  fd_Compress :: string
  fd_MockKubeData :: bool
  fd_Output :: "output_fluentd option"

record fluentbit_aggregator =
  ag_Labels :: "string gomap"
  ag_Volume :: "volume_settings option"
  ag_Resources :: "resource_requirements option"
  ag_Annotations :: "string gomap"
  ag_ExtraFields :: "string gomap"
  ag_MemBufLimit :: string
  ag_DockerImage :: string
  ag_ConfigmapReload :: "configmap_reload option"
  ag_NodeSelectorValue :: string
  ag_MultilineOtherLinesRegexp :: string
  ag_GraylogHost :: string
  ag_MultilineFirstLineRegexp :: string
  ag_GraylogProtocol :: string
  ag_NodeSelectorKey :: string
  ag_PriorityClassName :: string
  ag_TotalLimitSize :: string
  ag_StorageSizeLimit :: string
  ag_CustomFilterConf :: string
  ag_CustomOutputConf :: string
  ag_CustomLuaScriptConf :: "string gomap"
  ag_TLS :: fluentbit_tls
  ag_Tolerations :: "toleration list option"
  ag_Affinity :: "affinity option"
  ag_StartupTimeout :: int
  ag_Replicas :: int
  ag_GraylogPort :: int
  ag_Install :: bool
  ag_SecurityContextPrivileged :: bool
  ag_GraylogOutput :: bool
  ag_Output :: "output_fluentbit option"
  ag_InputMemBufLimit :: string

record fluentbit =
  fb_Resources :: "resource_requirements option"
  fb_Annotations :: "string gomap"
  fb_Labels :: "string gomap"
  fb_ExtraFields :: "string gomap"
  fb_Aggregator :: "fluentbit_aggregator option"
  fb_MemBufLimit :: string
  fb_SystemLogType :: string
  fb_GraylogHost :: string
  fb_NodeSelectorValue :: string
  fb_GraylogProtocol :: string
  fb_DockerImage :: string
  fb_ConfigmapReload :: "configmap_reload option"
  fb_PriorityClassName :: string
  fb_TotalLimitSize :: string
  fb_CustomInputConf :: string
  fb_CustomFilterConf :: string
  fb_CustomOutputConf :: string
  fb_CustomLuaScriptConf :: "string gomap"
  fb_LogLevel :: string
  fb_MultilineFirstLineRegexp :: string
  fb_NodeSelectorKey :: string
  fb_MultilineOtherLinesRegexp :: string
  fb_TLS :: fluentbit_tls
  fb_AdditionalVolumes :: "volume list"
  fb_AdditionalVolumeMounts :: "volume_mount list"
  fb_Tolerations :: "toleration list option"
  fb_Affinity :: "affinity option"
  fb_GraylogPort :: int
  fb_SecurityContextPrivileged :: bool
  fb_WatchKubernetesMetadata :: bool
  fb_MockKubeData :: bool
  fb_SystemLogging :: bool
  fb_BillCycleConf :: bool
  fb_GraylogOutput :: bool
  fb_SystemAuditLogging :: bool
  fb_KubeAuditLogging :: bool
  fb_KubeApiserverAuditLogging :: bool
  fb_ContainerLogging :: bool
  fb_ExcludePath :: string
  fb_SelfLogging :: bool
  fb_Output :: "output_fluentbit option"
  fb_Flush :: int
  fb_StorageProfile :: string
  fb_MemoryOnlyStateSizeLimit :: string
  fb_InputMemBufLimit :: string
  fb_DB :: fluentbit_db

record cloud_events_reader =
  cer_Resources :: "resource_requirements option"
  cer_DockerImage :: string
  cer_PriorityClassName :: string
  cer_NodeSelectorKey :: string
  cer_NodeSelectorValue :: string
  cer_Affinity :: "affinity option"
  cer_Labels :: "string gomap"
  cer_Annotations :: "string gomap"
  cer_Args :: "string list option"
  cer_Install :: bool

record monitoring_agent_logging_plugin =
  ma_Resources :: "resource_requirements option"
  ma_Annotations :: "string gomap"
  ma_Labels :: "string gomap"
  ma_InfluxDBName :: string
  ma_InfluxDBSecretName :: string
  ma_InfluxDBHost :: string
  ma_NodeSelectorKey :: string
  ma_NodeSelectorValue :: string
  ma_SaSecret :: string
  ma_SaSecretVolume :: string
  ma_PriorityClassName :: string
  ma_DockerImage :: string
  ma_InfluxDBPort :: int
  ma_InfluxDBMode :: bool

record logging_service_spec =
  spec_Graylog :: "graylog option"
  spec_Fluentd :: "fluentd option"
  spec_Fluentbit :: "fluentbit option"
  spec_CloudEventsReader :: "cloud_events_reader option"
  spec_MonitoringAgentLoggingPlugin :: "monitoring_agent_logging_plugin option"
  spec_CloudURL :: string
  spec_OSKind :: string
  spec_ContainerRuntimeType :: string
  spec_Ipv6 :: bool
  spec_OpenshiftDeploy :: bool

record logging_service_condition =
  lc_Type :: string
  lc_Reason :: string
  lc_Message :: string
  lc_LastTransitionTime :: string
  lc_Status :: bool

record logging_service_status =
  lst_Conditions :: "logging_service_condition list"

record logging_service =
  ls_ObjectMeta :: object_meta
  ls_Spec :: logging_service_spec
  ls_Status :: logging_service_status

record release =
  rel_Namespace :: string

record logging_service_parameters =
  lsp_Release :: release
  lsp_Values :: logging_service_spec

section \<open>Zero values\<close>

text \<open>The zero value Go gives an omitted struct, one definition per struct that occurs by value.\<close>

definition zero_generate_certs :: generate_certs where
  "zero_generate_certs = \<lparr>gc_SecretName = [], gc_Enabled = False\<rparr>"

definition zero_ca_ref :: ca_ref where
  "zero_ca_ref = \<lparr>ca_SecretName = [], ca_SecretKey = []\<rparr>"

definition zero_cert_ref :: cert_ref where
  "zero_cert_ref = \<lparr>cert_SecretName = [], cert_SecretKey = []\<rparr>"

definition zero_key_ref :: key_ref where
  "zero_key_ref = \<lparr>key_SecretName = [], key_SecretKey = []\<rparr>"

definition zero_certificates :: certificates where
  "zero_certificates = \<lparr>crt_CA = None, crt_Cert = None, crt_Key = None\<rparr>"

definition zero_tls_files :: tls_files where
  "zero_tls_files = \<lparr>tls_GenerateCerts = None, tls_Certificates = zero_certificates\<rparr>"

definition zero_fluentd_tls_params :: fluentd_tls_params where
  "zero_fluentd_tls_params = \<lparr>ftp_Version = [], ftp_Enabled = False, ftp_NoDefaultCA = False,
     ftp_AllCiphers = False, ftp_RescueSslErrors = False, ftp_NoVerify = False\<rparr>"

definition zero_fluentd_tls :: fluentd_tls where
  "zero_fluentd_tls = \<lparr>fdt_TLS = zero_tls_files,
     fdt_FluentdTLSParams = zero_fluentd_tls_params\<rparr>"

definition zero_fluentbit_tls_params :: fluentbit_tls_params where
  "zero_fluentbit_tls_params = \<lparr>btp_KeyPasswd = [], btp_Enabled = False,
     btp_Verify = False\<rparr>"

definition zero_fluentbit_tls :: fluentbit_tls where
  "zero_fluentbit_tls = \<lparr>fbt_TLS = zero_tls_files,
     fbt_FluentbitTLSParams = zero_fluentbit_tls_params\<rparr>"

definition zero_fluentbit_db :: fluentbit_db where
  "zero_fluentbit_db = \<lparr>fdb_Enabled = None, fdb_JournalMode = [], fdb_Sync = [],
     fdb_Locking = None\<rparr>"

definition zero_stream_spec :: stream_spec where
  "zero_stream_spec = \<lparr>str_Name = [], str_RotationStrategy = [], str_RotationPeriod = [],
     str_MaxSize = 0, str_MaxNumberOfIndices = 0, str_Install = False\<rparr>"

definition zero_auth_proxy :: auth_proxy where
  "zero_auth_proxy = \<lparr>apx_Resources = None, apx_BindPasswordSecret = None, apx_CA = zero_ca_ref,
     apx_Cert = zero_cert_ref, apx_Key = zero_key_ref, apx_Image = [], apx_Install = False\<rparr>"

definition zero_http_graylog_tls :: http_graylog_tls where
  "zero_http_graylog_tls = \<lparr>hgt_GenerateCerts = None, hgt_Cert = None, hgt_Key = None,
     hgt_CACerts = [], hgt_KeyFilePassword = [], hgt_Enabled = False,
     hgt_InsecureSkipVerify = False\<rparr>"

definition zero_graylog :: graylog where
  "zero_graylog = \<lparr>gl_GraylogResources = None, gl_MongoResources = None, gl_InitResources = None,
     gl_MongoDBUpgrade = None, gl_AuthProxy = None, gl_TLS = None, gl_OpenSearch = None,
     gl_Affinity = None, gl_Annotations = None, gl_Labels = None, gl_NodeSelectorValue = [],
     gl_PathRepo = [], gl_PriorityClassName = [], gl_DockerImage = [], gl_MongoDBImage = [],
     gl_LogLevel = [], gl_ContentDeployPolicy = [], gl_JavaOpts = [], gl_ContentPackPaths = [],
     gl_CustomPluginsPaths = [], gl_Host = [], gl_InitSetupImage = [], gl_User = [], gl_Password = [],
     gl_ElasticsearchHost = [], gl_NodeSelectorKey = [], gl_InitContainerDockerImage = [],
     gl_GraylogSecretName = [], gl_ContentPacks = None, gl_Streams = [], gl_ProcessbufferProcessors = 0,
     gl_OutputbufferProcessorThreadsMaxPoolSize = 0, gl_RingSize = 0,
     gl_ElasticsearchMaxTotalConnectionsPerRoute = 0, gl_ElasticsearchMaxTotalConnections = 0,
     gl_OutputBatchSize = 0, gl_InputbufferRingSize = 0, gl_OutputbufferProcessors = 0, gl_MaxSize = 0,
     gl_InputbufferProcessors = 0, gl_StartupTimeout = 0, gl_IndexShards = None, gl_IndexReplicas = None,
     gl_MaxNumberOfIndices = 0, gl_LogsRotationSizeGb = 0, gl_InputPort = 0, gl_Replicas = None,
     gl_S3Archive = False\<rparr>"

definition zero_fluentd :: fluentd where
  "zero_fluentd = \<lparr>fd_Resources = None, fd_Annotations = None, fd_Labels = None,
     fd_ExtraFields = None, fd_CustomFilterConf = [], fd_SystemLogType = [],
     fd_CloudEventsReaderFormat = [], fd_GraylogHost = [], fd_DockerImage = [], fd_ConfigmapReload = None,
     fd_GraylogProtocol = [], fd_PriorityClassName = [], fd_MultilineFirstLineRegexp = [],
     fd_LogLevel = [], fd_TotalLimitSize = [], fd_CustomInputConf = [], fd_NodeSelectorKey = [],
     fd_CustomOutputConf = [], fd_NodeSelectorValue = [], fd_TLS = zero_fluentd_tls,
     fd_AdditionalVolumeMounts = [], fd_ExcludePath = [], fd_AdditionalVolumes = [],
     fd_Tolerations = None, fd_Affinity = None, fd_QueueLimitLength = 0, fd_GraylogPort = 0,
     fd_BillCycleConf = False, fd_SystemLogging = False, fd_SystemAuditLogging = False,
     fd_KubeAuditLogging = False, fd_KubeApiserverAuditLogging = False, fd_ContainerLogging = False,
     fd_WatchKubernetesMetadata = False, fd_SecurityContextPrivileged = False, fd_FileStorage = False,
     fd_GraylogOutput = False, fd_GraylogBufferFlushInterval = [], fd_Compress = [],
     fd_MockKubeData = False, fd_Output = None\<rparr>"

definition zero_fluentbit_aggregator :: fluentbit_aggregator where
  "zero_fluentbit_aggregator = \<lparr>ag_Labels = None, ag_Volume = None, ag_Resources = None,
     ag_Annotations = None, ag_ExtraFields = None, ag_MemBufLimit = [], ag_DockerImage = [],
     ag_ConfigmapReload = None, ag_NodeSelectorValue = [], ag_MultilineOtherLinesRegexp = [],
     ag_GraylogHost = [], ag_MultilineFirstLineRegexp = [], ag_GraylogProtocol = [],
     ag_NodeSelectorKey = [], ag_PriorityClassName = [], ag_TotalLimitSize = [], ag_StorageSizeLimit = [],
     ag_CustomFilterConf = [], ag_CustomOutputConf = [], ag_CustomLuaScriptConf = None,
     ag_TLS = zero_fluentbit_tls, ag_Tolerations = None, ag_Affinity = None, ag_StartupTimeout = 0,
     ag_Replicas = 0, ag_GraylogPort = 0, ag_Install = False, ag_SecurityContextPrivileged = False,
     ag_GraylogOutput = False, ag_Output = None, ag_InputMemBufLimit = []\<rparr>"

definition zero_fluentbit :: fluentbit where
  "zero_fluentbit = \<lparr>fb_Resources = None, fb_Annotations = None, fb_Labels = None,
     fb_ExtraFields = None, fb_Aggregator = None, fb_MemBufLimit = [], fb_SystemLogType = [],
     fb_GraylogHost = [], fb_NodeSelectorValue = [], fb_GraylogProtocol = [], fb_DockerImage = [],
     fb_ConfigmapReload = None, fb_PriorityClassName = [], fb_TotalLimitSize = [],
     fb_CustomInputConf = [], fb_CustomFilterConf = [], fb_CustomOutputConf = [],
     fb_CustomLuaScriptConf = None, fb_LogLevel = [], fb_MultilineFirstLineRegexp = [],
     fb_NodeSelectorKey = [], fb_MultilineOtherLinesRegexp = [], fb_TLS = zero_fluentbit_tls,
     fb_AdditionalVolumes = [], fb_AdditionalVolumeMounts = [], fb_Tolerations = None, fb_Affinity = None,
     fb_GraylogPort = 0, fb_SecurityContextPrivileged = False, fb_WatchKubernetesMetadata = False,
     fb_MockKubeData = False, fb_SystemLogging = False, fb_BillCycleConf = False,
     fb_GraylogOutput = False, fb_SystemAuditLogging = False, fb_KubeAuditLogging = False,
     fb_KubeApiserverAuditLogging = False, fb_ContainerLogging = False, fb_ExcludePath = [],
     fb_SelfLogging = False, fb_Output = None, fb_Flush = 0, fb_StorageProfile = [],
     fb_MemoryOnlyStateSizeLimit = [], fb_InputMemBufLimit = [], fb_DB = zero_fluentbit_db\<rparr>"

definition zero_cloud_events_reader :: cloud_events_reader where
  "zero_cloud_events_reader = \<lparr>cer_Resources = None, cer_DockerImage = [],
     cer_PriorityClassName = [], cer_NodeSelectorKey = [], cer_NodeSelectorValue = [],
     cer_Affinity = None, cer_Labels = None, cer_Annotations = None, cer_Args = None,
     cer_Install = False\<rparr>"

definition zero_logging_service_spec :: logging_service_spec where
  "zero_logging_service_spec = \<lparr>spec_Graylog = None, spec_Fluentd = None, spec_Fluentbit = None,
     spec_CloudEventsReader = None, spec_MonitoringAgentLoggingPlugin = None, spec_CloudURL = [],
     spec_OSKind = [], spec_ContainerRuntimeType = [], spec_Ipv6 = False,
     spec_OpenshiftDeploy = False\<rparr>"

definition zero_logging_service_status :: logging_service_status where
  "zero_logging_service_status = \<lparr>lst_Conditions = []\<rparr>"

definition zero_logging_service :: logging_service where
  "zero_logging_service = \<lparr>ls_ObjectMeta = meta_named [] [], ls_Spec = zero_logging_service_spec,
     ls_Status = zero_logging_service_status\<rparr>"

section \<open>Methods\<close>

definition ToParams :: "logging_service \<Rightarrow> logging_service_parameters" where
  "ToParams cr = \<lparr>lsp_Release = \<lparr>rel_Namespace = om_Namespace (ls_ObjectMeta cr)\<rparr>,
     lsp_Values = ls_Spec cr\<rparr>"

definition IsForceUpdate :: "graylog \<Rightarrow> bool" where
  "IsForceUpdate g = (gl_ContentDeployPolicy g = ''force-update'')"

definition IsOnlyCreate :: "graylog \<Rightarrow> bool" where
  "IsOnlyCreate g = (gl_ContentDeployPolicy g = ''only-create'')"

definition graylog_IsInstall :: "graylog option \<Rightarrow> bool" where
  "graylog_IsInstall g = (g \<noteq> None)"

definition fluentd_IsInstall :: "fluentd option \<Rightarrow> bool" where
  "fluentd_IsInstall f = (f \<noteq> None)"

definition fluentbit_IsInstall :: "fluentbit option \<Rightarrow> bool" where
  "fluentbit_IsInstall f = (f \<noteq> None)"

definition eventsreader_IsInstall :: "cloud_events_reader option \<Rightarrow> bool" where
  "eventsreader_IsInstall e = (e \<noteq> None)"

definition monitoring_IsInstall :: "monitoring_agent_logging_plugin option \<Rightarrow> bool" where
  "monitoring_IsInstall m = (case m of None \<Rightarrow> False | Some p \<Rightarrow> ma_InfluxDBMode p)"

definition db_IsEnabled :: "fluentbit_db \<Rightarrow> bool" where
  "db_IsEnabled d = (case fdb_Enabled d of None \<Rightarrow> True | Some b \<Rightarrow> b)"

definition db_IsLocking :: "fluentbit_db \<Rightarrow> bool" where
  "db_IsLocking d = (case fdb_Locking d of None \<Rightarrow> True | Some b \<Rightarrow> b)"

definition FluentbitStorageProfileMemoryOnly :: string where
  "FluentbitStorageProfileMemoryOnly = ''memory-only''"

definition FluentbitStorageProfilePersistentOffsets :: string where
  "FluentbitStorageProfilePersistentOffsets = ''persistent-offsets''"

definition FluentbitStorageProfileNodePersistent :: string where
  "FluentbitStorageProfileNodePersistent = ''node-persistent''"

definition FluentbitDefaultMemoryOnlyStateSizeLimit :: string where
  "FluentbitDefaultMemoryOnlyStateSizeLimit = ''32Mi''"

definition FluentbitAggregatorDefaultStorageSizeLimit :: string where
  "FluentbitAggregatorDefaultStorageSizeLimit = ''2Gi''"

definition EffectiveStorageProfile :: "fluentbit \<Rightarrow> string" where
  "EffectiveStorageProfile f =
     (if fb_StorageProfile f \<noteq> [] then fb_StorageProfile f else FluentbitStorageProfileMemoryOnly)"

definition UsesPersistentOffsets :: "fluentbit \<Rightarrow> bool" where
  "UsesPersistentOffsets f = (EffectiveStorageProfile f \<noteq> FluentbitStorageProfileMemoryOnly)"

definition UsesFilesystemBuffer :: "fluentbit \<Rightarrow> bool" where
  "UsesFilesystemBuffer f = (EffectiveStorageProfile f = FluentbitStorageProfileNodePersistent)"

definition EffectiveMemoryOnlyStateSizeLimit :: "fluentbit \<Rightarrow> string" where
  "EffectiveMemoryOnlyStateSizeLimit f =
     (if fb_MemoryOnlyStateSizeLimit f \<noteq> [] then fb_MemoryOnlyStateSizeLimit f
      else FluentbitDefaultMemoryOnlyStateSizeLimit)"

definition EffectiveStorageSizeLimit :: "fluentbit_aggregator \<Rightarrow> string" where
  "EffectiveStorageSizeLimit a =
     (if ag_StorageSizeLimit a \<noteq> [] then ag_StorageSizeLimit a
      else FluentbitAggregatorDefaultStorageSizeLimit)"

text \<open>The paths of one collector's container logs, by container runtime.\<close>

definition collector_log_paths :: "string \<Rightarrow> string \<Rightarrow> string \<Rightarrow> string list" where
  "collector_log_paths ns runtime nm =
     (if runtime = ''containerd'' \<or> runtime = ''cri-o''
      then [''/var/log/pods/'' @ ns @ ''_'' @ nm @ ''-*_*/'' @ nm @ ''/*.log'']
      else if runtime = ''docker''
      then [''/var/log/containers/'' @ nm @ ''-*_'' @ ns @ ''_'' @ nm @ ''-*.log'']
      else [])"

definition collector_names :: "fluentbit \<Rightarrow> string list" where
  "collector_names f =
     (case fb_Aggregator f of
        Some a \<Rightarrow> if ag_Install a then [''logging-fluentbit-forwarder'', ''logging-fluentbit-aggregator'']
                   else [''logging-fluentbit'']
      | None \<Rightarrow> [''logging-fluentbit''])"

definition ContainerLogExcludePath :: "fluentbit \<Rightarrow> string \<Rightarrow> string \<Rightarrow> string" where
  "ContainerLogExcludePath f ns runtime =
     (if fb_SelfLogging f then fb_ExcludePath f
      else go_Join ((if fb_ExcludePath f \<noteq> [] then [fb_ExcludePath f] else [])
             @ concat (map (collector_log_paths ns runtime) (collector_names f))) '','')"

section \<open>Properties of the methods\<close>

lemma UsesFilesystemBuffer_persistent: "UsesFilesystemBuffer f \<Longrightarrow> UsesPersistentOffsets f"
  by (simp add: UsesFilesystemBuffer_def UsesPersistentOffsets_def
      FluentbitStorageProfileNodePersistent_def FluentbitStorageProfileMemoryOnly_def)

lemmas IsInstall_defs = graylog_IsInstall_def fluentd_IsInstall_def fluentbit_IsInstall_def
  eventsreader_IsInstall_def

end
