(* ===== verification/Labels.thy ===== *)
theory Labels
  imports Api_Types
begin

text \<open>
  The labels of operator-managed objects (\<open>internal/utils/labels.go\<close>) and the image tag that
  becomes the version label (\<open>GetTagFromImage\<close> of \<open>internal/utils/common.go\<close>). A variadic Go
  function takes a list. The lemmas give the precedence of the merged layers, the bound on
  label values, and that the labels given by the user reach an object but never its pods.
\<close>

section \<open>Definitions\<close>

definition PartOfLogging :: string where
  "PartOfLogging = ''logging-service''"

definition ManagedByOperator :: string where
  "ManagedByOperator = ''operator''"

definition OperatorDeploymentName :: string where
  "OperatorDeploymentName = ''logging-operator''"

definition ComponentBackend :: string where
  "ComponentBackend = ''backend''"

definition ComponentMonitoring :: string where
  "ComponentMonitoring = ''monitoring''"

definition CommonLabels :: "string gomap" where
  "CommonLabels = Some
     [''app.kubernetes.io/part-of'' \<mapsto> PartOfLogging,
      ''app.kubernetes.io/managed-by'' \<mapsto> ManagedByOperator,
      ''app.kubernetes.io/managed-by-operator'' \<mapsto> OperatorDeploymentName]"

text \<open>\<open>MergeLabels\<close> copies its arguments in order into a fresh map.\<close>

definition MergeLabels :: "string gomap list \<Rightarrow> string gomap" where
  "MergeLabels ms = Some (fold (\<lambda>m out. case m of None \<Rightarrow> out | Some f \<Rightarrow> out ++ f) ms Map.empty)"

definition ResourceLabels :: "string \<Rightarrow> string \<Rightarrow> string gomap" where
  "ResourceLabels nm component = MergeLabels
     [Some [''name'' \<mapsto> nm,
            ''app.kubernetes.io/name'' \<mapsto> nm,
            ''app.kubernetes.io/component'' \<mapsto> component],
      CommonLabels]"

text \<open>
  \<open>MergeInto\<close> copies \<open>src\<close> into \<open>dst\<close>, which the caller ensures to be non-nil.
\<close>

definition MergeInto :: "string gomap \<Rightarrow> string gomap \<Rightarrow> string gomap" where
  "MergeInto dst src = (case src of None \<Rightarrow> dst | Some f \<Rightarrow> map_option (\<lambda>d. d ++ f) dst)"

definition TruncLabel :: "string \<Rightarrow> string" where
  "TruncLabel label =
     (if length label \<ge> 63 then go_Trim (take 63 label) ''-'' else go_Trim label ''-'')"

definition GetInstanceLabel :: "string \<Rightarrow> string \<Rightarrow> string" where
  "GetInstanceLabel nm ns = TruncLabel (nm @ ''-'' @ ns)"

record LabelInput =
  li_Name :: string
  li_Component :: string
  li_Instance :: string
  li_Version :: string
  li_Technology :: string
  li_ComponentLabels :: "string gomap"

definition instanceVersionTechnologyMap :: "LabelInput \<Rightarrow> string gomap" where
  "instanceVersionTechnologyMap i =
     (let m = Map.empty;
          m = (if li_Instance i \<noteq> [] then m(''app.kubernetes.io/instance'' \<mapsto> li_Instance i) else m);
          m = (if li_Version i \<noteq> [] then m(''app.kubernetes.io/version'' \<mapsto> li_Version i) else m);
          m = (if li_Technology i \<noteq> [] then m(''app.kubernetes.io/technology'' \<mapsto> li_Technology i) else m)
      in Some m)"

definition resourceLabelsFromBase :: "LabelInput \<Rightarrow> string gomap list \<Rightarrow> string gomap" where
  "resourceLabelsFromBase i baseMaps = MergeInto (MergeLabels baseMaps) (li_ComponentLabels i)"

definition resourceLabels :: "LabelInput \<Rightarrow> string gomap \<Rightarrow> string gomap" where
  "resourceLabels i existing = resourceLabelsFromBase i
     [existing, ResourceLabels (li_Name i) (li_Component i), instanceVersionTechnologyMap i]"

definition templateLabels :: "LabelInput \<Rightarrow> string gomap \<Rightarrow> string gomap" where
  "templateLabels i existing = MergeLabels
     [existing, ResourceLabels (li_Name i) (li_Component i), instanceVersionTechnologyMap i]"

definition SetLabelsForResource :: "object_meta \<Rightarrow> LabelInput \<Rightarrow> string gomap \<Rightarrow> object_meta" where
  "SetLabelsForResource obj i existing =
     (let initial = (if existing = None then om_Labels obj else existing)
      in obj\<lparr>om_Labels := resourceLabels i initial\<rparr>)"

text \<open>The object's metadata and its pod template, both updated.\<close>

definition SetLabelsForWorkload ::
  "object_meta \<Rightarrow> pod_template \<Rightarrow> LabelInput \<Rightarrow> object_meta \<times> pod_template" where
  "SetLabelsForWorkload obj tpl i =
     (SetLabelsForResource obj i None, tpl\<lparr>pt_Labels := templateLabels i (pt_Labels tpl)\<rparr>)"

definition PodTemplateLabels :: "string \<Rightarrow> string \<Rightarrow> string \<Rightarrow> string \<Rightarrow> string \<Rightarrow> string gomap" where
  "PodTemplateLabels nm component inst version technology =
     templateLabels \<lparr>li_Name = nm, li_Component = component, li_Instance = inst,
       li_Version = version, li_Technology = technology, li_ComponentLabels = None\<rparr> None"

definition GetTagFromImage :: "string \<Rightarrow> string" where
  "GetTagFromImage img =
     (let imageWithoutDigest = fst (go_Cut img ''@'');
          partsOfImage = go_Split imageWithoutDigest '':''
      in last partsOfImage)"

text \<open>\<open>None\<close> is the panic of \<open>make\<close> for a negative length.\<close>

definition GetAggregatorIds :: "int \<Rightarrow> int list option" where
  "GetAggregatorIds num = (if num < 0 then None else Some [0..num - 1])"

section \<open>Merging\<close>

lemma MergeLabels_contents:
  "mcontents (MergeLabels ms) = fold (\<lambda>m out. out ++ mcontents m) ms Map.empty"
proof -
  have "fold (\<lambda>m out. case m of None \<Rightarrow> out | Some f \<Rightarrow> out ++ f) ms acc
      = fold (\<lambda>m out. out ++ mcontents m) ms acc" for acc
    by (induction ms arbitrary: acc) (auto split: option.splits)
  then show ?thesis by (simp add: MergeLabels_def)
qed

lemma MergeLabels_not_nil [simp]: "MergeLabels ms \<noteq> None"
  by (simp add: MergeLabels_def)

lemma MergeLabels_snoc: "mcontents (MergeLabels (ms @ [m])) = mcontents (MergeLabels ms) ++ mcontents m"
  by (simp add: MergeLabels_contents)

lemma MergeLabels_3:
  "mcontents (MergeLabels [a, b, c]) = mcontents a ++ mcontents b ++ mcontents c"
  by (simp add: MergeLabels_contents)

lemma MergeInto_contents: "dst \<noteq> None \<Longrightarrow> mcontents (MergeInto dst src) = mcontents dst ++ mcontents src"
  by (auto simp: MergeInto_def split: option.splits)

lemma templateLabels_contents:
  "mcontents (templateLabels i ex) = mcontents ex ++ mcontents (ResourceLabels (li_Name i) (li_Component i))
     ++ mcontents (instanceVersionTechnologyMap i)"
  by (simp add: templateLabels_def MergeLabels_3)

lemma resourceLabels_contents:
  "mcontents (resourceLabels i ex) = mcontents (templateLabels i ex) ++ mcontents (li_ComponentLabels i)"
  by (simp add: resourceLabels_def resourceLabelsFromBase_def templateLabels_def MergeInto_contents)

lemma ivt_contents:
  "mcontents (instanceVersionTechnologyMap i) k =
     (if k = ''app.kubernetes.io/technology'' \<and> li_Technology i \<noteq> [] then Some (li_Technology i)
      else if k = ''app.kubernetes.io/version'' \<and> li_Version i \<noteq> [] then Some (li_Version i)
      else if k = ''app.kubernetes.io/instance'' \<and> li_Instance i \<noteq> [] then Some (li_Instance i)
      else None)"
  by (simp add: instanceVersionTechnologyMap_def Let_def)

lemma ResourceLabels_contents:
  "mcontents (ResourceLabels n c) = [''name'' \<mapsto> n, ''app.kubernetes.io/name'' \<mapsto> n,
     ''app.kubernetes.io/component'' \<mapsto> c] ++ mcontents CommonLabels"
  by (simp add: ResourceLabels_def MergeLabels_contents)

lemma ResourceLabels_apply [simp]:
  "mcontents (ResourceLabels n c) ''name'' = Some n"
  "mcontents (ResourceLabels n c) ''app.kubernetes.io/name'' = Some n"
  "mcontents (ResourceLabels n c) ''app.kubernetes.io/component'' = Some c"
  "mcontents (ResourceLabels n c) ''app.kubernetes.io/part-of'' = Some PartOfLogging"
  by (simp_all add: ResourceLabels_contents CommonLabels_def map_add_def)

text \<open>
  A label of the pod template that the operator's own layers do not mention is kept, so the
  selector labels put there first survive.
\<close>

definition operator_label_keys :: "string list" where
  "operator_label_keys = [''name'', ''app.kubernetes.io/name'', ''app.kubernetes.io/component'',
     ''app.kubernetes.io/part-of'', ''app.kubernetes.io/managed-by'',
     ''app.kubernetes.io/managed-by-operator'', ''app.kubernetes.io/instance'',
     ''app.kubernetes.io/version'', ''app.kubernetes.io/technology'']"

lemma ResourceLabels_foreign: "k \<notin> set operator_label_keys \<Longrightarrow> mcontents (ResourceLabels n c) k = None"
  by (simp add: ResourceLabels_contents CommonLabels_def operator_label_keys_def map_add_def)

lemma ivt_foreign: "k \<notin> set operator_label_keys \<Longrightarrow> mcontents (instanceVersionTechnologyMap i) k = None"
  by (simp add: ivt_contents operator_label_keys_def)

lemma templateLabels_foreign:
  "k \<notin> set operator_label_keys \<Longrightarrow> mcontents (templateLabels i ex) k = mcontents ex k"
  by (simp add: templateLabels_contents ResourceLabels_foreign ivt_foreign map_add_def)

lemma templateLabels_name [simp]: "mcontents (templateLabels i ex) ''name'' = Some (li_Name i)"
  by (simp add: templateLabels_contents map_add_def ivt_contents)

lemma templateLabels_app_name [simp]:
  "mcontents (templateLabels i ex) ''app.kubernetes.io/name'' = Some (li_Name i)"
  by (simp add: templateLabels_contents map_add_def ivt_contents)

text \<open>A selector whose foreign entries were on the template, and whose name entry is the workload's
  name, still matches after labelling.\<close>

lemma matches_templateLabels:
  assumes "\<And>k v. mcontents sel k = Some v \<Longrightarrow>
      k = ''name'' \<and> v = li_Name i \<or> k \<notin> set operator_label_keys \<and> mcontents ex k = Some v"
  shows "matches sel (templateLabels i ex)"
  unfolding matches_def map_le_def
proof
  fix k assume "k \<in> dom (mcontents sel)"
  then obtain v where v: "mcontents sel k = Some v" by auto
  from assms [OF v] v show "mcontents sel k = mcontents (templateLabels i ex) k"
    by (auto simp: templateLabels_foreign)
qed

section \<open>Bounds and tags\<close>

lemma TruncLabel_length: "length (TruncLabel l) \<le> 63"
  using length_go_Trim_le [of "take 63 l" "''-''"] length_go_Trim_le [of l "''-''"]
  by (auto simp: TruncLabel_def)

lemma TruncLabel_ends:
  "TruncLabel l \<noteq> [] \<Longrightarrow> hd (TruncLabel l) \<noteq> CHR ''-'' \<and> last (TruncLabel l) \<noteq> CHR ''-''"
  using go_Trim_ends [of "take 63 l" "''-''"] go_Trim_ends [of l "''-''"]
  by (auto simp: TruncLabel_def split: if_splits)

lemma go_Cut_char:
  "go_Cut s [c] = (takeWhile (\<lambda>x. x \<noteq> c) s, drop 1 (dropWhile (\<lambda>x. x \<noteq> c) s), c \<in> set s)"
  by (induction s) auto

lemma go_Split_char_notin: "c \<notin> set s \<Longrightarrow> go_Split s [c] = [s]"
  by (simp add: go_Split.simps [of s] go_Cut_char)

lemma go_Split_char_step:
  assumes "c \<notin> set u"
  shows "go_Split (u @ c # v) [c] = u # go_Split v [c]"
proof -
  have "x \<in> set u \<Longrightarrow> x \<noteq> c" for x using assms by auto
  then have "takeWhile (\<lambda>x. x \<noteq> c) (u @ c # v) = u" "dropWhile (\<lambda>x. x \<noteq> c) (u @ c # v) = c # v"
    by (simp_all add: takeWhile_append2 dropWhile_append2)
  then show ?thesis by (simp add: go_Split.simps [of "u @ c # v"] go_Cut_char)
qed

lemma go_Split_nonempty [simp]: "go_Split s sep \<noteq> []"
  by (subst go_Split.simps) (simp split: prod.split)

lemma go_Split_char_append: "c \<notin> set t \<Longrightarrow> last (go_Split (s @ c # t) [c]) = t"
proof (induction "length s" arbitrary: s rule: less_induct)
  case less
  show ?case
  proof (cases "c \<in> set s")
    case False
    then show ?thesis using less.prems by (simp add: go_Split_char_step go_Split_char_notin)
  next
    case True
    then obtain u v where uv: "s = u @ c # v" "c \<notin> set u" by (meson split_list_first)
    then show ?thesis using less.hyps [of v] less.prems by (simp add: go_Split_char_step)
  qed
qed

lemma GetTagFromImage_tagged:
  assumes "CHR ''@'' \<notin> set repo" and "CHR '':'' \<notin> set tag" and "CHR ''@'' \<notin> set tag"
  shows "GetTagFromImage (repo @ '':'' @ tag) = tag"
    and "GetTagFromImage (repo @ '':'' @ tag @ ''@'' @ digest) = tag"
proof -
  have "fst (go_Cut (repo @ '':'' @ tag) ''@'') = repo @ '':'' @ tag"
    using assms by (auto simp: go_Cut_char takeWhile_eq_all_conv)
  then show "GetTagFromImage (repo @ '':'' @ tag) = tag"
    using assms go_Split_char_append [of "CHR '':''" tag repo] by (simp add: GetTagFromImage_def)
  have "fst (go_Cut (repo @ '':'' @ tag @ ''@'' @ digest) ''@'') = repo @ '':'' @ tag"
  proof -
    have "takeWhile (\<lambda>x. x \<noteq> CHR ''@'') ((repo @ '':'' @ tag) @ CHR ''@'' # digest) = repo @ '':'' @ tag"
      using assms by (subst takeWhile_append2) auto
    then show ?thesis by (simp add: go_Cut_char)
  qed
  then show "GetTagFromImage (repo @ '':'' @ tag @ ''@'' @ digest) = tag"
    using assms go_Split_char_append [of "CHR '':''" tag repo] by (simp add: GetTagFromImage_def)
qed

end
