(* ===== verification/Vars.thy ===== *)
theory Vars
  imports Labels
begin

text \<open>
  The constants of \<open>internal/utils/vars.go\<close>: component and status names, selector labels, the
  Graylog asset tables and the timeouts (durations in nanoseconds). A map literal of the source is
  the list of its entries in the order written; where a key occurs twice the last entry is the one
  the Go map holds, which is how \<open>table\<close> reads it.
\<close>

definition table :: "(string \<times> string) list \<Rightarrow> string \<rightharpoonup> string" where
  "table kvs = map_of (rev kvs)"

definition LoggingServiceStatus :: string where
  "LoggingServiceStatus = ''ReconcileCycleStatus''"

definition FluentdComponentName :: string where
  "FluentdComponentName = ''logging-fluentd''"

definition FluentdStatus :: string where
  "FluentdStatus = ''ReconcileFluentdStatus''"

definition FluentdConfigMapDirectory :: string where
  "FluentdConfigMapDirectory = ''fluentd.configmap/conf.d''"

definition FluentdLabels :: "string gomap" where
  "FluentdLabels = Some [''component'' \<mapsto> ''logging-fluentd'']"

definition FluentbitComponentName :: string where
  "FluentbitComponentName = ''logging-fluentbit''"

definition FluentbitStatus :: string where
  "FluentbitStatus = ''ReconcileFluentbitStatus''"

definition FluentbitLabels :: "string gomap" where
  "FluentbitLabels = Some [''component'' \<mapsto> ''logging-fluentbit'']"

definition ForwarderFluentbitComponentName :: string where
  "ForwarderFluentbitComponentName = ''logging-fluentbit-forwarder''"

definition HAFluentStatus :: string where
  "HAFluentStatus = ''ReconcileHAFluentStatus''"

definition ForwarderFluentbitLabels :: "string gomap" where
  "ForwarderFluentbitLabels = Some [''component'' \<mapsto> ''logging-fluentbit-forwarder'']"

definition AggregatorFluentbitComponentName :: string where
  "AggregatorFluentbitComponentName = ''logging-fluentbit-aggregator''"

definition AggregatorFluentbitLabels :: "string gomap" where
  "AggregatorFluentbitLabels = Some [''component'' \<mapsto> ''logging-fluentbit-aggregator'']"

definition ForwarderFluentbitConfigMapDirectory :: string where
  "ForwarderFluentbitConfigMapDirectory = ''forwarder.configmap/conf.d''"

definition AggregatorFluentbitConfigMapDirectory :: string where
  "AggregatorFluentbitConfigMapDirectory = ''aggregator.configmap/conf.d''"

definition FluentbitConfigMapDirectory :: string where
  "FluentbitConfigMapDirectory = ''fluentbit.configmap/conf.d''"

definition EventsReaderComponentName :: string where
  "EventsReaderComponentName = ''events-reader''"

definition EventsReaderStatus :: string where
  "EventsReaderStatus = ''ReconcileEventsReaderStatus''"

definition MonitoringAgentComponentName :: string where
  "MonitoringAgentComponentName = ''monitoring-agent-logging-plugin''"

definition MonitoringAgentStatus :: string where
  "MonitoringAgentStatus = ''ReconcileMonitoringAgentLoggingPluginStatus''"

definition GraylogComponentName :: string where
  "GraylogComponentName = ''graylog-service''"

definition GraylogServiceAccountName :: string where
  "GraylogServiceAccountName = ''logging-graylog''"

definition GraylogDeploymentName :: string where
  "GraylogDeploymentName = ''graylog''"

definition GraylogStatefulsetName :: string where
  "GraylogStatefulsetName = ''graylog''"

definition GraylogClaimName :: string where
  "GraylogClaimName = ''graylog-claim''"

definition MongoClaimName :: string where
  "MongoClaimName = ''mongo-claim''"

definition GraylogStatus :: string where
  "GraylogStatus = ''ReconcileGraylogStatus''"

definition GraylogConfig :: string where
  "GraylogConfig = ''config/''"

definition GraylogConfigMapDirectory :: string where
  "GraylogConfigMapDirectory = ''config/configmap''"

definition GraylogGrokPatterns :: string where
  "GraylogGrokPatterns = ''config/grok_patterns.json''"

definition GraylogDefaultStream :: string where
  "GraylogDefaultStream = ''Default Stream''"

definition GraylogAllMessagesStream :: string where
  "GraylogAllMessagesStream = ''All messages''"

definition GraylogAuditIndexSet :: string where
  "GraylogAuditIndexSet = ''Audit index set''"

definition GraylogAuditStream :: string where
  "GraylogAuditStream = ''Audit logs''"

definition GraylogSystemIndexSet :: string where
  "GraylogSystemIndexSet = ''Default index set''"

definition GraylogSystemStream :: string where
  "GraylogSystemStream = ''System logs''"

definition GraylogAccessIndexSet :: string where
  "GraylogAccessIndexSet = ''Access index set''"

definition GraylogAccessStream :: string where
  "GraylogAccessStream = ''Access logs''"

definition GraylogIntegrationIndexSet :: string where
  "GraylogIntegrationIndexSet = ''Integration index set''"

definition GraylogIntegrationStream :: string where
  "GraylogIntegrationStream = ''Integration logs''"

definition GraylogBillCycleIndexSet :: string where
  "GraylogBillCycleIndexSet = ''Bill Cycle index set''"

definition GraylogBillCycleStream :: string where
  "GraylogBillCycleStream = ''Bill Cycle logs''"

definition GraylogNginxIndexSet :: string where
  "GraylogNginxIndexSet = ''Ingress-nginx index set''"

definition GraylogNginxStream :: string where
  "GraylogNginxStream = ''Nginx logs''"

definition GraylogDefaultIndexSet :: string where
  "GraylogDefaultIndexSet = ''Default index set''"

definition GraylogKubernetesEventsStream :: string where
  "GraylogKubernetesEventsStream = ''Kubernetes events''"

definition GraylogKubernetesEventsIndexSet :: string where
  "GraylogKubernetesEventsIndexSet = ''Kubernetes events index set''"

definition GraylogStreamsIndexTitles :: "(string \<times> string) list" where
  "GraylogStreamsIndexTitles =
    [(GraylogAuditStream, GraylogAuditIndexSet),
     (GraylogSystemStream, GraylogSystemIndexSet),
     (GraylogAccessStream, GraylogAccessIndexSet),
     (GraylogIntegrationStream, GraylogIntegrationIndexSet),
     (GraylogBillCycleStream, GraylogBillCycleIndexSet),
     (GraylogNginxStream, GraylogNginxIndexSet),
     (GraylogKubernetesEventsStream, GraylogKubernetesEventsIndexSet)]"

definition GraylogIndexConfigs :: "(string \<times> string) list" where
  "GraylogIndexConfigs =
    [(GraylogAuditIndexSet, ''config/indexes/audit_index.json''),
     (GraylogSystemIndexSet, ''config/indexes/default_index.json''),
     (GraylogAccessIndexSet, ''config/indexes/access_index.json''),
     (GraylogIntegrationIndexSet, ''config/indexes/integration_index.json''),
     (GraylogBillCycleIndexSet, ''config/indexes/bill_cycle_index.json''),
     (GraylogNginxIndexSet, ''config/indexes/nginx_index.json''),
     (GraylogDefaultIndexSet, ''config/indexes/default_index.json''),
     (GraylogKubernetesEventsIndexSet, ''config/indexes/k8s_event_index.json'')]"

definition GraylogStreamsDescriptions :: "(string \<times> string) list" where
  "GraylogStreamsDescriptions =
    [(GraylogAuditStream, ''Audit log messages from OC nodes sent through fluent bit''),
     (GraylogSystemStream, ''System log messages from OC nodes sent through fluent bit''),
     (GraylogAccessStream, ''Access log messages from OC nodes sent through fluent bit''),
     (GraylogIntegrationStream, ''Integration log messages from OC nodes sent through fluent bit''),
     (GraylogBillCycleStream, ''Bill Cycle log messages from OC nodes sent through fluent bit''),
     (GraylogNginxStream, ''Nginx log messages from OC nodes sent through fluent bit''),
     (GraylogKubernetesEventsStream, ''Kubernetes events as logs sent through fluent bit'')]"

definition GraylogInput :: string where
  "GraylogInput = ''config/input.json''"

definition GraylogMessageProcessors :: string where
  "GraylogMessageProcessors = ''config/messageprocessors.json''"

definition GraylogAuthHeader :: string where
  "GraylogAuthHeader = ''config/auth_header.json''"

definition GraylogArchivesDirectory :: string where
  "GraylogArchivesDirectory = ''config/archives.json''"

definition GraylogReplaceTimestampExtractorName :: string where
  "GraylogReplaceTimestampExtractorName = ''replace_timestamp''"

definition GraylogKubernetesExtractorName :: string where
  "GraylogKubernetesExtractorName = ''kuber_extractor''"

definition GraylogKubernetesLabelsExtractorName :: string where
  "GraylogKubernetesLabelsExtractorName = ''kuber_labels_extractor''"

definition GraylogDockerExtractorName :: string where
  "GraylogDockerExtractorName = ''docker_extractor''"

definition GraylogMicroserviceFrameworkExtractorName :: string where
  "GraylogMicroserviceFrameworkExtractorName = ''Microservice Framework Backend''"

definition GraylogReplaceTimestampExtractorAsset :: string where
  "GraylogReplaceTimestampExtractorAsset = ''replace_timestamp_extractor.json''"

definition GraylogKubernetesExtractorAsset :: string where
  "GraylogKubernetesExtractorAsset = ''kubernetes_extractor.json''"

definition GraylogKubernetesLabelsExtractorAsset :: string where
  "GraylogKubernetesLabelsExtractorAsset = ''kubernetes_labels_extractor.json''"

definition GraylogDockerExtractorAsset :: string where
  "GraylogDockerExtractorAsset = ''docker_extractor.json''"

definition GraylogMicroserviceFrameworkExtractorAsset :: string where
  "GraylogMicroserviceFrameworkExtractorAsset = ''microservice_framework_extractor.json''"

definition GraylogExtractorsBasePath :: string where
  "GraylogExtractorsBasePath = ''config/extractors''"

definition GraylogExtractors :: "(string \<times> string) list" where
  "GraylogExtractors =
    [(GraylogReplaceTimestampExtractorName, ''config/extractors/replace_timestamp_extractor.json''),
     (GraylogKubernetesExtractorName, ''config/extractors/kubernetes_extractor.json''),
     (GraylogKubernetesLabelsExtractorName, ''config/extractors/kubernetes_labels_extractor.json''),
     (GraylogDockerExtractorName, ''config/extractors/docker_extractor.json''),
     (GraylogMicroserviceFrameworkExtractorName, ''config/extractors/microservice_framework_extractor.json'')]"

definition GraylogAuditProcessingRule :: string where
  "GraylogAuditProcessingRule = ''Route Audit logs''"

definition GraylogSystemLogsProcessingRule :: string where
  "GraylogSystemLogsProcessingRule = ''Route System logs''"

definition GraylogRemoveKubernetesRule :: string where
  "GraylogRemoveKubernetesRule = ''Remove kubernetes field''"

definition GraylogRemoveKubernetesLabelsRule :: string where
  "GraylogRemoveKubernetesLabelsRule = ''Remove kubernetes_labels field''"

definition GraylogUnsupportedSymbolsRule :: string where
  "GraylogUnsupportedSymbolsRule = ''Processing unsupported symbols''"

definition GraylogKubernetesEventsRule :: string where
  "GraylogKubernetesEventsRule = ''Route Kubernetes events''"

definition GraylogRemoveKubernetesRuleStream :: string where
  "GraylogRemoveKubernetesRuleStream = GraylogDefaultStream"

definition GraylogRemoveKubernetesLabelsRuleStream :: string where
  "GraylogRemoveKubernetesLabelsRuleStream = GraylogDefaultStream"

definition GraylogUnsupportedSymbolsRuleStream :: string where
  "GraylogUnsupportedSymbolsRuleStream = GraylogDefaultStream"

definition GraylogAccessProcessingRule :: string where
  "GraylogAccessProcessingRule = ''Route Access logs''"

definition GraylogIntegrationProcessingRule :: string where
  "GraylogIntegrationProcessingRule = ''Route Integration logs''"

definition GraylogBillCycleProcessingRule :: string where
  "GraylogBillCycleProcessingRule = ''Route Bill Cycle logs''"

definition GraylogNginxProcessingRule :: string where
  "GraylogNginxProcessingRule = ''Route Nginx logs''"

definition GraylogStreamsRules :: "(string \<times> string) list" where
  "GraylogStreamsRules =
    [(GraylogAuditStream, GraylogAuditProcessingRule),
     (GraylogSystemStream, GraylogSystemLogsProcessingRule),
     (GraylogAccessStream, GraylogAccessProcessingRule),
     (GraylogIntegrationStream, GraylogIntegrationProcessingRule),
     (GraylogBillCycleStream, GraylogBillCycleProcessingRule),
     (GraylogNginxStream, GraylogNginxProcessingRule),
     (GraylogRemoveKubernetesRuleStream, GraylogRemoveKubernetesRule),
     (GraylogRemoveKubernetesLabelsRuleStream, GraylogRemoveKubernetesLabelsRule),
     (GraylogUnsupportedSymbolsRuleStream, GraylogUnsupportedSymbolsRule),
     (GraylogKubernetesEventsStream, GraylogKubernetesEventsRule)]"

definition GraylogRuleConfigs :: "(string \<times> string) list" where
  "GraylogRuleConfigs =
    [(GraylogAuditProcessingRule, ''config/processing_rules/audit_logs.rule''),
     (GraylogSystemLogsProcessingRule, ''config/processing_rules/system_logs.rule''),
     (GraylogAccessProcessingRule, ''config/processing_rules/access_logs.rule''),
     (GraylogIntegrationProcessingRule, ''config/processing_rules/int_logs.rule''),
     (GraylogBillCycleProcessingRule, ''config/processing_rules/bill_cycle_logs.rule''),
     (GraylogNginxProcessingRule, ''config/processing_rules/nginx_logs.rule''),
     (GraylogRemoveKubernetesRule, ''config/processing_rules/remove_kubernetes.rule''),
     (GraylogRemoveKubernetesLabelsRule, ''config/processing_rules/remove_kubernetes_labels.rule''),
     (GraylogUnsupportedSymbolsRule, ''config/processing_rules/unsupported_symbols.rule''),
     (GraylogKubernetesEventsRule, ''config/processing_rules/k8s_event_logs.rule'')]"

definition GraylogRuleDescriptions :: "(string \<times> string) list" where
  "GraylogRuleDescriptions =
    [(GraylogAuditProcessingRule, ''Route Audit logs to the appropriate stream''),
     (GraylogSystemLogsProcessingRule, ''Route System logs to the appropriate stream''),
     (GraylogAccessProcessingRule, ''Route Access logs to the appropriate stream''),
     (GraylogIntegrationProcessingRule, ''Route Integration logs to the appropriate stream''),
     (GraylogBillCycleProcessingRule, ''Route Bill Cycle logs to the appropriate stream''),
     (GraylogNginxProcessingRule, ''Route Nginx logs to the appropriate stream''),
     (GraylogRemoveKubernetesRule, ''Remove kubernetes field''),
     (GraylogRemoveKubernetesLabelsRule, ''Remove kubernetes labels field''),
     (GraylogUnsupportedSymbolsRule, (''Processing unsupported symbols (Replace '' @ [CHR 0x27] @ ''/'' @ [CHR 0x27] @ '' to '' @ [CHR 0x27] @ ''_'' @ [CHR 0x27] @ '')'')),
     (GraylogKubernetesEventsRule, ''Route Kubernetes events to the appropriate stream'')]"

definition GraylogDashboard :: string where
  "GraylogDashboard = ''config/dashboard.json''"

definition GraylogDashboardInstallation :: string where
  "GraylogDashboardInstallation = ''config/dashboardInstallation.json''"

definition GraylogPipeline :: string where
  "GraylogPipeline = ''config/pipeline.json''"

definition GraylogCloudEventsSearch :: string where
  "GraylogCloudEventsSearch = ''config/saved_searches/cloud-events-search.json''"

definition GraylogUserSessionHistorySearch :: string where
  "GraylogUserSessionHistorySearch = ''config/saved_searches/user-session-history-search.json''"

definition GraylogCloudEventsView :: string where
  "GraylogCloudEventsView = ''config/saved_searches/cloud-events-view.json''"

definition GraylogUserSessionHistoryView :: string where
  "GraylogUserSessionHistoryView = ''config/saved_searches/user-session-history-view.json''"

definition GraylogOperatorRole :: string where
  "GraylogOperatorRole = ''config/roles/operator.json''"

definition GraylogAuditViewerRole :: string where
  "GraylogAuditViewerRole = ''config/roles/auditViewer.json''"

definition GraylogOperatorUser :: string where
  "GraylogOperatorUser = ''config/user_accounts/operator.json''"

definition GraylogAuditViewerUser :: string where
  "GraylogAuditViewerUser = ''config/user_accounts/auditViewer.json''"

definition GraylogAdminWithTrustedHeader :: string where
  "GraylogAdminWithTrustedHeader = ''config/user_accounts/admin_with_trusted_header.json''"

definition GraylogStartupTimeout :: int where
  "GraylogStartupTimeout = 10 * 60 * 10 ^ 9"

definition GraylogLabels :: "string gomap" where
  "GraylogLabels = Some [''name'' \<mapsto> ''graylog'']"

definition GraylogSecretSelector :: string where
  "GraylogSecretSelector = ''graylog=secret''"

definition GraylogSecretKeyRootPasswordSHA2 :: string where
  "GraylogSecretKeyRootPasswordSHA2 = ''rootPasswordSha2''"

definition GraylogConfigFileName :: string where
  "GraylogConfigFileName = ''graylog.conf''"

definition GraylogPasswordField :: string where
  "GraylogPasswordField = ''root_password_sha2''"

definition GraylogUserField :: string where
  "GraylogUserField = ''root_username''"

definition GraylogMongoUpgradeOrderedJobs :: "string list" where
  "GraylogMongoUpgradeOrderedJobs = [''mongo-upgrade-job-40'', ''mongo-upgrade-job-42'', ''mongo-upgrade-job-44'', ''mongo-upgrade-job-50'']"

definition ComponentPendingStatus :: string where
  "ComponentPendingStatus = ''ComponentPendingStatus''"

definition ComponentPendingTimeout :: int where
  "ComponentPendingTimeout = 5 * 60 * 10 ^ 9"

definition FluentbitAggregatorPendingTimeout :: int where
  "FluentbitAggregatorPendingTimeout = 8 * 60 * 10 ^ 9"

definition ConnectionTimeout :: int where
  "ConnectionTimeout = 10"

definition InitialDelay :: int where
  "InitialDelay = 5 * 10 ^ 9"

lemmas status_name_defs = LoggingServiceStatus_def FluentdStatus_def FluentbitStatus_def HAFluentStatus_def
  EventsReaderStatus_def MonitoringAgentStatus_def GraylogStatus_def ComponentPendingStatus_def

lemmas component_name_defs = FluentdComponentName_def FluentbitComponentName_def
  ForwarderFluentbitComponentName_def AggregatorFluentbitComponentName_def EventsReaderComponentName_def
  MonitoringAgentComponentName_def GraylogComponentName_def

text \<open>The reasons of the status conditions are pairwise different.\<close>

lemma status_names_distinct:
  "distinct [LoggingServiceStatus, FluentdStatus, FluentbitStatus, HAFluentStatus, EventsReaderStatus,
     MonitoringAgentStatus, GraylogStatus, ComponentPendingStatus]"
  by (simp add: status_name_defs)

end
