(* ===== verification/Builder.thy ===== *)
theory Builder
  imports Vars
begin

text \<open>
  The object constructors and fallbacks of \<open>internal/builder\<close> (\<open>objects.go\<close>, \<open>coalesce.go\<close>) and the
  operator-wide defaults of \<open>internal/defaults\<close>. The \<open>Opts\<close> structs are records whose zero value
  stands for an empty composite literal. The locale \<open>workload_contract\<close> states what every workload
  builder promises to its Service and to the API server; each component interprets it.
\<close>

section \<open>Constructors\<close>

record ContainerOpts =
  cno_Image :: string
  cno_ImagePullPolicy :: string
  cno_Command :: "string list"
  cno_Args :: "string list"
  cno_Env :: "env_var list"
  cno_EnvFrom :: "string list"
  cno_Ports :: "container_port list"
  cno_Resources :: resource_requirements
  cno_VolumeMounts :: "volume_mount list"
  cno_LivenessProbe :: "probe option"
  cno_ReadinessProbe :: "probe option"
  cno_StartupProbe :: "probe option"
  cno_SecurityContext :: "security_context option"
  cno_Lifecycle :: "string option"

definition zero_resources :: resource_requirements where
  "zero_resources = \<lparr>rr_Requests = None, rr_Limits = None\<rparr>"

definition zero_ContainerOpts :: ContainerOpts where
  "zero_ContainerOpts = \<lparr>cno_Image = [], cno_ImagePullPolicy = [], cno_Command = [], cno_Args = [],
     cno_Env = [], cno_EnvFrom = [], cno_Ports = [], cno_Resources = zero_resources,
     cno_VolumeMounts = [], cno_LivenessProbe = None, cno_ReadinessProbe = None,
     cno_StartupProbe = None, cno_SecurityContext = None, cno_Lifecycle = None\<rparr>"

definition NewContainer :: "string \<Rightarrow> ContainerOpts \<Rightarrow> container" where
  "NewContainer nm opts = \<lparr>co_Name = nm,
     co_Image = cno_Image opts,
     co_ImagePullPolicy = cno_ImagePullPolicy opts,
     co_Command = cno_Command opts,
     co_Args = cno_Args opts,
     co_Env = cno_Env opts,
     co_EnvFrom = cno_EnvFrom opts,
     co_Ports = cno_Ports opts,
     co_Resources = cno_Resources opts,
     co_VolumeMounts = cno_VolumeMounts opts,
     co_LivenessProbe = cno_LivenessProbe opts,
     co_ReadinessProbe = cno_ReadinessProbe opts,
     co_StartupProbe = cno_StartupProbe opts,
     co_SecurityContext = cno_SecurityContext opts,
     co_Lifecycle = cno_Lifecycle opts,
     co_TerminationMessagePath = [],
     co_TerminationMessagePolicy = []\<rparr>"

definition objectMeta :: "string \<Rightarrow> string \<Rightarrow> string gomap \<Rightarrow> string gomap \<Rightarrow> object_meta" where
  "objectMeta nm ns labels annotations =
     (meta_named nm ns)\<lparr>om_Labels := labels, om_Annotations := annotations\<rparr>"

definition podTemplate :: "string gomap \<Rightarrow> string gomap \<Rightarrow> pod_spec \<Rightarrow> pod_template" where
  "podTemplate labels annotations spec =
     \<lparr>pt_Name = [], pt_Labels = labels, pt_Annotations = annotations, pt_Spec = spec\<rparr>"

record DaemonSetOpts =
  dso_Selector :: "string gomap"
  dso_UpdateStrategy :: update_strategy
  dso_MinReadySeconds :: int
  dso_PodSpec :: pod_spec
  dso_PodLabels :: "string gomap"
  dso_PodAnnotations :: "string gomap"
  dso_Labels :: "string gomap"
  dso_Annotations :: "string gomap"

definition zero_daemonset_status :: daemonset_status where
  "zero_daemonset_status = \<lparr>dst_DesiredNumberScheduled = 0, dst_UpdatedNumberScheduled = 0,
     dst_NumberAvailable = 0\<rparr>"

definition NewDaemonSet :: "string \<Rightarrow> string \<Rightarrow> DaemonSetOpts \<Rightarrow> daemonset" where
  "NewDaemonSet nm ns opts = \<lparr>ds_Meta = objectMeta nm ns (dso_Labels opts) (dso_Annotations opts),
     ds_Spec = \<lparr>dss_Selector = dso_Selector opts,
       dss_MinReadySeconds = dso_MinReadySeconds opts,
       dss_UpdateStrategy = dso_UpdateStrategy opts,
       dss_Template = podTemplate (dso_PodLabels opts) (dso_PodAnnotations opts) (dso_PodSpec opts)\<rparr>,
     ds_Status = zero_daemonset_status\<rparr>"

record DeploymentOpts =
  dpo_Replicas :: "int option"
  dpo_Selector :: "string gomap"
  dpo_Strategy :: update_strategy
  dpo_PodSpec :: pod_spec
  dpo_PodLabels :: "string gomap"
  dpo_PodAnnotations :: "string gomap"
  dpo_Labels :: "string gomap"
  dpo_Annotations :: "string gomap"

definition NewDeployment :: "string \<Rightarrow> string \<Rightarrow> DeploymentOpts \<Rightarrow> deployment" where
  "NewDeployment nm ns opts = \<lparr>dp_Meta = objectMeta nm ns (dpo_Labels opts) (dpo_Annotations opts),
     dp_Spec = \<lparr>dps_Replicas = dpo_Replicas opts,
       dps_Selector = dpo_Selector opts,
       dps_Strategy = dpo_Strategy opts,
       dps_Template = podTemplate (dpo_PodLabels opts) (dpo_PodAnnotations opts) (dpo_PodSpec opts)\<rparr>,
     dp_Status = \<lparr>dpt_AvailableReplicas = 0, dpt_UpdatedReplicas = 0\<rparr>\<rparr>"

record StatefulSetOpts =
  sso_Replicas :: "int option"
  sso_ServiceName :: string
  sso_Selector :: "string gomap"
  sso_PodManagementPolicy :: string
  sso_UpdateStrategy :: update_strategy
  sso_PodSpec :: pod_spec
  sso_PodLabels :: "string gomap"
  sso_PodAnnotations :: "string gomap"
  sso_VolumeClaimTemplates :: "claim_template list"
  sso_Labels :: "string gomap"
  sso_Annotations :: "string gomap"

definition NewStatefulSet :: "string \<Rightarrow> string \<Rightarrow> StatefulSetOpts \<Rightarrow> statefulset" where
  "NewStatefulSet nm ns opts = \<lparr>ss_Meta = objectMeta nm ns (sso_Labels opts) (sso_Annotations opts),
     ss_Spec = \<lparr>sss_Replicas = sso_Replicas opts,
       sss_ServiceName = sso_ServiceName opts,
       sss_Selector = sso_Selector opts,
       sss_PodManagementPolicy = sso_PodManagementPolicy opts,
       sss_UpdateStrategy = sso_UpdateStrategy opts,
       sss_RevisionHistoryLimit = None,
       sss_Template = podTemplate (sso_PodLabels opts) (sso_PodAnnotations opts) (sso_PodSpec opts),
       sss_VolumeClaimTemplates = sso_VolumeClaimTemplates opts\<rparr>,
     ss_Status = \<lparr>sst_Replicas = 0, sst_ReadyReplicas = 0\<rparr>\<rparr>"

record ServiceOpts =
  svo_Type :: string
  svo_ClusterIP :: string
  svo_Ports :: "service_port list"
  svo_Selector :: "string gomap"
  svo_IPFamilies :: "string list"
  svo_IPFamilyPolicy :: "string option"
  svo_Labels :: "string gomap"
  svo_Annotations :: "string gomap"

definition zero_ServiceOpts :: ServiceOpts where
  "zero_ServiceOpts = \<lparr>svo_Type = [], svo_ClusterIP = [], svo_Ports = [], svo_Selector = None,
     svo_IPFamilies = [], svo_IPFamilyPolicy = None, svo_Labels = None, svo_Annotations = None\<rparr>"

definition NewService :: "string \<Rightarrow> string \<Rightarrow> ServiceOpts \<Rightarrow> service" where
  "NewService nm ns opts = \<lparr>sv_Meta = objectMeta nm ns (svo_Labels opts) (svo_Annotations opts),
     sv_Spec = \<lparr>svs_Type = svo_Type opts,
       svs_ClusterIP = svo_ClusterIP opts,
       svs_Ports = svo_Ports opts,
       svs_Selector = svo_Selector opts,
       svs_IPFamilies = svo_IPFamilies opts,
       svs_IPFamilyPolicy = svo_IPFamilyPolicy opts\<rparr>\<rparr>"

definition NewServiceAccount :: "string \<Rightarrow> string \<Rightarrow> service_account" where
  "NewServiceAccount nm ns = \<lparr>sa_Meta = objectMeta nm ns None None\<rparr>"

definition NodeSelector :: "string \<Rightarrow> string \<Rightarrow> string gomap" where
  "NodeSelector key value = (if key = [] \<or> value = [] then None else Some [key \<mapsto> value])"

section \<open>Fallbacks\<close>

text \<open>\<open>First\<close> takes the zero value of its type, which Go finds by itself, as its first argument.\<close>

definition First :: "'a \<Rightarrow> 'a \<Rightarrow> 'a \<Rightarrow> 'a" where
  "First zero a b = (if a \<noteq> zero then a else b)"

definition FirstNonNil :: "'a option \<Rightarrow> 'a \<Rightarrow> 'a" where
  "FirstNonNil a b = (case a of None \<Rightarrow> b | Some x \<Rightarrow> x)"

definition FirstMap :: "'v gomap \<Rightarrow> 'v gomap \<Rightarrow> 'v gomap" where
  "FirstMap a b = (if mempty a then b else a)"

definition builder_Resources ::
  "resource_requirements option \<Rightarrow> resource_requirements \<Rightarrow> resource_requirements" where
  "builder_Resources fromCR fallback = (case fromCR of None \<Rightarrow> fallback | Some r \<Rightarrow> r)"

section \<open>Defaults\<close>

definition haResources :: "string \<Rightarrow> string \<Rightarrow> string \<Rightarrow> string \<Rightarrow> resource_requirements" where
  "haResources requestCPU requestMemory limitCPU limitMemory =
     \<lparr>rr_Requests = Some [''cpu'' \<mapsto> Quantity requestCPU, ''memory'' \<mapsto> Quantity requestMemory],
      rr_Limits = Some [''cpu'' \<mapsto> Quantity limitCPU, ''memory'' \<mapsto> Quantity limitMemory]\<rparr>"

record FluentbitAggregatorDefaults =
  fad_ForwarderResources :: resource_requirements
  fad_AggregatorResources :: resource_requirements
  fad_ConfigmapReloadResources :: resource_requirements
  fad_AggregatorReplicas :: int
  fad_AggregatorVolumeSize :: quantity

definition defaultAggregator :: FluentbitAggregatorDefaults where
  "defaultAggregator = \<lparr>
     fad_ForwarderResources = haResources ''50m'' ''128Mi'' ''200m'' ''512Mi'',
     fad_AggregatorResources = haResources ''500m'' ''512Mi'' ''2'' ''2Gi'',
     fad_ConfigmapReloadResources = haResources ''10m'' ''10Mi'' ''50m'' ''50Mi'',
     fad_AggregatorReplicas = 2,
     fad_AggregatorVolumeSize = Quantity ''2Gi''\<rparr>"

record EventsReaderDefaults =
  erd_Command :: "string list"
  erd_Resources :: resource_requirements
  erd_Port :: int
  erd_RunAsID :: int
  erd_TmpVolumeSize :: quantity
  erd_LivenessProbe :: probe
  erd_ReadinessProbe :: probe
  erd_RollingMaxSurge :: int
  erd_RollingMaxUnavailable :: int

definition defaultEventsReader :: EventsReaderDefaults where
  "defaultEventsReader =
     (let port = 8080;
          healthProbe = \<lparr>pr_Path = ''/health'', pr_Port = port, pr_Scheme = ''HTTP'',
            pr_InitialDelaySeconds = 30, pr_TimeoutSeconds = 2, pr_PeriodSeconds = 10,
            pr_SuccessThreshold = 1, pr_FailureThreshold = 1\<rparr>
      in \<lparr>erd_Command = [''/events-reader/eventsreader''],
          erd_Resources = haResources ''100m'' ''128Mi'' ''100m'' ''128Mi'',
          erd_Port = port,
          erd_RunAsID = 1000,
          erd_TmpVolumeSize = Quantity ''100Mi'',
          erd_LivenessProbe = healthProbe,
          erd_ReadinessProbe = healthProbe,
          erd_RollingMaxSurge = 25,
          erd_RollingMaxUnavailable = 25\<rparr>)"

record FluentbitDefaults =
  fbd_Resources :: resource_requirements
  fbd_ConfigmapReloadResources :: resource_requirements
  fbd_Tolerations :: "toleration list"
  fbd_ConfigmapReloadArgs :: "string list"
  fbd_HTTPPort :: int
  fbd_LogToMetricsPort :: int
  fbd_ConfigmapReloadPort :: int
  fbd_ReloaderID :: int
  fbd_TmpVolumeSize :: quantity
  fbd_MinReadySeconds :: int
  fbd_TerminationGracePeriod :: int
  fbd_MaxUnavailable :: int
  fbd_LivenessProbe :: probe
  fbd_ReadinessProbe :: probe

definition defaultFluentbit :: FluentbitDefaults where
  "defaultFluentbit =
     (let httpPort = 2020;
          mkprobe = (\<lambda>path. \<lparr>pr_Path = path, pr_Port = httpPort, pr_Scheme = ''HTTP'',
            pr_InitialDelaySeconds = 5, pr_TimeoutSeconds = 10, pr_PeriodSeconds = 10,
            pr_SuccessThreshold = 1, pr_FailureThreshold = 5\<rparr>)
      in \<lparr>fbd_Resources = haResources ''50m'' ''128Mi'' ''200m'' ''512Mi'',
          fbd_ConfigmapReloadResources = haResources ''10m'' ''10Mi'' ''50m'' ''50Mi'',
          fbd_Tolerations =
            [\<lparr>tol_Key = ''node-role.kubernetes.io/master'', tol_Operator = ''Exists'', tol_Value = [], tol_Effect = ''NoSchedule''\<rparr>,
             \<lparr>tol_Key = [], tol_Operator = ''Exists'', tol_Value = [], tol_Effect = ''NoExecute''\<rparr>,
             \<lparr>tol_Key = [], tol_Operator = ''Exists'', tol_Value = [], tol_Effect = ''NoSchedule''\<rparr>],
          fbd_ConfigmapReloadArgs = [''--volume-dir=/fluent-bit/etc'',
            ''--webhook-url=http://localhost:2020/api/v2/reload'', ''--webhook-retries=5''],
          fbd_HTTPPort = httpPort,
          fbd_LogToMetricsPort = 2021,
          fbd_ConfigmapReloadPort = 9533,
          fbd_ReloaderID = 1001,
          fbd_TmpVolumeSize = Quantity ''100Mi'',
          fbd_MinReadySeconds = 60,
          fbd_TerminationGracePeriod = 30,
          fbd_MaxUnavailable = 1,
          fbd_LivenessProbe = mkprobe ''/'',
          fbd_ReadinessProbe = mkprobe ''/api/v1/health''\<rparr>)"

record FluentdDefaults =
  fdd_Resources :: resource_requirements
  fdd_ConfigmapReloadResources :: resource_requirements
  fdd_Tolerations :: "toleration list"
  fdd_HTTPPort :: int
  fdd_MetricsPort :: int
  fdd_ConfigmapReloadPort :: int
  fdd_LivenessProbe :: probe
  fdd_ReadinessProbe :: probe
  fdd_GraylogProtocol :: string
  fdd_QueueLimitLength :: int
  fdd_TmpVolumeSize :: quantity

definition defaultFluentd :: FluentdDefaults where
  "defaultFluentd =
     (let httpPort = 24220;
          mkprobe = (\<lambda>initialDelay failureThreshold.
            \<lparr>pr_Path = ''/api/plugins.json'', pr_Port = httpPort, pr_Scheme = ''HTTP'',
             pr_InitialDelaySeconds = initialDelay, pr_TimeoutSeconds = 10, pr_PeriodSeconds = 10,
             pr_SuccessThreshold = 1, pr_FailureThreshold = failureThreshold\<rparr>)
      in \<lparr>fdd_Resources = haResources ''100m'' ''128Mi'' ''500m'' ''512Mi'',
          fdd_ConfigmapReloadResources = haResources ''10m'' ''10Mi'' ''50m'' ''50Mi'',
          fdd_Tolerations =
            [\<lparr>tol_Key = ''node-role.kubernetes.io/master'', tol_Operator = ''Exists'', tol_Value = [], tol_Effect = []\<rparr>,
             \<lparr>tol_Key = [], tol_Operator = ''Exists'', tol_Value = [], tol_Effect = ''NoExecute''\<rparr>,
             \<lparr>tol_Key = [], tol_Operator = ''Exists'', tol_Value = [], tol_Effect = ''NoSchedule''\<rparr>],
          fdd_HTTPPort = httpPort,
          fdd_MetricsPort = 24232,
          fdd_ConfigmapReloadPort = 9533,
          fdd_LivenessProbe = mkprobe 90 3,
          fdd_ReadinessProbe = mkprobe 10 5,
          fdd_GraylogProtocol = ''tcp'',
          fdd_QueueLimitLength = 5000,
          fdd_TmpVolumeSize = Quantity ''100Mi''\<rparr>)"

definition graylogResourceRequirements :: "string \<Rightarrow> string \<Rightarrow> string \<Rightarrow> string \<Rightarrow> resource_requirements" where
  "graylogResourceRequirements requestCPU requestMemory limitCPU limitMemory =
     \<lparr>rr_Requests = Some [''cpu'' \<mapsto> Quantity requestCPU, ''memory'' \<mapsto> Quantity requestMemory],
      rr_Limits = Some [''cpu'' \<mapsto> Quantity limitCPU, ''memory'' \<mapsto> Quantity limitMemory]\<rparr>"

record GraylogDefaults =
  gld_Replicas :: int
  gld_GraylogResources :: resource_requirements
  gld_MongoResources :: resource_requirements
  gld_InitResources :: resource_requirements
  gld_AuthProxyResources :: resource_requirements
  gld_JavaOpts :: string
  gld_EmptyDirSize :: quantity

definition defaultGraylog :: GraylogDefaults where
  "defaultGraylog = \<lparr>
     gld_Replicas = 1,
     gld_GraylogResources = graylogResourceRequirements ''500m'' ''1536Mi'' ''1000m'' ''2048Mi'',
     gld_MongoResources = graylogResourceRequirements ''500m'' ''256Mi'' ''500m'' ''256Mi'',
     gld_InitResources = graylogResourceRequirements ''50m'' ''128Mi'' ''100m'' ''256Mi'',
     gld_AuthProxyResources = graylogResourceRequirements ''100m'' ''128Mi'' ''200m'' ''512Mi'',
     gld_JavaOpts = ''-Xms1024m -Xmx1024m -Djna.tmpdir=/usr/share/graylog/data/plugin'',
     gld_EmptyDirSize = Quantity ''100Mi''\<rparr>"

record Defaults =
  df_EventsReader :: EventsReaderDefaults
  df_Fluentbit :: FluentbitDefaults
  df_Fluentd :: FluentdDefaults
  df_Graylog :: GraylogDefaults
  df_Aggregator :: FluentbitAggregatorDefaults

definition defaults_Get :: Defaults where
  "defaults_Get = \<lparr>df_EventsReader = defaultEventsReader,
     df_Fluentbit = defaultFluentbit,
     df_Fluentd = defaultFluentd,
     df_Graylog = defaultGraylog,
     df_Aggregator = defaultAggregator\<rparr>"

section \<open>Steps the component builders share\<close>

type_synonym volumes_mounts = "volume list \<times> volume_mount list"

definition set_priority_class :: "string \<Rightarrow> pod_spec \<Rightarrow> pod_spec" where
  "set_priority_class cls p = (if go_TrimSpace cls \<noteq> [] then p\<lparr>ps_PriorityClassName := cls\<rparr> else p)"

lemma set_priority_class_sel [simp]:
  "ps_Volumes (set_priority_class c p) = ps_Volumes p"
  "ps_Containers (set_priority_class c p) = ps_Containers p"
  "ps_InitContainers (set_priority_class c p) = ps_InitContainers p"
  by (simp_all add: set_priority_class_def)

definition SetLabelsForDaemonSet :: "daemonset \<Rightarrow> LabelInput \<Rightarrow> daemonset" where
  "SetLabelsForDaemonSet d i =
     (case SetLabelsForWorkload (ds_Meta d) (dss_Template (ds_Spec d)) i of
        (m, t) \<Rightarrow> d\<lparr>ds_Meta := m, ds_Spec := (ds_Spec d)\<lparr>dss_Template := t\<rparr>\<rparr>)"

definition name_pod_template :: "string \<Rightarrow> daemonset \<Rightarrow> daemonset" where
  "name_pod_template nm d =
     d\<lparr>ds_Spec := (ds_Spec d)\<lparr>dss_Template := (dss_Template (ds_Spec d))\<lparr>pt_Name := nm\<rparr>\<rparr>\<rparr>"

definition SetLabelsForDeployment :: "deployment \<Rightarrow> LabelInput \<Rightarrow> deployment" where
  "SetLabelsForDeployment d i =
     (case SetLabelsForWorkload (dp_Meta d) (dps_Template (dp_Spec d)) i of
        (m, t) \<Rightarrow> d\<lparr>dp_Meta := m, dp_Spec := (dp_Spec d)\<lparr>dps_Template := t\<rparr>\<rparr>)"

definition SetLabelsForStatefulSet :: "statefulset \<Rightarrow> LabelInput \<Rightarrow> statefulset" where
  "SetLabelsForStatefulSet s i =
     (case SetLabelsForWorkload (ss_Meta s) (sss_Template (ss_Spec s)) i of
        (m, t) \<Rightarrow> s\<lparr>ss_Meta := m, ss_Spec := (ss_Spec s)\<lparr>sss_Template := t\<rparr>\<rparr>)"

lemma SetLabelsForResource_sel [simp]:
  "om_Name (SetLabelsForResource m i ex) = om_Name m"
  "om_Namespace (SetLabelsForResource m i ex) = om_Namespace m"
  "om_Annotations (SetLabelsForResource m i ex) = om_Annotations m"
  by (simp_all add: SetLabelsForResource_def Let_def)

lemma objectMeta_sel [simp]:
  "om_Name (objectMeta n ns l a) = n"
  "om_Namespace (objectMeta n ns l a) = ns"
  "om_Labels (objectMeta n ns l a) = l"
  "om_Annotations (objectMeta n ns l a) = a"
  by (simp_all add: objectMeta_def meta_named_def)

section \<open>The workload contract\<close>

text \<open>
  A workload builder yields the object's metadata, the labels its controller selects pods by, the
  pod template and the names of its claim templates. The contract: the selector matches the pod
  template (otherwise the API server rejects the workload), the template carries the workload's
  name, which the Services select by, and every mounted volume is declared.
\<close>

record workload =
  wl_Meta :: object_meta
  wl_Selector :: "string gomap"
  wl_Template :: pod_template
  wl_Claims :: "string list"

definition daemonset_workload :: "daemonset \<Rightarrow> workload" where
  "daemonset_workload d = \<lparr>wl_Meta = ds_Meta d, wl_Selector = dss_Selector (ds_Spec d),
     wl_Template = dss_Template (ds_Spec d), wl_Claims = []\<rparr>"

definition deployment_workload :: "deployment \<Rightarrow> workload" where
  "deployment_workload d = \<lparr>wl_Meta = dp_Meta d, wl_Selector = dps_Selector (dp_Spec d),
     wl_Template = dps_Template (dp_Spec d), wl_Claims = []\<rparr>"

definition statefulset_workload :: "statefulset \<Rightarrow> workload" where
  "statefulset_workload s = \<lparr>wl_Meta = ss_Meta s, wl_Selector = sss_Selector (ss_Spec s),
     wl_Template = sss_Template (ss_Spec s), wl_Claims = map ct_Name (sss_VolumeClaimTemplates (ss_Spec s))\<rparr>"

lemmas workload_defs = daemonset_workload_def deployment_workload_def statefulset_workload_def

lemma workload_sel [simp]:
  "wl_Meta (daemonset_workload d) = ds_Meta d"
  "wl_Selector (daemonset_workload d) = dss_Selector (ds_Spec d)"
  "wl_Template (daemonset_workload d) = dss_Template (ds_Spec d)"
  "wl_Claims (daemonset_workload d) = []"
  "wl_Meta (statefulset_workload s) = ss_Meta s"
  "wl_Selector (statefulset_workload s) = sss_Selector (ss_Spec s)"
  "wl_Template (statefulset_workload s) = sss_Template (ss_Spec s)"
  "wl_Claims (statefulset_workload s) = map ct_Name (sss_VolumeClaimTemplates (ss_Spec s))"
  by (simp_all add: workload_defs)

text \<open>The pod spec mounts only volumes it declares, those the user adds apart.\<close>

definition mounts_declared :: "string set \<Rightarrow> workload \<Rightarrow> bool" where
  "mounts_declared extra w \<longleftrightarrow>
     set (mount_names (pt_Spec (wl_Template w)))
       \<subseteq> set (volume_names (pt_Spec (wl_Template w))) \<union> set (wl_Claims w) \<union> extra"

locale workload_contract =
  fixes build :: "'cr \<Rightarrow> workload"
    and ok :: "'cr \<Rightarrow> bool"
    and wname :: "'cr \<Rightarrow> string"
    and wnamespace :: "'cr \<Rightarrow> string"
    and extra_mounts :: "'cr \<Rightarrow> string set"
  assumes contract_name: "ok cr \<Longrightarrow> om_Name (wl_Meta (build cr)) = wname cr"
    and contract_namespace: "ok cr \<Longrightarrow> om_Namespace (wl_Meta (build cr)) = wnamespace cr"
    and contract_selector: "ok cr \<Longrightarrow> matches (wl_Selector (build cr)) (pt_Labels (wl_Template (build cr)))"
    and contract_pod_name: "ok cr \<Longrightarrow> mcontents (pt_Labels (wl_Template (build cr))) ''name'' = Some (wname cr)"
    and contract_mounts: "ok cr \<Longrightarrow> mounts_declared (extra_mounts cr) (build cr)"
begin

text \<open>A Service that selects by the workload's name reaches its pods.\<close>

lemma name_service_reaches_pods:
  "ok cr \<Longrightarrow> matches (Some [''name'' \<mapsto> wname cr]) (pt_Labels (wl_Template (build cr)))"
  using contract_pod_name [of cr] by (simp add: matches_def map_le_def)

text \<open>A Service that selects by entries of the workload's selector and the name reaches its pods.\<close>

lemma service_reaches_pods:
  assumes "ok cr" and "\<And>k v. mcontents sel k = Some v \<Longrightarrow>
      k = ''name'' \<and> v = wname cr \<or> mcontents (wl_Selector (build cr)) k = Some v"
  shows "matches sel (pt_Labels (wl_Template (build cr)))"
  unfolding matches_def map_le_def
proof
  fix k assume "k \<in> dom (mcontents sel)"
  then obtain v where v: "mcontents sel k = Some v" by auto
  from assms(2) [OF v] show "mcontents sel k = mcontents (pt_Labels (wl_Template (build cr))) k"
    using contract_pod_name [OF assms(1)] contract_selector [OF assms(1)] v
    by (auto simp: matches_def map_le_def dom_def)
qed

lemma accepted_by_api_server:
  assumes "ok cr" and "extra_mounts cr = {}"
  shows "matches (wl_Selector (build cr)) (pt_Labels (wl_Template (build cr)))
    \<and> mounts_resolved (wl_Claims (build cr)) (pt_Spec (wl_Template (build cr)))"
  using contract_selector [OF assms(1)] contract_mounts [OF assms(1)] assms(2)
  by (simp add: mounts_declared_def mounts_resolved_def)

end

end
