(* ===== verification/Client.thy ===== *)
theory Client
  imports Builder
begin

text \<open>
  The code outside the repository that the operator calls, as one record argument of the
  definitions that use it: the controller-runtime client, \<open>controllerutil.SetControllerReference\<close>,
  \<open>wait.PollUntilContextTimeout\<close>, \<open>text/template\<close> with sprig, \<open>resource.ParseQuantity\<close>, the dialer, and
  the clock. All of it runs over an abstract world \<open>'w\<close>. What the operator relies on is stated as
  predicates over a view of the world as a partial map from (kind, namespace, name) to objects;
  \<open>store_client\<close> at the end is an in-memory instance that satisfies them.
\<close>

section \<open>The interface\<close>

text \<open>A component whose workload is not yet available, and the operator's state while it reconciles
  one custom resource: the resource (shared by the status updater and the reconcilers through one
  pointer), the pending components, and the world.\<close>

record component =
  cmp_ComponentName :: string
  cmp_StatusName :: string

record 'w opstate =
  os_cr :: logging_service
  os_pending :: "component list"
  os_world :: 'w

record auth_values =
  av_Token :: string
  av_User :: string
  av_Password :: string

record fluentd_credentials =
  fdc_Loki :: auth_values
  fdc_Http :: auth_values

record fluentbit_credentials =
  fbc_Loki :: auth_values
  fbc_Http :: auth_values
  fbc_Otel :: auth_values

text \<open>The values handed to the configuration templates.\<close>

datatype template_parameters =
    PlainParameters logging_service_parameters
  | FluentdParameters logging_service_parameters fluentd_credentials
  | FluentbitParameters logging_service_parameters fluentbit_credentials
  | AggregatorParameters logging_service_parameters fluentbit_credentials
  | SettingsParameters "string \<rightharpoonup> string"

record embed_fs =
  fs_ReadDir :: "string \<Rightarrow> go_error + (string \<times> bool) list"
  fs_ReadFile :: "string \<Rightarrow> go_error + string"

text \<open>
  The values of the standard library the Graylog client exchanges with it: JSON values handed to the
  encoder, parsed URLs, the settings of a TLS connection, HTTP requests as sent, and the files of a
  zip archive.
\<close>

datatype json = JNull | JString string | JLiteral string | JArray "json list" | JObject "(string \<times> json) list"

record go_url =
  url_Scheme :: string
  url_Host :: string
  url_Path :: string
  url_RawQuery :: string
  url_Fragment :: string
  url_User :: "(string \<times> string) option"

record tls_client =
  tcl_InsecureSkipVerify :: bool
  tcl_RootCAs :: "string set"
  tcl_Certificates :: "(string \<times> string) list"

record http_request =
  rq_Method :: string
  rq_URL :: string
  rq_Headers :: "(string \<times> string) list"
  rq_Body :: string
  rq_TLS :: "tls_client option"

record zip_file =
  zf_Name :: string
  zf_IsDir :: bool

record 'w client =
  cl_Create :: "object \<Rightarrow> ('w, unit) eff"
  cl_Get :: "kind \<Rightarrow> string \<Rightarrow> string \<Rightarrow> ('w, object) eff"
  cl_Update :: "object \<Rightarrow> ('w, unit) eff"
  cl_Delete :: "object \<Rightarrow> ('w, unit) eff"
  cl_ListPods :: "string \<Rightarrow> string gomap \<Rightarrow> ('w, object_meta list) eff"
  cl_DeletePod :: "object_meta \<Rightarrow> ('w, unit) eff"
  cl_ListNodes :: "('w, string list) eff"
  cl_GetLoggingService :: "string \<Rightarrow> string \<Rightarrow> ('w, logging_service) eff"
  cl_ListLoggingServices :: "string \<Rightarrow> ('w, logging_service list) eff"
  cl_PatchStatus :: "logging_service \<Rightarrow> ('w, logging_service) eff"
  cl_SetControllerReference :: "logging_service \<Rightarrow> object \<Rightarrow> go_error + object"
  cl_SchemeSet :: bool
  sys_NowText :: "('w, string) state"
  sys_Now :: "('w, int) state"
  sys_Sleep :: "int \<Rightarrow> ('w, unit) state"
  sys_Poll :: "int \<Rightarrow> int \<Rightarrow> ('w \<times> bool, bool) eff \<Rightarrow> ('w \<times> bool, unit) eff"
  sys_Interrupted :: "go_error \<Rightarrow> bool"
  sys_Dial :: "string \<Rightarrow> int \<Rightarrow> ('w, unit) eff"
  sys_ParseTemplate :: "string \<Rightarrow> string \<Rightarrow> template_parameters \<Rightarrow> ('w, string) eff"
  sys_ParseQuantity :: "string \<Rightarrow> go_error + quantity"
  sys_MapRange :: "string list \<Rightarrow> ('w, string list) state"
  net_Do :: "http_request \<Rightarrow> ('w, string \<times> int) eff"
  net_Resolve :: "string \<Rightarrow> string \<Rightarrow> go_error + string"
  net_JoinPath :: "string \<Rightarrow> string \<Rightarrow> go_error + string"
  net_ParseURL :: "string \<Rightarrow> go_error + go_url"
  net_URLString :: "go_url \<Rightarrow> string"
  net_KeyPair :: "string \<Rightarrow> string \<Rightarrow> go_error + unit"
  net_IsPEM :: "string \<Rightarrow> bool"
  json_Marshal :: "json \<Rightarrow> go_error + string"
  json_Object :: "string \<Rightarrow> go_error + (string \<rightharpoonup> string)"
  json_Structs :: "string list \<Rightarrow> string \<Rightarrow> go_error + (string \<rightharpoonup> string) list"
  json_Requests :: "string \<Rightarrow> go_error + (string \<times> string \<times> json) list"
  os_TempDir :: string
  os_ReadFile :: "string \<Rightarrow> ('w, string) eff"
  os_Stat :: "string \<Rightarrow> ('w, unit) eff"
  os_IsNotExist :: "go_error \<Rightarrow> bool"
  os_ReadDir :: "string \<Rightarrow> ('w, string list) eff"
  os_Create :: "string \<Rightarrow> ('w, unit) eff"
  os_Copy :: "string \<Rightarrow> string \<Rightarrow> ('w, unit) eff"
  os_MkdirAll :: "string \<Rightarrow> ('w, unit) eff"
  os_Remove :: "string \<Rightarrow> ('w, unit) eff"
  zip_Open :: "string \<Rightarrow> ('w, zip_file list) eff"
  zip_Read :: "string \<Rightarrow> zip_file \<Rightarrow> ('w, string) eff"
  sys_SHA256Hex :: "string \<Rightarrow> string"
  sys_GoWatch :: "logging_service \<Rightarrow> ('w, unit) eff"

definition in_world :: "('w, 'a) state \<Rightarrow> ('w opstate, 'a) state" where
  "in_world m = zoom os_world (\<lambda>w s. s\<lparr>os_world := w\<rparr>) m"

definition get_cr :: "('w opstate, logging_service) state" where
  "get_cr = State (\<lambda>s. (os_cr s, s))"

definition modify_cr :: "(logging_service \<Rightarrow> logging_service) \<Rightarrow> ('w opstate, unit) state" where
  "modify_cr f = State (\<lambda>s. ((), s\<lparr>os_cr := f (os_cr s)\<rparr>))"

definition get_pending :: "('w opstate, component list) state" where
  "get_pending = State (\<lambda>s. (os_pending s, s))"

definition put_pending :: "component list \<Rightarrow> ('w opstate, unit) state" where
  "put_pending ps = State (\<lambda>s. ((), s\<lparr>os_pending := ps\<rparr>))"

lemma run_os_ops [simp]:
  "run_state get_cr s = (os_cr s, s)"
  "run_state (modify_cr f) s = ((), s\<lparr>os_cr := f (os_cr s)\<rparr>)"
  "run_state get_pending s = (os_pending s, s)"
  "run_state (put_pending ps) s = ((), s\<lparr>os_pending := ps\<rparr>)"
  by (simp_all add: get_cr_def modify_cr_def get_pending_def put_pending_def)

lemma run_in_world:
  "run_state (in_world m) s = (case run_state m (os_world s) of (a, w) \<Rightarrow> (a, s\<lparr>os_world := w\<rparr>))"
  by (simp add: in_world_def run_zoom)

lemmas [effect_simps] = run_in_world

section \<open>What the operator relies on\<close>

text \<open>
  The API server as a partial map. Reading returns the stored object and changes nothing; creating
  an object that exists fails with reason AlreadyExists and changes nothing; a create, update or
  delete that succeeds changes that object only, and one that fails changes nothing. Whether a
  write succeeds is left open (admission, conflicts, quota), and so is what the server fills in: it
  keeps the kind, the namespace, the name, the labels and the data of what was written.
\<close>

type_synonym obj_key = "kind \<times> string \<times> string"

definition key_of :: "object \<Rightarrow> obj_key" where
  "key_of obj = (kind_of obj, om_Namespace (meta_of obj), om_Name (meta_of obj))"

text \<open>The contents of a Secret or a ConfigMap, which the server stores as written.\<close>

definition payload :: "object \<Rightarrow> ((string \<rightharpoonup> string) \<times> (string \<rightharpoonup> string)) option" where
  "payload obj = (case obj of OSecret s \<Rightarrow> Some (mcontents (se_Data s), Map.empty)
     | OConfigMap c \<Rightarrow> Some (mcontents (cm_Data c), mcontents (cm_BinaryData c)) | _ \<Rightarrow> None)"

definition stored_as :: "object \<Rightarrow> object \<Rightarrow> bool" where
  "stored_as obj obj' \<longleftrightarrow> key_of obj' = key_of obj \<and> payload obj' = payload obj
     \<and> mcontents (om_Labels (meta_of obj')) = mcontents (om_Labels (meta_of obj))"

lemma stored_as_refl [simp]: "stored_as obj obj"
  by (simp add: stored_as_def)

lemma stored_as_trans: "stored_as a b \<Longrightarrow> stored_as b c \<Longrightarrow> stored_as a c"
  by (simp add: stored_as_def)

lemma stored_as_key: "stored_as a b \<Longrightarrow> key_of b = key_of a"
  by (simp add: stored_as_def)

definition get_law :: "'w client \<Rightarrow> ('w \<Rightarrow> obj_key \<Rightarrow> object option) \<Rightarrow> bool" where
  "get_law c view \<longleftrightarrow> (\<forall>k ns n w r w'. run_state (cl_Get c k ns n) w = (r, w') \<longrightarrow>
     view w' = view w
     \<and> (case r of Inr obj \<Rightarrow> view w (k, ns, n) = Some obj \<and> key_of obj = (k, ns, n)
        | Inl e \<Rightarrow> IsNotFound e \<longrightarrow> view w (k, ns, n) = None))"

definition create_law :: "'w client \<Rightarrow> ('w \<Rightarrow> obj_key \<Rightarrow> object option) \<Rightarrow> bool" where
  "create_law c view \<longleftrightarrow> (\<forall>obj w r w'. run_state (cl_Create c obj) w = (r, w') \<longrightarrow>
     (case r of Inr _ \<Rightarrow> view w (key_of obj) = None \<and> (\<exists>obj'. stored_as obj obj' \<and> view w' = (view w)(key_of obj \<mapsto> obj'))
      | Inl e \<Rightarrow> view w' = view w \<and> (IsAlreadyExists e \<longrightarrow> view w (key_of obj) \<noteq> None)))"

definition update_law :: "'w client \<Rightarrow> ('w \<Rightarrow> obj_key \<Rightarrow> object option) \<Rightarrow> bool" where
  "update_law c view \<longleftrightarrow> (\<forall>obj w r w'. run_state (cl_Update c obj) w = (r, w') \<longrightarrow>
     (case r of Inr _ \<Rightarrow> (\<exists>obj'. stored_as obj obj' \<and> view w' = (view w)(key_of obj \<mapsto> obj'))
      | Inl e \<Rightarrow> view w' = view w))"

definition delete_law :: "'w client \<Rightarrow> ('w \<Rightarrow> obj_key \<Rightarrow> object option) \<Rightarrow> bool" where
  "delete_law c view \<longleftrightarrow> (\<forall>obj w r w'. run_state (cl_Delete c obj) w = (r, w') \<longrightarrow>
     (case r of Inr _ \<Rightarrow> view w' = (view w)(key_of obj := None)
      | Inl e \<Rightarrow> view w' = view w))"

text \<open>\<open>SetControllerReference\<close> changes the owner references of the object only, and its own errors
  (already owned, cross-namespace) are not API errors of reason AlreadyExists.\<close>

definition owner_law :: "'w client \<Rightarrow> bool" where
  "owner_law c \<longleftrightarrow> (\<forall>cr obj. case cl_SetControllerReference c cr obj of
     Inr obj' \<Rightarrow> stored_as obj obj' | Inl e \<Rightarrow> \<not> IsAlreadyExists e)"

definition cluster_laws :: "'w client \<Rightarrow> ('w \<Rightarrow> obj_key \<Rightarrow> object option) \<Rightarrow> bool" where
  "cluster_laws c view \<longleftrightarrow>
     get_law c view \<and> create_law c view \<and> update_law c view \<and> delete_law c view \<and> owner_law c"

lemma cluster_laws_get:
  assumes "cluster_laws c view" and "run_state (cl_Get c k ns n) w = (r, w')"
  shows "view w' = view w" and "r = Inr obj \<Longrightarrow> view w (k, ns, n) = Some obj \<and> key_of obj = (k, ns, n)"
    and "r = Inl e \<Longrightarrow> IsNotFound e \<Longrightarrow> view w (k, ns, n) = None"
  using assms unfolding cluster_laws_def get_law_def by (fastforce split: sum.splits)+

lemma cluster_laws_create:
  assumes "cluster_laws c view" and "run_state (cl_Create c obj) w = (r, w')"
  shows "r = Inr u \<Longrightarrow> view w (key_of obj) = None \<and> (\<exists>obj'. stored_as obj obj' \<and> view w' = (view w)(key_of obj \<mapsto> obj'))"
    and "r = Inl e \<Longrightarrow> view w' = view w"
    and "r = Inl e \<Longrightarrow> IsAlreadyExists e \<Longrightarrow> view w (key_of obj) \<noteq> None"
  using assms unfolding cluster_laws_def create_law_def by (fastforce split: sum.splits)+

lemma cluster_laws_update:
  assumes "cluster_laws c view" and "run_state (cl_Update c obj) w = (r, w')"
  shows "r = Inr u \<Longrightarrow> \<exists>obj'. stored_as obj obj' \<and> view w' = (view w)(key_of obj \<mapsto> obj')"
    and "r = Inl e \<Longrightarrow> view w' = view w"
  using assms unfolding cluster_laws_def update_law_def by (fastforce split: sum.splits)+

lemma cluster_laws_delete:
  assumes "cluster_laws c view" and "run_state (cl_Delete c obj) w = (r, w')"
  shows "r = Inr u \<Longrightarrow> view w' = (view w)(key_of obj := None)"
    and "r = Inl e \<Longrightarrow> view w' = view w"
  using assms unfolding cluster_laws_def delete_law_def by (fastforce split: sum.splits)+

lemma cluster_laws_owner:
  assumes "cluster_laws c view" and "cl_SetControllerReference c cr obj = Inr obj'"
  shows "stored_as obj obj'"
  using assms unfolding cluster_laws_def owner_law_def by (metis sum.case(2))

lemma cluster_laws_owner_error:
  assumes "cluster_laws c view" and "cl_SetControllerReference c cr obj = Inl e"
  shows "\<not> IsAlreadyExists e"
  using assms unfolding cluster_laws_def owner_law_def by (metis sum.case(1))

section \<open>An in-memory instance\<close>

text \<open>
  The world of the instance: the objects, the custom resources as stored by the server, and a clock
  in nanoseconds that sleeping advances. Every write that is legal succeeds.
\<close>

record store =
  st_objects :: "obj_key \<rightharpoonup> object"
  st_crs :: "(string \<times> string) \<rightharpoonup> logging_service"
  st_clock :: int
  st_sent :: "http_request list"

definition store_view :: "store \<Rightarrow> obj_key \<Rightarrow> object option" where
  "store_view w k = (case st_objects w k of None \<Rightarrow> None | Some obj \<Rightarrow> if key_of obj = k then Some obj else None)"

definition notFound :: "go_error" where
  "notFound = ApiError NotFound ''not found''"

definition store_client :: "store client" where
  "store_client = \<lparr>
     cl_Create = (\<lambda>obj. State (\<lambda>w. case store_view w (key_of obj) of
        None \<Rightarrow> (Inr (), w\<lparr>st_objects := (st_objects w)(key_of obj \<mapsto> obj)\<rparr>)
      | Some _ \<Rightarrow> (Inl (ApiError AlreadyExists ''already exists''), w))),
     cl_Get = (\<lambda>k ns n. State (\<lambda>w. case store_view w (k, ns, n) of
        None \<Rightarrow> (Inl notFound, w) | Some obj \<Rightarrow> (Inr obj, w))),
     cl_Update = (\<lambda>obj. State (\<lambda>w. case store_view w (key_of obj) of
        None \<Rightarrow> (Inl notFound, w)
      | Some _ \<Rightarrow> (Inr (), w\<lparr>st_objects := (st_objects w)(key_of obj \<mapsto> obj)\<rparr>))),
     cl_Delete = (\<lambda>obj. State (\<lambda>w. case store_view w (key_of obj) of
        None \<Rightarrow> (Inl notFound, w)
      | Some _ \<Rightarrow> (Inr (), w\<lparr>st_objects := (st_objects w)(key_of obj := None)\<rparr>))),
     cl_ListPods = (\<lambda>ns sel. okM []),
     cl_DeletePod = (\<lambda>m. okM ()),
     cl_ListNodes = okM [''containerd://1.7.0''],
     cl_GetLoggingService = (\<lambda>ns n. State (\<lambda>w. case st_crs w (ns, n) of
        None \<Rightarrow> (Inl notFound, w) | Some cr \<Rightarrow> (Inr cr, w))),
     cl_ListLoggingServices = (\<lambda>ns. okM []),
     cl_PatchStatus = (\<lambda>cr. State (\<lambda>w.
        let key = (om_Namespace (ls_ObjectMeta cr), om_Name (ls_ObjectMeta cr))
        in case st_crs w key of
             None \<Rightarrow> (Inl notFound, w)
           | Some old \<Rightarrow>
               if (om_Namespace (ls_ObjectMeta old), om_Name (ls_ObjectMeta old)) = key
               then (Inr (old\<lparr>ls_Status := ls_Status cr\<rparr>),
                     w\<lparr>st_crs := (st_crs w)(key \<mapsto> old\<lparr>ls_Status := ls_Status cr\<rparr>)\<rparr>)
               else (Inl notFound, w))),
     cl_SetControllerReference = (\<lambda>cr obj. Inr obj),
     cl_SchemeSet = True,
     sys_NowText = State_Monad.return ''now'',
     sys_Now = State (\<lambda>w. (st_clock w, w)),
     sys_Sleep = (\<lambda>d. State (\<lambda>w. ((), w\<lparr>st_clock := st_clock w + d\<rparr>))),
     sys_Poll = (\<lambda>interval timeout cond. do {
        r \<leftarrow> cond;
        case r of Inl e \<Rightarrow> failM e
        | Inr done \<Rightarrow> if done then okM () else failM (errors_New ''context deadline exceeded'') }),
     sys_Interrupted = (\<lambda>e. e = errors_New ''context deadline exceeded''),
     sys_Dial = (\<lambda>host timeout. okM ()),
     sys_ParseTemplate = (\<lambda>content path params. okM content),
     sys_ParseQuantity = (\<lambda>s. if s = [] then Inl (errors_New ''quantity'') else Inr (Quantity s)),
     sys_MapRange = State_Monad.return,
     net_Do = (\<lambda>rq. State (\<lambda>w. (Inr ([], 200), w\<lparr>st_sent := st_sent w @ [rq]\<rparr>))),
     net_Resolve = (\<lambda>base ref. Inr (base @ ref)),
     net_JoinPath = (\<lambda>base path. Inr (base @ path)),
     net_ParseURL = (\<lambda>s. Inr \<lparr>url_Scheme = ''http'', url_Host = s, url_Path = [], url_RawQuery = [], url_Fragment = [], url_User = None\<rparr>),
     net_URLString = url_Host,
     net_KeyPair = (\<lambda>cert key. Inr ()),
     net_IsPEM = (\<lambda>s. s \<noteq> []),
     json_Marshal = (\<lambda>j. Inr ''{}''),
     json_Object = (\<lambda>s. Inr Map.empty),
     json_Structs = (\<lambda>fields s. Inr []),
     json_Requests = (\<lambda>s. Inr []),
     os_TempDir = ''/tmp'',
     os_ReadFile = (\<lambda>path. failM notFound),
     os_Stat = (\<lambda>path. failM notFound),
     os_IsNotExist = (\<lambda>e. e = notFound),
     os_ReadDir = (\<lambda>path. okM []),
     os_Create = (\<lambda>path. okM ()),
     os_Copy = (\<lambda>path text. okM ()),
     os_MkdirAll = (\<lambda>path. okM ()),
     os_Remove = (\<lambda>path. okM ()),
     zip_Open = (\<lambda>path. okM []),
     zip_Read = (\<lambda>path f. okM []),
     sys_SHA256Hex = (\<lambda>s. s),
     sys_GoWatch = (\<lambda>cr. okM ())\<rparr>"

lemma api_status_notFound [simp]: "IsNotFound notFound" "\<not> IsAlreadyExists notFound"
  by (simp_all add: notFound_def IsNotFound_def IsAlreadyExists_def)

lemma store_view_write [simp]:
  "store_view (w\<lparr>st_objects := (st_objects w)(key_of obj \<mapsto> obj)\<rparr>) = (store_view w)(key_of obj \<mapsto> obj)"
  by (rule ext) (simp add: store_view_def)

lemma store_view_erase [simp]:
  "store_view (w\<lparr>st_objects := (st_objects w)(k := None)\<rparr>) = (store_view w)(k := None)"
  by (rule ext) (simp add: store_view_def)

lemma store_view_key: "store_view w k = Some obj \<Longrightarrow> key_of obj = k"
  by (auto simp: store_view_def split: option.splits if_splits)

lemma store_client_laws: "cluster_laws store_client store_view"
  unfolding cluster_laws_def get_law_def create_law_def update_law_def delete_law_def owner_law_def
  by (auto simp: store_client_def split: option.splits sum.splits
      intro: exI [where P = "\<lambda>x. stored_as _ x \<and> _ x"] stored_as_refl dest: store_view_key)

end
