(* ===== verification/Reconcilers.thy ===== *)
theory Reconcilers
  imports Client
begin

text \<open>
  Writing objects to the cluster: \<open>internal/reconcilers/reconcilers.go\<close>, the resource operations of
  \<open>ComponentReconciler\<close> (\<open>internal/utils/common.go\<close>) and the configuration Secrets
  (\<open>internal/utils/config_secret.go\<close>). Under the laws of the client the lemmas say which objects an
  operation can change, that a failed operation changes none, and what the cluster holds after one
  that succeeds.
\<close>

section \<open>Definitions\<close>

text \<open>The rendering of the Go type of an object by the verb \<open>%T\<close>.\<close>

fun type_name :: "kind \<Rightarrow> string" where
  "type_name KDaemonSet = ''*v1.DaemonSet''"
| "type_name KDeployment = ''*v1.Deployment''"
| "type_name KStatefulSet = ''*v1.StatefulSet''"
| "type_name KService = ''*v1.Service''"
| "type_name KServiceAccount = ''*v1.ServiceAccount''"
| "type_name KSecret = ''*v1.Secret''"
| "type_name KConfigMap = ''*v1.ConfigMap''"
| "type_name KPersistentVolumeClaim = ''*v1.PersistentVolumeClaim''"
| "type_name KJob = ''*v1.Job''"

definition owner_forbidden :: "go_error \<Rightarrow> bool" where
  "owner_forbidden e \<longleftrightarrow>
     go_Contains (error_text e) ''cluster-scoped resource must not have a namespace-scoped owner''
     \<or> go_Contains (error_text e) ''cross-namespace owner references are disallowed''"

definition setOwner :: "'w client \<Rightarrow> logging_service \<Rightarrow> object \<Rightarrow> go_error + object" where
  "setOwner c cr obj =
     (if \<not> cl_SchemeSet c then Inr obj
      else (case cl_SetControllerReference c cr obj of
              Inr obj' \<Rightarrow> Inr obj'
            | Inl e \<Rightarrow>
                if owner_forbidden e then Inr obj
                else Inl (Errorf [Lit ''set owner reference on '', ArgS (om_Namespace (meta_of obj)), Lit ''/'',
                       ArgS (om_Name (meta_of obj)), Lit '': '', ArgW e])))"

definition op_error :: "string \<Rightarrow> object \<Rightarrow> go_error \<Rightarrow> go_error" where
  "op_error verb obj e = Errorf [Lit verb, Lit '' '', ArgS (type_name (kind_of obj)), Lit '' '',
     ArgS (om_Namespace (meta_of obj)), Lit ''/'', ArgS (om_Name (meta_of obj)), Lit '': '', ArgW e]"

definition createOrUpdate ::
  "'w client \<Rightarrow> logging_service \<Rightarrow> object \<Rightarrow> (object \<Rightarrow> object) \<Rightarrow> ('w, unit) eff" where
  "createOrUpdate c cr desired mutate =
     (case setOwner c cr desired of
        Inl e \<Rightarrow> failM e
      | Inr desired \<Rightarrow> do {
          r \<leftarrow> cl_Create c desired;
          case r of
            Inr _ \<Rightarrow> okM ()
          | Inl e \<Rightarrow>
              if \<not> IsAlreadyExists e then failM (op_error ''create'' desired e)
              else do {
                g \<leftarrow> cl_Get c (kind_of desired) (om_Namespace (meta_of desired)) (om_Name (meta_of desired));
                case g of
                  Inl e \<Rightarrow> failM (op_error ''get'' desired e)
                | Inr existing \<Rightarrow> do {
                    u \<leftarrow> cl_Update c (mutate existing);
                    case u of Inl e \<Rightarrow> failM (op_error ''update'' desired e) | Inr _ \<Rightarrow> okM () } } })"

definition mergeLabels :: "string gomap \<Rightarrow> string gomap \<Rightarrow> string gomap" where
  "mergeLabels existing desired =
     (case existing of None \<Rightarrow> desired | Some m \<Rightarrow> Some (m ++ mcontents desired))"

definition update_template :: "pod_template \<Rightarrow> pod_template \<Rightarrow> pod_template" where
  "update_template existing desired = existing\<lparr>pt_Labels := pt_Labels desired, pt_Spec := pt_Spec desired\<rparr>"

definition merge_meta :: "object_meta \<Rightarrow> object_meta \<Rightarrow> object_meta" where
  "merge_meta existing desired = existing\<lparr>om_Labels := mergeLabels (om_Labels existing) (om_Labels desired)\<rparr>"

definition mutate_daemonset :: "daemonset \<Rightarrow> daemonset \<Rightarrow> daemonset" where
  "mutate_daemonset desired existing = existing\<lparr>
     ds_Meta := merge_meta (ds_Meta existing) (ds_Meta desired),
     ds_Spec := (ds_Spec existing)\<lparr>
       dss_Template := update_template (dss_Template (ds_Spec existing)) (dss_Template (ds_Spec desired))\<rparr>\<rparr>"

definition mutate_deployment :: "deployment \<Rightarrow> deployment \<Rightarrow> deployment" where
  "mutate_deployment desired existing = existing\<lparr>
     dp_Meta := merge_meta (dp_Meta existing) (dp_Meta desired),
     dp_Spec := (dp_Spec existing)\<lparr>
       dps_Selector := dps_Selector (dp_Spec desired),
       dps_Template := update_template (dps_Template (dp_Spec existing)) (dps_Template (dp_Spec desired))\<rparr>\<rparr>"

definition mutate_statefulset :: "statefulset \<Rightarrow> statefulset \<Rightarrow> statefulset" where
  "mutate_statefulset desired existing = existing\<lparr>
     ss_Meta := merge_meta (ss_Meta existing) (ss_Meta desired),
     ss_Spec := (ss_Spec existing)\<lparr>
       sss_Replicas := sss_Replicas (ss_Spec desired),
       sss_Template := update_template (sss_Template (ss_Spec existing)) (sss_Template (ss_Spec desired))\<rparr>\<rparr>"

definition mutate_service :: "service \<Rightarrow> service \<Rightarrow> service" where
  "mutate_service desired existing = existing\<lparr>
     sv_Meta := (sv_Meta existing)\<lparr>om_Labels := om_Labels (sv_Meta desired)\<rparr>,
     sv_Spec := (sv_Spec existing)\<lparr>svs_Ports := svs_Ports (sv_Spec desired),
       svs_Selector := svs_Selector (sv_Spec desired)\<rparr>\<rparr>"

definition mutate_serviceaccount :: "service_account \<Rightarrow> service_account \<Rightarrow> service_account" where
  "mutate_serviceaccount desired existing = existing\<lparr>
     sa_Meta := (sa_Meta existing)\<lparr>om_Labels := om_Labels (sa_Meta desired)\<rparr>\<rparr>"

text \<open>The closure passed to \<open>createOrUpdate\<close> for each kind; Go's types rule out the last case.\<close>

fun mutate :: "object \<Rightarrow> object \<Rightarrow> object" where
  "mutate (ODaemonSet d) (ODaemonSet e) = ODaemonSet (mutate_daemonset d e)"
| "mutate (ODeployment d) (ODeployment e) = ODeployment (mutate_deployment d e)"
| "mutate (OStatefulSet d) (OStatefulSet e) = OStatefulSet (mutate_statefulset d e)"
| "mutate (OService d) (OService e) = OService (mutate_service d e)"
| "mutate (OServiceAccount d) (OServiceAccount e) = OServiceAccount (mutate_serviceaccount d e)"
| "mutate _ e = e"

definition reconcile_DaemonSet :: "'w client \<Rightarrow> logging_service \<Rightarrow> daemonset \<Rightarrow> ('w, unit) eff" where
  "reconcile_DaemonSet c cr desired = createOrUpdate c cr (ODaemonSet desired) (mutate (ODaemonSet desired))"

definition reconcile_Deployment :: "'w client \<Rightarrow> logging_service \<Rightarrow> deployment \<Rightarrow> ('w, unit) eff" where
  "reconcile_Deployment c cr desired = createOrUpdate c cr (ODeployment desired) (mutate (ODeployment desired))"

definition reconcile_StatefulSet :: "'w client \<Rightarrow> logging_service \<Rightarrow> statefulset \<Rightarrow> ('w, unit) eff" where
  "reconcile_StatefulSet c cr desired = createOrUpdate c cr (OStatefulSet desired) (mutate (OStatefulSet desired))"

definition reconcile_Service :: "'w client \<Rightarrow> logging_service \<Rightarrow> service \<Rightarrow> ('w, unit) eff" where
  "reconcile_Service c cr desired = createOrUpdate c cr (OService desired) (mutate (OService desired))"

definition reconcile_ServiceAccount :: "'w client \<Rightarrow> logging_service \<Rightarrow> service_account \<Rightarrow> ('w, unit) eff" where
  "reconcile_ServiceAccount c cr desired =
     createOrUpdate c cr (OServiceAccount desired) (mutate (OServiceAccount desired))"

lemmas reconcile_defs = reconcile_DaemonSet_def reconcile_Deployment_def reconcile_StatefulSet_def
  reconcile_Service_def reconcile_ServiceAccount_def

subsection \<open>\<open>ComponentReconciler\<close>\<close>

text \<open>\<open>CreateResource\<close> with its default \<open>setRef\<close>; the object with its owner is what it creates.\<close>

definition CreateResource :: "'w client \<Rightarrow> logging_service \<Rightarrow> object \<Rightarrow> ('w, unit) eff" where
  "CreateResource c cr obj =
     (case cl_SetControllerReference c cr obj of
        Inr obj' \<Rightarrow> cl_Create c obj'
      | Inl e \<Rightarrow> if \<not> owner_forbidden e then failM e else cl_Create c obj)"

definition GetResource :: "'w client \<Rightarrow> kind \<Rightarrow> string \<Rightarrow> string \<Rightarrow> ('w, object) eff" where
  "GetResource c k ns nm = do {
     r \<leftarrow> cl_Get c k ns nm;
     case r of
       Inr obj \<Rightarrow> okM obj
     | Inl e \<Rightarrow>
         if IsNotFound e then do {
           r' \<leftarrow> cl_Get c k [] nm;
           case r' of Inr obj \<Rightarrow> okM obj | Inl _ \<Rightarrow> failM e }
         else failM e }"

definition UpdateResource :: "'w client \<Rightarrow> object \<Rightarrow> ('w, unit) eff" where
  "UpdateResource c obj = cl_Update c obj"

definition DeleteResource :: "'w client \<Rightarrow> object \<Rightarrow> ('w, unit) eff" where
  "DeleteResource c obj = cl_Delete c obj"

text \<open>The idiom of every \<open>delete...\<close> method of the component reconcilers.\<close>

definition deleteIfExists :: "'w client \<Rightarrow> kind \<Rightarrow> string \<Rightarrow> string \<Rightarrow> ('w, unit) eff" where
  "deleteIfExists c k ns nm = do {
     r \<leftarrow> GetResource c k ns nm;
     case r of
       Inl e \<Rightarrow> if IsNotFound e then okM () else failM e
     | Inr obj \<Rightarrow> DeleteResource c obj }"

definition DeleteLegacyConfigMap :: "'w client \<Rightarrow> string \<Rightarrow> string \<Rightarrow> ('w, unit) eff" where
  "DeleteLegacyConfigMap c ns nm = do {
     r \<leftarrow> GetResource c KConfigMap ns nm;
     case r of
       Inl e \<Rightarrow> if IsNotFound e then okM () else failM e
     | Inr obj \<Rightarrow> DeleteResource c obj }"

definition EqualConfigSecret :: "secret \<Rightarrow> secret \<Rightarrow> bool" where
  "EqualConfigSecret source target \<longleftrightarrow>
     se_Data source = se_Data target \<and> om_Labels (se_Meta source) = om_Labels (se_Meta target)"

text \<open>\<open>CreateResource\<close> has set the owner on the desired Secret, which is what is updated.\<close>

definition owned_secret :: "'w client \<Rightarrow> logging_service \<Rightarrow> secret \<Rightarrow> secret" where
  "owned_secret c cr s =
     (case cl_SetControllerReference c cr (OSecret s) of Inr (OSecret s') \<Rightarrow> s' | _ \<Rightarrow> s)"

definition CreateOrUpdateConfigSecret :: "'w client \<Rightarrow> logging_service \<Rightarrow> secret \<Rightarrow> ('w, bool) eff" where
  "CreateOrUpdateConfigSecret c cr s = do {
     r \<leftarrow> CreateResource c cr (OSecret s);
     case r of
       Inr _ \<Rightarrow> okM True
     | Inl e \<Rightarrow>
         if \<not> IsAlreadyExists e then failM e
         else do {
           g \<leftarrow> GetResource c KSecret (om_Namespace (se_Meta s)) (om_Name (se_Meta s));
           case g of
             Inl e \<Rightarrow> failM e
           | Inr existing \<Rightarrow>
               (case existing of
                  OSecret existingSecret \<Rightarrow>
                    if EqualConfigSecret existingSecret s then okM False
                    else (let desired = owned_secret c cr s;
                              desired = desired\<lparr>se_Meta := (se_Meta desired)\<lparr>
                                om_ResourceVersion := om_ResourceVersion (se_Meta existingSecret)\<rparr>\<rparr>
                          in tryM (UpdateResource c (OSecret desired)) (\<lambda>_. okM True))
                | _ \<Rightarrow> okM False) } }"

section \<open>Labels and templates\<close>

lemma mergeLabels_contents: "mcontents (mergeLabels e d) = mcontents e ++ mcontents d"
  by (cases e) (simp_all add: mergeLabels_def)

text \<open>Merging again changes nothing.\<close>

lemma mergeLabels_idem: "mergeLabels (mergeLabels e d) d = mergeLabels e d"
  by (cases e; cases d) (simp_all add: mergeLabels_def map_add_def fun_eq_iff split: option.split)

lemma mutate_idem: "mutate d (mutate d e) = mutate d e"
  by (cases d; cases e) (simp_all add: mutate_daemonset_def mutate_deployment_def mutate_statefulset_def
      mutate_service_def mutate_serviceaccount_def merge_meta_def update_template_def mergeLabels_idem)

lemma mutate_key [simp]: "key_of (mutate d e) = key_of e"
  by (cases d; cases e) (simp_all add: key_of_def mutate_daemonset_def mutate_deployment_def
      mutate_statefulset_def mutate_service_def mutate_serviceaccount_def merge_meta_def)

lemma mutate_labels:
  assumes "kind_of d = kind_of e" and "kind_of d \<in> {KDaemonSet, KDeployment, KStatefulSet}"
  shows "mcontents (om_Labels (meta_of (mutate d e))) = mcontents (om_Labels (meta_of e)) ++ mcontents (om_Labels (meta_of d))"
  using assms by (cases d; cases e) (simp_all add: mutate_daemonset_def mutate_deployment_def
      mutate_statefulset_def merge_meta_def mergeLabels_contents)

section \<open>What an operation changes\<close>

definition only_changes :: "('w \<Rightarrow> obj_key \<Rightarrow> object option) \<Rightarrow> obj_key set \<Rightarrow> 'w \<Rightarrow> 'w \<Rightarrow> bool" where
  "only_changes view K w w' \<longleftrightarrow> (\<forall>k. k \<notin> K \<longrightarrow> view w' k = view w k)"

lemma only_changesI: "(\<And>k. k \<notin> K \<Longrightarrow> view w' k = view w k) \<Longrightarrow> only_changes view K w w'"
  by (simp add: only_changes_def)

lemma only_changes_view: "view w' = view w \<Longrightarrow> only_changes view K w w'"
  by (simp add: only_changes_def)

lemma only_changes_mono: "only_changes view K w w' \<Longrightarrow> K \<subseteq> L \<Longrightarrow> only_changes view L w w'"
  by (auto simp: only_changes_def)

interpretation cluster: effect_frame "only_changes view K" for view K
  by unfold_locales (auto simp: only_changes_def)

lemma keeps_mono: "keeps (only_changes view K) m \<Longrightarrow> K \<subseteq> L \<Longrightarrow> keeps (only_changes view L) m"
  by (auto simp: keeps_def intro: only_changes_mono)

lemma setOwner_stored:
  assumes "cluster_laws c view" and "setOwner c cr obj = Inr obj'"
  shows "stored_as obj obj'"
  using assms cluster_laws_owner [OF assms(1)]
  by (auto simp: setOwner_def split: if_splits sum.splits)

lemma keeps_Get: "cluster_laws c view \<Longrightarrow> keeps (only_changes view K) (cl_Get c k ns n)"
  by (rule keepsI) (metis cluster_laws_get(1) only_changes_view prod.collapse)

lemma keeps_Create:
  assumes "cluster_laws c view" and "key_of obj \<in> K"
  shows "keeps (only_changes view K) (cl_Create c obj)"
proof (rule keepsI)
  fix w
  obtain r w' where r: "run_state (cl_Create c obj) w = (r, w')" by fastforce
  show "only_changes view K w (snd (run_state (cl_Create c obj) w))"
    using cluster_laws_create [OF assms(1) r] assms(2) r by (cases r) (auto simp: only_changes_def)
qed

lemma keeps_Update:
  assumes "cluster_laws c view" and "key_of obj \<in> K"
  shows "keeps (only_changes view K) (cl_Update c obj)"
proof (rule keepsI)
  fix w
  obtain r w' where r: "run_state (cl_Update c obj) w = (r, w')" by fastforce
  show "only_changes view K w (snd (run_state (cl_Update c obj) w))"
    using cluster_laws_update [OF assms(1) r] assms(2) r by (cases r) (auto simp: only_changes_def)
qed

lemma keeps_Delete:
  assumes "cluster_laws c view" and "key_of obj \<in> K"
  shows "keeps (only_changes view K) (cl_Delete c obj)"
proof (rule keepsI)
  fix w
  obtain r w' where r: "run_state (cl_Delete c obj) w = (r, w')" by fastforce
  show "only_changes view K w (snd (run_state (cl_Delete c obj) w))"
    using cluster_laws_delete [OF assms(1) r] assms(2) r by (cases r) (auto simp: only_changes_def)
qed

section \<open>What an operation achieves\<close>

lemma setOwner_key: "cluster_laws c view \<Longrightarrow> setOwner c cr obj = Inr obj' \<Longrightarrow> key_of obj' = key_of obj"
  by (metis setOwner_stored stored_as_key)

lemma key_of_parts: "(kind_of obj, om_Namespace (meta_of obj), om_Name (meta_of obj)) = key_of obj"
  by (simp add: key_of_def)

text \<open>A failed \<open>createOrUpdate\<close> has changed nothing; a successful one has created the desired object,
  or stored the existing one with the operator's fields applied, and touched no other object.\<close>

lemma createOrUpdate_cases:
  assumes laws: "cluster_laws c view" and run: "run_state (createOrUpdate c cr d m) w = (r, w')"
  shows "(\<exists>e. r = Inl e) \<and> view w' = view w
    \<or> r = Inr () \<and> view w (key_of d) = None \<and> (\<exists>o'. stored_as d o' \<and> view w' = (view w)(key_of d \<mapsto> o'))
    \<or> r = Inr () \<and> (\<exists>ex o'. view w (key_of d) = Some ex \<and> key_of ex = key_of d \<and> stored_as (m ex) o'
          \<and> view w' = (view w)(key_of (m ex) \<mapsto> o'))"
proof (cases "setOwner c cr d")
  case (Inl e)
  then show ?thesis using run by (auto simp: createOrUpdate_def)
next
  case (Inr od)
  then have st: "stored_as d od" and key: "key_of od = key_of d"
    using setOwner_stored [OF laws] setOwner_key [OF laws] by auto
  obtain r1 w1 where r1: "run_state (cl_Create c od) w = (r1, w1)" by fastforce
  note c1 = cluster_laws_create [OF laws r1]
  show ?thesis
  proof (cases r1)
    case (Inr u)
    then have "r = Inr ()" "w' = w1" using run Inr_inject r1 \<open>setOwner c cr d = Inr od\<close>
      by (simp_all add: createOrUpdate_def)
    then show ?thesis using c1(1) [OF Inr] st key by (auto intro: stored_as_trans)
  next
    case (Inl e1)
    note v1 = c1(2) [OF Inl]
    show ?thesis
    proof (cases "IsAlreadyExists e1")
      case False
      then show ?thesis using run r1 Inl v1 \<open>setOwner c cr d = Inr od\<close> by (auto simp: createOrUpdate_def)
    next
      case True
      obtain g w2 where g: "run_state (cl_Get c (kind_of od) (om_Namespace (meta_of od)) (om_Name (meta_of od))) w1 = (g, w2)"
        by fastforce
      note c2 = cluster_laws_get [OF laws g, unfolded key_of_parts]
      show ?thesis
      proof (cases g)
        case (Inl e2)
        then show ?thesis using run r1 \<open>r1 = Inl e1\<close> True g v1 c2(1) \<open>setOwner c cr d = Inr od\<close>
          by (auto simp: createOrUpdate_def)
      next
        case (Inr ex)
        obtain u w3 where u: "run_state (cl_Update c (m ex)) w2 = (u, w3)" by fastforce
        note c3 = cluster_laws_update [OF laws u]
        have "r = (case u of Inl e \<Rightarrow> Inl (op_error ''update'' od e) | Inr _ \<Rightarrow> Inr ())" "w' = w3"
          using run r1 \<open>r1 = Inl e1\<close> True g Inr u \<open>setOwner c cr d = Inr od\<close>
          by (cases u; auto simp: createOrUpdate_def)+
        then show ?thesis using c2(2) [OF Inr] c2(1) c3 v1 key by (cases u) auto
      qed
    qed
  qed
qed

lemma keeps_createOrUpdate:
  assumes laws: "cluster_laws c view" and "key_of d \<in> K" and m: "\<And>ex. key_of (m ex) = key_of ex"
  shows "keeps (only_changes view K) (createOrUpdate c cr d m)"
proof (rule keepsI)
  fix w
  obtain r w' where r: "run_state (createOrUpdate c cr d m) w = (r, w')" by fastforce
  show "only_changes view K w (snd (run_state (createOrUpdate c cr d m) w))"
    using createOrUpdate_cases [OF laws r] assms(2) m r by (auto simp: only_changes_def)
qed

lemma createOrUpdate_present:
  assumes laws: "cluster_laws c view" and run: "run_state (createOrUpdate c cr d (mutate d)) w = (Inr u, w')"
  shows "view w' (key_of d) \<noteq> None"
  using createOrUpdate_cases [OF laws run] by auto

lemma keeps_GetResource: "cluster_laws c view \<Longrightarrow> keeps (only_changes view K) (GetResource c k ns nm)"
  unfolding GetResource_def by (intro cluster.keeps_rules keeps_Get)

lemma GetResource_cases:
  assumes laws: "cluster_laws c view" and run: "run_state (GetResource c k ns nm) w = (r, w')"
  shows "view w' = view w"
    and "r = Inr obj \<Longrightarrow> key_of obj = (k, ns, nm) \<and> view w (k, ns, nm) = Some obj
      \<or> view w (k, ns, nm) = None \<and> key_of obj = (k, [], nm) \<and> view w (k, [], nm) = Some obj"
    and "r = Inl e \<Longrightarrow> IsNotFound e \<Longrightarrow> view w (k, ns, nm) = None"
proof -
  obtain r1 w1 where r1: "run_state (cl_Get c k ns nm) w = (r1, w1)" by fastforce
  obtain r2 w2 where r2: "run_state (cl_Get c k [] nm) w1 = (r2, w2)" by fastforce
  note l1 = cluster_laws_get [OF laws r1] and l2 = cluster_laws_get [OF laws r2]
  have run': "(r, w') = (case r1 of Inr obj \<Rightarrow> (Inr obj, w1)
      | Inl e \<Rightarrow> if IsNotFound e then (case r2 of Inr obj \<Rightarrow> (Inr obj, w2) | Inl _ \<Rightarrow> (Inl e, w2)) else (Inl e, w1))"
    using run r1 r2 by (cases r1; cases r2) (auto simp: GetResource_def split: if_splits)
  then show "view w' = view w" using l1(1) l2(1) by (auto split: sum.splits if_splits)
  show "r = Inr obj \<Longrightarrow> key_of obj = (k, ns, nm) \<and> view w (k, ns, nm) = Some obj
      \<or> view w (k, ns, nm) = None \<and> key_of obj = (k, [], nm) \<and> view w (k, [], nm) = Some obj"
    using run' l1 l2 by (auto split: sum.splits if_splits)
  show "r = Inl e \<Longrightarrow> IsNotFound e \<Longrightarrow> view w (k, ns, nm) = None"
    using run' l1 l2 by (auto split: sum.splits if_splits)
qed

text \<open>A deletion that reports success has removed the object; it touches nothing else but, for an
  object missing from the namespace, one of the same name outside every namespace.\<close>

lemma deleteIfExists_cases:
  assumes laws: "cluster_laws c view" and run: "run_state (deleteIfExists c k ns nm) w = (r, w')"
  shows "r = Inr () \<Longrightarrow> view w' (k, ns, nm) = None"
    and "only_changes view {(k, ns, nm), (k, [], nm)} w w'"
    and "r = Inl e \<Longrightarrow> view w' = view w"
proof -
  obtain r1 w1 where r1: "run_state (GetResource c k ns nm) w = (r1, w1)" by fastforce
  note l1 = GetResource_cases [OF laws r1]
  have *: "(r = Inr () \<longrightarrow> view w' (k, ns, nm) = None) \<and> only_changes view {(k, ns, nm), (k, [], nm)} w w'
      \<and> (\<forall>e. r = Inl e \<longrightarrow> view w' = view w)"
  proof (cases r1)
    case (Inl e1)
    then have "w' = w1" "r = Inr () \<Longrightarrow> IsNotFound e1"
      using run r1 by (simp_all add: deleteIfExists_def split: if_splits)
    then show ?thesis using l1(1) l1(3) [OF Inl] by (auto intro: only_changes_view)
  next
    case (Inr obj)
    then have d: "run_state (cl_Delete c obj) w1 = (r, w')"
      using run r1 by (simp add: deleteIfExists_def DeleteResource_def)
    show ?thesis
    proof (cases r)
      case (Inl e)
      then show ?thesis using cluster_laws_delete(2) [OF laws d] l1(1) by (simp add: only_changes_view)
    next
      case (Inr u)
      have v: "view w' = (view w)(key_of obj := None)" using cluster_laws_delete(1) [OF laws d Inr] l1(1) by simp
      from l1(2) [OF \<open>r1 = Inr obj\<close>] have "view w' (k, ns, nm) = None" "key_of obj \<in> {(k, ns, nm), (k, [], nm)}"
        unfolding v by auto
      then show ?thesis using Inr unfolding only_changes_def v by auto
    qed
  qed
  from * show "r = Inr () \<Longrightarrow> view w' (k, ns, nm) = None"
    and "only_changes view {(k, ns, nm), (k, [], nm)} w w'"
    and "r = Inl e \<Longrightarrow> view w' = view w" by auto
qed

lemma DeleteLegacyConfigMap_eq: "DeleteLegacyConfigMap c ns nm = deleteIfExists c KConfigMap ns nm"
  by (simp add: DeleteLegacyConfigMap_def deleteIfExists_def)

lemma keeps_deleteIfExists:
  "cluster_laws c view \<Longrightarrow> {(k, ns, nm), (k, [], nm)} \<subseteq> K \<Longrightarrow> keeps (only_changes view K) (deleteIfExists c k ns nm)"
  by (rule keepsI) (metis deleteIfExists_cases(2) only_changes_mono prod.collapse)

section \<open>Configuration Secrets\<close>

lemma owned_secret_stored: "cluster_laws c view \<Longrightarrow> stored_as (OSecret s) (OSecret (owned_secret c cr s))"
  using cluster_laws_owner [of c view cr "OSecret s"]
  by (auto simp: owned_secret_def split: sum.splits object.splits)

lemma stored_as_version:
  "stored_as (OSecret s) (OSecret t) \<Longrightarrow>
   stored_as (OSecret s) (OSecret (t\<lparr>se_Meta := (se_Meta t)\<lparr>om_ResourceVersion := v\<rparr>\<rparr>))"
  by (simp add: stored_as_def key_of_def payload_def)

lemma EqualConfigSecret_stored:
  "EqualConfigSecret ex s \<Longrightarrow> key_of (OSecret ex) = key_of (OSecret s) \<Longrightarrow> stored_as (OSecret s) (OSecret ex)"
  by (simp add: EqualConfigSecret_def stored_as_def payload_def)

lemma CreateResource_cases:
  assumes laws: "cluster_laws c view" and run: "run_state (CreateResource c cr obj) w = (r, w')"
  shows "r = Inr u \<Longrightarrow> view w (key_of obj) = None
      \<and> (\<exists>obj'. stored_as obj obj' \<and> view w' = (view w)(key_of obj \<mapsto> obj'))"
    and "r = Inl e \<Longrightarrow> view w' = view w"
    and "r = Inl e \<Longrightarrow> IsAlreadyExists e \<Longrightarrow> view w (key_of obj) \<noteq> None"
proof -
  consider (owned) obj' where "cl_SetControllerReference c cr obj = Inr obj'"
      "run_state (cl_Create c obj') w = (r, w')" "stored_as obj obj'"
    | (unowned) "run_state (cl_Create c obj) w = (r, w')"
    | (failed) e where "cl_SetControllerReference c cr obj = Inl e" "r = Inl e" "w' = w"
    using run cluster_laws_owner [OF laws]
    by (auto simp: CreateResource_def split: sum.splits if_splits)
  note cases = this
  show "r = Inr u \<Longrightarrow> view w (key_of obj) = None
      \<and> (\<exists>obj'. stored_as obj obj' \<and> view w' = (view w)(key_of obj \<mapsto> obj'))"
  proof (cases rule: cases)
    case (owned obj')
    assume r: "r = Inr u"
    from cluster_laws_create(1) [OF laws owned(2) r] obtain obj'' where "stored_as obj' obj''"
      "view w (key_of obj') = None" "view w' = (view w)(key_of obj' \<mapsto> obj'')" by auto
    then show ?thesis using stored_as_trans [OF owned(3)] stored_as_key [OF owned(3)] by auto
  next
    case unowned
    assume "r = Inr u"
    from cluster_laws_create(1) [OF laws unowned this] show ?thesis .
  qed simp
  show "r = Inl e \<Longrightarrow> view w' = view w"
    by (cases rule: cases) (use cluster_laws_create(2) [OF laws] in auto)
  show "r = Inl e \<Longrightarrow> IsAlreadyExists e \<Longrightarrow> view w (key_of obj) \<noteq> None"
    by (cases rule: cases) (use cluster_laws_create(3) [OF laws] cluster_laws_owner_error [OF laws] stored_as_key in \<open>metis sum.inject(1)\<close>)+
qed

lemma CreateOrUpdateConfigSecret_exists:
  assumes "run_state (CreateResource c cr (OSecret s)) w = (Inl e, w1)" and "IsAlreadyExists e"
    and "run_state (GetResource c KSecret (om_Namespace (se_Meta s)) (om_Name (se_Meta s))) w1 = (Inr (OSecret ex), w2)"
  shows "run_state (CreateOrUpdateConfigSecret c cr s) w =
    (if EqualConfigSecret ex s then (Inr False, w2)
     else (let d = owned_secret c cr s;
               d' = d\<lparr>se_Meta := (se_Meta d)\<lparr>om_ResourceVersion := om_ResourceVersion (se_Meta ex)\<rparr>\<rparr>
           in case run_state (cl_Update c (OSecret d')) w2 of
                (Inr _, w3) \<Rightarrow> (Inr True, w3) | (Inl e, w3) \<Rightarrow> (Inl e, w3)))"
  using assms by (simp add: CreateOrUpdateConfigSecret_def UpdateResource_def run_tryM Let_def split: prod.split sum.split)

text \<open>An error leaves the cluster as it was. On success the cluster holds the desired data and labels,
  no other object has changed, and the reported flag is true exactly when something was written.\<close>

text \<open>The Secret exists: nothing is written when it is equal to the desired one.\<close>

lemma CreateOrUpdateConfigSecret_update:
  assumes laws: "cluster_laws c view" and run: "run_state (CreateOrUpdateConfigSecret c cr s) w = (r, w')"
    and r1: "run_state (CreateResource c cr (OSecret s)) w = (Inl e, w1)" and e: "IsAlreadyExists e" and v1: "view w1 = view w"
    and g: "run_state (GetResource c KSecret (om_Namespace (se_Meta s)) (om_Name (se_Meta s))) w1 = (Inr (OSecret ex), w2)"
    and v2: "view w2 = view w1" and ex: "key_of (OSecret ex) = key_of (OSecret s)" "view w (key_of (OSecret s)) = Some (OSecret ex)"
  shows "(\<exists>e. r = Inl e) \<and> view w' = view w
    \<or> (\<exists>b o'. r = Inr b \<and> stored_as (OSecret s) o' \<and> view w' = (view w)(key_of (OSecret s) \<mapsto> o')
        \<and> (\<not> b \<longrightarrow> view w' = view w))"
proof -
  let ?k = "key_of (OSecret s)"
  note eq = CreateOrUpdateConfigSecret_exists [OF r1 e g]
  show ?thesis
  proof (cases "EqualConfigSecret ex s")
    case True
    then have "r = Inr False" "view w' = view w" using run eq v2 v1 by auto
    moreover have "view w = (view w)(?k \<mapsto> OSecret ex)" using ex(2) by auto
    ultimately show ?thesis using EqualConfigSecret_stored [OF True] ex(1) by auto
  next
    case False
    let ?d = "(owned_secret c cr s)\<lparr>se_Meta := (se_Meta (owned_secret c cr s))\<lparr>
      om_ResourceVersion := om_ResourceVersion (se_Meta ex)\<rparr>\<rparr>"
    have st: "stored_as (OSecret s) (OSecret ?d)"
      by (rule stored_as_version [OF owned_secret_stored [OF laws]])
    obtain u w3 where u: "run_state (cl_Update c (OSecret ?d)) w2 = (u, w3)" by fastforce
    show ?thesis
      using run eq False u v2 v1 cluster_laws_update [OF laws u] st stored_as_key [OF st]
      by (cases u) (auto simp: Let_def intro: stored_as_trans)
  qed
qed

lemma CreateOrUpdateConfigSecret_cases:
  assumes laws: "cluster_laws c view" and run: "run_state (CreateOrUpdateConfigSecret c cr s) w = (r, w')"
  shows "(\<exists>e. r = Inl e) \<and> view w' = view w
    \<or> (\<exists>b o'. r = Inr b \<and> stored_as (OSecret s) o' \<and> view w' = (view w)(key_of (OSecret s) \<mapsto> o')
        \<and> (\<not> b \<longrightarrow> view w' = view w))"
proof -
  let ?k = "key_of (OSecret s)"
  obtain r1 w1 where r1: "run_state (CreateResource c cr (OSecret s)) w = (r1, w1)" by fastforce
  note c1 = CreateResource_cases [OF laws r1]
  show ?thesis
  proof (cases r1)
    case (Inr u)
    then have "r = Inr True" "w' = w1" using run r1 by (simp_all add: CreateOrUpdateConfigSecret_def)
    then show ?thesis using c1(1) [OF Inr] by auto
  next
    case (Inl e)
    note v1 = c1(2) [OF Inl]
    show ?thesis
    proof (cases "IsAlreadyExists e")
      case False
      then show ?thesis using run r1 Inl v1 by (auto simp: CreateOrUpdateConfigSecret_def)
    next
      case True
      obtain g w2 where g: "run_state (GetResource c KSecret (om_Namespace (se_Meta s)) (om_Name (se_Meta s))) w1 = (g, w2)"
        by fastforce
      note c2 = GetResource_cases [OF laws g]
      have k: "(KSecret, om_Namespace (se_Meta s), om_Name (se_Meta s)) = ?k" by (simp add: key_of_def)
      have present: "view w1 ?k \<noteq> None" using c1(3) [OF Inl True] v1 by auto
      show ?thesis
      proof (cases g)
        case (Inl e2)
        then show ?thesis using run r1 \<open>r1 = Inl e\<close> True g v1 c2(1) by (auto simp: CreateOrUpdateConfigSecret_def)
      next
        case (Inr obj)
        with c2(2) [OF Inr] present have obj: "key_of obj = ?k" "view w ?k = Some obj" unfolding k v1 by auto
        then obtain ex where ex: "obj = OSecret ex" by (cases obj) (auto simp: key_of_def)
        show ?thesis
          by (rule CreateOrUpdateConfigSecret_update [OF laws run r1 [unfolded Inl] True v1 g [unfolded Inr ex] c2(1)
            obj [unfolded ex]])
      qed
    qed
  qed
qed

end
