(* ===== verification/Credentials.thy ===== *)
theory Credentials
  imports Reconcilers
begin

text \<open>
  The credentials of the log outputs (\<open>internal/utils/output_credentials.go\<close>): reading the Secrets an
  output refers to, rejecting values a configuration format cannot carry, and quoting values for
  FluentD. A destination pointer \<open>Values\<close> is an update function of the credentials it points into.
  The locale \<open>line_validator\<close> collects what both validators promise.
\<close>

section \<open>Definitions\<close>

definition zero_auth_values :: auth_values where
  "zero_auth_values = \<lparr>av_Token = [], av_User = [], av_Password = []\<rparr>"

record 'c OutputAuth =
  oa_Values :: "(auth_values \<Rightarrow> 'c \<Rightarrow> 'c) option"
  oa_Enabled :: bool
  oa_Auth :: "auth option"

type_synonym credentialValidator = "string \<Rightarrow> go_error option"

definition StringMapToByteMap :: "(string \<rightharpoonup> string) \<Rightarrow> string gomap" where
  "StringMapToByteMap m = Some m"

definition read_error :: "string \<Rightarrow> string \<Rightarrow> go_error \<Rightarrow> go_error" where
  "read_error nm ns e = Errorf [Lit ''cannot read secret '', ArgQ nm, Lit '' in namespace '', ArgQ ns, Lit '': '', ArgW e]"

definition missing_key_error :: "string \<Rightarrow> string \<Rightarrow> string \<Rightarrow> go_error" where
  "missing_key_error key nm ns = Errorf [Lit ''key '', ArgQ key, Lit '' not found or empty in secret '', ArgQ nm,
     Lit '' in namespace '', ArgQ ns]"

definition invalid_value_error :: "string \<Rightarrow> string \<Rightarrow> string \<Rightarrow> go_error \<Rightarrow> go_error" where
  "invalid_value_error key nm ns e = Errorf [Lit ''key '', ArgQ key, Lit '' in secret '', ArgQ nm,
     Lit '' in namespace '', ArgQ ns, Lit '' '', ArgW e]"

definition secret_data :: "object \<Rightarrow> string gomap" where
  "secret_data obj = (case obj of OSecret s \<Rightarrow> se_Data s | _ \<Rightarrow> None)"

definition ResolveSecretKeyValue :: "'w client \<Rightarrow> string \<Rightarrow> secret_key_selector option \<Rightarrow> ('w, string) eff" where
  "ResolveSecretKeyValue c ns selector =
     (case selector of
        None \<Rightarrow> okM []
      | Some sel \<Rightarrow> do {
          r \<leftarrow> cl_Get c KSecret ns (sks_Name sel);
          case r of
            Inl e \<Rightarrow> failM (read_error (sks_Name sel) ns e)
          | Inr obj \<Rightarrow>
              (case mget (secret_data obj) (sks_Key sel) of
                 None \<Rightarrow> failM (missing_key_error (sks_Key sel) (sks_Name sel) ns)
               | Some value \<Rightarrow>
                   if length value = 0 then failM (missing_key_error (sks_Key sel) (sks_Name sel) ns)
                   else okM value) })"

definition validateSingleLineValue :: credentialValidator where
  "validateSingleLineValue value =
     (if go_ContainsAny value [CHR 0x0D, CHR 0x0A, CHR 0x00]
      then Some (errors_New ''must not contain a line break or a NUL byte'') else None)"

definition validateFluentbitValue :: credentialValidator where
  "validateFluentbitValue value =
     (case validateSingleLineValue value of
        Some e \<Rightarrow> Some e
      | None \<Rightarrow>
          if go_Contains value ''${''
          then Some (errors_New ''must not contain \"${\" because Fluent Bit expands it as an environment variable reference'')
          else None)"

text \<open>One iteration of the loop over the fields of an \<open>Auth\<close> block: read, validate, store.\<close>

definition resolve_field :: "'w client \<Rightarrow> string \<Rightarrow> credentialValidator
    \<Rightarrow> secret_key_selector option \<Rightarrow> (string \<Rightarrow> auth_values \<Rightarrow> auth_values) \<Rightarrow> auth_values \<Rightarrow> ('w, auth_values) eff" where
  "resolve_field c ns validate selector target values =
     (case selector of
        None \<Rightarrow> okM values
      | Some sel \<Rightarrow>
          tryM (ResolveSecretKeyValue c ns (Some sel)) (\<lambda>value.
            case validate value of
              Some e \<Rightarrow> failM (invalid_value_error (sks_Key sel) (sks_Name sel) ns e)
            | None \<Rightarrow> okM (target value values)))"

definition resolveAuthValues :: "'w client \<Rightarrow> string \<Rightarrow> auth \<Rightarrow> credentialValidator \<Rightarrow> ('w, auth_values) eff" where
  "resolveAuthValues c ns a validate =
     tryM (resolve_field c ns validate (auth_Token a) (\<lambda>v vals. vals\<lparr>av_Token := v\<rparr>) zero_auth_values) (\<lambda>values.
     tryM (resolve_field c ns validate (auth_User a) (\<lambda>v vals. vals\<lparr>av_User := v\<rparr>) values) (\<lambda>values.
       resolve_field c ns validate (auth_Password a) (\<lambda>v vals. vals\<lparr>av_Password := v\<rparr>) values))"

fun resolveOutputAuth ::
  "'w client \<Rightarrow> string \<Rightarrow> credentialValidator \<Rightarrow> 'c OutputAuth list \<Rightarrow> 'c \<Rightarrow> ('w, 'c) eff" where
  "resolveOutputAuth c ns validate [] creds = okM creds"
| "resolveOutputAuth c ns validate (output # outputs) creds =
     (case (oa_Auth output, oa_Values output) of
        (Some a, Some store) \<Rightarrow>
          if \<not> oa_Enabled output then resolveOutputAuth c ns validate outputs creds
          else tryM (resolveAuthValues c ns a validate) (\<lambda>values.
                 resolveOutputAuth c ns validate outputs (store values creds))
      | _ \<Rightarrow> resolveOutputAuth c ns validate outputs creds)"

definition ResolveFluentdOutputAuth :: "'w client \<Rightarrow> string \<Rightarrow> 'c OutputAuth list \<Rightarrow> 'c \<Rightarrow> ('w, 'c) eff" where
  "ResolveFluentdOutputAuth c ns outputs creds = resolveOutputAuth c ns validateSingleLineValue outputs creds"

definition ResolveFluentbitOutputAuth :: "'w client \<Rightarrow> string \<Rightarrow> 'c OutputAuth list \<Rightarrow> 'c \<Rightarrow> ('w, 'c) eff" where
  "ResolveFluentbitOutputAuth c ns outputs creds = resolveOutputAuth c ns validateFluentbitValue outputs creds"

abbreviation backslash :: char where "backslash \<equiv> CHR 0x5C"
abbreviation quote_char :: char where "quote_char \<equiv> CHR 0x27"

definition FluentdQuote :: "string \<Rightarrow> string" where
  "FluentdQuote value =
     (let escaped = go_ReplaceAll value [backslash] [backslash, backslash];
          escaped = go_ReplaceAll escaped [quote_char] [backslash, quote_char]
      in [quote_char] @ escaped @ [quote_char])"

section \<open>Validators\<close>

text \<open>A validator accepts only values without line breaks and NUL bytes, and its message does not
  depend on the value.\<close>

definition single_line :: "string \<Rightarrow> bool" where
  "single_line v \<longleftrightarrow> CHR 0x0A \<notin> set v \<and> CHR 0x0D \<notin> set v \<and> CHR 0x00 \<notin> set v"

text \<open>The errors of resolving one field are built from the selector, the namespace, the error of
  the read and the fixed messages only.\<close>

definition field_errors :: "go_error set \<Rightarrow> string \<Rightarrow> secret_key_selector \<Rightarrow> go_error set" where
  "field_errors messages ns sel = range (read_error (sks_Name sel) ns)
     \<union> {missing_key_error (sks_Key sel) (sks_Name sel) ns}
     \<union> invalid_value_error (sks_Key sel) (sks_Name sel) ns ` messages"

locale line_validator =
  fixes validate :: credentialValidator
    and messages :: "go_error set"
  assumes accepts_single_line: "validate v = None \<Longrightarrow> single_line v"
    and fixed_messages: "validate v = Some e \<Longrightarrow> e \<in> messages"
begin

lemma resolve_field_error:
  assumes "run_state (resolve_field c ns validate selector target vals) w = (Inl e, w')"
  shows "\<exists>sel. selector = Some sel \<and> e \<in> field_errors messages ns sel"
  using assms fixed_messages
  by (auto simp: resolve_field_def ResolveSecretKeyValue_def run_tryM field_errors_def
      split: option.splits sum.splits prod.splits if_splits)

lemma resolve_field_value:
  assumes "run_state (resolve_field c ns validate selector target vals) w = (Inr vals', w')"
  shows "selector = None \<and> vals' = vals \<or> (\<exists>sel v. selector = Some sel \<and> vals' = target v vals \<and> v \<noteq> [] \<and> single_line v)"
  using assms accepts_single_line
  by (auto simp: resolve_field_def ResolveSecretKeyValue_def run_tryM
      split: option.splits sum.splits prod.splits if_splits)

lemma resolveAuthValues_error:
  assumes "run_state (resolveAuthValues c ns a validate) w = (Inl e, w')"
  shows "\<exists>sel \<in> set (List.map_filter id [auth_Token a, auth_User a, auth_Password a]). e \<in> field_errors messages ns sel"
  using assms
  by (auto simp: resolveAuthValues_def run_tryM map_filter_simps dest!: resolve_field_error
      split: prod.splits sum.splits option.splits)

lemma resolveAuthValues_value:
  assumes "run_state (resolveAuthValues c ns a validate) w = (Inr vals, w')"
  shows "single_line (av_Token vals) \<and> single_line (av_User vals) \<and> single_line (av_Password vals)
    \<and> (av_Token vals = [] \<longleftrightarrow> auth_Token a = None) \<and> (av_User vals = [] \<longleftrightarrow> auth_User a = None)
    \<and> (av_Password vals = [] \<longleftrightarrow> auth_Password a = None)"
proof -
  from assms obtain v1 w1 v2 w2 where
    "run_state (resolve_field c ns validate (auth_Token a) (\<lambda>v vals. vals\<lparr>av_Token := v\<rparr>) zero_auth_values) w = (Inr v1, w1)"
    "run_state (resolve_field c ns validate (auth_User a) (\<lambda>v vals. vals\<lparr>av_User := v\<rparr>) v1) w1 = (Inr v2, w2)"
    "run_state (resolve_field c ns validate (auth_Password a) (\<lambda>v vals. vals\<lparr>av_Password := v\<rparr>) v2) w2 = (Inr vals, w')"
    by (auto simp: resolveAuthValues_def run_tryM split: prod.splits sum.splits)
  note r = this [THEN resolve_field_value]
  have z: "single_line []" by (simp add: single_line_def)
  show ?thesis
    using r(1) r(2) r(3) z by (auto simp: zero_auth_values_def)
qed

end

lemma validateSingleLineValue_iff: "validateSingleLineValue v = None \<longleftrightarrow> single_line v"
  by (auto simp: validateSingleLineValue_def go_ContainsAny_def single_line_def list_ex_iff)

lemma validateFluentbitValue_iff:
  "validateFluentbitValue v = None \<longleftrightarrow> single_line v \<and> \<not> sublist ''${'' v"
  using validateSingleLineValue_iff [of v]
  by (auto simp: validateFluentbitValue_def go_Contains_iff_sublist split: option.splits)

abbreviation line_message :: go_error where
  "line_message \<equiv> errors_New ''must not contain a line break or a NUL byte''"

abbreviation expansion_message :: go_error where
  "expansion_message \<equiv>
     errors_New ''must not contain \"${\" because Fluent Bit expands it as an environment variable reference''"

interpretation fluentd_validator: line_validator validateSingleLineValue "{line_message}"
  by unfold_locales (auto simp: validateSingleLineValue_iff, auto simp: validateSingleLineValue_def split: if_splits)

interpretation fluentbit_validator: line_validator validateFluentbitValue "{line_message, expansion_message}"
  by unfold_locales (auto simp: validateFluentbitValue_iff, auto simp: validateFluentbitValue_def validateSingleLineValue_def
      split: if_splits)

section \<open>Quoting\<close>

text \<open>How FluentD reads a single-quoted literal: a backslash escapes a quote or a backslash and stands
  for itself before any other character; the first bare quote ends the literal.\<close>

fun read_quoted :: "string \<Rightarrow> (string \<times> string) option" where
  "read_quoted [] = None"
| "read_quoted (x # xs) =
     (if x = quote_char then Some ([], xs)
      else if x = backslash then
        (case xs of
           y # ys \<Rightarrow>
             if y = quote_char \<or> y = backslash
             then map_option (\<lambda>(v, rest). (y # v, rest)) (read_quoted ys)
             else map_option (\<lambda>(v, rest). (x # v, rest)) (read_quoted xs)
         | [] \<Rightarrow> None)
      else map_option (\<lambda>(v, rest). (x # v, rest)) (read_quoted xs))"

fun fluentd_read_literal :: "string \<Rightarrow> string option" where
  "fluentd_read_literal (x # xs) =
     (if x = quote_char then (case read_quoted xs of Some (v, []) \<Rightarrow> Some v | _ \<Rightarrow> None) else None)"
| "fluentd_read_literal [] = None"

definition escape_char :: "char \<Rightarrow> string" where
  "escape_char x = (if x = backslash then [backslash, backslash] else if x = quote_char then [backslash, quote_char] else [x])"

lemma FluentdQuote_eq: "FluentdQuote v = [quote_char] @ concat (map escape_char v) @ [quote_char]"
proof -
  have "concat (map (\<lambda>x. if x = quote_char then [backslash, quote_char] else [x])
      (concat (map (\<lambda>x. if x = backslash then [backslash, backslash] else [x]) v))) = concat (map escape_char v)"
    by (induction v) (auto simp: escape_char_def)
  then show ?thesis by (simp add: FluentdQuote_def Let_def go_ReplaceAll_char)
qed

lemma read_quoted_escape: "read_quoted (concat (map escape_char v) @ quote_char # rest) = Some (v, rest)"
  by (induction v) (auto simp: escape_char_def)

lemma FluentdQuote_roundtrip: "fluentd_read_literal (FluentdQuote v) = Some v"
  by (simp add: FluentdQuote_eq read_quoted_escape)

lemma FluentdQuote_single_line: "single_line (FluentdQuote v) \<longleftrightarrow> single_line v"
  by (auto simp: FluentdQuote_eq single_line_def escape_char_def split: if_splits)

end
