(* ===== verification/Status.thy ===== *)
theory Status
  imports Client "HOL-Library.Multiset"
begin

text \<open>
  The status conditions of the custom resource (\<open>internal/utils/status.go\<close>) and the event predicate
  (\<open>internal/utils/predicate.go\<close>). Each updater method is a pure step on the list of conditions
  followed by \<open>patch\<close>, which sends the status to the API server and reads the response back into the
  shared custom resource. The conditions are a map keyed by reason: the locale
  \<open>condition_map\<close> states this and is interpreted on the two pure steps.
\<close>

section \<open>Definitions\<close>

definition InProgress :: string where "InProgress = ''In Progress''"
definition Success :: string where "Success = ''Successful''"
definition Failed :: string where "Failed = ''Failed''"

type_synonym conditions = "logging_service_condition list"

fun find_condition :: "string \<Rightarrow> nat \<Rightarrow> conditions \<Rightarrow> (nat \<times> logging_service_condition) option" where
  "find_condition reason i [] = None"
| "find_condition reason i (x # xs) =
     (if lc_Reason x = reason then Some (i, x) else find_condition reason (Suc i) xs)"

definition GetCondition :: "string \<Rightarrow> conditions \<Rightarrow> (nat \<times> logging_service_condition) option" where
  "GetCondition reason conds =
     (if length reason \<noteq> 0 \<and> length conds \<noteq> 0 then find_condition reason 0 conds else None)"

definition IsStatusEqual :: "logging_service_condition \<Rightarrow> logging_service_condition \<Rightarrow> bool" where
  "IsStatusEqual source target =
     (source\<lparr>lc_LastTransitionTime := lc_LastTransitionTime target\<rparr> = target)"

definition set_conditions :: "conditions \<Rightarrow> logging_service \<Rightarrow> logging_service" where
  "set_conditions conds cr = cr\<lparr>ls_Status := (ls_Status cr)\<lparr>lst_Conditions := conds\<rparr>\<rparr>"

abbreviation conditions_of :: "logging_service \<Rightarrow> conditions" where
  "conditions_of cr \<equiv> lst_Conditions (ls_Status cr)"

definition patch :: "'w client \<Rightarrow> ('w opstate, unit) eff" where
  "patch c = do {
     cr \<leftarrow> get_cr;
     tryM (in_world (cl_PatchStatus c cr)) (\<lambda>cr'. do { _ \<leftarrow> modify_cr (\<lambda>_. cr'); okM () }) }"

text \<open>The conditions after \<open>RemoveStatus\<close>: the last condition moves into the gap.\<close>

definition remove_condition :: "string \<Rightarrow> conditions \<Rightarrow> conditions" where
  "remove_condition reason conds =
     (case GetCondition reason conds of
        Some (i, _) \<Rightarrow> butlast (conds[i := last conds])
      | None \<Rightarrow> conds)"

definition RemoveStatus :: "'w client \<Rightarrow> string \<Rightarrow> ('w opstate, bool) state" where
  "RemoveStatus c reason = do {
     cr \<leftarrow> get_cr;
     case GetCondition reason (conditions_of cr) of
       Some _ \<Rightarrow> do {
         _ \<leftarrow> modify_cr (set_conditions (remove_condition reason (conditions_of cr)));
         _ \<leftarrow> logged (patch c);
         State_Monad.return True }
     | None \<Rightarrow> State_Monad.return False }"

text \<open>The conditions after \<open>UpdateStatus\<close>, and whether they changed.\<close>

definition put_condition :: "logging_service_condition \<Rightarrow> conditions \<Rightarrow> conditions \<times> bool" where
  "put_condition new conds =
     (case GetCondition (lc_Reason new) conds of
        Some (i, old) \<Rightarrow>
          if lc_Type new = Failed \<and> IsStatusEqual new old then (conds, False)
          else (conds[i := new], True)
      | None \<Rightarrow> (conds @ [new], True))"

definition UpdateStatus :: "'w client \<Rightarrow> string \<Rightarrow> string \<Rightarrow> bool \<Rightarrow> string \<Rightarrow> ('w opstate, unit) state" where
  "UpdateStatus c reason statusType status message = do {
     now \<leftarrow> in_world (sys_NowText c);
     cr \<leftarrow> get_cr;
     let newCondition = \<lparr>lc_Type = statusType, lc_Reason = reason, lc_Message = message,
           lc_LastTransitionTime = now, lc_Status = status\<rparr>;
         (conds, isStatusChanged) = put_condition newCondition (conditions_of cr)
     in if isStatusChanged then do {
          _ \<leftarrow> modify_cr (set_conditions conds);
          logged (patch c) }
        else State_Monad.return () }"

text \<open>Whether \<open>RemoveTemporaryStatuses\<close> means to keep a condition.\<close>

definition keep_condition :: "logging_service_spec \<Rightarrow> logging_service_condition \<Rightarrow> bool" where
  "keep_condition spec x \<longleftrightarrow>
     lc_Reason x = LoggingServiceStatus
     \<or> lc_Type x = Failed \<and>
       (lc_Reason x = GraylogStatus \<and> graylog_IsInstall (spec_Graylog spec)
        \<or> lc_Reason x = FluentdStatus \<and> fluentd_IsInstall (spec_Fluentd spec)
        \<or> lc_Reason x = FluentbitStatus \<and> fluentbit_IsInstall (spec_Fluentbit spec)
        \<or> lc_Reason x = EventsReaderStatus \<and> eventsreader_IsInstall (spec_CloudEventsReader spec)
        \<or> lc_Reason x = MonitoringAgentStatus \<and> monitoring_IsInstall (spec_MonitoringAgentLoggingPlugin spec)
        \<or> lc_Reason x = ComponentPendingStatus)"

text \<open>The loop from the last index down; what it drops is the last element of the slice.\<close>

fun remove_temporary :: "logging_service_spec \<Rightarrow> nat \<Rightarrow> conditions \<Rightarrow> bool \<Rightarrow> conditions \<times> bool" where
  "remove_temporary spec 0 conds changed = (conds, changed)"
| "remove_temporary spec (Suc i) conds changed =
     (if keep_condition spec (conds ! i) then remove_temporary spec i conds changed
      else remove_temporary spec i (butlast conds) True)"

definition RemoveTemporaryStatuses :: "'w client \<Rightarrow> ('w opstate, unit) state" where
  "RemoveTemporaryStatuses c = do {
     cr \<leftarrow> get_cr;
     let (conds, isStatusChanged) = remove_temporary (ls_Spec cr) (length (conditions_of cr)) (conditions_of cr) False
     in if isStatusChanged then do {
          _ \<leftarrow> modify_cr (set_conditions conds);
          logged (patch c) }
        else State_Monad.return () }"

definition IsStatusFailed :: "string \<Rightarrow> conditions \<Rightarrow> bool" where
  "IsStatusFailed reason conds =
     (case GetCondition reason conds of Some (_, x) \<Rightarrow> lc_Type x = Failed | None \<Rightarrow> False)"

text \<open>The idiom that opens every \<open>Run\<close>: a failed status stays until the component succeeds.\<close>

definition start_status :: "'w client \<Rightarrow> string \<Rightarrow> string \<Rightarrow> ('w opstate, unit) state" where
  "start_status c reason message = do {
     cr \<leftarrow> get_cr;
     if \<not> IsStatusFailed reason (conditions_of cr) then UpdateStatus c reason InProgress False message
     else State_Monad.return () }"

subsection \<open>The predicate\<close>

datatype runtime_object = RLoggingService logging_service | ROther

datatype event = CreateEvent runtime_object | DeleteEvent runtime_object
  | UpdateEvent runtime_object runtime_object | GenericEvent runtime_object

definition IsStatusUpdated :: "runtime_object \<Rightarrow> runtime_object \<Rightarrow> bool" where
  "IsStatusUpdated old new =
     (case (old, new) of (RLoggingService o', RLoggingService n') \<Rightarrow> ls_Spec o' = ls_Spec n' | _ \<Rightarrow> False)"

fun SkipStatusUpdatePredicate :: "event \<Rightarrow> bool" where
  "SkipStatusUpdatePredicate (CreateEvent _) = True"
| "SkipStatusUpdatePredicate (DeleteEvent _) = True"
| "SkipStatusUpdatePredicate (UpdateEvent old new) = (\<not> IsStatusUpdated old new)"
| "SkipStatusUpdatePredicate (GenericEvent _) = True"

section \<open>The conditions as a map\<close>

definition reasons :: "conditions \<Rightarrow> string list" where
  "reasons conds = map lc_Reason conds"

definition status_inv :: "conditions \<Rightarrow> bool" where
  "status_inv conds \<longleftrightarrow> distinct (reasons conds) \<and> [] \<notin> set (reasons conds)"

definition lookup_condition :: "string \<Rightarrow> conditions \<Rightarrow> logging_service_condition option" where
  "lookup_condition reason conds = find (\<lambda>x. lc_Reason x = reason) conds"

lemma find_condition_Some:
  "find_condition reason i conds = Some (j, x) \<Longrightarrow>
     i \<le> j \<and> j - i < length conds \<and> conds ! (j - i) = x \<and> lc_Reason x = reason
     \<and> (\<forall>l < j - i. lc_Reason (conds ! l) \<noteq> reason)"
proof (induction conds arbitrary: i)
  case Nil
  then show ?case by simp
next
  case (Cons y ys)
  show ?case
  proof (cases "lc_Reason y = reason")
    case True
    with Cons.prems show ?thesis by simp
  next
    case False
    with Cons.prems Cons.IH [of "Suc i"] have IH: "Suc i \<le> j \<and> j - Suc i < length ys \<and> ys ! (j - Suc i) = x
      \<and> lc_Reason x = reason \<and> (\<forall>l < j - Suc i. lc_Reason (ys ! l) \<noteq> reason)" by simp
    then have "j - i = Suc (j - Suc i)" by linarith
    with IH False show ?thesis by (auto simp: nth_Cons split: nat.splits)
  qed
qed

lemma find_condition_None: "find_condition reason i conds = None \<longleftrightarrow> reason \<notin> set (reasons conds)"
  by (induction conds arbitrary: i) (auto simp: reasons_def)

lemma GetCondition_None: "reason \<noteq> [] \<Longrightarrow> GetCondition reason conds = None \<longleftrightarrow> reason \<notin> set (reasons conds)"
  by (auto simp: GetCondition_def find_condition_None reasons_def)

lemma GetCondition_Some:
  assumes "GetCondition reason conds = Some (i, x)"
  shows "i < length conds" and "conds ! i = x" and "lc_Reason x = reason" and "reason \<noteq> []"
    and "\<forall>l < i. lc_Reason (conds ! l) \<noteq> reason"
  using assms find_condition_Some [of reason 0 conds i x] by (auto simp: GetCondition_def split: if_splits)

lemma IsStatusEqual_type:
  assumes "IsStatusEqual x y"
  shows "lc_Type y = lc_Type x"
proof -
  have "lc_Type (x\<lparr>lc_LastTransitionTime := lc_LastTransitionTime y\<rparr>) = lc_Type y"
    using assms unfolding IsStatusEqual_def by simp
  then show ?thesis by simp
qed

text \<open>Under the invariant, looking up a reason is membership.\<close>

lemma lookup_Some_iff:
  assumes "distinct (reasons conds)"
  shows "lookup_condition r conds = Some x \<longleftrightarrow> x \<in> set conds \<and> lc_Reason x = r"
  using assms
proof (induction conds)
  case Nil
  show ?case by (simp add: lookup_condition_def)
next
  case (Cons y ys)
  then show ?case by (auto simp: lookup_condition_def reasons_def)
qed

lemma lookup_None_iff: "lookup_condition r conds = None \<longleftrightarrow> r \<notin> set (reasons conds)"
  by (auto simp: lookup_condition_def reasons_def find_None_iff)

lemma lookup_eqI:
  assumes "distinct (reasons xs)" and "distinct (reasons ys)"
    and "\<And>x. lc_Reason x = r \<Longrightarrow> x \<in> set xs \<longleftrightarrow> x \<in> set ys"
  shows "lookup_condition r xs = lookup_condition r ys"
  by (metis assms lookup_Some_iff not_Some_eq)

lemma GetCondition_lookup:
  assumes "r \<noteq> []"
  shows "map_option snd (GetCondition r conds) = lookup_condition r conds"
proof -
  have "map_option snd (find_condition r i conds) = find (\<lambda>x. lc_Reason x = r) conds" for i
    by (induction conds arbitrary: i) auto
  then show ?thesis using assms by (cases conds) (simp_all add: GetCondition_def lookup_condition_def)
qed

lemma mset_swap_remove:
  assumes "i < length xs"
  shows "mset (butlast (xs[i := last xs])) = mset xs - {#xs ! i#}"
proof -
  from assms have "xs \<noteq> []" by auto
  then have ne: "xs[i := last xs] \<noteq> []" and "last (xs[i := last xs]) = last xs"
    by (simp_all add: last_list_update)
  then have "mset (xs[i := last xs]) = add_mset (last xs) (mset (butlast (xs[i := last xs])))"
    by (metis append_butlast_last_id mset.simps add_mset_add_single mset_append)
  moreover have "mset (xs[i := last xs]) = add_mset (last xs) (mset xs - {#xs ! i#})"
    by (rule mset_update [OF assms])
  ultimately show ?thesis by simp
qed

lemma remove_condition_members:
  assumes "status_inv conds"
  shows "set (remove_condition r conds) = {x \<in> set conds. lc_Reason x \<noteq> r}"
    and "status_inv (remove_condition r conds)"
proof -
  have d: "distinct (map lc_Reason conds)" using assms by (simp add: status_inv_def reasons_def)
  have *: "set (remove_condition r conds) = {x \<in> set conds. lc_Reason x \<noteq> r} \<and> distinct (map lc_Reason (remove_condition r conds))"
  proof (cases "GetCondition r conds")
    case None
    then have "r \<notin> set (reasons conds)"
      using assms by (cases "r = []") (auto simp: GetCondition_None status_inv_def)
    with None d show ?thesis by (auto simp: remove_condition_def reasons_def)
  next
    case (Some p)
    obtain i x where p: "p = (i, x)" by (cases p)
    note g = GetCondition_Some [OF Some [unfolded p]]
    have rm: "remove_condition r conds = butlast (conds[i := last conds])"
      using Some p by (simp add: remove_condition_def)
    have m: "mset (remove_condition r conds) = mset conds - {#x#}"
      unfolding rm using mset_swap_remove [OF g(1)] g(2) by simp
    have dc: "distinct conds" using d by (simp add: distinct_map)
    have "set (remove_condition r conds) = set conds - {x}"
      by (metis m mset_remove1 set_mset_mset set_remove1_eq [OF dc])
    moreover have "{y \<in> set conds. lc_Reason y \<noteq> r} = set conds - {x}"
      using d g nth_mem [OF g(1)] by (auto simp: distinct_map inj_on_def)
    moreover have "mset (map lc_Reason (remove_condition r conds)) = mset (map lc_Reason conds) - {#lc_Reason x#}"
      using m nth_mem [OF g(1)] g(2) by (simp add: image_mset_Diff)
    then have "distinct (map lc_Reason (remove_condition r conds))"
      by (metis d distinct_remove1 mset_eq_imp_distinct_iff mset_remove1)
    ultimately show ?thesis by simp
  qed
  then show "set (remove_condition r conds) = {x \<in> set conds. lc_Reason x \<noteq> r}" by simp
  from * assms show "status_inv (remove_condition r conds)"
    by (auto simp: status_inv_def reasons_def)
qed

lemma put_condition_members:
  assumes "status_inv conds" and "lc_Reason x \<noteq> []"
  obtains y where "set (fst (put_condition x conds)) = insert y {z \<in> set conds. lc_Reason z \<noteq> lc_Reason x}"
    and "IsStatusEqual x y" and "lc_Reason y = lc_Reason x" and "status_inv (fst (put_condition x conds))"
proof (cases "GetCondition (lc_Reason x) conds")
  case None
  then have n: "lc_Reason x \<notin> set (reasons conds)" using GetCondition_None [OF assms(2)] by simp
  have "status_inv (conds @ [x])" using assms n by (auto simp: status_inv_def reasons_def)
  moreover have "set (conds @ [x]) = insert x {z \<in> set conds. lc_Reason z \<noteq> lc_Reason x}"
    using n by (auto simp: reasons_def image_iff)
  ultimately show ?thesis using that [of x] None by (simp add: put_condition_def IsStatusEqual_def)
next
  case (Some p)
  obtain i y where p: "p = (i, y)" by (cases p)
  note g = GetCondition_Some [OF Some [unfolded p]]
  have d: "distinct (map lc_Reason conds)" using assms by (simp add: status_inv_def reasons_def)
  have same: "map lc_Reason (conds[i := x]) = map lc_Reason conds"
    using g by (metis list_update_id map_update nth_map)
  have others: "{z \<in> set conds. lc_Reason z \<noteq> lc_Reason x} = set conds - {y}"
    using d g nth_mem [OF g(1)] by (auto simp: distinct_map inj_on_def)
  have dc: "distinct conds" using d by (simp add: distinct_map)
  show ?thesis
  proof (cases "lc_Type x = Failed \<and> IsStatusEqual x y")
    case True
    then have "fst (put_condition x conds) = conds" using Some p by (simp add: put_condition_def)
    moreover have "set conds = insert y {z \<in> set conds. lc_Reason z \<noteq> lc_Reason x}"
      unfolding others using nth_mem [OF g(1)] g(2) by auto
    ultimately show ?thesis using that [of y] True assms(1) g(3) by simp
  next
    case False
    have "set (conds[i := x]) = insert x (set conds - {y})"
      using set_update_distinct [OF dc g(1)] g(2) by simp
    moreover have "status_inv (conds[i := x])" using assms(1) same by (simp add: status_inv_def reasons_def)
    moreover have "fst (put_condition x conds) = conds[i := x]" using Some p False by (auto simp: put_condition_def)
    ultimately show ?thesis using that [of x] others by (simp add: IsStatusEqual_def)
  qed
qed

text \<open>
  The contract of the conditions: a map keyed by reason. A condition is put under its reason, up to
  the transition time, and neither operation touches another reason.
\<close>

locale condition_map =
  fixes put :: "logging_service_condition \<Rightarrow> 's \<Rightarrow> 's"
    and rem :: "string \<Rightarrow> 's \<Rightarrow> 's"
    and look :: "string \<Rightarrow> 's \<Rightarrow> logging_service_condition option"
    and inv :: "'s \<Rightarrow> bool"
  assumes put_inv: "inv s \<Longrightarrow> lc_Reason x \<noteq> [] \<Longrightarrow> inv (put x s)"
    and rem_inv: "inv s \<Longrightarrow> inv (rem r s)"
    and look_put: "inv s \<Longrightarrow> lc_Reason x \<noteq> [] \<Longrightarrow> \<exists>y. look (lc_Reason x) (put x s) = Some y \<and> IsStatusEqual x y"
    and look_put_other: "inv s \<Longrightarrow> lc_Reason x \<noteq> [] \<Longrightarrow> r \<noteq> lc_Reason x \<Longrightarrow> look r (put x s) = look r s"
    and look_rem: "inv s \<Longrightarrow> look r (rem r s) = None"
    and look_rem_other: "inv s \<Longrightarrow> r' \<noteq> r \<Longrightarrow> look r' (rem r s) = look r' s"
begin

lemma put_frame:
  "inv s \<Longrightarrow> lc_Reason x \<noteq> [] \<Longrightarrow> inv (put x s) \<and> (\<forall>r. r \<noteq> lc_Reason x \<longrightarrow> look r (put x s) = look r s)"
  by (simp add: put_inv look_put_other)

lemma rem_frame: "inv s \<Longrightarrow> inv (rem r s) \<and> (\<forall>r'. r' \<noteq> r \<longrightarrow> look r' (rem r s) = look r' s)"
  by (simp add: rem_inv look_rem_other)

lemma put_rem_look: "inv s \<Longrightarrow> lc_Reason x \<noteq> [] \<Longrightarrow> look (lc_Reason x) (rem (lc_Reason x) (put x s)) = None"
  by (simp add: look_rem put_inv)

end

interpretation condition_list: condition_map "\<lambda>x conds. fst (put_condition x conds)" remove_condition lookup_condition status_inv
proof (unfold_locales, goal_cases)
  case (1 s x)
  then show ?case by (auto elim: put_condition_members)
next
  case (2 s r)
  then show ?case by (rule remove_condition_members(2))
next
  case (3 s x)
  from 3 obtain y where y: "set (fst (put_condition x s)) = insert y {z \<in> set s. lc_Reason z \<noteq> lc_Reason x}"
    "IsStatusEqual x y" "lc_Reason y = lc_Reason x" "status_inv (fst (put_condition x s))"
    by (rule put_condition_members)
  then show ?case by (intro exI [where x = y]) (simp add: lookup_Some_iff status_inv_def)
next
  case (4 s x r)
  from 4(1,2) obtain y where y: "set (fst (put_condition x s)) = insert y {z \<in> set s. lc_Reason z \<noteq> lc_Reason x}"
    "IsStatusEqual x y" "lc_Reason y = lc_Reason x" "status_inv (fst (put_condition x s))"
    by (rule put_condition_members)
  with 4 show ?case by (intro lookup_eqI) (auto simp: status_inv_def)
next
  case (5 s r)
  then show ?case using remove_condition_members [of s r] by (auto simp: lookup_None_iff reasons_def)
next
  case (6 s r' r)
  with remove_condition_members [of s r] show ?case by (intro lookup_eqI) (auto simp: status_inv_def)
qed

section \<open>Removing temporary statuses\<close>

text \<open>The loop keeps as many conditions as there are conditions to keep, but always the first ones.\<close>

lemma remove_temporary_take:
  assumes "m \<le> length conds" and "i \<le> m"
  shows "fst (remove_temporary spec i (take m conds) ch) =
    take (m - length (filter (\<lambda>x. \<not> keep_condition spec x) (take i conds))) conds"
  using assms
proof (induction i arbitrary: m ch)
  case 0
  then show ?case by simp
next
  case (Suc i)
  have nth: "take m conds ! i = conds ! i" using Suc.prems by simp
  have step: "take (Suc i) conds = take i conds @ [conds ! i]" using Suc.prems by (simp add: take_Suc_conv_app_nth)
  have butl: "butlast (take m conds) = take (m - 1) conds" using Suc.prems by (simp add: butlast_take)
  have "length (filter (\<lambda>x. \<not> keep_condition spec x) (take i conds)) \<le> i"
    by (metis length_filter_le length_take min.cobounded2 order_trans)
  with Suc show ?case by (auto simp: nth step butl)
qed

lemma remove_temporary_eq:
  "fst (remove_temporary spec (length conds) conds False) = take (length (filter (keep_condition spec) conds)) conds"
proof -
  have "length conds - length (filter (\<lambda>x. \<not> keep_condition spec x) conds) = length (filter (keep_condition spec) conds)"
    using sum_length_filter_compl [of "keep_condition spec" conds] by simp
  then show ?thesis using remove_temporary_take [of "length conds" conds "length conds" spec False] by simp
qed

lemma status_inv_take: "status_inv conds \<Longrightarrow> status_inv (take n conds)"
  by (auto simp: status_inv_def reasons_def take_map [symmetric] dest: in_set_takeD)

section \<open>The updater\<close>

text \<open>What the updater relies on: the response to a status patch carries the status that was sent,
  and the identity of the resource.\<close>

definition patch_law :: "'w client \<Rightarrow> bool" where
  "patch_law c \<longleftrightarrow> (\<forall>cr w cr' w'. run_state (cl_PatchStatus c cr) w = (Inr cr', w') \<longrightarrow>
     ls_Status cr' = ls_Status cr
     \<and> om_Name (ls_ObjectMeta cr') = om_Name (ls_ObjectMeta cr)
     \<and> om_Namespace (ls_ObjectMeta cr') = om_Namespace (ls_ObjectMeta cr))"

abbreviation conds :: "'w opstate \<Rightarrow> conditions" where
  "conds s \<equiv> conditions_of (os_cr s)"

abbreviation after :: "('s, 'a) state \<Rightarrow> 's \<Rightarrow> 's" where
  "after m s \<equiv> snd (run_state m s)"

definition same_identity :: "logging_service \<Rightarrow> logging_service \<Rightarrow> bool" where
  "same_identity cr cr' \<longleftrightarrow> om_Name (ls_ObjectMeta cr') = om_Name (ls_ObjectMeta cr)
     \<and> om_Namespace (ls_ObjectMeta cr') = om_Namespace (ls_ObjectMeta cr)"

lemma after_patch:
  assumes "patch_law c"
  shows "conds (after (patch c) s) = conds s" and "os_pending (after (patch c) s) = os_pending s"
    and "same_identity (os_cr s) (os_cr (after (patch c) s))"
    and "os_world (after (patch c) s) = after (cl_PatchStatus c (os_cr s)) (os_world s)"
proof -
  obtain r w where r: "run_state (cl_PatchStatus c (os_cr s)) (os_world s) = (r, w)" by fastforce
  have a: "after (patch c) s = (case r of Inl _ \<Rightarrow> s\<lparr>os_world := w\<rparr> | Inr cr' \<Rightarrow> s\<lparr>os_world := w, os_cr := cr'\<rparr>)"
    using r by (simp add: patch_def run_tryM run_in_world split: sum.split)
  have l: "r = Inr cr' \<Longrightarrow> ls_Status cr' = ls_Status (os_cr s) \<and> same_identity (os_cr s) cr'" for cr'
    using assms r unfolding patch_law_def same_identity_def by blast
  show "conds (after (patch c) s) = conds s" and "os_pending (after (patch c) s) = os_pending s"
    and "same_identity (os_cr s) (os_cr (after (patch c) s))"
    and "os_world (after (patch c) s) = after (cl_PatchStatus c (os_cr s)) (os_world s)"
    unfolding a r by (cases r; (simp add: same_identity_def)?; use l in \<open>auto simp: same_identity_def\<close>)+
qed

lemma set_conditions_sel [simp]:
  "conditions_of (set_conditions xs cr) = xs" "ls_ObjectMeta (set_conditions xs cr) = ls_ObjectMeta cr"
  "ls_Spec (set_conditions xs cr) = ls_Spec cr"
  by (simp_all add: set_conditions_def)

lemma same_identity_simps [simp]: "same_identity cr cr" "same_identity cr (set_conditions xs cr)"
  by (simp_all add: same_identity_def)

lemma same_identity_trans: "same_identity a b \<Longrightarrow> same_identity b c \<Longrightarrow> same_identity a c"
  by (simp add: same_identity_def)

text \<open>The condition \<open>UpdateStatus\<close> builds when it runs in a state.\<close>

definition new_condition :: "'w client \<Rightarrow> string \<Rightarrow> string \<Rightarrow> bool \<Rightarrow> string \<Rightarrow> 'w opstate \<Rightarrow> logging_service_condition" where
  "new_condition c reason t b m s = \<lparr>lc_Type = t, lc_Reason = reason, lc_Message = m,
     lc_LastTransitionTime = fst (run_state (sys_NowText c) (os_world s)), lc_Status = b\<rparr>"

lemma new_condition_reason [simp]: "lc_Reason (new_condition c reason t b m s) = reason"
  by (simp add: new_condition_def)

lemma after_UpdateStatus:
  assumes "patch_law c"
  shows "conds (after (UpdateStatus c reason t b m) s) = fst (put_condition (new_condition c reason t b m s) (conds s))"
    and "os_pending (after (UpdateStatus c reason t b m) s) = os_pending s"
    and "same_identity (os_cr s) (os_cr (after (UpdateStatus c reason t b m) s))"
proof -
  let ?p = "put_condition (new_condition c reason t b m s) (conds s)"
  obtain now w where w: "run_state (sys_NowText c) (os_world s) = (now, w)" by fastforce
  let ?t = "s\<lparr>os_world := w, os_cr := set_conditions (fst ?p) (os_cr s)\<rparr>"
  have a: "after (UpdateStatus c reason t b m) s = (if snd ?p then after (patch c) ?t else s\<lparr>os_world := w\<rparr>)"
    using w by (cases ?p) (simp add: UpdateStatus_def run_in_world new_condition_def run_logged)
  have u: "\<not> snd ?p \<Longrightarrow> fst ?p = conds s"
    by (auto simp: put_condition_def split: option.splits if_splits)
  note q = after_patch [OF assms, of ?t]
  show "conds (after (UpdateStatus c reason t b m) s) = fst ?p"
    unfolding a using q(1) u by (cases "snd ?p") simp_all
  show "os_pending (after (UpdateStatus c reason t b m) s) = os_pending s"
    unfolding a using q(2) by (cases "snd ?p") simp_all
  show "same_identity (os_cr s) (os_cr (after (UpdateStatus c reason t b m) s))"
    unfolding a using q(3) by (cases "snd ?p") (simp_all add: same_identity_def)
qed

lemma after_RemoveStatus:
  assumes "patch_law c"
  shows "conds (after (RemoveStatus c reason) s) = remove_condition reason (conds s)"
    and "os_pending (after (RemoveStatus c reason) s) = os_pending s"
    and "same_identity (os_cr s) (os_cr (after (RemoveStatus c reason) s))"
proof -
  let ?t = "s\<lparr>os_cr := set_conditions (remove_condition reason (conds s)) (os_cr s)\<rparr>"
  have a: "after (RemoveStatus c reason) s = (if GetCondition reason (conds s) = None then s else after (patch c) ?t)"
    by (simp add: RemoveStatus_def run_logged split: option.split prod.split)
  note q = after_patch [OF assms, of ?t]
  show "conds (after (RemoveStatus c reason) s) = remove_condition reason (conds s)"
    unfolding a using q(1) by (auto simp: remove_condition_def)
  show "os_pending (after (RemoveStatus c reason) s) = os_pending s"
    unfolding a using q(2) by simp
  show "same_identity (os_cr s) (os_cr (after (RemoveStatus c reason) s))"
    unfolding a using q(3) by (simp add: same_identity_def)
qed

lemma after_RemoveTemporaryStatuses:
  assumes "patch_law c"
  shows "conds (after (RemoveTemporaryStatuses c) s) =
      take (length (filter (keep_condition (ls_Spec (os_cr s))) (conds s))) (conds s)"
    and "os_pending (after (RemoveTemporaryStatuses c) s) = os_pending s"
    and "same_identity (os_cr s) (os_cr (after (RemoveTemporaryStatuses c) s))"
proof -
  let ?p = "remove_temporary (ls_Spec (os_cr s)) (length (conds s)) (conds s) False"
  let ?t = "s\<lparr>os_cr := set_conditions (fst ?p) (os_cr s)\<rparr>"
  have a: "after (RemoveTemporaryStatuses c) s = (if snd ?p then after (patch c) ?t else s)"
    by (cases ?p) (simp add: RemoveTemporaryStatuses_def run_logged)
  have mono: "snd (remove_temporary spec i xs True)" for spec i xs
    by (induction i arbitrary: xs) auto
  have u: "\<not> snd (remove_temporary spec i xs b) \<Longrightarrow> fst (remove_temporary spec i xs b) = xs" for spec i xs b
    by (induction i arbitrary: xs b) (auto simp: mono)
  note q = after_patch [OF assms, of ?t] and e = remove_temporary_eq [of "ls_Spec (os_cr s)" "conds s"]
  show "conds (after (RemoveTemporaryStatuses c) s) =
      take (length (filter (keep_condition (ls_Spec (os_cr s))) (conds s))) (conds s)"
    unfolding a e [symmetric] using q(1) u by (cases "snd ?p") simp_all
  show "os_pending (after (RemoveTemporaryStatuses c) s) = os_pending s"
    unfolding a using q(2) by simp
  show "same_identity (os_cr s) (os_cr (after (RemoveTemporaryStatuses c) s))"
    unfolding a using q(3) by (simp add: same_identity_def)
qed

subsection \<open>Frames\<close>

text \<open>An operation keeps the status frame of a set of reasons when it keeps the invariant and every
  condition whose reason is outside the set.\<close>

definition status_frame :: "string set \<Rightarrow> 'w opstate \<Rightarrow> 'w opstate \<Rightarrow> bool" where
  "status_frame A s t \<longleftrightarrow> same_identity (os_cr s) (os_cr t) \<and>
     (status_inv (conds s) \<longrightarrow> status_inv (conds t)
       \<and> (\<forall>r. r \<notin> A \<longrightarrow> lookup_condition r (conds t) = lookup_condition r (conds s)))"

interpretation status_frame: effect_frame "status_frame A" for A
  by unfold_locales (auto simp: status_frame_def intro: same_identity_trans)

lemma keeps_status_in_world: "keeps (status_frame A) (in_world m)"
  by (rule keepsI) (simp add: run_in_world status_frame_def split: prod.split)

lemma keeps_status_get_cr: "keeps (status_frame A) get_cr"
  by (rule keepsI) (simp add: status_frame_def)

lemma keeps_status_get_pending: "keeps (status_frame A) get_pending"
  by (rule keepsI) (simp add: status_frame_def)

lemma keeps_status_put_pending: "keeps (status_frame A) (put_pending ps)"
  by (rule keepsI) (simp add: status_frame_def)

lemma keeps_status_modify_cr:
  assumes "\<And>cr. ls_Status (f cr) = ls_Status cr" and "\<And>cr. ls_ObjectMeta (f cr) = ls_ObjectMeta cr"
  shows "keeps (status_frame A) (modify_cr f)"
  by (rule keepsI) (simp add: status_frame_def same_identity_def assms)

lemma keeps_status_UpdateStatus:
  assumes "patch_law c" and "reason \<noteq> []" and "reason \<in> A"
  shows "keeps (status_frame A) (UpdateStatus c reason t b m)"
proof (rule keepsI)
  fix s
  show "status_frame A s (after (UpdateStatus c reason t b m) s)"
    using after_UpdateStatus [OF assms(1), where s = s and reason = reason and t = t and b = b and m = m] assms(2,3)
      condition_list.put_frame [of "conds s" "new_condition c reason t b m s"]
    by (simp add: status_frame_def) (metis assms(3))
qed

lemma keeps_status_RemoveStatus:
  assumes "patch_law c" and "reason \<in> A"
  shows "keeps (status_frame A) (RemoveStatus c reason)"
proof (rule keepsI)
  fix s
  show "status_frame A s (after (RemoveStatus c reason) s)"
    using after_RemoveStatus [OF assms(1), where s = s and reason = reason] assms(2)
      condition_list.rem_frame [of "conds s" reason]
    by (simp add: status_frame_def) (metis assms(2))
qed

lemma keeps_status_start:
  assumes "patch_law c" and "reason \<noteq> []" and "reason \<in> A"
  shows "keeps (status_frame A) (start_status c reason m)"
  unfolding start_status_def using assms
  by (intro status_frame.keeps_rules keeps_status_get_cr keeps_status_UpdateStatus)

lemmas keeps_status_rules = status_frame.keeps_rules keeps_status_in_world keeps_status_get_cr
  keeps_status_get_pending keeps_status_put_pending keeps_status_UpdateStatus keeps_status_RemoveStatus
  keeps_status_start

lemma store_patch_law: "patch_law store_client"
  by (auto simp: patch_law_def store_client_def Let_def split: option.splits if_splits)

end
