(* ===== verification/Pod_Manager.thy ===== *)
theory Pod_Manager
  imports Status
begin

text \<open>
  Waiting for workloads: the pod manager (\<open>internal/utils/pod_manager.go\<close>) and the waits of
  \<open>internal/utils/waiter.go\<close>. The loop of \<open>ComponentsPendingReconciler.Run\<close> takes fuel and returns
  \<^const>\<open>None\<close> when it runs out; \<open>pending_loop_terminates\<close> shows that 31 rounds are always enough,
  because each round that does not end the loop sleeps ten seconds of the five minutes. A nil
  \<open>spec.replicas\<close>, which the API server never returns, is reported as an error where Go panics.
\<close>

section \<open>Pods and workloads\<close>

definition FindPods :: "'w client \<Rightarrow> string \<Rightarrow> string gomap \<Rightarrow> ('w, object_meta list) eff" where
  "FindPods c ns labelSelectors = do {
     r \<leftarrow> cl_ListPods c ns labelSelectors;
     case r of Inr pods \<Rightarrow> okM pods
     | Inl e \<Rightarrow> if IsNotFound e then okM [] else failM e }"

definition ToPodNameList :: "object_meta list \<Rightarrow> string list" where
  "ToPodNameList pods = map om_Name pods"

definition workload_exists :: "'w client \<Rightarrow> kind \<Rightarrow> string \<Rightarrow> string \<Rightarrow> ('w, bool) eff" where
  "workload_exists c k ns serviceName = do {
     r \<leftarrow> cl_Get c k ns serviceName;
     case r of Inr _ \<Rightarrow> okM True
     | Inl e \<Rightarrow> if IsNotFound e then okM False else failM e }"

definition IsDaemonSetExists :: "'w client \<Rightarrow> string \<Rightarrow> string \<Rightarrow> ('w, bool) eff" where
  "IsDaemonSetExists c ns serviceName = workload_exists c KDaemonSet ns serviceName"

definition IsDeploymentExists :: "'w client \<Rightarrow> string \<Rightarrow> string \<Rightarrow> ('w, bool) eff" where
  "IsDeploymentExists c ns serviceName = workload_exists c KDeployment ns serviceName"

definition daemonset_available :: "daemonset \<Rightarrow> bool" where
  "daemonset_available d \<longleftrightarrow>
     dst_UpdatedNumberScheduled (ds_Status d) = dst_DesiredNumberScheduled (ds_Status d)
     \<and> dst_NumberAvailable (ds_Status d) = dst_DesiredNumberScheduled (ds_Status d)"

definition nil_dereference :: go_error where
  "nil_dereference = errors_New ''runtime error: invalid memory address or nil pointer dereference''"

definition IsDaemonSetAvailable :: "'w client \<Rightarrow> string \<Rightarrow> string \<Rightarrow> ('w, bool) eff" where
  "IsDaemonSetAvailable c ns serviceName =
     tryM (cl_Get c KDaemonSet ns serviceName) (\<lambda>obj.
       case obj of ODaemonSet d \<Rightarrow> okM (daemonset_available d) | _ \<Rightarrow> okM False)"

definition IsDeploymentReplicasSynchronised :: "'w client \<Rightarrow> string \<Rightarrow> string \<Rightarrow> ('w, bool) eff" where
  "IsDeploymentReplicasSynchronised c ns serviceName =
     tryM (cl_Get c KDeployment ns serviceName) (\<lambda>obj.
       case obj of
         ODeployment d \<Rightarrow>
           (case dps_Replicas (dp_Spec d) of
              None \<Rightarrow> failM nil_dereference
            | Some n \<Rightarrow> okM (dpt_AvailableReplicas (dp_Status d) = n \<and> dpt_UpdatedReplicas (dp_Status d) = n))
       | _ \<Rightarrow> okM False)"

definition IsStatefulsetReplicasSynchronised :: "'w client \<Rightarrow> string \<Rightarrow> string \<Rightarrow> ('w, bool) eff" where
  "IsStatefulsetReplicasSynchronised c ns serviceName =
     tryM (cl_Get c KStatefulSet ns serviceName) (\<lambda>obj.
       case obj of
         OStatefulSet s \<Rightarrow>
           (case sss_Replicas (ss_Spec s) of
              None \<Rightarrow> failM nil_dereference
            | Some n \<Rightarrow> okM (sst_Replicas (ss_Status s) = n \<and> sst_ReadyReplicas (ss_Status s) = n))
       | _ \<Rightarrow> okM False)"

section \<open>Waits\<close>

definition Interval :: int where "Interval = 10 * 10 ^ 9"
definition TerminatingPodTimeout :: int where "TerminatingPodTimeout = 2 * 60 * 10 ^ 9"

text \<open>The polled closure writes the variable \<open>isAvailable\<close> of its caller: it is the second part of the
  state the poll runs in.\<close>

definition poll_world :: "('w, 'a) state \<Rightarrow> ('w \<times> bool, 'a) state" where
  "poll_world m = zoom fst (\<lambda>w s. (w, snd s)) m"

definition WaitForStatefulsetUpdated :: "'w client \<Rightarrow> string \<Rightarrow> string \<Rightarrow> int \<Rightarrow> ('w, bool) eff" where
  "WaitForStatefulsetUpdated c ns serviceName timeout = State (\<lambda>w.
     case run_state (sys_Poll c Interval timeout (do {
            r \<leftarrow> poll_world (IsStatefulsetReplicasSynchronised c ns serviceName);
            _ \<leftarrow> State_Monad.update (\<lambda>s. (fst s, case r of Inr b \<Rightarrow> b | Inl _ \<Rightarrow> False));
            case r of Inl e \<Rightarrow> failM e | Inr b \<Rightarrow> okM b })) (w, False) of
       (Inr _, (w', isAvailable)) \<Rightarrow> (Inr isAvailable, w')
     | (Inl e, (w', isAvailable)) \<Rightarrow> if sys_Interrupted c e then (Inr isAvailable, w') else (Inl e, w'))"

text \<open>At most four attempts, sleeping ten seconds after each failure.\<close>

fun dial_attempts :: "'w client \<Rightarrow> string \<Rightarrow> int \<Rightarrow> nat \<Rightarrow> go_error option \<Rightarrow> ('w, unit) eff" where
  "dial_attempts c url timeout 0 res = (case res of None \<Rightarrow> okM () | Some e \<Rightarrow> failM e)"
| "dial_attempts c url timeout (Suc n) res = do {
     r \<leftarrow> sys_Dial c url timeout;
     case r of
       Inl e \<Rightarrow> do { _ \<leftarrow> sys_Sleep c (10 * 10 ^ 9); dial_attempts c url timeout n (Some e) }
     | Inr _ \<Rightarrow> okM () }"

definition WaitForHostActive :: "'w client \<Rightarrow> string \<Rightarrow> int \<Rightarrow> int \<Rightarrow> ('w, unit) eff" where
  "WaitForHostActive c host port timeout = dial_attempts c (host @ '':'' @ go_Itoa port) timeout 4 None"

definition pods_terminated :: "string list \<Rightarrow> object_meta list \<Rightarrow> bool" where
  "pods_terminated terminatedPodNames pods =
     (\<not> list_ex (\<lambda>n. list_ex (\<lambda>p. om_Name p = n) pods) terminatedPodNames)"

definition WaitForTerminatingPods :: "'w client \<Rightarrow> string \<Rightarrow> string list \<Rightarrow> string gomap \<Rightarrow> ('w, bool) eff" where
  "WaitForTerminatingPods c ns terminatedPodNames labelSelectors =
     (if length terminatedPodNames > 0 then
        State (\<lambda>w.
          case run_state (sys_Poll c Interval TerminatingPodTimeout (do {
                 r \<leftarrow> poll_world (FindPods c ns labelSelectors);
                 case r of Inl e \<Rightarrow> failM e | Inr pods \<Rightarrow> okM (pods_terminated terminatedPodNames pods) })) (w, False) of
            (Inr _, (w', _)) \<Rightarrow> (Inr True, w')
          | (Inl e, (w', _)) \<Rightarrow> if sys_Interrupted c e then (Inr False, w') else (Inl e, w'))
      else okM True)"

definition DeletePods :: "'w client \<Rightarrow> string \<Rightarrow> string gomap \<Rightarrow> ('w, bool) eff" where
  "DeletePods c ns labelSelectors =
     tryM (FindPods c ns labelSelectors) (\<lambda>pods.
     tryM (for_each pods (cl_DeletePod c)) (\<lambda>_.
       WaitForTerminatingPods c ns (ToPodNameList pods) labelSelectors))"

section \<open>Pending components\<close>

definition component_available :: "'w client \<Rightarrow> string \<Rightarrow> component \<Rightarrow> ('w, bool) eff" where
  "component_available c ns cmp =
     (if cmp_ComponentName cmp \<in> {FluentdComponentName, FluentbitComponentName, ForwarderFluentbitComponentName}
      then IsDaemonSetAvailable c ns (cmp_ComponentName cmp)
      else IsDeploymentReplicasSynchronised c ns (cmp_ComponentName cmp))"

text \<open>The inner loop, from the last index down to 0.\<close>

fun check_components :: "'w client \<Rightarrow> string \<Rightarrow> nat \<Rightarrow> ('w opstate, unit) eff" where
  "check_components c ns 0 = okM ()"
| "check_components c ns (Suc i) = do {
     ps \<leftarrow> get_pending;
     tryM (in_world (component_available c ns (ps ! i))) (\<lambda>isAvailable.
       if isAvailable then do {
         _ \<leftarrow> RemoveStatus c (cmp_StatusName (ps ! i));
         _ \<leftarrow> put_pending (butlast (ps[i := last ps]));
         check_components c ns i }
       else check_components c ns i) }"

definition not_started :: "component \<Rightarrow> string" where
  "not_started cmp = ''Reason: '' @ cmp_ComponentName cmp @ '' is not started''"

fun fail_pending :: "'w client \<Rightarrow> component list \<Rightarrow> ('w opstate, unit) state" where
  "fail_pending c [] = State_Monad.return ()"
| "fail_pending c (cmp # comps) = do {
     _ \<leftarrow> UpdateStatus c (cmp_StatusName cmp) Failed False (not_started cmp);
     fail_pending c comps }"

text \<open>The outer loop: whether all components started, \<^const>\<open>None\<close> when the fuel runs out.\<close>

fun pending_loop :: "'w client \<Rightarrow> string \<Rightarrow> int \<Rightarrow> nat \<Rightarrow> ('w opstate, (go_error + bool) option) state" where
  "pending_loop c ns start 0 = State_Monad.return None"
| "pending_loop c ns start (Suc fuel) = do {
     now \<leftarrow> in_world (sys_Now c);
     if now - start \<ge> ComponentPendingTimeout then do {
       ps \<leftarrow> get_pending;
       _ \<leftarrow> fail_pending c ps;
       State_Monad.return (Some (Inr False)) }
     else do {
       ps \<leftarrow> get_pending;
       r \<leftarrow> check_components c ns (length ps);
       case r of
         Inl e \<Rightarrow> State_Monad.return (Some (Inl e))
       | Inr _ \<Rightarrow> do {
           ps' \<leftarrow> get_pending;
           if length ps' = 0 then State_Monad.return (Some (Inr True))
           else do {
             _ \<leftarrow> in_world (sys_Sleep c Interval);
             pending_loop c ns start fuel } } } }"

definition pending_fuel :: nat where
  "pending_fuel = 31"

definition ComponentsPending_Run :: "'w client \<Rightarrow> ('w opstate, (go_error + bool) option) state" where
  "ComponentsPending_Run c = do {
     _ \<leftarrow> start_status c ComponentPendingStatus ''Start reconcile of ComponentsPending'';
     ps \<leftarrow> get_pending;
     r \<leftarrow> (if length ps \<noteq> 0 then do {
           _ \<leftarrow> in_world (sys_Sleep c InitialDelay);
           cr \<leftarrow> get_cr;
           start \<leftarrow> in_world (sys_Now c);
           pending_loop c (om_Namespace (ls_ObjectMeta cr)) start pending_fuel }
         else State_Monad.return (Some (Inr True)));
     case r of
       Some (Inr isStatusSuccess) \<Rightarrow> do {
         _ \<leftarrow> RemoveStatus c ComponentPendingStatus;
         State_Monad.return (Some (Inr isStatusSuccess)) }
     | Some (Inl e) \<Rightarrow> State_Monad.return (Some (Inl e))
     | None \<Rightarrow> State_Monad.return None }"

section \<open>Termination\<close>

text \<open>What the loop relies on: a clock that no call turns back and that a sleep advances.\<close>

definition clock_law :: "'w client \<Rightarrow> ('w \<Rightarrow> int) \<Rightarrow> bool" where
  "clock_law c clk \<longleftrightarrow>
     (\<forall>w. fst (run_state (sys_Now c) w) = clk w \<and> clk w \<le> clk (snd (run_state (sys_Now c) w)))
     \<and> (\<forall>d w. clk w + d \<le> clk (snd (run_state (sys_Sleep c d) w)))
     \<and> (\<forall>k ns n w. clk w \<le> clk (snd (run_state (cl_Get c k ns n) w)))
     \<and> (\<forall>cr w. clk w \<le> clk (snd (run_state (cl_PatchStatus c cr) w)))
     \<and> (\<forall>w. clk w \<le> clk (snd (run_state (sys_NowText c) w)))"

definition later :: "('w \<Rightarrow> int) \<Rightarrow> 'w opstate \<Rightarrow> 'w opstate \<Rightarrow> bool" where
  "later clk s t \<longleftrightarrow> clk (os_world s) \<le> clk (os_world t)"

definition later_world :: "('w \<Rightarrow> int) \<Rightarrow> 'w \<Rightarrow> 'w \<Rightarrow> bool" where
  "later_world clk w w' \<longleftrightarrow> clk w \<le> clk w'"

interpretation clock: effect_frame "later clk" for clk
  by unfold_locales (auto simp: later_def)

interpretation world_clock: effect_frame "later_world clk" for clk
  by unfold_locales (auto simp: later_world_def)

lemma later_in_world: "keeps (later_world clk) m \<Longrightarrow> keeps (later clk) (in_world m)"
  by (rule keepsI) (simp add: run_in_world later_def later_world_def keeps_def case_prod_beta)

lemma later_state_ops:
  "keeps (later clk) get_cr" "keeps (later clk) (modify_cr f)" "keeps (later clk) get_pending"
  "keeps (later clk) (put_pending ps)"
  by (auto intro!: keepsI simp: later_def)

lemma later_Get: "clock_law c clk \<Longrightarrow> keeps (later_world clk) (cl_Get c k ns n)"
  and later_PatchStatus: "clock_law c clk \<Longrightarrow> keeps (later_world clk) (cl_PatchStatus c cr)"
  and later_NowText: "clock_law c clk \<Longrightarrow> keeps (later_world clk) (sys_NowText c)"
  and later_Now: "clock_law c clk \<Longrightarrow> keeps (later_world clk) (sys_Now c)"
  by (auto intro!: keepsI simp: later_world_def clock_law_def)

lemma later_component_available: "clock_law c clk \<Longrightarrow> keeps (later_world clk) (component_available c ns cmp)"
  unfolding component_available_def IsDaemonSetAvailable_def IsDeploymentReplicasSynchronised_def
  by (auto intro!: world_clock.keeps_tryM later_Get world_clock.keeps_okM world_clock.keeps_failM split: object.split option.split)

lemma later_patch: "clock_law c clk \<Longrightarrow> keeps (later clk) (patch c)"
  unfolding patch_def by (intro clock.keeps_rules later_in_world later_PatchStatus later_state_ops)

lemma later_RemoveStatus: "clock_law c clk \<Longrightarrow> keeps (later clk) (RemoveStatus c reason)"
  unfolding RemoveStatus_def by (intro clock.keeps_rules later_patch later_state_ops)

lemma later_check_components: "clock_law c clk \<Longrightarrow> keeps (later clk) (check_components c ns i)"
proof (induction i)
  case 0
  show ?case by (simp add: clock.keeps_okM)
next
  case (Suc i)
  then show ?case unfolding check_components.simps
    by (intro clock.keeps_rules later_state_ops later_in_world later_component_available later_RemoveStatus)
qed

text \<open>With enough fuel for the time that is left the loop ends.\<close>

lemma pending_loop_terminates:
  assumes law: "clock_law c clk"
    and fuel: "ComponentPendingTimeout \<le> clk (os_world s) - start + (int fuel - 1) * Interval" and "0 < fuel"
  shows "\<exists>r t. run_state (pending_loop c ns start fuel) s = (Some r, t)"
  using fuel \<open>0 < fuel\<close>
proof (induction fuel arbitrary: s)
  case 0
  then show ?case by simp
next
  case (Suc fuel)
  obtain now w where now: "run_state (sys_Now c) (os_world s) = (now, w)" by fastforce
  have clk: "now = clk (os_world s)" "clk (os_world s) \<le> clk w"
    using law now unfolding clock_law_def by (metis fst_conv, metis snd_conv)
  let ?s = "s\<lparr>os_world := w\<rparr>"
  show ?case
  proof (cases "now - start \<ge> ComponentPendingTimeout")
    case True
    then show ?thesis using now by (simp add: run_in_world split: prod.split)
  next
    case False
    obtain r t where r: "run_state (check_components c ns (length (os_pending s))) ?s = (r, t)" by fastforce
    have t: "clk w \<le> clk (os_world t)"
      using keeps_run [OF later_check_components [OF law] r] by (simp add: later_def)
    show ?thesis
    proof (cases r)
      case (Inl e)
      then show ?thesis using now False r by (simp add: run_in_world)
    next
      case (Inr u)
      show ?thesis
      proof (cases "length (os_pending t) = 0")
        case True
        then show ?thesis using now False r Inr by (simp add: run_in_world)
      next
        case nonempty: False
        obtain x w' where sl: "run_state (sys_Sleep c Interval) (os_world t) = (x, w')" by (metis prod.collapse)
        have "clk (os_world t) + Interval \<le> clk w'" using law sl unfolding clock_law_def by (metis snd_conv)
        with t clk Suc.prems False have *: "ComponentPendingTimeout \<le> clk w' - start + (int fuel - 1) * Interval"
          by (simp add: algebra_simps)
        have "0 < fuel" using False Suc.prems clk by (cases fuel) auto
        with Suc.IH [of "t\<lparr>os_world := w'\<rparr>"] * show ?thesis
          using now False r Inr nonempty sl by (simp add: run_in_world)
      qed
    qed
  qed
qed

lemma ComponentsPending_Run_returns:
  assumes law: "clock_law c clk"
  shows "\<exists>r. fst (run_state (ComponentsPending_Run c) s) = Some r"
proof -
  obtain s1 where s1: "run_state (start_status c ComponentPendingStatus ''Start reconcile of ComponentsPending'') s = ((), s1)"
    by (cases "run_state (start_status c ComponentPendingStatus ''Start reconcile of ComponentsPending'') s") auto
  obtain x w1 where w1: "run_state (sys_Sleep c InitialDelay) (os_world s1) = (x, w1)" by (metis prod.collapse)
  obtain start w2 where w2: "run_state (sys_Now c) w1 = (start, w2)" by fastforce
  have "start \<le> clk w2" using law w2 unfolding clock_law_def by (metis fst_conv snd_conv)
  then have "\<exists>r t. run_state (pending_loop c ns start pending_fuel) (s1\<lparr>os_world := w2\<rparr>) = (Some r, t)" for ns
    by (intro pending_loop_terminates [OF law]) (simp_all add: ComponentPendingTimeout_def Interval_def pending_fuel_def)
  then obtain r t where r: "run_state (pending_loop c (om_Namespace (ls_ObjectMeta (os_cr s1))) start pending_fuel)
      (s1\<lparr>os_world := w2\<rparr>) = (Some r, t)" by blast
  show ?thesis
  proof (cases "os_pending s1 = []")
    case True
    then show ?thesis
      unfolding ComponentsPending_Run_def run_state_bind s1 by (simp add: case_prod_beta)
  next
    case False
    then show ?thesis
      unfolding ComponentsPending_Run_def run_state_bind s1
      by (simp add: run_in_world w1 w2 r case_prod_beta split: sum.split)
  qed
qed

section \<open>Outcomes\<close>

definition is_failed :: "conditions \<Rightarrow> string \<Rightarrow> bool" where
  "is_failed cs r \<longleftrightarrow> (\<exists>y. lookup_condition r cs = Some y \<and> lc_Type y = Failed)"

lemma UpdateStatus_Failed:
  assumes "patch_law c" and "status_inv (conds s)" and "r \<noteq> []"
  shows "is_failed (conds (after (UpdateStatus c r Failed b m) s)) r"
    and "is_failed (conds s) r' \<Longrightarrow> is_failed (conds (after (UpdateStatus c r Failed b m) s)) r'"
    and "status_inv (conds (after (UpdateStatus c r Failed b m) s))"
proof -
  let ?x = "new_condition c r Failed b m s"
  note u = after_UpdateStatus(1) [OF assms(1), of r Failed b m s]
  have "\<exists>y. lookup_condition (lc_Reason ?x) (fst (put_condition ?x (conds s))) = Some y \<and> IsStatusEqual ?x y"
    using assms by (intro condition_list.look_put) simp_all
  then obtain y where y: "lookup_condition r (fst (put_condition ?x (conds s))) = Some y" "IsStatusEqual ?x y" by auto
  then have "lc_Type y = Failed" using IsStatusEqual_type [OF y(2)] by (simp add: new_condition_def)
  with y show r: "is_failed (conds (after (UpdateStatus c r Failed b m) s)) r" by (simp add: is_failed_def u)
  show "is_failed (conds s) r' \<Longrightarrow> is_failed (conds (after (UpdateStatus c r Failed b m) s)) r'"
    using r condition_list.look_put_other [OF assms(2), of ?x r'] assms(3) u
    by (cases "r' = r") (simp_all add: is_failed_def)
  show "status_inv (conds (after (UpdateStatus c r Failed b m) s))"
    unfolding u using assms by (intro condition_list.put_inv) simp_all
qed

lemma fail_pending_fails:
  assumes "patch_law c" and "status_inv (conds s)" and "\<forall>p \<in> set ps. cmp_StatusName p \<noteq> []"
  shows "(\<forall>p \<in> set ps. is_failed (conds (after (fail_pending c ps) s)) (cmp_StatusName p))
    \<and> (\<forall>r. is_failed (conds s) r \<longrightarrow> is_failed (conds (after (fail_pending c ps) s)) r)
    \<and> os_pending (after (fail_pending c ps) s) = os_pending s"
  using assms(2,3)
proof (induction ps arbitrary: s)
  case Nil
  show ?case by simp
next
  case (Cons p ps)
  let ?s = "after (UpdateStatus c (cmp_StatusName p) Failed False (not_started p)) s"
  have step: "after (fail_pending c (p # ps)) s = after (fail_pending c ps) ?s"
    by (simp add: case_prod_beta)
  note u = UpdateStatus_Failed [OF assms(1) Cons.prems(1), of "cmp_StatusName p"]
  have IH: "(\<forall>p \<in> set ps. is_failed (conds (after (fail_pending c ps) ?s)) (cmp_StatusName p))
      \<and> (\<forall>r. is_failed (conds ?s) r \<longrightarrow> is_failed (conds (after (fail_pending c ps) ?s)) r)
      \<and> os_pending (after (fail_pending c ps) ?s) = os_pending ?s"
    using Cons.prems u(3) by (intro Cons.IH) simp_all
  show ?case
    unfolding step using IH u(1,2) Cons.prems(2) after_UpdateStatus(2) [OF assms(1)] by simp
qed

lemma fail_pending_pending:
  assumes "patch_law c"
  shows "os_pending (after (fail_pending c ps) s) = os_pending s"
  by (induction ps arbitrary: s) (simp_all add: case_prod_beta after_UpdateStatus(2) [OF assms])

lemma fail_pending_inv:
  assumes "patch_law c" and "status_inv (conds s)" and "\<forall>p \<in> set ps. cmp_StatusName p \<noteq> []"
  shows "status_inv (conds (after (fail_pending c ps) s))"
  using assms(2,3)
proof (induction ps arbitrary: s)
  case (Cons p ps)
  then show ?case using UpdateStatus_Failed(3) [OF assms(1) Cons.prems(1)] by (simp add: case_prod_beta)
qed simp

text \<open>When the loop reports success no component is pending.\<close>

lemma pending_loop_True:
  "run_state (pending_loop c ns start fuel) s = (Some (Inr True), t) \<Longrightarrow> os_pending t = []"
proof (induction fuel arbitrary: s)
  case 0
  then show ?case by simp
next
  case (Suc fuel)
  show ?case
    using Suc.prems
    by (auto simp: run_in_world case_prod_beta split: prod.splits if_splits sum.splits dest: Suc.IH)
qed

text \<open>
  What the loop does to the conditions and to the pending components, as a relation between the
  states before and after: no component is added, a component that is gone has lost its condition, a
  lost condition does not come back, and the conditions of other reasons are untouched.
\<close>

definition pending_progress :: "'w opstate \<Rightarrow> 'w opstate \<Rightarrow> bool" where
  "pending_progress s t \<longleftrightarrow> same_identity (os_cr s) (os_cr t) \<and> set (os_pending t) \<subseteq> set (os_pending s)
     \<and> (status_inv (conds s) \<longrightarrow> status_inv (conds t)
       \<and> (\<forall>p \<in> set (os_pending s). p \<in> set (os_pending t) \<or> lookup_condition (cmp_StatusName p) (conds t) = None)
       \<and> (\<forall>r. lookup_condition r (conds s) = None \<longrightarrow> lookup_condition r (conds t) = None)
       \<and> (\<forall>r. r \<notin> set (map cmp_StatusName (os_pending s)) \<longrightarrow> lookup_condition r (conds t) = lookup_condition r (conds s)))"

interpretation pending_progress: effect_frame pending_progress
proof unfold_locales
  show "pending_progress s s" for s :: "'a opstate" by (simp add: pending_progress_def)
next
  fix s t u :: "'a opstate"
  assume st: "pending_progress s t" and tu: "pending_progress t u"
  have sub: "set (os_pending t) \<subseteq> set (os_pending s)" "set (os_pending u) \<subseteq> set (os_pending t)"
    using st tu by (simp_all add: pending_progress_def)
  have id: "same_identity (os_cr s) (os_cr u)" using st tu by (auto simp: pending_progress_def intro: same_identity_trans)
  show "pending_progress s u"
    unfolding pending_progress_def
  proof (intro conjI impI ballI allI)
    assume inv: "status_inv (conds s)"
    with st have t: "status_inv (conds t)"
      "\<forall>p \<in> set (os_pending s). p \<in> set (os_pending t) \<or> lookup_condition (cmp_StatusName p) (conds t) = None"
      "\<forall>r. lookup_condition r (conds s) = None \<longrightarrow> lookup_condition r (conds t) = None"
      "\<forall>r. r \<notin> set (map cmp_StatusName (os_pending s)) \<longrightarrow> lookup_condition r (conds t) = lookup_condition r (conds s)"
      by (simp_all add: pending_progress_def)
    with tu have u: "status_inv (conds u)"
      "\<forall>p \<in> set (os_pending t). p \<in> set (os_pending u) \<or> lookup_condition (cmp_StatusName p) (conds u) = None"
      "\<forall>r. lookup_condition r (conds t) = None \<longrightarrow> lookup_condition r (conds u) = None"
      "\<forall>r. r \<notin> set (map cmp_StatusName (os_pending t)) \<longrightarrow> lookup_condition r (conds u) = lookup_condition r (conds t)"
      by (simp_all add: pending_progress_def)
    show "status_inv (conds u)" by (fact u(1))
    show "p \<in> set (os_pending u) \<or> lookup_condition (cmp_StatusName p) (conds u) = None" if "p \<in> set (os_pending s)" for p
    proof -
      from t(2) that have "p \<in> set (os_pending t) \<or> lookup_condition (cmp_StatusName p) (conds t) = None" by (rule bspec)
      then show ?thesis using u(2) u(3) [rule_format, of "cmp_StatusName p"] by auto
    qed
    show "lookup_condition r (conds u) = None" if "lookup_condition r (conds s) = None" for r
      using t(3) u(3) that by blast
    show "lookup_condition r (conds u) = lookup_condition r (conds s)" if "r \<notin> set (map cmp_StatusName (os_pending s))" for r
    proof -
      have "r \<notin> set (map cmp_StatusName (os_pending t))" using sub(1) that by auto
      then show ?thesis using t(4) u(4) that by simp
    qed
  qed (use sub id in auto)
qed

lemma progress_in_world: "keeps pending_progress (in_world m)"
  by (rule keepsI) (simp add: run_in_world pending_progress_def split: prod.split)

lemma swap_remove_set:
  assumes "i < length ps"
  shows "set (butlast (ps[i := last ps])) \<subseteq> set ps" and "p \<in> set ps \<Longrightarrow> p \<noteq> ps ! i \<Longrightarrow> p \<in> set (butlast (ps[i := last ps]))"
proof -
  note m = mset_swap_remove [OF assms]
  have set: "set (butlast (ps[i := last ps])) = set_mset (mset ps - {#ps ! i#})" by (simp flip: m)
  show "set (butlast (ps[i := last ps])) \<subseteq> set ps" unfolding set by (auto dest: in_diffD)
  show "p \<in> set ps \<Longrightarrow> p \<noteq> ps ! i \<Longrightarrow> p \<in> set (butlast (ps[i := last ps]))"
    unfolding set by (simp add: in_diff_count)
qed

text \<open>One component that turned out to be available.\<close>

lemma progress_drop:
  assumes "patch_law c" and i: "i < length (os_pending s)"
  defines "p \<equiv> os_pending s ! i"
  defines "t \<equiv> (after (RemoveStatus c (cmp_StatusName p)) s)\<lparr>os_pending := butlast ((os_pending s)[i := last (os_pending s)])\<rparr>"
  shows "pending_progress s t"
proof -
  have mem: "cmp_StatusName p \<in> set (map cmp_StatusName (os_pending s))" using i unfolding p_def by auto
  note a = after_RemoveStatus [OF assms(1), where s = s and reason = "cmp_StatusName p"]
  have look: "lookup_condition r (remove_condition (cmp_StatusName p) (conds s)) =
      (if r = cmp_StatusName p then None else lookup_condition r (conds s))" if "status_inv (conds s)" for r
    using condition_list.look_rem [OF that] condition_list.look_rem_other [OF that] by simp
  show ?thesis
    unfolding pending_progress_def t_def
    using a(1,3) swap_remove_set [OF i] look mem condition_list.rem_inv [of "conds s" "cmp_StatusName p"]
    by (auto simp: p_def)
qed

lemma check_components_progress:
  assumes "patch_law c"
  shows "i \<le> length (os_pending s) \<Longrightarrow> pending_progress s (after (check_components c ns i) s)"
proof (induction i arbitrary: s)
  case 0
  show ?case by (simp add: pending_progress.frame_refl)
next
  case (Suc i)
  let ?p = "os_pending s ! i"
  obtain r w where r: "run_state (component_available c ns ?p) (os_world s) = (r, w)" by fastforce
  let ?s = "s\<lparr>os_world := w\<rparr>"
  have s: "pending_progress s ?s" by (simp add: pending_progress_def)
  have i: "i < length (os_pending ?s)" using Suc.prems by simp
  show ?case
  proof (cases "r = Inr True")
    case True
    let ?t = "(after (RemoveStatus c (cmp_StatusName ?p)) ?s)\<lparr>os_pending := butlast ((os_pending s)[i := last (os_pending s)])\<rparr>"
    have "after (check_components c ns (Suc i)) s = after (check_components c ns i) ?t"
      using r True by (simp add: run_tryM run_in_world case_prod_beta)
    moreover have "pending_progress ?s ?t" using progress_drop [OF assms i] by simp
    then have "pending_progress s ?t" by (rule pending_progress.frame_trans [OF s])
    then have "pending_progress s (after (check_components c ns i) ?t)"
      by (rule pending_progress.frame_trans) (use Suc.prems in \<open>intro Suc.IH, simp\<close>)
    ultimately show ?thesis by simp
  next
    case False
    then have "after (check_components c ns (Suc i)) s = (case r of Inl _ \<Rightarrow> ?s | Inr _ \<Rightarrow> after (check_components c ns i) ?s)"
      using r by (cases r) (auto simp: run_tryM run_in_world)
    moreover have "pending_progress s (after (check_components c ns i) ?s)"
      by (rule pending_progress.frame_trans [OF s]) (use Suc.prems in \<open>intro Suc.IH, simp\<close>)
    ultimately show ?thesis using s by (cases r) simp_all
  qed
qed

text \<open>When the loop succeeds the conditions of all pending components are gone; when it times out the
  components that are still pending are marked as failed.\<close>

lemma pending_loop_outcome:
  assumes law: "patch_law c"
  shows "run_state (pending_loop c ns start fuel) s = (Some (Inr b), t) \<Longrightarrow>
     if b then pending_progress s t
     else \<exists>m. pending_progress s m \<and> os_pending m = os_pending t \<and> t = after (fail_pending c (os_pending m)) m
       \<and> (os_pending s = [] \<or> os_pending m \<noteq> [])"
proof (induction fuel arbitrary: s)
  case 0
  then show ?case by simp
next
  case (Suc fuel)
  obtain now w where now: "run_state (sys_Now c) (os_world s) = (now, w)" by fastforce
  let ?s = "s\<lparr>os_world := w\<rparr>"
  have s: "pending_progress s ?s" by (simp add: pending_progress_def)
  show ?case
  proof (cases "now - start \<ge> ComponentPendingTimeout")
    case True
    then have t: "b = False" "t = after (fail_pending c (os_pending ?s)) ?s"
      using Suc.prems now by (simp_all add: run_in_world case_prod_beta)
    have "os_pending t = os_pending ?s" unfolding t(2)
      using fail_pending_pending [OF law, of "os_pending ?s" ?s] .
    then show ?thesis using s t by auto
  next
    case False
    obtain r u where r: "run_state (check_components c ns (length (os_pending s))) ?s = (r, u)" by fastforce
    have su: "pending_progress s u"
      using check_components_progress [OF law, of "length (os_pending s)" ?s ns] r s pending_progress.frame_trans by fastforce
    show ?thesis
    proof (cases r)
      case (Inl e)
      then show ?thesis using Suc.prems now False r by (simp add: run_in_world)
    next
      case (Inr x)
      show ?thesis
      proof (cases "os_pending u = []")
        case True
        then show ?thesis using Suc.prems now False r Inr su by (simp add: run_in_world)
      next
        case nonempty: False
        obtain y w' where sl: "run_state (sys_Sleep c Interval) (os_world u) = (y, w')" by (metis prod.collapse)
        have "run_state (pending_loop c ns start fuel) (u\<lparr>os_world := w'\<rparr>) = (Some (Inr b), t)"
          using Suc.prems now False r Inr nonempty sl by (simp add: run_in_world)
        from Suc.IH [OF this] have IH: "if b then pending_progress (u\<lparr>os_world := w'\<rparr>) t
          else \<exists>m. pending_progress (u\<lparr>os_world := w'\<rparr>) m \<and> os_pending m = os_pending t
            \<and> t = after (fail_pending c (os_pending m)) m \<and> os_pending m \<noteq> []" using nonempty by (auto split: if_splits)
        have "pending_progress u (u\<lparr>os_world := w'\<rparr>)" by (simp add: pending_progress_def)
        with su have "pending_progress s (u\<lparr>os_world := w'\<rparr>)" by (rule pending_progress.frame_trans)
        with IH show ?thesis by (auto split: if_splits intro: pending_progress.frame_trans)
      qed
    qed
  qed
qed

text \<open>The state before the last step of a run that returns: the loop has made progress, and on a
  timeout the remaining components have been marked.\<close>

lemma ComponentsPending_Run_last:
  assumes law: "patch_law c" and run: "run_state (ComponentsPending_Run c) s = (Some (Inr b), t)"
  defines "s' \<equiv> after (start_status c ComponentPendingStatus ''Start reconcile of ComponentsPending'') s"
  obtains m where "pending_progress s' m"
    and "t = after (RemoveStatus c ComponentPendingStatus) (if b then m else after (fail_pending c (os_pending m)) m)"
    and "b \<Longrightarrow> os_pending m = []" and "\<not> b \<Longrightarrow> os_pending m \<noteq> []"
proof (cases "os_pending s' = []")
  case True
  then have "b" "t = after (RemoveStatus c ComponentPendingStatus) s'"
    using run by (auto simp: ComponentsPending_Run_def s'_def case_prod_beta)
  then show ?thesis using that [of s'] True pending_progress.frame_refl [of s'] by simp
next
  case False
  obtain x w1 where w1: "run_state (sys_Sleep c InitialDelay) (os_world s') = (x, w1)" by (metis prod.collapse)
  obtain start w2 where w2: "run_state (sys_Now c) w1 = (start, w2)" by fastforce
  let ?s = "s'\<lparr>os_world := w2\<rparr>"
  obtain r u where r: "run_state (pending_loop c (om_Namespace (ls_ObjectMeta (os_cr s'))) start pending_fuel) ?s = (r, u)" by fastforce
  have "r = Some (Inr b) \<and> t = after (RemoveStatus c ComponentPendingStatus) u"
    using run False w1 w2 r
    by (auto simp: ComponentsPending_Run_def s'_def run_in_world case_prod_beta split: option.splits sum.splits)
  then have r': "run_state (pending_loop c (om_Namespace (ls_ObjectMeta (os_cr s'))) start pending_fuel) ?s = (Some (Inr b), u)"
    and t: "t = after (RemoveStatus c ComponentPendingStatus) u" using r by simp_all
  have s: "pending_progress s' ?s" by (simp add: pending_progress_def)
  show ?thesis
  proof (cases b)
    case True
    with pending_loop_outcome [OF law r'] have "pending_progress s' u" using pending_progress.frame_trans [OF s] by simp
    moreover have "os_pending u = []" using pending_loop_True r' True by (cases b) auto
    ultimately show ?thesis using that [of u] t True by simp
  next
    case nb: False
    with pending_loop_outcome [OF law r'] False obtain m where m: "pending_progress ?s m" "os_pending m = os_pending u"
      "u = after (fail_pending c (os_pending m)) m" "os_pending m \<noteq> []" by auto
    then show ?thesis using that [of m] t nb pending_progress.frame_trans [OF s m(1)] by simp
  qed
qed

lemma ComponentsPending_Run_success:
  assumes law: "patch_law c" and inv: "status_inv (conds s)"
    and run: "run_state (ComponentsPending_Run c) s = (Some (Inr True), t)"
  shows "os_pending t = []" and "status_inv (conds t)" and "same_identity (os_cr s) (os_cr t)"
    and "p \<in> set (os_pending s) \<Longrightarrow> lookup_condition (cmp_StatusName p) (conds t) = None"
    and "lookup_condition ComponentPendingStatus (conds t) = None"
    and "lookup_condition r (conds s) = None \<Longrightarrow> lookup_condition r (conds t) = None"
proof -
  let ?s = "after (start_status c ComponentPendingStatus ''Start reconcile of ComponentsPending'') s"
  from ComponentsPending_Run_last [OF law run] obtain m where m: "pending_progress ?s m"
    and t: "t = after (RemoveStatus c ComponentPendingStatus) m" and e: "os_pending m = []" by auto
  have cps: "ComponentPendingStatus \<noteq> []" by (simp add: ComponentPendingStatus_def)
  have fr: "status_frame {ComponentPendingStatus} s ?s" by (rule keepsD [OF keeps_status_start [OF law cps]]) simp
  have pe: "os_pending ?s = os_pending s"
    unfolding start_status_def by (auto simp: case_prod_beta after_UpdateStatus(2) [OF law])
  have invm: "status_inv (conds m)" using m fr inv by (simp add: status_frame_def pending_progress_def)
  note a = after_RemoveStatus [OF law, where s = m and reason = ComponentPendingStatus]
  have look: "lookup_condition r' (conds t) = (if r' = ComponentPendingStatus then None else lookup_condition r' (conds m))" for r'
    unfolding t a(1) using condition_list.look_rem [OF invm] condition_list.look_rem_other [OF invm] by simp
  show "os_pending t = []" using a(2) e t by simp
  show "status_inv (conds t)" unfolding t a(1) by (rule condition_list.rem_inv [OF invm])
  show "same_identity (os_cr s) (os_cr t)"
    using fr m a(3) t by (auto simp: status_frame_def pending_progress_def intro: same_identity_trans)
  have progress: "\<forall>p \<in> set (os_pending s). lookup_condition (cmp_StatusName p) (conds m) = None"
    "\<forall>r. lookup_condition r (conds ?s) = None \<longrightarrow> lookup_condition r (conds m) = None"
    using m fr inv e pe by (auto simp: status_frame_def pending_progress_def)
  show "p \<in> set (os_pending s) \<Longrightarrow> lookup_condition (cmp_StatusName p) (conds t) = None" using progress(1) look by simp
  show "lookup_condition ComponentPendingStatus (conds t) = None" by (simp add: look)
  show "lookup_condition r (conds s) = None \<Longrightarrow> lookup_condition r (conds t) = None"
    using look progress(2) fr inv by (simp add: status_frame_def)
qed

lemma ComponentsPending_Run_timeout:
  assumes law: "patch_law c" and inv: "status_inv (conds s)"
    and names: "\<forall>p \<in> set (os_pending s). cmp_StatusName p \<noteq> [] \<and> cmp_StatusName p \<noteq> ComponentPendingStatus"
    and run: "run_state (ComponentsPending_Run c) s = (Some (Inr False), t)"
  shows "os_pending t \<noteq> []" and "set (os_pending t) \<subseteq> set (os_pending s)"
    and "p \<in> set (os_pending t) \<Longrightarrow> is_failed (conds t) (cmp_StatusName p)"
proof -
  let ?s = "after (start_status c ComponentPendingStatus ''Start reconcile of ComponentsPending'') s"
  from ComponentsPending_Run_last [OF law run] obtain m where m: "pending_progress ?s m"
    and t: "t = after (RemoveStatus c ComponentPendingStatus) (after (fail_pending c (os_pending m)) m)"
    and e: "os_pending m \<noteq> []" by auto
  let ?u = "after (fail_pending c (os_pending m)) m"
  have cps: "ComponentPendingStatus \<noteq> []" by (simp add: ComponentPendingStatus_def)
  have fr: "status_frame {ComponentPendingStatus} s ?s" by (rule keepsD [OF keeps_status_start [OF law cps]]) simp
  have pe: "os_pending ?s = os_pending s"
    unfolding start_status_def by (auto simp: case_prod_beta after_UpdateStatus(2) [OF law])
  have invm: "status_inv (conds m)" and sub: "set (os_pending m) \<subseteq> set (os_pending s)"
    using m fr inv pe by (auto simp: status_frame_def pending_progress_def)
  have pm: "os_pending t = os_pending m"
    unfolding t using after_RemoveStatus(2) [OF law] fail_pending_pending [OF law] by metis
  show "os_pending t \<noteq> []" and "set (os_pending t) \<subseteq> set (os_pending s)" using e sub pm by simp_all
  have nm: "\<forall>p \<in> set (os_pending m). cmp_StatusName p \<noteq> []" using names sub by auto
  assume p: "p \<in> set (os_pending t)"
  have "is_failed (conds ?u) (cmp_StatusName p)" and invu: "status_inv (conds ?u)"
    using fail_pending_fails [OF law invm nm] fail_pending_inv [OF law invm nm] p pm by simp_all
  then show "is_failed (conds t) (cmp_StatusName p)"
    using after_RemoveStatus(1) [OF law, where s = ?u and reason = ComponentPendingStatus]
      condition_list.look_rem_other [OF invu, of "cmp_StatusName p" ComponentPendingStatus] names p pm sub t
    by (auto simp: is_failed_def)
qed

lemma store_clock_law: "clock_law store_client st_clock"
  by (auto simp: clock_law_def store_client_def Let_def split: option.split)

end
