(* ===== verification/Component_Base.thy ===== *)
theory Component_Base
  imports Credentials Pod_Manager
begin

text \<open>
  What the component reconcilers share: rendering a directory of embedded templates
  (\<open>DataFromDirectory\<close> of \<open>internal/utils/files.go\<close>), the configuration Secret they build from it, and the
  contract between a component reconciler and the controller, the locale \<open>component_contract\<close>:
  a run touches its own status condition, its own objects, and appends at most its own
  entry to the pending components.
\<close>

section \<open>Rendering templates\<close>

text \<open>\<open>path.Join\<close> of a clean directory and a file name.\<close>

definition path_Join :: "string \<Rightarrow> string \<Rightarrow> string" where
  "path_Join dir file = dir @ ''/'' @ file"

definition MustAssetReader :: "embed_fs \<Rightarrow> string \<Rightarrow> string" where
  "MustAssetReader assets asset = (case fs_ReadFile assets asset of Inr content \<Rightarrow> content | Inl _ \<Rightarrow> [])"

fun render_files :: "'w client \<Rightarrow> embed_fs \<Rightarrow> template_parameters \<Rightarrow> string \<Rightarrow> (string \<times> bool) list
    \<Rightarrow> (string \<rightharpoonup> string) \<Rightarrow> ('w, string \<rightharpoonup> string) eff" where
  "render_files c assets params dir [] data = okM data"
| "render_files c assets params dir ((file, isDir) # files) data =
     (let filePath = path_Join dir file
      in tryM (sys_ParseTemplate c (MustAssetReader assets filePath) filePath params) (\<lambda>text.
           render_files c assets params dir files (data(file \<mapsto> text))))"

fun render_entries :: "'w client \<Rightarrow> embed_fs \<Rightarrow> template_parameters \<Rightarrow> string \<Rightarrow> (string \<times> bool) list
    \<Rightarrow> (string \<rightharpoonup> string) \<Rightarrow> ('w, string \<rightharpoonup> string) eff" where
  "render_entries c assets params dir [] data = okM data"
| "render_entries c assets params dir ((file, isDir) # files) data =
     (if isDir then
        (let dirName = path_Join dir file
         in tryM (pureE (fs_ReadDir assets dirName)) (\<lambda>configs.
            tryM (render_files c assets params dirName configs data) (\<lambda>data.
              render_entries c assets params dir files data)))
      else
        tryM (render_files c assets params dir [(file, False)] data) (\<lambda>data.
          render_entries c assets params dir files data))"

definition DataFromDirectory ::
  "'w client \<Rightarrow> embed_fs \<Rightarrow> string \<Rightarrow> template_parameters \<Rightarrow> ('w, string \<rightharpoonup> string) eff" where
  "DataFromDirectory c assets directoryPath params =
     tryM (pureE (fs_ReadDir assets directoryPath)) (\<lambda>files.
       render_entries c assets params directoryPath files Map.empty)"

text \<open>A Secret literal with the name, namespace and data, before it is labelled.\<close>

definition opaque_secret :: "string \<Rightarrow> string \<Rightarrow> (string \<rightharpoonup> string) \<Rightarrow> secret" where
  "opaque_secret nm ns data = \<lparr>se_Meta = meta_named nm ns, se_Type = ''Opaque'', se_Data = StringMapToByteMap data\<rparr>"

definition resource_labelInput :: "string \<Rightarrow> string gomap \<Rightarrow> LabelInput" where
  "resource_labelInput nm labels = \<lparr>li_Name = nm, li_Component = ComponentBackend, li_Instance = [],
     li_Version = [], li_Technology = [], li_ComponentLabels = labels\<rparr>"

definition set_runtime :: "string \<Rightarrow> logging_service \<Rightarrow> logging_service" where
  "set_runtime rt cr = cr\<lparr>ls_Spec := (ls_Spec cr)\<lparr>spec_ContainerRuntimeType := rt\<rparr>\<rparr>"

definition nil_config_error :: "string \<Rightarrow> logging_service \<Rightarrow> go_error" where
  "nil_config_error what cr = Errorf [Lit what, Lit '' configuration in Logging Service '', ArgS (om_Name (ls_ObjectMeta cr)),
     Lit '' is nil in the namespace '', ArgS (om_Namespace (ls_ObjectMeta cr))]"

text \<open>Logging an error and going on, for an operation on the world.\<close>

definition logged_world :: "('w, unit) eff \<Rightarrow> ('w opstate, unit) state" where
  "logged_world m = logged (in_world m)"

definition append_pending :: "component \<Rightarrow> ('w opstate, unit) state" where
  "append_pending p = do { ps \<leftarrow> get_pending; put_pending (ps @ [p]) }"

text \<open>A call that reads the custom resource through the shared pointer.\<close>

definition with_cr :: "(logging_service \<Rightarrow> ('w, 'a) state) \<Rightarrow> ('w opstate, 'a) state" where
  "with_cr m = do { cr \<leftarrow> get_cr; in_world (m cr) }"

lemma run_with_cr:
  "run_state (with_cr m) s = (case run_state (m (os_cr s)) (os_world s) of (a, w) \<Rightarrow> (a, s\<lparr>os_world := w\<rparr>))"
  by (simp add: with_cr_def run_in_world)

text \<open>Writing an entry of the configuration only when the field is set.\<close>

definition set_custom :: "string \<Rightarrow> string \<Rightarrow> (string \<rightharpoonup> string) \<Rightarrow> (string \<rightharpoonup> string)" where
  "set_custom key conf data = (if conf \<noteq> [] then data(key \<mapsto> conf) else data)"

definition maps_Copy :: "string gomap \<Rightarrow> (string \<rightharpoonup> string) \<Rightarrow> (string \<rightharpoonup> string)" where
  "maps_Copy src data = data ++ mcontents src"

text \<open>The objects of the given kinds and names in a namespace, or outside every namespace: the
  second read of \<open>GetResource\<close> looks there.\<close>

definition component_keys :: "kind set \<Rightarrow> string set \<Rightarrow> string \<Rightarrow> obj_key set" where
  "component_keys kinds names ns = kinds \<times> {ns, []} \<times> names"

lemma component_keys_mem [simp]:
  "(k, ns', nm) \<in> component_keys kinds names ns \<longleftrightarrow> k \<in> kinds \<and> ns' \<in> {ns, []} \<and> nm \<in> names"
  unfolding component_keys_def by blast

section \<open>The contract of a component\<close>

text \<open>Calls that do not write objects leave the view of the cluster alone; a poll does what its
  condition does, zero or more times.\<close>

definition quiet_laws :: "'w client \<Rightarrow> ('w \<Rightarrow> obj_key \<Rightarrow> object option) \<Rightarrow> bool" where
  "quiet_laws c view \<longleftrightarrow>
     (\<forall>cr w. view (after (cl_PatchStatus c cr) w) = view w)
     \<and> (\<forall>w. view (after (sys_NowText c) w) = view w)
     \<and> (\<forall>w. view (after (sys_Now c) w) = view w)
     \<and> (\<forall>d w. view (after (sys_Sleep c d) w) = view w)
     \<and> (\<forall>t p ps w. view (after (sys_ParseTemplate c t p ps) w) = view w)
     \<and> (\<forall>i t cond. keeps (\<lambda>s s'. view (fst s') = view (fst s)) cond \<longrightarrow>
           keeps (\<lambda>s s'. view (fst s') = view (fst s)) (sys_Poll c i t cond))"

lemma store_quiet_laws: "quiet_laws store_client store_view"
proof -
  have poll: "keeps (\<lambda>s s'. store_view (fst s') = store_view (fst s)) cond \<Longrightarrow>
      keeps (\<lambda>s s'. store_view (fst s') = store_view (fst s)) (sys_Poll store_client i t cond)" for i t cond
    by (auto simp: keeps_def store_client_def case_prod_beta split: sum.split)
  show ?thesis
    unfolding quiet_laws_def
    by (intro conjI allI impI poll) (auto simp: store_client_def store_view_def Let_def fun_eq_iff split: option.split)
qed

abbreviation namespace_of :: "'w opstate \<Rightarrow> string" where
  "namespace_of s \<equiv> om_Namespace (ls_ObjectMeta (os_cr s))"

definition object_frame :: "('w \<Rightarrow> obj_key \<Rightarrow> object option) \<Rightarrow> (string \<Rightarrow> obj_key set) \<Rightarrow> 'w opstate \<Rightarrow> 'w opstate \<Rightarrow> bool" where
  "object_frame view K s t \<longleftrightarrow> same_identity (os_cr s) (os_cr t)
     \<and> only_changes view (K (namespace_of s)) (os_world s) (os_world t)"

interpretation object_frame: effect_frame "object_frame view K" for view K
  by unfold_locales (auto simp: object_frame_def same_identity_def only_changes_def)

text \<open>A run appends at most the component's own entry.\<close>

definition pending_frame :: "component set \<Rightarrow> 'w opstate \<Rightarrow> 'w opstate \<Rightarrow> bool" where
  "pending_frame P s t \<longleftrightarrow> (\<exists>ps. set ps \<subseteq> P \<and> os_pending t = os_pending s @ ps)"

interpretation pending_frame: effect_frame "pending_frame P" for P
proof unfold_locales
  show "pending_frame P s s" for s :: "'a opstate"
    by (auto simp: pending_frame_def)
next
  fix s t u :: "'a opstate"
  assume "pending_frame P s t" and "pending_frame P t u"
  then obtain ps qs where "set ps \<subseteq> P" "os_pending t = os_pending s @ ps"
      "set qs \<subseteq> P" "os_pending u = os_pending t @ qs"
    by (auto simp: pending_frame_def)
  then have "set (ps @ qs) \<subseteq> P \<and> os_pending u = os_pending s @ (ps @ qs)" by simp
  then show "pending_frame P s u" unfolding pending_frame_def by blast
qed

locale component_contract =
  fixes run :: "('w opstate, unit) eff"
    and status :: string
    and entry :: component
    and view :: "'w \<Rightarrow> obj_key \<Rightarrow> object option"
    and keys :: "string \<Rightarrow> obj_key set"
  assumes contract_status: "keeps (status_frame {status}) run"
    and contract_objects: "keeps (object_frame view keys) run"
    and contract_pending: "keeps (pending_frame {entry}) run"
begin

lemma other_statuses_kept:
  assumes "status_inv (conds s)" and "r \<noteq> status"
  shows "lookup_condition r (conds (after run s)) = lookup_condition r (conds s)"
    and "status_inv (conds (after run s))"
  using keepsD [OF contract_status, of s] assms by (simp_all add: status_frame_def)

lemma other_objects_kept: "k \<notin> keys (namespace_of s) \<Longrightarrow> view (os_world (after run s)) k = view (os_world s) k"
  using keepsD [OF contract_objects, of s] by (cases k) (simp add: object_frame_def only_changes_def)

lemma pending_extended: "\<exists>ps. set ps \<subseteq> {entry} \<and> os_pending (after run s) = os_pending s @ ps"
  using keepsD [OF contract_pending, of s] by (simp add: pending_frame_def)

lemma identity_kept: "same_identity (os_cr s) (os_cr (after run s))"
  using keepsD [OF contract_status, of s] by (simp add: status_frame_def)

end

text \<open>What the component reconcilers rely on, in one place.\<close>

locale operator_client =
  fixes c :: "'w client"
    and view :: "'w \<Rightarrow> obj_key \<Rightarrow> object option"
  assumes client_cluster: "cluster_laws c view"
    and client_patch: "patch_law c"
    and client_quiet: "quiet_laws c view"

interpretation store_operator: operator_client store_client store_view
  by (intro operator_client.intro store_client_laws store_patch_law store_quiet_laws)

subsection \<open>Rules\<close>

lemma object_in_world:
  assumes "\<And>ns. keeps (only_changes view (K ns)) m"
  shows "keeps (object_frame view K) (in_world m)"
  by (rule keepsI) (use assms in \<open>auto simp: object_frame_def run_in_world keeps_def case_prod_beta\<close>)

lemma object_with_cr:
  assumes "\<And>cr. keeps (only_changes view (K (om_Namespace (ls_ObjectMeta cr)))) (m cr)"
  shows "keeps (object_frame view K) (with_cr m)"
  by (rule keepsI) (use assms in \<open>auto simp: object_frame_def run_with_cr keeps_def case_prod_beta\<close>)

lemma object_state_ops:
  "keeps (object_frame view K) get_cr" "keeps (object_frame view K) get_pending"
  "keeps (object_frame view K) (put_pending ps)" "keeps (object_frame view K) (append_pending p)"
  by (auto intro!: keepsI simp: object_frame_def append_pending_def only_changes_def)

lemma object_modify_cr:
  assumes "\<And>cr. ls_ObjectMeta (f cr) = ls_ObjectMeta cr"
  shows "keeps (object_frame view K) (modify_cr f)"
  by (rule keepsI) (simp add: object_frame_def same_identity_def only_changes_def assms)

lemma set_runtime_sel [simp]:
  "ls_ObjectMeta (set_runtime rt cr) = ls_ObjectMeta cr" "ls_Status (set_runtime rt cr) = ls_Status cr"
  by (simp_all add: set_runtime_def)

lemma quiet_patch:
  assumes "patch_law c" and "quiet_laws c view"
  shows "keeps (object_frame view K) (patch c)"
proof (rule keepsI)
  fix s
  have "view (os_world (after (patch c) s)) = view (os_world s)"
    using after_patch(4) [OF assms(1), of s] assms(2) by (simp add: quiet_laws_def)
  then show "object_frame view K s (after (patch c) s)"
    using after_patch(3) [OF assms(1), of s] by (simp add: object_frame_def only_changes_def)
qed

lemma quiet_in_world:
  assumes "\<And>w. view (after m w) = view w"
  shows "keeps (object_frame view K) (in_world m)"
  by (rule object_in_world) (simp add: keeps_def only_changes_def assms)

lemma quiet_UpdateStatus:
  assumes "patch_law c" and "quiet_laws c view"
  shows "keeps (object_frame view K) (UpdateStatus c r t b m)"
proof -
  have now: "\<And>w. view (after (sys_NowText c) w) = view w" using assms(2) by (simp add: quiet_laws_def)
  show ?thesis
    unfolding UpdateStatus_def
    by (intro object_frame.keeps_rules quiet_in_world now object_state_ops)
      (auto simp: Let_def intro!: object_frame.keeps_rules quiet_patch assms object_modify_cr split: prod.split)
qed

lemma quiet_RemoveStatus:
  assumes "patch_law c" and "quiet_laws c view"
  shows "keeps (object_frame view K) (RemoveStatus c r)"
  unfolding RemoveStatus_def
  by (auto intro!: object_frame.keeps_rules quiet_patch assms object_modify_cr object_state_ops)

lemma quiet_start_status:
  assumes "patch_law c" and "quiet_laws c view"
  shows "keeps (object_frame view K) (start_status c r m)"
  unfolding start_status_def
  by (intro object_frame.keeps_rules object_state_ops quiet_UpdateStatus assms)

lemmas object_rules = object_frame.keeps_rules object_state_ops object_with_cr
  quiet_UpdateStatus quiet_RemoveStatus quiet_start_status

lemma status_append_pending: "keeps (status_frame A) (append_pending p)"
  unfolding append_pending_def by (intro keeps_status_rules)

lemma status_with_cr: "keeps (status_frame A) (with_cr m)"
  unfolding with_cr_def by (intro keeps_status_rules)

lemmas status_rules = keeps_status_rules status_append_pending status_with_cr

lemma pending_state_ops:
  "keeps (pending_frame P) get_cr" "keeps (pending_frame P) get_pending" "keeps (pending_frame P) (modify_cr f)"
  "keeps (pending_frame P) (with_cr m)" "keeps (pending_frame P) (in_world n)"
  by (auto intro!: keepsI simp: pending_frame_def run_with_cr run_in_world case_prod_beta)

lemma pending_append: "p \<in> P \<Longrightarrow> keeps (pending_frame P) (append_pending p)"
  by (rule keepsI) (auto simp: pending_frame_def append_pending_def)

lemma pending_status:
  assumes "patch_law c"
  shows "keeps (pending_frame P) (UpdateStatus c r t b m)" and "keeps (pending_frame P) (RemoveStatus c r)"
  using assms by (auto intro!: keepsI simp: pending_frame_def after_UpdateStatus(2) after_RemoveStatus(2))

lemma pending_start: "patch_law c \<Longrightarrow> keeps (pending_frame P) (start_status c r m)"
  unfolding start_status_def by (intro pending_frame.keeps_rules pending_state_ops pending_status)

lemmas pending_rules = pending_frame.keeps_rules pending_state_ops pending_append pending_status pending_start

subsection \<open>Writes of the component reconcilers\<close>

lemma keeps_reconcile:
  assumes "cluster_laws c view"
  shows "key_of (ODaemonSet d) \<in> K \<Longrightarrow> keeps (only_changes view K) (reconcile_DaemonSet c cr d)"
    and "key_of (ODeployment dp) \<in> K \<Longrightarrow> keeps (only_changes view K) (reconcile_Deployment c cr dp)"
    and "key_of (OStatefulSet ss) \<in> K \<Longrightarrow> keeps (only_changes view K) (reconcile_StatefulSet c cr ss)"
    and "key_of (OService sv) \<in> K \<Longrightarrow> keeps (only_changes view K) (reconcile_Service c cr sv)"
    and "key_of (OServiceAccount sa) \<in> K \<Longrightarrow> keeps (only_changes view K) (reconcile_ServiceAccount c cr sa)"
  unfolding reconcile_defs by (auto intro!: keeps_createOrUpdate [OF assms])

lemma keeps_CreateResource:
  assumes "cluster_laws c view" and "key_of obj \<in> K"
  shows "keeps (only_changes view K) (CreateResource c cr obj)"
proof -
  have "key_of obj' \<in> K" if "cl_SetControllerReference c cr obj = Inr obj'" for obj'
    using cluster_laws_owner [OF assms(1) that] stored_as_key assms(2) by metis
  then show ?thesis
    unfolding CreateResource_def
    by (intro cluster.keeps_rules keeps_Create assms)
qed

lemma keeps_CreateOrUpdateConfigSecret:
  assumes laws: "cluster_laws c view" and key: "key_of (OSecret s) \<in> K"
  shows "keeps (only_changes view K) (CreateOrUpdateConfigSecret c cr s)"
proof -
  have "key_of (OSecret ((owned_secret c cr s)\<lparr>se_Meta := (se_Meta (owned_secret c cr s))\<lparr>om_ResourceVersion := v\<rparr>\<rparr>)) \<in> K" for v
    using stored_as_key [OF stored_as_version [OF owned_secret_stored [OF laws, where s = s and cr = cr], where v = v]] key by simp
  then show ?thesis
    unfolding CreateOrUpdateConfigSecret_def UpdateResource_def Let_def
    by (intro cluster.keeps_rules keeps_CreateResource [OF laws key] keeps_GetResource [OF laws])
      (auto intro!: cluster.keeps_rules keeps_Update [OF laws] split: object.split)
qed

lemma keeps_render:
  assumes "quiet_laws c view"
  shows "keeps (only_changes view K) (DataFromDirectory c assets dir params)"
proof -
  have parse: "keeps (only_changes view K) (sys_ParseTemplate c t p ps)" for t p ps
    using assms by (intro keepsI only_changes_view) (simp add: quiet_laws_def)
  have files: "keeps (only_changes view K) (render_files c assets params d fs data)" for d fs data
    by (induction fs arbitrary: data) (auto simp: Let_def intro!: cluster.keeps_rules parse)
  have "keeps (only_changes view K) (render_entries c assets params d fs data)" for d fs data
    by (induction fs arbitrary: data) (auto simp: Let_def intro!: cluster.keeps_rules files simp del: render_files.simps)
  then show ?thesis unfolding DataFromDirectory_def by (intro cluster.keeps_rules)
qed

lemma keeps_resolve:
  assumes "cluster_laws c view"
  shows "keeps (only_changes view K) (resolveOutputAuth c ns v outputs creds)"
proof -
  have field: "keeps (only_changes view K) (resolve_field c ns v sel t vals)" for sel t vals
    unfolding resolve_field_def ResolveSecretKeyValue_def by (intro cluster.keeps_rules keeps_Get assms)
  have auth: "keeps (only_changes view K) (resolveAuthValues c ns a v)" for a
    unfolding resolveAuthValues_def by (intro cluster.keeps_rules field)
  show ?thesis
    by (induction outputs arbitrary: creds) (auto intro!: cluster.keeps_rules auth split: option.split)
qed

subsection \<open>What a step of an installation achieves\<close>

lemma with_crE:
  assumes "run_state (with_cr m) s = (r, t)"
  obtains w where "run_state (m (os_cr s)) (os_world s) = (r, w)" and "t = s\<lparr>os_world := w\<rparr>"
  using assms by (auto simp: run_with_cr split: prod.splits)

text \<open>After a successful write of a workload or a Service it exists and nothing else has changed.\<close>

lemma reconcile_step:
  assumes laws: "cluster_laws c view"
    and run: "run_state (with_cr (\<lambda>cr. createOrUpdate c cr (d cr) (mutate (d cr)))) s = (Inr u, t)"
    and key: "key_of (d (os_cr s)) = k"
  shows "view (os_world t) k \<noteq> None" and "only_changes view {k} (os_world s) (os_world t)"
    and "os_cr t = os_cr s" and "os_pending t = os_pending s"
proof -
  from run obtain w where w: "run_state (createOrUpdate c (os_cr s) (d (os_cr s)) (mutate (d (os_cr s)))) (os_world s) = (Inr u, w)"
    and t: "t = s\<lparr>os_world := w\<rparr>" by (rule with_crE)
  show "view (os_world t) k \<noteq> None" using createOrUpdate_present [OF laws w] key t by simp
  show "only_changes view {k} (os_world s) (os_world t)"
    using keeps_run [OF keeps_createOrUpdate [OF laws] w, of "{k}"] key t by simp
  show "os_cr t = os_cr s" and "os_pending t = os_pending s" using t by simp_all
qed

text \<open>After the configuration step the Secret holds the rendered data and the ConfigMap of earlier
  releases is gone.\<close>

lemma config_secret_step:
  assumes laws: "cluster_laws c view" and key: "key_of (OSecret secret) = (KSecret, ns, nm)"
    and run: "run_state (tryM (CreateOrUpdateConfigSecret c cr secret) (\<lambda>_. DeleteLegacyConfigMap c ns nm)) w = (Inr u, w')"
  shows "\<exists>o'. view w' (KSecret, ns, nm) = Some o' \<and> stored_as (OSecret secret) o'"
    and "view w' (KConfigMap, ns, nm) = None"
proof -
  from run obtain b w1 where r1: "run_state (CreateOrUpdateConfigSecret c cr secret) w = (Inr b, w1)"
    and r2: "run_state (deleteIfExists c KConfigMap ns nm) w1 = (Inr u, w')"
    unfolding DeleteLegacyConfigMap_eq by (rule tryM_InrE)
  from CreateOrUpdateConfigSecret_cases [OF laws r1] key obtain o' where
    "view w1 (KSecret, ns, nm) = Some o'" "stored_as (OSecret secret) o'" by auto
  moreover have "view w' (KSecret, ns, nm) = view w1 (KSecret, ns, nm)"
    using deleteIfExists_cases(2) [OF laws r2] by (simp add: only_changes_def)
  ultimately show "\<exists>o'. view w' (KSecret, ns, nm) = Some o' \<and> stored_as (OSecret secret) o'" by auto
  show "view w' (KConfigMap, ns, nm) = None" using deleteIfExists_cases(1) [OF laws r2] by simp
qed

lemma only_changes_at: "only_changes view K w w' \<Longrightarrow> k \<notin> K \<Longrightarrow> view w' k = view w k"
  unfolding only_changes_def by blast

text \<open>The configuration handlers resolve the credentials, note the runtime, render the Secret, write it
  and delete the ConfigMap of earlier releases.\<close>

lemma config_handler_done:
  assumes laws: "cluster_laws c view"
    and run: "run_state (tryM (with_cr resolve) (\<lambda>creds. do {
        _ \<leftarrow> modify_cr f;
        with_cr (\<lambda>cr. tryM (render creds cr) (\<lambda>secret.
          tryM (CreateOrUpdateConfigSecret c cr secret) (\<lambda>_.
            DeleteLegacyConfigMap c (om_Namespace (ls_ObjectMeta cr)) nm))) })) s = (Inr u, t)"
    and meta: "\<And>cr. ls_ObjectMeta (f cr) = ls_ObjectMeta cr"
    and key: "\<And>creds cr w secret w'. run_state (render creds cr) w = (Inr secret, w') \<Longrightarrow>
        key_of (OSecret secret) = (KSecret, om_Namespace (ls_ObjectMeta cr), nm)"
  shows "view (os_world t) (KSecret, namespace_of s, nm) \<noteq> None"
    and "view (os_world t) (KConfigMap, namespace_of s, nm) = None"
    and "namespace_of t = namespace_of s" and "os_pending t = os_pending s"
proof -
  let ?rest = "\<lambda>creds cr. tryM (render creds cr) (\<lambda>secret.
      tryM (CreateOrUpdateConfigSecret c cr secret) (\<lambda>_. DeleteLegacyConfigMap c (om_Namespace (ls_ObjectMeta cr)) nm))"
  from run obtain creds s1 where s1: "run_state (with_cr resolve) s = (Inr creds, s1)"
    and r2: "run_state (do { _ \<leftarrow> modify_cr f; with_cr (?rest creds) }) s1 = (Inr u, t)" by (rule tryM_InrE)
  from s1 have ns1: "os_cr s1 = os_cr s" "os_pending s1 = os_pending s" by (auto elim!: with_crE)
  let ?s2 = "s1\<lparr>os_cr := f (os_cr s1)\<rparr>"
  from r2 obtain w where w: "run_state (?rest creds (os_cr ?s2)) (os_world ?s2) = (Inr u, w)"
    and t: "t = ?s2\<lparr>os_world := w\<rparr>" by (auto elim!: with_crE)
  from w obtain secret w1 where r3: "run_state (render creds (os_cr ?s2)) (os_world ?s2) = (Inr secret, w1)"
    and r4: "run_state (tryM (CreateOrUpdateConfigSecret c (os_cr ?s2) secret) (\<lambda>_.
           DeleteLegacyConfigMap c (namespace_of ?s2) nm)) w1 = (Inr u, w)" by (rule tryM_InrE)
  from config_secret_step [OF laws key [OF r3] r4]
  show "view (os_world t) (KSecret, namespace_of s, nm) \<noteq> None"
    and "view (os_world t) (KConfigMap, namespace_of s, nm) = None"
    and "namespace_of t = namespace_of s" and "os_pending t = os_pending s"
    using t ns1 meta by auto
qed

lemma start_status_done:
  assumes "patch_law c" and "r \<noteq> []"
  shows "namespace_of (after (start_status c r m) s) = namespace_of s"
    and "os_pending (after (start_status c r m) s) = os_pending s"
    and "status_inv (conds s) \<Longrightarrow> status_inv (conds (after (start_status c r m) s))"
  using keepsD [OF keeps_status_start [OF assms, of "{r}" m], of s]
    keepsD [OF pending_start [OF assms(1), of "{}" r m], of s]
  by (auto simp: status_frame_def same_identity_def pending_frame_def)

text \<open>The branch of a run that uninstalls: the status is removed and nothing is queued.\<close>

lemma uninstall_done:
  assumes patch: "patch_law c" and run: "run_state (do { _ \<leftarrow> m; _ \<leftarrow> RemoveStatus c r; okM () }) s = (x, t)"
    and status: "keeps (status_frame {r}) m" and pending: "keeps (pending_frame {}) m"
  shows "os_pending t = os_pending s" and "status_inv (conds s) \<Longrightarrow> lookup_condition r (conds t) = None"
proof -
  have t: "t = after (RemoveStatus c r) (after m s)" using run by (simp add: case_prod_beta)
  have "os_pending (after m s) = os_pending s" using keepsD [OF pending, of s] by (simp add: pending_frame_def)
  then show "os_pending t = os_pending s" using after_RemoveStatus(2) [OF patch] t by metis
  assume "status_inv (conds s)"
  with keepsD [OF status, of s] have "status_inv (conds (after m s))" by (simp add: status_frame_def)
  then show "lookup_condition r (conds t) = None"
    using after_RemoveStatus(1) [OF patch, where s = "after m s" and reason = r] t
    by (simp add: condition_list.look_rem)
qed

end
