(* ===== verification/Fluentd_Builder.thy ===== *)
theory Fluentd_Builder
  imports Builder
begin

text \<open>
  The FluentD DaemonSet and Service (\<open>internal/builder/fluentd/fluentd.go\<close>). The closures that
  append to the slices \<open>vols\<close> and \<open>mounts\<close> are functions on the pair of both. The builders are
  called only when \<open>cr.Spec.Fluentd\<close> is set, so they take its value with \<^const>\<open>the\<close>.
\<close>

section \<open>Volumes\<close>

definition add_hostPath :: "string \<Rightarrow> string \<Rightarrow> string \<Rightarrow> volumes_mounts \<Rightarrow> volumes_mounts" where
  "add_hostPath vname path pathType vm =
     (fst vm @ [\<lparr>vol_Name = vname, vol_Source = HostPathSource path (Some pathType)\<rparr>], snd vm)"

definition add_secret :: "string \<Rightarrow> string \<Rightarrow> volumes_mounts \<Rightarrow> volumes_mounts" where
  "add_secret vname secretName vm =
     (fst vm @ [\<lparr>vol_Name = vname, vol_Source = SecretSource secretName [] (Some 420)\<rparr>], snd vm)"

definition add_mount :: "string \<Rightarrow> string \<Rightarrow> string \<Rightarrow> bool \<Rightarrow> volumes_mounts \<Rightarrow> volumes_mounts" where
  "add_mount vname path subPath readOnly vm = (fst vm, snd vm @ [VolumeMount vname path subPath readOnly])"

definition add_certificate ::
  "string \<Rightarrow> string \<Rightarrow> string \<Rightarrow> string \<Rightarrow> string \<Rightarrow> string \<Rightarrow> volumes_mounts \<Rightarrow> volumes_mounts" where
  "add_certificate pfx dir suf file secretName secretKey vm =
     (if secretName = [] \<or> secretKey = [] then vm
      else (let vname = pfx @ ''-'' @ suf
            in add_mount vname (dir @ ''/'' @ file) secretKey True (add_secret vname secretName vm)))"

definition certificateVolumes :: "certificates \<Rightarrow> string \<Rightarrow> string \<Rightarrow> volumes_mounts \<Rightarrow> volumes_mounts" where
  "certificateVolumes certs pfx dir vm =
     (let vm = (case crt_CA certs of None \<Rightarrow> vm
          | Some c \<Rightarrow> add_certificate pfx dir ''ca'' ''ca.crt'' (ca_SecretName c) (ca_SecretKey c) vm);
          vm = (case crt_Cert certs of None \<Rightarrow> vm
          | Some c \<Rightarrow> add_certificate pfx dir ''cert'' ''tls.crt'' (cert_SecretName c) (cert_SecretKey c) vm)
      in (case crt_Key certs of None \<Rightarrow> vm
          | Some c \<Rightarrow> add_certificate pfx dir ''key'' ''tls.key'' (key_SecretName c) (key_SecretKey c) vm))"

definition fluentd_name :: string where
  "fluentd_name = ''logging-fluentd''"

definition fluentd_reloadContainer :: string where
  "fluentd_reloadContainer = ''configmap-reload''"

definition fluentd_technology :: string where
  "fluentd_technology = ''ruby''"

definition fluentd_configVolume :: string where
  "fluentd_configVolume = ''config''"

definition fluentd_tmpVolume :: string where
  "fluentd_tmpVolume = ''tmp''"

definition fluentd_configDir :: string where
  "fluentd_configDir = ''/fluentd/etc''"

text \<open>The volumes that give a collector access to the Docker daemon's logs.\<close>

definition fluentd_docker_volumes :: "logging_service_spec \<Rightarrow> volumes_mounts \<Rightarrow> volumes_mounts" where
  "fluentd_docker_volumes sp vm =
     (if spec_ContainerRuntimeType sp = ''docker'' then
        (let vm = (if spec_OSKind sp \<noteq> ''ubuntu''
               then add_mount ''sysconfigdocker'' ''/etc/sysconfig/docker'' [] True
                      (add_hostPath ''sysconfigdocker'' ''/etc/sysconfig/docker'' ''FileOrCreate'' vm)
               else vm);
             vm = add_hostPath ''dockerdaemon'' ''/etc/docker/daemon.json'' ''FileOrCreate'' vm;
             vm = add_mount ''dockerdaemon'' ''/etc/docker/daemon.json'' [] True vm;
             vm = add_hostPath ''dockerhostname'' ''/etc/hostname'' ''FileOrCreate'' vm;
             vm = add_mount ''dockerhostname'' ''/etc/docker-hostname'' [] True vm;
             vm = add_hostPath ''varlibdockercontainers'' ''/var/lib/docker/containers'' [] vm
         in add_mount ''varlibdockercontainers'' ''/var/lib/docker/containers'' [] True vm)
      else vm)"

definition fluentd_tls_volumes :: "fluentd_tls \<Rightarrow> volumes_mounts \<Rightarrow> volumes_mounts" where
  "fluentd_tls_volumes tls vm =
     (let custom = certificateVolumes (tls_Certificates (fdt_TLS tls)) ''tls'' ''/fluentd/tls'' vm
      in case tls_GenerateCerts (fdt_TLS tls) of
           Some g \<Rightarrow>
             if gc_Enabled g then
               fold (\<lambda>(vname, file) vm.
                   add_secret vname (gc_SecretName g) (add_mount vname (''/fluentd/tls/'' @ file) file True vm))
                 [(''tls-ca'', ''ca.crt''), (''tls-cert'', ''tls.crt''), (''tls-key'', ''tls.key'')] vm
             else custom
         | None \<Rightarrow> custom)"

definition fluentd_output_volumes :: "output_fluentd option \<Rightarrow> volumes_mounts \<Rightarrow> volumes_mounts" where
  "fluentd_output_volumes out vm =
     (case out of None \<Rightarrow> vm
      | Some output \<Rightarrow>
          (let vm = (case odt_Loki output of None \<Rightarrow> vm
               | Some loki \<Rightarrow> (case lfd_TLS loki of None \<Rightarrow> vm
                   | Some tls \<Rightarrow>
                       if lfd_Enabled loki \<and> ftp_Enabled (flt_FluentdTLSParams tls)
                       then certificateVolumes (flt_Certificates tls) ''loki-tls'' ''/fluentd/output/loki/tls'' vm
                       else vm))
           in (case odt_Http output of None \<Rightarrow> vm
               | Some http \<Rightarrow> (case hfd_TLS http of None \<Rightarrow> vm
                   | Some tls \<Rightarrow>
                       if hfd_Enabled http \<and> fhp_Enabled (fht_FluentdHttpTLSParams tls)
                       then certificateVolumes (fht_Certificates tls) ''http-tls'' ''/fluentd/output/http/tls'' vm
                       else vm))))"

definition fluentd_volumes :: "logging_service \<Rightarrow> FluentdDefaults \<Rightarrow> volumes_mounts" where
  "fluentd_volumes cr def =
     (let spec = the (spec_Fluentd (ls_Spec cr));
          vm = fluentd_docker_volumes (ls_Spec cr) ([], []);
          vm = add_hostPath ''varlog'' ''/var/log'' [] vm;
          vm = add_mount ''varlog'' ''/var/log'' [] False vm;
          vm = add_secret fluentd_configVolume fluentd_name vm;
          vm = add_mount fluentd_configVolume fluentd_configDir [] True vm;
          vm = (fst vm @ [\<lparr>vol_Name = fluentd_tmpVolume,
                 vol_Source = EmptyDirSource [] (Some (fdd_TmpVolumeSize def))\<rparr>], snd vm);
          vm = add_mount fluentd_tmpVolume ''/tmp'' [] False vm;
          vm = fluentd_tls_volumes (fd_TLS spec) vm;
          vm = fluentd_output_volumes (fd_Output spec) vm
      in (fst vm @ fd_AdditionalVolumes spec, snd vm @ fd_AdditionalVolumeMounts spec))"

section \<open>Containers\<close>

definition fluentd_startScript :: string where
  "fluentd_startScript = ''mkdir -p -m 0700 /tmp/fluentd-work'' @ [CHR 0x0A]
     @ ''export TMPDIR=/tmp/fluentd-work'' @ [CHR 0x0A]
     @ ''exec tini -- /bin/entrypoint.sh /fluentd/entrypoint.sh'' @ [CHR 0x0A]"

definition fluentd_selectorLabels :: "bool \<Rightarrow> string gomap" where
  "fluentd_selectorLabels openshift =
     (let provider = (if openshift then ''openshift'' else ''kubernetes'')
      in Some [''component'' \<mapsto> fluentd_name, ''provider'' \<mapsto> provider])"

definition fluentd_reloadContainerSpec :: "fluentd \<Rightarrow> FluentdDefaults \<Rightarrow> container" where
  "fluentd_reloadContainerSpec spec def =
     (let img = (case fd_ConfigmapReload spec of None \<Rightarrow> [] | Some r \<Rightarrow> cmr_DockerImage r);
          resources = (case fd_ConfigmapReload spec of None \<Rightarrow> fdd_ConfigmapReloadResources def
             | Some r \<Rightarrow> FirstNonNil (cmr_Resources r) (fdd_ConfigmapReloadResources def))
      in NewContainer fluentd_reloadContainer (zero_ContainerOpts\<lparr>
           cno_Image := img,
           cno_Args := [''--volume-dir='' @ fluentd_configDir,
             ''--webhook-url=http://localhost:24444/api/config.reload''],
           cno_Ports := [ContainerPort ''metrics'' (fdd_ConfigmapReloadPort def) []],
           cno_Resources := resources,
           cno_VolumeMounts := [VolumeMount fluentd_configVolume fluentd_configDir [] True,
             VolumeMount fluentd_tmpVolume ''/tmp'' [] False],
           cno_SecurityContext := Some (zero_security_context\<lparr>
             sc_AllowPrivilegeEscalation := Some False,
             sc_ReadOnlyRootFilesystem := Some True,
             sc_Capabilities := Some \<lparr>cap_Add = [], cap_Drop = [''ALL'']\<rparr>,
             sc_RunAsNonRoot := Some True,
             sc_RunAsUser := Some 1001,
             sc_RunAsGroup := Some 1001\<rparr>)\<rparr>))"

definition fluentd_env :: "logging_service \<Rightarrow> FluentdDefaults \<Rightarrow> env_var list" where
  "fluentd_env cr def =
     (let spec = the (spec_Fluentd (ls_Spec cr));
          vars = [EnvVarFrom ''K8S_NODE_NAME'' (FieldRef ''spec.nodeName'')];
          vars = (if fd_GraylogOutput spec
                  then vars @ [EnvVar ''GRAYLOG_HOST'' (fd_GraylogHost spec),
                    EnvVar ''GRAYLOG_PORT'' (go_Itoa (fd_GraylogPort spec)),
                    EnvVar ''GRAYLOG_PROTOCOL'' (First [] (fd_GraylogProtocol spec) (fdd_GraylogProtocol def))]
                  else vars);
          listenHost = (if spec_Ipv6 (ls_Spec cr) then ''::'' else ''0.0.0.0'')
      in vars @
         [EnvVar ''QUEUE_LIMIT_LENGTH'' (go_Itoa (First 0 (fd_QueueLimitLength spec) (fdd_QueueLimitLength def))),
          EnvVar ''WATCH_KUBERNETES_METADATA'' ''true'',
          EnvVar ''MA_HOST'' listenHost,
          EnvVar ''RUBY_GC_HEAP_OLDOBJECT_LIMIT_FACTOR'' ''1.2'',
          EnvVar ''RUBY_GC_MALLOC_LIMIT'' ''4194304'',
          EnvVar ''RUBY_GC_MALLOC_LIMIT_MAX'' ''16777216'',
          EnvVar ''RUBY_GC_OLDMALLOC_LIMIT'' ''16777216'',
          EnvVar ''RUBY_GC_OLDMALLOC_LIMIT_MAX'' ''16777216''])"

definition fluentd_securityContext :: "bool \<Rightarrow> security_context" where
  "fluentd_securityContext privileged =
     (let sc = zero_security_context\<lparr>
            sc_Privileged := Some privileged,
            sc_ReadOnlyRootFilesystem := Some True,
            sc_RunAsNonRoot := Some False,
            sc_RunAsUser := Some 0,
            sc_RunAsGroup := Some 0\<rparr>
      in if \<not> privileged
         then sc\<lparr>sc_AllowPrivilegeEscalation := Some False,
                sc_Capabilities := Some \<lparr>cap_Add = [], cap_Drop = [''ALL'']\<rparr>\<rparr>
         else sc)"

definition fluentdContainer :: "logging_service \<Rightarrow> FluentdDefaults \<Rightarrow> volume_mount list \<Rightarrow> container" where
  "fluentdContainer cr def mounts =
     (let spec = the (spec_Fluentd (ls_Spec cr))
      in NewContainer fluentd_name (zero_ContainerOpts\<lparr>
           cno_Image := fd_DockerImage spec,
           cno_ImagePullPolicy := ''IfNotPresent'',
           cno_Command := [''/bin/sh'', ''-c'', fluentd_startScript],
           cno_SecurityContext := Some (fluentd_securityContext (fd_SecurityContextPrivileged spec)),
           cno_Ports := [ContainerPort ''http'' (fdd_HTTPPort def) ''TCP'',
             ContainerPort ''metrics'' (fdd_MetricsPort def) ''TCP''],
           cno_LivenessProbe := Some (fdd_LivenessProbe def),
           cno_ReadinessProbe := Some (fdd_ReadinessProbe def),
           cno_Resources := FirstNonNil (fd_Resources spec) (fdd_Resources def),
           cno_Env := fluentd_env cr def,
           cno_VolumeMounts := mounts\<rparr>))"

definition fluentd_podSecurityContext :: "bool \<Rightarrow> pod_security_context" where
  "fluentd_podSecurityContext openshift =
     (let sc = zero_pod_security_context\<lparr>
            psc_SeccompProfile := Some ''RuntimeDefault'',
            psc_FSGroup := Some 1000,
            psc_RunAsNonRoot := Some False,
            psc_RunAsUser := Some 0,
            psc_RunAsGroup := Some 0\<rparr>
      in if openshift then sc\<lparr>psc_SELinuxType := Some ''spc_t''\<rparr> else sc)"

section \<open>Objects\<close>

definition fluentd_podSpec :: "logging_service \<Rightarrow> FluentdDefaults \<Rightarrow> pod_spec" where
  "fluentd_podSpec cr def =
     (let spec = the (spec_Fluentd (ls_Spec cr));
          vm = fluentd_volumes cr def;
          tolerations = (case fd_Tolerations spec of None \<Rightarrow> fdd_Tolerations def | Some t \<Rightarrow> t)
      in set_priority_class (fd_PriorityClassName spec) (zero_pod_spec\<lparr>
           ps_TerminationGracePeriodSeconds := Some 30,
           ps_ServiceAccountName := fluentd_name,
           ps_SecurityContext := Some (fluentd_podSecurityContext (spec_OpenshiftDeploy (ls_Spec cr))),
           ps_Containers := [fluentd_reloadContainerSpec spec def, fluentdContainer cr def (snd vm)],
           ps_Volumes := fst vm,
           ps_NodeSelector := NodeSelector (fd_NodeSelectorKey spec) (fd_NodeSelectorValue spec),
           ps_Tolerations := Some tolerations,
           ps_Affinity := fd_Affinity spec\<rparr>))"

definition fluentd_labelInput :: "logging_service \<Rightarrow> LabelInput" where
  "fluentd_labelInput cr =
     (let spec = the (spec_Fluentd (ls_Spec cr))
      in \<lparr>li_Name = fluentd_name,
          li_Component = ComponentBackend,
          li_Instance = GetInstanceLabel fluentd_name (om_Namespace (ls_ObjectMeta cr)),
          li_Version = GetTagFromImage (fd_DockerImage spec),
          li_Technology = fluentd_technology,
          li_ComponentLabels = fd_Labels spec\<rparr>)"

definition fluentd_DaemonSet :: "logging_service \<Rightarrow> Defaults \<Rightarrow> daemonset" where
  "fluentd_DaemonSet cr cfg =
     (let spec = the (spec_Fluentd (ls_Spec cr));
          openshift = spec_OpenshiftDeploy (ls_Spec cr);
          technology_label = [''app.kubernetes.io/technology'' \<mapsto> fluentd_technology];
          labels = map_option (\<lambda>m. m ++ technology_label) (fluentd_selectorLabels openshift);
          podLabels = map_option (\<lambda>m. m ++ technology_label) (fluentd_selectorLabels openshift);
          daemonSet = NewDaemonSet fluentd_name (om_Namespace (ls_ObjectMeta cr)) \<lparr>
            dso_Selector = fluentd_selectorLabels openshift,
            dso_UpdateStrategy = zero_update_strategy\<lparr>us_Type := ''RollingUpdate'', us_MaxUnavailable := Some 1\<rparr>,
            dso_MinReadySeconds = 60,
            dso_PodSpec = fluentd_podSpec cr (df_Fluentd cfg),
            dso_PodLabels = podLabels,
            dso_PodAnnotations = fd_Annotations spec,
            dso_Labels = labels,
            dso_Annotations = fd_Annotations spec\<rparr>
      in SetLabelsForDaemonSet (name_pod_template fluentd_name daemonSet) (fluentd_labelInput cr))"

definition fluentd_Service :: "logging_service \<Rightarrow> Defaults \<Rightarrow> service" where
  "fluentd_Service cr cfg =
     (let port = fdd_HTTPPort (df_Fluentd cfg);
          service = NewService fluentd_name (om_Namespace (ls_ObjectMeta cr)) (zero_ServiceOpts\<lparr>
            svo_Labels := fluentd_selectorLabels (spec_OpenshiftDeploy (ls_Spec cr)),
            svo_Selector := Some [''name'' \<mapsto> fluentd_name],
            svo_Ports := [\<lparr>sp_Name = fluentd_name, sp_Port = port, sp_Protocol = ''TCP'', sp_TargetPort = port\<rparr>]\<rparr>)
      in service\<lparr>sv_Meta := SetLabelsForResource (sv_Meta service) \<lparr>li_Name = fluentd_name,
            li_Component = ComponentBackend, li_Instance = [], li_Version = [], li_Technology = [],
            li_ComponentLabels = fd_Labels (the (spec_Fluentd (ls_Spec cr)))\<rparr> None\<rparr>)"

section \<open>The contract\<close>

text \<open>Every mount is of a volume that the same step, or an earlier one, appended.\<close>

definition vm_closed :: "volumes_mounts \<Rightarrow> bool" where
  "vm_closed vm \<longleftrightarrow> vm_Name ` set (snd vm) \<subseteq> vol_Name ` set (fst vm)"

lemma vm_closed_empty [simp]: "vm_closed ([], [])"
  by (simp add: vm_closed_def)

lemma vm_closed_hostPath_mount:
  "vm_closed vm \<Longrightarrow> vm_closed (add_mount v p s r (add_hostPath v q t vm))"
  by (auto simp: vm_closed_def add_hostPath_def add_mount_def)

lemma vm_closed_secret_mount:
  "vm_closed vm \<Longrightarrow> vm_closed (add_mount v p s r (add_secret v q vm))"
  by (auto simp: vm_closed_def add_secret_def add_mount_def)

lemma vm_closed_mount_secret:
  "vm_closed vm \<Longrightarrow> vm_closed (add_secret v q (add_mount v p s r vm))"
  by (auto simp: vm_closed_def add_secret_def add_mount_def)

lemma vm_closed_emptyDir_mount:
  "vm_closed vm \<Longrightarrow> vm_closed (add_mount v p s r (fst vm @ [\<lparr>vol_Name = v, vol_Source = src\<rparr>], snd vm))"
  by (auto simp: vm_closed_def add_mount_def)

lemmas vm_closed_steps = vm_closed_hostPath_mount vm_closed_secret_mount vm_closed_mount_secret
  vm_closed_emptyDir_mount

lemma vm_closed_certificate: "vm_closed vm \<Longrightarrow> vm_closed (add_certificate pfx dir s f n k vm)"
  by (simp add: add_certificate_def Let_def vm_closed_steps)

lemma vm_closed_certificateVolumes: "vm_closed vm \<Longrightarrow> vm_closed (certificateVolumes certs pfx dir vm)"
  by (simp add: certificateVolumes_def Let_def vm_closed_certificate split: option.split)

lemma vm_closed_docker: "vm_closed vm \<Longrightarrow> vm_closed (fluentd_docker_volumes sp vm)"
  by (simp add: fluentd_docker_volumes_def Let_def vm_closed_steps)

lemma vm_closed_tls: "vm_closed vm \<Longrightarrow> vm_closed (fluentd_tls_volumes tls vm)"
  by (simp add: fluentd_tls_volumes_def Let_def vm_closed_steps vm_closed_certificateVolumes split: option.split)

lemma vm_closed_output: "vm_closed vm \<Longrightarrow> vm_closed (fluentd_output_volumes out vm)"
  by (simp add: fluentd_output_volumes_def Let_def vm_closed_certificateVolumes split: option.split)

lemma keeps_certificate: "x \<in> set (fst vm) \<Longrightarrow> x \<in> set (fst (add_certificate pfx dir s f n k vm))"
  by (simp add: add_certificate_def add_secret_def add_mount_def Let_def)

lemma keeps_certificateVolumes: "x \<in> set (fst vm) \<Longrightarrow> x \<in> set (fst (certificateVolumes certs pfx dir vm))"
  by (simp add: certificateVolumes_def Let_def keeps_certificate split: option.split)

lemma fluentd_tls_keeps: "set (fst vm) \<subseteq> set (fst (fluentd_tls_volumes tls vm))"
  by (auto simp: fluentd_tls_volumes_def Let_def add_secret_def add_mount_def keeps_certificateVolumes split: option.split)

lemma fluentd_output_keeps: "set (fst vm) \<subseteq> set (fst (fluentd_output_volumes out vm))"
  by (rule subsetI) (simp add: fluentd_output_volumes_def Let_def keeps_certificateVolumes split: option.split)

text \<open>The mounts of the FluentD container are declared, and so are those of its reload sidecar.\<close>

lemma fluentd_volumes_closed:
  assumes "spec_Fluentd (ls_Spec cr) = Some spec"
  shows "vm_Name ` set (snd (fluentd_volumes cr def)) \<subseteq>
    vol_Name ` set (fst (fluentd_volumes cr def)) \<union> vm_Name ` set (fd_AdditionalVolumeMounts spec)"
proof -
  have c: "vm_closed vm \<Longrightarrow> vm_Name ` set (snd vm @ ms) \<subseteq> vol_Name ` set (fst vm @ vs) \<union> vm_Name ` set ms"
    for vm ms vs by (auto simp: vm_closed_def)
  show ?thesis
    unfolding fluentd_volumes_def assms Let_def option.sel fst_conv snd_conv
    by (intro c vm_closed_output vm_closed_tls vm_closed_steps vm_closed_docker vm_closed_empty)
qed

lemma fluentd_volumes_base:
  "fluentd_configVolume \<in> vol_Name ` set (fst (fluentd_volumes cr def))"
  "fluentd_tmpVolume \<in> vol_Name ` set (fst (fluentd_volumes cr def))"
proof -
  let ?base = "\<lambda>vm. {fluentd_configVolume, fluentd_tmpVolume} \<subseteq> vol_Name ` set (fst vm)"
  have "?base (fluentd_volumes cr def)"
    unfolding fluentd_volumes_def Let_def fst_conv
    by (rule subset_trans [OF _ image_mono [OF subset_trans [OF subset_trans [OF fluentd_tls_keeps fluentd_output_keeps]]]])
       (auto simp: add_mount_def add_secret_def)
  then show "fluentd_configVolume \<in> vol_Name ` set (fst (fluentd_volumes cr def))"
    and "fluentd_tmpVolume \<in> vol_Name ` set (fst (fluentd_volumes cr def))" by auto
qed

lemma fluentd_selectorLabels_foreign:
  "mcontents (fluentd_selectorLabels b) k = Some v \<Longrightarrow> k \<notin> set operator_label_keys"
  by (auto simp: fluentd_selectorLabels_def operator_label_keys_def Let_def split: if_splits)

lemma fluentd_DaemonSet_sel:
  "ds_Meta (fluentd_DaemonSet cr cfg) = SetLabelsForResource
     (objectMeta fluentd_name (om_Namespace (ls_ObjectMeta cr))
       (map_option (\<lambda>m. m ++ [''app.kubernetes.io/technology'' \<mapsto> fluentd_technology])
         (fluentd_selectorLabels (spec_OpenshiftDeploy (ls_Spec cr))))
       (fd_Annotations (the (spec_Fluentd (ls_Spec cr))))) (fluentd_labelInput cr) None"
  "dss_Selector (ds_Spec (fluentd_DaemonSet cr cfg)) = fluentd_selectorLabels (spec_OpenshiftDeploy (ls_Spec cr))"
  "pt_Labels (dss_Template (ds_Spec (fluentd_DaemonSet cr cfg))) = templateLabels (fluentd_labelInput cr)
     (map_option (\<lambda>m. m ++ [''app.kubernetes.io/technology'' \<mapsto> fluentd_technology])
       (fluentd_selectorLabels (spec_OpenshiftDeploy (ls_Spec cr))))"
  "pt_Spec (dss_Template (ds_Spec (fluentd_DaemonSet cr cfg))) = fluentd_podSpec cr (df_Fluentd cfg)"
  by (simp_all add: fluentd_DaemonSet_def Let_def SetLabelsForDaemonSet_def SetLabelsForWorkload_def
      name_pod_template_def NewDaemonSet_def podTemplate_def)

lemma fluentd_podSpec_mounts:
  assumes "spec_Fluentd (ls_Spec cr) = Some spec"
  shows "set (mount_names (fluentd_podSpec cr def)) \<subseteq> set (volume_names (fluentd_podSpec cr def))
    \<union> vm_Name ` set (fd_AdditionalVolumeMounts spec)"
proof -
  have "set (mount_names (fluentd_podSpec cr def)) =
      {fluentd_configVolume, fluentd_tmpVolume} \<union> vm_Name ` set (snd (fluentd_volumes cr def))"
    by (auto simp: mount_names_def fluentd_podSpec_def Let_def assms zero_pod_spec_def
        fluentd_reloadContainerSpec_def fluentdContainer_def NewContainer_def)
  moreover have "set (volume_names (fluentd_podSpec cr def)) = vol_Name ` set (fst (fluentd_volumes cr def))"
    by (simp add: volume_names_def fluentd_podSpec_def Let_def)
  ultimately show ?thesis
    using fluentd_volumes_closed [OF assms, of def] fluentd_volumes_base [of cr def] by auto
qed

interpretation fluentd_workload: workload_contract
  "\<lambda>cr. daemonset_workload (fluentd_DaemonSet cr cfg)"
  "\<lambda>cr. spec_Fluentd (ls_Spec cr) \<noteq> None"
  "\<lambda>_. fluentd_name"
  "\<lambda>cr. om_Namespace (ls_ObjectMeta cr)"
  "\<lambda>cr. vm_Name ` set (fd_AdditionalVolumeMounts (the (spec_Fluentd (ls_Spec cr))))"
  for cfg
proof (unfold_locales, goal_cases)
  case (1 cr)
  then show ?case by (simp add: workload_defs fluentd_DaemonSet_sel SetLabelsForResource_def objectMeta_def meta_named_def Let_def)
next
  case (2 cr)
  then show ?case by (simp add: workload_defs fluentd_DaemonSet_sel SetLabelsForResource_def objectMeta_def meta_named_def Let_def)
next
  case (3 cr)
  show ?case
    unfolding daemonset_workload_def workload.simps fluentd_DaemonSet_sel
    using fluentd_selectorLabels_foreign
    by (intro matches_templateLabels)
      (auto simp: fluentd_selectorLabels_def Let_def map_add_def operator_label_keys_def split: if_splits)
next
  case (4 cr)
  then show ?case by (simp add: workload_defs fluentd_DaemonSet_sel fluentd_labelInput_def Let_def)
next
  case (5 cr)
  then obtain spec where "spec_Fluentd (ls_Spec cr) = Some spec" by auto
  from fluentd_podSpec_mounts [OF this, of "df_Fluentd cfg"] this show ?case
    by (simp add: mounts_declared_def workload_defs fluentd_DaemonSet_sel)
qed

end
