(* ===== verification/Fluentd_Controller.thy ===== *)
theory Fluentd_Controller
  imports Component_Base Fluentd_Builder
begin

text \<open>
  The FluentD reconciler (\<open>internal/controllers/fluentd\<close>: \<open>manifest.go\<close>, \<open>handler.go\<close>,
  \<open>reconciler.go\<close>). The custom resource is read through the shared pointer before every call, since a
  status patch replaces it by the server's response. The embedded templates are the argument
  \<open>assets\<close>, the detected container runtime is \<open>rt\<close>.
\<close>

section \<open>Definitions\<close>

definition zero_fluentd_credentials :: fluentd_credentials where
  "zero_fluentd_credentials = \<lparr>fdc_Loki = zero_auth_values, fdc_Http = zero_auth_values\<rparr>"

definition fluentd_outputs :: "output_fluentd \<Rightarrow> fluentd_credentials OutputAuth list" where
  "fluentd_outputs output =
     (case odt_Loki output of None \<Rightarrow> []
      | Some loki \<Rightarrow> [\<lparr>oa_Values = Some (\<lambda>v creds. creds\<lparr>fdc_Loki := v\<rparr>), oa_Enabled = lfd_Enabled loki, oa_Auth = lfd_Auth loki\<rparr>])
     @ (case odt_Http output of None \<Rightarrow> []
      | Some http \<Rightarrow> [\<lparr>oa_Values = Some (\<lambda>v creds. creds\<lparr>fdc_Http := v\<rparr>), oa_Enabled = hfd_Enabled http, oa_Auth = hfd_Auth http\<rparr>])"

definition fluentd_resolveOutputCredentials :: "'w client \<Rightarrow> logging_service \<Rightarrow> ('w, fluentd_credentials) eff" where
  "fluentd_resolveOutputCredentials c cr =
     (case spec_Fluentd (ls_Spec cr) of
        None \<Rightarrow> okM zero_fluentd_credentials
      | Some spec \<Rightarrow>
          (case fd_Output spec of
             None \<Rightarrow> okM zero_fluentd_credentials
           | Some output \<Rightarrow>
               ResolveFluentdOutputAuth c (om_Namespace (ls_ObjectMeta cr)) (fluentd_outputs output) zero_fluentd_credentials))"

definition fluentd_token_entry :: "fluentd \<Rightarrow> fluentd_credentials \<Rightarrow> (string \<rightharpoonup> string) \<Rightarrow> (string \<rightharpoonup> string)" where
  "fluentd_token_entry spec credentials data =
     (case fd_Output spec of
        None \<Rightarrow> data
      | Some output \<Rightarrow>
          (case odt_Loki output of
             None \<Rightarrow> data
           | Some loki \<Rightarrow>
               (case lfd_Auth loki of
                  None \<Rightarrow> data
                | Some a \<Rightarrow>
                    if lfd_Enabled loki \<and> auth_Token a \<noteq> None
                    then data(''loki-auth-token'' \<mapsto> av_Token (fdc_Loki credentials)) else data)))"

definition fluentdConfigSecret ::
  "'w client \<Rightarrow> embed_fs \<Rightarrow> string \<Rightarrow> fluentd_credentials \<Rightarrow> logging_service \<Rightarrow> ('w, secret) eff" where
  "fluentdConfigSecret c assets rt credentials cr =
     (case spec_Fluentd (ls_Spec cr) of
        None \<Rightarrow> failM (nil_config_error ''fluentd'' cr)
      | Some spec \<Rightarrow>
          (let cr = set_runtime rt cr;
               parameters = FluentdParameters (ToParams cr) credentials
           in tryM (DataFromDirectory c assets FluentdConfigMapDirectory parameters) (\<lambda>data.
                let data = data(''input-custom.conf'' \<mapsto> fd_CustomInputConf spec,
                      ''filter-custom.conf'' \<mapsto> fd_CustomFilterConf spec,
                      ''output-custom.conf'' \<mapsto> fd_CustomOutputConf spec);
                    data = fluentd_token_entry spec credentials data;
                    secret = opaque_secret FluentdComponentName (om_Namespace (ls_ObjectMeta cr)) data
                in okM (secret\<lparr>se_Meta := SetLabelsForResource (se_Meta secret)
                     (resource_labelInput FluentdComponentName (fd_Labels spec)) None\<rparr>))))"

text \<open>The manifest writes the runtime into the custom resource once it knows that FluentD is set.\<close>

definition fluentd_note_runtime :: "string \<Rightarrow> logging_service \<Rightarrow> logging_service" where
  "fluentd_note_runtime rt cr = (if spec_Fluentd (ls_Spec cr) = None then cr else set_runtime rt cr)"

definition fluentd_handleConfigSecret :: "'w client \<Rightarrow> embed_fs \<Rightarrow> string \<Rightarrow> ('w opstate, unit) eff" where
  "fluentd_handleConfigSecret c assets rt =
     tryM (with_cr (fluentd_resolveOutputCredentials c)) (\<lambda>credentials. do {
       _ \<leftarrow> modify_cr (fluentd_note_runtime rt);
       with_cr (\<lambda>cr.
         tryM (fluentdConfigSecret c assets rt credentials cr) (\<lambda>secret.
         tryM (CreateOrUpdateConfigSecret c cr secret) (\<lambda>_.
           DeleteLegacyConfigMap c (om_Namespace (ls_ObjectMeta cr)) FluentdComponentName))) })"

definition fluentd_handleDaemonSet :: "'w client \<Rightarrow> Defaults \<Rightarrow> string \<Rightarrow> ('w opstate, unit) eff" where
  "fluentd_handleDaemonSet c cfg rt = do {
     _ \<leftarrow> modify_cr (set_runtime rt);
     with_cr (\<lambda>cr. reconcile_DaemonSet c cr (fluentd_DaemonSet cr cfg)) }"

definition fluentd_handleService :: "'w client \<Rightarrow> Defaults \<Rightarrow> ('w opstate, unit) eff" where
  "fluentd_handleService c cfg = with_cr (\<lambda>cr. reconcile_Service c cr (fluentd_Service cr cfg))"

definition fluentd_deleteDaemonSet :: "'w client \<Rightarrow> logging_service \<Rightarrow> ('w, unit) eff" where
  "fluentd_deleteDaemonSet c cr = deleteIfExists c KDaemonSet (om_Namespace (ls_ObjectMeta cr)) FluentdComponentName"

definition fluentd_deleteConfigSecret :: "'w client \<Rightarrow> logging_service \<Rightarrow> ('w, unit) eff" where
  "fluentd_deleteConfigSecret c cr =
     tryM (deleteIfExists c KSecret (om_Namespace (ls_ObjectMeta cr)) FluentdComponentName) (\<lambda>_.
       DeleteLegacyConfigMap c (om_Namespace (ls_ObjectMeta cr)) FluentdComponentName)"

definition fluentd_deleteService :: "'w client \<Rightarrow> logging_service \<Rightarrow> ('w, unit) eff" where
  "fluentd_deleteService c cr = deleteIfExists c KService (om_Namespace (ls_ObjectMeta cr)) FluentdComponentName"

definition fluentd_uninstall :: "'w client \<Rightarrow> ('w opstate, unit) state" where
  "fluentd_uninstall c = do {
     _ \<leftarrow> logged (with_cr (fluentd_deleteDaemonSet c));
     _ \<leftarrow> logged (with_cr (fluentd_deleteConfigSecret c));
     _ \<leftarrow> logged (with_cr (\<lambda>cr. DeleteLegacyConfigMap c (om_Namespace (ls_ObjectMeta cr)) FluentdComponentName));
     logged (with_cr (fluentd_deleteService c)) }"

definition fluentd_entry :: component where
  "fluentd_entry = \<lparr>cmp_ComponentName = FluentdComponentName, cmp_StatusName = FluentdStatus\<rparr>"

definition fluentd_installed :: "logging_service \<Rightarrow> bool" where
  "fluentd_installed cr \<longleftrightarrow> spec_Fluentd (ls_Spec cr) \<noteq> None \<and> fluentd_IsInstall (spec_Fluentd (ls_Spec cr))"

definition fluentd_Run :: "'w client \<Rightarrow> embed_fs \<Rightarrow> Defaults \<Rightarrow> string \<Rightarrow> ('w opstate, unit) eff" where
  "fluentd_Run c assets cfg rt = do {
     _ \<leftarrow> start_status c FluentdStatus ''Start reconcile of Fluentd'';
     cr \<leftarrow> get_cr;
     if fluentd_installed cr then
       tryM (fluentd_handleConfigSecret c assets rt) (\<lambda>_.
       tryM (fluentd_handleDaemonSet c cfg rt) (\<lambda>_.
       tryM (fluentd_handleService c cfg) (\<lambda>_. do {
         _ \<leftarrow> append_pending fluentd_entry;
         okM () })))
     else do {
       _ \<leftarrow> fluentd_uninstall c;
       _ \<leftarrow> RemoveStatus c FluentdStatus;
       okM () } }"

section \<open>The contract\<close>

definition fluentd_keys :: "string \<Rightarrow> obj_key set" where
  "fluentd_keys = component_keys {KDaemonSet, KSecret, KConfigMap, KService} {FluentdComponentName}"

lemma fluentd_object_keys:
  "key_of (ODaemonSet (fluentd_DaemonSet cr cfg)) = (KDaemonSet, om_Namespace (ls_ObjectMeta cr), FluentdComponentName)"
  "key_of (OService (fluentd_Service cr cfg)) = (KService, om_Namespace (ls_ObjectMeta cr), FluentdComponentName)"
  by (simp_all add: key_of_def fluentd_DaemonSet_sel fluentd_Service_def Let_def NewService_def fluentd_name_def FluentdComponentName_def)

lemma fluentdConfigSecret_key:
  "run_state (fluentdConfigSecret c assets rt creds cr) w = (Inr s, w') \<Longrightarrow>
     key_of (OSecret s) = (KSecret, om_Namespace (ls_ObjectMeta cr), FluentdComponentName)"
  by (auto simp: fluentdConfigSecret_def Let_def run_tryM key_of_def opaque_secret_def meta_named_def
      split: option.splits prod.splits sum.splits)

lemma fluentd_note_runtime_sel [simp]:
  "ls_ObjectMeta (fluentd_note_runtime rt cr) = ls_ObjectMeta cr" "ls_Status (fluentd_note_runtime rt cr) = ls_Status cr"
  by (simp_all add: fluentd_note_runtime_def)

lemma fluentd_world_frames:
  assumes laws: "cluster_laws c view" and quiet: "quiet_laws c view"
  shows "keeps (only_changes view K) (fluentd_resolveOutputCredentials c cr)"
    and "keeps (only_changes view K) (fluentdConfigSecret c assets rt creds cr)"
  unfolding fluentd_resolveOutputCredentials_def ResolveFluentdOutputAuth_def fluentdConfigSecret_def Let_def
  by (intro cluster.keeps_rules keeps_resolve [OF laws] keeps_render [OF quiet])+

lemma fluentd_handle_frames:
  assumes laws: "cluster_laws c view" and quiet: "quiet_laws c view"
  shows "keeps (object_frame view fluentd_keys) (fluentd_handleConfigSecret c assets rt)"
    and "keeps (object_frame view fluentd_keys) (fluentd_handleDaemonSet c cfg rt)"
    and "keeps (object_frame view fluentd_keys) (fluentd_handleService c cfg)"
    and "keeps (object_frame view fluentd_keys) (fluentd_uninstall c)"
  unfolding fluentd_handleConfigSecret_def fluentd_handleDaemonSet_def fluentd_handleService_def
    fluentd_uninstall_def fluentd_deleteDaemonSet_def fluentd_deleteConfigSecret_def fluentd_deleteService_def
    DeleteLegacyConfigMap_eq
  by (intro object_rules object_modify_cr fluentd_world_frames [OF laws quiet] cluster.keeps_tryM_result
      keeps_CreateOrUpdateConfigSecret [OF laws] keeps_reconcile [OF laws] keeps_deleteIfExists [OF laws];
      simp add: fluentd_object_keys fluentdConfigSecret_key fluentd_keys_def)+

lemma fluentd_contract:
  assumes laws: "cluster_laws c view" and patch: "patch_law c" and quiet: "quiet_laws c view"
  shows "component_contract (fluentd_Run c assets cfg rt) FluentdStatus fluentd_entry view fluentd_keys"
proof
  note defs = fluentd_handleConfigSecret_def fluentd_handleDaemonSet_def fluentd_handleService_def fluentd_uninstall_def
  show "keeps (status_frame {FluentdStatus}) (fluentd_Run c assets cfg rt)"
    unfolding fluentd_Run_def defs
    by (intro status_rules keeps_status_modify_cr patch; simp add: FluentdStatus_def)
  show "keeps (object_frame view fluentd_keys) (fluentd_Run c assets cfg rt)"
    unfolding fluentd_Run_def
    by (intro object_rules patch quiet fluentd_handle_frames [OF laws quiet])
  show "keeps (pending_frame {fluentd_entry}) (fluentd_Run c assets cfg rt)"
    unfolding fluentd_Run_def defs
    by (intro pending_rules patch; simp)
qed

sublocale operator_client \<subseteq> fluentd: component_contract
  "fluentd_Run c assets cfg rt" FluentdStatus fluentd_entry view fluentd_keys for assets cfg rt
  by (rule fluentd_contract [OF client_cluster client_patch client_quiet])

section \<open>A successful installation\<close>

text \<open>When a run queues FluentD as pending, its objects exist and the ConfigMap of earlier releases
  does not; otherwise a run that returns no error has removed the status.\<close>

lemma fluentd_install_done:
  assumes laws: "cluster_laws c view"
    and r1: "run_state (fluentd_handleConfigSecret c assets rt) s = (Inr u, s1)"
    and r2: "run_state (fluentd_handleDaemonSet c cfg rt) s1 = (Inr u', s2)"
    and r3: "run_state (fluentd_handleService c cfg) s2 = (Inr u'', s3)"
  shows "os_pending s3 = os_pending s"
    and "\<forall>k \<in> {KSecret, KDaemonSet, KService}. view (os_world s3) (k, namespace_of s, FluentdComponentName) \<noteq> None"
    and "view (os_world s3) (KConfigMap, namespace_of s, FluentdComponentName) = None"
proof -
  note c1 = config_handler_done [OF laws r1 [unfolded fluentd_handleConfigSecret_def] fluentd_note_runtime_sel(1) fluentdConfigSecret_key]
  let ?s1 = "s1\<lparr>os_cr := set_runtime rt (os_cr s1)\<rparr>"
  have r2': "run_state (with_cr (\<lambda>cr. reconcile_DaemonSet c cr (fluentd_DaemonSet cr cfg))) ?s1 = (Inr u', s2)"
    using r2 by (simp add: fluentd_handleDaemonSet_def)
  note c2 = reconcile_step [OF laws r2' [unfolded reconcile_defs] refl, unfolded fluentd_object_keys]
  note c3 = reconcile_step [OF laws r3 [unfolded fluentd_handleService_def reconcile_defs] refl, unfolded fluentd_object_keys]
  have ns: "namespace_of s2 = namespace_of s" using c1(3) c2(3) by simp
  show "os_pending s3 = os_pending s" using c1(4) c2(4) c3(4) by simp
  show "\<forall>k \<in> {KSecret, KDaemonSet, KService}. view (os_world s3) (k, namespace_of s, FluentdComponentName) \<noteq> None"
    and "view (os_world s3) (KConfigMap, namespace_of s, FluentdComponentName) = None"
    using c1 c2 c3 only_changes_at [OF c2(2)] only_changes_at [OF c3(2)] ns by auto
qed

lemma fluentd_uninstall_frames:
  "keeps (status_frame {FluentdStatus}) (fluentd_uninstall c)" "keeps (pending_frame {}) (fluentd_uninstall c)"
  unfolding fluentd_uninstall_def by (intro status_rules pending_rules)+

lemma fluentd_Run_done:
  assumes laws: "cluster_laws c view" and patch: "patch_law c"
    and run: "run_state (fluentd_Run c assets cfg rt) s = (Inr (), t)"
  shows "if fluentd_installed (os_cr (after (start_status c FluentdStatus ''Start reconcile of Fluentd'') s)) then os_pending t = os_pending s @ [fluentd_entry]
      \<and> (\<forall>k \<in> {KSecret, KDaemonSet, KService}. view (os_world t) (k, namespace_of s, FluentdComponentName) \<noteq> None)
      \<and> view (os_world t) (KConfigMap, namespace_of s, FluentdComponentName) = None
    else os_pending t = os_pending s \<and> (status_inv (conds s) \<longrightarrow> lookup_condition FluentdStatus (conds t) = None)"
proof -
  let ?start = "start_status c FluentdStatus ''Start reconcile of Fluentd''"
  let ?s = "after ?start s"
  have "FluentdStatus \<noteq> []" by (simp add: FluentdStatus_def)
  note st = start_status_done [OF patch this, where m = "''Start reconcile of Fluentd''" and s = s]
  show ?thesis
  proof (cases "fluentd_installed (os_cr ?s)")
    case True
    then have "run_state (tryM (fluentd_handleConfigSecret c assets rt) (\<lambda>_. tryM (fluentd_handleDaemonSet c cfg rt) (\<lambda>_.
       tryM (fluentd_handleService c cfg) (\<lambda>_. do { _ \<leftarrow> append_pending fluentd_entry; okM () })))) ?s = (Inr (), t)"
      using run by (simp add: fluentd_Run_def case_prod_beta)
    then obtain u1 s1 u2 s2 u3 s3 where r: "run_state (fluentd_handleConfigSecret c assets rt) ?s = (Inr u1, s1)"
      "run_state (fluentd_handleDaemonSet c cfg rt) s1 = (Inr u2, s2)" "run_state (fluentd_handleService c cfg) s2 = (Inr u3, s3)"
      and t: "t = s3\<lparr>os_pending := os_pending s3 @ [fluentd_entry]\<rparr>"
      by (auto elim!: tryM_InrE simp: append_pending_def)
    from fluentd_install_done [OF laws r] show ?thesis using t st True by simp
  next
    case False
    then have "run_state (do { _ \<leftarrow> fluentd_uninstall c; _ \<leftarrow> RemoveStatus c FluentdStatus; okM () }) ?s = (Inr (), t)"
      using run by (simp add: fluentd_Run_def case_prod_beta)
    from uninstall_done [OF patch this fluentd_uninstall_frames] show ?thesis using st False by simp
  qed
qed

end
