(* ===== verification/Fluentbit_Builder.thy ===== *)
theory Fluentbit_Builder
  imports Builder
begin

text \<open>
  The FluentBit DaemonSet and Service of the standard mode (\<open>internal/builder/fluentbit\<close>:
  \<open>fluentbit.go\<close>, \<open>volumes.go\<close>). \<open>resource.ParseQuantity\<close> is a parameter of the definitions that
  call it. Mounts and volumes are built by two functions of the source; the contract shows that
  they agree.
\<close>

section \<open>Volumes\<close>

definition fluentbit_name :: string where
  "fluentbit_name = ''logging-fluentbit''"

definition fluentbit_reloadContainer :: string where
  "fluentbit_reloadContainer = ''configmap-reload''"

definition fluentbit_technology :: string where
  "fluentbit_technology = ''c''"

definition fluentbit_configVolume :: string where
  "fluentbit_configVolume = ''config''"

definition fluentbit_tmpVolume :: string where
  "fluentbit_tmpVolume = ''tmp''"

definition fluentbit_stateVolume :: string where
  "fluentbit_stateVolume = ''fluentbit-state''"

definition fluentbit_storageVolume :: string where
  "fluentbit_storageVolume = ''fluentbit-storage''"

definition hostPathVolume :: "string \<Rightarrow> string \<Rightarrow> string \<Rightarrow> volume" where
  "hostPathVolume volumeName path pathType =
     \<lparr>vol_Name = volumeName, vol_Source = HostPathSource path (Some pathType)\<rparr>"

definition secretVolume :: "string \<Rightarrow> string \<Rightarrow> volume" where
  "secretVolume volumeName secretName =
     \<lparr>vol_Name = volumeName, vol_Source = SecretSource secretName [] (Some 420)\<rparr>"

text \<open>A file mounted from a Secret key into the collector container.\<close>

record secretFile =
  sf_volume :: string
  sf_secretName :: string
  sf_secretKey :: string
  sf_mountPath :: string

definition secretFileOf :: "string \<Rightarrow> string \<Rightarrow> string \<Rightarrow> string \<Rightarrow> secretFile" where
  "secretFileOf v n k p = \<lparr>sf_volume = v, sf_secretName = n, sf_secretKey = k, sf_mountPath = p\<rparr>"

definition certificateFiles :: "string \<Rightarrow> string \<Rightarrow> certificates \<Rightarrow> secretFile list" where
  "certificateFiles pfx dir certs =
     (case crt_CA certs of None \<Rightarrow> []
      | Some c \<Rightarrow> if ca_SecretName c \<noteq> [] \<and> ca_SecretKey c \<noteq> []
          then [secretFileOf (pfx @ ''-ca'') (ca_SecretName c) (ca_SecretKey c) (dir @ ''/ca.crt'')] else [])
   @ (case crt_Cert certs of None \<Rightarrow> []
      | Some c \<Rightarrow> if cert_SecretName c \<noteq> [] \<and> cert_SecretKey c \<noteq> []
          then [secretFileOf (pfx @ ''-cert'') (cert_SecretName c) (cert_SecretKey c) (dir @ ''/tls.crt'')] else [])
   @ (case crt_Key certs of None \<Rightarrow> []
      | Some c \<Rightarrow> if key_SecretName c \<noteq> [] \<and> key_SecretKey c \<noteq> []
          then [secretFileOf (pfx @ ''-key'') (key_SecretName c) (key_SecretKey c) (dir @ ''/tls.key'')] else [])"

definition secretFiles :: "fluentbit \<Rightarrow> secretFile list" where
  "secretFiles spec =
     (let tls = fbt_TLS (fb_TLS spec);
          custom = certificateFiles ''tls'' ''/fluent-bit/tls'' (tls_Certificates tls);
          files = (case tls_GenerateCerts tls of
              Some g \<Rightarrow>
                if gc_Enabled g then
                  [secretFileOf ''tls-ca'' (gc_SecretName g) ''ca.crt'' ''/fluent-bit/tls/ca.crt'',
                   secretFileOf ''tls-cert'' (gc_SecretName g) ''tls.crt'' ''/fluent-bit/tls/tls.crt'',
                   secretFileOf ''tls-key'' (gc_SecretName g) ''tls.key'' ''/fluent-bit/tls/tls.key'']
                else custom
            | None \<Rightarrow> custom)
      in (case fb_Output spec of
           None \<Rightarrow> files
         | Some output \<Rightarrow>
             files
             @ (case obt_Loki output of None \<Rightarrow> [] | Some loki \<Rightarrow>
                  (case lfb_TLS loki of None \<Rightarrow> [] | Some tls \<Rightarrow>
                     if lfb_Enabled loki \<and> btp_Enabled (blt_FluentbitTLSParams tls)
                     then certificateFiles ''loki-tls'' ''/fluent-bit/output/loki/tls'' (blt_Certificates tls)
                     else []))
             @ (case obt_Http output of None \<Rightarrow> [] | Some http \<Rightarrow>
                  (case hfb_TLS http of None \<Rightarrow> [] | Some tls \<Rightarrow>
                     if hfb_Enabled http \<and> btp_Enabled (bht_FluentbitTLSParams tls)
                     then certificateFiles ''http-tls'' ''/fluent-bit/output/http/tls'' (bht_Certificates tls)
                     else []))
             @ (case obt_Otel output of None \<Rightarrow> [] | Some otel \<Rightarrow>
                  (case ofb_TLS otel of None \<Rightarrow> [] | Some tls \<Rightarrow>
                     if ofb_Enabled otel \<and> btp_Enabled (bht_FluentbitTLSParams tls)
                     then certificateFiles ''otel-tls'' ''/fluent-bit/output/otel/tls'' (bht_Certificates tls)
                     else []))))"

definition fluentbit_volumeMounts :: "logging_service \<Rightarrow> volume_mount list" where
  "fluentbit_volumeMounts cr =
     (let spec = the (spec_Fluentbit (ls_Spec cr))
      in (if spec_ContainerRuntimeType (ls_Spec cr) = ''docker''
          then (if spec_OSKind (ls_Spec cr) \<noteq> ''ubuntu''
                then [VolumeMount ''sysconfigdocker'' ''/etc/sysconfig/docker'' [] True] else [])
             @ [VolumeMount ''dockerdaemon'' ''/etc/docker/daemon.json'' [] True,
                VolumeMount ''dockerhostname'' ''/etc/docker-hostname'' [] True,
                VolumeMount ''varlibdockercontainers'' ''/var/lib/docker/containers'' [] True]
          else [])
       @ [VolumeMount ''varlog'' ''/var/log'' [] True,
          VolumeMount fluentbit_stateVolume ''/fluent-bit/state'' [] False]
       @ (if UsesFilesystemBuffer spec
          then [VolumeMount fluentbit_storageVolume ''/fluent-bit/storage'' [] False] else [])
       @ [VolumeMount fluentbit_configVolume ''/fluent-bit/etc'' [] True,
          VolumeMount fluentbit_tmpVolume ''/tmp'' [] False]
       @ map (\<lambda>file. VolumeMount (sf_volume file) (sf_mountPath file) (sf_secretKey file) True) (secretFiles spec))"

text \<open>A malformed limit falls back to the default, which always parses.\<close>

definition stateSizeLimit :: "(string \<Rightarrow> go_error + quantity) \<Rightarrow> fluentbit \<Rightarrow> quantity" where
  "stateSizeLimit ParseQuantity spec =
     (case ParseQuantity (EffectiveMemoryOnlyStateSizeLimit spec) of
        Inr q \<Rightarrow> q | Inl _ \<Rightarrow> Quantity FluentbitDefaultMemoryOnlyStateSizeLimit)"

definition fluentbit_volumes ::
  "(string \<Rightarrow> go_error + quantity) \<Rightarrow> logging_service \<Rightarrow> FluentbitDefaults \<Rightarrow> volume list" where
  "fluentbit_volumes ParseQuantity cr def =
     (let spec = the (spec_Fluentbit (ls_Spec cr))
      in (if spec_ContainerRuntimeType (ls_Spec cr) = ''docker''
          then (if spec_OSKind (ls_Spec cr) \<noteq> ''ubuntu''
                then [hostPathVolume ''sysconfigdocker'' ''/etc/sysconfig/docker'' ''FileOrCreate''] else [])
             @ [hostPathVolume ''dockerdaemon'' ''/etc/docker/daemon.json'' ''FileOrCreate'',
                hostPathVolume ''dockerhostname'' ''/etc/hostname'' ''FileOrCreate'',
                hostPathVolume ''varlibdockercontainers'' ''/var/lib/docker/containers'' []]
          else [])
       @ [hostPathVolume ''varlog'' ''/var/log'' []]
       @ (if UsesPersistentOffsets spec
          then [hostPathVolume fluentbit_stateVolume ''/var/lib/fluent-bit/state'' ''DirectoryOrCreate'']
          else [\<lparr>vol_Name = fluentbit_stateVolume,
                 vol_Source = EmptyDirSource ''Memory'' (Some (stateSizeLimit ParseQuantity spec))\<rparr>])
       @ (if UsesFilesystemBuffer spec
          then [hostPathVolume fluentbit_storageVolume ''/var/lib/fluent-bit/storage'' ''DirectoryOrCreate''] else [])
       @ [secretVolume fluentbit_configVolume fluentbit_name,
          \<lparr>vol_Name = fluentbit_tmpVolume, vol_Source = EmptyDirSource [] (Some (fbd_TmpVolumeSize def))\<rparr>]
       @ map (\<lambda>file. secretVolume (sf_volume file) (sf_secretName file)) (secretFiles spec))"

section \<open>Containers\<close>

definition fluentbit_provider :: "bool \<Rightarrow> string" where
  "fluentbit_provider openshift = (if openshift then ''openshift'' else ''kubernetes'')"

definition fluentbit_selector :: "bool \<Rightarrow> string gomap" where
  "fluentbit_selector openshift = Some [''component'' \<mapsto> fluentbit_name, ''provider'' \<mapsto> fluentbit_provider openshift]"

definition fluentbit_workloadLabels :: "bool \<Rightarrow> string gomap" where
  "fluentbit_workloadLabels openshift =
     map_option (\<lambda>m. m(''app.kubernetes.io/technology'' \<mapsto> ''cpp'', ''kubernetes.io/cluster-service'' \<mapsto> ''true''))
       (fluentbit_selector openshift)"

definition fluentbit_servicePort :: "string \<Rightarrow> int \<Rightarrow> service_port" where
  "fluentbit_servicePort portName port =
     \<lparr>sp_Name = portName, sp_Port = port, sp_Protocol = ''TCP'', sp_TargetPort = port\<rparr>"

definition reloaderContainer :: "fluentbit \<Rightarrow> FluentbitDefaults \<Rightarrow> container" where
  "reloaderContainer spec def =
     (let img = (case fb_ConfigmapReload spec of None \<Rightarrow> [] | Some r \<Rightarrow> cmr_DockerImage r);
          resources = (case fb_ConfigmapReload spec of None \<Rightarrow> fbd_ConfigmapReloadResources def
             | Some r \<Rightarrow> (case cmr_Resources r of None \<Rightarrow> fbd_ConfigmapReloadResources def | Some q \<Rightarrow> q))
      in NewContainer fluentbit_reloadContainer (zero_ContainerOpts\<lparr>
           cno_Image := img,
           cno_Args := fbd_ConfigmapReloadArgs def,
           cno_VolumeMounts := [VolumeMount fluentbit_configVolume ''/fluent-bit/etc'' [] True,
             VolumeMount fluentbit_tmpVolume ''/tmp'' [] False],
           cno_Resources := resources,
           cno_Ports := [ContainerPort ''reload-metrics'' (fbd_ConfigmapReloadPort def) []],
           cno_SecurityContext := Some (zero_security_context\<lparr>
             sc_AllowPrivilegeEscalation := Some False,
             sc_ReadOnlyRootFilesystem := Some True,
             sc_Capabilities := Some \<lparr>cap_Add = [], cap_Drop = [''ALL'']\<rparr>,
             sc_RunAsNonRoot := Some True,
             sc_RunAsUser := Some (fbd_ReloaderID def),
             sc_RunAsGroup := Some (fbd_ReloaderID def)\<rparr>)\<rparr>))"

definition collectorSecurityContext :: "bool \<Rightarrow> security_context" where
  "collectorSecurityContext privileged =
     (let sc = zero_security_context\<lparr>
            sc_Privileged := Some privileged,
            sc_ReadOnlyRootFilesystem := Some True,
            sc_RunAsNonRoot := Some False,
            sc_RunAsUser := Some 0,
            sc_RunAsGroup := Some 0\<rparr>
      in if \<not> privileged
         then sc\<lparr>sc_AllowPrivilegeEscalation := Some False,
                sc_Capabilities := Some \<lparr>cap_Add = [''DAC_OVERRIDE''], cap_Drop = [''ALL'']\<rparr>\<rparr>
         else sc)"

definition collectorContainer :: "logging_service \<Rightarrow> FluentbitDefaults \<Rightarrow> container" where
  "collectorContainer cr def =
     (let spec = the (spec_Fluentbit (ls_Spec cr));
          resources = (case fb_Resources spec of None \<Rightarrow> fbd_Resources def | Some r \<Rightarrow> r)
      in NewContainer fluentbit_name (zero_ContainerOpts\<lparr>
           cno_Image := fb_DockerImage spec,
           cno_ImagePullPolicy := ''IfNotPresent'',
           cno_SecurityContext := Some (collectorSecurityContext (fb_SecurityContextPrivileged spec)),
           cno_Ports := [ContainerPort ''http'' (fbd_HTTPPort def) ''TCP'',
             ContainerPort ''log-to-metrics'' (fbd_LogToMetricsPort def) ''TCP''],
           cno_LivenessProbe := Some (fbd_LivenessProbe def),
           cno_ReadinessProbe := Some (fbd_ReadinessProbe def),
           cno_Resources := resources,
           cno_Env := [EnvVarFrom ''NODE_NAME'' (FieldRef ''spec.nodeName'')],
           cno_VolumeMounts := fluentbit_volumeMounts cr\<rparr>))"

definition fluentbit_podSecurityContext :: "bool \<Rightarrow> pod_security_context" where
  "fluentbit_podSecurityContext openshift =
     (let sc = zero_pod_security_context\<lparr>psc_SeccompProfile := Some ''RuntimeDefault''\<rparr>
      in if openshift then sc\<lparr>psc_SELinuxType := Some ''spc_t''\<rparr> else sc)"

section \<open>Objects\<close>

definition fluentbit_podSpec ::
  "(string \<Rightarrow> go_error + quantity) \<Rightarrow> logging_service \<Rightarrow> FluentbitDefaults \<Rightarrow> pod_spec" where
  "fluentbit_podSpec ParseQuantity cr def =
     (let spec = the (spec_Fluentbit (ls_Spec cr));
          reloader = reloaderContainer spec def;
          collector = collectorContainer cr def;
          collector = collector\<lparr>co_VolumeMounts := co_VolumeMounts collector @ fb_AdditionalVolumeMounts spec\<rparr>;
          tolerations = (case fb_Tolerations spec of None \<Rightarrow> fbd_Tolerations def | Some t \<Rightarrow> t)
      in set_priority_class (fb_PriorityClassName spec) (zero_pod_spec\<lparr>
           ps_TerminationGracePeriodSeconds := Some (fbd_TerminationGracePeriod def),
           ps_ServiceAccountName := fluentbit_name,
           ps_SecurityContext := Some (fluentbit_podSecurityContext (spec_OpenshiftDeploy (ls_Spec cr))),
           ps_Tolerations := Some tolerations,
           ps_Containers := [reloader, collector],
           ps_Volumes := fluentbit_volumes ParseQuantity cr def @ fb_AdditionalVolumes spec,
           ps_NodeSelector := NodeSelector (fb_NodeSelectorKey spec) (fb_NodeSelectorValue spec),
           ps_Affinity := fb_Affinity spec\<rparr>))"

definition fluentbit_labelInput :: "logging_service \<Rightarrow> LabelInput" where
  "fluentbit_labelInput cr =
     (let spec = the (spec_Fluentbit (ls_Spec cr))
      in \<lparr>li_Name = fluentbit_name,
          li_Component = ComponentBackend,
          li_Instance = GetInstanceLabel fluentbit_name (om_Namespace (ls_ObjectMeta cr)),
          li_Version = GetTagFromImage (fb_DockerImage spec),
          li_Technology = fluentbit_technology,
          li_ComponentLabels = fb_Labels spec\<rparr>)"

definition fluentbit_DaemonSet ::
  "(string \<Rightarrow> go_error + quantity) \<Rightarrow> logging_service \<Rightarrow> Defaults \<Rightarrow> daemonset" where
  "fluentbit_DaemonSet ParseQuantity cr cfg =
     (let spec = the (spec_Fluentbit (ls_Spec cr));
          def = df_Fluentbit cfg;
          openshift = spec_OpenshiftDeploy (ls_Spec cr);
          daemonSet = NewDaemonSet fluentbit_name (om_Namespace (ls_ObjectMeta cr)) \<lparr>
            dso_Selector = fluentbit_selector openshift,
            dso_UpdateStrategy = zero_update_strategy\<lparr>us_Type := ''RollingUpdate'',
              us_MaxUnavailable := Some (fbd_MaxUnavailable def)\<rparr>,
            dso_MinReadySeconds = fbd_MinReadySeconds def,
            dso_PodSpec = fluentbit_podSpec ParseQuantity cr def,
            dso_PodLabels = fluentbit_workloadLabels openshift,
            dso_PodAnnotations = fb_Annotations spec,
            dso_Labels = fluentbit_workloadLabels openshift,
            dso_Annotations = fb_Annotations spec\<rparr>
      in SetLabelsForDaemonSet (name_pod_template fluentbit_name daemonSet) (fluentbit_labelInput cr))"

definition fluentbit_Service :: "logging_service \<Rightarrow> Defaults \<Rightarrow> service" where
  "fluentbit_Service cr cfg =
     (let def = df_Fluentbit cfg;
          service = NewService fluentbit_name (om_Namespace (ls_ObjectMeta cr)) (zero_ServiceOpts\<lparr>
            svo_Labels := Some [''component'' \<mapsto> fluentbit_name,
              ''provider'' \<mapsto> fluentbit_provider (spec_OpenshiftDeploy (ls_Spec cr))],
            svo_Selector := Some [''name'' \<mapsto> fluentbit_name],
            svo_Ports := [fluentbit_servicePort fluentbit_name (fbd_HTTPPort def),
              fluentbit_servicePort ''log-to-metrics'' (fbd_LogToMetricsPort def)]\<rparr>)
      in service\<lparr>sv_Meta := SetLabelsForResource (sv_Meta service) \<lparr>li_Name = fluentbit_name,
            li_Component = ComponentBackend, li_Instance = [], li_Version = [], li_Technology = [],
            li_ComponentLabels = fb_Labels (the (spec_Fluentbit (ls_Spec cr)))\<rparr> None\<rparr>)"

section \<open>The contract\<close>

text \<open>The two functions agree: the collector mounts exactly the volumes the pod declares.\<close>

lemma fluentbit_mounts_are_volumes:
  "map vm_Name (fluentbit_volumeMounts cr) = map vol_Name (fluentbit_volumes pq cr def)"
  by (simp add: fluentbit_volumeMounts_def fluentbit_volumes_def Let_def hostPathVolume_def secretVolume_def comp_def)

lemma fluentbit_volumes_base:
  "fluentbit_configVolume \<in> vol_Name ` set (fluentbit_volumes pq cr def)"
  "fluentbit_tmpVolume \<in> vol_Name ` set (fluentbit_volumes pq cr def)"
  by (simp_all add: fluentbit_volumes_def Let_def hostPathVolume_def secretVolume_def)

lemma fluentbit_workload_selector_foreign:
  assumes "mcontents (fluentbit_selector b) k = Some v"
  shows "k \<notin> set operator_label_keys" and "mcontents (fluentbit_workloadLabels b) k = Some v"
  using assms by (auto simp: fluentbit_selector_def fluentbit_workloadLabels_def operator_label_keys_def split: if_splits)

lemma fluentbit_DaemonSet_sel:
  "ds_Meta (fluentbit_DaemonSet pq cr cfg) = SetLabelsForResource
     (objectMeta fluentbit_name (om_Namespace (ls_ObjectMeta cr))
       (fluentbit_workloadLabels (spec_OpenshiftDeploy (ls_Spec cr)))
       (fb_Annotations (the (spec_Fluentbit (ls_Spec cr))))) (fluentbit_labelInput cr) None"
  "dss_Selector (ds_Spec (fluentbit_DaemonSet pq cr cfg)) = fluentbit_selector (spec_OpenshiftDeploy (ls_Spec cr))"
  "pt_Labels (dss_Template (ds_Spec (fluentbit_DaemonSet pq cr cfg))) =
     templateLabels (fluentbit_labelInput cr) (fluentbit_workloadLabels (spec_OpenshiftDeploy (ls_Spec cr)))"
  "pt_Spec (dss_Template (ds_Spec (fluentbit_DaemonSet pq cr cfg))) = fluentbit_podSpec pq cr (df_Fluentbit cfg)"
  by (simp_all add: fluentbit_DaemonSet_def Let_def SetLabelsForDaemonSet_def SetLabelsForWorkload_def
      name_pod_template_def NewDaemonSet_def podTemplate_def)

lemma fluentbit_podSpec_mounts:
  assumes "spec_Fluentbit (ls_Spec cr) = Some spec"
  shows "set (mount_names (fluentbit_podSpec pq cr def)) \<subseteq> set (volume_names (fluentbit_podSpec pq cr def))
    \<union> vm_Name ` set (fb_AdditionalVolumeMounts spec)"
proof -
  have vols: "vol_Name ` set (fluentbit_volumes pq cr def) = vm_Name ` set (fluentbit_volumeMounts cr)"
    by (metis fluentbit_mounts_are_volumes set_map)
  have "set (mount_names (fluentbit_podSpec pq cr def)) = {fluentbit_configVolume, fluentbit_tmpVolume}
      \<union> vm_Name ` set (fluentbit_volumeMounts cr) \<union> vm_Name ` set (fb_AdditionalVolumeMounts spec)"
    by (auto simp: mount_names_def fluentbit_podSpec_def Let_def assms zero_pod_spec_def
        reloaderContainer_def collectorContainer_def NewContainer_def)
  moreover have "vol_Name ` set (fluentbit_volumes pq cr def) \<subseteq> set (volume_names (fluentbit_podSpec pq cr def))"
    by (simp add: volume_names_def fluentbit_podSpec_def Let_def)
  ultimately show ?thesis
    using vols fluentbit_volumes_base [of pq cr def] by auto
qed

interpretation fluentbit_workload: workload_contract
  "\<lambda>cr. daemonset_workload (fluentbit_DaemonSet pq cr cfg)"
  "\<lambda>cr. spec_Fluentbit (ls_Spec cr) \<noteq> None"
  "\<lambda>_. fluentbit_name"
  "\<lambda>cr. om_Namespace (ls_ObjectMeta cr)"
  "\<lambda>cr. vm_Name ` set (fb_AdditionalVolumeMounts (the (spec_Fluentbit (ls_Spec cr))))"
  for pq cfg
proof (unfold_locales, goal_cases)
  case (1 cr)
  then show ?case by (simp add: workload_defs fluentbit_DaemonSet_sel)
next
  case (2 cr)
  then show ?case by (simp add: workload_defs fluentbit_DaemonSet_sel)
next
  case (3 cr)
  show ?case
    unfolding daemonset_workload_def workload.simps fluentbit_DaemonSet_sel
    using fluentbit_workload_selector_foreign by (intro matches_templateLabels) blast
next
  case (4 cr)
  then show ?case by (simp add: workload_defs fluentbit_DaemonSet_sel fluentbit_labelInput_def Let_def)
next
  case (5 cr)
  then obtain spec where "spec_Fluentbit (ls_Spec cr) = Some spec" by auto
  from fluentbit_podSpec_mounts [OF this, of pq "df_Fluentbit cfg"] this show ?case
    by (simp add: mounts_declared_def workload_defs fluentbit_DaemonSet_sel)
qed

end
