(* ===== verification/Fluentbit_Controller.thy ===== *)
theory Fluentbit_Controller
  imports Component_Base Fluentbit_Builder
begin

text \<open>
  The Fluent Bit reconciler (\<open>internal/controllers/fluentbit\<close>: \<open>manifest.go\<close>, \<open>handler.go\<close>,
  \<open>reconciler.go\<close>): one DaemonSet with its configuration Secret and Service, removed when Fluent Bit
  is not installed or runs as forwarder and aggregator. The helpers for the outputs are shared with
  the aggregator, whose outputs have the same type.
\<close>

section \<open>Definitions\<close>

definition zero_fluentbit_credentials :: fluentbit_credentials where
  "zero_fluentbit_credentials = \<lparr>fbc_Loki = zero_auth_values, fbc_Http = zero_auth_values, fbc_Otel = zero_auth_values\<rparr>"

definition fluentbit_outputs :: "output_fluentbit \<Rightarrow> fluentbit_credentials OutputAuth list" where
  "fluentbit_outputs output =
     (case obt_Loki output of None \<Rightarrow> []
      | Some loki \<Rightarrow> [\<lparr>oa_Values = Some (\<lambda>v creds. creds\<lparr>fbc_Loki := v\<rparr>), oa_Enabled = lfb_Enabled loki, oa_Auth = lfb_Auth loki\<rparr>])
     @ (case obt_Http output of None \<Rightarrow> []
      | Some http \<Rightarrow> [\<lparr>oa_Values = Some (\<lambda>v creds. creds\<lparr>fbc_Http := v\<rparr>), oa_Enabled = hfb_Enabled http, oa_Auth = hfb_Auth http\<rparr>])
     @ (case obt_Otel output of None \<Rightarrow> []
      | Some otel \<Rightarrow> [\<lparr>oa_Values = Some (\<lambda>v creds. creds\<lparr>fbc_Otel := v\<rparr>), oa_Enabled = ofb_Enabled otel, oa_Auth = ofb_Auth otel\<rparr>])"

definition fluentbit_resolveOutputCredentials :: "'w client \<Rightarrow> logging_service \<Rightarrow> ('w, fluentbit_credentials) eff" where
  "fluentbit_resolveOutputCredentials c cr =
     (case spec_Fluentbit (ls_Spec cr) of
        None \<Rightarrow> okM zero_fluentbit_credentials
      | Some spec \<Rightarrow>
          (case fb_Output spec of
             None \<Rightarrow> okM zero_fluentbit_credentials
           | Some output \<Rightarrow>
               ResolveFluentbitOutputAuth c (om_Namespace (ls_ObjectMeta cr)) (fluentbit_outputs output) zero_fluentbit_credentials))"

definition loki_labels_entry :: "output_fluentbit option \<Rightarrow> (string \<rightharpoonup> string) \<Rightarrow> (string \<rightharpoonup> string)" where
  "loki_labels_entry output data =
     (case output of
        None \<Rightarrow> data
      | Some o' \<Rightarrow>
          (case obt_Loki o' of
             None \<Rightarrow> data
           | Some loki \<Rightarrow>
               if lfb_Enabled loki \<and> lfb_LabelsMapping loki \<noteq> []
               then data(''loki-labels.json'' \<mapsto> lfb_LabelsMapping loki) else data))"

definition fluent_bit_label :: "string gomap" where
  "fluent_bit_label = Some [''k8s-app'' \<mapsto> ''fluent-bit'']"

definition fluentbitConfigSecret ::
  "'w client \<Rightarrow> embed_fs \<Rightarrow> string \<Rightarrow> fluentbit_credentials \<Rightarrow> logging_service \<Rightarrow> ('w, secret) eff" where
  "fluentbitConfigSecret c assets rt credentials cr =
     (case spec_Fluentbit (ls_Spec cr) of
        None \<Rightarrow> failM (nil_config_error ''fluentbit'' cr)
      | Some spec \<Rightarrow>
          (let cr = set_runtime rt cr;
               parameters = FluentbitParameters (ToParams cr) credentials
           in tryM (DataFromDirectory c assets FluentbitConfigMapDirectory parameters) (\<lambda>configData.
                let configData = set_custom ''input-custom.conf'' (fb_CustomInputConf spec) configData;
                    configData = set_custom ''filter-custom.conf'' (fb_CustomFilterConf spec) configData;
                    configData = maps_Copy (fb_CustomLuaScriptConf spec) configData;
                    configData = set_custom ''output-custom.conf'' (fb_CustomOutputConf spec) configData;
                    configData = loki_labels_entry (fb_Output spec) configData;
                    secret = opaque_secret FluentbitComponentName (om_Namespace (ls_ObjectMeta cr)) configData
                in okM (secret\<lparr>se_Meta := SetLabelsForResource (se_Meta secret)
                     (resource_labelInput FluentbitComponentName (fb_Labels spec)) fluent_bit_label\<rparr>))))"

definition fluentbit_note_runtime :: "string \<Rightarrow> logging_service \<Rightarrow> logging_service" where
  "fluentbit_note_runtime rt cr = (if spec_Fluentbit (ls_Spec cr) = None then cr else set_runtime rt cr)"

definition fluentbit_handleConfigSecret :: "'w client \<Rightarrow> embed_fs \<Rightarrow> string \<Rightarrow> ('w opstate, unit) eff" where
  "fluentbit_handleConfigSecret c assets rt =
     tryM (with_cr (fluentbit_resolveOutputCredentials c)) (\<lambda>credentials. do {
       _ \<leftarrow> modify_cr (fluentbit_note_runtime rt);
       with_cr (\<lambda>cr.
         tryM (fluentbitConfigSecret c assets rt credentials cr) (\<lambda>secret.
         tryM (CreateOrUpdateConfigSecret c cr secret) (\<lambda>_.
           DeleteLegacyConfigMap c (om_Namespace (ls_ObjectMeta cr)) FluentbitComponentName))) })"

definition fluentbit_handleDaemonSet :: "'w client \<Rightarrow> Defaults \<Rightarrow> string \<Rightarrow> ('w opstate, unit) eff" where
  "fluentbit_handleDaemonSet c cfg rt = do {
     _ \<leftarrow> modify_cr (fluentbit_note_runtime rt);
     with_cr (\<lambda>cr.
       if spec_Fluentbit (ls_Spec cr) = None then failM (nil_config_error ''fluentbit'' cr)
       else reconcile_DaemonSet c cr (fluentbit_DaemonSet (sys_ParseQuantity c) cr cfg)) }"

definition fluentbit_handleService :: "'w client \<Rightarrow> Defaults \<Rightarrow> ('w opstate, unit) eff" where
  "fluentbit_handleService c cfg = with_cr (\<lambda>cr.
     if spec_Fluentbit (ls_Spec cr) = None then failM (nil_config_error ''fluentbit'' cr)
     else reconcile_Service c cr (fluentbit_Service cr cfg))"

definition fluentbit_deleteDaemonSet :: "'w client \<Rightarrow> logging_service \<Rightarrow> ('w, unit) eff" where
  "fluentbit_deleteDaemonSet c cr = deleteIfExists c KDaemonSet (om_Namespace (ls_ObjectMeta cr)) FluentbitComponentName"

definition fluentbit_deleteConfigSecret :: "'w client \<Rightarrow> logging_service \<Rightarrow> ('w, unit) eff" where
  "fluentbit_deleteConfigSecret c cr = deleteIfExists c KSecret (om_Namespace (ls_ObjectMeta cr)) FluentbitComponentName"

definition fluentbit_deleteService :: "'w client \<Rightarrow> logging_service \<Rightarrow> ('w, unit) eff" where
  "fluentbit_deleteService c cr = deleteIfExists c KService (om_Namespace (ls_ObjectMeta cr)) FluentbitComponentName"

definition fluentbit_uninstall :: "'w client \<Rightarrow> ('w opstate, unit) state" where
  "fluentbit_uninstall c = do {
     _ \<leftarrow> logged (with_cr (fluentbit_deleteDaemonSet c));
     _ \<leftarrow> logged (with_cr (fluentbit_deleteConfigSecret c));
     _ \<leftarrow> logged (with_cr (\<lambda>cr. DeleteLegacyConfigMap c (om_Namespace (ls_ObjectMeta cr)) FluentbitComponentName));
     logged (with_cr (fluentbit_deleteService c)) }"

definition fluentbit_entry :: component where
  "fluentbit_entry = \<lparr>cmp_ComponentName = FluentbitComponentName, cmp_StatusName = FluentbitStatus\<rparr>"

text \<open>Fluent Bit on its own, and Fluent Bit as forwarder and aggregator.\<close>

definition aggregator_installed :: "fluentbit \<Rightarrow> bool" where
  "aggregator_installed spec = (case fb_Aggregator spec of None \<Rightarrow> False | Some a \<Rightarrow> ag_Install a)"

definition fluentbit_installed :: "logging_service \<Rightarrow> bool" where
  "fluentbit_installed cr =
     (case spec_Fluentbit (ls_Spec cr) of
        None \<Rightarrow> False
      | Some spec \<Rightarrow> fluentbit_IsInstall (Some spec) \<and> \<not> aggregator_installed spec)"

definition fluentbit_Run :: "'w client \<Rightarrow> embed_fs \<Rightarrow> Defaults \<Rightarrow> string \<Rightarrow> ('w opstate, unit) eff" where
  "fluentbit_Run c assets cfg rt = do {
     _ \<leftarrow> start_status c FluentbitStatus ''Start reconcile of Fluentbit'';
     cr \<leftarrow> get_cr;
     if fluentbit_installed cr then
       tryM (fluentbit_handleConfigSecret c assets rt) (\<lambda>_.
       tryM (fluentbit_handleDaemonSet c cfg rt) (\<lambda>_.
       tryM (fluentbit_handleService c cfg) (\<lambda>_. do {
         _ \<leftarrow> append_pending fluentbit_entry;
         okM () })))
     else do {
       _ \<leftarrow> fluentbit_uninstall c;
       _ \<leftarrow> RemoveStatus c FluentbitStatus;
       okM () } }"

section \<open>The contract\<close>

definition fluentbit_keys :: "string \<Rightarrow> obj_key set" where
  "fluentbit_keys = component_keys {KDaemonSet, KSecret, KConfigMap, KService} {FluentbitComponentName}"

lemma fluentbit_object_keys:
  "key_of (ODaemonSet (fluentbit_DaemonSet pq cr cfg)) = (KDaemonSet, om_Namespace (ls_ObjectMeta cr), FluentbitComponentName)"
  "key_of (OService (fluentbit_Service cr cfg)) = (KService, om_Namespace (ls_ObjectMeta cr), FluentbitComponentName)"
  by (simp_all add: key_of_def fluentbit_DaemonSet_sel fluentbit_Service_def Let_def NewService_def fluentbit_name_def FluentbitComponentName_def)

lemma fluentbitConfigSecret_key:
  "run_state (fluentbitConfigSecret c assets rt creds cr) w = (Inr s, w') \<Longrightarrow>
     key_of (OSecret s) = (KSecret, om_Namespace (ls_ObjectMeta cr), FluentbitComponentName)"
  by (auto simp: fluentbitConfigSecret_def Let_def run_tryM key_of_def opaque_secret_def meta_named_def
      split: option.splits prod.splits sum.splits)

lemma fluentbit_note_runtime_sel [simp]:
  "ls_ObjectMeta (fluentbit_note_runtime rt cr) = ls_ObjectMeta cr" "ls_Status (fluentbit_note_runtime rt cr) = ls_Status cr"
  by (simp_all add: fluentbit_note_runtime_def)

lemma fluentbit_world_frames:
  assumes laws: "cluster_laws c view" and quiet: "quiet_laws c view"
  shows "keeps (only_changes view K) (fluentbit_resolveOutputCredentials c cr)"
    and "keeps (only_changes view K) (fluentbitConfigSecret c assets rt creds cr)"
  unfolding fluentbit_resolveOutputCredentials_def ResolveFluentbitOutputAuth_def fluentbitConfigSecret_def Let_def
  by (intro cluster.keeps_rules keeps_resolve [OF laws] keeps_render [OF quiet])+

lemma fluentbit_handle_frames:
  assumes laws: "cluster_laws c view" and quiet: "quiet_laws c view"
  shows "keeps (object_frame view fluentbit_keys) (fluentbit_handleConfigSecret c assets rt)"
    and "keeps (object_frame view fluentbit_keys) (fluentbit_handleDaemonSet c cfg rt)"
    and "keeps (object_frame view fluentbit_keys) (fluentbit_handleService c cfg)"
    and "keeps (object_frame view fluentbit_keys) (fluentbit_uninstall c)"
  unfolding fluentbit_handleConfigSecret_def fluentbit_handleDaemonSet_def fluentbit_handleService_def
    fluentbit_uninstall_def fluentbit_deleteDaemonSet_def fluentbit_deleteConfigSecret_def fluentbit_deleteService_def
    DeleteLegacyConfigMap_eq
  by (intro object_rules object_modify_cr fluentbit_world_frames [OF laws quiet] cluster.keeps_tryM_result
      cluster.keeps_if cluster.keeps_failM
      keeps_CreateOrUpdateConfigSecret [OF laws] keeps_reconcile [OF laws] keeps_deleteIfExists [OF laws];
      simp add: fluentbit_object_keys fluentbitConfigSecret_key fluentbit_keys_def)+

lemma fluentbit_contract:
  assumes laws: "cluster_laws c view" and patch: "patch_law c" and quiet: "quiet_laws c view"
  shows "component_contract (fluentbit_Run c assets cfg rt) FluentbitStatus fluentbit_entry view fluentbit_keys"
proof
  note defs = fluentbit_handleConfigSecret_def fluentbit_handleDaemonSet_def fluentbit_handleService_def fluentbit_uninstall_def
  show "keeps (status_frame {FluentbitStatus}) (fluentbit_Run c assets cfg rt)"
    unfolding fluentbit_Run_def defs
    by (intro status_rules keeps_status_modify_cr patch; simp add: FluentbitStatus_def)
  show "keeps (object_frame view fluentbit_keys) (fluentbit_Run c assets cfg rt)"
    unfolding fluentbit_Run_def
    by (intro object_rules patch quiet fluentbit_handle_frames [OF laws quiet])
  show "keeps (pending_frame {fluentbit_entry}) (fluentbit_Run c assets cfg rt)"
    unfolding fluentbit_Run_def defs
    by (intro pending_rules patch; simp)
qed

sublocale operator_client \<subseteq> fluentbit: component_contract
  "fluentbit_Run c assets cfg rt" FluentbitStatus fluentbit_entry view fluentbit_keys for assets cfg rt
  by (rule fluentbit_contract [OF client_cluster client_patch client_quiet])

section \<open>A successful installation\<close>

lemma fluentbit_handleDaemonSet_done:
  assumes laws: "cluster_laws c view"
    and run: "run_state (fluentbit_handleDaemonSet c cfg rt) s = (Inr u, t)"
  shows "view (os_world t) (KDaemonSet, namespace_of s, FluentbitComponentName) \<noteq> None"
    and "only_changes view {(KDaemonSet, namespace_of s, FluentbitComponentName)} (os_world s) (os_world t)"
    and "namespace_of t = namespace_of s" and "os_pending t = os_pending s"
proof -
  let ?s = "s\<lparr>os_cr := fluentbit_note_runtime rt (os_cr s)\<rparr>"
  have "run_state (with_cr (\<lambda>cr. reconcile_DaemonSet c cr (fluentbit_DaemonSet (sys_ParseQuantity c) cr cfg))) ?s = (Inr u, t)"
    using run by (auto simp: fluentbit_handleDaemonSet_def run_with_cr split: if_splits)
  note r = reconcile_step [OF laws this [unfolded reconcile_defs] refl, unfolded fluentbit_object_keys]
  show "view (os_world t) (KDaemonSet, namespace_of s, FluentbitComponentName) \<noteq> None"
    and "only_changes view {(KDaemonSet, namespace_of s, FluentbitComponentName)} (os_world s) (os_world t)"
    and "namespace_of t = namespace_of s" and "os_pending t = os_pending s" using r by simp_all
qed

lemma fluentbit_install_done:
  assumes laws: "cluster_laws c view"
    and r1: "run_state (fluentbit_handleConfigSecret c assets rt) s = (Inr u, s1)"
    and r2: "run_state (fluentbit_handleDaemonSet c cfg rt) s1 = (Inr u', s2)"
    and r3: "run_state (fluentbit_handleService c cfg) s2 = (Inr u'', s3)"
  shows "os_pending s3 = os_pending s"
    and "\<forall>k \<in> {KSecret, KDaemonSet, KService}. view (os_world s3) (k, namespace_of s, FluentbitComponentName) \<noteq> None"
    and "view (os_world s3) (KConfigMap, namespace_of s, FluentbitComponentName) = None"
proof -
  note c1 = config_handler_done [OF laws r1 [unfolded fluentbit_handleConfigSecret_def] fluentbit_note_runtime_sel(1) fluentbitConfigSecret_key]
  note c2 = fluentbit_handleDaemonSet_done [OF laws r2]
  have "run_state (with_cr (\<lambda>cr. reconcile_Service c cr (fluentbit_Service cr cfg))) s2 = (Inr u'', s3)"
    using r3 by (auto simp: fluentbit_handleService_def run_with_cr split: if_splits)
  note c3 = reconcile_step [OF laws this [unfolded reconcile_defs] refl, unfolded fluentbit_object_keys]
  have ns: "namespace_of s2 = namespace_of s" using c1(3) c2(3) by simp
  show "os_pending s3 = os_pending s" using c1(4) c2(4) c3(4) by simp
  show "\<forall>k \<in> {KSecret, KDaemonSet, KService}. view (os_world s3) (k, namespace_of s, FluentbitComponentName) \<noteq> None"
    and "view (os_world s3) (KConfigMap, namespace_of s, FluentbitComponentName) = None"
    using c1 c2 c3 only_changes_at [OF c2(2)] only_changes_at [OF c3(2)] ns by auto
qed

lemma fluentbit_uninstall_frames:
  "keeps (status_frame {FluentbitStatus}) (fluentbit_uninstall c)" "keeps (pending_frame {}) (fluentbit_uninstall c)"
  unfolding fluentbit_uninstall_def by (intro status_rules pending_rules)+

lemma fluentbit_Run_done:
  assumes laws: "cluster_laws c view" and patch: "patch_law c"
    and run: "run_state (fluentbit_Run c assets cfg rt) s = (Inr (), t)"
  shows "if fluentbit_installed (os_cr (after (start_status c FluentbitStatus ''Start reconcile of Fluentbit'') s)) then os_pending t = os_pending s @ [fluentbit_entry]
      \<and> (\<forall>k \<in> {KSecret, KDaemonSet, KService}. view (os_world t) (k, namespace_of s, FluentbitComponentName) \<noteq> None)
      \<and> view (os_world t) (KConfigMap, namespace_of s, FluentbitComponentName) = None
    else os_pending t = os_pending s \<and> (status_inv (conds s) \<longrightarrow> lookup_condition FluentbitStatus (conds t) = None)"
proof -
  let ?start = "start_status c FluentbitStatus ''Start reconcile of Fluentbit''"
  let ?s = "after ?start s"
  have "FluentbitStatus \<noteq> []" by (simp add: FluentbitStatus_def)
  note st = start_status_done [OF patch this, where m = "''Start reconcile of Fluentbit''" and s = s]
  show ?thesis
  proof (cases "fluentbit_installed (os_cr ?s)")
    case True
    then have "run_state (tryM (fluentbit_handleConfigSecret c assets rt) (\<lambda>_. tryM (fluentbit_handleDaemonSet c cfg rt) (\<lambda>_.
       tryM (fluentbit_handleService c cfg) (\<lambda>_. do { _ \<leftarrow> append_pending fluentbit_entry; okM () })))) ?s = (Inr (), t)"
      using run by (simp add: fluentbit_Run_def case_prod_beta)
    then obtain u1 s1 u2 s2 u3 s3 where r: "run_state (fluentbit_handleConfigSecret c assets rt) ?s = (Inr u1, s1)"
      "run_state (fluentbit_handleDaemonSet c cfg rt) s1 = (Inr u2, s2)" "run_state (fluentbit_handleService c cfg) s2 = (Inr u3, s3)"
      and t: "t = s3\<lparr>os_pending := os_pending s3 @ [fluentbit_entry]\<rparr>"
      by (auto elim!: tryM_InrE simp: append_pending_def)
    from fluentbit_install_done [OF laws r] show ?thesis using t st True by simp
  next
    case False
    then have "run_state (do { _ \<leftarrow> fluentbit_uninstall c; _ \<leftarrow> RemoveStatus c FluentbitStatus; okM () }) ?s = (Inr (), t)"
      using run by (simp add: fluentbit_Run_def case_prod_beta)
    from uninstall_done [OF patch this fluentbit_uninstall_frames] show ?thesis using st False by simp
  qed
qed

end
