(* ===== verification/HA_Builder.thy ===== *)
theory HA_Builder
  imports Builder
begin

text \<open>
  The workloads of the FluentBit HA mode (\<open>internal/builder/forwarderaggregator\<close>: \<open>shared.go\<close>,
  \<open>forwarder.go\<close>, \<open>aggregator.go\<close>): the forwarder DaemonSet and Service and the aggregator
  StatefulSet and Service. The two workload builders fail on a malformed quantity.
\<close>

section \<open>Shared parts\<close>

definition forwarderName :: string where
  "forwarderName = ''logging-fluentbit-forwarder''"

definition aggregatorName :: string where
  "aggregatorName = ''logging-fluentbit-aggregator''"

definition ha_reloadName :: string where
  "ha_reloadName = ''configmap-reload''"

definition ha_technology :: string where
  "ha_technology = ''c''"

definition legacyTechnology :: string where
  "legacyTechnology = ''cpp''"

definition ha_httpPort :: int where "ha_httpPort = 2020"
definition ha_logToMetricsPort :: int where "ha_logToMetricsPort = 2021"
definition ha_forwardPort :: int where "ha_forwardPort = 24224"
definition ha_reloadPort :: int where "ha_reloadPort = 9533"

definition ha_configVolume :: string where "ha_configVolume = ''config''"
definition ha_tmpVolume :: string where "ha_tmpVolume = ''tmp''"
definition ha_stateVolume :: string where "ha_stateVolume = ''fluentbit-state''"
definition ha_configDir :: string where "ha_configDir = ''/fluent-bit/etc''"
definition ha_storageVolume :: string where "ha_storageVolume = ''storage''"
definition ha_nonRootID :: int where "ha_nonRootID = 1001"
definition ha_tmpVolumeSize :: quantity where "ha_tmpVolumeSize = Quantity ''100Mi''"

definition ha_provider :: "bool \<Rightarrow> string" where
  "ha_provider openshift = (if openshift then ''openshift'' else ''kubernetes'')"

definition ha_workloadLabels :: "string \<Rightarrow> bool \<Rightarrow> string gomap" where
  "ha_workloadLabels component openshift = Some
     [''app.kubernetes.io/technology'' \<mapsto> legacyTechnology,
      ''component'' \<mapsto> component,
      ''provider'' \<mapsto> ha_provider openshift,
      ''kubernetes.io/cluster-service'' \<mapsto> ''true'']"

definition nonRootSecurityContext :: security_context where
  "nonRootSecurityContext = zero_security_context\<lparr>
     sc_AllowPrivilegeEscalation := Some False,
     sc_ReadOnlyRootFilesystem := Some True,
     sc_Capabilities := Some \<lparr>cap_Add = [], cap_Drop = [''ALL'']\<rparr>,
     sc_RunAsNonRoot := Some True,
     sc_RunAsUser := Some ha_nonRootID,
     sc_RunAsGroup := Some ha_nonRootID\<rparr>"

definition ha_reloadContainer :: "configmap_reload option \<Rightarrow> resource_requirements \<Rightarrow> container" where
  "ha_reloadContainer reload fallback =
     (let img = (case reload of None \<Rightarrow> [] | Some r \<Rightarrow> cmr_DockerImage r);
          resources = (case reload of None \<Rightarrow> fallback | Some r \<Rightarrow> FirstNonNil (cmr_Resources r) fallback)
      in NewContainer ha_reloadName (zero_ContainerOpts\<lparr>
           cno_Image := img,
           cno_Args := [''--volume-dir='' @ ha_configDir,
             ''--webhook-url=http://localhost:2020/api/v2/reload'', ''--webhook-retries=5''],
           cno_VolumeMounts := [VolumeMount ha_configVolume ha_configDir [] True,
             VolumeMount ha_tmpVolume ''/tmp'' [] False],
           cno_Resources := resources,
           cno_Ports := [ContainerPort ''reload-metrics'' ha_reloadPort []],
           cno_SecurityContext := Some nonRootSecurityContext\<rparr>))"

definition httpProbe :: "string \<Rightarrow> int \<Rightarrow> probe" where
  "httpProbe path failureThreshold = \<lparr>pr_Path = path, pr_Port = ha_httpPort, pr_Scheme = ''HTTP'',
     pr_InitialDelaySeconds = 5, pr_TimeoutSeconds = 10, pr_PeriodSeconds = 10,
     pr_SuccessThreshold = 1, pr_FailureThreshold = failureThreshold\<rparr>"

definition setMainContainerDefaults :: "container \<Rightarrow> container" where
  "setMainContainerDefaults c = c\<lparr>co_TerminationMessagePath := ''/dev/termination-log'',
     co_TerminationMessagePolicy := ''File'', co_ImagePullPolicy := ''IfNotPresent''\<rparr>"

definition parseQuantity :: "(string \<Rightarrow> go_error + quantity) \<Rightarrow> string \<Rightarrow> string \<Rightarrow> go_error + quantity" where
  "parseQuantity ParseQuantity field value =
     (case ParseQuantity value of
        Inl e \<Rightarrow> Inl (Errorf [Lit ''invalid '', ArgS field, Lit '' '', ArgQ value, Lit '': '', ArgW e])
      | Inr q \<Rightarrow> Inr q)"

definition ha_emptyDirVolume :: "string \<Rightarrow> quantity \<Rightarrow> volume" where
  "ha_emptyDirVolume nm sz = \<lparr>vol_Name = nm, vol_Source = EmptyDirSource [] (Some sz)\<rparr>"

definition ha_secretVolume :: "string \<Rightarrow> string \<Rightarrow> volume" where
  "ha_secretVolume nm secretName = \<lparr>vol_Name = nm, vol_Source = SecretSource secretName [] (Some 420)\<rparr>"

definition ha_hostPathVolume :: "string \<Rightarrow> string \<Rightarrow> string \<Rightarrow> volume" where
  "ha_hostPathVolume nm path pathType = \<lparr>vol_Name = nm, vol_Source = HostPathSource path (Some pathType)\<rparr>"

text \<open>One file of a certificate set: the Secret holding it and the key in that Secret.\<close>

record ha_secretFile =
  hsf_secretName :: string
  hsf_secretKey :: string

definition secretFile_set :: "ha_secretFile \<Rightarrow> bool" where
  "secretFile_set f \<longleftrightarrow> hsf_secretName f \<noteq> [] \<and> hsf_secretKey f \<noteq> []"

definition zero_secretFile :: ha_secretFile where
  "zero_secretFile = \<lparr>hsf_secretName = [], hsf_secretKey = []\<rparr>"

definition ha_certificateFiles :: "certificates \<Rightarrow> ha_secretFile \<times> ha_secretFile \<times> ha_secretFile" where
  "ha_certificateFiles certs =
     (case crt_CA certs of None \<Rightarrow> zero_secretFile
        | Some c \<Rightarrow> \<lparr>hsf_secretName = ca_SecretName c, hsf_secretKey = ca_SecretKey c\<rparr>,
      case crt_Cert certs of None \<Rightarrow> zero_secretFile
        | Some c \<Rightarrow> \<lparr>hsf_secretName = cert_SecretName c, hsf_secretKey = cert_SecretKey c\<rparr>,
      case crt_Key certs of None \<Rightarrow> zero_secretFile
        | Some c \<Rightarrow> \<lparr>hsf_secretName = key_SecretName c, hsf_secretKey = key_SecretKey c\<rparr>)"

definition certificateMounts ::
  "string \<Rightarrow> string \<Rightarrow> ha_secretFile \<times> ha_secretFile \<times> ha_secretFile \<Rightarrow> volumes_mounts" where
  "certificateMounts pfx dir files =
     (case files of (ca, cert, key) \<Rightarrow>
        let set_files = filter (\<lambda>(suf, path, f). secretFile_set f)
              [(''-ca'', ''ca.crt'', ca), (''-cert'', ''tls.crt'', cert), (''-key'', ''tls.key'', key)]
        in (map (\<lambda>(suf, path, f). ha_secretVolume (pfx @ suf) (hsf_secretName f)) set_files,
            map (\<lambda>(suf, path, f). VolumeMount (pfx @ suf) (dir @ ''/'' @ path) (hsf_secretKey f) True) set_files))"

definition generatedTLSMounts :: "ha_secretFile list \<Rightarrow> volumes_mounts" where
  "generatedTLSMounts files =
     (let named = zip [''tls-ca'', ''tls-cert'', ''tls-key''] files
      in (map (\<lambda>(n, f). ha_secretVolume n (hsf_secretName f)) named,
          map (\<lambda>(n, f). VolumeMount n (''/fluent-bit/tls/'' @ hsf_secretKey f) (hsf_secretKey f) True) named))"

definition collectorTLSMounts :: "fluentbit_tls \<Rightarrow> volumes_mounts" where
  "collectorTLSMounts tls =
     (let custom = certificateMounts ''tls'' ''/fluent-bit/tls'' (ha_certificateFiles (tls_Certificates (fbt_TLS tls)))
      in case tls_GenerateCerts (fbt_TLS tls) of
           Some g \<Rightarrow>
             if gc_Enabled g then
               generatedTLSMounts
                 [\<lparr>hsf_secretName = gc_SecretName g, hsf_secretKey = ''ca.crt''\<rparr>,
                  \<lparr>hsf_secretName = gc_SecretName g, hsf_secretKey = ''tls.crt''\<rparr>,
                  \<lparr>hsf_secretName = gc_SecretName g, hsf_secretKey = ''tls.key''\<rparr>]
             else custom
         | None \<Rightarrow> custom)"

section \<open>The forwarder\<close>

definition forwarderPodSecurityContext :: "bool \<Rightarrow> pod_security_context" where
  "forwarderPodSecurityContext openshift =
     (let sc = zero_pod_security_context\<lparr>psc_SeccompProfile := Some ''RuntimeDefault''\<rparr>
      in if openshift then sc\<lparr>psc_SELinuxType := Some ''spc_t''\<rparr> else sc)"

definition forwarderSecurityContext :: "bool \<Rightarrow> security_context" where
  "forwarderSecurityContext privileged =
     (let sc = zero_security_context\<lparr>
            sc_Privileged := Some privileged,
            sc_ReadOnlyRootFilesystem := Some True,
            sc_RunAsNonRoot := Some False,
            sc_RunAsUser := Some 0,
            sc_RunAsGroup := Some 0\<rparr>
      in if \<not> privileged
         then sc\<lparr>sc_AllowPrivilegeEscalation := Some False,
                sc_Capabilities := Some \<lparr>cap_Add = [''DAC_OVERRIDE''], cap_Drop = [''ALL'']\<rparr>\<rparr>
         else sc)"

definition forwarder_state_volume ::
  "(string \<Rightarrow> go_error + quantity) \<Rightarrow> fluentbit \<Rightarrow> go_error + volume" where
  "forwarder_state_volume ParseQuantity spec =
     (if UsesPersistentOffsets spec
      then Inr (ha_hostPathVolume ha_stateVolume ''/var/lib/fluent-bit/state'' ''DirectoryOrCreate'')
      else (case parseQuantity ParseQuantity ''fluentbit.memoryOnlyStateSizeLimit''
                   (EffectiveMemoryOnlyStateSizeLimit spec) of
              Inl e \<Rightarrow> Inl e
            | Inr sz \<Rightarrow> Inr \<lparr>vol_Name = ha_stateVolume, vol_Source = EmptyDirSource ''Memory'' (Some sz)\<rparr>))"

definition forwarderStorage ::
  "(string \<Rightarrow> go_error + quantity) \<Rightarrow> logging_service \<Rightarrow> go_error + volumes_mounts" where
  "forwarderStorage ParseQuantity cr =
     (let spec = the (spec_Fluentbit (ls_Spec cr));
          docker = spec_ContainerRuntimeType (ls_Spec cr) = ''docker'';
          sysconfig = docker \<and> spec_OSKind (ls_Spec cr) \<noteq> ''ubuntu''
      in (case forwarder_state_volume ParseQuantity spec of
            Inl e \<Rightarrow> Inl e
          | Inr state \<Rightarrow> Inr
              ((if sysconfig then [ha_hostPathVolume ''sysconfigdocker'' ''/etc/sysconfig/docker'' ''FileOrCreate''] else [])
               @ (if docker then
                   [ha_hostPathVolume ''dockerdaemon'' ''/etc/docker/daemon.json'' ''FileOrCreate'',
                    ha_hostPathVolume ''dockerhostname'' ''/etc/hostname'' ''FileOrCreate'',
                    ha_hostPathVolume ''varlibdockercontainers'' ''/var/lib/docker/containers'' []] else [])
               @ [ha_hostPathVolume ''varlog'' ''/var/log'' [], state]
               @ (if UsesFilesystemBuffer spec
                  then [ha_hostPathVolume ''fluentbit-storage'' ''/var/lib/fluent-bit/storage'' ''DirectoryOrCreate'']
                  else [])
               @ [\<lparr>vol_Name = ha_configVolume, vol_Source = ConfigMapSource forwarderName [] (Some 420)\<rparr>,
                  ha_emptyDirVolume ha_tmpVolume ha_tmpVolumeSize],
               (if sysconfig then [VolumeMount ''sysconfigdocker'' ''/etc/sysconfig/docker'' [] True] else [])
               @ (if docker then
                   [VolumeMount ''dockerdaemon'' ''/etc/docker/daemon.json'' [] True,
                    VolumeMount ''dockerhostname'' ''/etc/docker-hostname'' [] True,
                    VolumeMount ''varlibdockercontainers'' ''/var/lib/docker/containers'' [] True] else [])
               @ [VolumeMount ''varlog'' ''/var/log'' [] True,
                  VolumeMount ha_stateVolume ''/fluent-bit/state'' [] False]
               @ (if UsesFilesystemBuffer spec
                  then [VolumeMount ''fluentbit-storage'' ''/fluent-bit/storage'' [] False] else [])
               @ [VolumeMount ha_configVolume ha_configDir [] True,
                  VolumeMount ha_tmpVolume ''/tmp'' [] False])))"

definition forwarder_podSpec :: "logging_service \<Rightarrow> FluentbitAggregatorDefaults \<Rightarrow> volumes_mounts \<Rightarrow> pod_spec" where
  "forwarder_podSpec cr def vm =
     (let spec = the (spec_Fluentbit (ls_Spec cr));
          tls = collectorTLSMounts (fb_TLS spec);
          forwarder = setMainContainerDefaults (NewContainer forwarderName (zero_ContainerOpts\<lparr>
            cno_Image := fb_DockerImage spec,
            cno_SecurityContext := Some (forwarderSecurityContext (fb_SecurityContextPrivileged spec)),
            cno_Ports := [ContainerPort ''http'' ha_httpPort ''TCP''],
            cno_Env := [EnvVarFrom ''NODE_NAME'' (FieldRef ''spec.nodeName'')],
            cno_Resources := FirstNonNil (fb_Resources spec) (fad_ForwarderResources def),
            cno_VolumeMounts := snd vm @ snd tls,
            cno_LivenessProbe := Some (httpProbe ''/'' 3),
            cno_ReadinessProbe := Some (httpProbe ''/api/v1/health'' 5)\<rparr>))
      in set_priority_class (fb_PriorityClassName spec) (zero_pod_spec\<lparr>
           ps_SecurityContext := Some (forwarderPodSecurityContext (spec_OpenshiftDeploy (ls_Spec cr))),
           ps_Volumes := fst vm @ fst tls,
           ps_Containers := [ha_reloadContainer (fb_ConfigmapReload spec) (fad_ConfigmapReloadResources def), forwarder],
           ps_TerminationGracePeriodSeconds := Some 30,
           ps_ServiceAccountName := FluentbitComponentName,
           ps_SchedulerName := ''default-scheduler'',
           ps_NodeSelector := NodeSelector (fb_NodeSelectorKey spec) (fb_NodeSelectorValue spec),
           ps_Tolerations := fb_Tolerations spec,
           ps_Affinity := fb_Affinity spec\<rparr>))"

definition forwarder_labelInput :: "logging_service \<Rightarrow> LabelInput" where
  "forwarder_labelInput cr =
     (let spec = the (spec_Fluentbit (ls_Spec cr))
      in \<lparr>li_Name = forwarderName,
          li_Component = ComponentBackend,
          li_Instance = GetInstanceLabel forwarderName (om_Namespace (ls_ObjectMeta cr)),
          li_Version = GetTagFromImage (fb_DockerImage spec),
          li_Technology = ha_technology,
          li_ComponentLabels = fb_Labels spec\<rparr>)"

definition ForwarderDaemonSet ::
  "(string \<Rightarrow> go_error + quantity) \<Rightarrow> logging_service \<Rightarrow> Defaults \<Rightarrow> go_error + daemonset" where
  "ForwarderDaemonSet ParseQuantity cr cfg =
     (let spec = the (spec_Fluentbit (ls_Spec cr));
          openshift = spec_OpenshiftDeploy (ls_Spec cr)
      in case forwarderStorage ParseQuantity cr of
           Inl e \<Rightarrow> Inl e
         | Inr vm \<Rightarrow>
             (let daemonSet = NewDaemonSet forwarderName (om_Namespace (ls_ObjectMeta cr)) \<lparr>
                    dso_Selector = Some [''component'' \<mapsto> forwarderName, ''provider'' \<mapsto> ha_provider openshift],
                    dso_UpdateStrategy = zero_update_strategy\<lparr>us_Type := ''RollingUpdate'', us_MaxUnavailable := Some 1\<rparr>,
                    dso_MinReadySeconds = 60,
                    dso_PodSpec = forwarder_podSpec cr (df_Aggregator cfg) vm,
                    dso_PodLabels = ha_workloadLabels forwarderName openshift,
                    dso_PodAnnotations = fb_Annotations spec,
                    dso_Labels = ha_workloadLabels forwarderName openshift,
                    dso_Annotations = fb_Annotations spec\<rparr>
              in Inr (SetLabelsForDaemonSet (name_pod_template forwarderName daemonSet) (forwarder_labelInput cr))))"

definition ha_servicePort :: "string \<Rightarrow> int \<Rightarrow> service_port" where
  "ha_servicePort nm number = \<lparr>sp_Name = nm, sp_Port = number, sp_Protocol = ''TCP'', sp_TargetPort = number\<rparr>"

definition ForwarderService :: "logging_service \<Rightarrow> Defaults \<Rightarrow> service" where
  "ForwarderService cr cfg =
     (let openshift = spec_OpenshiftDeploy (ls_Spec cr);
          service = NewService forwarderName (om_Namespace (ls_ObjectMeta cr)) (zero_ServiceOpts\<lparr>
            svo_Type := ''ClusterIP'',
            svo_Ports := [ha_servicePort forwarderName ha_httpPort],
            svo_Selector := Some [''name'' \<mapsto> forwarderName, ''provider'' \<mapsto> ha_provider openshift],
            svo_Labels := Some [''component'' \<mapsto> forwarderName, ''provider'' \<mapsto> ha_provider openshift]\<rparr>)
      in service\<lparr>sv_Meta := SetLabelsForResource (sv_Meta service) \<lparr>li_Name = forwarderName,
            li_Component = ComponentBackend, li_Instance = [], li_Version = [], li_Technology = [],
            li_ComponentLabels = fb_Labels (the (spec_Fluentbit (ls_Spec cr)))\<rparr> None\<rparr>)"

section \<open>The aggregator\<close>

definition outputTLSMounts :: "output_fluentbit option \<Rightarrow> volumes_mounts" where
  "outputTLSMounts out =
     (let add = (\<lambda>nm certs (vm :: volumes_mounts).
            let m = certificateMounts (nm @ ''-tls'') (''/fluent-bit/output/'' @ nm @ ''/tls'') (ha_certificateFiles certs)
            in (fst vm @ fst m, snd vm @ snd m))
      in case out of None \<Rightarrow> ([], [])
       | Some output \<Rightarrow>
           (let vm = (case obt_Loki output of None \<Rightarrow> ([], [])
                  | Some loki \<Rightarrow> (case lfb_TLS loki of None \<Rightarrow> ([], [])
                      | Some tls \<Rightarrow> if lfb_Enabled loki \<and> btp_Enabled (blt_FluentbitTLSParams tls)
                          then add ''loki'' (blt_Certificates tls) ([], []) else ([], [])));
                vm = (case obt_Http output of None \<Rightarrow> vm
                  | Some http \<Rightarrow> (case hfb_TLS http of None \<Rightarrow> vm
                      | Some tls \<Rightarrow> if hfb_Enabled http \<and> btp_Enabled (bht_FluentbitTLSParams tls)
                          then add ''http'' (bht_Certificates tls) vm else vm))
            in (case obt_Otel output of None \<Rightarrow> vm
                  | Some otel \<Rightarrow> (case ofb_TLS otel of None \<Rightarrow> vm
                      | Some tls \<Rightarrow> if ofb_Enabled otel \<and> btp_Enabled (bht_FluentbitTLSParams tls)
                          then add ''otel'' (bht_Certificates tls) vm else vm))))"

definition storageClaim ::
  "(string \<Rightarrow> go_error + quantity) \<Rightarrow> volume_settings \<Rightarrow> FluentbitAggregatorDefaults \<Rightarrow> go_error + claim_template" where
  "storageClaim ParseQuantity vset def =
     (case (if vset_StorageSize vset \<noteq> []
            then parseQuantity ParseQuantity ''fluentbit.aggregator.volume.storageSize'' (vset_StorageSize vset)
            else Inr (fad_AggregatorVolumeSize def)) of
        Inl e \<Rightarrow> Inl e
      | Inr sz \<Rightarrow> Inr \<lparr>ct_Name = ha_storageVolume,
          ct_AccessModes = [''ReadWriteOnce''],
          ct_Requests = Some [''storage'' \<mapsto> sz],
          ct_StorageClassName = (if vset_StorageClassName vset \<noteq> [] then Some (vset_StorageClassName vset) else None)\<rparr>)"

definition aggregator_bindVolume :: "fluentbit_aggregator \<Rightarrow> bool" where
  "aggregator_bindVolume spec = (case ag_Volume spec of None \<Rightarrow> False | Some v \<Rightarrow> vset_Bind v)"

definition aggregator_storage ::
  "(string \<Rightarrow> go_error + quantity) \<Rightarrow> fluentbit_aggregator \<Rightarrow> go_error + volume list" where
  "aggregator_storage ParseQuantity spec =
     (if \<not> aggregator_bindVolume spec
      then (case parseQuantity ParseQuantity ''fluentbit.aggregator.storageSizeLimit'' (EffectiveStorageSizeLimit spec) of
              Inl e \<Rightarrow> Inl e
            | Inr sz \<Rightarrow> Inr [ha_emptyDirVolume ha_storageVolume sz])
      else Inr [])"

definition aggregator_claims ::
  "(string \<Rightarrow> go_error + quantity) \<Rightarrow> fluentbit_aggregator \<Rightarrow> FluentbitAggregatorDefaults \<Rightarrow> go_error + claim_template list" where
  "aggregator_claims ParseQuantity spec def =
     (case ag_Volume spec of None \<Rightarrow> Inr []
      | Some v \<Rightarrow>
          if vset_Bind v then
            (case storageClaim ParseQuantity v def of Inl e \<Rightarrow> Inl e | Inr claim \<Rightarrow> Inr [claim])
          else Inr [])"

definition aggregator_replicas :: "fluentbit_aggregator \<Rightarrow> FluentbitAggregatorDefaults \<Rightarrow> int" where
  "aggregator_replicas spec def =
     (if ag_Replicas spec \<noteq> 0 then int32_of (ag_Replicas spec) else fad_AggregatorReplicas def)"

definition aggregator_podSpec :: "fluentbit_aggregator \<Rightarrow> FluentbitAggregatorDefaults \<Rightarrow> volume list \<Rightarrow> pod_spec" where
  "aggregator_podSpec spec def storage =
     (let tls = collectorTLSMounts (ag_TLS spec);
          output = outputTLSMounts (ag_Output spec);
          vols = storage @ [ha_secretVolume ha_configVolume aggregatorName, ha_emptyDirVolume ha_tmpVolume ha_tmpVolumeSize]
            @ fst tls @ fst output;
          mounts = [VolumeMount ha_storageVolume ''/fluent-bit/storage'' [] False,
              VolumeMount ha_configVolume ha_configDir [] True,
              VolumeMount ha_tmpVolume ''/tmp'' [] False]
            @ snd tls @ snd output;
          aggregator = setMainContainerDefaults (NewContainer aggregatorName (zero_ContainerOpts\<lparr>
            cno_Image := ag_DockerImage spec,
            cno_Ports := [ContainerPort ''http'' ha_httpPort ''TCP'',
              ContainerPort ''log-to-metrics'' ha_logToMetricsPort ''TCP'',
              ContainerPort ''forward'' ha_forwardPort ''TCP''],
            cno_Resources := FirstNonNil (ag_Resources spec) (fad_AggregatorResources def),
            cno_VolumeMounts := mounts,
            cno_LivenessProbe := Some (httpProbe ''/'' 5),
            cno_ReadinessProbe := Some (httpProbe ''/api/v1/health'' 5),
            cno_SecurityContext := Some nonRootSecurityContext\<rparr>))
      in set_priority_class (ag_PriorityClassName spec) (zero_pod_spec\<lparr>
           ps_Volumes := vols,
           ps_Containers := [ha_reloadContainer (ag_ConfigmapReload spec) (fad_ConfigmapReloadResources def), aggregator],
           ps_TerminationGracePeriodSeconds := Some 30,
           ps_ServiceAccountName := aggregatorName,
           ps_DeprecatedServiceAccount := aggregatorName,
           ps_SecurityContext := Some (zero_pod_security_context\<lparr>
             psc_FSGroup := Some ha_nonRootID,
             psc_FSGroupChangePolicy := Some ''OnRootMismatch'',
             psc_SeccompProfile := Some ''RuntimeDefault'',
             psc_RunAsNonRoot := Some True,
             psc_RunAsUser := Some ha_nonRootID,
             psc_RunAsGroup := Some ha_nonRootID\<rparr>),
           ps_SchedulerName := ''default-scheduler'',
           ps_NodeSelector := NodeSelector (ag_NodeSelectorKey spec) (ag_NodeSelectorValue spec),
           ps_Tolerations := ag_Tolerations spec,
           ps_Affinity := ag_Affinity spec\<rparr>))"

definition aggregator_labelInput :: "logging_service \<Rightarrow> fluentbit_aggregator \<Rightarrow> LabelInput" where
  "aggregator_labelInput cr spec =
     \<lparr>li_Name = aggregatorName,
      li_Component = ComponentBackend,
      li_Instance = GetInstanceLabel aggregatorName (om_Namespace (ls_ObjectMeta cr)),
      li_Version = GetTagFromImage (ag_DockerImage spec),
      li_Technology = ha_technology,
      li_ComponentLabels = ag_Labels spec\<rparr>"

definition AggregatorStatefulSet ::
  "(string \<Rightarrow> go_error + quantity) \<Rightarrow> logging_service \<Rightarrow> Defaults \<Rightarrow> go_error + statefulset" where
  "AggregatorStatefulSet ParseQuantity cr cfg =
     (let spec = the (fb_Aggregator (the (spec_Fluentbit (ls_Spec cr))));
          def = df_Aggregator cfg;
          openshift = spec_OpenshiftDeploy (ls_Spec cr)
      in case aggregator_storage ParseQuantity spec of
           Inl e \<Rightarrow> Inl e
         | Inr storage \<Rightarrow>
             (let statefulSet = NewStatefulSet aggregatorName (om_Namespace (ls_ObjectMeta cr)) \<lparr>
                    sso_Replicas = Some (aggregator_replicas spec def),
                    sso_ServiceName = aggregatorName,
                    sso_Selector = Some [''name'' \<mapsto> aggregatorName, ''component'' \<mapsto> aggregatorName,
                      ''provider'' \<mapsto> ha_provider openshift],
                    sso_PodManagementPolicy = [],
                    sso_UpdateStrategy = zero_update_strategy,
                    sso_PodSpec = aggregator_podSpec spec def storage,
                    sso_PodLabels = ha_workloadLabels aggregatorName openshift,
                    sso_PodAnnotations = ag_Annotations spec,
                    sso_VolumeClaimTemplates = [],
                    sso_Labels = ha_workloadLabels aggregatorName openshift,
                    sso_Annotations = ag_Annotations spec\<rparr>
              in case aggregator_claims ParseQuantity spec def of
                   Inl e \<Rightarrow> Inl e
                 | Inr claims \<Rightarrow>
                     Inr (SetLabelsForStatefulSet
                       (statefulSet\<lparr>ss_Spec := (ss_Spec statefulSet)\<lparr>
                          sss_Template := (sss_Template (ss_Spec statefulSet))\<lparr>pt_Name := aggregatorName\<rparr>,
                          sss_RevisionHistoryLimit := Some 10,
                          sss_VolumeClaimTemplates := claims\<rparr>\<rparr>)
                       (aggregator_labelInput cr spec))))"

definition AggregatorService :: "logging_service \<Rightarrow> Defaults \<Rightarrow> service" where
  "AggregatorService cr cfg =
     (let openshift = spec_OpenshiftDeploy (ls_Spec cr);
          service = NewService aggregatorName (om_Namespace (ls_ObjectMeta cr)) (zero_ServiceOpts\<lparr>
            svo_Type := ''ClusterIP'',
            svo_Ports := [ha_servicePort ''logging-fluentbit'' ha_httpPort,
              ha_servicePort ''log-to-metrics'' ha_logToMetricsPort,
              ha_servicePort aggregatorName ha_forwardPort],
            svo_Selector := Some [''name'' \<mapsto> aggregatorName, ''provider'' \<mapsto> ha_provider openshift],
            svo_Labels := Some [''component'' \<mapsto> aggregatorName, ''provider'' \<mapsto> ha_provider openshift]\<rparr>)
      in service\<lparr>sv_Meta := SetLabelsForResource (sv_Meta service) \<lparr>li_Name = aggregatorName,
            li_Component = ComponentBackend, li_Instance = [], li_Version = [], li_Technology = [],
            li_ComponentLabels = ag_Labels (the (fb_Aggregator (the (spec_Fluentbit (ls_Spec cr)))))\<rparr> None\<rparr>)"

section \<open>The contracts\<close>

text \<open>The certificate helpers declare one volume per mount.\<close>

lemma certificateMounts_closed:
  "vm_Name ` set (snd (certificateMounts p d fs)) = vol_Name ` set (fst (certificateMounts p d fs))"
  by (cases fs) (auto simp: certificateMounts_def Let_def ha_secretVolume_def)

lemma generatedTLSMounts_closed:
  "vm_Name ` set (snd (generatedTLSMounts fs)) = vol_Name ` set (fst (generatedTLSMounts fs))"
  by (auto simp: generatedTLSMounts_def Let_def ha_secretVolume_def image_image split: prod.split
      intro!: image_cong)

lemma collectorTLSMounts_closed:
  "vm_Name ` set (snd (collectorTLSMounts t)) = vol_Name ` set (fst (collectorTLSMounts t))"
  by (simp add: collectorTLSMounts_def Let_def certificateMounts_closed generatedTLSMounts_closed split: option.split)

lemma outputTLSMounts_closed:
  "vm_Name ` set (snd (outputTLSMounts out)) = vol_Name ` set (fst (outputTLSMounts out))"
  by (simp add: outputTLSMounts_def Let_def certificateMounts_closed image_Un split: option.split)

lemma forwarder_state_volume_name: "forwarder_state_volume pq spec = Inr v \<Longrightarrow> vol_Name v = ha_stateVolume"
  by (auto simp: forwarder_state_volume_def ha_hostPathVolume_def split: if_splits sum.splits)

lemma forwarderStorage_names:
  assumes "forwarderStorage pq cr = Inr vm"
  shows "map vm_Name (snd vm) = map vol_Name (fst vm)"
  using assms
  by (auto simp: forwarderStorage_def Let_def ha_hostPathVolume_def ha_emptyDirVolume_def
      dest!: forwarder_state_volume_name split: sum.splits)

lemma forwarderStorage_base:
  assumes "forwarderStorage pq cr = Inr vm"
  shows "{ha_configVolume, ha_tmpVolume} \<subseteq> vol_Name ` set (fst vm)"
  using assms by (auto simp: forwarderStorage_def Let_def ha_emptyDirVolume_def split: sum.splits)

lemma ha_selector_foreign:
  assumes "k = ''component'' \<and> v = c \<or> k = ''provider'' \<and> v = ha_provider b"
  shows "k \<notin> set operator_label_keys" and "mcontents (ha_workloadLabels c b) k = Some v"
  using assms by (auto simp: ha_workloadLabels_def operator_label_keys_def)

lemma forwarder_podSpec_mounts:
  assumes "forwarderStorage pq cr = Inr vm"
  shows "set (mount_names (forwarder_podSpec cr def vm)) \<subseteq> set (volume_names (forwarder_podSpec cr def vm))"
proof -
  have "set (mount_names (forwarder_podSpec cr def vm)) = {ha_configVolume, ha_tmpVolume}
      \<union> vm_Name ` set (snd vm) \<union> vm_Name ` set (snd (collectorTLSMounts (fb_TLS (the (spec_Fluentbit (ls_Spec cr))))))"
    by (auto simp: mount_names_def forwarder_podSpec_def Let_def zero_pod_spec_def
        ha_reloadContainer_def setMainContainerDefaults_def NewContainer_def)
  moreover have "set (volume_names (forwarder_podSpec cr def vm)) = vol_Name ` set (fst vm)
      \<union> vol_Name ` set (fst (collectorTLSMounts (fb_TLS (the (spec_Fluentbit (ls_Spec cr))))))"
    by (simp add: volume_names_def forwarder_podSpec_def Let_def image_Un)
  moreover have "vm_Name ` set (snd vm) = vol_Name ` set (fst vm)"
    by (metis forwarderStorage_names [OF assms] set_map)
  ultimately show ?thesis
    using forwarderStorage_base [OF assms] collectorTLSMounts_closed by auto
qed

lemma ForwarderDaemonSet_Inr:
  assumes "ForwarderDaemonSet pq cr cfg = Inr d"
  obtains vm where "forwarderStorage pq cr = Inr vm"
    and "om_Name (ds_Meta d) = forwarderName" and "om_Namespace (ds_Meta d) = om_Namespace (ls_ObjectMeta cr)"
    and "dss_Selector (ds_Spec d) = Some [''component'' \<mapsto> forwarderName,
      ''provider'' \<mapsto> ha_provider (spec_OpenshiftDeploy (ls_Spec cr))]"
    and "pt_Labels (dss_Template (ds_Spec d)) = templateLabels (forwarder_labelInput cr)
      (ha_workloadLabels forwarderName (spec_OpenshiftDeploy (ls_Spec cr)))"
    and "pt_Spec (dss_Template (ds_Spec d)) = forwarder_podSpec cr (df_Aggregator cfg) vm"
  using assms that
  by (auto simp: ForwarderDaemonSet_def Let_def SetLabelsForDaemonSet_def SetLabelsForWorkload_def
      name_pod_template_def NewDaemonSet_def podTemplate_def split: sum.splits)

lemma forwarder_DaemonSet_contract:
  assumes "ForwarderDaemonSet pq cr cfg = Inr d"
  shows "om_Name (ds_Meta d) = forwarderName" and "om_Namespace (ds_Meta d) = om_Namespace (ls_ObjectMeta cr)"
    and "matches (dss_Selector (ds_Spec d)) (pt_Labels (dss_Template (ds_Spec d)))"
    and "mcontents (pt_Labels (dss_Template (ds_Spec d))) ''name'' = Some forwarderName"
    and "mounts_declared {} (daemonset_workload d)"
proof -
  from assms obtain vm where vm: "forwarderStorage pq cr = Inr vm"
    and meta: "om_Name (ds_Meta d) = forwarderName" "om_Namespace (ds_Meta d) = om_Namespace (ls_ObjectMeta cr)"
    and sel: "dss_Selector (ds_Spec d) = Some [''component'' \<mapsto> forwarderName,
      ''provider'' \<mapsto> ha_provider (spec_OpenshiftDeploy (ls_Spec cr))]"
    and labels: "pt_Labels (dss_Template (ds_Spec d)) = templateLabels (forwarder_labelInput cr)
      (ha_workloadLabels forwarderName (spec_OpenshiftDeploy (ls_Spec cr)))"
    and pod: "pt_Spec (dss_Template (ds_Spec d)) = forwarder_podSpec cr (df_Aggregator cfg) vm"
    by (rule ForwarderDaemonSet_Inr)
  show "om_Name (ds_Meta d) = forwarderName" "om_Namespace (ds_Meta d) = om_Namespace (ls_ObjectMeta cr)"
    by (fact meta)+
  show "matches (dss_Selector (ds_Spec d)) (pt_Labels (dss_Template (ds_Spec d)))"
    unfolding sel labels using ha_selector_foreign
    by (intro matches_templateLabels) (auto split: if_splits)
  show "mcontents (pt_Labels (dss_Template (ds_Spec d))) ''name'' = Some forwarderName"
    by (simp add: labels forwarder_labelInput_def Let_def)
  show "mounts_declared {} (daemonset_workload d)"
    using forwarder_podSpec_mounts [OF vm] by (simp add: mounts_declared_def workload_defs pod)
qed

interpretation forwarder_workload: workload_contract
  "\<lambda>cr. daemonset_workload (projr (ForwarderDaemonSet pq cr cfg))"
  "\<lambda>cr. \<not> isl (ForwarderDaemonSet pq cr cfg)"
  "\<lambda>_. forwarderName"
  "\<lambda>cr. om_Namespace (ls_ObjectMeta cr)"
  "\<lambda>_. {}"
  for pq cfg
  using forwarder_DaemonSet_contract [OF sum.collapse(2) [symmetric]]
  by unfold_locales simp_all

text \<open>The aggregator mounts its storage from an emptyDir or from the claim template, never from none.\<close>

lemma aggregator_storage_declared:
  assumes "aggregator_storage pq spec = Inr storage" and "aggregator_claims pq spec def = Inr claims"
  shows "ha_storageVolume \<in> vol_Name ` set storage \<union> ct_Name ` set claims"
  using assms
  by (auto simp: aggregator_storage_def aggregator_claims_def aggregator_bindVolume_def ha_emptyDirVolume_def
      storageClaim_def split: if_splits option.splits sum.splits)

lemma aggregator_podSpec_mounts:
  "set (mount_names (aggregator_podSpec spec def storage)) \<subseteq>
    set (volume_names (aggregator_podSpec spec def storage)) \<union> {ha_storageVolume}"
proof -
  have "set (mount_names (aggregator_podSpec spec def storage)) =
      {ha_storageVolume, ha_configVolume, ha_tmpVolume} \<union> vm_Name ` set (snd (collectorTLSMounts (ag_TLS spec)))
      \<union> vm_Name ` set (snd (outputTLSMounts (ag_Output spec)))"
    by (auto simp: mount_names_def aggregator_podSpec_def Let_def zero_pod_spec_def
        ha_reloadContainer_def setMainContainerDefaults_def NewContainer_def)
  moreover have "set (volume_names (aggregator_podSpec spec def storage)) = vol_Name ` set storage
      \<union> {ha_configVolume, ha_tmpVolume} \<union> vol_Name ` set (fst (collectorTLSMounts (ag_TLS spec)))
      \<union> vol_Name ` set (fst (outputTLSMounts (ag_Output spec)))"
    by (auto simp: volume_names_def aggregator_podSpec_def Let_def ha_secretVolume_def ha_emptyDirVolume_def)
  ultimately show ?thesis by (auto simp: collectorTLSMounts_closed outputTLSMounts_closed)
qed

lemma AggregatorStatefulSet_Inr:
  assumes "AggregatorStatefulSet pq cr cfg = Inr s"
    and "spec = the (fb_Aggregator (the (spec_Fluentbit (ls_Spec cr))))"
  obtains storage claims where "aggregator_storage pq spec = Inr storage"
    and "aggregator_claims pq spec (df_Aggregator cfg) = Inr claims"
    and "om_Name (ss_Meta s) = aggregatorName" and "om_Namespace (ss_Meta s) = om_Namespace (ls_ObjectMeta cr)"
    and "sss_Selector (ss_Spec s) = Some [''name'' \<mapsto> aggregatorName, ''component'' \<mapsto> aggregatorName,
      ''provider'' \<mapsto> ha_provider (spec_OpenshiftDeploy (ls_Spec cr))]"
    and "pt_Labels (sss_Template (ss_Spec s)) = templateLabels (aggregator_labelInput cr spec)
      (ha_workloadLabels aggregatorName (spec_OpenshiftDeploy (ls_Spec cr)))"
    and "pt_Spec (sss_Template (ss_Spec s)) = aggregator_podSpec spec (df_Aggregator cfg) storage"
    and "sss_VolumeClaimTemplates (ss_Spec s) = claims"
    and "sss_Replicas (ss_Spec s) = Some (aggregator_replicas spec (df_Aggregator cfg))"
    and "sss_ServiceName (ss_Spec s) = aggregatorName"
  using assms that
  by (auto simp: AggregatorStatefulSet_def Let_def SetLabelsForStatefulSet_def SetLabelsForWorkload_def
      NewStatefulSet_def podTemplate_def split: sum.splits)

lemma aggregator_StatefulSet_contract:
  assumes "AggregatorStatefulSet pq cr cfg = Inr s"
  shows "om_Name (ss_Meta s) = aggregatorName" and "om_Namespace (ss_Meta s) = om_Namespace (ls_ObjectMeta cr)"
    and "matches (sss_Selector (ss_Spec s)) (pt_Labels (sss_Template (ss_Spec s)))"
    and "mcontents (pt_Labels (sss_Template (ss_Spec s))) ''name'' = Some aggregatorName"
    and "mounts_declared {} (statefulset_workload s)"
proof -
  define spec where "spec = the (fb_Aggregator (the (spec_Fluentbit (ls_Spec cr))))"
  from assms spec_def obtain storage claims where st: "aggregator_storage pq spec = Inr storage"
    and cl: "aggregator_claims pq spec (df_Aggregator cfg) = Inr claims"
    and meta: "om_Name (ss_Meta s) = aggregatorName" "om_Namespace (ss_Meta s) = om_Namespace (ls_ObjectMeta cr)"
    and sel: "sss_Selector (ss_Spec s) = Some [''name'' \<mapsto> aggregatorName, ''component'' \<mapsto> aggregatorName,
      ''provider'' \<mapsto> ha_provider (spec_OpenshiftDeploy (ls_Spec cr))]"
    and labels: "pt_Labels (sss_Template (ss_Spec s)) = templateLabels (aggregator_labelInput cr spec)
      (ha_workloadLabels aggregatorName (spec_OpenshiftDeploy (ls_Spec cr)))"
    and pod: "pt_Spec (sss_Template (ss_Spec s)) = aggregator_podSpec spec (df_Aggregator cfg) storage"
    and vct: "sss_VolumeClaimTemplates (ss_Spec s) = claims"
    by (rule AggregatorStatefulSet_Inr)
  show "om_Name (ss_Meta s) = aggregatorName" "om_Namespace (ss_Meta s) = om_Namespace (ls_ObjectMeta cr)"
    by (fact meta)+
  show "matches (sss_Selector (ss_Spec s)) (pt_Labels (sss_Template (ss_Spec s)))"
    unfolding sel labels using ha_selector_foreign
    by (intro matches_templateLabels) (auto simp: aggregator_labelInput_def split: if_splits)
  show "mcontents (pt_Labels (sss_Template (ss_Spec s))) ''name'' = Some aggregatorName"
    by (simp add: labels aggregator_labelInput_def)
  have vols: "vol_Name ` set storage \<subseteq> set (volume_names (aggregator_podSpec spec (df_Aggregator cfg) storage))"
    by (auto simp: volume_names_def aggregator_podSpec_def Let_def)
  show "mounts_declared {} (statefulset_workload s)"
    using aggregator_podSpec_mounts [of spec "df_Aggregator cfg" storage] aggregator_storage_declared [OF st cl] vols
    by (auto simp: mounts_declared_def statefulset_workload_def pod vct)
qed

interpretation aggregator_workload: workload_contract
  "\<lambda>cr. statefulset_workload (projr (AggregatorStatefulSet pq cr cfg))"
  "\<lambda>cr. \<not> isl (AggregatorStatefulSet pq cr cfg)"
  "\<lambda>_. aggregatorName"
  "\<lambda>cr. om_Namespace (ls_ObjectMeta cr)"
  "\<lambda>_. {}"
  for pq cfg
  using aggregator_StatefulSet_contract [OF sum.collapse(2) [symmetric]]
  by unfold_locales simp_all

end
