(* ===== verification/HA_Controller.thy ===== *)
theory HA_Controller
  imports Fluentbit_Controller HA_Builder
begin

text \<open>
  The reconciler of the Fluent Bit HA mode (\<open>internal/controllers/fluentbit-forwarder-aggregator\<close>):
  the aggregator's configuration Secret, StatefulSet and Service, the wait until the aggregator is
  up, then the forwarder's ConfigMap, DaemonSet and Service.
\<close>

section \<open>Definitions\<close>

definition forwarderConfigMap :: "'w client \<Rightarrow> embed_fs \<Rightarrow> string \<Rightarrow> logging_service \<Rightarrow> ('w, config_map) eff" where
  "forwarderConfigMap c assets rt cr =
     (case spec_Fluentbit (ls_Spec cr) of
        None \<Rightarrow> failM (nil_config_error ''fluentbit'' cr)
      | Some spec \<Rightarrow>
          (let cr = set_runtime rt cr
           in tryM (DataFromDirectory c assets ForwarderFluentbitConfigMapDirectory (PlainParameters (ToParams cr))) (\<lambda>data.
                let data = set_custom ''input-custom.conf'' (fb_CustomInputConf spec) data;
                    data = set_custom ''filter-custom.conf'' (fb_CustomFilterConf spec) data;
                    data = maps_Copy (fb_CustomLuaScriptConf spec) data
                in okM \<lparr>cm_Meta = SetLabelsForResource (meta_named ForwarderFluentbitComponentName (om_Namespace (ls_ObjectMeta cr)))
                           (resource_labelInput ForwarderFluentbitComponentName (fb_Labels spec)) fluent_bit_label,
                         cm_Data = Some data, cm_BinaryData = None\<rparr>)))"

definition aggregatorConfigSecret ::
  "'w client \<Rightarrow> embed_fs \<Rightarrow> string \<Rightarrow> fluentbit_credentials \<Rightarrow> logging_service \<Rightarrow> ('w, secret) eff" where
  "aggregatorConfigSecret c assets rt credentials cr =
     (case Option.bind (spec_Fluentbit (ls_Spec cr)) fb_Aggregator of
        None \<Rightarrow> failM (nil_config_error ''fluentbit or aggregator'' cr)
      | Some spec \<Rightarrow>
          (let cr = set_runtime rt cr;
               parameters = AggregatorParameters (ToParams cr) credentials
           in tryM (DataFromDirectory c assets AggregatorFluentbitConfigMapDirectory parameters) (\<lambda>configData.
                let configData = loki_labels_entry (ag_Output spec) configData;
                    configData = set_custom ''filter-custom.conf'' (ag_CustomFilterConf spec) configData;
                    configData = set_custom ''output-custom.conf'' (ag_CustomOutputConf spec) configData;
                    configData = maps_Copy (ag_CustomLuaScriptConf spec) configData;
                    secret = opaque_secret AggregatorFluentbitComponentName (om_Namespace (ls_ObjectMeta cr)) configData
                in okM (secret\<lparr>se_Meta := SetLabelsForResource (se_Meta secret)
                     (resource_labelInput AggregatorFluentbitComponentName (ag_Labels spec)) fluent_bit_label\<rparr>))))"

definition ha_Equal :: "config_map \<Rightarrow> config_map \<Rightarrow> bool" where
  "ha_Equal source target \<longleftrightarrow> cm_Data source = cm_Data target \<and> cm_BinaryData source = cm_BinaryData target
     \<and> om_Labels (cm_Meta source) = om_Labels (cm_Meta target)"

definition owned_config_map :: "'w client \<Rightarrow> logging_service \<Rightarrow> config_map \<Rightarrow> config_map" where
  "owned_config_map c cr m =
     (case cl_SetControllerReference c cr (OConfigMap m) of Inr (OConfigMap m') \<Rightarrow> m' | _ \<Rightarrow> m)"

definition ha_CreateOrUpdate :: "'w client \<Rightarrow> logging_service \<Rightarrow> config_map \<Rightarrow> ('w, bool \<times> bool) eff" where
  "ha_CreateOrUpdate c cr m = do {
     r \<leftarrow> CreateResource c cr (OConfigMap m);
     case r of
       Inr _ \<Rightarrow> okM (True, False)
     | Inl e \<Rightarrow>
         if \<not> IsAlreadyExists e then failM e
         else tryM (GetResource c KConfigMap (om_Namespace (cm_Meta m)) (om_Name (cm_Meta m))) (\<lambda>existing.
                case existing of
                  OConfigMap existed \<Rightarrow>
                    if \<not> ha_Equal existed m
                    then tryM (UpdateResource c (OConfigMap (owned_config_map c cr m))) (\<lambda>_. okM (False, True))
                    else okM (False, False)
                | _ \<Rightarrow> okM (False, False)) }"

definition updateConfigMap :: "'w client \<Rightarrow> logging_service \<Rightarrow> config_map \<Rightarrow> ('w, bool) eff" where
  "updateConfigMap c cr m = do {
     r \<leftarrow> CreateResource c cr (OConfigMap m);
     case r of
       Inr _ \<Rightarrow> okM True
     | Inl e \<Rightarrow>
         if \<not> IsAlreadyExists e then failM e
         else tryM (GetResource c KConfigMap (om_Namespace (cm_Meta m)) (om_Name (cm_Meta m))) (\<lambda>existing.
                case existing of
                  OConfigMap existed \<Rightarrow>
                    if \<not> ha_Equal existed m
                    then tryM (UpdateResource c (OConfigMap (owned_config_map c cr m))) (\<lambda>_. okM True)
                    else okM False
                | _ \<Rightarrow> okM False) }"

definition handleForwarderConfigMap :: "'w client \<Rightarrow> embed_fs \<Rightarrow> string \<Rightarrow> ('w opstate, unit) eff" where
  "handleForwarderConfigMap c assets rt = do {
     _ \<leftarrow> modify_cr (fluentbit_note_runtime rt);
     with_cr (\<lambda>cr.
       tryM (forwarderConfigMap c assets rt cr) (\<lambda>m.
       tryM (updateConfigMap c cr m) (\<lambda>_. okM ()))) }"

definition handleForwarderDaemonSet :: "'w client \<Rightarrow> Defaults \<Rightarrow> string \<Rightarrow> ('w opstate, unit) eff" where
  "handleForwarderDaemonSet c cfg rt = do {
     _ \<leftarrow> modify_cr (fluentbit_note_runtime rt);
     with_cr (\<lambda>cr.
       if spec_Fluentbit (ls_Spec cr) = None then failM (nil_config_error ''fluentbit'' cr)
       else (case ForwarderDaemonSet (sys_ParseQuantity c) cr cfg of
               Inl e \<Rightarrow> failM e
             | Inr daemonSet \<Rightarrow> reconcile_DaemonSet c cr daemonSet)) }"

definition handleForwarderService :: "'w client \<Rightarrow> Defaults \<Rightarrow> ('w opstate, unit) eff" where
  "handleForwarderService c cfg = with_cr (\<lambda>cr.
     if Option.bind (spec_Fluentbit (ls_Spec cr)) fb_Aggregator = None
     then failM (nil_config_error ''fluentbit or aggregator'' cr)
     else reconcile_Service c cr (ForwarderService cr cfg))"

definition resolveAggregatorOutputCredentials :: "'w client \<Rightarrow> logging_service \<Rightarrow> ('w, fluentbit_credentials) eff" where
  "resolveAggregatorOutputCredentials c cr =
     (case Option.bind (Option.bind (spec_Fluentbit (ls_Spec cr)) fb_Aggregator) ag_Output of
        None \<Rightarrow> okM zero_fluentbit_credentials
      | Some output \<Rightarrow>
          ResolveFluentbitOutputAuth c (om_Namespace (ls_ObjectMeta cr)) (fluentbit_outputs output) zero_fluentbit_credentials)"

definition aggregator_note_runtime :: "string \<Rightarrow> logging_service \<Rightarrow> logging_service" where
  "aggregator_note_runtime rt cr =
     (if Option.bind (spec_Fluentbit (ls_Spec cr)) fb_Aggregator = None then cr else set_runtime rt cr)"

definition handleAggregatorConfigSecret :: "'w client \<Rightarrow> embed_fs \<Rightarrow> string \<Rightarrow> ('w opstate, unit) eff" where
  "handleAggregatorConfigSecret c assets rt =
     tryM (with_cr (resolveAggregatorOutputCredentials c)) (\<lambda>credentials. do {
       _ \<leftarrow> modify_cr (aggregator_note_runtime rt);
       with_cr (\<lambda>cr.
         tryM (aggregatorConfigSecret c assets rt credentials cr) (\<lambda>secret.
         tryM (CreateOrUpdateConfigSecret c cr secret) (\<lambda>_.
           DeleteLegacyConfigMap c (om_Namespace (ls_ObjectMeta cr)) AggregatorFluentbitComponentName))) })"

definition applyAggregatorStatefulSet :: "'w client \<Rightarrow> Defaults \<Rightarrow> ('w opstate, unit) eff" where
  "applyAggregatorStatefulSet c cfg = with_cr (\<lambda>cr.
     case AggregatorStatefulSet (sys_ParseQuantity c) cr cfg of
       Inl e \<Rightarrow> failM e
     | Inr statefulSet \<Rightarrow> reconcile_StatefulSet c cr statefulSet)"

text \<open>A duration of \<open>n\<close> minutes in nanoseconds, at the width of \<open>time.Duration\<close>.\<close>

definition aggregator_timeout :: "logging_service \<Rightarrow> int" where
  "aggregator_timeout cr =
     (let n = ag_StartupTimeout (the (fb_Aggregator (the (spec_Fluentbit (ls_Spec cr)))))
      in if n \<noteq> 0 then int64_of (n * (60 * 10 ^ 9)) else FluentbitAggregatorPendingTimeout)"

definition waitForAggregator :: "'w client \<Rightarrow> ('w opstate, unit) eff" where
  "waitForAggregator c = do {
     _ \<leftarrow> in_world (sys_Sleep c InitialDelay);
     tryM (with_cr (\<lambda>cr. WaitForStatefulsetUpdated c (om_Namespace (ls_ObjectMeta cr))
             AggregatorFluentbitComponentName (aggregator_timeout cr))) (\<lambda>started.
       if \<not> started then do {
         _ \<leftarrow> UpdateStatus c HAFluentStatus Failed False ''Fluent bit aggregator is not started'';
         failM (errors_New ''fluent bit aggregator is not started'') }
       else okM ()) }"

definition handleAggregatorStatefulSet :: "'w client \<Rightarrow> Defaults \<Rightarrow> ('w opstate, unit) eff" where
  "handleAggregatorStatefulSet c cfg =
     tryM (applyAggregatorStatefulSet c cfg) (\<lambda>_. waitForAggregator c)"

definition handleAggregatorService :: "'w client \<Rightarrow> Defaults \<Rightarrow> ('w opstate, unit) eff" where
  "handleAggregatorService c cfg = with_cr (\<lambda>cr. reconcile_Service c cr (AggregatorService cr cfg))"

definition ha_deleteDaemonSet :: "'w client \<Rightarrow> string \<Rightarrow> logging_service \<Rightarrow> ('w, unit) eff" where
  "ha_deleteDaemonSet c nm cr = deleteIfExists c KDaemonSet (om_Namespace (ls_ObjectMeta cr)) nm"

definition ha_deleteStatefulSet :: "'w client \<Rightarrow> string \<Rightarrow> logging_service \<Rightarrow> ('w, unit) eff" where
  "ha_deleteStatefulSet c nm cr = deleteIfExists c KStatefulSet (om_Namespace (ls_ObjectMeta cr)) nm"

definition ha_deleteConfigMap :: "'w client \<Rightarrow> string \<Rightarrow> logging_service \<Rightarrow> ('w, unit) eff" where
  "ha_deleteConfigMap c nm cr = deleteIfExists c KConfigMap (om_Namespace (ls_ObjectMeta cr)) nm"

definition ha_deleteService :: "'w client \<Rightarrow> string \<Rightarrow> logging_service \<Rightarrow> ('w, unit) eff" where
  "ha_deleteService c nm cr = deleteIfExists c KService (om_Namespace (ls_ObjectMeta cr)) nm"

definition ha_deleteSecret :: "'w client \<Rightarrow> string \<Rightarrow> logging_service \<Rightarrow> ('w, unit) eff" where
  "ha_deleteSecret c nm cr = deleteIfExists c KSecret (om_Namespace (ls_ObjectMeta cr)) nm"

definition ha_uninstall :: "'w client \<Rightarrow> ('w opstate, unit) state" where
  "ha_uninstall c = do {
     _ \<leftarrow> logged (with_cr (ha_deleteDaemonSet c ForwarderFluentbitComponentName));
     _ \<leftarrow> logged (with_cr (ha_deleteConfigMap c ForwarderFluentbitComponentName));
     _ \<leftarrow> logged (with_cr (ha_deleteService c ForwarderFluentbitComponentName));
     _ \<leftarrow> logged (with_cr (ha_deleteStatefulSet c AggregatorFluentbitComponentName));
     _ \<leftarrow> logged (with_cr (ha_deleteSecret c AggregatorFluentbitComponentName));
     _ \<leftarrow> logged (with_cr (\<lambda>cr. DeleteLegacyConfigMap c (om_Namespace (ls_ObjectMeta cr)) AggregatorFluentbitComponentName));
     logged (with_cr (ha_deleteService c AggregatorFluentbitComponentName)) }"

definition ha_entry :: component where
  "ha_entry = \<lparr>cmp_ComponentName = ForwarderFluentbitComponentName, cmp_StatusName = HAFluentStatus\<rparr>"

definition ha_installed :: "logging_service \<Rightarrow> bool" where
  "ha_installed cr =
     (case spec_Fluentbit (ls_Spec cr) of
        None \<Rightarrow> False
      | Some spec \<Rightarrow> fluentbit_IsInstall (Some spec) \<and> aggregator_installed spec)"

definition graylog_output_incomplete :: "logging_service \<Rightarrow> bool" where
  "graylog_output_incomplete cr =
     (let a = the (fb_Aggregator (the (spec_Fluentbit (ls_Spec cr))))
      in ag_GraylogOutput a \<and> (ag_GraylogHost a = [] \<or> ag_GraylogPort a = 0))"

definition ha_Run :: "'w client \<Rightarrow> embed_fs \<Rightarrow> embed_fs \<Rightarrow> Defaults \<Rightarrow> string \<Rightarrow> ('w opstate, unit) eff" where
  "ha_Run c aggregatorConfigs forwarderConfigs cfg rt = do {
     _ \<leftarrow> start_status c HAFluentStatus ''Start reconcile of Fluentbit-Forwarder-Aggregator'';
     cr \<leftarrow> get_cr;
     if ha_installed cr then
       if graylog_output_incomplete cr
       then failM (errors_New ''configuration error: fluentbit.aggregator.graylogHost and fluentbit.aggregator.graylogPort are required with Graylog output'')
       else
         tryM (handleAggregatorConfigSecret c aggregatorConfigs rt) (\<lambda>_.
         tryM (handleAggregatorStatefulSet c cfg) (\<lambda>_.
         tryM (handleAggregatorService c cfg) (\<lambda>_.
         tryM (handleForwarderConfigMap c forwarderConfigs rt) (\<lambda>_.
         tryM (handleForwarderDaemonSet c cfg rt) (\<lambda>_.
         tryM (handleForwarderService c cfg) (\<lambda>_. do {
           _ \<leftarrow> append_pending ha_entry;
           okM () }))))))
     else do {
       _ \<leftarrow> ha_uninstall c;
       _ \<leftarrow> RemoveStatus c HAFluentStatus;
       okM () } }"

section \<open>The contract\<close>

definition ha_keys :: "string \<Rightarrow> obj_key set" where
  "ha_keys ns = component_keys {KDaemonSet, KConfigMap, KService} {ForwarderFluentbitComponentName} ns
     \<union> component_keys {KStatefulSet, KSecret, KConfigMap, KService} {AggregatorFluentbitComponentName} ns"

lemma ha_service_keys:
  "key_of (OService (ForwarderService cr cfg)) = (KService, om_Namespace (ls_ObjectMeta cr), ForwarderFluentbitComponentName)"
  "key_of (OService (AggregatorService cr cfg)) = (KService, om_Namespace (ls_ObjectMeta cr), AggregatorFluentbitComponentName)"
  by (simp_all add: key_of_def ForwarderService_def AggregatorService_def Let_def NewService_def forwarderName_def aggregatorName_def
      ForwarderFluentbitComponentName_def AggregatorFluentbitComponentName_def)

lemma ha_workload_keys:
  "ForwarderDaemonSet pq cr cfg = Inr d \<Longrightarrow>
     key_of (ODaemonSet d) = (KDaemonSet, om_Namespace (ls_ObjectMeta cr), ForwarderFluentbitComponentName)"
  "AggregatorStatefulSet pq cr cfg = Inr s \<Longrightarrow>
     key_of (OStatefulSet s) = (KStatefulSet, om_Namespace (ls_ObjectMeta cr), AggregatorFluentbitComponentName)"
  by (auto simp: key_of_def forwarderName_def aggregatorName_def ForwarderFluentbitComponentName_def
      AggregatorFluentbitComponentName_def elim: ForwarderDaemonSet_Inr AggregatorStatefulSet_Inr [OF _ refl])

lemma ha_config_keys:
  "run_state (aggregatorConfigSecret c assets rt creds cr) w = (Inr s, w') \<Longrightarrow>
     key_of (OSecret s) = (KSecret, om_Namespace (ls_ObjectMeta cr), AggregatorFluentbitComponentName)"
  "run_state (forwarderConfigMap c assets rt cr) w = (Inr m, w') \<Longrightarrow>
     key_of (OConfigMap m) = (KConfigMap, om_Namespace (ls_ObjectMeta cr), ForwarderFluentbitComponentName)"
  by (auto simp: aggregatorConfigSecret_def forwarderConfigMap_def Let_def run_tryM key_of_def opaque_secret_def meta_named_def
      split: option.splits prod.splits sum.splits)

lemma note_runtime_sel [simp]:
  "ls_ObjectMeta (aggregator_note_runtime rt cr) = ls_ObjectMeta cr" "ls_Status (aggregator_note_runtime rt cr) = ls_Status cr"
  by (simp_all add: aggregator_note_runtime_def)

lemma ha_world_frames:
  assumes laws: "cluster_laws c view" and quiet: "quiet_laws c view"
  shows "keeps (only_changes view K) (resolveAggregatorOutputCredentials c cr)"
    and "keeps (only_changes view K) (aggregatorConfigSecret c assets rt creds cr)"
    and "keeps (only_changes view K) (forwarderConfigMap c assets rt cr)"
  unfolding resolveAggregatorOutputCredentials_def ResolveFluentbitOutputAuth_def aggregatorConfigSecret_def
    forwarderConfigMap_def Let_def
  by (intro cluster.keeps_rules keeps_resolve [OF laws] keeps_render [OF quiet])+

lemma owned_config_map_stored: "cluster_laws c view \<Longrightarrow> stored_as (OConfigMap m) (OConfigMap (owned_config_map c cr m))"
  using cluster_laws_owner [of c view cr "OConfigMap m"]
  by (auto simp: owned_config_map_def split: sum.splits object.splits)

lemma keeps_updateConfigMap:
  assumes laws: "cluster_laws c view" and key: "key_of (OConfigMap m) \<in> K"
  shows "keeps (only_changes view K) (updateConfigMap c cr m)"
proof -
  have "key_of (OConfigMap (owned_config_map c cr m)) \<in> K"
    using stored_as_key [OF owned_config_map_stored [OF laws, where m = m and cr = cr]] key by simp
  then show ?thesis
    unfolding updateConfigMap_def UpdateResource_def
    by (intro cluster.keeps_rules keeps_CreateResource [OF laws key] keeps_GetResource [OF laws])
      (auto intro!: cluster.keeps_rules keeps_Update [OF laws] split: object.split)
qed

text \<open>Polling the StatefulSet only reads.\<close>

lemma view_WaitForStatefulsetUpdated:
  assumes laws: "cluster_laws c view" and quiet: "quiet_laws c view"
  shows "view (after (WaitForStatefulsetUpdated c ns nm timeout) w) = view w"
proof -
  let ?check = "IsStatefulsetReplicasSynchronised c ns nm"
  let ?cond = "do {
      r \<leftarrow> poll_world ?check;
      _ \<leftarrow> State_Monad.update (\<lambda>s. (fst s, case r of Inr b \<Rightarrow> b | Inl _ \<Rightarrow> False));
      case r of Inl e \<Rightarrow> failM e | Inr b \<Rightarrow> okM b }"
  have check: "view (after ?check w) = view w" for w
  proof -
    have "keeps (only_changes view {}) ?check"
      unfolding IsStatefulsetReplicasSynchronised_def
      by (intro cluster.keeps_tryM keeps_Get [OF laws])
        (auto intro!: cluster.keeps_rules split: object.split option.split)
    from keepsD [OF this, of w] show ?thesis by (auto simp: only_changes_def)
  qed
  have "keeps (\<lambda>s s'. view (fst s') = view (fst s)) ?cond"
    using check by (auto intro!: keepsI simp: poll_world_def run_zoom case_prod_beta State_Monad.update_def State_Monad.set_def State_Monad.get_def split: sum.split)
  then have "keeps (\<lambda>s s'. view (fst s') = view (fst s)) (sys_Poll c Interval timeout ?cond)"
    using quiet by (simp add: quiet_laws_def)
  from keepsD [OF this, of "(w, False)"] show ?thesis
    unfolding WaitForStatefulsetUpdated_def by (auto split: prod.split sum.split)
qed

lemma object_waitForAggregator:
  assumes laws: "cluster_laws c view" and patch: "patch_law c" and quiet: "quiet_laws c view"
  shows "keeps (object_frame view K) (waitForAggregator c)"
proof -
  have sleep: "view (after (sys_Sleep c d) w) = view w" for d w using quiet by (simp add: quiet_laws_def)
  have wait: "keeps (only_changes view K') (WaitForStatefulsetUpdated c ns nm t)" for K' ns nm t
    by (intro keepsI only_changes_view view_WaitForStatefulsetUpdated [OF laws quiet])
  show ?thesis
    unfolding waitForAggregator_def by (intro object_rules quiet_in_world sleep wait patch quiet)
qed

lemma ha_handle_frames:
  assumes laws: "cluster_laws c view" and patch: "patch_law c" and quiet: "quiet_laws c view"
  shows "keeps (object_frame view ha_keys) (handleAggregatorConfigSecret c assets rt)"
    and "keeps (object_frame view ha_keys) (handleAggregatorStatefulSet c cfg)"
    and "keeps (object_frame view ha_keys) (handleAggregatorService c cfg)"
    and "keeps (object_frame view ha_keys) (handleForwarderConfigMap c assets rt)"
    and "keeps (object_frame view ha_keys) (handleForwarderDaemonSet c cfg rt)"
    and "keeps (object_frame view ha_keys) (handleForwarderService c cfg)"
    and "keeps (object_frame view ha_keys) (ha_uninstall c)"
  unfolding handleAggregatorConfigSecret_def handleAggregatorStatefulSet_def applyAggregatorStatefulSet_def
    handleAggregatorService_def handleForwarderConfigMap_def handleForwarderDaemonSet_def handleForwarderService_def
    ha_uninstall_def ha_deleteDaemonSet_def ha_deleteStatefulSet_def ha_deleteConfigMap_def ha_deleteService_def
    ha_deleteSecret_def DeleteLegacyConfigMap_eq
  by (intro object_rules object_modify_cr ha_world_frames [OF laws quiet] cluster.keeps_tryM_result
      cluster.keeps_if cluster.keeps_failM cluster.keeps_okM cluster.keeps_case_sum
      keeps_updateConfigMap [OF laws] object_waitForAggregator [OF laws patch quiet]
      keeps_CreateOrUpdateConfigSecret [OF laws] keeps_reconcile [OF laws] keeps_deleteIfExists [OF laws];
      simp add: ha_service_keys ha_workload_keys ha_config_keys ha_keys_def)+

lemma ha_contract:
  assumes laws: "cluster_laws c view" and patch: "patch_law c" and quiet: "quiet_laws c view"
  shows "component_contract (ha_Run c assets assets' cfg rt) HAFluentStatus ha_entry view ha_keys"
proof
  note defs = handleAggregatorConfigSecret_def handleAggregatorStatefulSet_def applyAggregatorStatefulSet_def
    handleAggregatorService_def handleForwarderConfigMap_def handleForwarderDaemonSet_def handleForwarderService_def
    ha_uninstall_def waitForAggregator_def
  show "keeps (status_frame {HAFluentStatus}) (ha_Run c assets assets' cfg rt)"
    unfolding ha_Run_def defs
    by (intro status_rules keeps_status_modify_cr patch; simp add: HAFluentStatus_def)
  show "keeps (object_frame view ha_keys) (ha_Run c assets assets' cfg rt)"
    unfolding ha_Run_def
    by (intro object_rules patch quiet ha_handle_frames [OF laws patch quiet])
  show "keeps (pending_frame {ha_entry}) (ha_Run c assets assets' cfg rt)"
    unfolding ha_Run_def defs
    by (intro pending_rules patch; simp)
qed

sublocale operator_client \<subseteq> ha: component_contract
  "ha_Run c assets assets' cfg rt" HAFluentStatus ha_entry view ha_keys for assets assets' cfg rt
  by (rule ha_contract [OF client_cluster client_patch client_quiet])

section \<open>A successful installation\<close>

lemma updateConfigMap_present:
  assumes laws: "cluster_laws c view" and run: "run_state (updateConfigMap c cr m) w = (Inr b, w')"
  shows "view w' (key_of (OConfigMap m)) \<noteq> None"
proof -
  let ?k = "key_of (OConfigMap m)"
  have owned: "key_of (OConfigMap (owned_config_map c cr m)) = ?k"
    by (rule stored_as_key [OF owned_config_map_stored [OF laws]])
  obtain r w1 where r: "run_state (CreateResource c cr (OConfigMap m)) w = (r, w1)" by fastforce
  note c1 = CreateResource_cases [OF laws r]
  show ?thesis
  proof (cases r)
    case (Inr u)
    then show ?thesis using run r c1(1) [OF Inr] by (auto simp: updateConfigMap_def)
  next
    case (Inl e)
    with run r have ex: "IsAlreadyExists e" by (auto simp: updateConfigMap_def split: if_splits)
    then have "run_state (tryM (GetResource c KConfigMap (om_Namespace (cm_Meta m)) (om_Name (cm_Meta m))) (\<lambda>existing.
        case existing of OConfigMap existed \<Rightarrow>
            if \<not> ha_Equal existed m then tryM (UpdateResource c (OConfigMap (owned_config_map c cr m))) (\<lambda>_. okM True)
            else okM False
        | _ \<Rightarrow> okM False)) w1 = (Inr b, w')" using run r Inl by (simp add: updateConfigMap_def)
    then obtain existing w2 where g: "run_state (GetResource c KConfigMap (om_Namespace (cm_Meta m)) (om_Name (cm_Meta m))) w1 = (Inr existing, w2)"
      and rest: "run_state (case existing of OConfigMap existed \<Rightarrow>
            if \<not> ha_Equal existed m then tryM (UpdateResource c (OConfigMap (owned_config_map c cr m))) (\<lambda>_. okM True)
            else okM False
        | _ \<Rightarrow> okM False) w2 = (Inr b, w')" by (rule tryM_InrE)
    have p2: "view w2 ?k \<noteq> None"
      using c1(2) [OF Inl] c1(3) [OF Inl ex] GetResource_cases(1) [OF laws g] by simp
    from rest have "w' = w2 \<or> (\<exists>u. run_state (cl_Update c (OConfigMap (owned_config_map c cr m))) w2 = (Inr u, w'))"
      by (auto simp: UpdateResource_def run_tryM split: object.splits if_splits prod.splits sum.splits)
    then show ?thesis using p2 owned by (auto dest!: cluster_laws_update(1) [OF laws _ refl])
  qed
qed

lemma handleAggregatorStatefulSet_done:
  assumes laws: "cluster_laws c view" and patch: "patch_law c" and quiet: "quiet_laws c view"
    and run: "run_state (handleAggregatorStatefulSet c cfg) s = (Inr u, t)"
  shows "view (os_world t) (KStatefulSet, namespace_of s, AggregatorFluentbitComponentName) \<noteq> None"
    and "only_changes view {(KStatefulSet, namespace_of s, AggregatorFluentbitComponentName)} (os_world s) (os_world t)"
    and "namespace_of t = namespace_of s" and "os_pending t = os_pending s"
proof -
  let ?k = "(KStatefulSet, namespace_of s, AggregatorFluentbitComponentName)"
  from run obtain u1 s1 where r1: "run_state (applyAggregatorStatefulSet c cfg) s = (Inr u1, s1)"
    and r2: "run_state (waitForAggregator c) s1 = (Inr u, t)" unfolding handleAggregatorStatefulSet_def by (rule tryM_InrE)
  from r1 obtain ss where ss: "AggregatorStatefulSet (sys_ParseQuantity c) (os_cr s) cfg = Inr ss"
    and "run_state (with_cr (\<lambda>cr. reconcile_StatefulSet c cr ss)) s = (Inr u1, s1)"
    by (auto simp: applyAggregatorStatefulSet_def run_with_cr split: sum.splits)
  note c1 = reconcile_step [OF laws this(2) [unfolded reconcile_defs] ha_workload_keys(2) [OF ss]]
  have c2: "object_frame view (\<lambda>_. {}) s1 t"
    using keeps_run [OF object_waitForAggregator [OF laws patch quiet] r2] .
  then have v: "view (os_world t) = view (os_world s1)" by (auto simp: object_frame_def only_changes_def)
  show "view (os_world t) ?k \<noteq> None" using c1(1) v by simp
  show "only_changes view {?k} (os_world s) (os_world t)" using c1(2) v by (simp add: only_changes_def)
  show "namespace_of t = namespace_of s" using c2 c1(3) by (simp add: object_frame_def same_identity_def)
  have "keeps (pending_frame {}) (waitForAggregator c)"
    unfolding waitForAggregator_def by (intro pending_rules patch)
  from keeps_run [OF this r2] show "os_pending t = os_pending s" using c1(4) by (simp add: pending_frame_def)
qed

lemma handleForwarder_done:
  assumes laws: "cluster_laws c view" and quiet: "quiet_laws c view"
  shows "run_state (handleForwarderConfigMap c assets rt) s = (Inr u, t) \<Longrightarrow>
      view (os_world t) (KConfigMap, namespace_of s, ForwarderFluentbitComponentName) \<noteq> None
      \<and> only_changes view {(KConfigMap, namespace_of s, ForwarderFluentbitComponentName)} (os_world s) (os_world t)"
    and "run_state (handleForwarderDaemonSet c cfg rt) s = (Inr u, t) \<Longrightarrow>
      view (os_world t) (KDaemonSet, namespace_of s, ForwarderFluentbitComponentName) \<noteq> None
      \<and> only_changes view {(KDaemonSet, namespace_of s, ForwarderFluentbitComponentName)} (os_world s) (os_world t)"
    and "run_state (handleForwarderService c cfg) s = (Inr u, t) \<Longrightarrow>
      view (os_world t) (KService, namespace_of s, ForwarderFluentbitComponentName) \<noteq> None
      \<and> only_changes view {(KService, namespace_of s, ForwarderFluentbitComponentName)} (os_world s) (os_world t)"
proof -
  let ?s = "s\<lparr>os_cr := fluentbit_note_runtime rt (os_cr s)\<rparr>"
  assume "run_state (handleForwarderConfigMap c assets rt) s = (Inr u, t)"
  then have "run_state (with_cr (\<lambda>cr. tryM (forwarderConfigMap c assets rt cr) (\<lambda>m.
      tryM (updateConfigMap c cr m) (\<lambda>_. okM ())))) ?s = (Inr u, t)" by (simp add: handleForwarderConfigMap_def)
  then obtain m w1 b w2 where r: "run_state (forwarderConfigMap c assets rt (os_cr ?s)) (os_world ?s) = (Inr m, w1)"
    "run_state (updateConfigMap c (os_cr ?s) m) w1 = (Inr b, w2)" "t = ?s\<lparr>os_world := w2\<rparr>"
    by (auto elim!: with_crE tryM_InrE)
  have "only_changes view {key_of (OConfigMap m)} (os_world s) w1"
    using keeps_run [OF ha_world_frames(3) [OF laws quiet] r(1)] by simp
  moreover have "only_changes view {key_of (OConfigMap m)} w1 w2"
    using keeps_run [OF keeps_updateConfigMap [OF laws] r(2)] by simp
  ultimately have "only_changes view {key_of (OConfigMap m)} (os_world s) w2" by (rule cluster.frame_trans)
  then show "view (os_world t) (KConfigMap, namespace_of s, ForwarderFluentbitComponentName) \<noteq> None
      \<and> only_changes view {(KConfigMap, namespace_of s, ForwarderFluentbitComponentName)} (os_world s) (os_world t)"
    using updateConfigMap_present [OF laws r(2)] ha_config_keys(2) [OF r(1)] r(3) by simp
next
  let ?s = "s\<lparr>os_cr := fluentbit_note_runtime rt (os_cr s)\<rparr>"
  assume "run_state (handleForwarderDaemonSet c cfg rt) s = (Inr u, t)"
  then obtain d where d: "ForwarderDaemonSet (sys_ParseQuantity c) (os_cr ?s) cfg = Inr d"
    and "run_state (with_cr (\<lambda>cr. reconcile_DaemonSet c cr d)) ?s = (Inr u, t)"
    by (auto simp: handleForwarderDaemonSet_def run_with_cr split: sum.splits if_splits)
  from reconcile_step(1,2) [OF laws this(2) [unfolded reconcile_defs] ha_workload_keys(1) [OF d]]
  show "view (os_world t) (KDaemonSet, namespace_of s, ForwarderFluentbitComponentName) \<noteq> None
      \<and> only_changes view {(KDaemonSet, namespace_of s, ForwarderFluentbitComponentName)} (os_world s) (os_world t)" by simp
next
  assume "run_state (handleForwarderService c cfg) s = (Inr u, t)"
  then have "run_state (with_cr (\<lambda>cr. reconcile_Service c cr (ForwarderService cr cfg))) s = (Inr u, t)"
    by (auto simp: handleForwarderService_def run_with_cr split: if_splits)
  from reconcile_step(1,2) [OF laws this [unfolded reconcile_defs] refl]
  show "view (os_world t) (KService, namespace_of s, ForwarderFluentbitComponentName) \<noteq> None
      \<and> only_changes view {(KService, namespace_of s, ForwarderFluentbitComponentName)} (os_world s) (os_world t)"
    by (simp add: ha_service_keys)
qed

lemma ha_pending_frames:
  assumes "patch_law c"
  shows "keeps (pending_frame {}) (handleForwarderConfigMap c assets rt)"
    and "keeps (pending_frame {}) (handleForwarderDaemonSet c cfg rt)"
    and "keeps (pending_frame {}) (handleForwarderService c cfg)"
    and "keeps (pending_frame {}) (handleAggregatorService c cfg)"
    and "keeps (pending_frame {}) (ha_uninstall c)"
    and "keeps (status_frame {HAFluentStatus}) (ha_uninstall c)"
  unfolding handleForwarderConfigMap_def handleForwarderDaemonSet_def handleForwarderService_def handleAggregatorService_def
    ha_uninstall_def
  by (intro pending_rules status_rules)+

definition ha_objects :: "string \<Rightarrow> obj_key list" where
  "ha_objects ns = [(KSecret, ns, AggregatorFluentbitComponentName), (KStatefulSet, ns, AggregatorFluentbitComponentName),
     (KService, ns, AggregatorFluentbitComponentName), (KConfigMap, ns, ForwarderFluentbitComponentName),
     (KDaemonSet, ns, ForwarderFluentbitComponentName), (KService, ns, ForwarderFluentbitComponentName)]"

lemma ha_install_done:
  assumes laws: "cluster_laws c view" and patch: "patch_law c" and quiet: "quiet_laws c view"
    and r1: "run_state (handleAggregatorConfigSecret c assets rt) s = (Inr u1, s1)"
    and r2: "run_state (handleAggregatorStatefulSet c cfg) s1 = (Inr u2, s2)"
    and r3: "run_state (handleAggregatorService c cfg) s2 = (Inr u3, s3)"
    and r4: "run_state (handleForwarderConfigMap c assets' rt) s3 = (Inr u4, s4)"
    and r5: "run_state (handleForwarderDaemonSet c cfg rt) s4 = (Inr u5, s5)"
    and r6: "run_state (handleForwarderService c cfg) s5 = (Inr u6, s6)"
  shows "os_pending s6 = os_pending s"
    and "\<forall>k \<in> set (ha_objects (namespace_of s)). view (os_world s6) k \<noteq> None"
    and "view (os_world s6) (KConfigMap, namespace_of s, AggregatorFluentbitComponentName) = None"
proof -
  have c1: "view (os_world s1) (KSecret, namespace_of s, AggregatorFluentbitComponentName) \<noteq> None"
    "view (os_world s1) (KConfigMap, namespace_of s, AggregatorFluentbitComponentName) = None"
    "namespace_of s1 = namespace_of s" "os_pending s1 = os_pending s"
    by (rule config_handler_done [OF laws r1 [unfolded handleAggregatorConfigSecret_def] note_runtime_sel(1)], erule ha_config_keys(1))+
  note c2 = handleAggregatorStatefulSet_done [OF laws patch quiet r2]
  note c3 = reconcile_step [OF laws r3 [unfolded handleAggregatorService_def reconcile_defs] refl, unfolded ha_service_keys]
  note c4 = handleForwarder_done(1) [OF laws quiet r4] and c5 = handleForwarder_done(2) [OF laws quiet r5]
    and c6 = handleForwarder_done(3) [OF laws quiet r6]
  note f = ha_handle_frames [OF laws patch quiet]
  have ns2: "namespace_of s2 = namespace_of s" using c1(3) c2(3) by simp
  have ns3: "namespace_of s3 = namespace_of s" using c3(3) ns2 by simp
  have ns4: "namespace_of s4 = namespace_of s"
    using keeps_run [OF f(4) r4] ns3 by (simp add: object_frame_def same_identity_def)
  have ns5: "namespace_of s5 = namespace_of s"
    using keeps_run [OF f(5) r5] ns4 by (simp add: object_frame_def same_identity_def)
  note p = ha_pending_frames [OF patch]
  show "os_pending s6 = os_pending s"
    using keeps_run [OF p(1) r4] keeps_run [OF p(2) r5] keeps_run [OF p(3) r6] c1(4) c2(4) c3(4)
    by (simp add: pending_frame_def)
  have names: "ForwarderFluentbitComponentName \<noteq> AggregatorFluentbitComponentName"
    by (simp add: ForwarderFluentbitComponentName_def AggregatorFluentbitComponentName_def)
  note at = only_changes_at [OF c2(2)] only_changes_at [OF c3(2)] only_changes_at [OF c4 [THEN conjunct2]]
    only_changes_at [OF c5 [THEN conjunct2]] only_changes_at [OF c6 [THEN conjunct2]]
  show "\<forall>k \<in> set (ha_objects (namespace_of s)). view (os_world s6) k \<noteq> None"
    using c1 c2(1) c3(1) c4 c5 c6 at names ns2 ns3 ns4 ns5 by (simp add: ha_objects_def)
  show "view (os_world s6) (KConfigMap, namespace_of s, AggregatorFluentbitComponentName) = None"
    using c1 at names ns2 ns3 ns4 ns5 by simp
qed

lemma ha_Run_done:
  assumes laws: "cluster_laws c view" and patch: "patch_law c" and quiet: "quiet_laws c view"
    and run: "run_state (ha_Run c assets assets' cfg rt) s = (Inr (), t)"
  shows "if ha_installed (os_cr (after (start_status c HAFluentStatus ''Start reconcile of Fluentbit-Forwarder-Aggregator'') s)) then os_pending t = os_pending s @ [ha_entry]
      \<and> (\<forall>k \<in> set (ha_objects (namespace_of s)). view (os_world t) k \<noteq> None)
      \<and> view (os_world t) (KConfigMap, namespace_of s, AggregatorFluentbitComponentName) = None
    else os_pending t = os_pending s \<and> (status_inv (conds s) \<longrightarrow> lookup_condition HAFluentStatus (conds t) = None)"
proof -
  let ?s = "after (start_status c HAFluentStatus ''Start reconcile of Fluentbit-Forwarder-Aggregator'') s"
  have "HAFluentStatus \<noteq> []" by (simp add: HAFluentStatus_def)
  note st = start_status_done [OF patch this, where m = "''Start reconcile of Fluentbit-Forwarder-Aggregator''" and s = s]
  show ?thesis
  proof (cases "ha_installed (os_cr ?s)")
    case True
    then have "run_state (tryM (handleAggregatorConfigSecret c assets rt) (\<lambda>_. tryM (handleAggregatorStatefulSet c cfg) (\<lambda>_.
         tryM (handleAggregatorService c cfg) (\<lambda>_. tryM (handleForwarderConfigMap c assets' rt) (\<lambda>_.
         tryM (handleForwarderDaemonSet c cfg rt) (\<lambda>_. tryM (handleForwarderService c cfg) (\<lambda>_.
         do { _ \<leftarrow> append_pending ha_entry; okM () }))))))) ?s = (Inr (), t)"
      using run by (simp add: ha_Run_def case_prod_beta split: if_splits)
    then obtain u1 s1 u2 s2 u3 s3 u4 s4 u5 s5 u6 s6 where
      r: "run_state (handleAggregatorConfigSecret c assets rt) ?s = (Inr u1, s1)"
        "run_state (handleAggregatorStatefulSet c cfg) s1 = (Inr u2, s2)"
        "run_state (handleAggregatorService c cfg) s2 = (Inr u3, s3)"
        "run_state (handleForwarderConfigMap c assets' rt) s3 = (Inr u4, s4)"
        "run_state (handleForwarderDaemonSet c cfg rt) s4 = (Inr u5, s5)"
        "run_state (handleForwarderService c cfg) s5 = (Inr u6, s6)"
      and t: "t = s6\<lparr>os_pending := os_pending s6 @ [ha_entry]\<rparr>"
      by (auto elim!: tryM_InrE simp: append_pending_def)
    from ha_install_done [OF laws patch quiet r] show ?thesis using t st True by simp
  next
    case False
    then have "run_state (do { _ \<leftarrow> ha_uninstall c; _ \<leftarrow> RemoveStatus c HAFluentStatus; okM () }) ?s = (Inr (), t)"
      using run by (simp add: ha_Run_def case_prod_beta)
    from uninstall_done [OF patch this ha_pending_frames(6,5) [OF patch]] show ?thesis using st False by simp
  qed
qed

end
