(* ===== verification/EventsReader_Builder.thy ===== *)
theory EventsReader_Builder
  imports Builder
begin

text \<open>
  The CloudEventsReader Deployment and Service (\<open>internal/builder/eventsreader/eventsreader.go\<close>).
\<close>

definition eventsreader_name :: string where
  "eventsreader_name = ''events-reader''"

definition eventsreader_technology :: string where
  "eventsreader_technology = ''go''"

definition eventsreader_tmpVolume :: string where
  "eventsreader_tmpVolume = ''tmp''"

definition eventsreader_selector :: "string gomap" where
  "eventsreader_selector = Some [''name'' \<mapsto> eventsreader_name]"

definition eventsreader_podSecurityContext :: "bool \<Rightarrow> int \<Rightarrow> pod_security_context" where
  "eventsreader_podSecurityContext openshift uid =
     (let sc = zero_pod_security_context\<lparr>
            psc_RunAsNonRoot := Some True,
            psc_RunAsGroup := Some uid,
            psc_SeccompProfile := Some ''RuntimeDefault''\<rparr>
      in if \<not> openshift then sc\<lparr>psc_RunAsUser := Some uid\<rparr> else sc)"

definition eventsreader_containerSecurityContext :: "bool \<Rightarrow> int \<Rightarrow> security_context" where
  "eventsreader_containerSecurityContext openshift uid =
     (let sc = zero_security_context\<lparr>
            sc_AllowPrivilegeEscalation := Some False,
            sc_ReadOnlyRootFilesystem := Some True,
            sc_RunAsNonRoot := Some True,
            sc_Capabilities := Some \<lparr>cap_Add = [], cap_Drop = [''ALL'']\<rparr>,
            sc_RunAsGroup := Some uid\<rparr>
      in if \<not> openshift then sc\<lparr>sc_RunAsUser := Some uid\<rparr> else sc)"

definition eventsreader_container :: "logging_service \<Rightarrow> EventsReaderDefaults \<Rightarrow> container" where
  "eventsreader_container cr def =
     (let spec = the (spec_CloudEventsReader (ls_Spec cr));
          args = (case cer_Args spec of None \<Rightarrow> [] | Some a \<Rightarrow> a)
      in NewContainer eventsreader_name (zero_ContainerOpts\<lparr>
           cno_Image := cer_DockerImage spec,
           cno_ImagePullPolicy := ''IfNotPresent'',
           cno_Command := erd_Command def,
           cno_Args := args,
           cno_Env := [EnvVar ''OPENSHIFT_URL'' (spec_CloudURL (ls_Spec cr))],
           cno_Ports := [ContainerPort [] (erd_Port def) ''TCP''],
           cno_Resources := FirstNonNil (cer_Resources spec) (erd_Resources def),
           cno_VolumeMounts := [VolumeMount eventsreader_tmpVolume ''/tmp'' [] False],
           cno_LivenessProbe := Some (erd_LivenessProbe def),
           cno_ReadinessProbe := Some (erd_ReadinessProbe def),
           cno_SecurityContext := Some (eventsreader_containerSecurityContext
             (spec_OpenshiftDeploy (ls_Spec cr)) (erd_RunAsID def))\<rparr>))"

definition eventsreader_podSpec :: "logging_service \<Rightarrow> EventsReaderDefaults \<Rightarrow> pod_spec" where
  "eventsreader_podSpec cr def =
     (let spec = the (spec_CloudEventsReader (ls_Spec cr))
      in set_priority_class (cer_PriorityClassName spec) (zero_pod_spec\<lparr>
           ps_ServiceAccountName := eventsreader_name,
           ps_NodeSelector := NodeSelector (cer_NodeSelectorKey spec) (cer_NodeSelectorValue spec),
           ps_SecurityContext := Some (eventsreader_podSecurityContext
             (spec_OpenshiftDeploy (ls_Spec cr)) (erd_RunAsID def)),
           ps_Volumes := [\<lparr>vol_Name = eventsreader_tmpVolume,
             vol_Source = EmptyDirSource [] (Some (erd_TmpVolumeSize def))\<rparr>],
           ps_Containers := [eventsreader_container cr def],
           ps_Affinity := cer_Affinity spec\<rparr>))"

definition eventsreader_labelInput :: "logging_service \<Rightarrow> LabelInput" where
  "eventsreader_labelInput cr =
     (let spec = the (spec_CloudEventsReader (ls_Spec cr))
      in \<lparr>li_Name = eventsreader_name,
          li_Component = ComponentBackend,
          li_Instance = GetInstanceLabel eventsreader_name (om_Namespace (ls_ObjectMeta cr)),
          li_Version = GetTagFromImage (cer_DockerImage spec),
          li_Technology = eventsreader_technology,
          li_ComponentLabels = cer_Labels spec\<rparr>)"

definition eventsreader_Deployment :: "logging_service \<Rightarrow> Defaults \<Rightarrow> deployment" where
  "eventsreader_Deployment cr cfg =
     (let spec = the (spec_CloudEventsReader (ls_Spec cr));
          def = df_EventsReader cfg;
          deployment = NewDeployment eventsreader_name (om_Namespace (ls_ObjectMeta cr)) \<lparr>
            dpo_Replicas = None,
            dpo_Selector = eventsreader_selector,
            dpo_Strategy = \<lparr>us_Type = ''RollingUpdate'', us_MaxSurge = Some (erd_RollingMaxSurge def),
              us_MaxUnavailable = Some (erd_RollingMaxUnavailable def)\<rparr>,
            dpo_PodSpec = eventsreader_podSpec cr def,
            dpo_PodLabels = None,
            dpo_PodAnnotations = cer_Annotations spec,
            dpo_Labels = None,
            dpo_Annotations = cer_Annotations spec\<rparr>
      in SetLabelsForDeployment deployment (eventsreader_labelInput cr))"

definition eventsreader_Service :: "logging_service \<Rightarrow> Defaults \<Rightarrow> service" where
  "eventsreader_Service cr cfg =
     (let port = erd_Port (df_EventsReader cfg);
          service = NewService eventsreader_name (om_Namespace (ls_ObjectMeta cr)) (zero_ServiceOpts\<lparr>
            svo_Selector := eventsreader_selector,
            svo_Ports := [\<lparr>sp_Name = eventsreader_name, sp_Port = port, sp_Protocol = ''TCP'', sp_TargetPort = port\<rparr>]\<rparr>)
      in service\<lparr>sv_Meta := SetLabelsForResource (sv_Meta service) \<lparr>li_Name = eventsreader_name,
            li_Component = ComponentBackend, li_Instance = [], li_Version = [], li_Technology = [],
            li_ComponentLabels = cer_Labels (the (spec_CloudEventsReader (ls_Spec cr)))\<rparr> None\<rparr>)"

lemma eventsreader_Deployment_sel:
  "dp_Meta (eventsreader_Deployment cr cfg) = SetLabelsForResource
     (objectMeta eventsreader_name (om_Namespace (ls_ObjectMeta cr)) None
       (cer_Annotations (the (spec_CloudEventsReader (ls_Spec cr))))) (eventsreader_labelInput cr) None"
  "dps_Selector (dp_Spec (eventsreader_Deployment cr cfg)) = eventsreader_selector"
  "pt_Labels (dps_Template (dp_Spec (eventsreader_Deployment cr cfg))) =
     templateLabels (eventsreader_labelInput cr) None"
  "pt_Spec (dps_Template (dp_Spec (eventsreader_Deployment cr cfg))) = eventsreader_podSpec cr (df_EventsReader cfg)"
  by (simp_all add: eventsreader_Deployment_def Let_def SetLabelsForDeployment_def SetLabelsForWorkload_def
      NewDeployment_def podTemplate_def)

interpretation eventsreader_workload: workload_contract
  "\<lambda>cr. deployment_workload (eventsreader_Deployment cr cfg)"
  "\<lambda>cr. spec_CloudEventsReader (ls_Spec cr) \<noteq> None"
  "\<lambda>_. eventsreader_name"
  "\<lambda>cr. om_Namespace (ls_ObjectMeta cr)"
  "\<lambda>_. {}"
  for cfg
proof (unfold_locales, goal_cases)
  case (3 cr)
  show ?case
    unfolding deployment_workload_def workload.simps eventsreader_Deployment_sel
    by (intro matches_templateLabels) (auto simp: eventsreader_selector_def eventsreader_labelInput_def Let_def split: if_splits)
next
  case (5 cr)
  show ?case
    by (auto simp: mounts_declared_def workload_defs eventsreader_Deployment_sel mount_names_def volume_names_def
        eventsreader_podSpec_def eventsreader_container_def NewContainer_def zero_pod_spec_def Let_def)
qed (simp_all add: workload_defs eventsreader_Deployment_sel eventsreader_labelInput_def Let_def)

end
