(* ===== verification/EventsReader_Controller.thy ===== *)
theory EventsReader_Controller
  imports Component_Base EventsReader_Builder
begin

text \<open>
  The Cloud Events Reader reconciler (\<open>internal/controllers/events-reader/reconciler.go\<close>): a
  Deployment and a Service, and the deletion of both and of the ServiceAccount.
\<close>

section \<open>Definitions\<close>

definition eventsreader_handleDeployment :: "'w client \<Rightarrow> Defaults \<Rightarrow> ('w opstate, unit) eff" where
  "eventsreader_handleDeployment c cfg = with_cr (\<lambda>cr. reconcile_Deployment c cr (eventsreader_Deployment cr cfg))"

definition eventsreader_uninstall :: "'w client \<Rightarrow> ('w opstate, unit) state" where
  "eventsreader_uninstall c = do {
     _ \<leftarrow> logged (with_cr (\<lambda>cr. deleteIfExists c KDeployment (om_Namespace (ls_ObjectMeta cr)) EventsReaderComponentName));
     _ \<leftarrow> logged (with_cr (\<lambda>cr. deleteIfExists c KService (om_Namespace (ls_ObjectMeta cr)) EventsReaderComponentName));
     logged (with_cr (\<lambda>cr. deleteIfExists c KServiceAccount (om_Namespace (ls_ObjectMeta cr)) EventsReaderComponentName)) }"

definition eventsreader_entry :: component where
  "eventsreader_entry = \<lparr>cmp_ComponentName = EventsReaderComponentName, cmp_StatusName = EventsReaderStatus\<rparr>"

definition eventsreader_installed :: "logging_service \<Rightarrow> bool" where
  "eventsreader_installed cr \<longleftrightarrow> spec_CloudEventsReader (ls_Spec cr) \<noteq> None
     \<and> eventsreader_IsInstall (spec_CloudEventsReader (ls_Spec cr))"

definition eventsreader_Run :: "'w client \<Rightarrow> Defaults \<Rightarrow> ('w opstate, unit) eff" where
  "eventsreader_Run c cfg = do {
     _ \<leftarrow> start_status c EventsReaderStatus ''Start reconcile of Events Reader'';
     cr \<leftarrow> get_cr;
     if eventsreader_installed cr then
       tryM (eventsreader_handleDeployment c cfg) (\<lambda>_.
       tryM (with_cr (\<lambda>cr. reconcile_Service c cr (eventsreader_Service cr cfg))) (\<lambda>_. do {
         _ \<leftarrow> append_pending eventsreader_entry;
         okM () }))
     else do {
       _ \<leftarrow> eventsreader_uninstall c;
       _ \<leftarrow> RemoveStatus c EventsReaderStatus;
       okM () } }"

section \<open>The contract\<close>

definition eventsreader_keys :: "string \<Rightarrow> obj_key set" where
  "eventsreader_keys = component_keys {KDeployment, KService, KServiceAccount} {EventsReaderComponentName}"

lemma eventsreader_object_keys:
  "key_of (ODeployment (eventsreader_Deployment cr cfg)) = (KDeployment, om_Namespace (ls_ObjectMeta cr), EventsReaderComponentName)"
  "key_of (OService (eventsreader_Service cr cfg)) = (KService, om_Namespace (ls_ObjectMeta cr), EventsReaderComponentName)"
  by (simp_all add: key_of_def eventsreader_Deployment_def SetLabelsForDeployment_def SetLabelsForWorkload_def NewDeployment_def
      eventsreader_Service_def Let_def NewService_def eventsreader_name_def EventsReaderComponentName_def)

lemma eventsreader_contract:
  assumes laws: "cluster_laws c view" and patch: "patch_law c" and quiet: "quiet_laws c view"
  shows "component_contract (eventsreader_Run c cfg) EventsReaderStatus eventsreader_entry view eventsreader_keys"
proof
  note defs = eventsreader_Run_def eventsreader_handleDeployment_def eventsreader_uninstall_def
  show "keeps (status_frame {EventsReaderStatus}) (eventsreader_Run c cfg)"
    unfolding defs by (intro status_rules patch; simp add: EventsReaderStatus_def)
  show "keeps (object_frame view eventsreader_keys) (eventsreader_Run c cfg)"
    unfolding defs
    by (intro object_rules patch quiet keeps_reconcile [OF laws] keeps_deleteIfExists [OF laws];
        simp add: eventsreader_object_keys eventsreader_keys_def)
  show "keeps (pending_frame {eventsreader_entry}) (eventsreader_Run c cfg)"
    unfolding defs by (intro pending_rules patch; simp)
qed

sublocale operator_client \<subseteq> eventsreader: component_contract
  "eventsreader_Run c cfg" EventsReaderStatus eventsreader_entry view eventsreader_keys for cfg
  by (rule eventsreader_contract [OF client_cluster client_patch client_quiet])

section \<open>A successful installation\<close>

lemma eventsreader_uninstall_frames:
  "keeps (status_frame {EventsReaderStatus}) (eventsreader_uninstall c)" "keeps (pending_frame {}) (eventsreader_uninstall c)"
  unfolding eventsreader_uninstall_def by (intro status_rules pending_rules)+

lemma eventsreader_Run_done:
  assumes laws: "cluster_laws c view" and patch: "patch_law c"
    and run: "run_state (eventsreader_Run c cfg) s = (Inr (), t)"
  shows "if eventsreader_installed (os_cr (after (start_status c EventsReaderStatus ''Start reconcile of Events Reader'') s)) then os_pending t = os_pending s @ [eventsreader_entry]
      \<and> (\<forall>k \<in> {KDeployment, KService}. view (os_world t) (k, namespace_of s, EventsReaderComponentName) \<noteq> None)
    else os_pending t = os_pending s \<and> (status_inv (conds s) \<longrightarrow> lookup_condition EventsReaderStatus (conds t) = None)"
proof -
  let ?start = "start_status c EventsReaderStatus ''Start reconcile of Events Reader''"
  let ?s = "after ?start s"
  have "EventsReaderStatus \<noteq> []" by (simp add: EventsReaderStatus_def)
  note st = start_status_done [OF patch this, where m = "''Start reconcile of Events Reader''" and s = s]
  show ?thesis
  proof (cases "eventsreader_installed (os_cr ?s)")
    case True
    then have "run_state (tryM (eventsreader_handleDeployment c cfg) (\<lambda>_.
       tryM (with_cr (\<lambda>cr. reconcile_Service c cr (eventsreader_Service cr cfg))) (\<lambda>_.
       do { _ \<leftarrow> append_pending eventsreader_entry; okM () }))) ?s = (Inr (), t)"
      using run by (simp add: eventsreader_Run_def case_prod_beta)
    then obtain u1 s1 u2 s2 where r1: "run_state (eventsreader_handleDeployment c cfg) ?s = (Inr u1, s1)"
      and r2: "run_state (with_cr (\<lambda>cr. reconcile_Service c cr (eventsreader_Service cr cfg))) s1 = (Inr u2, s2)"
      and t: "t = s2\<lparr>os_pending := os_pending s2 @ [eventsreader_entry]\<rparr>"
      by (auto elim!: tryM_InrE simp: append_pending_def)
    note c1 = reconcile_step [OF laws r1 [unfolded eventsreader_handleDeployment_def reconcile_defs] refl, unfolded eventsreader_object_keys]
    note c2 = reconcile_step [OF laws r2 [unfolded reconcile_defs] refl, unfolded eventsreader_object_keys]
    show ?thesis using c1 c2 only_changes_at [OF c2(2)] st t True by simp
  next
    case False
    then have "run_state (do { _ \<leftarrow> eventsreader_uninstall c; _ \<leftarrow> RemoveStatus c EventsReaderStatus; okM () }) ?s = (Inr (), t)"
      using run by (simp add: eventsreader_Run_def case_prod_beta)
    from uninstall_done [OF patch this eventsreader_uninstall_frames] show ?thesis using st False by simp
  qed
qed

end
