(* ===== verification/Component_Runs.thy ===== *)
theory Component_Runs
  imports Fluentd_Controller HA_Controller EventsReader_Controller
begin

text \<open>
  What the runs of the four collectors have in common when they fail: a run that returns an error has
  queued nothing. The rules follow the control structure of the runs, where the entry is queued last.
\<close>

definition error_queues_nothing :: "('w opstate, 'a) eff \<Rightarrow> bool" where
  "error_queues_nothing m \<longleftrightarrow> (\<forall>s e t. run_state m s = (Inl e, t) \<longrightarrow> os_pending t = os_pending s)"

lemma error_keeps: "keeps (pending_frame {}) m \<Longrightarrow> error_queues_nothing m"
  by (auto simp: error_queues_nothing_def pending_frame_def dest: keeps_run)

lemma error_append: "error_queues_nothing (do { _ \<leftarrow> append_pending p; okM () })"
  by (simp add: error_queues_nothing_def append_pending_def)

lemma error_bind:
  assumes m: "keeps (pending_frame {}) m" and k: "\<And>x. error_queues_nothing (k x)"
  shows "error_queues_nothing (State_Monad.bind m k)"
  unfolding error_queues_nothing_def
proof (intro allI impI)
  fix s e t
  assume "run_state (State_Monad.bind m k) s = (Inl e, t)"
  then obtain a s' where r: "run_state m s = (a, s')" "run_state (k a) s' = (Inl e, t)" by (rule bind_runE)
  then show "os_pending t = os_pending s"
    using keeps_run [OF m r(1)] k [of a] by (simp add: error_queues_nothing_def pending_frame_def)
qed

lemma error_tryM:
  assumes "keeps (pending_frame {}) m" and "\<And>x. error_queues_nothing (k x)"
  shows "error_queues_nothing (tryM m k)"
  unfolding tryM_def
  by (rule error_bind [OF assms(1)]) (auto split: sum.split intro: assms(2) error_keeps pending_frame.keeps_return)

lemma error_if: "error_queues_nothing m \<Longrightarrow> error_queues_nothing n \<Longrightarrow> error_queues_nothing (if b then m else n)"
  by simp

lemma runs_queue_nothing_on_error:
  assumes "patch_law c"
  shows "error_queues_nothing (fluentd_Run c assets cfg rt)" and "error_queues_nothing (fluentbit_Run c assets cfg rt)"
    and "error_queues_nothing (ha_Run c assets assets' cfg rt)" and "error_queues_nothing (eventsreader_Run c cfg)"
proof -
  note rules = error_append error_bind error_tryM error_if pending_rules assms
  show "error_queues_nothing (fluentd_Run c assets cfg rt)"
    unfolding fluentd_Run_def fluentd_handleConfigSecret_def fluentd_handleDaemonSet_def fluentd_handleService_def
    by (intro rules error_keeps [where m = "State_Monad.bind (fluentd_uninstall c) _"] fluentd_uninstall_frames(2))
  show "error_queues_nothing (fluentbit_Run c assets cfg rt)"
    unfolding fluentbit_Run_def fluentbit_handleConfigSecret_def fluentbit_handleDaemonSet_def fluentbit_handleService_def
    by (intro rules error_keeps [where m = "State_Monad.bind (fluentbit_uninstall c) _"] fluentbit_uninstall_frames(2))
  show "error_queues_nothing (ha_Run c assets assets' cfg rt)"
    unfolding ha_Run_def handleAggregatorConfigSecret_def handleAggregatorStatefulSet_def applyAggregatorStatefulSet_def
      waitForAggregator_def
    by (intro rules error_keeps [where m = "State_Monad.bind (ha_uninstall c) _"] error_keeps [where m = "failM _"]
        ha_pending_frames)
  show "error_queues_nothing (eventsreader_Run c cfg)"
    unfolding eventsreader_Run_def eventsreader_handleDeployment_def
    by (intro rules error_keeps [where m = "State_Monad.bind (eventsreader_uninstall c) _"] eventsreader_uninstall_frames(2))
qed

end
