(* ===== verification/Cluster_Properties.thy ===== *)
theory Cluster_Properties
  imports Credentials Pod_Manager
begin

text \<open>
  The properties of the operations the reconcilers share: credentials, writes to the cluster, status
  conditions and the wait for pending components. The witnesses run them on the in-memory client.
\<close>

section \<open>Samples\<close>

definition sample_world :: store where
  "sample_world = \<lparr>st_objects = Map.empty, st_crs = Map.empty, st_clock = 0, st_sent = []\<rparr>"

definition sample_state :: "store opstate" where
  "sample_state = \<lparr>os_cr = zero_logging_service, os_pending = [], os_world = sample_world\<rparr>"

definition sample_secret :: secret where
  "sample_secret = \<lparr>se_Meta = meta_named ''logging-fluentd'' ''logging'', se_Type = ''Opaque'', se_Data = Some [''a'' \<mapsto> ''b'']\<rparr>"

definition sample_condition :: "string \<Rightarrow> string \<Rightarrow> logging_service_condition" where
  "sample_condition reason t = \<lparr>lc_Type = t, lc_Reason = reason, lc_Message = ''m'', lc_LastTransitionTime = [], lc_Status = False\<rparr>"

lemma sample_state_inv [simp]: "status_inv (conds sample_state)"
  by (simp add: sample_state_def zero_logging_service_def zero_logging_service_status_def status_inv_def reasons_def)

section \<open>Credentials\<close>

text \<open>C10: quoting is faithful: FluentD reads a literal written by \<open>FluentdQuote\<close> back as the
  original value, whatever quotes and backslashes it contains, and the literal is one line exactly when
  the value is.\<close>

theorem fluentd_literal_faithful:
  "fluentd_read_literal (FluentdQuote v) = Some v \<and> single_line (FluentdQuote v) = single_line v"
  using FluentdQuote_roundtrip FluentdQuote_single_line by simp

text \<open>The validators accept exactly the values the configuration formats can carry: no line
  break and no NUL byte, and for Fluent Bit no \<open>${\<close>, which it would expand.\<close>

lemma validators_exact:
  "(validateSingleLineValue v = None) = single_line v
   \<and> (validateFluentbitValue v = None) = (single_line v \<and> \<not> sublist ''${'' v)"
  using validateSingleLineValue_iff validateFluentbitValue_iff by simp



section \<open>Writes\<close>




text \<open>C27: writing a configuration Secret. When it fails the cluster is as before; when it succeeds the
  Secret holds the desired data and labels, nothing else has changed, and when it reports that nothing
  was written, nothing was.\<close>

theorem config_secret_written:
  assumes "cluster_laws c view"
  shows "case run_state (CreateOrUpdateConfigSecret c cr s) w of
     (Inl e, w') \<Rightarrow> view w' = view w
   | (Inr written, w') \<Rightarrow> \<exists>o'. stored_as (OSecret s) o' \<and> view w' = (view w)(key_of (OSecret s) \<mapsto> o')
       \<and> (\<not> written \<longrightarrow> view w' = view w)"
proof -
  obtain r w' where r: "run_state (CreateOrUpdateConfigSecret c cr s) w = (r, w')" by fastforce
  from CreateOrUpdateConfigSecret_cases [OF assms r] r show ?thesis by (auto split: sum.split)
qed

theorem config_secret_written_witness:
  "\<exists>o'. stored_as (OSecret sample_secret) o'
     \<and> store_view (snd (run_state (CreateOrUpdateConfigSecret store_client zero_logging_service sample_secret) sample_world))
       = (store_view sample_world)(key_of (OSecret sample_secret) \<mapsto> o')"
  using config_secret_written [OF store_client_laws, where cr = zero_logging_service and s = sample_secret and w = sample_world]
  by (auto simp: CreateOrUpdateConfigSecret_def CreateResource_def store_client_def store_view_def sample_world_def)

text \<open>C31: deleting a component's object. Success means that the object is gone; an error means that
  nothing has changed; and nothing else is deleted, except that a missing object is also looked up
  outside every namespace.\<close>

theorem deletion_outcome:
  assumes "cluster_laws c view"
  shows "case run_state (deleteIfExists c k ns nm) w of
     (Inl e, w') \<Rightarrow> view w' = view w
   | (Inr u, w') \<Rightarrow> view w' (k, ns, nm) = None
       \<and> (\<forall>key. view w' key = view w key \<or> key = (k, ns, nm) \<or> key = (k, [], nm))"
proof -
  obtain r w' where r: "run_state (deleteIfExists c k ns nm) w = (r, w')" by fastforce
  note d = deleteIfExists_cases [OF assms r]
  have "view w' key = view w key \<or> key = (k, ns, nm) \<or> key = (k, [], nm)" for key
    using d(2) unfolding only_changes_def by blast
  then have "\<forall>key. view w' key = view w key \<or> key = (k, ns, nm) \<or> key = (k, [], nm)" ..
  then show ?thesis using d(1,3) r by (cases r) simp_all
qed

theorem deletion_outcome_witness:
  "store_view (snd (run_state (deleteIfExists store_client KSecret ''logging'' ''logging-fluentd'')
     (sample_world\<lparr>st_objects := [key_of (OSecret sample_secret) \<mapsto> OSecret sample_secret]\<rparr>))) (KSecret, ''logging'', ''logging-fluentd'') = None"
  using deletion_outcome [OF store_client_laws, where k = KSecret and ns = "''logging''" and nm = "''logging-fluentd''"
      and w = "sample_world\<lparr>st_objects := [key_of (OSecret sample_secret) \<mapsto> OSecret sample_secret]\<rparr>"]
  by (simp add: deleteIfExists_def GetResource_def DeleteResource_def store_client_def store_view_def sample_world_def
      sample_secret_def key_of_def meta_named_def)

section \<open>Status conditions\<close>

lemma IsStatusEqual_fields:
  assumes "IsStatusEqual x y"
  shows "lc_Type y = lc_Type x \<and> lc_Message y = lc_Message x \<and> lc_Status y = lc_Status x"
proof -
  have "y = x\<lparr>lc_LastTransitionTime := lc_LastTransitionTime y\<rparr>" using assms unfolding IsStatusEqual_def by simp
  then show ?thesis by (metis logging_service_condition.select_convs logging_service_condition.update_convs(4)
      logging_service_condition.surjective)
qed

text \<open>The conditions are a map keyed by reason. After \<open>UpdateStatus\<close> the condition of that reason has
  the given type, message and status, there is still at most one condition per reason, and the
  conditions of all other reasons are as before.\<close>

lemma status_updated:
  assumes "patch_law c" and "status_inv (conds s)" and "reason \<noteq> []"
  shows "status_inv (conds (after (UpdateStatus c reason t b msg) s))
    \<and> (\<exists>y. lookup_condition reason (conds (after (UpdateStatus c reason t b msg) s)) = Some y
         \<and> lc_Type y = t \<and> lc_Message y = msg \<and> lc_Status y = b)
    \<and> (r = reason \<or> lookup_condition r (conds (after (UpdateStatus c reason t b msg) s)) = lookup_condition r (conds s))"
proof -
  let ?x = "new_condition c reason t b msg s"
  have x: "lc_Reason ?x \<noteq> []" using assms(3) by simp
  from condition_list.look_put [OF assms(2) x] obtain y where
    y: "lookup_condition reason (fst (put_condition ?x (conds s))) = Some y" "IsStatusEqual ?x y" by auto
  then have "lc_Type y = t \<and> lc_Message y = msg \<and> lc_Status y = b"
    using IsStatusEqual_fields [OF y(2)] by (simp add: new_condition_def)
  then show ?thesis
    using y(1) condition_list.put_inv [OF assms(2) x] condition_list.look_put_other [OF assms(2) x, of r]
      after_UpdateStatus(1) [OF assms(1), of reason t b msg s] by auto
qed

text \<open>\<open>RemoveStatus\<close>, which moves the last condition into the gap, removes exactly the condition of
  that reason and keeps the others.\<close>

lemma status_removed:
  assumes "patch_law c" and "status_inv (conds s)"
  shows "status_inv (conds (after (RemoveStatus c reason) s))
    \<and> lookup_condition r (conds (after (RemoveStatus c reason) s)) = (if r = reason then None else lookup_condition r (conds s))"
  using after_RemoveStatus(1) [OF assms(1), where s = s and reason = reason] condition_list.rem_inv [OF assms(2)]
    condition_list.look_rem [OF assms(2)] condition_list.look_rem_other [OF assms(2)] by simp

text \<open>C22: the conditions are a map keyed by reason. After \<open>UpdateStatus\<close> the condition of that reason has the
  given type, message and status; \<open>RemoveStatus\<close>, which moves the last condition into the gap, removes
  exactly the condition of that reason; both keep the conditions of all other reasons and that there is
  at most one condition per reason.\<close>

theorem status_refines_map:
  assumes "patch_law c" and "status_inv (conds s)"
  shows "(reason \<noteq> [] \<longrightarrow> status_inv (conds (after (UpdateStatus c reason t b msg) s))
    \<and> (\<exists>y. lookup_condition reason (conds (after (UpdateStatus c reason t b msg) s)) = Some y
         \<and> lc_Type y = t \<and> lc_Message y = msg \<and> lc_Status y = b)
    \<and> (r = reason \<or> lookup_condition r (conds (after (UpdateStatus c reason t b msg) s)) = lookup_condition r (conds s)))
    \<and> status_inv (conds (after (RemoveStatus c reason) s))
    \<and> lookup_condition r (conds (after (RemoveStatus c reason) s)) = (if r = reason then None else lookup_condition r (conds s))"
  using status_updated [OF assms] status_removed [OF assms] by blast

theorem status_refines_map_witness:
  "lookup_condition GraylogStatus (conds (after (RemoveStatus store_client GraylogStatus) sample_state)) = None"
  using status_refines_map [OF store_patch_law sample_state_inv, of GraylogStatus _ _ _ GraylogStatus] by simp





text \<open>C36: \<open>RemoveTemporaryStatuses\<close> counts the conditions to keep but drops conditions from the end of the
  list, so what is left is a prefix of the list: it can keep a temporary condition and lose the status
  of the Logging Service itself, as the second part shows for two conditions.\<close>

theorem temporary_statuses_truncated:
  "fst (remove_temporary spec (length cs) cs False) = take (length (filter (keep_condition spec) cs)) cs
   \<and> fst (remove_temporary spec 2 [sample_condition FluentdStatus InProgress, sample_condition LoggingServiceStatus InProgress] False)
     = [sample_condition FluentdStatus InProgress]
   \<and> keep_condition spec (sample_condition LoggingServiceStatus InProgress)
   \<and> \<not> keep_condition spec (sample_condition FluentdStatus InProgress)"
proof -
  have "keep_condition spec (sample_condition LoggingServiceStatus InProgress)"
    "\<not> keep_condition spec (sample_condition FluentdStatus InProgress)"
    by (simp_all add: keep_condition_def sample_condition_def status_name_defs InProgress_def Failed_def)
  then show ?thesis using remove_temporary_eq by (simp add: numeral_2_eq_2)
qed

text \<open>The event filter lets an update through exactly when the specification changed, so the
  operator's own status patches never trigger a reconcile.\<close>

lemma status_patches_filtered:
  "SkipStatusUpdatePredicate (UpdateEvent (RLoggingService old) (RLoggingService new)) = (ls_Spec old \<noteq> ls_Spec new)
   \<and> \<not> SkipStatusUpdatePredicate (UpdateEvent (RLoggingService old) (RLoggingService (set_conditions cs old)))"
  by (simp add: IsStatusUpdated_def)

section \<open>Pending components\<close>

definition sample_daemonset :: daemonset where
  "sample_daemonset = NewDaemonSet FluentdComponentName [] \<lparr>dso_Selector = None, dso_UpdateStrategy = zero_update_strategy,
     dso_MinReadySeconds = 0, dso_PodSpec = zero_pod_spec, dso_PodLabels = None, dso_PodAnnotations = None,
     dso_Labels = None, dso_Annotations = None\<rparr>"

text \<open>FluentD is pending and its DaemonSet is available.\<close>

definition sample_pending :: "store opstate" where
  "sample_pending = sample_state\<lparr>os_pending := [\<lparr>cmp_ComponentName = FluentdComponentName, cmp_StatusName = FluentdStatus\<rparr>],
     os_world := sample_world\<lparr>st_objects := [(KDaemonSet, [], FluentdComponentName) \<mapsto> ODaemonSet sample_daemonset]\<rparr>\<rparr>"

lemma sample_pending_started: "fst (run_state (ComponentsPending_Run store_client) sample_pending) = Some (Inr True)"
  by code_simp

text \<open>C24: the wait for pending components ends. Whatever the cluster answers, \<open>Run\<close> returns a
  result or an error: 31 rounds suffice, since every round that does not end the loop sleeps ten of the
  300 seconds.\<close>

theorem pending_wait_ends:
  assumes "clock_law c clk"
  shows "\<exists>r. fst (run_state (ComponentsPending_Run c) s) = Some r"
  using ComponentsPending_Run_returns [OF assms] .

theorem pending_wait_ends_witness:
  "\<exists>r. fst (run_state (ComponentsPending_Run store_client) sample_pending) = Some r"
  by (rule pending_wait_ends [OF store_clock_law])

text \<open>C6: what the wait reports is true. When it reports success no component is pending, and the
  conditions of all components that were pending, and of the wait itself, are gone. When it reports a
  timeout at least one component is still pending and every one that is has a condition of type Failed.\<close>

theorem pending_wait_truthful:
  assumes "patch_law c" and "status_inv (conds s)"
    and "\<forall>p \<in> set (os_pending s). cmp_StatusName p \<noteq> [] \<and> cmp_StatusName p \<noteq> ComponentPendingStatus"
  shows "case run_state (ComponentsPending_Run c) s of
     (Some (Inr started), t) \<Rightarrow>
       (if started then os_pending t = [] \<and> lookup_condition ComponentPendingStatus (conds t) = None
          \<and> (\<forall>p \<in> set (os_pending s). lookup_condition (cmp_StatusName p) (conds t) = None)
        else os_pending t \<noteq> [] \<and> (\<forall>p \<in> set (os_pending t). is_failed (conds t) (cmp_StatusName p)))
   | _ \<Rightarrow> True"
proof -
  obtain r t where r: "run_state (ComponentsPending_Run c) s = (r, t)" by fastforce
  show ?thesis
  proof (cases "r = Some (Inr True)")
    case True
    then show ?thesis using ComponentsPending_Run_success [OF assms(1,2)] r by simp
  next
    case False
    show ?thesis
    proof (cases "r = Some (Inr False)")
      case True
      then show ?thesis using ComponentsPending_Run_timeout [OF assms] r by simp
    next
      case no: False
      then show ?thesis using r False by (auto split: option.split sum.split)
    qed
  qed
qed

theorem pending_wait_truthful_witness:
  "os_pending (snd (run_state (ComponentsPending_Run store_client) sample_pending)) = []
   \<and> lookup_condition FluentdStatus (conds (snd (run_state (ComponentsPending_Run store_client) sample_pending))) = None"
proof -
  have "status_inv (conds sample_pending)"
    "\<forall>p \<in> set (os_pending sample_pending). cmp_StatusName p \<noteq> [] \<and> cmp_StatusName p \<noteq> ComponentPendingStatus"
    using sample_state_inv by (simp_all add: sample_pending_def status_name_defs)
  from pending_wait_truthful [OF store_patch_law this] sample_pending_started show ?thesis
    by (cases "run_state (ComponentsPending_Run store_client) sample_pending") (simp add: sample_pending_def)
qed

end
