(* ===== verification/Graylog_Builder.thy ===== *)
theory Graylog_Builder
  imports Builder
begin

text \<open>
  The Graylog StatefulSet, Service and ServiceAccount (\<open>internal/builder/graylog\<close>: \<open>graylog.go\<close>,
  \<open>statefulset.go\<close>). A composite \<open>corev1.Container\<close> literal is written with \<^const>\<open>NewContainer\<close>, which sets
  the same fields. The builders are called only when \<open>cr.Spec.Graylog\<close> is set.
\<close>

section \<open>Constants\<close>

definition graylog_statefulSetName :: string where "graylog_statefulSetName = ''graylog''"
definition graylog_serviceName :: string where "graylog_serviceName = ''graylog-service''"
definition graylog_serviceAccountName :: string where "graylog_serviceAccountName = ''logging-graylog''"
definition graylog_component :: string where "graylog_component = ''graylog''"
definition graylog_technology :: string where "graylog_technology = ''java-others''"
definition graylog_httpPort :: int where "graylog_httpPort = 9000"
definition graylog_udpPort :: int where "graylog_udpPort = 514"
definition graylog_metricsPort :: int where "graylog_metricsPort = 9833"
definition graylog_mongoPort :: int where "graylog_mongoPort = 27017"
definition authProxyPort :: int where "authProxyPort = 8888"
definition authProxyMetrics :: int where "authProxyMetrics = 8889"
definition authProxyName :: string where "authProxyName = ''graylog-auth-proxy''"

definition dataPath :: string where "dataPath = ''/usr/share/graylog/data''"
definition secretFilesPath :: string where "secretFilesPath = dataPath @ ''/k8s-graylog-secret''"
definition sslPath :: string where "sslPath = dataPath @ ''/ssl''"
definition trustStoreOption :: string where
  "trustStoreOption = ''-Djavax.net.ssl.trustStore='' @ sslPath @ ''/cacerts.jks''"
definition archivesPath :: string where "archivesPath = dataPath @ ''/archives''"
definition directoriesFile :: string where "directoriesFile = dataPath @ ''/config/directories.json''"
definition graylog_mkdir :: string where "graylog_mkdir = ''mkdir -p ''"
definition chownGraylog :: string where "chownGraylog = ''chown -R 1100:1100 ''"
definition authProxyConfigVolume :: string where "authProxyConfigVolume = ''graylog-auth-proxy-config''"
definition caCertsVolume :: string where "caCertsVolume = ''tls-cacerts''"
definition httpCertVolume :: string where "httpCertVolume = ''tls-cert-http''"
definition httpKeyVolume :: string where "httpKeyVolume = ''tls-key-http''"
definition certManagerCAVolume :: string where "certManagerCAVolume = ''tls-cacerts-cert-manager''"
definition inputCertVolume :: string where "inputCertVolume = ''tls-cert-input''"
definition inputKeyVolume :: string where "inputKeyVolume = ''tls-key-input''"
definition graylogUser :: int where "graylogUser = 1100"
definition sidecarUser :: int where "sidecarUser = 1001"

abbreviation nl :: string where "nl \<equiv> [CHR 0x0A]"

definition graylog_selector :: "string gomap" where
  "graylog_selector = Some [''name'' \<mapsto> graylog_statefulSetName]"

definition authProxyInstalled :: "graylog \<Rightarrow> bool" where
  "authProxyInstalled spec = (case gl_AuthProxy spec of None \<Rightarrow> False | Some p \<Rightarrow> apx_Install p)"

definition httpTLSEnabled :: "graylog \<Rightarrow> bool" where
  "httpTLSEnabled spec =
     (case gl_TLS spec of None \<Rightarrow> False
      | Some t \<Rightarrow> (case glt_HTTP t of None \<Rightarrow> False | Some h \<Rightarrow> hgt_Enabled h))"

definition generateCerts :: "generate_certs option \<Rightarrow> bool" where
  "generateCerts gc = (case gc of None \<Rightarrow> False | Some g \<Rightarrow> gc_Enabled g)"

definition secretKeySet :: "string \<Rightarrow> string \<Rightarrow> bool" where
  "secretKeySet nm key \<longleftrightarrow> nm \<noteq> [] \<and> key \<noteq> []"

section \<open>Secret files\<close>

record graylog_secretFile =
  gsf_volume :: string
  gsf_secret :: string
  gsf_key :: string
  gsf_path :: string

definition gfile :: "string \<Rightarrow> string \<Rightarrow> string \<Rightarrow> string \<Rightarrow> graylog_secretFile" where
  "gfile v s k p = \<lparr>gsf_volume = v, gsf_secret = s, gsf_key = k, gsf_path = p\<rparr>"

definition userFiles :: "cert_ref option \<Rightarrow> key_ref option \<Rightarrow> string \<Rightarrow> string \<Rightarrow> string \<Rightarrow> graylog_secretFile list" where
  "userFiles cert key certVolume keyVolume dir =
     (case cert of None \<Rightarrow> []
      | Some c \<Rightarrow> if secretKeySet (cert_SecretName c) (cert_SecretKey c)
          then [gfile certVolume (cert_SecretName c) (cert_SecretKey c) (dir @ ''/tls.crt'')] else [])
   @ (case key of None \<Rightarrow> []
      | Some k \<Rightarrow> if secretKeySet (key_SecretName k) (key_SecretKey k)
          then [gfile keyVolume (key_SecretName k) (key_SecretKey k) (dir @ ''/tls.key'')] else [])"

definition httpFiles :: "http_graylog_tls \<Rightarrow> string \<Rightarrow> graylog_secretFile list" where
  "httpFiles http caPath =
     (case hgt_GenerateCerts http of
        Some g \<Rightarrow>
          if gc_Enabled g then
            [gfile httpCertVolume (gc_SecretName g) ''tls.crt'' (sslPath @ ''/http/tls.crt''),
             gfile httpKeyVolume (gc_SecretName g) ''tls.key'' (sslPath @ ''/http/tls.key''),
             gfile certManagerCAVolume (gc_SecretName g) ''ca.crt'' caPath]
          else userFiles (hgt_Cert http) (hgt_Key http) httpCertVolume httpKeyVolume (sslPath @ ''/http'')
      | None \<Rightarrow> userFiles (hgt_Cert http) (hgt_Key http) httpCertVolume httpKeyVolume (sslPath @ ''/http''))"

definition inputFiles :: "input_graylog_tls option \<Rightarrow> graylog_secretFile list" where
  "inputFiles inp =
     (case inp of None \<Rightarrow> []
      | Some i \<Rightarrow>
          (let crts = tls_Certificates (igt_TLS i);
               custom = userFiles (crt_Cert crts) (crt_Key crts) inputCertVolume inputKeyVolume (sslPath @ ''/input'')
           in case tls_GenerateCerts (igt_TLS i) of
                Some g \<Rightarrow>
                  if gc_Enabled g then
                    [gfile inputCertVolume (gc_SecretName g) ''tls.crt'' (sslPath @ ''/input/tls.crt''),
                     gfile inputKeyVolume (gc_SecretName g) ''tls.key'' (sslPath @ ''/input/tls.key'')]
                  else custom
              | None \<Rightarrow> custom))"

definition authProxyFiles :: "auth_proxy \<Rightarrow> graylog_secretFile list" where
  "authProxyFiles proxy =
     filter (\<lambda>f. secretKeySet (gsf_secret f) (gsf_key f))
       [gfile ''graylog-auth-proxy-ca-cert'' (ca_SecretName (apx_CA proxy)) (ca_SecretKey (apx_CA proxy))
          ''/usr/share/ssl/auth/ca.crt'',
        gfile ''graylog-auth-proxy-client-cert'' (cert_SecretName (apx_Cert proxy)) (cert_SecretKey (apx_Cert proxy))
          ''/usr/share/ssl/auth/tls.crt'',
        gfile ''graylog-auth-proxy-private-key'' (key_SecretName (apx_Key proxy)) (key_SecretKey (apx_Key proxy))
          ''/usr/share/ssl/auth/tls.key'']"

definition readOnlyMount :: "string \<Rightarrow> string \<Rightarrow> string \<Rightarrow> volume_mount" where
  "readOnlyMount nm path subPath = VolumeMount nm path subPath True"

definition graylog_secretVolume :: "string \<Rightarrow> string \<Rightarrow> volume" where
  "graylog_secretVolume nm secret = \<lparr>vol_Name = nm, vol_Source = SecretSource secret [] (Some 420)\<rparr>"

definition fileMounts :: "graylog_secretFile list \<Rightarrow> volume_mount list" where
  "fileMounts files = map (\<lambda>f. readOnlyMount (gsf_volume f) (gsf_path f) (gsf_key f)) files"

definition fileVolumes :: "graylog_secretFile list \<Rightarrow> volume list" where
  "fileVolumes files = map (\<lambda>f. graylog_secretVolume (gsf_volume f) (gsf_secret f)) files"

section \<open>Volumes and mounts\<close>

definition pvcVolume :: "string \<Rightarrow> string \<Rightarrow> volume" where
  "pvcVolume nm claim = \<lparr>vol_Name = nm, vol_Source = PVCSource claim\<rparr>"

definition graylog_emptyDirVolume :: "string \<Rightarrow> quantity \<Rightarrow> volume" where
  "graylog_emptyDirVolume nm sz = \<lparr>vol_Name = nm, vol_Source = EmptyDirSource [] (Some sz)\<rparr>"

definition configFileVolume :: "string \<Rightarrow> string \<Rightarrow> string \<Rightarrow> int \<Rightarrow> volume" where
  "configFileVolume nm configMap key mode =
     \<lparr>vol_Name = nm, vol_Source = ConfigMapSource configMap [\<lparr>kp_Key = key, kp_Path = key\<rparr>] (Some mode)\<rparr>"

definition graylogVolumeMounts :: "graylog \<Rightarrow> volume_mount list" where
  "graylogVolumeMounts spec =
     [VolumeMount ''graylog-credentials-files'' secretFilesPath [] True,
      VolumeMount ''data'' dataPath [] False,
      VolumeMount ''plugins'' ''/usr/share/graylog/plugin'' [] False,
      VolumeMount ''plugins-merged'' ''/usr/share/graylog/plugins-merged'' [] False,
      VolumeMount ''logsconf'' (dataPath @ ''/config/log4j2.xml'') ''log4j2.xml'' False,
      VolumeMount ''graylogconf'' (dataPath @ ''/config/graylog.conf'') ''graylog.conf'' False,
      VolumeMount ''nodeid'' (dataPath @ ''/config/node-id'') ''node-id'' False,
      VolumeMount ''tmp'' ''/tmp'' [] False]
   @ (case gl_TLS spec of None \<Rightarrow> []
      | Some tls \<Rightarrow>
          (case glt_HTTP tls of None \<Rightarrow> []
           | Some http \<Rightarrow> fileMounts (httpFiles http (sslPath @ ''/cacerts/cert-manager-ca.crt''))
               @ (if hgt_CACerts http \<noteq> [] then [VolumeMount caCertsVolume (sslPath @ ''/cacerts'') [] True] else []))
        @ fileMounts (inputFiles (glt_Input tls)))"

definition graylog_volumes :: "graylog \<Rightarrow> GraylogDefaults \<Rightarrow> volume list" where
  "graylog_volumes spec def =
     [pvcVolume ''data'' GraylogClaimName,
      graylog_emptyDirVolume ''plugins'' (gld_EmptyDirSize def),
      graylog_emptyDirVolume ''plugins-merged'' (gld_EmptyDirSize def),
      pvcVolume ''mongodb'' MongoClaimName,
      configFileVolume ''logsconf'' graylog_serviceName ''log4j2.xml'' 292,
      configFileVolume ''graylogconf'' graylog_serviceName ''graylog.conf'' 292,
      configFileVolume ''nodeid'' graylog_serviceName ''node-id'' 438,
      graylog_emptyDirVolume ''tmp'' (gld_EmptyDirSize def),
      \<lparr>vol_Name = ''graylog-credentials-files'',
       vol_Source = SecretSource (gl_GraylogSecretName spec)
         [\<lparr>kp_Key = ''elasticsearchHost'', kp_Path = ''elasticsearchHost''\<rparr>,
          \<lparr>kp_Key = ''user'', kp_Path = ''user''\<rparr>,
          \<lparr>kp_Key = ''rootPasswordSha2'', kp_Path = ''rootPasswordSha2''\<rparr>] (Some 288)\<rparr>]
   @ (case gl_AuthProxy spec of None \<Rightarrow> []
      | Some proxy \<Rightarrow>
          if apx_Install proxy then
            (let bindPasswordSecret = (case apx_BindPasswordSecret proxy of None \<Rightarrow> [] | Some s \<Rightarrow> sks_Name s)
             in [configFileVolume authProxyConfigVolume authProxyConfigVolume ''config.yaml'' 292,
                 graylog_secretVolume ''graylog-auth-proxy-htpasswd'' bindPasswordSecret]
                @ fileVolumes (authProxyFiles proxy))
          else [])
   @ (case gl_TLS spec of None \<Rightarrow> []
      | Some tls \<Rightarrow>
          (case glt_HTTP tls of None \<Rightarrow> []
           | Some http \<Rightarrow> fileVolumes (httpFiles http [])
               @ (if hgt_CACerts http \<noteq> [] then [graylog_secretVolume caCertsVolume (hgt_CACerts http)] else []))
        @ fileVolumes (inputFiles (glt_Input tls)))"

section \<open>Scripts\<close>

definition printf_braces :: string where
  "printf_braces = ''printf '' @ [CHR 0x27] @ ''{}'' @ [CHR 0x5C, CHR ''n'', CHR 0x27] @ '' > ''"

definition setupScript :: "bool \<Rightarrow> bool \<Rightarrow> string" where
  "setupScript openshift tls =
     ''chown -R 1001:1001 /data/db'' @ nl @ ''chmod -R u=rwX,g=rwX,o= /data/db'' @ nl @ nl
   @ (if openshift then
        ''chmod -R 0777 '' @ dataPath @ ''/'' @ nl
      @ chownGraylog @ dataPath @ nl
      @ graylog_mkdir @ archivesPath @ nl
      @ chownGraylog @ archivesPath @ nl
      @ graylog_mkdir @ dataPath @ ''/config'' @ nl
      @ ''touch '' @ directoriesFile @ nl
      @ ''chmod 0666 '' @ directoriesFile @ nl
      @ ''chown 1100:1100 '' @ directoriesFile @ nl
      @ printf_braces @ directoriesFile @ nl
      @ (if tls then
           nl @ graylog_mkdir @ sslPath @ nl
         @ ''chmod -R 0777 '' @ sslPath @ nl
         @ chownGraylog @ sslPath @ nl
         else [])
      else
        graylog_mkdir @ archivesPath @ nl
      @ graylog_mkdir @ dataPath @ ''/config'' @ nl
      @ ''touch '' @ directoriesFile @ nl
      @ (if tls then nl @ graylog_mkdir @ sslPath @ nl else [])
      @ nl @ chownGraylog @ dataPath @ nl
      @ ''chmod -R u=rwX,g=rwX,o= '' @ dataPath @ nl
      @ ''chmod 0660 '' @ directoriesFile @ nl
      @ printf_braces @ directoriesFile @ nl)"

definition graylog_keytool :: string where
  "graylog_keytool = ''keytool -importcert -keystore '' @ sslPath @ ''/cacerts.jks -storepass changeit''"

definition graylogScript :: "graylog \<Rightarrow> string" where
  "graylogScript spec =
     ''if [ -f /tmp/kafka-logs/.lock ] ; then'' @ nl @ ''    rm /tmp/kafka-logs/.lock'' @ nl @ ''fi'' @ nl @ nl
   @ (case gl_TLS spec of None \<Rightarrow> []
      | Some tls \<Rightarrow> (case glt_HTTP tls of None \<Rightarrow> []
         | Some http \<Rightarrow>
             if hgt_Enabled http then
               ''cp -a \"/opt/java/openjdk/lib/security/cacerts\" \"'' @ sslPath @ ''/cacerts.jks\"'' @ nl
             @ graylog_keytool @ '' -alias graylog-tls-ca -file '' @ sslPath @ ''/http/tls.crt -noprompt'' @ nl
             @ (if generateCerts (hgt_GenerateCerts http) then
                  nl @ graylog_keytool @ '' -alias graylog-tls-ca-cert-manager -file '' @ sslPath
                @ ''/cacerts/cert-manager-ca.crt -noprompt'' @ nl else [])
             @ nl
             @ (if hgt_CACerts http \<noteq> [] then
                  nl @ ''for FILE in '' @ sslPath @ ''/cacerts/*; do '' @ graylog_keytool
                @ '' -alias \"$FILE\" -file \"$FILE\" -noprompt; done'' @ nl else [])
             @ nl @ nl
             else []))
   @ ''/docker-entrypoint.sh'' @ nl"

section \<open>Containers\<close>

definition restrictedSecurityContext :: "int \<Rightarrow> security_context" where
  "restrictedSecurityContext uid = zero_security_context\<lparr>
     sc_AllowPrivilegeEscalation := Some False,
     sc_ReadOnlyRootFilesystem := Some True,
     sc_RunAsNonRoot := Some True,
     sc_Capabilities := Some \<lparr>cap_Add = [], cap_Drop = [''ALL'']\<rparr>,
     sc_RunAsUser := Some uid,
     sc_RunAsGroup := Some uid\<rparr>"

definition graylog_secretEnv :: "string \<Rightarrow> string \<Rightarrow> string \<Rightarrow> env_var" where
  "graylog_secretEnv nm secret key = EnvVarFrom nm (SecretKeyRef \<lparr>sks_Name = secret, sks_Key = key\<rparr>)"

definition initContainers :: "logging_service \<Rightarrow> GraylogDefaults \<Rightarrow> container list" where
  "initContainers cr def =
     (let spec = the (spec_Graylog (ls_Spec cr));
          resources = builder_Resources (gl_InitResources spec) (gld_InitResources def)
      in [NewContainer ''setup'' (zero_ContainerOpts\<lparr>
            cno_Image := gl_InitSetupImage spec,
            cno_ImagePullPolicy := ''IfNotPresent'',
            cno_VolumeMounts := [VolumeMount ''data'' dataPath [] False, VolumeMount ''mongodb'' ''/data/db'' [] False],
            cno_Command := [''/bin/sh'', ''-c'', setupScript (spec_OpenshiftDeploy (ls_Spec cr)) (httpTLSEnabled spec)],
            cno_SecurityContext := Some (zero_security_context\<lparr>sc_RunAsNonRoot := Some False\<rparr>),
            cno_Resources := resources\<rparr>)]
       @ (if gl_InitContainerDockerImage spec \<noteq> [] then
            [NewContainer ''download-plugins'' (zero_ContainerOpts\<lparr>
               cno_Image := gl_InitContainerDockerImage spec,
               cno_ImagePullPolicy := ''IfNotPresent'',
               cno_VolumeMounts := [VolumeMount ''plugins'' ''/usr/share/graylog/plugin'' [] False],
               cno_Env := [EnvVar ''CUSTOM_PLUGINS'' (gl_CustomPluginsPaths spec), EnvVar ''GRAYLOG_VERSION'' ''5''],
               cno_SecurityContext := Some (zero_security_context\<lparr>sc_RunAsNonRoot := Some True,
                 sc_RunAsUser := Some sidecarUser\<rparr>),
               cno_Resources := resources\<rparr>)]
          else []))"

definition mongoContainer :: "graylog \<Rightarrow> GraylogDefaults \<Rightarrow> container" where
  "mongoContainer spec def = NewContainer ''mongo'' (zero_ContainerOpts\<lparr>
     cno_Image := gl_MongoDBImage spec,
     cno_ImagePullPolicy := ''IfNotPresent'',
     cno_Command := [''/bin/sh'', ''-c'', ''mongod --wiredTigerEngineConfigString=\"cache_size=512M\"'' @ nl],
     cno_VolumeMounts := [VolumeMount ''mongodb'' ''/data/db'' [] False, VolumeMount ''tmp'' ''/tmp'' [] False],
     cno_Ports := [ContainerPort ''mongo'' graylog_mongoPort ''TCP''],
     cno_Resources := builder_Resources (gl_MongoResources spec) (gld_MongoResources def),
     cno_SecurityContext := Some (restrictedSecurityContext sidecarUser)\<rparr>)"

definition graylog_env :: "graylog \<Rightarrow> GraylogDefaults \<Rightarrow> env_var list" where
  "graylog_env spec def =
     (let javaOpts = First [] (gl_JavaOpts spec) (gld_JavaOpts def);
          javaOpts = (if httpTLSEnabled spec then javaOpts @ nl @ trustStoreOption else javaOpts)
      in [EnvVar ''GRAYLOG_SERVER_JAVA_OPTS'' javaOpts,
          EnvVar ''GRAYLOG_ELASTICSEARCH_HOSTS__FILE'' (secretFilesPath @ ''/elasticsearchHost''),
          EnvVar ''GRAYLOG_ROOT_USERNAME__FILE'' (secretFilesPath @ ''/user''),
          EnvVar ''GRAYLOG_ROOT_PASSWORD_SHA2__FILE'' (secretFilesPath @ ''/rootPasswordSha2''),
          EnvVar ''GRAYLOG_SNAPSHOT_DIRECTORY'' (gl_PathRepo spec)]
       @ (if gl_S3Archive spec then
            [graylog_secretEnv ''AWS_ACCESS_KEY_ID'' (gl_GraylogSecretName spec) ''awsAccessKey'',
             graylog_secretEnv ''AWS_SECRET_ACCESS_KEY'' (gl_GraylogSecretName spec) ''awsSecretKey'']
          else []))"

definition graylogContainer :: "graylog \<Rightarrow> GraylogDefaults \<Rightarrow> container" where
  "graylogContainer spec def =
     (let scheme = (if httpTLSEnabled spec then ''HTTPS'' else ''HTTP'');
          health = \<lparr>pr_Path = ''/'', pr_Port = graylog_httpPort, pr_Scheme = scheme,
            pr_InitialDelaySeconds = 120, pr_TimeoutSeconds = 5, pr_PeriodSeconds = 30,
            pr_SuccessThreshold = 1, pr_FailureThreshold = 3\<rparr>;
          inputPort = int32_of (gl_InputPort spec);
          securityContext = (restrictedSecurityContext graylogUser)\<lparr>
            sc_Capabilities := Some \<lparr>cap_Add = [''NET_BIND_SERVICE''], cap_Drop = [''ALL'']\<rparr>\<rparr>
      in NewContainer ''graylog'' (zero_ContainerOpts\<lparr>
           cno_Image := gl_DockerImage spec,
           cno_ImagePullPolicy := ''IfNotPresent'',
           cno_Command := [''/bin/sh'', ''-c'', graylogScript spec],
           cno_Env := graylog_env spec def,
           cno_LivenessProbe := Some health,
           cno_ReadinessProbe := Some health,
           cno_VolumeMounts := graylogVolumeMounts spec,
           cno_Ports := [ContainerPort ''graylog'' graylog_httpPort ''TCP'',
             ContainerPort ''graylog-udp'' graylog_udpPort ''UDP'',
             ContainerPort (''graylog-'' @ go_Itoa inputPort) inputPort ''TCP'',
             ContainerPort ''graylog-metrics'' graylog_metricsPort ''TCP''],
           cno_Resources := builder_Resources (gl_GraylogResources spec) (gld_GraylogResources def),
           cno_SecurityContext := Some securityContext\<rparr>))"

definition authProxyContainer :: "graylog \<Rightarrow> auth_proxy \<Rightarrow> GraylogDefaults \<Rightarrow> container" where
  "authProxyContainer spec proxy def =
     (let htpasswdKey = (case apx_BindPasswordSecret proxy of None \<Rightarrow> [] | Some s \<Rightarrow> sks_Key s);
          mounts = [VolumeMount authProxyConfigVolume ''/usr/src/app/config.yaml'' ''config.yaml'' True,
              VolumeMount ''graylog-auth-proxy-htpasswd'' ''/usr/src/app/.htpasswd'' htpasswdKey True,
              VolumeMount ''tmp'' ''/tmp'' [] False]
            @ (case gl_TLS spec of None \<Rightarrow> []
               | Some tls \<Rightarrow> (case glt_HTTP tls of None \<Rightarrow> []
                   | Some http \<Rightarrow> fileMounts (httpFiles http (sslPath @ ''/http/ca.crt''))
                       @ (if hgt_CACerts http \<noteq> [] then [readOnlyMount caCertsVolume (sslPath @ ''/http/ca.crt'') ''ca.crt''] else [])))
            @ fileMounts (authProxyFiles proxy)
      in NewContainer authProxyName (zero_ContainerOpts\<lparr>
           cno_Image := apx_Image proxy,
           cno_ImagePullPolicy := ''IfNotPresent'',
           cno_Command := [''/bin/sh'', ''-c'', ''python /usr/src/app/graylog_auth_proxy.py --config \"./config.yaml\"'' @ nl],
           cno_Env := [EnvVar ''PYTHONDONTWRITEBYTECODE'' ''1''],
           cno_VolumeMounts := mounts,
           cno_Ports := [ContainerPort ''proxy'' authProxyPort ''TCP'', ContainerPort ''metrics'' authProxyMetrics ''TCP''],
           cno_Resources := builder_Resources (apx_Resources proxy) (gld_AuthProxyResources def),
           cno_SecurityContext := Some (restrictedSecurityContext sidecarUser)\<rparr>))"

section \<open>Objects\<close>

definition graylog_podSpec :: "logging_service \<Rightarrow> GraylogDefaults \<Rightarrow> pod_spec" where
  "graylog_podSpec cr def =
     (let spec = the (spec_Graylog (ls_Spec cr));
          containers = [mongoContainer spec def, graylogContainer spec def]
            @ (case gl_AuthProxy spec of None \<Rightarrow> []
               | Some proxy \<Rightarrow> if apx_Install proxy then [authProxyContainer spec proxy def] else [])
      in set_priority_class (gl_PriorityClassName spec) (zero_pod_spec\<lparr>
           ps_Volumes := graylog_volumes spec def,
           ps_ServiceAccountName := graylog_serviceAccountName,
           ps_NodeSelector := NodeSelector (gl_NodeSelectorKey spec) (gl_NodeSelectorValue spec),
           ps_InitContainers := initContainers cr def,
           ps_SecurityContext := Some (zero_pod_security_context\<lparr>
             psc_RunAsNonRoot := Some True,
             psc_FSGroup := Some sidecarUser,
             psc_FSGroupChangePolicy := Some ''OnRootMismatch'',
             psc_SeccompProfile := Some ''RuntimeDefault''\<rparr>),
           ps_Containers := containers,
           ps_Affinity := gl_Affinity spec\<rparr>))"

definition graylog_labelInput :: "logging_service \<Rightarrow> LabelInput" where
  "graylog_labelInput cr =
     (let spec = the (spec_Graylog (ls_Spec cr))
      in \<lparr>li_Name = graylog_statefulSetName,
          li_Component = graylog_component,
          li_Instance = GetInstanceLabel graylog_statefulSetName (om_Namespace (ls_ObjectMeta cr)),
          li_Version = GetTagFromImage (gl_DockerImage spec),
          li_Technology = graylog_technology,
          li_ComponentLabels = gl_Labels spec\<rparr>)"

definition graylog_StatefulSet :: "logging_service \<Rightarrow> Defaults \<Rightarrow> statefulset" where
  "graylog_StatefulSet cr cfg =
     (let spec = the (spec_Graylog (ls_Spec cr));
          def = df_Graylog cfg;
          replicas = (case gl_Replicas spec of None \<Rightarrow> gld_Replicas def | Some n \<Rightarrow> int32_of n);
          statefulSet = NewStatefulSet graylog_statefulSetName (om_Namespace (ls_ObjectMeta cr)) \<lparr>
            sso_Replicas = Some replicas,
            sso_ServiceName = [],
            sso_Selector = graylog_selector,
            sso_PodManagementPolicy = [],
            sso_UpdateStrategy = zero_update_strategy,
            sso_PodSpec = graylog_podSpec cr def,
            sso_PodLabels = None,
            sso_PodAnnotations = gl_Annotations spec,
            sso_VolumeClaimTemplates = [],
            sso_Labels = None,
            sso_Annotations = gl_Annotations spec\<rparr>
      in SetLabelsForStatefulSet statefulSet (graylog_labelInput cr))"

definition graylog_servicePort :: "string \<Rightarrow> int \<Rightarrow> int \<Rightarrow> string \<Rightarrow> service_port" where
  "graylog_servicePort nm port targetPort protocol =
     \<lparr>sp_Name = nm, sp_Port = port, sp_Protocol = protocol, sp_TargetPort = targetPort\<rparr>"

definition graylog_Service :: "logging_service \<Rightarrow> Defaults \<Rightarrow> service" where
  "graylog_Service cr cfg =
     (let spec = the (spec_Graylog (ls_Spec cr));
          inputPort = int32_of (gl_InputPort spec);
          ports = (if authProxyInstalled spec then
                [graylog_servicePort ''graylog'' graylog_httpPort authProxyPort ''TCP'',
                 graylog_servicePort ''metrics'' authProxyMetrics authProxyMetrics ''TCP'']
              else [graylog_servicePort ''graylog'' graylog_httpPort graylog_httpPort ''TCP''])
            @ [graylog_servicePort ''graylog-udp'' graylog_udpPort graylog_udpPort ''UDP'',
               graylog_servicePort (''graylog-'' @ go_Itoa inputPort) inputPort inputPort ''TCP'',
               graylog_servicePort ''graylog-metrics'' graylog_metricsPort graylog_metricsPort ''TCP''];
          service = NewService graylog_serviceName (om_Namespace (ls_ObjectMeta cr)) (zero_ServiceOpts\<lparr>
            svo_Selector := graylog_selector, svo_Ports := ports\<rparr>)
      in service\<lparr>sv_Meta := SetLabelsForResource (sv_Meta service) \<lparr>li_Name = graylog_serviceName,
            li_Component = graylog_component, li_Instance = [], li_Version = [], li_Technology = [],
            li_ComponentLabels = gl_Labels spec\<rparr> None\<rparr>)"

definition graylog_ServiceAccount :: "logging_service \<Rightarrow> Defaults \<Rightarrow> service_account" where
  "graylog_ServiceAccount cr cfg =
     (let serviceAccount = NewServiceAccount graylog_serviceAccountName (om_Namespace (ls_ObjectMeta cr))
      in serviceAccount\<lparr>sa_Meta := SetLabelsForResource (sa_Meta serviceAccount)
           \<lparr>li_Name = graylog_serviceAccountName, li_Component = graylog_component, li_Instance = [],
            li_Version = [], li_Technology = [],
            li_ComponentLabels = gl_Labels (the (spec_Graylog (ls_Spec cr)))\<rparr> None\<rparr>)"

section \<open>The contract\<close>

lemma fileMounts_names [simp]: "map vm_Name (fileMounts fs) = map gsf_volume fs"
  by (simp add: fileMounts_def readOnlyMount_def comp_def)

lemma fileVolumes_names [simp]: "map vol_Name (fileVolumes fs) = map gsf_volume fs"
  by (simp add: fileVolumes_def graylog_secretVolume_def comp_def)

text \<open>The CA path decides where the files are mounted, not from which volumes.\<close>

lemma httpFiles_volumes: "p \<noteq> [] \<Longrightarrow> map gsf_volume (httpFiles http p) = map gsf_volume (httpFiles http [])"
  by (simp add: httpFiles_def gfile_def split: option.split)

definition base_volume_names :: "string list" where
  "base_volume_names = [''data'', ''plugins'', ''plugins-merged'', ''mongodb'', ''logsconf'', ''graylogconf'',
     ''nodeid'', ''tmp'', ''graylog-credentials-files'']"

definition http_volume_names :: "graylog \<Rightarrow> string list" where
  "http_volume_names spec = (case gl_TLS spec of None \<Rightarrow> []
     | Some tls \<Rightarrow> (case glt_HTTP tls of None \<Rightarrow> []
         | Some http \<Rightarrow> map gsf_volume (httpFiles http []) @ (if hgt_CACerts http \<noteq> [] then [caCertsVolume] else [])))"

definition input_volume_names :: "graylog \<Rightarrow> string list" where
  "input_volume_names spec =
     (case gl_TLS spec of None \<Rightarrow> [] | Some tls \<Rightarrow> map gsf_volume (inputFiles (glt_Input tls)))"

definition proxy_volume_names :: "graylog \<Rightarrow> string list" where
  "proxy_volume_names spec = (case gl_AuthProxy spec of None \<Rightarrow> [] | Some proxy \<Rightarrow> if apx_Install proxy
     then [authProxyConfigVolume, ''graylog-auth-proxy-htpasswd''] @ map gsf_volume (authProxyFiles proxy) else [])"

lemma graylog_volumes_names:
  "map vol_Name (graylog_volumes spec def) =
     base_volume_names @ proxy_volume_names spec @ http_volume_names spec @ input_volume_names spec"
  by (simp add: graylog_volumes_def base_volume_names_def proxy_volume_names_def http_volume_names_def
      input_volume_names_def pvcVolume_def graylog_emptyDirVolume_def configFileVolume_def graylog_secretVolume_def
      Let_def split: option.split)

lemma graylogVolumeMounts_names:
  "map vm_Name (graylogVolumeMounts spec) =
     [''graylog-credentials-files'', ''data'', ''plugins'', ''plugins-merged'', ''logsconf'', ''graylogconf'', ''nodeid'', ''tmp'']
     @ http_volume_names spec @ input_volume_names spec"
  by (simp add: graylogVolumeMounts_def http_volume_names_def input_volume_names_def httpFiles_volumes split: option.split)

lemma authProxyContainer_names:
  "map vm_Name (co_VolumeMounts (authProxyContainer spec proxy def)) =
     [authProxyConfigVolume, ''graylog-auth-proxy-htpasswd'', ''tmp''] @ http_volume_names spec
     @ map gsf_volume (authProxyFiles proxy)"
  by (simp add: authProxyContainer_def NewContainer_def Let_def readOnlyMount_def http_volume_names_def
      httpFiles_volumes split: option.split)

lemma initContainers_names:
  "concat (map (map vm_Name \<circ> co_VolumeMounts) (initContainers cr def)) = [''data'', ''mongodb'']
     @ (if gl_InitContainerDockerImage (the (spec_Graylog (ls_Spec cr))) \<noteq> [] then [''plugins''] else [])"
  by (simp add: initContainers_def NewContainer_def Let_def)

lemma mongoContainer_names: "map vm_Name (co_VolumeMounts (mongoContainer spec def)) = [''mongodb'', ''tmp'']"
  by (simp add: mongoContainer_def NewContainer_def)

lemma graylogContainer_mounts: "co_VolumeMounts (graylogContainer spec def) = graylogVolumeMounts spec"
  by (simp add: graylogContainer_def NewContainer_def Let_def)

lemma graylog_mount_names:
  assumes "spec_Graylog (ls_Spec cr) = Some spec"
  shows "mount_names (graylog_podSpec cr def) =
      concat (map (map vm_Name \<circ> co_VolumeMounts) (initContainers cr def))
      @ map vm_Name (co_VolumeMounts (mongoContainer spec def)) @ map vm_Name (graylogVolumeMounts spec)
      @ (case gl_AuthProxy spec of None \<Rightarrow> [] | Some proxy \<Rightarrow>
          if apx_Install proxy then map vm_Name (co_VolumeMounts (authProxyContainer spec proxy def)) else [])"
  by (simp add: mount_names_def graylog_podSpec_def Let_def assms graylogContainer_mounts split: option.split)

lemma graylog_podSpec_mounts:
  assumes "spec_Graylog (ls_Spec cr) = Some spec"
  shows "set (mount_names (graylog_podSpec cr def)) \<subseteq> set (volume_names (graylog_podSpec cr def))"
proof -
  have v: "volume_names (graylog_podSpec cr def) =
      base_volume_names @ proxy_volume_names spec @ http_volume_names spec @ input_volume_names spec"
    by (simp add: volume_names_def graylog_podSpec_def Let_def assms graylog_volumes_names)
  have proxy: "set (case gl_AuthProxy spec of None \<Rightarrow> [] | Some proxy \<Rightarrow>
      if apx_Install proxy then map vm_Name (co_VolumeMounts (authProxyContainer spec proxy def)) else [])
      \<subseteq> set base_volume_names \<union> set (proxy_volume_names spec) \<union> set (http_volume_names spec)"
    by (cases "gl_AuthProxy spec") (auto simp only: option.case proxy_volume_names_def authProxyContainer_names
        base_volume_names_def set_append set_simps if_True if_False split: if_splits)
  have base: "set [''data'', ''mongodb'', ''plugins''] \<subseteq> set base_volume_names"
    "set [''graylog-credentials-files'', ''data'', ''plugins'', ''plugins-merged'', ''logsconf'', ''graylogconf'', ''nodeid'', ''tmp'']
      \<subseteq> set base_volume_names" "set [''mongodb'', ''tmp''] \<subseteq> set base_volume_names"
    by (simp_all add: base_volume_names_def)
  have init: "set (concat (map (map vm_Name \<circ> co_VolumeMounts) (initContainers cr def))) \<subseteq> set base_volume_names"
    unfolding initContainers_names using base(1) by auto
  show ?thesis
    unfolding v graylog_mount_names [OF assms] graylogVolumeMounts_names mongoContainer_names set_append
    using proxy base init by blast
qed

lemma graylog_StatefulSet_sel:
  "ss_Meta (graylog_StatefulSet cr cfg) = SetLabelsForResource
     (objectMeta graylog_statefulSetName (om_Namespace (ls_ObjectMeta cr)) None
       (gl_Annotations (the (spec_Graylog (ls_Spec cr))))) (graylog_labelInput cr) None"
  "sss_Selector (ss_Spec (graylog_StatefulSet cr cfg)) = graylog_selector"
  "sss_VolumeClaimTemplates (ss_Spec (graylog_StatefulSet cr cfg)) = []"
  "pt_Labels (sss_Template (ss_Spec (graylog_StatefulSet cr cfg))) = templateLabels (graylog_labelInput cr) None"
  "pt_Spec (sss_Template (ss_Spec (graylog_StatefulSet cr cfg))) = graylog_podSpec cr (df_Graylog cfg)"
  by (simp_all add: graylog_StatefulSet_def Let_def SetLabelsForStatefulSet_def SetLabelsForWorkload_def
      NewStatefulSet_def podTemplate_def)

interpretation graylog_workload: workload_contract
  "\<lambda>cr. statefulset_workload (graylog_StatefulSet cr cfg)"
  "\<lambda>cr. spec_Graylog (ls_Spec cr) \<noteq> None"
  "\<lambda>_. graylog_statefulSetName"
  "\<lambda>cr. om_Namespace (ls_ObjectMeta cr)"
  "\<lambda>_. {}"
  for cfg
proof (unfold_locales, goal_cases)
  case (3 cr)
  show ?case
    unfolding workload_sel graylog_StatefulSet_sel
    by (intro matches_templateLabels) (auto simp: graylog_selector_def graylog_labelInput_def Let_def split: if_splits)
next
  case (5 cr)
  then obtain spec where "spec_Graylog (ls_Spec cr) = Some spec" by auto
  from graylog_podSpec_mounts [OF this, of "df_Graylog cfg"] show ?case
    by (simp add: mounts_declared_def graylog_StatefulSet_sel)
qed (simp_all add: graylog_StatefulSet_sel graylog_labelInput_def Let_def)

end
