(* ===== verification/Workload_Properties.thy ===== *)
theory Workload_Properties
  imports Fluentd_Builder Fluentbit_Builder EventsReader_Builder HA_Builder Graylog_Builder
begin

text \<open>
  The properties of the label helpers and of the objects the builders produce: labels, selectors,
  Services, mounts, security contexts, storage and replicas. The sample resources at the start are
  the concrete inputs of the witnesses.
\<close>

section \<open>Sample resources\<close>

definition sample_fluentd_cr :: logging_service where
  "sample_fluentd_cr = zero_logging_service\<lparr>ls_Spec := zero_logging_service_spec\<lparr>spec_Fluentd := Some zero_fluentd\<rparr>\<rparr>"

definition sample_fluentbit_cr :: logging_service where
  "sample_fluentbit_cr = zero_logging_service\<lparr>ls_Spec := zero_logging_service_spec\<lparr>spec_Fluentbit := Some zero_fluentbit\<rparr>\<rparr>"

definition sample_events_cr :: logging_service where
  "sample_events_cr = zero_logging_service\<lparr>ls_Spec := zero_logging_service_spec\<lparr>
     spec_CloudEventsReader := Some zero_cloud_events_reader\<rparr>\<rparr>"


definition sample_ha_cr :: logging_service where
  "sample_ha_cr = zero_logging_service\<lparr>ls_Spec := zero_logging_service_spec\<lparr>
     spec_Fluentbit := Some (zero_fluentbit\<lparr>fb_Aggregator := Some (zero_fluentbit_aggregator\<lparr>ag_Install := True\<rparr>)\<rparr>)\<rparr>\<rparr>"

text \<open>A parser that accepts every quantity but the empty one.\<close>

definition sample_ParseQuantity :: "string \<Rightarrow> go_error + quantity" where
  "sample_ParseQuantity s = (if s = [] then Inl (errors_New ''empty quantity'') else Inr (Quantity s))"

section \<open>Labels\<close>

text \<open>The label value \<open>GetInstanceLabel\<close> gives every workload fits the 63 characters
  of a Kubernetes label, and neither starts nor ends with a dash, for every name and namespace.\<close>

lemma instance_label_valid:
  "length (GetInstanceLabel nm ns) \<le> 63
   \<and> (GetInstanceLabel nm ns = [] \<or> hd (GetInstanceLabel nm ns) \<noteq> CHR ''-'' \<and> last (GetInstanceLabel nm ns) \<noteq> CHR ''-'')"
  using TruncLabel_length TruncLabel_ends unfolding GetInstanceLabel_def by blast

text \<open>C37: the labels of a workload are layered. On the object the user's component labels win over
  the operator's; on the pod template the user's labels do not appear at all, every label the operator
  does not write itself is kept, and the operator's name labels win, so the selectors keep matching
  whatever the user writes into the custom resource.\<close>

theorem workload_labels_layered:
  fixes m tpl i
  defines "r \<equiv> SetLabelsForWorkload m tpl i"
  shows "mcontents (om_Labels (fst r)) = mcontents (templateLabels i (om_Labels m)) ++ mcontents (li_ComponentLabels i)
    \<and> snd (SetLabelsForWorkload m tpl (i\<lparr>li_ComponentLabels := user\<rparr>)) = snd r
    \<and> (k \<in> set operator_label_keys \<or> mcontents (pt_Labels (snd r)) k = mcontents (pt_Labels tpl) k)
    \<and> mcontents (pt_Labels (snd r)) ''name'' = Some (li_Name i)
    \<and> mcontents (pt_Labels (snd r)) ''app.kubernetes.io/name'' = Some (li_Name i)"
proof -
  have ivt: "instanceVersionTechnologyMap (i\<lparr>li_ComponentLabels := user\<rparr>) = instanceVersionTechnologyMap i"
    by (simp add: instanceVersionTechnologyMap_def Let_def)
  show ?thesis
    unfolding r_def using templateLabels_foreign [of k i "pt_Labels tpl"]
    by (simp add: SetLabelsForWorkload_def SetLabelsForResource_def Let_def resourceLabels_contents
        templateLabels_def ivt) (auto simp: templateLabels_def [symmetric])
qed

section \<open>Workloads\<close>










text \<open>The field \<open>replicas\<close> of the custom resource is an \<open>int\<close> and is cut to 32 bits. The StatefulSet gets the
  number that was asked for when it fits, the default when it is 0, and in every case a number that
  fits; outside the range the number is silently another one.\<close>

lemma aggregator_replicas_bounds:
  "(ag_Replicas spec = 0 \<longrightarrow> aggregator_replicas spec def = fad_AggregatorReplicas def)
   \<and> (ag_Replicas spec \<noteq> 0 \<longrightarrow> - (2 ^ 31) \<le> aggregator_replicas spec def \<and> aggregator_replicas spec def < 2 ^ 31)
   \<and> (ag_Replicas spec \<noteq> 0 \<longrightarrow> - (2 ^ 31) \<le> ag_Replicas spec \<longrightarrow> ag_Replicas spec < 2 ^ 31 \<longrightarrow>
        aggregator_replicas spec def = ag_Replicas spec)
   \<and> aggregator_replicas (spec\<lparr>ag_Replicas := 2 ^ 32\<rparr>) def = 0"
  using int32_of_bounds int32_of_id by (simp add: aggregator_replicas_def int32_of_def [of 4294967296])

text \<open>Without the privileged mode no collector can gain privileges: the FluentD, Fluent Bit and
  forwarder containers drop all capabilities, add back at most \<open>DAC_OVERRIDE\<close>, forbid privilege escalation
  and keep the root file system read-only.\<close>

lemma unprivileged_collectors:
  assumes "sc \<in> {fluentd_securityContext False, collectorSecurityContext False, forwarderSecurityContext False}"
  shows "sc_Privileged sc = Some False \<and> sc_AllowPrivilegeEscalation sc = Some False
    \<and> sc_ReadOnlyRootFilesystem sc = Some True
    \<and> (\<exists>caps. sc_Capabilities sc = Some caps \<and> cap_Drop caps = [''ALL''] \<and> set (cap_Add caps) \<subseteq> {''DAC_OVERRIDE''})"
  using assms
  by (auto simp: fluentd_securityContext_def collectorSecurityContext_def forwarderSecurityContext_def zero_security_context_def)

end
