(* ===== verification/Component_Properties.thy ===== *)
theory Component_Properties
  imports Component_Runs Cluster_Properties Workload_Properties
begin

text \<open>
  The properties of the component reconcilers: what a run may touch, and what it has achieved when it
  returns. The contract locale is used through its sublocales of \<open>operator_client\<close>.
\<close>

section \<open>Containment\<close>

text \<open>A run from a state keeps the conditions of other reasons, the objects outside a set of keys and
  the components already pending; it may queue its own entry.\<close>

definition contained_run :: "('w \<Rightarrow> obj_key \<Rightarrow> object option) \<Rightarrow> ('w opstate, unit) eff \<Rightarrow> string \<Rightarrow> component
    \<Rightarrow> (string \<Rightarrow> obj_key set) \<Rightarrow> 'w opstate \<Rightarrow> bool" where
  "contained_run view run status entry keys s \<longleftrightarrow>
     (status_inv (conds s) \<longrightarrow> status_inv (conds (after run s))
        \<and> (\<forall>r. r \<noteq> status \<longrightarrow> lookup_condition r (conds (after run s)) = lookup_condition r (conds s)))
     \<and> (\<forall>k. k \<notin> keys (namespace_of s) \<longrightarrow> view (os_world (after run s)) k = view (os_world s) k)
     \<and> (\<exists>ps. set ps \<subseteq> {entry} \<and> os_pending (after run s) = os_pending s @ ps)"

lemma contract_contained:
  assumes "component_contract run status entry view keys"
  shows "contained_run view run status entry keys s"
  unfolding contained_run_def
  using component_contract.other_statuses_kept [OF assms] component_contract.other_objects_kept [OF assms]
    component_contract.pending_extended [OF assms] by blast

text \<open>C2: the component reconcilers do not interfere. Whatever the cluster answers and wherever a run
  fails, it changes only the status condition, the objects and the pending entry of its own component.\<close>

theorem component_runs_contained:
  assumes "cluster_laws c view" and "patch_law c" and "quiet_laws c view"
  shows "contained_run view (fluentd_Run c assets cfg rt) FluentdStatus fluentd_entry fluentd_keys s
    \<and> contained_run view (fluentbit_Run c assets cfg rt) FluentbitStatus fluentbit_entry fluentbit_keys s
    \<and> contained_run view (ha_Run c assets assets' cfg rt) HAFluentStatus ha_entry ha_keys s
    \<and> contained_run view (eventsreader_Run c cfg) EventsReaderStatus eventsreader_entry eventsreader_keys s"
  by (intro conjI contract_contained fluentd_contract [OF assms] fluentbit_contract [OF assms] ha_contract [OF assms]
      eventsreader_contract [OF assms])

definition sample_assets :: embed_fs where
  "sample_assets = \<lparr>fs_ReadDir = (\<lambda>d. Inr [(''a.conf'', False)]), fs_ReadFile = (\<lambda>f. Inr ''text'')\<rparr>"

definition sample_start :: "logging_service \<Rightarrow> store opstate" where
  "sample_start cr = \<lparr>os_cr = cr, os_pending = [], os_world = sample_world\<rparr>"

theorem component_runs_contained_witness:
  "contained_run store_view (fluentd_Run store_client sample_assets defaults_Get ''containerd'') FluentdStatus fluentd_entry fluentd_keys
     (sample_start sample_fluentd_cr)"
  using component_runs_contained [OF store_client_laws store_patch_law store_quiet_laws] by blast

section \<open>Completeness of a run\<close>

text \<open>The answers of the in-memory client, for the evaluation of the witnesses.\<close>

lemma store_ops:
  "run_state (cl_Create store_client obj) w = (case store_view w (key_of obj) of
        None \<Rightarrow> (Inr (), w\<lparr>st_objects := (st_objects w)(key_of obj \<mapsto> obj)\<rparr>)
      | Some _ \<Rightarrow> (Inl (ApiError AlreadyExists ''already exists''), w))"
  "run_state (cl_Get store_client k ns n) w = (case store_view w (k, ns, n) of
        None \<Rightarrow> (Inl notFound, w) | Some obj \<Rightarrow> (Inr obj, w))"
  "cl_SetControllerReference store_client cr obj = Inr obj" "cl_SchemeSet store_client"
  "run_state (sys_NowText store_client) w = (''now'', w)"
  "run_state (sys_ParseTemplate store_client content path params) w = (Inr content, w)"
  "st_crs w (om_Namespace (ls_ObjectMeta cr), om_Name (ls_ObjectMeta cr)) = None \<Longrightarrow> run_state (cl_PatchStatus store_client cr) w = (Inl notFound, w)"
  by (simp_all add: store_client_def)
lemmas sample_run_defs = start_status_def IsStatusFailed_def GetCondition_def sample_start_def zero_logging_service_def
  zero_logging_service_status_def UpdateStatus_def run_in_world store_ops put_condition_def patch_def run_tryM sample_world_def
  run_logged set_conditions_def zero_logging_service_spec_def run_with_cr DataFromDirectory_def sample_assets_def Let_def
  opaque_secret_def CreateOrUpdateConfigSecret_def CreateResource_def store_view_def key_of_def meta_named_def
  DeleteLegacyConfigMap_def GetResource_def set_runtime_def reconcile_defs createOrUpdate_def setOwner_def NewService_def
  append_pending_def

text \<open>A FluentD run tells the truth. When it queues FluentD as pending, its configuration Secret,
  DaemonSet and Service exist and the ConfigMap of earlier releases does not; when it succeeds without
  queueing, FluentD is not installed and its status condition is gone; when it fails it queues nothing.\<close>

lemma fluentd_run_complete:
  assumes "cluster_laws c view" and "patch_law c"
  shows "case run_state (fluentd_Run c assets cfg rt) s of
     (Inl e, t) \<Rightarrow> os_pending t = os_pending s
   | (Inr u, t) \<Rightarrow> if fluentd_installed (os_cr (after (start_status c FluentdStatus ''Start reconcile of Fluentd'') s))
       then os_pending t = os_pending s @ [fluentd_entry]
         \<and> (\<forall>k \<in> {KSecret, KDaemonSet, KService}. view (os_world t) (k, namespace_of s, FluentdComponentName) \<noteq> None)
         \<and> view (os_world t) (KConfigMap, namespace_of s, FluentdComponentName) = None
       else os_pending t = os_pending s \<and> (status_inv (conds s) \<longrightarrow> lookup_condition FluentdStatus (conds t) = None)"
proof -
  obtain r t where r: "run_state (fluentd_Run c assets cfg rt) s = (r, t)" by fastforce
  show ?thesis
  proof (cases r)
    case (Inl e)
    then show ?thesis
      using r runs_queue_nothing_on_error [OF assms(2)] unfolding error_queues_nothing_def by fastforce
  next
    case (Inr u)
    then show ?thesis using fluentd_Run_done [OF assms] r by simp
  qed
qed

text \<open>A Fluent Bit run tells the truth in the same sense, for Fluent Bit on its own.\<close>

lemma fluentbit_run_complete:
  assumes "cluster_laws c view" and "patch_law c"
  shows "case run_state (fluentbit_Run c assets cfg rt) s of
     (Inl e, t) \<Rightarrow> os_pending t = os_pending s
   | (Inr u, t) \<Rightarrow> if fluentbit_installed (os_cr (after (start_status c FluentbitStatus ''Start reconcile of Fluentbit'') s))
       then os_pending t = os_pending s @ [fluentbit_entry]
         \<and> (\<forall>k \<in> {KSecret, KDaemonSet, KService}. view (os_world t) (k, namespace_of s, FluentbitComponentName) \<noteq> None)
         \<and> view (os_world t) (KConfigMap, namespace_of s, FluentbitComponentName) = None
       else os_pending t = os_pending s \<and> (status_inv (conds s) \<longrightarrow> lookup_condition FluentbitStatus (conds t) = None)"
proof -
  obtain r t where r: "run_state (fluentbit_Run c assets cfg rt) s = (r, t)" by fastforce
  show ?thesis
  proof (cases r)
    case (Inl e)
    then show ?thesis
      using r runs_queue_nothing_on_error [OF assms(2)] unfolding error_queues_nothing_def by fastforce
  next
    case (Inr u)
    then show ?thesis using fluentbit_Run_done [OF assms] r by simp
  qed
qed



text \<open>A run of the Cloud Events Reader tells the truth in the same sense, for its Deployment and Service.\<close>

lemma eventsreader_run_complete:
  assumes "cluster_laws c view" and "patch_law c"
  shows "case run_state (eventsreader_Run c cfg) s of
     (Inl e, t) \<Rightarrow> os_pending t = os_pending s
   | (Inr u, t) \<Rightarrow> if eventsreader_installed (os_cr (after (start_status c EventsReaderStatus ''Start reconcile of Events Reader'') s))
       then os_pending t = os_pending s @ [eventsreader_entry]
         \<and> (\<forall>k \<in> {KDeployment, KService}. view (os_world t) (k, namespace_of s, EventsReaderComponentName) \<noteq> None)
       else os_pending t = os_pending s \<and> (status_inv (conds s) \<longrightarrow> lookup_condition EventsReaderStatus (conds t) = None)"
proof -
  obtain r t where r: "run_state (eventsreader_Run c cfg) s = (r, t)" by fastforce
  show ?thesis
  proof (cases r)
    case (Inl e)
    then show ?thesis
      using r runs_queue_nothing_on_error [OF assms(2)] unfolding error_queues_nothing_def by fastforce
  next
    case (Inr u)
    then show ?thesis using eventsreader_Run_done [OF assms] r by simp
  qed
qed

text \<open>C3: the runs of FluentD, Fluent Bit and the Cloud Events Reader tell the truth. When a run queues its component
  as pending, the objects of the component exist and the ConfigMap of earlier releases does not; when
  it succeeds without queueing, the component is not installed and its status condition is gone; when
  it fails it queues nothing.\<close>

theorem collector_runs_complete:
  assumes "cluster_laws c view" and "patch_law c"
  shows "(case run_state (fluentd_Run c assets cfg rt) s of
     (Inl e, t) \<Rightarrow> os_pending t = os_pending s
   | (Inr u, t) \<Rightarrow> if fluentd_installed (os_cr (after (start_status c FluentdStatus ''Start reconcile of Fluentd'') s))
       then os_pending t = os_pending s @ [fluentd_entry]
         \<and> (\<forall>k \<in> {KSecret, KDaemonSet, KService}. view (os_world t) (k, namespace_of s, FluentdComponentName) \<noteq> None)
         \<and> view (os_world t) (KConfigMap, namespace_of s, FluentdComponentName) = None
       else os_pending t = os_pending s \<and> (status_inv (conds s) \<longrightarrow> lookup_condition FluentdStatus (conds t) = None))
   \<and> (case run_state (fluentbit_Run c assets cfg rt) s of
     (Inl e, t) \<Rightarrow> os_pending t = os_pending s
   | (Inr u, t) \<Rightarrow> if fluentbit_installed (os_cr (after (start_status c FluentbitStatus ''Start reconcile of Fluentbit'') s))
       then os_pending t = os_pending s @ [fluentbit_entry]
         \<and> (\<forall>k \<in> {KSecret, KDaemonSet, KService}. view (os_world t) (k, namespace_of s, FluentbitComponentName) \<noteq> None)
         \<and> view (os_world t) (KConfigMap, namespace_of s, FluentbitComponentName) = None
       else os_pending t = os_pending s \<and> (status_inv (conds s) \<longrightarrow> lookup_condition FluentbitStatus (conds t) = None))
   \<and> (case run_state (eventsreader_Run c cfg) s of
     (Inl e, t) \<Rightarrow> os_pending t = os_pending s
   | (Inr u, t) \<Rightarrow> if eventsreader_installed (os_cr (after (start_status c EventsReaderStatus ''Start reconcile of Events Reader'') s))
       then os_pending t = os_pending s @ [eventsreader_entry]
         \<and> (\<forall>k \<in> {KDeployment, KService}. view (os_world t) (k, namespace_of s, EventsReaderComponentName) \<noteq> None)
       else os_pending t = os_pending s \<and> (status_inv (conds s) \<longrightarrow> lookup_condition EventsReaderStatus (conds t) = None))"
  by (intro conjI fluentd_run_complete [OF assms] fluentbit_run_complete [OF assms] eventsreader_run_complete [OF assms])

theorem collector_runs_complete_witness:
  "store_view (os_world (after (fluentd_Run store_client sample_assets defaults_Get ''containerd'')
     (sample_start sample_fluentd_cr))) (KSecret, [], FluentdComponentName) \<noteq> None
   \<and> store_view (os_world (after (fluentd_Run store_client sample_assets defaults_Get ''containerd'')
     (sample_start sample_fluentd_cr))) (KDaemonSet, [], FluentdComponentName) \<noteq> None
   \<and> store_view (os_world (after (fluentd_Run store_client sample_assets defaults_Get ''containerd'')
     (sample_start sample_fluentd_cr))) (KService, [], FluentdComponentName) \<noteq> None"
proof -
  let ?r = "run_state (fluentd_Run store_client sample_assets defaults_Get ''containerd'') (sample_start sample_fluentd_cr)"
  have "\<not> isl (fst ?r) \<and> os_pending (snd ?r) = [fluentd_entry]"
    by (simp add: fluentd_Run_def sample_run_defs sample_fluentd_cr_def zero_fluentd_def
        fluentd_installed_def fluentd_IsInstall_def fluentd_handleConfigSecret_def fluentd_resolveOutputCredentials_def
        fluentd_note_runtime_def fluentdConfigSecret_def fluentd_handleDaemonSet_def
        fluentd_DaemonSet_sel fluentd_handleService_def fluentd_Service_def fluentd_name_def FluentdComponentName_def)
  moreover have "namespace_of (sample_start sample_fluentd_cr) = []" "os_pending (sample_start sample_fluentd_cr) = []"
    by (simp_all add: sample_start_def sample_fluentd_cr_def zero_logging_service_def meta_named_def)
  ultimately show ?thesis
    using collector_runs_complete [OF store_client_laws store_patch_law, where assets = sample_assets and cfg = defaults_Get and rt = "''containerd''"
      and s = "sample_start sample_fluentd_cr"]
    by (cases ?r; cases "fst ?r") (auto split: if_splits)
qed

end
