(* ===== verification/Graylog_Rest.thy ===== *)
theory Graylog_Rest
  imports Component_Base "HOL-Library.AList"
begin

text \<open>
  The client of the Graylog REST API (\<open>controllers/graylog/utils/connector.go\<close> and \<open>entity.go\<close>, with
  \<open>RestClient\<close> of \<open>utils/files.go\<close>): the connector, its requests, the lookup of entities by title, and the choice
  of the streams to set up. The HTTP exchange, URLs and JSON are operations of the client record. A
  request that does not get an answer is an error; where the code goes on and looks at the status code
  it finds -1, which is what \<open>answered\<close> gives.
\<close>

section \<open>Requests\<close>

record Creds =
  cr_Name :: string
  cr_Password :: string
  cr_Token :: string

record RestClient =
  rc_TLS :: "tls_client option"
  rc_Auth :: "Creds option"
  rc_Host :: string

definition base64_char :: "nat \<Rightarrow> char" where
  "base64_char n = ''ABCDEFGHIJKLMNOPQRSTUVWXYZabcdefghijklmnopqrstuvwxyz0123456789+/'' ! n"

fun base64_bytes :: "nat list \<Rightarrow> string" where
  "base64_bytes [] = []"
| "base64_bytes [a] = [base64_char (a div 4), base64_char (a mod 4 * 16), CHR ''='', CHR ''='']"
| "base64_bytes [a, b] = [base64_char (a div 4), base64_char (a mod 4 * 16 + b div 16), base64_char (b mod 16 * 4), CHR ''='']"
| "base64_bytes (a # b # d # bs) =
     [base64_char (a div 4), base64_char (a mod 4 * 16 + b div 16), base64_char (b mod 16 * 4 + d div 64), base64_char (d mod 64)]
     @ base64_bytes bs"

definition base64_EncodeToString :: "string \<Rightarrow> string" where
  "base64_EncodeToString s = base64_bytes (map of_char s)"

definition auth_header :: "Creds \<Rightarrow> string" where
  "auth_header a =
     (if cr_Name a \<noteq> [] \<and> cr_Password a \<noteq> []
      then ''Basic '' @ base64_EncodeToString (cr_Name a @ '':'' @ cr_Password a)
      else if cr_Token a \<noteq> [] then ''Bearer '' @ cr_Token a else [])"

definition SetAuthHeader :: "RestClient \<Rightarrow> http_request \<Rightarrow> http_request" where
  "SetAuthHeader rc request =
     (case rc_Auth rc of
        None \<Rightarrow> request
      | Some a \<Rightarrow> request\<lparr>rq_Headers := rq_Headers request @ [(''Authorization'', auth_header a)]\<rparr>)"

record Stream =
  st_Title :: string
  st_RotationStrategy :: string
  st_RotationPeriod :: string
  st_MaxSize :: int
  st_MaxNumberOfIndices :: int

record GraylogConnector =
  gc_RestClient :: RestClient
  gc_OpenSearchRestClient :: RestClient
  gc_Assets :: embed_fs
  gc_EnabledStreams :: "Stream list"
  gc_TLSEnabled :: bool

definition GraylogPort :: string where "GraylogPort = ''9000''"
definition contentpacksUrl :: string where "contentpacksUrl = ''system/content_packs''"
definition oobContentPackId :: string where "oobContentPackId = ''0fac53ed-df74-4ba6-88c2-aa16b4b8542d''"
definition oobContentPackInstallUrl :: string where
  "oobContentPackInstallUrl = ''system/content_packs/'' @ oobContentPackId @ ''/1/installations''"
definition contentPackInstallationsUrl :: "string \<Rightarrow> string" where
  "contentPackInstallationsUrl i = ''system/content_packs/'' @ i @ ''/installations''"
definition contentPackInstallationUrl :: "string \<Rightarrow> string \<Rightarrow> string" where
  "contentPackInstallationUrl i j = ''system/content_packs/'' @ i @ ''/installations/'' @ j"
definition grokUrl :: string where "grokUrl = ''system/grok''"
definition indexSetsUrl :: string where "indexSetsUrl = ''system/indices/index_sets''"
definition inputsUrl :: string where "inputsUrl = ''system/inputs''"
definition pipelineUrl :: string where "pipelineUrl = ''system/pipelines/pipeline''"
definition processingRulesUrl :: string where "processingRulesUrl = ''system/pipelines/rule''"
definition authHeaderUrl :: string where "authHeaderUrl = ''system/authentication/http-header-auth-config''"

lemmas url_defs = contentpacksUrl_def oobContentPackId_def oobContentPackInstallUrl_def contentPackInstallationsUrl_def
  contentPackInstallationUrl_def grokUrl_def indexSetsUrl_def inputsUrl_def pipelineUrl_def processingRulesUrl_def authHeaderUrl_def

text \<open>The request \<open>Send\<close> builds, once the URL is resolved against the host of the connector.\<close>

definition graylog_request :: "GraylogConnector \<Rightarrow> string \<Rightarrow> string \<Rightarrow> string \<Rightarrow> http_request" where
  "graylog_request conn uri mthd data = SetAuthHeader (gc_RestClient conn)
     \<lparr>rq_Method = mthd, rq_URL = uri,
      rq_Headers = [(''Content-Type'', ''application/json''), (''X-Requested-By'', ''Graylog API Browser'')],
      rq_Body = data, rq_TLS = rc_TLS (gc_RestClient conn)\<rparr>"

definition connector_base :: "GraylogConnector \<Rightarrow> string" where
  "connector_base conn = (if gc_TLSEnabled conn then ''https'' else ''http'') @ ''://'' @ rc_Host (gc_RestClient conn)"

definition connector_Send :: "'w client \<Rightarrow> GraylogConnector \<Rightarrow> string \<Rightarrow> string \<Rightarrow> string \<Rightarrow> ('w, string \<times> int) eff" where
  "connector_Send c conn urlPath mthd data =
     tryM (pureE (net_Resolve c (connector_base conn) urlPath)) (\<lambda>uri.
       net_Do c (graylog_request conn uri mthd data))"

definition connector_DELETE :: "'w client \<Rightarrow> GraylogConnector \<Rightarrow> string \<Rightarrow> ('w, string \<times> int) eff" where
  "connector_DELETE c conn url = connector_Send c conn url ''DELETE'' []"

definition connector_GET :: "'w client \<Rightarrow> GraylogConnector \<Rightarrow> string \<Rightarrow> ('w, string \<times> int) eff" where
  "connector_GET c conn url = connector_Send c conn url ''GET'' []"

definition connector_POST :: "'w client \<Rightarrow> GraylogConnector \<Rightarrow> string \<Rightarrow> string \<Rightarrow> ('w, string \<times> int) eff" where
  "connector_POST c conn url data = connector_Send c conn url ''POST'' data"

definition connector_PUT :: "'w client \<Rightarrow> GraylogConnector \<Rightarrow> string \<Rightarrow> string \<Rightarrow> ('w, string \<times> int) eff" where
  "connector_PUT c conn url data = connector_Send c conn url ''PUT'' data"

text \<open>The error and the status code after a call whose error is not returned at once.\<close>

definition answered :: "('w, string \<times> int) eff \<Rightarrow> ('w, bool \<times> int) state" where
  "answered m = do {
     r \<leftarrow> m;
     State_Monad.return (case r of Inl _ \<Rightarrow> (False, -1) | Inr (_, code) \<Rightarrow> (True, code)) }"

text \<open>A call whose status code has to be one of those given.\<close>

definition expecting :: "int list \<Rightarrow> go_error \<Rightarrow> ('w, string \<times> int) eff \<Rightarrow> ('w, unit) eff" where
  "expecting codes e m = tryM m (\<lambda>(response, statusCode). if statusCode \<in> set codes then okM () else failM e)"

text \<open>An embedded template rendered with the values of the custom resource.\<close>

definition asset_text :: "'w client \<Rightarrow> GraylogConnector \<Rightarrow> string \<Rightarrow> logging_service \<Rightarrow> ('w, string) eff" where
  "asset_text c conn path cr = sys_ParseTemplate c (MustAssetReader (gc_Assets conn) path) path (PlainParameters (ToParams cr))"

definition settings_text :: "'w client \<Rightarrow> GraylogConnector \<Rightarrow> string \<Rightarrow> (string \<rightharpoonup> string) \<Rightarrow> ('w, string) eff" where
  "settings_text c conn path settings = sys_ParseTemplate c (MustAssetReader (gc_Assets conn) path) path (SettingsParameters settings)"

abbreviation graylog_of :: "logging_service \<Rightarrow> graylog" where
  "graylog_of cr \<equiv> the (spec_Graylog (ls_Spec cr))"

text \<open>\<open>for k, v := range m\<close>: the order is chosen by the runtime.\<close>

definition range_map :: "'w client \<Rightarrow> (string \<times> string) list \<Rightarrow> (string \<Rightarrow> string \<Rightarrow> ('w, unit) eff) \<Rightarrow> ('w, unit) eff" where
  "range_map c m f = do {
     ks \<leftarrow> sys_MapRange c (map fst m);
     for_each ks (\<lambda>k. case map_of m k of None \<Rightarrow> okM () | Some v \<Rightarrow> f k v) }"

text \<open>Indexing a table of \<open>vars.go\<close>, with the zero value for a missing key.\<close>

definition table_at :: "(string \<times> string) list \<Rightarrow> string \<Rightarrow> string" where
  "table_at kvs k = (case table kvs k of None \<Rightarrow> [] | Some v \<Rightarrow> v)"

section \<open>Entities\<close>

record Entity =
  en_Id :: string
  en_Title :: string

definition field_of :: "(string \<rightharpoonup> string) \<Rightarrow> string \<Rightarrow> string" where
  "field_of m k = (case m k of None \<Rightarrow> [] | Some v \<Rightarrow> v)"

definition to_Entity :: "(string \<rightharpoonup> string) \<Rightarrow> Entity" where
  "to_Entity m = \<lparr>en_Id = field_of m ''id'', en_Title = field_of m ''title''\<rparr>"

fun GetIdByTitle :: "Entity list \<Rightarrow> string \<Rightarrow> string" where
  "GetIdByTitle [] title = []"
| "GetIdByTitle (v # values) title = (if en_Title v = title then en_Id v else GetIdByTitle values title)"

definition GetRawData :: "'w client \<Rightarrow> GraylogConnector \<Rightarrow> string \<Rightarrow> ('w, string) eff" where
  "GetRawData c conn url = tryM (connector_GET c conn url) (\<lambda>(resp, _). okM resp)"

definition parse_entities :: "'w client \<Rightarrow> string \<Rightarrow> ('w, Entity list) eff" where
  "parse_entities c text = tryM (pureE (json_Structs c [''id'', ''title''] text)) (\<lambda>ms. okM (map to_Entity ms))"

definition GetData :: "'w client \<Rightarrow> GraylogConnector \<Rightarrow> string \<Rightarrow> string \<Rightarrow> (string \<Rightarrow> string) option \<Rightarrow> ('w, Entity list) eff" where
  "GetData c conn url field replaceFunc =
     tryM (GetRawData c conn url) (\<lambda>allData.
       let allData = (case replaceFunc of None \<Rightarrow> allData | Some f \<Rightarrow> f allData)
       in if field \<noteq> []
          then tryM (pureE (json_Object c allData)) (\<lambda>data. parse_entities c (field_of data field))
          else parse_entities c allData)"

section \<open>Streams to set up\<close>

definition required_audit :: stream_spec where
  "required_audit = zero_stream_spec\<lparr>str_Name := GraylogAuditStream, str_Install := True, str_RotationStrategy := ''timeBased'',
     str_RotationPeriod := ''P1M'', str_MaxNumberOfIndices := 5\<rparr>"

definition required_system :: stream_spec where
  "required_system = zero_stream_spec\<lparr>str_Name := GraylogSystemStream, str_Install := True\<rparr>"

definition ManageRequiredStreams :: "stream_spec list \<Rightarrow> stream_spec list" where
  "ManageRequiredStreams streams =
     (let systemLogs = list_ex (\<lambda>s. go_EqualFold (str_Name s) ''system logs'') streams;
          auditLogs = list_ex (\<lambda>s. go_EqualFold (str_Name s) ''audit logs'') streams;
          streams = (if \<not> auditLogs then streams @ [required_audit] else streams)
      in if \<not> systemLogs then streams @ [required_system] else streams)"

definition GetDefaultStreams :: "stream_spec list" where
  "GetDefaultStreams =
     [zero_stream_spec\<lparr>str_Name := GraylogAuditStream, str_Install := True, str_RotationStrategy := ''timeBased'',
        str_RotationPeriod := ''P1M'', str_MaxNumberOfIndices := 5\<rparr>,
      zero_stream_spec\<lparr>str_Name := GraylogSystemStream, str_Install := True, str_RotationStrategy := ''sizeBased'',
        str_MaxSize := 1073741824, str_MaxNumberOfIndices := 20\<rparr>,
      zero_stream_spec\<lparr>str_Name := GraylogKubernetesEventsStream, str_Install := True, str_RotationStrategy := ''timeBased'',
        str_RotationPeriod := ''P1M'', str_MaxNumberOfIndices := 5\<rparr>]"

definition rotation_strategy :: "stream_spec \<Rightarrow> string" where
  "rotation_strategy s =
     (if str_RotationStrategy s \<noteq> []
        \<and> (go_EqualFold (str_RotationStrategy s) ''sizeBased'' \<or> go_EqualFold (str_RotationStrategy s) ''timeBased'')
      then str_RotationStrategy s else ''sizeBased'')"

definition to_Stream :: "stream_spec \<Rightarrow> Stream" where
  "to_Stream s = \<lparr>st_Title = str_Name s, st_RotationStrategy = rotation_strategy s, st_RotationPeriod = str_RotationPeriod s,
     st_MaxSize = str_MaxSize s, st_MaxNumberOfIndices = str_MaxNumberOfIndices s\<rparr>"

text \<open>The loop: a stream is skipped when a later one has its name.\<close>

fun enabled_streams :: "stream_spec list \<Rightarrow> Stream list" where
  "enabled_streams [] = []"
| "enabled_streams (s # streams) =
     (let needSkip = list_ex (\<lambda>t. str_Name s = str_Name t) streams
      in if \<not> needSkip \<and> str_Install s \<and> table GraylogStreamsRules (str_Name s) \<noteq> None
         then to_Stream s # enabled_streams streams else enabled_streams streams)"

text \<open>The enabled streams, and the custom resource, to which the missing required streams are appended.\<close>

definition GetStreams :: "graylog \<Rightarrow> Stream list \<times> graylog" where
  "GetStreams g =
     (if gl_Streams g = [] then (enabled_streams GetDefaultStreams, g)
      else (let streams = ManageRequiredStreams (gl_Streams g)
            in (enabled_streams streams, g\<lparr>gl_Streams := streams\<rparr>)))"

end
