(* ===== verification/Graylog_Content.thy ===== *)
theory Graylog_Content
  imports Graylog_Rest
begin

text \<open>
  What the operator sets up inside Graylog over its REST API (\<open>controllers/graylog/utils\<close>): inputs,
  index sets, streams, extractors, Grok patterns, processing rules, pipelines, roles and users, the
  authentication header. One definition per function, composed as in the source. Every operation takes
  the connector and the custom resource, which it only reads.
\<close>

section \<open>Inputs\<close>

definition GetAllInputs :: "'w client \<Rightarrow> GraylogConnector \<Rightarrow> ('w, Entity list) eff" where
  "GetAllInputs c conn = GetData c conn inputsUrl ''inputs'' None"

definition UpdateDefaultInput :: "'w client \<Rightarrow> GraylogConnector \<Rightarrow> string \<Rightarrow> logging_service \<Rightarrow> ('w, unit) eff" where
  "UpdateDefaultInput c conn i cr = tryM (asset_text c conn GraylogInput cr) (\<lambda>data.
     expecting [201] (errors_New ''can't update default input'') (connector_PUT c conn (inputsUrl @ ''/'' @ i) data))"

definition CreateDefaultInput :: "'w client \<Rightarrow> GraylogConnector \<Rightarrow> logging_service \<Rightarrow> ('w, unit) eff" where
  "CreateDefaultInput c conn cr = tryM (asset_text c conn GraylogInput cr) (\<lambda>data.
     expecting [201] (errors_New ''can't create default input'') (connector_POST c conn inputsUrl data))"

definition input_title :: "logging_service \<Rightarrow> string" where
  "input_title cr = ''input-'' @ go_Itoa (gl_InputPort (graylog_of cr))"

definition CreateOrUpdateDefaultInput :: "'w client \<Rightarrow> GraylogConnector \<Rightarrow> Entity list \<Rightarrow> logging_service \<Rightarrow> ('w, unit) eff" where
  "CreateOrUpdateDefaultInput c conn inputs cr =
     (let i = GetIdByTitle inputs (input_title cr)
      in if i = [] then CreateDefaultInput c conn cr
         else if IsForceUpdate (graylog_of cr) then UpdateDefaultInput c conn i cr
         else okM ())"

definition ManageInputs :: "'w client \<Rightarrow> GraylogConnector \<Rightarrow> logging_service \<Rightarrow> ('w, unit) eff" where
  "ManageInputs c conn cr = tryM (GetAllInputs c conn) (\<lambda>inputs. CreateOrUpdateDefaultInput c conn inputs cr)"

section \<open>Index sets\<close>

definition GetAllIndexSets :: "'w client \<Rightarrow> GraylogConnector \<Rightarrow> ('w, Entity list) eff" where
  "GetAllIndexSets c conn = GetData c conn indexSetsUrl ''index_sets'' None"

definition UpdateIndexSet :: "'w client \<Rightarrow> GraylogConnector \<Rightarrow> string \<Rightarrow> logging_service \<Rightarrow> string \<Rightarrow> string \<Rightarrow> ('w, unit) eff" where
  "UpdateIndexSet c conn i cr path indexSetName = tryM (asset_text c conn path cr) (\<lambda>data.
     expecting [200] (errors_New (''can't update '' @ indexSetName)) (connector_PUT c conn (indexSetsUrl @ ''/'' @ i) data))"

definition CreateIndexSet :: "'w client \<Rightarrow> GraylogConnector \<Rightarrow> logging_service \<Rightarrow> string \<Rightarrow> string \<Rightarrow> ('w, unit) eff" where
  "CreateIndexSet c conn cr path indexSetName = tryM (asset_text c conn path cr) (\<lambda>data.
     tryM (connector_POST c conn indexSetsUrl data) (\<lambda>(response, statusCode).
       if statusCode = 200 then okM ()
       else failM (Errorf [Lit ''can't create '', ArgS indexSetName, Lit ''. Status code: '', ArgS (go_Itoa statusCode),
              Lit ''. Response: '', ArgS response])))"

definition CreateOrUpdateIndexSet :: "'w client \<Rightarrow> GraylogConnector \<Rightarrow> Entity list \<Rightarrow> logging_service \<Rightarrow> string \<Rightarrow> string \<Rightarrow> ('w, unit) eff" where
  "CreateOrUpdateIndexSet c conn indexSets cr path title =
     (let i = GetIdByTitle indexSets title
      in if i = [] then
           (if title = GraylogDefaultIndexSet then failM (errors_New ''default index set not found'')
            else CreateIndexSet c conn cr path title)
         else if IsForceUpdate (graylog_of cr) \<or> title = GraylogDefaultIndexSet
         then UpdateIndexSet c conn i cr path title
         else okM ())"

text \<open>The index sets of the enabled streams, by title, with their templates.\<close>

definition add_index_set :: "(string \<times> string) list \<Rightarrow> Stream \<Rightarrow> (string \<times> string) list" where
  "add_index_set m s =
     (case table GraylogStreamsIndexTitles (st_Title s) of
        None \<Rightarrow> m | Some v \<Rightarrow> AList.update v (table_at GraylogIndexConfigs v) m)"

definition GetIndexSets :: "GraylogConnector \<Rightarrow> (string \<times> string) list" where
  "GetIndexSets conn = foldl add_index_set
     [(GraylogDefaultIndexSet, table_at GraylogIndexConfigs GraylogDefaultIndexSet),
      (GraylogAuditIndexSet, table_at GraylogIndexConfigs GraylogAuditIndexSet)] (gc_EnabledStreams conn)"

definition ManageIndexSets :: "'w client \<Rightarrow> GraylogConnector \<Rightarrow> logging_service \<Rightarrow> ('w, unit) eff" where
  "ManageIndexSets c conn cr = tryM (GetAllIndexSets c conn) (\<lambda>indexSets.
     range_map c (GetIndexSets conn) (\<lambda>k v. CreateOrUpdateIndexSet c conn indexSets cr v k))"

section \<open>Streams\<close>

definition GetAllStreams :: "'w client \<Rightarrow> GraylogConnector \<Rightarrow> ('w, Entity list) eff" where
  "GetAllStreams c conn = GetData c conn ''streams'' ''streams'' None"

definition CreateStreamBody :: "'w client \<Rightarrow> string \<Rightarrow> string \<Rightarrow> Entity list \<Rightarrow> string \<Rightarrow> go_error + string" where
  "CreateStreamBody c description title indexSets indexSetName = json_Marshal c (JObject
     [(''matching_type'', JString ''AND''), (''description'', JString description), (''title'', JString title),
      (''index_set_id'', JString (GetIdByTitle indexSets indexSetName))])"

definition UpdateStream :: "'w client \<Rightarrow> GraylogConnector \<Rightarrow> string \<Rightarrow> Entity list \<Rightarrow> string \<Rightarrow> string \<Rightarrow> string \<Rightarrow> ('w, unit) eff" where
  "UpdateStream c conn streamId indexSets indexSetName description title =
     tryM (pureE (CreateStreamBody c description title indexSets indexSetName)) (\<lambda>data.
       expecting [200] (errors_New (''can't update stream '' @ title)) (connector_PUT c conn (''streams/'' @ streamId) data))"

definition CreateStream :: "'w client \<Rightarrow> GraylogConnector \<Rightarrow> Entity list \<Rightarrow> string \<Rightarrow> string \<Rightarrow> string \<Rightarrow> ('w, unit) eff" where
  "CreateStream c conn indexSets indexSetName description title =
     tryM (pureE (CreateStreamBody c description title indexSets indexSetName)) (\<lambda>data.
       expecting [201] (errors_New (''can't create stream '' @ title)) (connector_POST c conn ''streams/'' data))"

definition OnlyCreateStream :: "'w client \<Rightarrow> GraylogConnector \<Rightarrow> Entity list \<Rightarrow> Entity list \<Rightarrow> string \<Rightarrow> string \<Rightarrow> string \<Rightarrow> ('w, unit) eff" where
  "OnlyCreateStream c conn streams indexSets indexSetName description title =
     (if GetIdByTitle streams title = [] then CreateStream c conn indexSets indexSetName description title else okM ())"

definition UpdateOrCreateStream :: "'w client \<Rightarrow> GraylogConnector \<Rightarrow> Entity list \<Rightarrow> Entity list \<Rightarrow> string \<Rightarrow> string \<Rightarrow> string \<Rightarrow> ('w, unit) eff" where
  "UpdateOrCreateStream c conn streams indexSets indexSetName description title =
     (let streamId = GetIdByTitle streams title
      in if streamId \<noteq> [] then UpdateStream c conn streamId indexSets indexSetName description title
         else OnlyCreateStream c conn streams indexSets indexSetName description title)"

text \<open>The index set of each enabled stream, by stream title.\<close>

definition add_stream :: "(string \<times> string) list \<Rightarrow> Stream \<Rightarrow> (string \<times> string) list" where
  "add_stream m s =
     (case table GraylogStreamsIndexTitles (st_Title s) of None \<Rightarrow> m | Some i \<Rightarrow> AList.update (st_Title s) i m)"

definition connector_GetStreams :: "GraylogConnector \<Rightarrow> (string \<times> string) list" where
  "connector_GetStreams conn = foldl add_stream [] (gc_EnabledStreams conn)"

definition UpdateStreams :: "'w client \<Rightarrow> GraylogConnector \<Rightarrow> Entity list \<Rightarrow> Entity list \<Rightarrow> ('w, unit) eff" where
  "UpdateStreams c conn streams indexSets = range_map c (connector_GetStreams conn) (\<lambda>s i.
     UpdateOrCreateStream c conn streams indexSets i (table_at GraylogStreamsDescriptions s) s)"

definition CreateStreams :: "'w client \<Rightarrow> GraylogConnector \<Rightarrow> Entity list \<Rightarrow> Entity list \<Rightarrow> ('w, unit) eff" where
  "CreateStreams c conn streams indexSets = range_map c (connector_GetStreams conn) (\<lambda>s i.
     OnlyCreateStream c conn streams indexSets i (table_at GraylogStreamsDescriptions s) s)"

definition ResumeStream :: "'w client \<Rightarrow> GraylogConnector \<Rightarrow> string \<Rightarrow> ('w, unit) eff" where
  "ResumeStream c conn i =
     expecting [204] (errors_New (''can't resume stream '' @ i)) (connector_POST c conn (''streams/'' @ i @ ''/resume'') [])"

definition ResumeStreamByTitle :: "'w client \<Rightarrow> GraylogConnector \<Rightarrow> Entity list \<Rightarrow> string \<Rightarrow> ('w, unit) eff" where
  "ResumeStreamByTitle c conn streams title = ResumeStream c conn (GetIdByTitle streams title)"

definition ResumeStreams :: "'w client \<Rightarrow> GraylogConnector \<Rightarrow> Entity list \<Rightarrow> ('w, unit) eff" where
  "ResumeStreams c conn streams = range_map c (connector_GetStreams conn) (\<lambda>s _. ResumeStreamByTitle c conn streams s)"

definition CreateOrUpdateStreams :: "'w client \<Rightarrow> GraylogConnector \<Rightarrow> Entity list \<Rightarrow> Entity list \<Rightarrow> logging_service \<Rightarrow> ('w, unit) eff" where
  "CreateOrUpdateStreams c conn streams indexSets cr =
     (if IsOnlyCreate (graylog_of cr) then CreateStreams c conn streams indexSets
      else if IsForceUpdate (graylog_of cr) then UpdateStreams c conn streams indexSets
      else okM ())"

definition ManageStreams :: "'w client \<Rightarrow> GraylogConnector \<Rightarrow> logging_service \<Rightarrow> ('w, unit) eff" where
  "ManageStreams c conn cr =
     tryM (GetAllStreams c conn) (\<lambda>streams.
     tryM (GetAllIndexSets c conn) (\<lambda>indexSets.
     tryM (CreateOrUpdateStreams c conn streams indexSets cr) (\<lambda>_.
     tryM (GetAllStreams c conn) (\<lambda>streams.
       ResumeStreams c conn streams))))"

section \<open>Extractors\<close>

definition GetAllExtractors :: "'w client \<Rightarrow> GraylogConnector \<Rightarrow> string \<Rightarrow> ('w, Entity list) eff" where
  "GetAllExtractors c conn i = GetData c conn (''system/inputs/'' @ i @ ''/extractors'') ''extractors'' None"

definition UpdateMessageProcessorsOrder :: "'w client \<Rightarrow> GraylogConnector \<Rightarrow> logging_service \<Rightarrow> ('w, unit) eff" where
  "UpdateMessageProcessorsOrder c conn cr = tryM (asset_text c conn GraylogMessageProcessors cr) (\<lambda>data.
     expecting [200] (errors_New ''can't update messageprocessors order'') (connector_PUT c conn ''system/messageprocessors/config'' data))"

definition CreateExtractor :: "'w client \<Rightarrow> GraylogConnector \<Rightarrow> string \<Rightarrow> string \<Rightarrow> logging_service \<Rightarrow> ('w, unit) eff" where
  "CreateExtractor c conn template inputId cr = tryM (asset_text c conn template cr) (\<lambda>data.
     expecting [201] (errors_New (''can't create extractor '' @ template))
       (connector_POST c conn (''system/inputs/'' @ inputId @ ''/extractors/'') data))"

definition UpdateExtractor :: "'w client \<Rightarrow> GraylogConnector \<Rightarrow> string \<Rightarrow> string \<Rightarrow> string \<Rightarrow> logging_service \<Rightarrow> ('w, unit) eff" where
  "UpdateExtractor c conn template inputId i cr = tryM (asset_text c conn template cr) (\<lambda>data.
     expecting [200] (errors_New (''can't update extractor '' @ template))
       (connector_PUT c conn (''system/inputs/'' @ inputId @ ''/extractors/'' @ i) data))"

definition DeleteExtractor :: "'w client \<Rightarrow> GraylogConnector \<Rightarrow> string \<Rightarrow> string \<Rightarrow> ('w, unit) eff" where
  "DeleteExtractor c conn inputId i = expecting [204] (errors_New (''can't delete extractor '' @ i))
     (connector_DELETE c conn (''system/inputs/'' @ inputId @ ''/extractors/'' @ i))"

definition UpdateAllExtractors :: "'w client \<Rightarrow> GraylogConnector \<Rightarrow> Entity list \<Rightarrow> (string \<times> string) list \<Rightarrow> string \<Rightarrow> logging_service \<Rightarrow> ('w, unit) eff" where
  "UpdateAllExtractors c conn extractors extractorsAssets inputId cr =
     tryM (range_map c extractorsAssets (\<lambda>name assetPath.
             let i = GetIdByTitle extractors name
             in if i \<noteq> [] then UpdateExtractor c conn assetPath inputId i cr
                else CreateExtractor c conn assetPath inputId cr)) (\<lambda>_.
       let i = GetIdByTitle extractors ''os_extractor''
       in if i \<noteq> [] then DeleteExtractor c conn inputId i else okM ())"

definition CreateExtractors :: "'w client \<Rightarrow> GraylogConnector \<Rightarrow> Entity list \<Rightarrow> (string \<times> string) list \<Rightarrow> string \<Rightarrow> logging_service \<Rightarrow> ('w, unit) eff" where
  "CreateExtractors c conn extractors extractorsAssets inputId cr =
     range_map c extractorsAssets (\<lambda>name assetPath.
       if GetIdByTitle extractors name = [] then CreateExtractor c conn assetPath inputId cr else okM ())"

definition CreateOrUpdateExtractors :: "'w client \<Rightarrow> GraylogConnector \<Rightarrow> Entity list \<Rightarrow> (string \<times> string) list \<Rightarrow> string \<Rightarrow> logging_service \<Rightarrow> ('w, unit) eff" where
  "CreateOrUpdateExtractors c conn extractors extractorsAssets i cr =
     (if IsOnlyCreate (graylog_of cr) then CreateExtractors c conn extractors extractorsAssets i cr
      else if IsForceUpdate (graylog_of cr) then UpdateAllExtractors c conn extractors extractorsAssets i cr
      else okM ())"

definition ManageExtractors :: "'w client \<Rightarrow> GraylogConnector \<Rightarrow> logging_service \<Rightarrow> ('w, unit) eff" where
  "ManageExtractors c conn cr =
     tryM (GetAllInputs c conn) (\<lambda>inputs.
       let i = GetIdByTitle inputs (input_title cr)
       in tryM (GetAllExtractors c conn i) (\<lambda>extractors.
          tryM (CreateOrUpdateExtractors c conn extractors GraylogExtractors i cr) (\<lambda>_.
            UpdateMessageProcessorsOrder c conn cr)))"

section \<open>Grok patterns\<close>

record GrokPattern =
  gk_Id :: string
  gk_Name :: string
  gk_Pattern :: string

definition to_GrokPattern :: "(string \<rightharpoonup> string) \<Rightarrow> GrokPattern" where
  "to_GrokPattern m = \<lparr>gk_Id = field_of m ''id'', gk_Name = field_of m ''name'', gk_Pattern = field_of m ''pattern''\<rparr>"

fun ContainsPattern :: "GrokPattern \<Rightarrow> GrokPattern list \<Rightarrow> bool" where
  "ContainsPattern pattern [] = False"
| "ContainsPattern pattern (p # list) = (gk_Name p = gk_Name pattern \<or> ContainsPattern pattern list)"

fun GetPattern :: "string \<Rightarrow> GrokPattern list \<Rightarrow> string" where
  "GetPattern name [] = []"
| "GetPattern name (p # patterns) = (if gk_Name p = name then gk_Pattern p else GetPattern name patterns)"

definition GetAllGrokPatterns :: "'w client \<Rightarrow> GraylogConnector \<Rightarrow> ('w, string) eff" where
  "GetAllGrokPatterns c conn = tryM (connector_GET c conn grokUrl) (\<lambda>(resp, _). okM resp)"

definition CreateGrokPatternBody :: "'w client \<Rightarrow> GrokPattern \<Rightarrow> GrokPattern list \<Rightarrow> go_error + string" where
  "CreateGrokPatternBody c p allGrokPatterns = json_Marshal c (JObject
     [(''name'', JString (gk_Name p)), (''pattern'', JString (GetPattern (gk_Name p) allGrokPatterns))])"

text \<open>The body of both loops: a body that cannot be marshalled and a request without an answer are noted
  and the loop goes on to the check of the status code.\<close>

definition send_pattern :: "'w client \<Rightarrow> GrokPattern \<Rightarrow> GrokPattern list \<Rightarrow> int \<Rightarrow> string
    \<Rightarrow> (string \<Rightarrow> ('w, string \<times> int) eff) \<Rightarrow> string list \<Rightarrow> ('w, string list) eff" where
  "send_pattern c v allGrokPatterns code message request failedPatterns =
     (let body = CreateGrokPatternBody c v allGrokPatterns;
          config = (case body of Inl _ \<Rightarrow> [] | Inr t \<Rightarrow> t);
          failedPatterns = failedPatterns @ (case body of Inl _ \<Rightarrow> [gk_Pattern v] | Inr _ \<Rightarrow> [])
      in do {
           (ok, statusCode) \<leftarrow> answered (request config);
           let failedPatterns = failedPatterns @ (if ok then [] else [gk_Pattern v]) in
           if statusCode \<noteq> code then failM (errors_New (message @ gk_Name v)) else okM failedPatterns })"

fun update_patterns :: "'w client \<Rightarrow> GraylogConnector \<Rightarrow> GrokPattern list \<Rightarrow> GrokPattern list \<Rightarrow> string list \<Rightarrow> ('w, string list) eff" where
  "update_patterns c conn [] allGrokPatterns failedPatterns = okM failedPatterns"
| "update_patterns c conn (v # existing) allGrokPatterns failedPatterns =
     (if ContainsPattern v allGrokPatterns
      then tryM (send_pattern c v allGrokPatterns 200 ''can't update grok pattern: ''
                  (connector_PUT c conn (grokUrl @ ''/'' @ gk_Id v)) failedPatterns) (\<lambda>failedPatterns.
             update_patterns c conn existing allGrokPatterns failedPatterns)
      else update_patterns c conn existing allGrokPatterns failedPatterns)"

definition UpdateGrokPatterns :: "'w client \<Rightarrow> GraylogConnector \<Rightarrow> GrokPattern list \<Rightarrow> GrokPattern list \<Rightarrow> ('w, unit) eff" where
  "UpdateGrokPatterns c conn existingGrokPatterns allGrokPatterns =
     tryM (update_patterns c conn existingGrokPatterns allGrokPatterns []) (\<lambda>failedPatterns.
       if failedPatterns \<noteq> [] then failM (errors_New (''Can't update patterns '' @ go_Join failedPatterns '','')) else okM ())"

fun create_patterns :: "'w client \<Rightarrow> GraylogConnector \<Rightarrow> GrokPattern list \<Rightarrow> GrokPattern list \<Rightarrow> GrokPattern list \<Rightarrow> string list \<Rightarrow> ('w, string list) eff" where
  "create_patterns c conn existing [] allGrokPatterns failedPatterns = okM failedPatterns"
| "create_patterns c conn existing (v # rest) allGrokPatterns failedPatterns =
     (if \<not> ContainsPattern v existing
      then tryM (send_pattern c v allGrokPatterns 201 ''can't create grok pattern: '' (connector_POST c conn grokUrl) failedPatterns)
             (\<lambda>failedPatterns. create_patterns c conn existing rest allGrokPatterns failedPatterns)
      else create_patterns c conn existing rest allGrokPatterns failedPatterns)"

definition CreateGrokPatterns :: "'w client \<Rightarrow> GraylogConnector \<Rightarrow> GrokPattern list \<Rightarrow> GrokPattern list \<Rightarrow> ('w, unit) eff" where
  "CreateGrokPatterns c conn existingGrokPatterns allGrokPatterns =
     tryM (create_patterns c conn existingGrokPatterns allGrokPatterns allGrokPatterns []) (\<lambda>failedPatterns.
       if failedPatterns \<noteq> [] then failM (errors_New (''Can't create patterns '' @ go_Join failedPatterns '','')) else okM ())"

definition parse_patterns :: "'w client \<Rightarrow> string \<Rightarrow> ('w, GrokPattern list) eff" where
  "parse_patterns c text =
     tryM (pureE (json_Object c text)) (\<lambda>data.
     tryM (pureE (json_Structs c [''id'', ''name'', ''pattern''] (field_of data ''patterns''))) (\<lambda>ms.
       okM (map to_GrokPattern ms)))"

definition CreateOrUpdateGrokPatterns :: "'w client \<Rightarrow> GraylogConnector \<Rightarrow> GrokPattern list \<Rightarrow> logging_service \<Rightarrow> ('w, unit) eff" where
  "CreateOrUpdateGrokPatterns c conn existingGrokPatterns cr =
     tryM (asset_text c conn GraylogGrokPatterns cr) (\<lambda>raw.
     tryM (parse_patterns c raw) (\<lambda>allGrokPatterns.
       if IsOnlyCreate (graylog_of cr) then CreateGrokPatterns c conn existingGrokPatterns allGrokPatterns
       else if IsForceUpdate (graylog_of cr) then UpdateGrokPatterns c conn existingGrokPatterns allGrokPatterns
       else okM ()))"

definition ManageGrokPatterns :: "'w client \<Rightarrow> GraylogConnector \<Rightarrow> logging_service \<Rightarrow> ('w, unit) eff" where
  "ManageGrokPatterns c conn cr =
     tryM (GetAllGrokPatterns c conn) (\<lambda>raw.
     tryM (parse_patterns c raw) (\<lambda>grokPatterns.
       CreateOrUpdateGrokPatterns c conn grokPatterns cr))"

end
