(* ===== verification/Graylog_Routing.thy ===== *)
theory Graylog_Routing
  imports Graylog_Content
begin

text \<open>
  The rest of what the operator sets up inside Graylog from embedded templates: processing rules,
  the pipeline that routes messages to streams, roles and users, and the authentication header
  (\<open>processing-rules.go\<close>, \<open>pipelines.go\<close>, \<open>user-accounts.go\<close>, \<open>auth-header.go\<close>).
\<close>

section \<open>Processing rules\<close>

definition GetAllProcessingRules :: "'w client \<Rightarrow> GraylogConnector \<Rightarrow> ('w, Entity list) eff" where
  "GetAllProcessingRules c conn = GetData c conn processingRulesUrl [] None"

definition CreateRuleBody :: "'w client \<Rightarrow> string \<Rightarrow> string \<Rightarrow> string \<Rightarrow> go_error + string" where
  "CreateRuleBody c title description source = json_Marshal c (JObject
     [(''title'', JString title), (''description'', JString description), (''source'', JString source)])"

definition no_default_stream :: go_error where
  "no_default_stream = errors_New (''neither '' @ GraylogDefaultStream @ '' nor '' @ GraylogAllMessagesStream @ '' streams were not found'')"

definition CreateRuleData :: "'w client \<Rightarrow> GraylogConnector \<Rightarrow> Entity list \<Rightarrow> string \<Rightarrow> string \<Rightarrow> ('w, string) eff" where
  "CreateRuleData c conn streams title template =
     (let streamId = GetIdByTitle streams title;
          fallback = (streamId = [] \<and> title = GraylogDefaultStream);
          streamId = (if fallback then GetIdByTitle streams GraylogAllMessagesStream else streamId)
      in if fallback \<and> streamId = [] then failM no_default_stream
         else settings_text c conn template [''streamId'' \<mapsto> streamId])"

definition UpdateRule :: "'w client \<Rightarrow> GraylogConnector \<Rightarrow> string \<Rightarrow> string \<Rightarrow> string \<Rightarrow> string \<Rightarrow> ('w, unit) eff" where
  "UpdateRule c conn ruleId title description source =
     tryM (pureE (CreateRuleBody c title description source)) (\<lambda>data.
       expecting [200, 201] (errors_New (''Can't update rule: '' @ title)) (connector_PUT c conn (processingRulesUrl @ ''/'' @ ruleId) data))"

definition CreateRule :: "'w client \<Rightarrow> GraylogConnector \<Rightarrow> string \<Rightarrow> string \<Rightarrow> string \<Rightarrow> ('w, unit) eff" where
  "CreateRule c conn title description source =
     tryM (pureE (CreateRuleBody c title description source)) (\<lambda>data.
       expecting [200, 201] (errors_New (''Can't create rule: '' @ title)) (connector_POST c conn processingRulesUrl data))"

definition OnlyCreateRules :: "'w client \<Rightarrow> GraylogConnector \<Rightarrow> Entity list \<Rightarrow> Entity list \<Rightarrow> string \<Rightarrow> string \<Rightarrow> string \<Rightarrow> string \<Rightarrow> ('w, unit) eff" where
  "OnlyCreateRules c conn streams processingRules ruleTitle streamTitle description pathConfig =
     (if GetIdByTitle processingRules ruleTitle = []
      then tryM (CreateRuleData c conn streams streamTitle pathConfig) (\<lambda>data. CreateRule c conn ruleTitle description data)
      else okM ())"

definition CreateOrUpdateRules :: "'w client \<Rightarrow> GraylogConnector \<Rightarrow> Entity list \<Rightarrow> Entity list \<Rightarrow> string \<Rightarrow> string \<Rightarrow> string \<Rightarrow> string \<Rightarrow> ('w, unit) eff" where
  "CreateOrUpdateRules c conn streams processingRules ruleTitle streamTitle description pathConfig =
     (let ruleId = GetIdByTitle processingRules ruleTitle
      in if ruleId \<noteq> []
         then tryM (CreateRuleData c conn streams streamTitle pathConfig) (\<lambda>data. UpdateRule c conn ruleId ruleTitle description data)
         else OnlyCreateRules c conn streams processingRules ruleTitle streamTitle description pathConfig)"

text \<open>The stream each rule routes to, by rule title.\<close>

definition add_rule :: "(string \<times> string) list \<Rightarrow> Stream \<Rightarrow> (string \<times> string) list" where
  "add_rule m s =
     (case table GraylogStreamsRules (st_Title s) of None \<Rightarrow> m | Some v \<Rightarrow> AList.update v (st_Title s) m)"

definition GetProcessingRules :: "GraylogConnector \<Rightarrow> (string \<times> string) list" where
  "GetProcessingRules conn = foldl add_rule
     [(GraylogUnsupportedSymbolsRule, GraylogUnsupportedSymbolsRuleStream),
      (GraylogRemoveKubernetesRule, GraylogRemoveKubernetesRuleStream),
      (GraylogRemoveKubernetesLabelsRule, GraylogRemoveKubernetesLabelsRuleStream)] (gc_EnabledStreams conn)"

definition UpdateProcessingRules :: "'w client \<Rightarrow> GraylogConnector \<Rightarrow> Entity list \<Rightarrow> ('w, unit) eff" where
  "UpdateProcessingRules c conn processingRules = tryM (GetAllStreams c conn) (\<lambda>streams.
     range_map c (GetProcessingRules conn) (\<lambda>r s.
       CreateOrUpdateRules c conn streams processingRules r s (table_at GraylogRuleDescriptions r) (table_at GraylogRuleConfigs r)))"

definition CreateProcessingRules :: "'w client \<Rightarrow> GraylogConnector \<Rightarrow> Entity list \<Rightarrow> ('w, unit) eff" where
  "CreateProcessingRules c conn processingRules = tryM (GetAllStreams c conn) (\<lambda>streams.
     range_map c (GetProcessingRules conn) (\<lambda>r s.
       OnlyCreateRules c conn streams processingRules r s (table_at GraylogRuleDescriptions r) (table_at GraylogRuleConfigs r)))"

definition CreateOrUpdateProcessingRules :: "'w client \<Rightarrow> GraylogConnector \<Rightarrow> Entity list \<Rightarrow> logging_service \<Rightarrow> ('w, unit) eff" where
  "CreateOrUpdateProcessingRules c conn processingRules cr =
     (if IsOnlyCreate (graylog_of cr) then CreateProcessingRules c conn processingRules
      else if IsForceUpdate (graylog_of cr) then UpdateProcessingRules c conn processingRules
      else okM ())"

definition ManageProcessingRules :: "'w client \<Rightarrow> GraylogConnector \<Rightarrow> logging_service \<Rightarrow> ('w, unit) eff" where
  "ManageProcessingRules c conn cr = tryM (GetAllProcessingRules c conn) (\<lambda>processingRules.
     CreateOrUpdateProcessingRules c conn processingRules cr)"

section \<open>Pipelines\<close>

definition GetAllPipelines :: "'w client \<Rightarrow> GraylogConnector \<Rightarrow> ('w, Entity list) eff" where
  "GetAllPipelines c conn = GetData c conn pipelineUrl [] None"

definition CreatePipelineBody :: "'w client \<Rightarrow> string \<Rightarrow> string \<Rightarrow> go_error + string" where
  "CreatePipelineBody c pipelineId streamId = json_Marshal c (JObject
     [(''pipeline_ids'', JArray [JString pipelineId]), (''stream_id'', JString streamId)])"

definition CreatePipeline :: "'w client \<Rightarrow> GraylogConnector \<Rightarrow> Entity list \<Rightarrow> logging_service \<Rightarrow> ('w, unit) eff" where
  "CreatePipeline c conn pipelines cr =
     (if GetIdByTitle pipelines ''Logs routing'' = []
      then tryM (asset_text c conn GraylogPipeline cr) (\<lambda>data.
             expecting [200] (errors_New ''can't create pipeline'') (connector_POST c conn pipelineUrl data))
      else okM ())"

definition UpdatePipeline :: "'w client \<Rightarrow> GraylogConnector \<Rightarrow> Entity list \<Rightarrow> logging_service \<Rightarrow> ('w, unit) eff" where
  "UpdatePipeline c conn pipelines cr =
     (let i = GetIdByTitle pipelines ''Logs routing''
      in if i \<noteq> []
         then tryM (asset_text c conn GraylogPipeline cr) (\<lambda>data.
                expecting [200] (errors_New (''can't update pipeline '' @ i)) (connector_PUT c conn (pipelineUrl @ ''/'' @ i) data))
         else CreatePipeline c conn pipelines cr)"

definition ConnectPipeline :: "'w client \<Rightarrow> GraylogConnector \<Rightarrow> Entity list \<Rightarrow> ('w, unit) eff" where
  "ConnectPipeline c conn pipelines =
     (let logsRoutingPipelineId = GetIdByTitle pipelines ''Logs routing''
      in tryM (GetAllStreams c conn) (\<lambda>streams.
           let streamId = GetIdByTitle streams GraylogDefaultStream;
               streamId = (if streamId = [] then GetIdByTitle streams GraylogAllMessagesStream else streamId)
           in if streamId = [] then failM no_default_stream
              else tryM (pureE (CreatePipelineBody c logsRoutingPipelineId streamId)) (\<lambda>data.
                expecting [200] (errors_New ''can't connect pipeline'') (connector_POST c conn ''system/pipelines/connections/to_stream'' data))))"

definition CreateOrUpdatePipelines :: "'w client \<Rightarrow> GraylogConnector \<Rightarrow> Entity list \<Rightarrow> logging_service \<Rightarrow> ('w, unit) eff" where
  "CreateOrUpdatePipelines c conn pipelines cr =
     (if IsOnlyCreate (graylog_of cr) then CreatePipeline c conn pipelines cr
      else if IsForceUpdate (graylog_of cr) then UpdatePipeline c conn pipelines cr
      else okM ())"

definition ManagePipelines :: "'w client \<Rightarrow> GraylogConnector \<Rightarrow> logging_service \<Rightarrow> ('w, unit) eff" where
  "ManagePipelines c conn cr =
     tryM (GetAllPipelines c conn) (\<lambda>pipelines.
     tryM (CreateOrUpdatePipelines c conn pipelines cr) (\<lambda>_.
     tryM (GetAllPipelines c conn) (\<lambda>pipelines.
       ConnectPipeline c conn pipelines)))"

section \<open>Roles and users\<close>

record User =
  us_Id :: string
  us_Username :: string

definition to_User :: "(string \<rightharpoonup> string) \<Rightarrow> User" where
  "to_User m = \<lparr>us_Id = field_of m ''id'', us_Username = field_of m ''username''\<rparr>"

definition GetRole :: "'w client \<Rightarrow> GraylogConnector \<Rightarrow> string \<Rightarrow> ('w, bool \<times> int) state" where
  "GetRole c conn role = answered (connector_GET c conn (''roles/'' @ role))"

definition GetUser :: "'w client \<Rightarrow> GraylogConnector \<Rightarrow> string \<Rightarrow> ('w, bool \<times> int) state" where
  "GetUser c conn user = answered (connector_GET c conn (''users/'' @ user))"

definition GetAllUsers :: "'w client \<Rightarrow> GraylogConnector \<Rightarrow> ('w, User list) eff" where
  "GetAllUsers c conn = tryM (GetRawData c conn ''users'') (\<lambda>users.
     tryM (pureE (json_Object c users)) (\<lambda>data.
     tryM (pureE (json_Structs c [''id'', ''username''] (field_of data ''users''))) (\<lambda>ms. okM (map to_User ms))))"

definition GetUserIdByName :: "'w client \<Rightarrow> GraylogConnector \<Rightarrow> string \<Rightarrow> ('w, string) state" where
  "GetUserIdByName c conn username = do {
     r \<leftarrow> GetAllUsers c conn;
     State_Monad.return (case r of
         Inl _ \<Rightarrow> []
       | Inr users \<Rightarrow> (case find (\<lambda>v. us_Username v = username) users of None \<Rightarrow> [] | Some v \<Rightarrow> us_Id v)) }"

text \<open>The id of a stream or dashboard that has to exist.\<close>

definition required_id :: "Entity list \<Rightarrow> string \<Rightarrow> go_error \<Rightarrow> go_error + string" where
  "required_id es title e = (let i = GetIdByTitle es title in if i = [] then Inl e else Inr i)"

definition default_stream_id :: "Entity list \<Rightarrow> go_error + string" where
  "default_stream_id streams =
     (let i = GetIdByTitle streams GraylogDefaultStream
      in if i \<noteq> [] then Inr i else required_id streams GraylogAllMessagesStream no_default_stream)"

definition CreateOperatorData :: "'w client \<Rightarrow> GraylogConnector \<Rightarrow> Entity list \<Rightarrow> string \<Rightarrow> ('w, string) eff" where
  "CreateOperatorData c conn dashboards template =
     tryM (GetAllStreams c conn) (\<lambda>streams.
     tryM (pureE (required_id streams ''All events'' (errors_New ''all events stream not found''))) (\<lambda>allEventsStreamId.
     tryM (pureE (default_stream_id streams)) (\<lambda>defaultStreamId.
     tryM (pureE (required_id streams ''All system events'' (errors_New ''all system events stream not found''))) (\<lambda>allSystemEventsStreamId.
     tryM (pureE (required_id streams ''System logs'' (errors_New ''system logs stream not found''))) (\<lambda>systemLogsStreamId.
     tryM (pureE (required_id dashboards ''Sources by Service'' (errors_New ''dashboard sources for operator user not found''))) (\<lambda>sourcesDashboardId.
       settings_text c conn template [''allEventsStreamId'' \<mapsto> allEventsStreamId, ''defaultStreamId'' \<mapsto> defaultStreamId,
         ''allSystemEventsStreamId'' \<mapsto> allSystemEventsStreamId, ''systemLogsStreamId'' \<mapsto> systemLogsStreamId,
         ''sourcesDashboardId'' \<mapsto> sourcesDashboardId]))))))"

definition CreateAuditViewerData :: "'w client \<Rightarrow> GraylogConnector \<Rightarrow> Entity list \<Rightarrow> string \<Rightarrow> ('w, string) eff" where
  "CreateAuditViewerData c conn dashboards template =
     tryM (GetAllStreams c conn) (\<lambda>streams.
     tryM (pureE (required_id streams ''All events'' (errors_New ''all events stream not found''))) (\<lambda>allEventsStreamId.
     tryM (pureE (default_stream_id streams)) (\<lambda>defaultStreamId.
     tryM (pureE (required_id streams ''All system events'' (errors_New ''all system events stream not found''))) (\<lambda>allSystemEventsStreamId.
     tryM (pureE (required_id streams ''System logs'' (errors_New ''system logs stream not found''))) (\<lambda>systemLogsStreamId.
     tryM (pureE (required_id streams ''Audit logs'' (errors_New ''audit logs stream not found''))) (\<lambda>auditLogsStreamId.
     tryM (pureE (required_id dashboards ''Sources by Service'' (errors_New ''dashboard sources for audit viewer not found''))) (\<lambda>sourcesDashboardId.
       settings_text c conn template [''allEventsStreamId'' \<mapsto> allEventsStreamId, ''defaultStreamId'' \<mapsto> defaultStreamId,
         ''allSystemEventsStreamId'' \<mapsto> allSystemEventsStreamId, ''systemLogsStreamId'' \<mapsto> systemLogsStreamId,
         ''auditLogsStreamId'' \<mapsto> auditLogsStreamId, ''sourcesDashboardId'' \<mapsto> sourcesDashboardId])))))))"

definition CreateRole :: "'w client \<Rightarrow> GraylogConnector \<Rightarrow> string \<Rightarrow> ('w, unit) eff" where
  "CreateRole c conn data = expecting [201] (errors_New (''can't create role '' @ data)) (connector_POST c conn ''roles'' data)"

definition CreateUser :: "'w client \<Rightarrow> GraylogConnector \<Rightarrow> string \<Rightarrow> logging_service \<Rightarrow> ('w, unit) eff" where
  "CreateUser c conn template cr = tryM (asset_text c conn template cr) (\<lambda>data.
     expecting [201] (errors_New (''can't create user '' @ data)) (connector_POST c conn ''users'' data))"

definition UpdateUser :: "'w client \<Rightarrow> GraylogConnector \<Rightarrow> string \<Rightarrow> string \<Rightarrow> logging_service \<Rightarrow> ('w, unit) eff" where
  "UpdateUser c conn user template cr = tryM (asset_text c conn template cr) (\<lambda>data. do {
     i \<leftarrow> GetUserIdByName c conn user;
     expecting [204] (errors_New (''can't update user '' @ data)) (connector_PUT c conn (''users/'' @ i) data) })"

definition UpdateRole :: "'w client \<Rightarrow> GraylogConnector \<Rightarrow> string \<Rightarrow> string \<Rightarrow> ('w, unit) eff" where
  "UpdateRole c conn role data = expecting [200] (errors_New (''can't update role '' @ role)) (connector_PUT c conn (''roles/'' @ role) data)"

definition CreateOrUpdateRole :: "'w client \<Rightarrow> GraylogConnector \<Rightarrow> string \<Rightarrow> string \<Rightarrow> logging_service \<Rightarrow> ('w, unit) eff" where
  "CreateOrUpdateRole c conn role data cr = do {
     (_, roleStatus) \<leftarrow> GetRole c conn role;
     if roleStatus = 404 then CreateRole c conn data
     else if IsForceUpdate (graylog_of cr) \<and> roleStatus = 200 then UpdateRole c conn role data
     else okM () }"

definition CreateOrUpdateUser :: "'w client \<Rightarrow> GraylogConnector \<Rightarrow> string \<Rightarrow> string \<Rightarrow> logging_service \<Rightarrow> ('w, unit) eff" where
  "CreateOrUpdateUser c conn user template cr = do {
     (_, userStatus) \<leftarrow> GetUser c conn user;
     if userStatus = 404 then CreateUser c conn template cr
     else if IsForceUpdate (graylog_of cr) \<and> userStatus = 200 then UpdateUser c conn user template cr
     else okM () }"

definition CreateOrUpdateRoles :: "'w client \<Rightarrow> GraylogConnector \<Rightarrow> Entity list \<Rightarrow> logging_service \<Rightarrow> ('w, unit) eff" where
  "CreateOrUpdateRoles c conn dashboards cr =
     tryM (CreateOperatorData c conn dashboards GraylogOperatorRole) (\<lambda>data.
     tryM (CreateOrUpdateRole c conn ''operator'' data cr) (\<lambda>_.
     tryM (CreateAuditViewerData c conn dashboards GraylogAuditViewerRole) (\<lambda>data.
       CreateOrUpdateRole c conn ''AuditViewer'' data cr)))"

definition CreateOrUpdateUsers :: "'w client \<Rightarrow> GraylogConnector \<Rightarrow> logging_service \<Rightarrow> ('w, unit) eff" where
  "CreateOrUpdateUsers c conn cr =
     tryM (CreateOrUpdateUser c conn ''operator'' GraylogOperatorUser cr) (\<lambda>_.
     tryM (CreateOrUpdateUser c conn ''auditViewer'' GraylogAuditViewerUser cr) (\<lambda>_.
       CreateOrUpdateUser c conn ''graylog_api_th_user'' GraylogAdminWithTrustedHeader cr))"

definition ManageUserAccounts :: "'w client \<Rightarrow> GraylogConnector \<Rightarrow> logging_service \<Rightarrow> ('w, unit) eff" where
  "ManageUserAccounts c conn cr =
     tryM (GetData c conn ''dashboards'' ''elements'' None) (\<lambda>dashboards.
     tryM (CreateOrUpdateRoles c conn dashboards cr) (\<lambda>_.
       CreateOrUpdateUsers c conn cr))"

section \<open>Authentication header\<close>

definition EnableAuthHeader :: "'w client \<Rightarrow> GraylogConnector \<Rightarrow> logging_service \<Rightarrow> ('w, unit) eff" where
  "EnableAuthHeader c conn cr = tryM (asset_text c conn GraylogAuthHeader cr) (\<lambda>data.
     expecting [200] (errors_New ''can't enable HTTP header auth'') (connector_PUT c conn authHeaderUrl data))"

definition ManageAuthHeaderConfig :: "'w client \<Rightarrow> GraylogConnector \<Rightarrow> logging_service \<Rightarrow> ('w, unit) eff" where
  "ManageAuthHeaderConfig c conn cr = EnableAuthHeader c conn cr"

end
