(* ===== verification/Api_Secrets.thy ===== *)
theory Api_Secrets
  imports Component_Base
begin

text \<open>
  The methods of the custom resource that read Secrets (\<open>api/v1/loggingservice_types.go\<close>): the TLS
  settings of the connection to Graylog, and the credentials and TLS settings of other HTTP
  connections. A certificate pool is the set of the PEM texts added to it.
\<close>

definition get_secret :: "'w client \<Rightarrow> string \<Rightarrow> string \<Rightarrow> ('w, secret) eff" where
  "get_secret c ns nm = tryM (cl_Get c KSecret ns nm) (\<lambda>obj.
     case obj of OSecret s \<Rightarrow> okM s | _ \<Rightarrow> failM (errors_New ''not a Secret''))"

abbreviation namespace_error :: go_error where
  "namespace_error \<equiv> errors_New ''namespace is not setup''"

definition insecure_tls :: tls_client where
  "insecure_tls = \<lparr>tcl_InsecureSkipVerify = True, tcl_RootCAs = {}, tcl_Certificates = []\<rparr>"

text \<open>The end of all three methods: a client certificate is used when both parts are there.\<close>

definition client_tls :: "'w client \<Rightarrow> string set \<Rightarrow> string \<Rightarrow> string \<Rightarrow> ('w, tls_client option) eff" where
  "client_tls c pool certValue pkey =
     (if pkey \<noteq> [] \<and> certValue \<noteq> []
      then tryM (pureE (net_KeyPair c certValue pkey)) (\<lambda>_.
        okM (Some \<lparr>tcl_InsecureSkipVerify = False, tcl_RootCAs = pool, tcl_Certificates = [(certValue, pkey)]\<rparr>))
      else okM (Some \<lparr>tcl_InsecureSkipVerify = False, tcl_RootCAs = pool, tcl_Certificates = []\<rparr>))"

definition pem_error :: go_error where
  "pem_error = errors_New ''can't parse Certificate Authority''"

text \<open>A value of the CA Secret under the key, or of the Secret named for it.\<close>

definition shared_or_own :: "'w client \<Rightarrow> string \<Rightarrow> secret \<Rightarrow> string \<Rightarrow> string \<Rightarrow> ('w, string) eff" where
  "shared_or_own c ns shared nm key =
     (case mget (se_Data shared) key of
        Some value \<Rightarrow> okM value
      | None \<Rightarrow> tryM (get_secret c ns nm) (\<lambda>own. okM (mstr (se_Data own) key)))"

definition ca_certificates :: "'w client \<Rightarrow> http_graylog_tls \<Rightarrow> string \<Rightarrow> ('w, tls_client option) eff" where
  "ca_certificates c t ns =
     tryM (get_secret c ns (hgt_CACerts t)) (\<lambda>secret.
       if mempty (se_Data secret)
       then failM (Errorf [Lit ''can't find Certificate Authority '', ArgS (hgt_CACerts t)])
       else tryM (case (hgt_Cert t, hgt_Key t) of
                    (Some cert, Some key) \<Rightarrow>
                      if cert_SecretName cert \<noteq> [] \<and> key_SecretName key \<noteq> []
                      then tryM (shared_or_own c ns secret (cert_SecretName cert) (cert_SecretKey cert)) (\<lambda>certValue.
                           tryM (shared_or_own c ns secret (key_SecretName key) (key_SecretKey key)) (\<lambda>pkey.
                             okM (certValue, pkey)))
                      else okM ([], [])
                  | _ \<Rightarrow> okM ([], [])) (\<lambda>(certValue, pkey).
            if \<exists>pem \<in> ran (mcontents (se_Data secret)). \<not> net_IsPEM c pem then failM pem_error
            else client_tls c (ran (mcontents (se_Data secret))) certValue pkey))"

definition generated_certificates :: "'w client \<Rightarrow> string \<Rightarrow> string \<Rightarrow> ('w, tls_client option) eff" where
  "generated_certificates c nm ns =
     tryM (get_secret c ns nm) (\<lambda>secret.
       let data = se_Data secret;
           isTLS = (se_Type secret = ''kubernetes.io/tls'')
       in if mempty data then failM (Errorf [Lit ''can't find generate certificates '', ArgS nm])
          else if isTLS \<and> (case mget data ''ca.crt'' of Some ca \<Rightarrow> \<not> net_IsPEM c ca | None \<Rightarrow> False) then failM pem_error
          else client_tls c (if isTLS then set_option (mget data ''ca.crt'') else {})
                 (if isTLS then mstr data ''tls.crt'' else []) (if isTLS then mstr data ''tls.key'' else []))"

definition HTTPGraylogTLS_GetCertificates :: "'w client \<Rightarrow> http_graylog_tls \<Rightarrow> string \<Rightarrow> ('w, tls_client option) eff" where
  "HTTPGraylogTLS_GetCertificates c t ns =
     (if ns = [] then failM namespace_error
      else if hgt_InsecureSkipVerify t then okM (Some insecure_tls)
      else if hgt_CACerts t \<noteq> [] then ca_certificates c t ns
      else case hgt_GenerateCerts t of
             Some g \<Rightarrow> if gc_Enabled g then generated_certificates c (gc_SecretName g) ns
                       else failM (errors_New ''can't find any certificate configured'')
           | None \<Rightarrow> failM (errors_New ''can't find any certificate configured''))"

definition selector_named :: "secret_key_selector option \<Rightarrow> bool" where
  "selector_named sel = (case sel of None \<Rightarrow> False | Some s \<Rightarrow> sks_Name s \<noteq> [])"

definition GetCredentials :: "'w client \<Rightarrow> credentials \<Rightarrow> string \<Rightarrow> ('w, string \<times> string \<times> string) eff" where
  "GetCredentials c cred ns =
     (if ns = [] then failM namespace_error
      else case (cred_User cred, cred_Password cred) of
             (Some user, Some password) \<Rightarrow>
               if sks_Name user \<noteq> [] \<and> sks_Name password \<noteq> []
               then tryM (get_secret c ns (sks_Name user)) (\<lambda>userSecret.
                    tryM (if sks_Name user \<noteq> sks_Name password then get_secret c ns (sks_Name password) else okM userSecret) (\<lambda>pwdSecret.
                      okM (mstr (se_Data pwdSecret) (sks_Key user), mstr (se_Data pwdSecret) (sks_Key password), [])))
               else failM (errors_New ''authorization data is empty or provided partially'')
           | _ \<Rightarrow> failM (errors_New ''authorization data is empty or provided partially''))"

text \<open>A value of another Secret, or of the CA Secret when it has the same name.\<close>

definition own_or_shared :: "'w client \<Rightarrow> string \<Rightarrow> secret \<Rightarrow> string \<Rightarrow> secret_key_selector \<Rightarrow> ('w, string) eff" where
  "own_or_shared c ns shared sharedName sel =
     (if sks_Name sel \<noteq> sharedName
      then tryM (get_secret c ns (sks_Name sel)) (\<lambda>own. okM (mstr (se_Data own) (sks_Key sel)))
      else okM (mstr (se_Data shared) (sks_Key sel)))"

definition TLSConfig_GetCertificates :: "'w client \<Rightarrow> tls_config \<Rightarrow> string \<Rightarrow> ('w, tls_client option) eff" where
  "TLSConfig_GetCertificates c t ns =
     (if ns = [] then failM namespace_error
      else case tlc_CA t of
             None \<Rightarrow> okM None
           | Some ca \<Rightarrow>
               if sks_Name ca = [] \<or> sks_Key ca = [] then okM None
               else tryM (get_secret c ns (sks_Name ca)) (\<lambda>caSecret.
                 case mget (se_Data caSecret) (sks_Key ca) of
                   None \<Rightarrow> failM (Errorf [Lit ''can't find Certificate Authority with key '', ArgS (sks_Key ca)])
                 | Some caCert \<Rightarrow>
                     tryM (if selector_named (tlc_Cert t) \<and> selector_named (tlc_Key t)
                           then tryM (own_or_shared c ns caSecret (sks_Name ca) (the (tlc_Cert t))) (\<lambda>certValue.
                                tryM (own_or_shared c ns caSecret (sks_Name ca) (the (tlc_Key t))) (\<lambda>pkey.
                                  okM (certValue, pkey)))
                           else okM ([], [])) (\<lambda>(certValue, pkey).
                       if \<not> net_IsPEM c caCert then failM pem_error
                       else client_tls c {caCert} certValue pkey)))"

definition GetCredentialsAndCertificates :: "'w client \<Rightarrow> http_config \<Rightarrow> string
    \<Rightarrow> ('w, (string \<times> string \<times> string) \<times> tls_client option) eff" where
  "GetCredentialsAndCertificates c h ns =
     (if ns = [] then failM namespace_error
      else tryM (case htc_Credentials h of None \<Rightarrow> okM ([], [], []) | Some cred \<Rightarrow> GetCredentials c cred ns) (\<lambda>creds.
           case htc_TLSConfig h of
             None \<Rightarrow> okM (creds, Some insecure_tls)
           | Some t \<Rightarrow> if tlc_InsecureSkipVerify t then okM (creds, Some insecure_tls)
                       else tryM (TLSConfig_GetCertificates c t ns) (\<lambda>tls. okM (creds, tls))))"

section \<open>What is read\<close>

text \<open>The methods only read the cluster.\<close>

lemma keeps_get_secret: "cluster_laws c view \<Longrightarrow> keeps (only_changes view K) (get_secret c ns nm)"
  unfolding get_secret_def
  by (intro cluster.keeps_rules keeps_Get) (auto split: object.split intro: cluster.keeps_rules)

lemma keeps_certificates:
  assumes "cluster_laws c view"
  shows "keeps (only_changes view K) (HTTPGraylogTLS_GetCertificates c t ns)"
    and "keeps (only_changes view K) (GetCredentialsAndCertificates c h ns)"
  unfolding HTTPGraylogTLS_GetCertificates_def ca_certificates_def generated_certificates_def GetCredentialsAndCertificates_def
    GetCredentials_def TLSConfig_GetCertificates_def client_tls_def shared_or_own_def own_or_shared_def Let_def
  by (intro cluster.keeps_rules keeps_get_secret [OF assms])+

end
