(* ===== verification/Go_Text.thy ===== *)
theory Go_Text
  imports Labels
begin

text \<open>
  Parts of the Go standard library on text that several components use: file paths as \<open>path/filepath\<close>
  handles them on Unix, the lines of a \<open>bufio.Scanner\<close>, fields and lower case.
\<close>

section \<open>Paths\<close>

text \<open>\<open>filepath.Clean\<close>: empty and \<open>.\<close> elements are dropped, \<open>..\<close> removes the element before it.\<close>

definition clean_step :: "bool \<Rightarrow> string list \<Rightarrow> string \<Rightarrow> string list" where
  "clean_step rooted out e =
     (if e = [] \<or> e = ''.'' then out
      else if e = ''..'' then
        (if out \<noteq> [] \<and> last out \<noteq> ''..'' then butlast out else if rooted then out else out @ [e])
      else out @ [e])"

definition clean_elements :: "string \<Rightarrow> string list" where
  "clean_elements p = foldl (clean_step (p \<noteq> [] \<and> hd p = CHR ''/'')) [] (go_Split p ''/'')"

definition filepath_Clean :: "string \<Rightarrow> string" where
  "filepath_Clean p =
     (let t = (if p \<noteq> [] \<and> hd p = CHR ''/'' then ''/'' else []) @ go_Join (clean_elements p) ''/''
      in if t = [] then ''.'' else t)"

definition filepath_Join :: "string list \<Rightarrow> string" where
  "filepath_Join es =
     (case dropWhile (\<lambda>e. e = []) es of [] \<Rightarrow> [] | es' \<Rightarrow> filepath_Clean (go_Join es' ''/''))"

definition filepath_Dir :: "string \<Rightarrow> string" where
  "filepath_Dir p = filepath_Clean (rev (dropWhile (\<lambda>x. x \<noteq> CHR ''/'') (rev p)))"

definition filepath_Base :: "string \<Rightarrow> string" where
  "filepath_Base p =
     (if p = [] then ''.''
      else let stripped = rev (dropWhile (\<lambda>x. x = CHR ''/'') (rev p));
               base = rev (takeWhile (\<lambda>x. x \<noteq> CHR ''/'') (rev stripped))
           in if base = [] then ''/'' else base)"

text \<open>The file name of \<open>filepath.Split\<close> and the directory with its slash.\<close>

definition filepath_Split :: "string \<Rightarrow> string \<times> string" where
  "filepath_Split p =
     (let file = rev (takeWhile (\<lambda>x. x \<noteq> CHR ''/'') (rev p)) in (take (length p - length file) p, file))"

section \<open>Lines\<close>

text \<open>The lines a scanner splits the input into, before a carriage return at their end is dropped.\<close>

definition drop_cr :: "string \<Rightarrow> string" where
  "drop_cr line = (if line \<noteq> [] \<and> last line = CHR 0x0D then butlast line else line)"

fun raw_lines :: "string \<Rightarrow> string \<Rightarrow> string list" where
  "raw_lines [] line = (if line = [] then [] else [line])"
| "raw_lines (x # xs) line = (if x = CHR 0x0A then line # raw_lines xs [] else raw_lines xs (line @ [x]))"

definition unlines :: "string list \<Rightarrow> string" where
  "unlines ls = concat (map (\<lambda>l. l @ [CHR 0x0A]) ls)"

lemma raw_lines_crlf:
  assumes "CHR 0x0A \<notin> set l"
  shows "raw_lines (l @ CHR 0x0A # rest) line = (line @ l) # raw_lines rest []"
  using assms by (induction l arbitrary: line) auto

lemma drop_cr_snoc: "drop_cr (l @ [CHR 0x0D]) = l"
  by (simp add: drop_cr_def)

section \<open>Words\<close>

text \<open>\<open>strings.Fields\<close>: the maximal runs of characters that are not white space.\<close>

definition word_length :: "string \<Rightarrow> nat" where
  "word_length s = length (takeWhile (\<lambda>i. leading_space (drop i s) = 0) [0..<length s])"

lemma word_length_pos: "s \<noteq> [] \<Longrightarrow> leading_space s = 0 \<Longrightarrow> word_length s > 0"
  by (cases s) (simp_all add: word_length_def upt_conv_Cons del: upt_Suc)

function go_Fields :: "string \<Rightarrow> string list" where
  "go_Fields s =
     (if s = [] then []
      else if leading_space s > 0 then go_Fields (drop (leading_space s) s)
      else take (word_length s) s # go_Fields (drop (word_length s) s))"
  by pat_completeness auto

termination
  by (relation "measure length") (auto simp: word_length_pos)

declare go_Fields.simps [simp del]

text \<open>\<open>strings.ToLower\<close> as far as a comparison with ASCII text can tell: besides the ASCII capitals, the
  Kelvin sign and the capital I with a dot have ASCII lower-case letters.\<close>

fun ascii_ToLower :: "string \<Rightarrow> string" where
  "ascii_ToLower (a # b # s) =
     (if [a, b] = [CHR 0xC4, CHR 0xB0] then CHR ''i'' # ascii_ToLower s
      else (case s of
          c # t \<Rightarrow> if [a, b, c] = [CHR 0xE2, CHR 0x84, CHR 0xAA] then CHR ''k'' # ascii_ToLower t
                    else fold_char a # ascii_ToLower (b # s)
        | [] \<Rightarrow> fold_char a # ascii_ToLower (b # s)))"
| "ascii_ToLower s = map fold_char s"

end
