(* ===== verification/Graylog_Packs.thy ===== *)
theory Graylog_Packs
  imports Graylog_Routing Api_Secrets Go_Text
begin

text \<open>
  Files and what the operator loads from them: downloads and archives (\<open>utils/files.go\<close>), content packs,
  saved searches and views, and requests to OpenSearch (\<open>contentpacks.go\<close>, \<open>saved-searches.go\<close>,
  \<open>elasticsearch-configs.go\<close>). Paths are handled as \<open>path/filepath\<close> does on Unix; the file system, zip
  archives and the HTTP exchange are operations of the client record.
\<close>

section \<open>Files\<close>

definition ReadFile :: "'w client \<Rightarrow> string \<Rightarrow> ('w, string) eff" where
  "ReadFile c filePath = os_ReadFile c filePath"

definition status_error :: "int \<Rightarrow> string \<Rightarrow> go_error" where
  "status_error code body = Errorf [Lit ''request failed with status '', ArgS (go_Itoa code), Lit '': '', ArgS body]"

definition DownloadFile :: "'w client \<Rightarrow> string \<Rightarrow> string \<Rightarrow> ('w, unit) eff" where
  "DownloadFile c fullURLFile fileName =
     tryM (os_Create c fileName) (\<lambda>_.
     tryM (pureE (net_Resolve c fullURLFile fullURLFile)) (\<lambda>url.
     tryM (net_Do c \<lparr>rq_Method = ''GET'', rq_URL = url, rq_Headers = [], rq_Body = [], rq_TLS = Some insecure_tls\<rparr>) (\<lambda>(body, code).
       if code \<ge> 400 then failM (status_error code body)
       else os_Copy c fileName body)))"

definition pack_client :: "'w client \<Rightarrow> content_pack_path \<Rightarrow> string \<Rightarrow> ('w, RestClient) eff" where
  "pack_client c path ns =
     (case cpp_HTTPConfig path of
        None \<Rightarrow> okM \<lparr>rc_TLS = None, rc_Auth = None, rc_Host = []\<rparr>
      | Some h \<Rightarrow>
          tryM (GetCredentialsAndCertificates c h ns) (\<lambda>((name, pwd, token), tls).
            okM \<lparr>rc_TLS = tls, rc_Auth = (if name \<noteq> [] \<and> pwd \<noteq> [] \<or> token \<noteq> []
                   then Some \<lparr>cr_Name = name, cr_Password = pwd, cr_Token = token\<rparr> else None), rc_Host = []\<rparr>))"

definition DownloadFileTLS :: "'w client \<Rightarrow> content_pack_path \<Rightarrow> string \<Rightarrow> string \<Rightarrow> ('w, unit) eff" where
  "DownloadFileTLS c path fileName ns =
     tryM (os_Create c fileName) (\<lambda>_.
     tryM (pack_client c path ns) (\<lambda>rc.
     tryM (pureE (net_Resolve c (cpp_URL path) (cpp_URL path))) (\<lambda>url.
     tryM (net_Do c (SetAuthHeader rc \<lparr>rq_Method = ''GET'', rq_URL = url, rq_Headers = [], rq_Body = [], rq_TLS = rc_TLS rc\<rparr>)) (\<lambda>(body, code).
       os_Copy c fileName body))))"

fun unzip_files :: "'w client \<Rightarrow> string \<Rightarrow> string \<Rightarrow> zip_file list \<Rightarrow> string list \<Rightarrow> ('w, string list) eff" where
  "unzip_files c src dest [] filenames = okM filenames"
| "unzip_files c src dest (f # files) filenames =
     (let fpath = filepath_Join [dest, zf_Name f]
      in if \<not> go_HasPrefix fpath (filepath_Clean dest @ ''/'')
         then failM (Errorf [ArgS fpath, Lit '': illegal file path''])
         else if zf_IsDir f
         then tryM (os_MkdirAll c fpath) (\<lambda>_. unzip_files c src dest files (filenames @ [fpath]))
         else tryM (os_MkdirAll c (filepath_Dir fpath)) (\<lambda>_.
              tryM (os_Create c fpath) (\<lambda>_.
              tryM (zip_Read c src f) (\<lambda>text.
              tryM (os_Copy c fpath text) (\<lambda>_.
                unzip_files c src dest files (filenames @ [fpath]))))))"

definition Unzip :: "'w client \<Rightarrow> string \<Rightarrow> string \<Rightarrow> ('w, string list) eff" where
  "Unzip c src dest = tryM (zip_Open c src) (\<lambda>files. unzip_files c src dest files [])"

section \<open>Content packs\<close>

definition contentPacksDir :: string where "contentPacksDir = ''content-packs''"

abbreviation dataDir :: "'w client \<Rightarrow> string" where
  "dataDir c \<equiv> os_TempDir c"

text \<open>A file of the data directory, rendered as a template.\<close>

definition data_file_text :: "'w client \<Rightarrow> string \<Rightarrow> string \<Rightarrow> logging_service \<Rightarrow> ('w, string) eff" where
  "data_file_text c dir name cr =
     (let path = filepath_Join [dataDir c, dir, name]
      in tryM (ReadFile c path) (\<lambda>fileContent. sys_ParseTemplate c fileContent path (PlainParameters (ToParams cr))))"

text \<open>A loop over the files of a directory that may not exist.\<close>

definition each_file :: "'w client \<Rightarrow> string \<Rightarrow> (string \<Rightarrow> ('w, unit) eff) \<Rightarrow> ('w, unit) eff" where
  "each_file c dir upload = do {
     r \<leftarrow> os_Stat c (filepath_Join [dataDir c, dir]);
     case r of
       Inr _ \<Rightarrow> tryM (os_ReadDir c (filepath_Join [dataDir c, dir])) (\<lambda>files. for_each files upload)
     | Inl e \<Rightarrow> if os_IsNotExist c e then okM () else failM e }"

definition UploadContentPack :: "'w client \<Rightarrow> GraylogConnector \<Rightarrow> string \<Rightarrow> logging_service \<Rightarrow> ('w, unit) eff" where
  "UploadContentPack c conn name cr = tryM (data_file_text c contentPacksDir name cr) (\<lambda>data.
     expecting [201] (errors_New (''can't upload content-pack '' @ name)) (connector_POST c conn contentpacksUrl data))"

definition replaceFuncContentPackInstallations :: "string \<Rightarrow> string" where
  "replaceFuncContentPackInstallations data = go_ReplaceAll data ''_id'' ''id''"

definition DeleteDefaultContentPack :: "'w client \<Rightarrow> GraylogConnector \<Rightarrow> ('w, unit) eff" where
  "DeleteDefaultContentPack c conn =
     tryM (GetData c conn (contentPackInstallationsUrl oobContentPackId) ''installations'' (Some replaceFuncContentPackInstallations)) (\<lambda>installations.
     tryM (for_each installations (\<lambda>installation.
             expecting [200] (errors_New ''can't delete content pack installation'')
               (connector_DELETE c conn (contentPackInstallationUrl oobContentPackId (en_Id installation))))) (\<lambda>_.
       expecting [204] (errors_New ''can't delete content pack'') (connector_DELETE c conn (contentpacksUrl @ ''/'' @ oobContentPackId))))"

definition UploadDefaultContentPack :: "'w client \<Rightarrow> GraylogConnector \<Rightarrow> logging_service \<Rightarrow> ('w, unit) eff" where
  "UploadDefaultContentPack c conn cr = tryM (asset_text c conn GraylogDashboard cr) (\<lambda>data.
     expecting [201] (errors_New ''can't upload content pack'') (connector_POST c conn contentpacksUrl data))"

definition InstallDefaultContentPack :: "'w client \<Rightarrow> GraylogConnector \<Rightarrow> logging_service \<Rightarrow> ('w, unit) eff" where
  "InstallDefaultContentPack c conn cr = tryM (asset_text c conn GraylogDashboardInstallation cr) (\<lambda>data.
     expecting [200] (errors_New ''can't install dashboard'') (connector_POST c conn oobContentPackInstallUrl data))"

definition UploadContentPacks :: "'w client \<Rightarrow> GraylogConnector \<Rightarrow> logging_service \<Rightarrow> ('w, unit) eff" where
  "UploadContentPacks c conn cr = each_file c contentPacksDir (\<lambda>name. UploadContentPack c conn name cr)"

text \<open>What happens to a downloaded file, in both loops.\<close>

definition unpack :: "'w client \<Rightarrow> string \<Rightarrow> ('w, unit) eff" where
  "unpack c fullName =
     (if go_HasSuffix fullName ''.zip''
      then tryM (Unzip c fullName (filepath_Join [dataDir c])) (\<lambda>_. os_Remove c fullName)
      else okM ())"

definition ManageContentPacks :: "'w client \<Rightarrow> GraylogConnector \<Rightarrow> logging_service \<Rightarrow> ('w, unit) eff" where
  "ManageContentPacks c conn cr =
     tryM (for_each (go_Split (gl_ContentPackPaths (graylog_of cr)) '','') (\<lambda>item.
             let fullName = filepath_Join [dataDir c, filepath_Base item]
             in tryM (DownloadFile c item fullName) (\<lambda>_. unpack c fullName))) (\<lambda>_.
       UploadContentPacks c conn cr)"

definition ManageContentPackTLS :: "'w client \<Rightarrow> GraylogConnector \<Rightarrow> logging_service \<Rightarrow> ('w, unit) eff" where
  "ManageContentPackTLS c conn cr =
     tryM (for_each (case gl_ContentPacks (graylog_of cr) of None \<Rightarrow> [] | Some packs \<Rightarrow> packs) (\<lambda>item.
             let fullName = filepath_Join [dataDir c, filepath_Base (cpp_URL item)]
             in tryM (DownloadFileTLS c item fullName (om_Namespace (ls_ObjectMeta cr))) (\<lambda>_. unpack c fullName))) (\<lambda>_.
       UploadContentPacks c conn cr)"

definition ManageDashboards :: "'w client \<Rightarrow> GraylogConnector \<Rightarrow> logging_service \<Rightarrow> ('w, unit) eff" where
  "ManageDashboards c conn cr =
     tryM (GetData c conn contentpacksUrl ''content_packs'' None) (\<lambda>contentPacks.
       let g = graylog_of cr;
           existsDefault = list_ex (\<lambda>p. go_EqualFold (en_Id p) oobContentPackId) contentPacks
       in tryM (if existsDefault \<and> IsForceUpdate g then DeleteDefaultContentPack c conn else okM ()) (\<lambda>_.
          if IsForceUpdate g \<or> IsOnlyCreate g \<and> \<not> existsDefault
          then tryM (UploadDefaultContentPack c conn cr) (\<lambda>_. InstallDefaultContentPack c conn cr)
          else okM ()))"

section \<open>Saved searches\<close>

definition savedSearchesDir :: string where "savedSearchesDir = ''saved-searches/''"

fun find_by_id :: "int \<Rightarrow> Entity list \<Rightarrow> string \<Rightarrow> int \<times> bool" where
  "find_by_id i [] val = (-1, False)"
| "find_by_id i (item # items) val = (if en_Id item = val then (i, True) else find_by_id (i + 1) items val)"

definition FindById :: "Entity list \<Rightarrow> string \<Rightarrow> int \<times> bool" where
  "FindById items val = find_by_id 0 items val"

definition GetAllViews :: "'w client \<Rightarrow> GraylogConnector \<Rightarrow> ('w, Entity list) eff" where
  "GetAllViews c conn = GetData c conn ''views'' ''views'' None"

definition Upload :: "'w client \<Rightarrow> GraylogConnector \<Rightarrow> string \<Rightarrow> string \<Rightarrow> logging_service \<Rightarrow> ('w, unit) eff" where
  "Upload c conn path template cr = tryM (asset_text c conn template cr) (\<lambda>data.
     expecting [200, 201] (errors_New (''can't upload the content. Path: '' @ path)) (connector_POST c conn path data))"

text \<open>The second group of the first match of \<open>("id"\s?:\s?")([a-z,0-9]*)"\<close>.\<close>

definition skip_space :: "string \<Rightarrow> string" where
  "skip_space s = (if s \<noteq> [] \<and> hd s \<in> set [CHR 9, CHR 10, CHR 12, CHR 13, CHR 32] then tl s else s)"

definition match_view_id :: "string \<Rightarrow> string option" where
  "match_view_id s =
     (if \<not> prefix ''\"id\"'' s then None
      else let s = skip_space (drop 4 s)
           in if \<not> prefix '':'' s then None
              else let s = skip_space (tl s)
                   in if \<not> prefix ''\"'' s then None
                      else let s = tl s;
                               v = takeWhile (\<lambda>x. x \<in> set ''abcdefghijklmnopqrstuvwxyz,0123456789'') s
                           in if prefix ''\"'' (drop (length v) s) then Some v else None)"

fun find_view_id :: "string \<Rightarrow> string option" where
  "find_view_id [] = None"
| "find_view_id (x # s) = (case match_view_id (x # s) of Some v \<Rightarrow> Some v | None \<Rightarrow> find_view_id s)"

definition UploadCustomSavedSearch :: "'w client \<Rightarrow> GraylogConnector \<Rightarrow> string \<Rightarrow> logging_service \<Rightarrow> ('w, unit) eff" where
  "UploadCustomSavedSearch c conn name cr = tryM (data_file_text c savedSearchesDir name cr) (\<lambda>data.
     if go_HasSuffix name ''search.json'' then
       expecting [201] (errors_New (''can't upload saved-search '' @ name)) (connector_POST c conn ''views/search'' data)
     else if go_HasSuffix name ''view.json'' then
       tryM (case find_view_id data of
               None \<Rightarrow> okM ()
             | Some viewId \<Rightarrow>
                 tryM (GetAllViews c conn) (\<lambda>views.
                   if snd (FindById views viewId) then tryM (connector_DELETE c conn (''views/'' @ viewId)) (\<lambda>_. okM ()) else okM ())) (\<lambda>_.
         expecting [200, 201] (errors_New (''can't upload view '' @ name)) (connector_POST c conn ''views'' data))
     else failM (errors_New (''Incorrect filename of saved-search: '' @ name)))"

definition UpdateOrCreateSearch :: "'w client \<Rightarrow> GraylogConnector \<Rightarrow> Entity list \<Rightarrow> string \<Rightarrow> string \<Rightarrow> logging_service \<Rightarrow> ('w, unit) eff" where
  "UpdateOrCreateSearch c conn savedSearches title template cr = Upload c conn ''views/search'' template cr"

definition CreateSearch :: "'w client \<Rightarrow> GraylogConnector \<Rightarrow> Entity list \<Rightarrow> string \<Rightarrow> string \<Rightarrow> logging_service \<Rightarrow> ('w, unit) eff" where
  "CreateSearch c conn savedSearches title template cr =
     (if GetIdByTitle savedSearches title = [] then Upload c conn ''views/search'' template cr else okM ())"

definition CreateView :: "'w client \<Rightarrow> GraylogConnector \<Rightarrow> Entity list \<Rightarrow> string \<Rightarrow> string \<Rightarrow> logging_service \<Rightarrow> ('w, unit) eff" where
  "CreateView c conn savedSearches title template cr =
     (if GetIdByTitle savedSearches title = [] then Upload c conn ''views/'' template cr else okM ())"

definition UpdateOrCreateSavedSearches :: "'w client \<Rightarrow> GraylogConnector \<Rightarrow> Entity list \<Rightarrow> logging_service \<Rightarrow> ('w, unit) eff" where
  "UpdateOrCreateSavedSearches c conn savedSearches cr =
     tryM (UpdateOrCreateSearch c conn savedSearches ''Cloud events'' GraylogCloudEventsSearch cr) (\<lambda>_.
       UpdateOrCreateSearch c conn savedSearches ''User session history'' GraylogUserSessionHistorySearch cr)"

definition CreateSavedSearches :: "'w client \<Rightarrow> GraylogConnector \<Rightarrow> Entity list \<Rightarrow> logging_service \<Rightarrow> ('w, unit) eff" where
  "CreateSavedSearches c conn savedSearches cr =
     tryM (CreateSearch c conn savedSearches ''Cloud events'' GraylogCloudEventsSearch cr) (\<lambda>_.
       CreateSearch c conn savedSearches ''User session history'' GraylogUserSessionHistorySearch cr)"

definition CreateViews :: "'w client \<Rightarrow> GraylogConnector \<Rightarrow> Entity list \<Rightarrow> logging_service \<Rightarrow> ('w, unit) eff" where
  "CreateViews c conn savedSearches cr =
     tryM (CreateView c conn savedSearches ''Cloud events'' GraylogCloudEventsView cr) (\<lambda>_.
       CreateView c conn savedSearches ''User session history'' GraylogUserSessionHistoryView cr)"

definition CreateOrUpdateSavedSearches :: "'w client \<Rightarrow> GraylogConnector \<Rightarrow> Entity list \<Rightarrow> logging_service \<Rightarrow> ('w, unit) eff" where
  "CreateOrUpdateSavedSearches c conn savedSearches cr =
     (if IsOnlyCreate (graylog_of cr) then CreateSavedSearches c conn savedSearches cr
      else if IsForceUpdate (graylog_of cr) then UpdateOrCreateSavedSearches c conn savedSearches cr
      else okM ())"

definition ManageCustomSavedSearches :: "'w client \<Rightarrow> GraylogConnector \<Rightarrow> logging_service \<Rightarrow> ('w, unit) eff" where
  "ManageCustomSavedSearches c conn cr = each_file c savedSearchesDir (\<lambda>name. UploadCustomSavedSearch c conn name cr)"

definition ManageSavedSearches :: "'w client \<Rightarrow> GraylogConnector \<Rightarrow> logging_service \<Rightarrow> ('w, unit) eff" where
  "ManageSavedSearches c conn cr =
     tryM (GetData c conn ''views'' ''views'' None) (\<lambda>savedSearches.
     tryM (CreateOrUpdateSavedSearches c conn savedSearches cr) (\<lambda>_.
     tryM (CreateViews c conn savedSearches cr) (\<lambda>_.
       ManageCustomSavedSearches c conn cr)))"

section \<open>OpenSearch\<close>

definition elasticsearchConfigsDir :: string where "elasticsearchConfigsDir = ''elasticsearch-configs''"
definition openSearchConfigsDir :: string where "openSearchConfigsDir = ''opensearch-configs''"
definition snapshotArchivesRequestUrl :: string where "snapshotArchivesRequestUrl = ''_snapshot/archives''"
definition operatorElasticHostFile :: string where
  "operatorElasticHostFile = ''/etc/logging-operator/graylog-secret/elasticsearchHost''"

definition readSecretFileValue :: "'w client \<Rightarrow> string \<Rightarrow> ('w, string) eff" where
  "readSecretFileValue c path = tryM (os_ReadFile c path) (\<lambda>data. okM (go_TrimSpace data))"

definition SendRequestToOpenSearch :: "'w client \<Rightarrow> GraylogConnector \<Rightarrow> string \<Rightarrow> string \<Rightarrow> string \<Rightarrow> ('w, unit) eff" where
  "SendRequestToOpenSearch c conn mthd urlPath data =
     (let rc = gc_OpenSearchRestClient conn
      in tryM (pureE (net_JoinPath c (rc_Host rc) urlPath)) (\<lambda>requestUrl.
         tryM (net_Do c (SetAuthHeader rc \<lparr>rq_Method = mthd, rq_URL = requestUrl,
                 rq_Headers = [(''Content-Type'', ''application/json'')], rq_Body = data, rq_TLS = rc_TLS rc\<rparr>)) (\<lambda>(body, code).
           if code \<ge> 400 then failM (status_error code body) else okM ())))"

definition UploadConfig :: "'w client \<Rightarrow> GraylogConnector \<Rightarrow> string \<Rightarrow> logging_service \<Rightarrow> string \<Rightarrow> ('w, unit) eff" where
  "UploadConfig c conn name cr configsDir = tryM (data_file_text c configsDir name cr) (\<lambda>rawConfigs.
     tryM (pureE (json_Object c rawConfigs)) (\<lambda>data.
     tryM (pureE (json_Requests c (field_of data ''requests''))) (\<lambda>allRequests.
       for_each allRequests (\<lambda>(mthd, url, body).
         tryM (pureE (json_Marshal c body)) (\<lambda>text. SendRequestToOpenSearch c conn mthd url text)))))"

definition ManageOpensearchConfigs :: "'w client \<Rightarrow> GraylogConnector \<Rightarrow> logging_service \<Rightarrow> ('w, unit) eff" where
  "ManageOpensearchConfigs c conn cr =
     for_each [openSearchConfigsDir, elasticsearchConfigsDir] (\<lambda>configsDir.
       each_file c configsDir (\<lambda>name. UploadConfig c conn name cr configsDir))"

definition replace_first :: "string \<Rightarrow> string \<Rightarrow> string \<Rightarrow> string" where
  "replace_first s old new = (case go_Cut s old of (b, a, found) \<Rightarrow> if found then b @ new @ a else s)"

definition ManageArchivesDirectory :: "'w client \<Rightarrow> GraylogConnector \<Rightarrow> logging_service \<Rightarrow> ('w, unit) eff" where
  "ManageArchivesDirectory c conn cr =
     (let host = (case gl_OpenSearch (graylog_of cr) of None \<Rightarrow> [] | Some os \<Rightarrow> osr_Host os)
      in tryM (if host = [] then readSecretFileValue c operatorElasticHostFile else okM host) (\<lambda>elasticsearchHost.
         tryM (asset_text c conn GraylogArchivesDirectory cr) (\<lambda>data.
           let data = (if go_Contains elasticsearchHost ''opensearch'' then replace_first data ''elasticsearch'' ''opensearch'' else data)
           in SendRequestToOpenSearch c conn ''PUT'' snapshotArchivesRequestUrl data)))"

end
