(* ===== verification/Graylog_Frames.thy ===== *)
theory Graylog_Frames
  imports Graylog_Packs
begin

text \<open>
  What the content management of Graylog does to the world, for any frame relation: the locale
  \<open>content_frame\<close> states which calls the relation allows, with every change of existing content only
  when the policy forces it, and proves that each \<open>Manage\<close> operation stays within. The two relations it is
  used with are \<open>only_sends\<close>, on the requests sent, and the frame on the objects of the cluster.
\<close>

section \<open>The frame\<close>

locale content_frame = effect_frame R for R :: "'w \<Rightarrow> 'w \<Rightarrow> bool" +
  fixes c :: "'w client" and conn :: GraylogConnector and force :: bool
  assumes frame_parse: "keeps R (sys_ParseTemplate c t p ps)"
    and frame_range: "keeps R (sys_MapRange c ks)"
    and frame_GET: "keeps R (connector_GET c conn p)"
    and frame_POST: "keeps R (connector_POST c conn p d)"
    and frame_PUT_index_set: "keeps R (connector_PUT c conn (indexSetsUrl @ ''/'' @ i) d)"
    and frame_PUT_processors: "keeps R (connector_PUT c conn ''system/messageprocessors/config'' d)"
    and frame_PUT_header: "keeps R (connector_PUT c conn authHeaderUrl d)"
    and frame_DELETE_view: "keeps R (connector_DELETE c conn (''views/'' @ v))"
    and frame_PUT: "force \<Longrightarrow> keeps R (connector_PUT c conn p d)"
    and frame_DELETE: "force \<Longrightarrow> keeps R (connector_DELETE c conn p)"
begin

lemma frame_expecting: "keeps R m \<Longrightarrow> keeps R (expecting codes e m)"
  unfolding expecting_def by (intro keeps_rules)

lemma frame_answered: "keeps R m \<Longrightarrow> keeps R (answered m)"
  unfolding answered_def by (intro keeps_rules)

lemma frame_asset_text: "keeps R (asset_text c conn path cr)"
  unfolding asset_text_def by (rule frame_parse)

lemma frame_settings_text: "keeps R (settings_text c conn path settings)"
  unfolding settings_text_def by (rule frame_parse)

lemma frame_range_map: "(\<And>k v. map_of m k = Some v \<Longrightarrow> keeps R (f k v)) \<Longrightarrow> keeps R (range_map c m f)"
  unfolding range_map_def by (intro keeps_rules frame_range)

lemma frame_GetRawData: "keeps R (GetRawData c conn url)"
  unfolding GetRawData_def by (intro keeps_rules frame_GET)

lemma frame_GetData: "keeps R (GetData c conn url field f)"
  unfolding GetData_def parse_entities_def Let_def by (intro keeps_rules frame_GetRawData)

lemmas content_rules = keeps_rules frame_expecting frame_answered frame_asset_text frame_settings_text frame_range_map
  frame_GET frame_POST frame_GetRawData frame_GetData

lemma frame_ManageInputs:
  assumes "IsForceUpdate (graylog_of cr) \<Longrightarrow> force"
  shows "keeps R (ManageInputs c conn cr)"
  unfolding ManageInputs_def GetAllInputs_def CreateOrUpdateDefaultInput_def CreateDefaultInput_def UpdateDefaultInput_def Let_def
  by (intro content_rules frame_PUT assms)

lemma frame_ManageIndexSets: "keeps R (ManageIndexSets c conn cr)"
  unfolding ManageIndexSets_def GetAllIndexSets_def CreateOrUpdateIndexSet_def CreateIndexSet_def UpdateIndexSet_def Let_def
  by (intro content_rules frame_PUT_index_set)

lemma frame_ManageStreams:
  assumes "IsForceUpdate (graylog_of cr) \<Longrightarrow> force"
  shows "keeps R (ManageStreams c conn cr)"
  unfolding ManageStreams_def GetAllStreams_def GetAllIndexSets_def CreateOrUpdateStreams_def CreateStreams_def UpdateStreams_def
    ResumeStreams_def ResumeStreamByTitle_def ResumeStream_def UpdateOrCreateStream_def OnlyCreateStream_def CreateStream_def
    UpdateStream_def Let_def
  by (intro content_rules frame_PUT assms)

lemma frame_ManageExtractors:
  assumes "IsForceUpdate (graylog_of cr) \<Longrightarrow> force"
  shows "keeps R (ManageExtractors c conn cr)"
  unfolding ManageExtractors_def GetAllInputs_def GetAllExtractors_def CreateOrUpdateExtractors_def CreateExtractors_def
    UpdateAllExtractors_def CreateExtractor_def UpdateExtractor_def DeleteExtractor_def UpdateMessageProcessorsOrder_def Let_def
  by (intro content_rules frame_PUT_processors; intro frame_PUT frame_DELETE assms; assumption)

lemma frame_send_pattern: "(\<And>t. keeps R (request t)) \<Longrightarrow> keeps R (send_pattern c v ps code msg request failed)"
  unfolding send_pattern_def Let_def by (intro content_rules)

lemma frame_create_patterns: "keeps R (create_patterns c conn existing rest ps failed)"
  by (induction rest arbitrary: failed) (auto intro!: content_rules frame_send_pattern)

lemma frame_update_patterns: "force \<Longrightarrow> keeps R (update_patterns c conn existing ps failed)"
  by (induction existing arbitrary: failed) (auto intro!: content_rules frame_send_pattern frame_PUT)

lemma frame_ManageGrokPatterns:
  assumes "IsForceUpdate (graylog_of cr) \<Longrightarrow> force"
  shows "keeps R (ManageGrokPatterns c conn cr)"
  unfolding ManageGrokPatterns_def GetAllGrokPatterns_def CreateOrUpdateGrokPatterns_def parse_patterns_def CreateGrokPatterns_def
    UpdateGrokPatterns_def
  by (intro content_rules frame_create_patterns frame_update_patterns assms)

lemma frame_CreateRuleData: "keeps R (CreateRuleData c conn streams title template)"
  unfolding CreateRuleData_def Let_def by (intro content_rules)

lemma frame_ManageProcessingRules:
  assumes "IsForceUpdate (graylog_of cr) \<Longrightarrow> force"
  shows "keeps R (ManageProcessingRules c conn cr)"
  unfolding ManageProcessingRules_def GetAllProcessingRules_def CreateOrUpdateProcessingRules_def CreateProcessingRules_def
    UpdateProcessingRules_def CreateOrUpdateRules_def OnlyCreateRules_def CreateRule_def UpdateRule_def GetAllStreams_def Let_def
  by (intro content_rules frame_CreateRuleData frame_PUT assms)

lemma frame_ManagePipelines:
  assumes "IsForceUpdate (graylog_of cr) \<Longrightarrow> force"
  shows "keeps R (ManagePipelines c conn cr)"
  unfolding ManagePipelines_def GetAllPipelines_def CreateOrUpdatePipelines_def CreatePipeline_def UpdatePipeline_def
    ConnectPipeline_def GetAllStreams_def Let_def
  by (intro content_rules frame_PUT assms)

lemma frame_user_data:
  "keeps R (CreateOperatorData c conn dashboards template)" "keeps R (CreateAuditViewerData c conn dashboards template)"
  unfolding CreateOperatorData_def CreateAuditViewerData_def GetAllStreams_def by (intro content_rules)+

lemma frame_GetUserIdByName: "keeps R (GetUserIdByName c conn user)"
  unfolding GetUserIdByName_def GetAllUsers_def by (intro content_rules)

lemma frame_ManageUserAccounts:
  assumes "IsForceUpdate (graylog_of cr) \<Longrightarrow> force"
  shows "keeps R (ManageUserAccounts c conn cr)"
proof -
  have role: "keeps R (CreateOrUpdateRole c conn role data cr)" for role data
    unfolding CreateOrUpdateRole_def GetRole_def CreateRole_def UpdateRole_def
    by (intro content_rules frame_PUT assms) simp
  have user: "keeps R (CreateOrUpdateUser c conn user template cr)" for user template
    unfolding CreateOrUpdateUser_def GetUser_def CreateUser_def UpdateUser_def
    by (intro content_rules frame_GetUserIdByName frame_PUT assms) simp
  show ?thesis
    unfolding ManageUserAccounts_def CreateOrUpdateRoles_def CreateOrUpdateUsers_def
    by (intro content_rules frame_user_data role user)
qed

lemma frame_ManageAuthHeaderConfig: "keeps R (ManageAuthHeaderConfig c conn cr)"
  unfolding ManageAuthHeaderConfig_def EnableAuthHeader_def by (intro content_rules frame_PUT_header)

lemma frame_ManageDashboards:
  assumes "IsForceUpdate (graylog_of cr) \<Longrightarrow> force"
  shows "keeps R (ManageDashboards c conn cr)"
  unfolding ManageDashboards_def DeleteDefaultContentPack_def UploadDefaultContentPack_def InstallDefaultContentPack_def Let_def
  by (intro content_rules frame_DELETE assms) simp_all

end

text \<open>With the operations on files, downloads and OpenSearch.\<close>

locale pack_frame = content_frame +
  assumes frame_file_ops: "keeps R (os_Stat c path)" "keeps R (os_ReadDir c path)" "keeps R (os_ReadFile c path)" "keeps R (os_Remove c path)"
    and frame_downloads: "keeps R (DownloadFile c url file)" "keeps R (DownloadFileTLS c pack file ns)"
    and frame_Unzip: "keeps R (Unzip c src dest)"
    and frame_OpenSearch: "keeps R (SendRequestToOpenSearch c conn mthd path d)"
begin

lemma frame_data_file_text: "keeps R (data_file_text c dir name cr)"
  unfolding data_file_text_def ReadFile_def Let_def by (intro content_rules frame_file_ops frame_parse)

lemma frame_each_file: "(\<And>name. keeps R (f name)) \<Longrightarrow> keeps R (each_file c dir f)"
  unfolding each_file_def by (intro content_rules frame_file_ops)

lemma frame_UploadContentPacks: "keeps R (UploadContentPacks c conn cr)"
  unfolding UploadContentPacks_def UploadContentPack_def
  by (intro frame_each_file content_rules frame_data_file_text)

lemma frame_unpack: "keeps R (unpack c file)"
  unfolding unpack_def by (intro content_rules frame_Unzip frame_file_ops)

lemma frame_ManageContentPacks: "keeps R (ManageContentPacks c conn cr)" "keeps R (ManageContentPackTLS c conn cr)"
  unfolding ManageContentPacks_def ManageContentPackTLS_def Let_def
  by (intro content_rules frame_downloads frame_unpack frame_UploadContentPacks)+

lemma frame_ManageOpensearchConfigs: "keeps R (ManageOpensearchConfigs c conn cr)"
  unfolding ManageOpensearchConfigs_def UploadConfig_def
  by (intro content_rules frame_each_file frame_data_file_text frame_OpenSearch)

lemma frame_ManageArchivesDirectory: "keeps R (ManageArchivesDirectory c conn cr)"
  unfolding ManageArchivesDirectory_def readSecretFileValue_def Let_def
  by (intro content_rules frame_file_ops frame_OpenSearch)

lemma frame_ManageSavedSearches: "keeps R (ManageSavedSearches c conn cr)"
  unfolding ManageSavedSearches_def CreateOrUpdateSavedSearches_def CreateSavedSearches_def UpdateOrCreateSavedSearches_def
    CreateViews_def CreateView_def CreateSearch_def UpdateOrCreateSearch_def Upload_def ManageCustomSavedSearches_def
    UploadCustomSavedSearch_def GetAllViews_def
  by (intro content_rules frame_each_file frame_data_file_text frame_DELETE_view)

end

section \<open>The requests sent\<close>

definition only_sends :: "('w \<Rightarrow> http_request list) \<Rightarrow> (http_request \<Rightarrow> bool) \<Rightarrow> 'w \<Rightarrow> 'w \<Rightarrow> bool" where
  "only_sends sent P w w' \<longleftrightarrow> (\<exists>rqs. sent w' = sent w @ rqs \<and> list_all P rqs)"

interpretation only_sends: effect_frame "only_sends sent P" for sent P
proof unfold_locales
  show "only_sends sent P w w" for w :: 'a by (simp add: only_sends_def)
  show "only_sends sent P u v \<Longrightarrow> only_sends sent P v w \<Longrightarrow> only_sends sent P u w" for u v w :: 'a
    by (auto simp: only_sends_def)
qed

text \<open>\<open>net_Do\<close> is the only operation that sends a request.\<close>

definition sent_laws :: "'w client \<Rightarrow> ('w \<Rightarrow> http_request list) \<Rightarrow> bool" where
  "sent_laws c sent \<longleftrightarrow>
     (\<forall>rq w. sent (after (net_Do c rq) w) = sent w @ [rq])
     \<and> (\<forall>t p ps w. sent (after (sys_ParseTemplate c t p ps) w) = sent w)
     \<and> (\<forall>ks w. sent (after (sys_MapRange c ks) w) = sent w)
     \<and> (\<forall>k ns n w. sent (after (cl_Get c k ns n) w) = sent w)
     \<and> (\<forall>p w. sent (after (os_ReadFile c p) w) = sent w) \<and> (\<forall>p w. sent (after (os_Stat c p) w) = sent w)
     \<and> (\<forall>p w. sent (after (os_ReadDir c p) w) = sent w) \<and> (\<forall>p w. sent (after (os_Create c p) w) = sent w)
     \<and> (\<forall>p t w. sent (after (os_Copy c p t) w) = sent w) \<and> (\<forall>p w. sent (after (os_MkdirAll c p) w) = sent w)
     \<and> (\<forall>p w. sent (after (os_Remove c p) w) = sent w) \<and> (\<forall>p w. sent (after (zip_Open c p) w) = sent w)
     \<and> (\<forall>p f w. sent (after (zip_Read c p f) w) = sent w)"

lemma store_sent_laws: "sent_laws store_client st_sent"
  by (auto simp: sent_laws_def store_client_def split: option.split)

text \<open>The requests that leave the content of Graylog as it is, or that the operator sends whatever the policy.\<close>

definition graylog_sends :: "'w client \<Rightarrow> GraylogConnector \<Rightarrow> string \<Rightarrow> string \<Rightarrow> http_request \<Rightarrow> bool" where
  "graylog_sends c conn mthd path rq \<longleftrightarrow>
     (\<exists>uri d. net_Resolve c (connector_base conn) path = Inr uri \<and> rq = graylog_request conn uri mthd d)"

definition unforced_request :: "'w client \<Rightarrow> GraylogConnector \<Rightarrow> http_request \<Rightarrow> bool" where
  "unforced_request c conn rq \<longleftrightarrow>
     rq_Method rq \<in> {''GET'', ''POST''}
     \<or> graylog_sends c conn ''PUT'' ''system/messageprocessors/config'' rq
     \<or> graylog_sends c conn ''PUT'' authHeaderUrl rq
     \<or> (\<exists>i. graylog_sends c conn ''PUT'' (indexSetsUrl @ ''/'' @ i) rq)
     \<or> (\<exists>v. graylog_sends c conn ''DELETE'' (''views/'' @ v) rq)
     \<or> (\<exists>path. net_JoinPath c (rc_Host (gc_OpenSearchRestClient conn)) path = Inr (rq_URL rq))"

lemma SetAuthHeader_sel [simp]:
  "rq_Method (SetAuthHeader rc rq) = rq_Method rq" "rq_URL (SetAuthHeader rc rq) = rq_URL rq" "rq_Body (SetAuthHeader rc rq) = rq_Body rq"
  by (simp_all add: SetAuthHeader_def split: option.split)

lemma graylog_request_sel [simp]:
  "rq_Method (graylog_request conn uri m d) = m" "rq_URL (graylog_request conn uri m d) = uri" "rq_Body (graylog_request conn uri m d) = d"
  by (simp_all add: graylog_request_def)

lemma sends_Do: "sent_laws c sent \<Longrightarrow> P rq \<Longrightarrow> keeps (only_sends sent P) (net_Do c rq)"
  by (rule keepsI) (simp add: only_sends_def sent_laws_def)

lemma sends_nothing: "(\<And>w. sent (after m w) = sent w) \<Longrightarrow> keeps (only_sends sent P) m"
  by (rule keepsI) (simp add: only_sends_def)

lemma sends_Send:
  assumes "sent_laws c sent" and "\<And>uri. net_Resolve c (connector_base conn) path = Inr uri \<Longrightarrow> P (graylog_request conn uri mthd d)"
  shows "keeps (only_sends sent P) (connector_Send c conn path mthd d)"
proof (rule keepsI)
  fix w
  show "only_sends sent P w (after (connector_Send c conn path mthd d) w)"
    using assms unfolding connector_Send_def
    by (cases "net_Resolve c (connector_base conn) path") (auto simp: run_tryM only_sends_def sent_laws_def)
qed

lemma sends_unzip:
  assumes "sent_laws c sent"
  shows "keeps (only_sends sent P) (Unzip c src dest)"
proof -
  have ops: "keeps (only_sends sent P) (os_Create c p)" "keeps (only_sends sent P) (os_Copy c p t)" "keeps (only_sends sent P) (os_MkdirAll c p)"
    "keeps (only_sends sent P) (zip_Open c p)" "keeps (only_sends sent P) (zip_Read c p f)" for p t f
    using assms by (auto intro!: sends_nothing simp: sent_laws_def)
  have "keeps (only_sends sent P) (unzip_files c src dest files names)" for files names
    by (induction files arbitrary: names) (auto simp: Let_def intro!: only_sends.keeps_rules ops)
  then show ?thesis unfolding Unzip_def by (intro only_sends.keeps_rules ops)
qed

lemma sends_downloads:
  assumes laws: "sent_laws c sent" and get: "\<And>rq. rq_Method rq = ''GET'' \<Longrightarrow> P rq"
  shows "keeps (only_sends sent P) (DownloadFile c url file)" and "keeps (only_sends sent P) (DownloadFileTLS c pack file ns)"
proof -
  have ops: "keeps (only_sends sent P) (os_Create c p)" "keeps (only_sends sent P) (os_Copy c p t)" "keeps (only_sends sent P) (cl_Get c k ns n)"
    for p t k ns n
    using laws by (auto intro!: sends_nothing simp: sent_laws_def)
  have secret: "keeps (only_sends sent P) (get_secret c ns n)" for ns n
    unfolding get_secret_def by (intro only_sends.keeps_rules ops) (auto split: object.split intro: only_sends.keeps_rules)
  show "keeps (only_sends sent P) (DownloadFile c url file)"
    unfolding DownloadFile_def by (intro only_sends.keeps_rules ops sends_Do [OF laws] get) simp
  have credentials: "keeps (only_sends sent P) (GetCredentials c h ns)" "keeps (only_sends sent P) (TLSConfig_GetCertificates c tls ns)" for h tls ns
    unfolding GetCredentials_def TLSConfig_GetCertificates_def client_tls_def own_or_shared_def Let_def
    by (intro only_sends.keeps_rules secret)+
  show "keeps (only_sends sent P) (DownloadFileTLS c pack file ns)"
    unfolding DownloadFileTLS_def pack_client_def GetCredentialsAndCertificates_def Let_def
    by (intro only_sends.keeps_rules ops credentials sends_Do [OF laws] get) (auto split: prod.split intro: only_sends.keeps_rules)
qed

lemma sends_pack_frame:
  assumes laws: "sent_laws c sent"
  shows "pack_frame (only_sends sent (\<lambda>rq. force \<or> unforced_request c conn rq)) c conn force"
proof -
  let ?P = "\<lambda>rq. force \<or> unforced_request c conn rq"
  have quiet: "keeps (only_sends sent ?P) (sys_ParseTemplate c t p ps)" "keeps (only_sends sent ?P) (sys_MapRange c ks)"
    "keeps (only_sends sent ?P) (os_Stat c p)" "keeps (only_sends sent ?P) (os_ReadDir c p)"
    "keeps (only_sends sent ?P) (os_ReadFile c p)" "keeps (only_sends sent ?P) (os_Remove c p)" for t p ps ks
    using laws by (auto intro!: sends_nothing simp: sent_laws_def)
  have get: "rq_Method rq = ''GET'' \<Longrightarrow> ?P rq" for rq by (simp add: unforced_request_def)
  have opensearch: "keeps (only_sends sent ?P) (SendRequestToOpenSearch c conn mthd path d)" for mthd path d
  proof (rule keepsI)
    fix w
    show "only_sends sent ?P w (after (SendRequestToOpenSearch c conn mthd path d) w)"
      using laws unfolding SendRequestToOpenSearch_def Let_def
      by (cases "net_JoinPath c (rc_Host (gc_OpenSearchRestClient conn)) path")
        (auto simp: run_tryM only_sends_def sent_laws_def unforced_request_def case_prod_beta split: sum.split prod.split)
  qed
  have send: "keeps (only_sends sent ?P) (connector_Send c conn path mthd d)"
    if "force \<or> mthd \<in> {''GET'', ''POST''} \<or> (\<forall>rq. graylog_sends c conn mthd path rq \<longrightarrow> unforced_request c conn rq)" for path mthd d
  proof (rule sends_Send [OF laws])
    fix uri assume "net_Resolve c (connector_base conn) path = Inr uri"
    then have "graylog_sends c conn mthd path (graylog_request conn uri mthd d)" by (auto simp: graylog_sends_def)
    with that show "?P (graylog_request conn uri mthd d)" by (auto simp: unforced_request_def)
  qed
  show ?thesis
    unfolding pack_frame_def content_frame_def content_frame_axioms_def pack_frame_axioms_def
      connector_GET_def connector_POST_def connector_PUT_def connector_DELETE_def
    by (intro conjI allI impI only_sends.effect_frame_axioms quiet opensearch sends_downloads [OF laws get] sends_unzip [OF laws] send)
      (auto simp: unforced_request_def)
qed

interpretation store_sends: pack_frame "only_sends st_sent (\<lambda>rq. force \<or> unforced_request store_client conn rq)" store_client conn force
  for conn force
  by (rule sends_pack_frame [OF store_sent_laws])

end
