(* ===== verification/Graylog_Controller.thy ===== *)
theory Graylog_Controller
  imports HA_Controller Graylog_Frames Graylog_Builder
begin

text \<open>
  The Graylog reconciler (\<open>controllers/graylog\<close>: \<open>reconciler.go\<close>, \<open>handler.go\<close>, \<open>manifest.go\<close>, with
  \<open>CreateConnector\<close> and \<open>root_password_sha2.go\<close> of its utilities). Credentials read from the Secret and
  the streams that have to exist are written into the custom resource in memory, as in the source. The goroutine that
  watches the Secret is started by an operation of the client record; its loop is in \<open>Graylog_Watch\<close>.
\<close>

section \<open>Credentials\<close>

definition modify_graylog :: "(graylog \<Rightarrow> graylog) \<Rightarrow> logging_service \<Rightarrow> logging_service" where
  "modify_graylog f cr = cr\<lparr>ls_Spec := (ls_Spec cr)\<lparr>spec_Graylog := map_option f (spec_Graylog (ls_Spec cr))\<rparr>\<rparr>"

definition nonempty_value :: "secret \<Rightarrow> string \<Rightarrow> string option" where
  "nonempty_value s key = (case mget (se_Data s) key of None \<Rightarrow> None | Some v \<Rightarrow> if v = [] then None else Some v)"

definition graylogSecretMissingValueError :: "string \<Rightarrow> logging_service \<Rightarrow> go_error" where
  "graylogSecretMissingValueError what cr = Errorf [Lit ''can not find '', ArgS what, Lit '' for Graylog in the secret '',
     ArgS (gl_GraylogSecretName (graylog_of cr)), Lit '' in the namespace '', ArgS (om_Namespace (ls_ObjectMeta cr))]"

definition EnsureSecretRootPasswordSHA2 :: "'w client \<Rightarrow> secret \<Rightarrow> string \<Rightarrow> secret \<times> bool" where
  "EnsureSecretRootPasswordSHA2 c secret plainPassword =
     (let want = sys_SHA256Hex c plainPassword;
          key = GraylogSecretKeyRootPasswordSHA2;
          got = (case mget (se_Data secret) key of None \<Rightarrow> [] | Some v \<Rightarrow> go_TrimSpace v)
      in if got = want then (secret, False)
         else (secret\<lparr>se_Data := Some ((mcontents (se_Data secret))(key \<mapsto> want))\<rparr>, True))"

definition opensearch_host :: "graylog \<Rightarrow> string" where
  "opensearch_host g = (case gl_OpenSearch g of None \<Rightarrow> [] | Some os \<Rightarrow> osr_Host os)"

definition setCredentials :: "'w client \<Rightarrow> ('w opstate, unit) eff" where
  "setCredentials c =
     tryM (with_cr (\<lambda>cr. get_secret c (om_Namespace (ls_ObjectMeta cr)) (gl_GraylogSecretName (graylog_of cr)))) (\<lambda>secret. do {
       cr \<leftarrow> get_cr;
       case nonempty_value secret ''user'' of
         None \<Rightarrow> failM (graylogSecretMissingValueError ''user'' cr)
       | Some usr \<Rightarrow> do {
           _ \<leftarrow> modify_cr (modify_graylog (\<lambda>g. g\<lparr>gl_User := usr\<rparr>));
           case nonempty_value secret ''password'' of
             None \<Rightarrow> failM (graylogSecretMissingValueError ''password'' cr)
           | Some pwd \<Rightarrow> do {
               _ \<leftarrow> modify_cr (modify_graylog (\<lambda>g. g\<lparr>gl_Password := pwd\<rparr>));
               tryM (case nonempty_value secret ''elasticsearchHost'' of
                       Some h \<Rightarrow> do { _ \<leftarrow> modify_cr (modify_graylog (\<lambda>g. g\<lparr>gl_ElasticsearchHost := h\<rparr>)); okM () }
                     | None \<Rightarrow> if opensearch_host (graylog_of cr) = []
                               then failM (graylogSecretMissingValueError ''elasticsearchHost'' cr) else okM ()) (\<lambda>_.
                 case EnsureSecretRootPasswordSHA2 c secret pwd of
                   (secret', changed) \<Rightarrow> if changed then in_world (cl_Update c (OSecret secret')) else okM ()) } } })"

section \<open>The connector\<close>

definition operatorGraylogUserFile :: string where "operatorGraylogUserFile = ''/etc/logging-operator/graylog-secret/user''"
definition operatorGraylogPasswordFile :: string where "operatorGraylogPasswordFile = ''/etc/logging-operator/graylog-secret/password''"

definition readOperatorGraylogCreds :: "'w client \<Rightarrow> ('w, Creds) eff" where
  "readOperatorGraylogCreds c =
     tryM (readSecretFileValue c operatorGraylogUserFile) (\<lambda>name.
     tryM (readSecretFileValue c operatorGraylogPasswordFile) (\<lambda>password.
       okM \<lparr>cr_Name = name, cr_Password = password, cr_Token = []\<rparr>))"

definition graylog_tls_http :: "graylog \<Rightarrow> http_graylog_tls option" where
  "graylog_tls_http g = Option.bind (gl_TLS g) glt_HTTP"

definition graylog_client :: "'w client \<Rightarrow> logging_service \<Rightarrow> ('w, RestClient) eff" where
  "graylog_client c cr =
     (let g = graylog_of cr; ns = om_Namespace (ls_ObjectMeta cr)
      in tryM (case graylog_tls_http g of
                 Some h \<Rightarrow> if hgt_Enabled h then HTTPGraylogTLS_GetCertificates c h ns else okM None
               | None \<Rightarrow> okM None) (\<lambda>tls.
         tryM (if gl_User g \<noteq> [] \<and> gl_Password g \<noteq> []
               then okM \<lparr>cr_Name = gl_User g, cr_Password = gl_Password g, cr_Token = []\<rparr>
               else readOperatorGraylogCreds c) (\<lambda>user.
           okM \<lparr>rc_TLS = tls, rc_Auth = Some user,
                rc_Host = GraylogComponentName @ ''.'' @ ns @ ''.svc'' @ '':'' @ GraylogPort @ ''/api/''\<rparr>)))"

text \<open>The OpenSearch host from the mounted Secret, with the credentials of its URL.\<close>

definition mounted_client :: "'w client \<Rightarrow> tls_client option \<Rightarrow> ('w, RestClient) eff" where
  "mounted_client c tls =
     tryM (readSecretFileValue c operatorElasticHostFile) (\<lambda>elasticSearchHost.
     tryM (pureE (net_ParseURL c elasticSearchHost)) (\<lambda>u.
       let tls = (if tls = None \<and> url_Scheme u = ''https'' then Some insecure_tls else tls);
           (name, password) = (case url_User u of None \<Rightarrow> ([], []) | Some up \<Rightarrow> up)
       in okM \<lparr>rc_TLS = tls, rc_Auth = Some \<lparr>cr_Name = name, cr_Password = password, cr_Token = []\<rparr>,
               rc_Host = net_URLString c (u\<lparr>url_User := None\<rparr>)\<rparr>))"

definition opensearch_client :: "'w client \<Rightarrow> logging_service \<Rightarrow> Creds option \<Rightarrow> ('w, RestClient) eff" where
  "opensearch_client c cr user =
     (case gl_OpenSearch (graylog_of cr) of
        None \<Rightarrow> mounted_client c None
      | Some os \<Rightarrow>
          (case osr_HTTPConfig os of
             None \<Rightarrow> mounted_client c None
           | Some h \<Rightarrow>
               tryM (GetCredentialsAndCertificates c h (om_Namespace (ls_ObjectMeta cr))) (\<lambda>((name, pwd, token), tls).
                 if osr_Host os = [] then mounted_client c tls
                 else okM \<lparr>rc_TLS = tls,
                        rc_Auth = (if name \<noteq> [] \<and> pwd \<noteq> [] \<or> token \<noteq> []
                                   then Some \<lparr>cr_Name = name, cr_Password = pwd, cr_Token = token\<rparr> else user),
                        rc_Host = osr_Host os\<rparr>)))"

definition CreateConnector :: "'w client \<Rightarrow> embed_fs \<Rightarrow> ('w opstate, GraylogConnector) eff" where
  "CreateConnector c assets =
     tryM (with_cr (graylog_client c)) (\<lambda>restClient.
     tryM (with_cr (\<lambda>cr. opensearch_client c cr (rc_Auth restClient))) (\<lambda>openSearchClient. do {
       cr \<leftarrow> get_cr;
       let (enabledStreams, g) = GetStreams (graylog_of cr) in do {
       _ \<leftarrow> modify_cr (modify_graylog (\<lambda>_. g));
       case graylog_tls_http (graylog_of cr) of
         None \<Rightarrow> failM nil_dereference
       | Some h \<Rightarrow> okM \<lparr>gc_RestClient = restClient, gc_OpenSearchRestClient = openSearchClient, gc_Assets = assets,
                        gc_EnabledStreams = enabledStreams, gc_TLSEnabled = hgt_Enabled h\<rparr> } }))"

section \<open>Objects\<close>

definition graylog_labelInput_cm :: "logging_service \<Rightarrow> LabelInput" where
  "graylog_labelInput_cm cr = \<lparr>li_Name = GraylogComponentName, li_Component = ''graylog'', li_Instance = [], li_Version = [],
     li_Technology = [], li_ComponentLabels = gl_Labels (graylog_of cr)\<rparr>"

definition graylogConfigMap :: "'w client \<Rightarrow> embed_fs \<Rightarrow> logging_service \<Rightarrow> ('w, config_map) eff" where
  "graylogConfigMap c assets cr =
     (case spec_Graylog (ls_Spec cr) of
        None \<Rightarrow> failM (nil_config_error ''graylog'' cr)
      | Some _ \<Rightarrow>
          tryM (DataFromDirectory c assets GraylogConfigMapDirectory (PlainParameters (ToParams cr))) (\<lambda>data.
            okM \<lparr>cm_Meta = SetLabelsForResource (meta_named GraylogComponentName (om_Namespace (ls_ObjectMeta cr)))
                   (graylog_labelInput_cm cr) None,
                 cm_Data = Some data, cm_BinaryData = None\<rparr>))"

definition graylog_handleServiceAccount :: "'w client \<Rightarrow> Defaults \<Rightarrow> ('w opstate, unit) eff" where
  "graylog_handleServiceAccount c cfg = with_cr (\<lambda>cr. reconcile_ServiceAccount c cr (graylog_ServiceAccount cr cfg))"

definition graylog_handleConfigMap :: "'w client \<Rightarrow> embed_fs \<Rightarrow> ('w opstate, unit) eff" where
  "graylog_handleConfigMap c assets =
     tryM (setCredentials c) (\<lambda>_. with_cr (\<lambda>cr.
       tryM (graylogConfigMap c assets cr) (\<lambda>m. do {
         r \<leftarrow> CreateResource c cr (OConfigMap m);
         case r of
           Inr _ \<Rightarrow> okM ()
         | Inl e \<Rightarrow> if IsAlreadyExists e then UpdateResource c (OConfigMap (owned_config_map c cr m)) else failM e })))"

definition graylog_timeout :: "logging_service \<Rightarrow> int" where
  "graylog_timeout cr =
     (let n = gl_StartupTimeout (graylog_of cr)
      in if n \<noteq> 0 then int64_of (n * (60 * 10 ^ 9)) else GraylogStartupTimeout)"

definition graylog_handleStatefulset :: "'w client \<Rightarrow> Defaults \<Rightarrow> ('w opstate, unit) eff" where
  "graylog_handleStatefulset c cfg =
     tryM (with_cr (\<lambda>cr. reconcile_StatefulSet c cr (graylog_StatefulSet cr cfg))) (\<lambda>_. do {
       _ \<leftarrow> in_world (sys_Sleep c InitialDelay);
       tryM (with_cr (\<lambda>cr. WaitForStatefulsetUpdated c (om_Namespace (ls_ObjectMeta cr)) GraylogStatefulsetName (graylog_timeout cr))) (\<lambda>started.
         if \<not> started then do {
           _ \<leftarrow> UpdateStatus c GraylogStatus Failed False ''Graylog is not started'';
           failM (errors_New ''graylog is not started'') }
         else okM ()) })"

definition graylog_handleService :: "'w client \<Rightarrow> Defaults \<Rightarrow> ('w opstate, unit) eff" where
  "graylog_handleService c cfg = with_cr (\<lambda>cr.
     let service = graylog_Service cr cfg in do {
     r \<leftarrow> cl_Get c KService (om_Namespace (sv_Meta service)) (om_Name (sv_Meta service));
     if (case r of Inl e \<Rightarrow> \<not> IsNotFound e | Inr _ \<Rightarrow> False) then failM (case r of Inl e \<Rightarrow> e | Inr _ \<Rightarrow> nil_dereference)
     else let created = (case r of Inl e \<Rightarrow> True | Inr _ \<Rightarrow> False)
          in tryM (reconcile_Service c cr service) (\<lambda>_.
               if \<not> created then okM ()
               else WaitForHostActive c (GraylogComponentName @ ''.'' @ om_Namespace (ls_ObjectMeta cr) @ ''.svc'') 9000 (60 * 10 ^ 9)) })"

definition graylog_deletePVC :: "'w client \<Rightarrow> string \<Rightarrow> logging_service \<Rightarrow> ('w, unit) eff" where
  "graylog_deletePVC c nm cr = deleteIfExists c KPersistentVolumeClaim (om_Namespace (ls_ObjectMeta cr)) nm"

definition graylog_deleteDeployment :: "'w client \<Rightarrow> logging_service \<Rightarrow> ('w, unit) eff" where
  "graylog_deleteDeployment c cr = do {
     r \<leftarrow> GetResource c KDeployment (om_Namespace (ls_ObjectMeta cr)) GraylogDeploymentName;
     case r of
       Inl e \<Rightarrow> if IsNotFound e then okM () else failM e
     | Inr obj \<Rightarrow>
         tryM (DeleteResource c obj) (\<lambda>_.
         tryM (DeletePods c (om_Namespace (ls_ObjectMeta cr)) GraylogLabels) (\<lambda>_. okM ())) }"

definition graylog_deleteStatefulset :: "'w client \<Rightarrow> logging_service \<Rightarrow> ('w, unit) eff" where
  "graylog_deleteStatefulset c cr = deleteIfExists c KStatefulSet (om_Namespace (ls_ObjectMeta cr)) GraylogStatefulsetName"

definition graylog_deleteService :: "'w client \<Rightarrow> logging_service \<Rightarrow> ('w, unit) eff" where
  "graylog_deleteService c cr = deleteIfExists c KService (om_Namespace (ls_ObjectMeta cr)) GraylogComponentName"

definition graylog_deleteConfigMap :: "'w client \<Rightarrow> logging_service \<Rightarrow> ('w, unit) eff" where
  "graylog_deleteConfigMap c cr = deleteIfExists c KConfigMap (om_Namespace (ls_ObjectMeta cr)) GraylogComponentName"

definition graylog_deleteServiceAccount :: "'w client \<Rightarrow> logging_service \<Rightarrow> ('w, unit) eff" where
  "graylog_deleteServiceAccount c cr = deleteIfExists c KServiceAccount (om_Namespace (ls_ObjectMeta cr)) GraylogServiceAccountName"

definition graylog_deleteJob :: "'w client \<Rightarrow> logging_service \<Rightarrow> string \<Rightarrow> ('w, unit) eff" where
  "graylog_deleteJob c cr jobName = deleteIfExists c KJob (om_Namespace (ls_ObjectMeta cr)) jobName"

definition graylog_deleteUpgradeJobs :: "'w client \<Rightarrow> logging_service \<Rightarrow> ('w, unit) eff" where
  "graylog_deleteUpgradeJobs c cr = for_each GraylogMongoUpgradeOrderedJobs (graylog_deleteJob c cr)"

definition graylog_uninstall :: "'w client \<Rightarrow> ('w opstate, unit) state" where
  "graylog_uninstall c = do {
     _ \<leftarrow> logged (with_cr (graylog_deletePVC c GraylogClaimName));
     _ \<leftarrow> logged (with_cr (graylog_deletePVC c MongoClaimName));
     _ \<leftarrow> logged (with_cr (graylog_deleteStatefulset c));
     _ \<leftarrow> logged (with_cr (graylog_deleteService c));
     _ \<leftarrow> logged (with_cr (graylog_deleteConfigMap c));
     _ \<leftarrow> logged (with_cr (graylog_deleteServiceAccount c));
     logged (with_cr (graylog_deleteUpgradeJobs c)) }"

section \<open>Configuration inside Graylog\<close>

definition when_M :: "bool \<Rightarrow> ('w, unit) eff \<Rightarrow> ('w, unit) eff" where
  "when_M b m = (if b then m else okM ())"

definition configureGraylog :: "'w client \<Rightarrow> GraylogConnector \<Rightarrow> logging_service \<Rightarrow> ('w, unit) eff" where
  "configureGraylog c conn cr =
     (case gl_AuthProxy (graylog_of cr) of
        None \<Rightarrow> failM nil_dereference
      | Some proxy \<Rightarrow>
          tryM (when_M (apx_Install proxy) (ManageAuthHeaderConfig c conn cr)) (\<lambda>_.
          tryM (ManageGrokPatterns c conn cr) (\<lambda>_.
          tryM (ManageIndexSets c conn cr) (\<lambda>_.
          tryM (ManageInputs c conn cr) (\<lambda>_.
          tryM (ManageExtractors c conn cr) (\<lambda>_.
          tryM (ManageStreams c conn cr) (\<lambda>_.
          tryM (ManageProcessingRules c conn cr) (\<lambda>_.
          tryM (ManagePipelines c conn cr) (\<lambda>_.
          tryM (ManageDashboards c conn cr) (\<lambda>_.
          tryM (when_M (gl_ContentPackPaths (graylog_of cr) \<noteq> [])
                  (tryM (ManageContentPacks c conn cr) (\<lambda>_. ManageOpensearchConfigs c conn cr))) (\<lambda>_.
          tryM (when_M (gl_ContentPacks (graylog_of cr) \<noteq> None)
                  (tryM (ManageContentPackTLS c conn cr) (\<lambda>_. ManageOpensearchConfigs c conn cr))) (\<lambda>_.
          tryM (ManageArchivesDirectory c conn cr) (\<lambda>_.
          tryM (ManageSavedSearches c conn cr) (\<lambda>_.
            ManageUserAccounts c conn cr))))))))))))))"

section \<open>The run\<close>

definition graylog_watchSecret :: "'w client \<Rightarrow> logging_service \<Rightarrow> ('w, unit) eff" where
  "graylog_watchSecret c cr = sys_GoWatch c cr"

definition graylog_installed :: "logging_service \<Rightarrow> bool" where
  "graylog_installed cr \<longleftrightarrow> spec_Graylog (ls_Spec cr) \<noteq> None \<and> graylog_IsInstall (spec_Graylog (ls_Spec cr))"

definition graylog_install :: "'w client \<Rightarrow> embed_fs \<Rightarrow> Defaults \<Rightarrow> ('w opstate, unit) eff" where
  "graylog_install c assets cfg =
     tryM (setCredentials c) (\<lambda>_.
     tryM (CreateConnector c assets) (\<lambda>connector.
     tryM (graylog_handleServiceAccount c cfg) (\<lambda>_.
     tryM (graylog_handleConfigMap c assets) (\<lambda>_. do {
       _ \<leftarrow> logged (with_cr (graylog_deleteDeployment c));
       _ \<leftarrow> logged (with_cr (graylog_deleteUpgradeJobs c));
       tryM (graylog_handleStatefulset c cfg) (\<lambda>_.
       tryM (graylog_handleService c cfg) (\<lambda>_.
       tryM (with_cr (\<lambda>cr. when_M (gl_ContentDeployPolicy (graylog_of cr) \<noteq> ''skip'') (configureGraylog c connector cr))) (\<lambda>_. do {
         _ \<leftarrow> logged (with_cr (graylog_watchSecret c));
         okM () }))) }))))"

definition graylog_Run :: "'w client \<Rightarrow> embed_fs \<Rightarrow> Defaults \<Rightarrow> ('w opstate, unit) eff" where
  "graylog_Run c assets cfg = do {
     _ \<leftarrow> start_status c GraylogStatus ''Start reconcile of Graylog'';
     cr \<leftarrow> get_cr;
     tryM (if graylog_installed cr then graylog_install c assets cfg
           else do { _ \<leftarrow> graylog_uninstall c; okM () }) (\<lambda>_. do {
       _ \<leftarrow> RemoveStatus c GraylogStatus;
       okM () }) }"

end
