(* ===== verification/Graylog_Contract.thy ===== *)
theory Graylog_Contract
  imports Graylog_Controller
begin

text \<open>
  What a run of the Graylog reconciler may touch and what it has achieved when it returns. The content
  management is covered by the interpretations of \<open>pack_frame\<close>: on the requests sent to Graylog, and, below,
  on the objects of the cluster, which it leaves alone.
\<close>

section \<open>Content management as a whole\<close>

context pack_frame
begin

lemma frame_configureGraylog:
  assumes "IsForceUpdate (graylog_of cr) \<Longrightarrow> force"
  shows "keeps R (configureGraylog c conn cr)"
  unfolding configureGraylog_def when_M_def
  by (intro content_rules frame_ManageAuthHeaderConfig frame_ManageGrokPatterns frame_ManageIndexSets frame_ManageInputs
      frame_ManageExtractors frame_ManageStreams frame_ManageProcessingRules frame_ManagePipelines frame_ManageDashboards
      frame_ManageContentPacks frame_ManageOpensearchConfigs frame_ManageArchivesDirectory frame_ManageSavedSearches
      frame_ManageUserAccounts assms)

end

section \<open>The objects of the cluster\<close>

text \<open>Calls to other machines, to the local file system and to the pods leave the objects alone; so does
  starting the goroutine that watches the Secret.\<close>

definition remote_laws :: "'w client \<Rightarrow> ('w \<Rightarrow> obj_key \<Rightarrow> object option) \<Rightarrow> bool" where
  "remote_laws c view \<longleftrightarrow>
     (\<forall>rq w. view (after (net_Do c rq) w) = view w) \<and> (\<forall>ks w. view (after (sys_MapRange c ks) w) = view w)
     \<and> (\<forall>u t w. view (after (sys_Dial c u t) w) = view w) \<and> (\<forall>cr w. view (after (sys_GoWatch c cr) w) = view w)
     \<and> (\<forall>ns l w. view (after (cl_ListPods c ns l) w) = view w) \<and> (\<forall>m w. view (after (cl_DeletePod c m) w) = view w)
     \<and> (\<forall>p w. view (after (os_ReadFile c p) w) = view w) \<and> (\<forall>p w. view (after (os_Stat c p) w) = view w)
     \<and> (\<forall>p w. view (after (os_ReadDir c p) w) = view w) \<and> (\<forall>p w. view (after (os_Create c p) w) = view w)
     \<and> (\<forall>p t w. view (after (os_Copy c p t) w) = view w) \<and> (\<forall>p w. view (after (os_MkdirAll c p) w) = view w)
     \<and> (\<forall>p w. view (after (os_Remove c p) w) = view w) \<and> (\<forall>p w. view (after (zip_Open c p) w) = view w)
     \<and> (\<forall>p f w. view (after (zip_Read c p f) w) = view w)"

lemma store_remote_laws: "remote_laws store_client store_view"
  by (auto simp: remote_laws_def store_client_def store_view_def fun_eq_iff split: option.split)

lemma keeps_viewI: "(\<And>w. view (after m w) = view w) \<Longrightarrow> keeps (only_changes view K) m"
  by (intro keepsI only_changes_view)

lemma keeps_remote:
  assumes "remote_laws c view"
  shows "keeps (only_changes view K) (net_Do c rq)" "keeps (only_changes view K) (sys_MapRange c ks)"
    "keeps (only_changes view K) (sys_Dial c u d)" "keeps (only_changes view K) (sys_GoWatch c cr)"
    "keeps (only_changes view K) (cl_ListPods c ns l)" "keeps (only_changes view K) (cl_DeletePod c m)"
    "keeps (only_changes view K) (os_ReadFile c p)" "keeps (only_changes view K) (os_Stat c p)"
    "keeps (only_changes view K) (os_ReadDir c p)" "keeps (only_changes view K) (os_Create c p)"
    "keeps (only_changes view K) (os_Copy c p t)" "keeps (only_changes view K) (os_MkdirAll c p)"
    "keeps (only_changes view K) (os_Remove c p)" "keeps (only_changes view K) (zip_Open c p)"
    "keeps (only_changes view K) (zip_Read c p f)"
  using assms unfolding remote_laws_def by (auto intro!: keeps_viewI)

lemma keeps_unzip:
  assumes "remote_laws c view"
  shows "keeps (only_changes view K) (Unzip c src dest)"
proof -
  have "keeps (only_changes view K) (unzip_files c src dest files names)" for files names
    by (induction files arbitrary: names) (auto simp: Let_def intro!: cluster.keeps_rules keeps_remote assms)
  then show ?thesis unfolding Unzip_def by (intro cluster.keeps_rules keeps_remote assms)
qed

lemma cluster_pack_frame:
  assumes laws: "cluster_laws c view" and quiet: "quiet_laws c view" and remote: "remote_laws c view"
  shows "pack_frame (only_changes view K) c conn force"
proof -
  have parse: "keeps (only_changes view K) (sys_ParseTemplate c t p ps)" for t p ps
    using quiet by (intro keeps_viewI) (simp add: quiet_laws_def)
  have send: "keeps (only_changes view K) (connector_Send c conn path mthd d)" for path mthd d
    unfolding connector_Send_def by (intro cluster.keeps_rules keeps_remote remote)
  have downloads: "keeps (only_changes view K) (DownloadFile c url fl)" "keeps (only_changes view K) (DownloadFileTLS c pack fl ns)"
    for url fl pack ns
    unfolding DownloadFile_def DownloadFileTLS_def pack_client_def
    by (intro cluster.keeps_rules keeps_remote keeps_certificates laws remote; auto split: prod.split intro: cluster.keeps_rules)+
  have opensearch: "keeps (only_changes view K) (SendRequestToOpenSearch c conn mthd path d)" for mthd path d
    unfolding SendRequestToOpenSearch_def Let_def by (intro cluster.keeps_rules keeps_remote remote)
  show ?thesis
    unfolding pack_frame_def content_frame_def content_frame_axioms_def pack_frame_axioms_def
      connector_GET_def connector_POST_def connector_PUT_def connector_DELETE_def
    by (intro conjI allI impI cluster.effect_frame_axioms parse send downloads opensearch keeps_unzip keeps_remote remote)
qed

interpretation store_content: pack_frame "only_changes store_view K" store_client conn force for K conn force
  by (rule cluster_pack_frame [OF store_client_laws store_quiet_laws store_remote_laws])

section \<open>The contract\<close>

definition graylog_keys :: "string \<Rightarrow> obj_key set" where
  "graylog_keys ns = component_keys {KServiceAccount} {GraylogServiceAccountName} ns
     \<union> component_keys {KConfigMap, KService} {GraylogComponentName} ns
     \<union> component_keys {KDeployment} {GraylogDeploymentName} ns \<union> component_keys {KStatefulSet} {GraylogStatefulsetName} ns
     \<union> component_keys {KPersistentVolumeClaim} {GraylogClaimName, MongoClaimName} ns
     \<union> component_keys {KJob} (set GraylogMongoUpgradeOrderedJobs) ns \<union> {KSecret} \<times> {ns} \<times> UNIV"

lemma modify_graylog_sel [simp]:
  "ls_ObjectMeta (modify_graylog f cr) = ls_ObjectMeta cr" "ls_Status (modify_graylog f cr) = ls_Status cr"
  by (simp_all add: modify_graylog_def)

lemma get_secret_key:
  assumes "cluster_laws c view" and "run_state (get_secret c ns nm) w = (Inr s, w')"
  shows "key_of (OSecret s) = (KSecret, ns, nm)" and "view w (KSecret, ns, nm) = Some (OSecret s)" and "view w' = view w"
proof -
  from assms(2) obtain obj w1 where r: "run_state (cl_Get c KSecret ns nm) w = (Inr obj, w1)"
    and o: "run_state (case obj of OSecret s \<Rightarrow> okM s | _ \<Rightarrow> failM (errors_New ''not a Secret'')) w1 = (Inr s, w')"
    unfolding get_secret_def by (rule tryM_InrE)
  from o have "obj = OSecret s" "w' = w1" by (cases obj; simp)+
  with cluster_laws_get(1,2) [OF assms(1) r] show "key_of (OSecret s) = (KSecret, ns, nm)"
    "view w (KSecret, ns, nm) = Some (OSecret s)" "view w' = view w" by auto
qed

lemma EnsureSecretRootPasswordSHA2_meta [simp]: "se_Meta (fst (EnsureSecretRootPasswordSHA2 c s pwd)) = se_Meta s"
  by (simp add: EnsureSecretRootPasswordSHA2_def Let_def)

lemma graylog_object_keys:
  "key_of (OServiceAccount (graylog_ServiceAccount cr cfg)) = (KServiceAccount, om_Namespace (ls_ObjectMeta cr), GraylogServiceAccountName)"
  "key_of (OStatefulSet (graylog_StatefulSet cr cfg)) = (KStatefulSet, om_Namespace (ls_ObjectMeta cr), GraylogStatefulsetName)"
  "key_of (OService (graylog_Service cr cfg)) = (KService, om_Namespace (ls_ObjectMeta cr), GraylogComponentName)"
  "run_state (graylogConfigMap c assets cr) w = (Inr m, w') \<Longrightarrow>
     key_of (OConfigMap m) = (KConfigMap, om_Namespace (ls_ObjectMeta cr), GraylogComponentName)"
  by (auto simp: key_of_def graylog_StatefulSet_sel graylog_Service_def graylog_ServiceAccount_def Let_def NewService_def
      graylogConfigMap_def run_tryM meta_named_def GraylogServiceAccountName_def GraylogStatefulsetName_def GraylogComponentName_def
      NewServiceAccount_def graylog_serviceAccountName_def graylog_statefulSetName_def graylog_serviceName_def
      split: option.splits prod.splits sum.splits)

text \<open>A handler that first reads with the resource at hand: what follows may use the key it read.\<close>

lemma object_read_first:
  assumes read: "\<And>cr K. keeps (only_changes view K) (m cr)"
    and rest: "\<And>s x w. run_state (m (os_cr s)) (os_world s) = (Inr x, w) \<Longrightarrow> keeps (object_frame view (\<lambda>_. K (namespace_of s))) (k x)"
  shows "keeps (object_frame view K) (tryM (with_cr m) k)"
proof (rule keepsI)
  fix s :: "'a opstate"
  obtain r w where r: "run_state (m (os_cr s)) (os_world s) = (r, w)" by fastforce
  let ?F = "object_frame view (\<lambda>_. K (namespace_of s))"
  have first: "?F s (s\<lparr>os_world := w\<rparr>)"
    using keeps_run [OF read r] by (simp add: object_frame_def same_identity_def)
  have "?F s (after (tryM (with_cr m) k) s)"
  proof (cases r)
    case (Inl e)
    then show ?thesis using r first by (simp add: run_tryM run_with_cr)
  next
    case (Inr x)
    with r have "?F (s\<lparr>os_world := w\<rparr>) (after (k x) (s\<lparr>os_world := w\<rparr>))" by (intro keepsD [OF rest]) simp
    from object_frame.frame_trans [OF first this] show ?thesis using r Inr by (simp add: run_tryM run_with_cr)
  qed
  then show "object_frame view K s (after (tryM (with_cr m) k) s)" by (simp add: object_frame_def)
qed

lemma ensured_key:
  assumes "cluster_laws c view" and "run_state (get_secret c ns nm) w = (Inr secret, w')"
    and "EnsureSecretRootPasswordSHA2 c secret pwd = (secret', b)"
  shows "key_of (OSecret secret') = (KSecret, ns, nm)"
  using get_secret_key(1) [OF assms(1,2)] EnsureSecretRootPasswordSHA2_meta [of c secret pwd] assms(3)
  by (simp add: key_of_def)

lemma object_setCredentials:
  assumes laws: "cluster_laws c view" and "\<And>ns nm. (KSecret, ns, nm) \<in> K ns"
  shows "keeps (object_frame view K) (setCredentials c)"
  unfolding setCredentials_def
  by (rule object_read_first [OF keeps_get_secret [OF laws]], intro object_rules object_modify_cr)
    (auto intro!: object_rules object_in_world keeps_Update [OF laws] simp: ensured_key [OF laws] assms(2))

lemma keeps_DeletePods:
  assumes quiet: "quiet_laws c view" and remote: "remote_laws c view"
  shows "keeps (only_changes view K) (DeletePods c ns l)"
proof -
  have find_keeps: "keeps (only_changes view K) (FindPods c ns l)" for K
    unfolding FindPods_def by (intro cluster.keeps_rules keeps_remote remote)
  have find_view: "view (after (FindPods c ns l) w) = view w" for w
    using keepsD [OF find_keeps, of "{}" w] by (auto simp: only_changes_def)
  have "keeps (only_changes view K) (WaitForTerminatingPods c ns pods l)" for pods
  proof (rule keeps_viewI)
    fix w
    let ?cond = "do { r \<leftarrow> poll_world (FindPods c ns l);
        case r of Inl e \<Rightarrow> failM e | Inr found \<Rightarrow> okM (pods_terminated pods found) }"
    have "keeps (\<lambda>s s'. view (fst s') = view (fst s)) ?cond"
      using find_view by (auto intro!: keepsI simp: poll_world_def run_zoom case_prod_beta split: sum.split)
    then have "keeps (\<lambda>s s'. view (fst s') = view (fst s)) (sys_Poll c Interval TerminatingPodTimeout ?cond)"
      using quiet by (simp add: quiet_laws_def)
    from keepsD [OF this, of "(w, False)"] show "view (after (WaitForTerminatingPods c ns pods l) w) = view w"
      unfolding WaitForTerminatingPods_def by (auto split: prod.split sum.split)
  qed
  then show ?thesis unfolding DeletePods_def by (intro cluster.keeps_rules find_keeps keeps_remote remote)
qed

lemma keeps_WaitForHostActive:
  assumes quiet: "quiet_laws c view" and remote: "remote_laws c view"
  shows "keeps (only_changes view K) (WaitForHostActive c host port timeout)"
proof -
  have sleep: "keeps (only_changes view K) (sys_Sleep c d)" for d
    using quiet by (intro keeps_viewI) (simp add: quiet_laws_def)
  have "keeps (only_changes view K) (dial_attempts c url timeout n res)" for url n res
    by (induction n arbitrary: res) (auto intro!: cluster.keeps_rules keeps_remote [OF remote] sleep split: option.split)
  then show ?thesis unfolding WaitForHostActive_def .
qed

lemma keeps_deleteDeployment:
  assumes laws: "cluster_laws c view" and quiet: "quiet_laws c view" and remote: "remote_laws c view"
    and keys: "\<And>ns. ns \<in> {om_Namespace (ls_ObjectMeta cr), []} \<Longrightarrow> (KDeployment, ns, GraylogDeploymentName) \<in> K"
  shows "keeps (only_changes view K) (graylog_deleteDeployment c cr)"
proof (rule keepsI)
  let ?ns = "om_Namespace (ls_ObjectMeta cr)"
  let ?R = "only_changes view K"
  fix w
  obtain r w1 where r: "run_state (GetResource c KDeployment ?ns GraylogDeploymentName) w = (r, w1)" by fastforce
  have w1: "?R w w1" by (rule keeps_run [OF keeps_GetResource [OF laws] r])
  show "?R w (after (graylog_deleteDeployment c cr) w)"
  proof (cases r)
    case (Inl e)
    then show ?thesis using r w1 by (simp add: graylog_deleteDeployment_def)
  next
    case (Inr obj)
    from GetResource_cases(2) [OF laws r Inr]
    have "key_of obj = (KDeployment, ?ns, GraylogDeploymentName) \<or> key_of obj = (KDeployment, [], GraylogDeploymentName)" by blast
    then have "key_of obj \<in> K" using keys [of ?ns] keys [of "[]"] by (elim disjE) simp_all
    then have "keeps ?R (tryM (DeleteResource c obj) (\<lambda>_. tryM (DeletePods c ?ns GraylogLabels) (\<lambda>_. okM ())))"
      unfolding DeleteResource_def by (intro cluster.keeps_rules keeps_Delete [OF laws] keeps_DeletePods quiet remote)
    from cluster.frame_trans [OF w1 keepsD [OF this, of w1]] show ?thesis
      using r Inr by (simp add: graylog_deleteDeployment_def)
  qed
qed

lemma keeps_deleteUpgradeJobs:
  assumes "cluster_laws c view"
    and "\<And>ns nm. ns \<in> {om_Namespace (ls_ObjectMeta cr), []} \<Longrightarrow> nm \<in> set GraylogMongoUpgradeOrderedJobs \<Longrightarrow> (KJob, ns, nm) \<in> K"
  shows "keeps (only_changes view K) (graylog_deleteUpgradeJobs c cr)"
  unfolding graylog_deleteUpgradeJobs_def graylog_deleteJob_def
  by (intro cluster.keeps_for_each keeps_deleteIfExists [OF assms(1)]) (use assms(2) in simp)

lemma keeps_clients:
  assumes laws: "cluster_laws c view" and remote: "remote_laws c view"
  shows "keeps (only_changes view K) (graylog_client c cr)" and "keeps (only_changes view K) (opensearch_client c cr user)"
proof -
  have file_value: "keeps (only_changes view K) (readSecretFileValue c p)" for p
    unfolding readSecretFileValue_def by (intro cluster.keeps_rules keeps_remote remote)
  have mounted: "keeps (only_changes view K) (mounted_client c tls)" for tls
    unfolding mounted_client_def Let_def by (intro cluster.keeps_rules file_value)
  show "keeps (only_changes view K) (graylog_client c cr)"
    unfolding graylog_client_def readOperatorGraylogCreds_def Let_def
    by (intro cluster.keeps_rules file_value keeps_certificates laws)
  show "keeps (only_changes view K) (opensearch_client c cr user)"
    unfolding opensearch_client_def
    by (intro cluster.keeps_rules mounted keeps_certificates laws) (auto split: prod.split intro!: cluster.keeps_rules mounted)
qed

lemma keeps_graylogConfigMap: "quiet_laws c view \<Longrightarrow> keeps (only_changes view K) (graylogConfigMap c assets cr)"
  unfolding graylogConfigMap_def by (intro cluster.keeps_rules keeps_render)

lemma owned_config_map_key: "cluster_laws c view \<Longrightarrow> key_of (OConfigMap (owned_config_map c cr m)) = key_of (OConfigMap m)"
  by (rule stored_as_key [OF owned_config_map_stored])

lemma graylog_handle_frames:
  assumes laws: "cluster_laws c view" and patch: "patch_law c" and quiet: "quiet_laws c view" and remote: "remote_laws c view"
  shows "keeps (object_frame view K) (CreateConnector c assets)"
    and "(\<And>ns. (KServiceAccount, ns, GraylogServiceAccountName) \<in> K ns) \<Longrightarrow> keeps (object_frame view K) (graylog_handleServiceAccount c cfg)"
    and "(\<And>ns. (KConfigMap, ns, GraylogComponentName) \<in> K ns) \<Longrightarrow> (\<And>ns nm. (KSecret, ns, nm) \<in> K ns) \<Longrightarrow>
      keeps (object_frame view K) (graylog_handleConfigMap c assets)"
    and "(\<And>ns. (KStatefulSet, ns, GraylogStatefulsetName) \<in> K ns) \<Longrightarrow> keeps (object_frame view K) (graylog_handleStatefulset c cfg)"
    and "(\<And>ns. (KService, ns, GraylogComponentName) \<in> K ns) \<Longrightarrow> keeps (object_frame view K) (graylog_handleService c cfg)"
proof -
  have sleep: "view (after (sys_Sleep c d) w) = view w" for d w using quiet by (simp add: quiet_laws_def)
  have wait: "keeps (only_changes view K) (WaitForStatefulsetUpdated c ns nm t)" for K ns nm t
    by (intro keeps_viewI view_WaitForStatefulsetUpdated [OF laws quiet])
  show "keeps (object_frame view K) (CreateConnector c assets)"
    unfolding CreateConnector_def Let_def
    by (intro object_rules object_modify_cr keeps_clients laws remote) (auto intro!: object_rules object_modify_cr split: prod.split)
  show "keeps (object_frame view K) (graylog_handleServiceAccount c cfg)" if "\<And>ns. (KServiceAccount, ns, GraylogServiceAccountName) \<in> K ns"
    unfolding graylog_handleServiceAccount_def
    by (intro object_rules keeps_reconcile [OF laws]) (simp add: graylog_object_keys that)
  show "keeps (object_frame view K) (graylog_handleConfigMap c assets)"
    if "\<And>ns. (KConfigMap, ns, GraylogComponentName) \<in> K ns" "\<And>ns nm. (KSecret, ns, nm) \<in> K ns"
    unfolding graylog_handleConfigMap_def UpdateResource_def
    by (intro object_rules object_setCredentials [OF laws] cluster.keeps_tryM_result cluster.keeps_bind cluster.keeps_case_sum
        cluster.keeps_okM cluster.keeps_failM cluster.keeps_if keeps_graylogConfigMap [OF quiet] keeps_CreateResource [OF laws]
        keeps_Update [OF laws] that; simp add: graylog_object_keys owned_config_map_key [OF laws] that)
  show "keeps (object_frame view K) (graylog_handleStatefulset c cfg)" if "\<And>ns. (KStatefulSet, ns, GraylogStatefulsetName) \<in> K ns"
    unfolding graylog_handleStatefulset_def
    by (intro object_rules quiet_in_world sleep wait patch quiet keeps_reconcile [OF laws]) (simp add: graylog_object_keys that)
  show "keeps (object_frame view K) (graylog_handleService c cfg)" if "\<And>ns. (KService, ns, GraylogComponentName) \<in> K ns"
    unfolding graylog_handleService_def Let_def
    by (intro object_rules cluster.keeps_rules keeps_Get [OF laws] keeps_reconcile [OF laws] keeps_WaitForHostActive quiet remote)
      (simp_all add: graylog_object_keys that)
qed

lemma graylog_uninstall_frames:
  assumes laws: "cluster_laws c view"
  shows "keeps (object_frame view graylog_keys) (graylog_uninstall c)"
    and "keeps (pending_frame {}) (graylog_uninstall c)" and "keeps (status_frame {}) (graylog_uninstall c)"
proof -
  show "keeps (object_frame view graylog_keys) (graylog_uninstall c)"
    unfolding graylog_uninstall_def graylog_deletePVC_def graylog_deleteStatefulset_def graylog_deleteService_def
      graylog_deleteConfigMap_def graylog_deleteServiceAccount_def
    by (intro object_rules keeps_deleteUpgradeJobs [OF laws] keeps_deleteIfExists [OF laws]; simp add: graylog_keys_def)
qed (unfold graylog_uninstall_def, (intro pending_rules | intro status_rules)+)

lemma keeps_configureGraylog:
  assumes "cluster_laws c view" and "quiet_laws c view" and "remote_laws c view"
  shows "keeps (only_changes view K) (configureGraylog c conn cr)"
  by (rule pack_frame.frame_configureGraylog [OF cluster_pack_frame [OF assms, where force = True]]) simp

lemmas graylog_handler_defs = setCredentials_def CreateConnector_def graylog_handleServiceAccount_def graylog_handleConfigMap_def
  graylog_handleStatefulset_def graylog_handleService_def graylog_uninstall_def

lemma graylog_install_frames:
  assumes "patch_law c"
  shows "keeps (status_frame {GraylogStatus}) (graylog_install c assets cfg)" and "keeps (pending_frame P) (graylog_install c assets cfg)"
  unfolding graylog_install_def graylog_handler_defs Let_def
  by (intro status_rules keeps_status_modify_cr assms; simp add: GraylogStatus_def) (intro pending_rules assms)

lemma graylog_Run_frames:
  assumes "patch_law c"
  shows "keeps (status_frame {GraylogStatus}) (graylog_Run c assets cfg)" and "keeps (pending_frame P) (graylog_Run c assets cfg)"
  unfolding graylog_Run_def graylog_uninstall_def
  by (intro status_rules graylog_install_frames assms; simp add: GraylogStatus_def) (intro pending_rules graylog_install_frames assms)

lemma graylog_contract:
  assumes laws: "cluster_laws c view" and patch: "patch_law c" and quiet: "quiet_laws c view" and remote: "remote_laws c view"
  shows "component_contract (graylog_Run c assets cfg) GraylogStatus entry view graylog_keys"
proof (intro component_contract.intro graylog_Run_frames patch)
  have watch: "keeps (only_changes view K) (graylog_watchSecret c cr)" for K cr
    unfolding graylog_watchSecret_def by (intro keeps_remote remote)
  show "keeps (object_frame view graylog_keys) (graylog_Run c assets cfg)"
    unfolding graylog_Run_def graylog_install_def when_M_def
    by (intro object_rules patch quiet graylog_handle_frames [OF laws patch quiet remote] object_setCredentials [OF laws] watch
        graylog_uninstall_frames [OF laws] keeps_deleteDeployment [OF laws quiet remote] keeps_deleteUpgradeJobs [OF laws]
        keeps_configureGraylog [OF laws quiet remote] cluster.keeps_if cluster.keeps_okM; simp add: graylog_keys_def)
qed

locale graylog_client_laws = operator_client +
  assumes client_remote: "remote_laws c view"

sublocale graylog_client_laws \<subseteq> graylog: component_contract "graylog_Run c assets cfg" GraylogStatus entry view graylog_keys
  for assets cfg entry
  by (rule graylog_contract [OF client_cluster client_patch client_quiet client_remote])

interpretation store_graylog: graylog_client_laws store_client store_view
  by (intro graylog_client_laws.intro graylog_client_laws_axioms.intro store_operator.operator_client_axioms store_remote_laws)

section \<open>A successful run\<close>

definition graylog_objects :: "string \<Rightarrow> obj_key list" where
  "graylog_objects ns = [(KServiceAccount, ns, GraylogServiceAccountName), (KConfigMap, ns, GraylogComponentName),
     (KStatefulSet, ns, GraylogStatefulsetName), (KService, ns, GraylogComponentName)]"

definition present :: "('w \<Rightarrow> obj_key \<Rightarrow> object option) \<Rightarrow> kind \<Rightarrow> string \<Rightarrow> 'w opstate \<Rightarrow> bool" where
  "present view k nm s \<longleftrightarrow> view (os_world s) (k, namespace_of s, nm) \<noteq> None"

lemma present_kept:
  assumes "keeps (object_frame view (\<lambda>ns. - {(k, ns, nm)})) m" and "run_state m s = (r, t)" and "present view k nm s"
  shows "present view k nm t"
  using keeps_run [OF assms(1,2)] assms(3) by (auto simp: present_def object_frame_def same_identity_def only_changes_def)

lemma reconcile_present:
  assumes "cluster_laws c view"
    and "run_state (with_cr (\<lambda>cr. createOrUpdate c cr (d cr) (mutate (d cr)))) s = (Inr u, t)"
    and "key_of (d (os_cr s)) = (k, namespace_of s, nm)"
  shows "present view k nm t"
  using reconcile_step [OF assms] by (simp add: present_def)

lemma graylog_handleConfigMap_present:
  assumes laws: "cluster_laws c view" and run: "run_state (graylog_handleConfigMap c assets) s = (Inr u, t)"
  shows "present view KConfigMap GraylogComponentName t"
proof -
  from run obtain u1 s1 m w1 where t: "t = s1\<lparr>os_world := os_world t\<rparr>"
    and r1: "run_state (graylogConfigMap c assets (os_cr s1)) (os_world s1) = (Inr m, w1)"
    and r2: "run_state (do {
         r \<leftarrow> CreateResource c (os_cr s1) (OConfigMap m);
         case r of
           Inr _ \<Rightarrow> okM ()
         | Inl e \<Rightarrow> if IsAlreadyExists e then UpdateResource c (OConfigMap (owned_config_map c (os_cr s1) m)) else failM e }) w1 = (Inr u, os_world t)"
    unfolding graylog_handleConfigMap_def by (elim tryM_InrE with_crE) fastforce
  obtain r w2 where r3: "run_state (CreateResource c (os_cr s1) (OConfigMap m)) w1 = (r, w2)" by fastforce
  note cases = CreateResource_cases [OF laws r3]
  note key = graylog_object_keys(4) [OF r1] owned_config_map_key [OF laws, of "os_cr s1" m]
  have "view (os_world t) (KConfigMap, namespace_of s1, GraylogComponentName) \<noteq> None"
  proof (cases r)
    case (Inl e)
    then have "run_state (cl_Update c (OConfigMap (owned_config_map c (os_cr s1) m))) w2 = (Inr u, os_world t)"
      using r2 r3 by (simp add: UpdateResource_def split: if_splits)
    from cluster_laws_update(1) [OF laws this refl] key show ?thesis by auto
  next
    case (Inr v)
    then show ?thesis using r2 r3 cases(1) key by auto
  qed
  then show ?thesis using t by (metis opstate.select_convs(1) opstate.surjective opstate.update_convs(3) present_def)
qed

lemma graylog_handleService_present:
  assumes laws: "cluster_laws c view" and quiet: "quiet_laws c view" and remote: "remote_laws c view"
    and run: "run_state (graylog_handleService c cfg) s = (Inr u, t)"
  shows "present view KService GraylogComponentName t"
proof -
  from run obtain w1 u1 w2 b where t: "t = s\<lparr>os_world := os_world t\<rparr>"
    and r1: "run_state (reconcile_Service c (os_cr s) (graylog_Service (os_cr s) cfg)) w1 = (Inr u1, w2)"
    and r2: "run_state (if b then okM () else WaitForHostActive c (GraylogComponentName @ ''.'' @ namespace_of s @ ''.svc'') 9000 (60 * 10 ^ 9)) w2 = (Inr u, os_world t)"
    unfolding graylog_handleService_def Let_def by (elim with_crE bind_runE) (fastforce split: if_splits elim!: tryM_InrE)
  have "only_changes view {} w2 (os_world t)"
    by (rule keeps_run [OF _ r2]) (intro cluster.keeps_rules keeps_WaitForHostActive quiet remote)
  then have "view (os_world t) = view w2" by (auto simp: only_changes_def)
  then have "view (os_world t) (KService, namespace_of s, GraylogComponentName) \<noteq> None"
    using createOrUpdate_present [OF laws r1 [unfolded reconcile_defs]] by (simp add: graylog_object_keys)
  then show ?thesis using t by (metis opstate.select_convs(1) opstate.surjective opstate.update_convs(3) present_def)
qed

lemma graylog_handleStatefulset_present:
  assumes laws: "cluster_laws c view" and patch: "patch_law c" and quiet: "quiet_laws c view"
    and run: "run_state (graylog_handleStatefulset c cfg) s = (Inr u, t)"
  shows "present view KStatefulSet GraylogStatefulsetName t"
proof -
  let ?wait = "do {
       _ \<leftarrow> in_world (sys_Sleep c InitialDelay);
       tryM (with_cr (\<lambda>cr. WaitForStatefulsetUpdated c (om_Namespace (ls_ObjectMeta cr)) GraylogStatefulsetName (graylog_timeout cr))) (\<lambda>started.
         if \<not> started then do {
           _ \<leftarrow> UpdateStatus c GraylogStatus Failed False ''Graylog is not started'';
           failM (errors_New ''graylog is not started'') }
         else okM ()) }"
  from run obtain u1 s1 where r1: "run_state (with_cr (\<lambda>cr. reconcile_StatefulSet c cr (graylog_StatefulSet cr cfg))) s = (Inr u1, s1)"
    and r2: "run_state ?wait s1 = (Inr u, t)"
    unfolding graylog_handleStatefulset_def by (rule tryM_InrE)
  have sleep: "view (after (sys_Sleep c d) w) = view w" for d w using quiet by (simp add: quiet_laws_def)
  have "keeps (object_frame view K) ?wait" for K
    by (intro object_rules quiet_in_world sleep patch quiet keeps_viewI view_WaitForStatefulsetUpdated [OF laws quiet])
  from present_kept [OF this r2 reconcile_present [OF laws r1 [unfolded reconcile_defs]]] show ?thesis
    by (simp add: graylog_object_keys)
qed

lemma graylog_install_done:
  assumes laws: "cluster_laws c view" and patch: "patch_law c" and quiet: "quiet_laws c view" and remote: "remote_laws c view"
    and run: "run_state (graylog_install c assets cfg) s = (Inr (), t)"
  shows "\<forall>k \<in> set (graylog_objects (namespace_of t)). view (os_world t) k \<noteq> None"
proof -
  from run obtain conn u1 s1 u2 s2 u3 s3 v4 s4 v5 s5 u6 s6 u7 s7 u8 s8 v9
    where r: "run_state (graylog_handleServiceAccount c cfg) s1 = (Inr u2, s2)" "run_state (graylog_handleConfigMap c assets) s2 = (Inr u3, s3)"
      "run_state (logged (with_cr (graylog_deleteDeployment c))) s3 = (v4, s4)"
      "run_state (logged (with_cr (graylog_deleteUpgradeJobs c))) s4 = (v5, s5)"
      "run_state (graylog_handleStatefulset c cfg) s5 = (Inr u6, s6)" "run_state (graylog_handleService c cfg) s6 = (Inr u7, s7)"
      "run_state (with_cr (\<lambda>cr. when_M (gl_ContentDeployPolicy (graylog_of cr) \<noteq> ''skip'') (configureGraylog c conn cr))) s7 = (Inr u8, s8)"
      "run_state (logged (with_cr (graylog_watchSecret c))) s8 = (v9, t)"
    unfolding graylog_install_def by (elim tryM_InrE bind_runE) fastforce
  note frames = graylog_handle_frames [OF laws patch quiet remote] keeps_deleteDeployment [OF laws quiet remote]
    keeps_deleteUpgradeJobs [OF laws] keeps_configureGraylog [OF laws quiet remote] keeps_remote [OF remote]
  have kept: "keeps (object_frame view (\<lambda>ns. - {(k, ns, nm)})) (logged (with_cr (graylog_deleteDeployment c)))"
    "keeps (object_frame view (\<lambda>ns. - {(k, ns, nm)})) (logged (with_cr (graylog_deleteUpgradeJobs c)))"
    "keeps (object_frame view (\<lambda>ns. - {(k, ns, nm)})) (with_cr (\<lambda>cr. when_M (gl_ContentDeployPolicy (graylog_of cr) \<noteq> ''skip'') (configureGraylog c conn cr)))"
    "keeps (object_frame view (\<lambda>ns. - {(k, ns, nm)})) (logged (with_cr (graylog_watchSecret c)))"
    if "k \<noteq> KDeployment" "k \<noteq> KJob" for k nm
    unfolding when_M_def graylog_watchSecret_def
    by (intro object_frame.keeps_logged object_with_cr frames cluster.keeps_if cluster.keeps_okM; use that in auto)+
  have sa: "present view KServiceAccount GraylogServiceAccountName s2"
    by (rule reconcile_present [OF laws r(1) [unfolded graylog_handleServiceAccount_def reconcile_defs]]) (simp add: graylog_object_keys)
  then have sa: "present view KServiceAccount GraylogServiceAccountName s3" by (rule present_kept [OF frames(3) r(2), rotated 2]) auto
  note cm = graylog_handleConfigMap_present [OF laws r(2)]
  have early: "present view k nm s5" if "present view k nm s3" "k \<noteq> KDeployment" "k \<noteq> KJob" for k nm
    using present_kept [OF kept(2) r(4) present_kept [OF kept(1) r(3)]] that by blast
  have mid: "present view k nm s7" if "present view k nm s5" "k \<noteq> KStatefulSet" "(k, nm) \<noteq> (KService, GraylogComponentName)" for k nm
    by (rule present_kept [OF frames(5) r(6) present_kept [OF frames(4) r(5) that(1)]]) (use that in auto)
  have late: "present view k nm t" if "present view k nm s7" "k \<noteq> KDeployment" "k \<noteq> KJob" for k nm
    using present_kept [OF kept(4) r(8) present_kept [OF kept(3) r(7)]] that by blast
  have ss: "present view KStatefulSet GraylogStatefulsetName s7"
    by (rule present_kept [OF frames(5) r(6) graylog_handleStatefulset_present [OF laws patch quiet r(5)]]) auto
  note sv = graylog_handleService_present [OF laws quiet remote r(6)]
  from late [OF mid [OF early [OF sa]]] late [OF mid [OF early [OF cm]]] late [OF ss] late [OF sv]
  show ?thesis by (simp add: graylog_objects_def present_def)
qed

lemma graylog_Run_done:
  assumes laws: "cluster_laws c view" and patch: "patch_law c" and quiet: "quiet_laws c view" and remote: "remote_laws c view"
    and run: "run_state (graylog_Run c assets cfg) s = (r, t)"
  shows "os_pending t = os_pending s"
    and "r = Inr () \<Longrightarrow> status_inv (conds s) \<Longrightarrow> lookup_condition GraylogStatus (conds t) = None"
    and "r = Inr () \<Longrightarrow> graylog_installed (os_cr (after (start_status c GraylogStatus ''Start reconcile of Graylog'') s)) \<Longrightarrow>
      \<forall>k \<in> set (graylog_objects (namespace_of s)). view (os_world t) k \<noteq> None"
proof -
  let ?s = "after (start_status c GraylogStatus ''Start reconcile of Graylog'') s"
  let ?body = "if graylog_installed (os_cr ?s) then graylog_install c assets cfg else do { _ \<leftarrow> graylog_uninstall c; okM () }"
  have "GraylogStatus \<noteq> []" by (simp add: GraylogStatus_def)
  note st = start_status_done [OF patch this, where m = "''Start reconcile of Graylog''" and s = s]
  show "os_pending t = os_pending s"
    using keeps_run [OF graylog_Run_frames(2) [OF patch, where P = "{}"] run] by (simp add: pending_frame_def)
  assume "r = Inr ()"
  with run have "run_state (tryM ?body (\<lambda>_. do { _ \<leftarrow> RemoveStatus c GraylogStatus; okM () })) ?s = (Inr (), t)"
    by (simp add: graylog_Run_def case_prod_beta)
  then obtain u s1 where r1: "run_state ?body ?s = (Inr u, s1)" and t: "t = after (RemoveStatus c GraylogStatus) s1"
    by (auto elim!: tryM_InrE simp: case_prod_beta)
  have "keeps (status_frame {GraylogStatus}) ?body"
    unfolding graylog_uninstall_def by (intro status_rules graylog_install_frames patch)
  from keeps_run [OF this r1] have inv: "status_inv (conds ?s) \<Longrightarrow> status_inv (conds s1)"
    by (simp add: status_frame_def)
  show "lookup_condition GraylogStatus (conds t) = None" if "status_inv (conds s)"
    using inv st(3) that after_RemoveStatus(1) [OF patch, where s = s1 and reason = GraylogStatus] t
    by (simp add: condition_list.look_rem)
  show "\<forall>k \<in> set (graylog_objects (namespace_of s)). view (os_world t) k \<noteq> None" if "graylog_installed (os_cr ?s)"
  proof -
    have "object_frame view (\<lambda>_. {}) s1 t"
      using keepsD [OF quiet_RemoveStatus [OF patch quiet, where K = "\<lambda>_. {}" and r = GraylogStatus], of s1] t by simp
    then have "view (os_world t) = view (os_world s1)" "namespace_of t = namespace_of s1"
      by (auto simp: object_frame_def same_identity_def only_changes_def)
    moreover have "namespace_of t = namespace_of s"
      using keeps_run [OF component_contract.contract_objects [OF graylog_contract [OF laws patch quiet remote]] run]
      by (simp add: object_frame_def same_identity_def)
    ultimately show ?thesis using graylog_install_done [OF laws patch quiet remote] r1 that by simp
  qed
qed

end
