(* ===== verification/Operator.thy ===== *)
theory Operator
  imports Graylog_Contract Component_Runs
begin

text \<open>
  The controller (\<open>internal/controllers/loggingservice_controller.go\<close>): one reconcile cycle runs the component
  reconcilers one after the other on one custom resource, collects their failures as status conditions
  and waits for the components that are not yet available; \<open>Reconcile\<close> answers the work queue. Events
  reach the queue through the two predicates and the mapping from Secrets to custom resources.
  The reconciler object lives as long as the operator: its retry delay and the detected container
  runtime carry over from one cycle to the next. The work queue runs one cycle at a time.
\<close>

section \<open>Definitions\<close>

definition InitialTimeoutOnFailedReconcile :: int where
  "InitialTimeoutOnFailedReconcile = 10 ^ 9"

definition DefaultContainerRuntimeType :: string where
  "DefaultContainerRuntimeType = ''containerd''"

record LoggingServiceReconciler =
  lr_TimeoutOnFailedReconcile :: int
  lr_ContainerRuntimeType :: string

text \<open>The files embedded into the component packages.\<close>

record embedded_assets =
  ea_graylog :: embed_fs
  ea_fluentd :: embed_fs
  ea_fluentbit :: embed_fs
  ea_aggregator :: embed_fs
  ea_forwarder :: embed_fs

subsection \<open>The container runtime\<close>

text \<open>The runtimes of the nodes with their number, in the order in which they are first seen.\<close>

fun count_runtime :: "string \<Rightarrow> (string \<times> nat) list \<Rightarrow> (string \<times> nat) list" where
  "count_runtime r [] = [(r, 1)]"
| "count_runtime r ((r', n) # counts) = (if r' = r then (r', n + 1) # counts else (r', n) # count_runtime r counts)"

definition node_runtime :: "string \<Rightarrow> string" where
  "node_runtime version = hd (go_Split version ''://'')"

fun count_nodes :: "string list \<Rightarrow> string \<Rightarrow> (string \<times> nat) list \<Rightarrow> string \<times> (string \<times> nat) list" where
  "count_nodes [] current counts = (current, counts)"
| "count_nodes (version # versions) current counts =
     (if length version > 0
      then count_nodes versions (node_runtime version) (count_runtime (node_runtime version) counts)
      else count_nodes versions current counts)"

definition updateDynamicParameters :: "'w client \<Rightarrow> string \<Rightarrow> ('w opstate, string) state" where
  "updateDynamicParameters c rt = do {
     cr \<leftarrow> get_cr;
     if spec_ContainerRuntimeType (ls_Spec cr) \<noteq> [] then State_Monad.return (spec_ContainerRuntimeType (ls_Spec cr))
     else if rt \<noteq> [] then State_Monad.return rt
     else do {
       r \<leftarrow> in_world (cl_ListNodes c);
       case r of
         Inl _ \<Rightarrow> State_Monad.return DefaultContainerRuntimeType
       | Inr nodes \<Rightarrow>
           if length nodes = 0 then State_Monad.return DefaultContainerRuntimeType
           else let (current, counts) = count_nodes nodes [] [] in do {
             _ \<leftarrow> modify_cr (set_runtime current);
             if length counts > 1 then State_Monad.return DefaultContainerRuntimeType
             else if length counts = 1 then do {
               _ \<leftarrow> modify_cr (set_runtime (fst (hd counts)));
               State_Monad.return (fst (hd counts)) }
             else State_Monad.return rt } } }"

subsection \<open>The reconcile cycle\<close>

text \<open>A component run whose error becomes the component's failed status.\<close>

definition deploy :: "'w client \<Rightarrow> string \<Rightarrow> ('w opstate, unit) eff \<Rightarrow> ('w opstate, bool) state" where
  "deploy c status run = do {
     r \<leftarrow> run;
     case r of
       Inl e \<Rightarrow> do {
         _ \<leftarrow> UpdateStatus c status Failed False (''Reason: '' @ error_text e);
         State_Monad.return False }
     | Inr _ \<Rightarrow> State_Monad.return True }"

definition await_components :: "'w client \<Rightarrow> ('w opstate, bool option) state" where
  "await_components c = do {
     r \<leftarrow> ComponentsPending_Run c;
     case r of
       None \<Rightarrow> State_Monad.return None
     | Some (Inl e) \<Rightarrow> do {
         _ \<leftarrow> UpdateStatus c ComponentPendingStatus Failed False (''Reason: '' @ error_text e);
         State_Monad.return (Some False) }
     | Some (Inr started) \<Rightarrow> State_Monad.return (Some started) }"

text \<open>The result is whether every component was deployed and is available, and the container runtime;
  \<^const>\<open>None\<close> only when the fuel of the wait runs out.\<close>

definition ReconcileLoggingServiceCluster ::
  "'w client \<Rightarrow> embedded_assets \<Rightarrow> string \<Rightarrow> ('w opstate, bool option \<times> string) state" where
  "ReconcileLoggingServiceCluster c assets runtime = do {
     _ \<leftarrow> start_status c LoggingServiceStatus ''Logging Service reconcile cycle in progress'';
     _ \<leftarrow> RemoveTemporaryStatuses c;
     rt \<leftarrow> updateDynamicParameters c runtime;
     _ \<leftarrow> put_pending [];
     let cfg = defaults_Get in do {
     graylog \<leftarrow> deploy c GraylogStatus (graylog_Run c (ea_graylog assets) cfg);
     fluentd \<leftarrow> deploy c FluentdStatus (fluentd_Run c (ea_fluentd assets) cfg rt);
     fluentbit \<leftarrow> deploy c FluentbitStatus (fluentbit_Run c (ea_fluentbit assets) cfg rt);
     ha \<leftarrow> deploy c FluentbitStatus (ha_Run c (ea_aggregator assets) (ea_forwarder assets) cfg rt);
     eventsReader \<leftarrow> deploy c EventsReaderStatus (eventsreader_Run c cfg);
     started \<leftarrow> await_components c;
     State_Monad.return (map_option (\<lambda>b. b \<and> graylog \<and> fluentd \<and> fluentbit \<and> ha \<and> eventsReader) started, rt) } }"

text \<open>The part of \<open>Reconcile\<close> that works on the custom resource it has read.\<close>

definition reconcile_instance :: "'w client \<Rightarrow> embedded_assets \<Rightarrow> LoggingServiceReconciler
    \<Rightarrow> ('w opstate, (go_error + int) option \<times> LoggingServiceReconciler) state" where
  "reconcile_instance c assets r = do {
     (success, rt) \<leftarrow> ReconcileLoggingServiceCluster c assets (lr_ContainerRuntimeType r);
     let r = r\<lparr>lr_ContainerRuntimeType := rt\<rparr> in
     case success of
       None \<Rightarrow> State_Monad.return (None, r)
     | Some success \<Rightarrow>
         if \<not> success then do {
           _ \<leftarrow> UpdateStatus c LoggingServiceStatus Failed False ''Reconcile of Logging service failed'';
           State_Monad.return (Some (Inr (lr_TimeoutOnFailedReconcile r)),
             r\<lparr>lr_TimeoutOnFailedReconcile := int64_of (lr_TimeoutOnFailedReconcile r * 2)\<rparr>) }
         else do {
           _ \<leftarrow> UpdateStatus c LoggingServiceStatus Success True ''Reconcile of Logging service succeeded'';
           State_Monad.return (Some (Inr 0), r\<lparr>lr_TimeoutOnFailedReconcile := InitialTimeoutOnFailedReconcile\<rparr>) } }"

text \<open>
  \<open>Reconcile\<close> on a request: the error or the delay after which to requeue (0 for none), with
  \<^const>\<open>None\<close> when the cycle's fuel runs out, and the reconciler for the next request.
\<close>

definition Reconcile :: "'w client \<Rightarrow> embedded_assets \<Rightarrow> LoggingServiceReconciler \<Rightarrow> string \<Rightarrow> string
    \<Rightarrow> ('w, (go_error + int) option \<times> LoggingServiceReconciler) state" where
  "Reconcile c assets r ns nm = do {
     cr \<leftarrow> cl_GetLoggingService c ns nm;
     case cr of
       Inl e \<Rightarrow> State_Monad.return (Some (if IsNotFound e then Inr 0 else Inl e), r)
     | Inr cr \<Rightarrow> State (\<lambda>w.
         case run_state (reconcile_instance c assets r) \<lparr>os_cr = cr, os_pending = [], os_world = w\<rparr> of
           (result, s) \<Rightarrow> (result, os_world s)) }"

subsection \<open>From events to requests\<close>

definition authReferencesSecret :: "auth option \<Rightarrow> string \<Rightarrow> bool" where
  "authReferencesSecret a secretName =
     (case a of
        None \<Rightarrow> False
      | Some auth \<Rightarrow>
          (case auth_Token auth of None \<Rightarrow> False | Some s \<Rightarrow> sks_Name s = secretName)
          \<or> (case auth_User auth of None \<Rightarrow> False | Some s \<Rightarrow> sks_Name s = secretName)
          \<or> (case auth_Password auth of None \<Rightarrow> False | Some s \<Rightarrow> sks_Name s = secretName))"

definition outputReferencesSecret :: "output_fluentbit option \<Rightarrow> string \<Rightarrow> bool" where
  "outputReferencesSecret out secretName =
     (case out of
        None \<Rightarrow> False
      | Some output \<Rightarrow>
          (case obt_Loki output of None \<Rightarrow> False | Some x \<Rightarrow> lfb_Enabled x \<and> authReferencesSecret (lfb_Auth x) secretName)
          \<or> (case obt_Http output of None \<Rightarrow> False | Some x \<Rightarrow> hfb_Enabled x \<and> authReferencesSecret (hfb_Auth x) secretName)
          \<or> (case obt_Otel output of None \<Rightarrow> False | Some x \<Rightarrow> ofb_Enabled x \<and> authReferencesSecret (ofb_Auth x) secretName))"

definition fluentbitReferencesSecret :: "logging_service \<Rightarrow> string \<Rightarrow> bool" where
  "fluentbitReferencesSecret cr secretName =
     (case spec_Fluentbit (ls_Spec cr) of
        None \<Rightarrow> False
      | Some spec \<Rightarrow>
          if outputReferencesSecret (fb_Output spec) secretName then True
          else (case fb_Aggregator spec of None \<Rightarrow> False | Some a \<Rightarrow> outputReferencesSecret (ag_Output a) secretName))"

definition fluentdReferencesSecret :: "logging_service \<Rightarrow> string \<Rightarrow> bool" where
  "fluentdReferencesSecret cr secretName =
     (case Option.bind (spec_Fluentd (ls_Spec cr)) fd_Output of
        None \<Rightarrow> False
      | Some output \<Rightarrow>
          (case odt_Loki output of None \<Rightarrow> False | Some x \<Rightarrow> lfd_Enabled x \<and> authReferencesSecret (lfd_Auth x) secretName)
          \<or> (case odt_Http output of None \<Rightarrow> False | Some x \<Rightarrow> hfd_Enabled x \<and> authReferencesSecret (hfd_Auth x) secretName))"

definition mapSecretToLoggingServices :: "'w client \<Rightarrow> object_meta \<Rightarrow> ('w, (string \<times> string) list) state" where
  "mapSecretToLoggingServices c obj = do {
     r \<leftarrow> cl_ListLoggingServices c (om_Namespace obj);
     State_Monad.return (case r of
         Inl _ \<Rightarrow> []
       | Inr services \<Rightarrow> map (\<lambda>cr. (om_Namespace (ls_ObjectMeta cr), om_Name (ls_ObjectMeta cr)))
           (filter (\<lambda>cr. fluentbitReferencesSecret cr (om_Name obj) \<or> fluentdReferencesSecret cr (om_Name obj)) services)) }"

text \<open>Events on watched objects: what the predicates can see.\<close>

datatype watch_event = Created object | Deleted object bool | Updated object object | Generic object

fun credentialSecretChangedPredicate :: "watch_event \<Rightarrow> bool" where
  "credentialSecretChangedPredicate (Created obj) = (kind_of obj = KSecret)"
| "credentialSecretChangedPredicate (Deleted obj _) = (kind_of obj = KSecret)"
| "credentialSecretChangedPredicate (Updated old new) =
     (case (old, new) of (OSecret s, OSecret t) \<Rightarrow> se_Data s \<noteq> se_Data t | _ \<Rightarrow> False)"
| "credentialSecretChangedPredicate (Generic _) = False"

datatype service_event = ServiceCreated logging_service | ServiceDeleted logging_service bool
  | ServiceUpdated logging_service logging_service | ServiceGeneric logging_service

text \<open>The functions the predicate leaves out let their events pass.\<close>

fun ignoreDeletionPredicate :: "service_event \<Rightarrow> bool" where
  "ignoreDeletionPredicate (ServiceCreated _) = True"
| "ignoreDeletionPredicate (ServiceDeleted _ deleteStateUnknown) = (\<not> deleteStateUnknown)"
| "ignoreDeletionPredicate (ServiceUpdated old new) =
     (om_Generation (ls_ObjectMeta old) \<noteq> om_Generation (ls_ObjectMeta new))"
| "ignoreDeletionPredicate (ServiceGeneric _) = True"

text \<open>
  What the controller queues for an event, as \<open>SetupWithManager\<close> wires it: an event of a custom resource that
  passes its predicate queues the resource (the new one of an update), an event of a Secret that
  passes its predicate queues what its object is mapped to, for an update both objects.
\<close>

fun enqueue_service :: "service_event \<Rightarrow> (string \<times> string) list" where
  "enqueue_service ev =
     (if ignoreDeletionPredicate ev
      then let cr = (case ev of ServiceCreated cr \<Rightarrow> cr | ServiceDeleted cr _ \<Rightarrow> cr | ServiceUpdated _ cr \<Rightarrow> cr | ServiceGeneric cr \<Rightarrow> cr)
           in [(om_Namespace (ls_ObjectMeta cr), om_Name (ls_ObjectMeta cr))]
      else [])"

fun mapped_objects :: "watch_event \<Rightarrow> object list" where
  "mapped_objects (Created obj) = [obj]"
| "mapped_objects (Deleted obj _) = [obj]"
| "mapped_objects (Updated old new) = [old, new]"
| "mapped_objects (Generic obj) = [obj]"

fun map_objects :: "'w client \<Rightarrow> object list \<Rightarrow> ('w, (string \<times> string) list) state" where
  "map_objects c [] = State_Monad.return []"
| "map_objects c (obj # objs) = do {
     requests \<leftarrow> mapSecretToLoggingServices c (meta_of obj);
     rest \<leftarrow> map_objects c objs;
     State_Monad.return (requests @ rest) }"

definition enqueue_secret :: "'w client \<Rightarrow> watch_event \<Rightarrow> ('w, (string \<times> string) list) state" where
  "enqueue_secret c ev =
     (if credentialSecretChangedPredicate ev then map_objects c (mapped_objects ev) else State_Monad.return [])"

section \<open>A cycle\<close>

lemma status_name_facts:
  "distinct [LoggingServiceStatus, GraylogStatus, FluentdStatus, FluentbitStatus, HAFluentStatus, EventsReaderStatus, ComponentPendingStatus]"
  "distinct [ComponentPendingStatus, EventsReaderStatus, HAFluentStatus, FluentbitStatus, FluentdStatus, GraylogStatus, LoggingServiceStatus]"
  "LoggingServiceStatus \<noteq> []" "GraylogStatus \<noteq> []" "FluentdStatus \<noteq> []" "FluentbitStatus \<noteq> []" "HAFluentStatus \<noteq> []"
  "EventsReaderStatus \<noteq> []" "ComponentPendingStatus \<noteq> []"
  by (simp_all add: LoggingServiceStatus_def GraylogStatus_def FluentdStatus_def FluentbitStatus_def HAFluentStatus_def
      EventsReaderStatus_def ComponentPendingStatus_def)

lemmas status_distinct [simp] = status_name_facts(1,2) [simplified] status_name_facts(3-9)
  status_name_facts(3-9) [symmetric]

lemma entry_names [simp]:
  "cmp_StatusName fluentd_entry = FluentdStatus" "cmp_StatusName fluentbit_entry = FluentbitStatus"
  "cmp_StatusName ha_entry = HAFluentStatus" "cmp_StatusName eventsreader_entry = EventsReaderStatus"
  by (simp_all add: fluentd_entry_def fluentbit_entry_def ha_entry_def eventsreader_entry_def)

text \<open>The state when the component runs begin.\<close>

definition cycle_start :: "'w client \<Rightarrow> string \<Rightarrow> ('w opstate, string) state" where
  "cycle_start c runtime = do {
     _ \<leftarrow> start_status c LoggingServiceStatus ''Logging Service reconcile cycle in progress'';
     _ \<leftarrow> RemoveTemporaryStatuses c;
     rt \<leftarrow> updateDynamicParameters c runtime;
     _ \<leftarrow> put_pending [];
     State_Monad.return rt }"

lemma cycle_start_inv:
  assumes patch: "patch_law c" and inv: "status_inv (conds s)" and run: "run_state (cycle_start c rt0) s = (rt, t)"
  shows "status_inv (conds t)" and "os_pending t = []"
proof -
  let ?s1 = "after (start_status c LoggingServiceStatus ''Logging Service reconcile cycle in progress'') s"
  let ?s2 = "after (RemoveTemporaryStatuses c) ?s1"
  have "status_frame {LoggingServiceStatus} s ?s1"
    by (rule keepsD [OF keeps_status_start [OF patch]]) simp_all
  then have "status_inv (conds ?s1)" using inv by (simp add: status_frame_def)
  then have s2: "status_inv (conds ?s2)"
    using after_RemoveTemporaryStatuses(1) [OF patch, of ?s1] by (simp add: status_inv_take)
  have "keeps (status_frame {}) (updateDynamicParameters c rt0)"
    unfolding updateDynamicParameters_def Let_def
    by (intro status_rules) (auto intro!: status_rules keeps_status_modify_cr split: prod.split)
  from keepsD [OF this, of ?s2] s2 have "status_inv (conds (after (updateDynamicParameters c rt0) ?s2))"
    by (simp add: status_frame_def)
  then show "status_inv (conds t)" and "os_pending t = []"
    using run by (auto simp: cycle_start_def case_prod_beta)
qed

lemma ReconcileLoggingServiceCluster_eq:
  "ReconcileLoggingServiceCluster c assets runtime = do {
     rt \<leftarrow> cycle_start c runtime;
     graylog \<leftarrow> deploy c GraylogStatus (graylog_Run c (ea_graylog assets) defaults_Get);
     fluentd \<leftarrow> deploy c FluentdStatus (fluentd_Run c (ea_fluentd assets) defaults_Get rt);
     fluentbit \<leftarrow> deploy c FluentbitStatus (fluentbit_Run c (ea_fluentbit assets) defaults_Get rt);
     ha \<leftarrow> deploy c FluentbitStatus (ha_Run c (ea_aggregator assets) (ea_forwarder assets) defaults_Get rt);
     eventsReader \<leftarrow> deploy c EventsReaderStatus (eventsreader_Run c defaults_Get);
     started \<leftarrow> await_components c;
     State_Monad.return (map_option (\<lambda>b. b \<and> graylog \<and> fluentd \<and> fluentbit \<and> ha \<and> eventsReader) started, rt) }"
  by (simp add: ReconcileLoggingServiceCluster_def cycle_start_def Let_def)

subsection \<open>Deploying one component\<close>

lemma deploy_run:
  assumes "run_state (deploy c status run) s = (b, t)"
  obtains r s' where "run_state run s = (r, s')"
    and "if b then t = s' \<and> (\<exists>u. r = Inr u)
         else (\<exists>e. r = Inl e \<and> t = after (UpdateStatus c status Failed False (''Reason: '' @ error_text e)) s')"
  using assms that by (cases "run_state run s") (auto simp: deploy_def case_prod_beta split: sum.splits)

text \<open>What a deployment leaves of the other components: the conditions of other reasons, and the
  pending components up to its own entry.\<close>

lemma deploy_frame:
  assumes patch: "patch_law c" and contract: "component_contract run own entry view keys"
    and run: "run_state (deploy c status run) s = (b, t)" and "status \<noteq> []" and inv: "status_inv (conds s)"
  shows "status_inv (conds t)"
    and "r \<noteq> own \<Longrightarrow> r \<noteq> status \<Longrightarrow> lookup_condition r (conds t) = lookup_condition r (conds s)"
    and "r \<noteq> own \<Longrightarrow> is_failed (conds s) r \<Longrightarrow> is_failed (conds t) r"
    and "set (os_pending s) \<subseteq> set (os_pending t)" and "set (os_pending t) \<subseteq> insert entry (set (os_pending s))"
    and "\<not> b \<Longrightarrow> is_failed (conds t) status"
proof -
  from run obtain x s' where x: "run_state run s = (x, s')" and t: "if b then t = s' \<and> (\<exists>u. x = Inr u)
      else (\<exists>e. x = Inl e \<and> t = after (UpdateStatus c status Failed False (''Reason: '' @ error_text e)) s')"
    by (rule deploy_run)
  note o = component_contract.other_statuses_kept [OF contract inv]
  have s': "after run s = s'" using x by simp
  have inv': "status_inv (conds s')"
    using keeps_run [OF component_contract.contract_status [OF contract] x] inv by (simp add: status_frame_def)
  have look': "r' \<noteq> own \<Longrightarrow> lookup_condition r' (conds s') = lookup_condition r' (conds s)" for r'
    using o(1) s' by simp
  obtain ps where ps: "set ps \<subseteq> {entry}" "os_pending s' = os_pending s @ ps"
    using component_contract.pending_extended [OF contract, of s] s' by blast
  have "status_frame {status} s' (after (UpdateStatus c status Failed False m) s')" for m
    by (rule keepsD [OF keeps_status_UpdateStatus [OF patch \<open>status \<noteq> []\<close>]]) simp
  then have fr: "status_frame {status} s' t" and pe: "os_pending t = os_pending s'"
    using t after_UpdateStatus(2) [OF patch] by (auto simp: status_frame.frame_refl split: if_splits)
  from fr inv' show "status_inv (conds t)" by (simp add: status_frame_def)
  from fr inv' look' show "r \<noteq> own \<Longrightarrow> r \<noteq> status \<Longrightarrow> lookup_condition r (conds t) = lookup_condition r (conds s)"
    by (simp add: status_frame_def)
  show "set (os_pending s) \<subseteq> set (os_pending t)" and "set (os_pending t) \<subseteq> insert entry (set (os_pending s))"
    using ps pe by auto
  show "is_failed (conds t) status" if "\<not> b"
    using t that UpdateStatus_Failed(1) [OF patch inv' \<open>status \<noteq> []\<close>] by auto
  show "is_failed (conds t) r" if "r \<noteq> own" "is_failed (conds s) r"
    using t that look' UpdateStatus_Failed(2) [OF patch inv' \<open>status \<noteq> []\<close>, of r]
    by (auto simp: is_failed_def split: if_splits)
qed

subsection \<open>The states of a cycle\<close>

lemma cycle_states:
  assumes "run_state (ReconcileLoggingServiceCluster c assets rt0) s = ((res, rt), t)"
  obtains s0 g s1 f s2 b s3 h s4 e s5 st where "run_state (cycle_start c rt0) s = (rt, s0)"
    and "run_state (deploy c GraylogStatus (graylog_Run c (ea_graylog assets) defaults_Get)) s0 = (g, s1)"
    and "run_state (deploy c FluentdStatus (fluentd_Run c (ea_fluentd assets) defaults_Get rt)) s1 = (f, s2)"
    and "run_state (deploy c FluentbitStatus (fluentbit_Run c (ea_fluentbit assets) defaults_Get rt)) s2 = (b, s3)"
    and "run_state (deploy c FluentbitStatus (ha_Run c (ea_aggregator assets) (ea_forwarder assets) defaults_Get rt)) s3 = (h, s4)"
    and "run_state (deploy c EventsReaderStatus (eventsreader_Run c defaults_Get)) s4 = (e, s5)"
    and "run_state (await_components c) s5 = (st, t)" and "res = map_option (\<lambda>x. x \<and> g \<and> f \<and> b \<and> h \<and> e) st"
  using assms unfolding ReconcileLoggingServiceCluster_eq by (elim bind_runE) (auto intro: that)

text \<open>The invariant of the conditions holds between all steps.\<close>

lemma cycle_invs:
  assumes laws: "cluster_laws c view" and patch: "patch_law c" and quiet: "quiet_laws c view" and remote: "remote_laws c view"
    and "status_inv (conds s)" and "run_state (cycle_start c rt0) s = (rt, s0)"
    and "run_state (deploy c GraylogStatus (graylog_Run c ga cfg)) s0 = (g, s1)"
    and "run_state (deploy c FluentdStatus (fluentd_Run c fa cfg rt)) s1 = (f, s2)"
    and "run_state (deploy c FluentbitStatus (fluentbit_Run c ba cfg rt)) s2 = (b, s3)"
    and "run_state (deploy c FluentbitStatus (ha_Run c aa wa cfg rt)) s3 = (h, s4)"
    and "run_state (deploy c EventsReaderStatus (eventsreader_Run c cfg)) s4 = (e, s5)"
  shows "status_inv (conds s0)" "status_inv (conds s1)" "status_inv (conds s2)" "status_inv (conds s3)" "status_inv (conds s4)"
    "status_inv (conds s5)"
proof -
  show i0: "status_inv (conds s0)" using cycle_start_inv(1) [OF patch] assms by blast
  show i1: "status_inv (conds s1)" by (rule deploy_frame(1) [OF patch graylog_contract [OF laws patch quiet remote] assms(7) _ i0]) simp
  show i2: "status_inv (conds s2)" by (rule deploy_frame(1) [OF patch fluentd_contract [OF laws patch quiet] assms(8) _ i1]) simp
  show i3: "status_inv (conds s3)" by (rule deploy_frame(1) [OF patch fluentbit_contract [OF laws patch quiet] assms(9) _ i2]) simp
  show i4: "status_inv (conds s4)" by (rule deploy_frame(1) [OF patch ha_contract [OF laws patch quiet] assms(10) _ i3]) simp
  show i5: "status_inv (conds s5)" by (rule deploy_frame(1) [OF patch eventsreader_contract [OF laws patch quiet] assms(11) _ i4]) simp
qed

definition settled :: "component \<Rightarrow> 'w opstate \<Rightarrow> bool" where
  "settled entry s \<longleftrightarrow> entry \<in> set (os_pending s) \<or> lookup_condition (cmp_StatusName entry) (conds s) = None"

lemma settled_kept:
  assumes "patch_law c" and "component_contract run own entry' view keys"
    and "run_state (deploy c status run) s = (True, t)" and "status \<noteq> []" and "status_inv (conds s)"
    and "cmp_StatusName entry \<noteq> own" and "settled entry s"
  shows "settled entry t"
proof -
  from assms(3) obtain r where r: "run_state run s = (r, t)" by (elim deploy_run) auto
  have "lookup_condition (cmp_StatusName entry) (conds t) = lookup_condition (cmp_StatusName entry) (conds s)"
    using component_contract.other_statuses_kept(1) [OF assms(2,5,6)] r by simp
  moreover have "set (os_pending s) \<subseteq> set (os_pending t)" by (rule deploy_frame(4) [OF assms(1-5)])
  ultimately show ?thesis using assms(7) by (auto simp: settled_def)
qed

lemma runs_settle:
  assumes laws: "cluster_laws c view" and patch: "patch_law c" and quiet: "quiet_laws c view" and inv: "status_inv (conds s)"
  shows "run_state (deploy c x (fluentd_Run c assets cfg rt)) s = (True, t) \<Longrightarrow> settled fluentd_entry t"
    and "run_state (deploy c x (fluentbit_Run c assets cfg rt)) s = (True, t) \<Longrightarrow> settled fluentbit_entry t"
    and "run_state (deploy c x (ha_Run c assets assets' cfg rt)) s = (True, t) \<Longrightarrow> settled ha_entry t"
    and "run_state (deploy c x (eventsreader_Run c cfg)) s = (True, t) \<Longrightarrow> settled eventsreader_entry t"
  using fluentd_Run_done [OF laws patch, of assets cfg rt s t] fluentbit_Run_done [OF laws patch, of assets cfg rt s t]
    ha_Run_done [OF laws patch quiet, of assets assets' cfg rt s t] eventsreader_Run_done [OF laws patch, of cfg s t] inv
  by (auto elim!: deploy_run simp: settled_def split: if_splits)

text \<open>After a successful cycle no component is pending and no component has a condition left.\<close>

lemma cycle_success:
  assumes laws: "cluster_laws c view" and patch: "patch_law c" and quiet: "quiet_laws c view" and remote: "remote_laws c view"
    and inv: "status_inv (conds s)" and run: "run_state (ReconcileLoggingServiceCluster c assets rt0) s = ((Some True, rt), t)"
  shows "os_pending t = []" and "status_inv (conds t)"
    and "r \<in> {GraylogStatus, FluentdStatus, FluentbitStatus, HAFluentStatus, EventsReaderStatus, ComponentPendingStatus} \<Longrightarrow>
      lookup_condition r (conds t) = None"
proof -
  from run obtain s0 g s1 f s2 b s3 h s4 e s5 st where d: "run_state (cycle_start c rt0) s = (rt, s0)"
    "run_state (deploy c GraylogStatus (graylog_Run c (ea_graylog assets) defaults_Get)) s0 = (g, s1)"
    "run_state (deploy c FluentdStatus (fluentd_Run c (ea_fluentd assets) defaults_Get rt)) s1 = (f, s2)"
    "run_state (deploy c FluentbitStatus (fluentbit_Run c (ea_fluentbit assets) defaults_Get rt)) s2 = (b, s3)"
    "run_state (deploy c FluentbitStatus (ha_Run c (ea_aggregator assets) (ea_forwarder assets) defaults_Get rt)) s3 = (h, s4)"
    "run_state (deploy c EventsReaderStatus (eventsreader_Run c defaults_Get)) s4 = (e, s5)"
    "run_state (await_components c) s5 = (st, t)" and res: "Some True = map_option (\<lambda>x. x \<and> g \<and> f \<and> b \<and> h \<and> e) st"
    by (rule cycle_states)
  from res have ok: "g" "f" "b" "h" "e" "st = Some True" by (cases st; auto)+
  note inv = cycle_invs [OF laws patch quiet remote inv d(1-6)]
  note con = graylog_contract [OF laws patch quiet remote] fluentd_contract [OF laws patch quiet] fluentbit_contract [OF laws patch quiet]
    ha_contract [OF laws patch quiet] eventsreader_contract [OF laws patch quiet]
  from d(2) ok obtain u where "run_state (graylog_Run c (ea_graylog assets) defaults_Get) s0 = (Inr u, s1)" by (auto elim!: deploy_run)
  then have "lookup_condition GraylogStatus (conds s1) = None"
    using graylog_Run_done(2) [OF laws patch quiet remote] inv(1) by simp
  then have graylog: "lookup_condition GraylogStatus (conds s5) = None"
    using deploy_frame(2) [OF patch con(2) d(3) _ inv(2), of GraylogStatus] deploy_frame(2) [OF patch con(3) d(4) _ inv(3), of GraylogStatus]
      deploy_frame(2) [OF patch con(4) d(5) _ inv(4), of GraylogStatus] deploy_frame(2) [OF patch con(5) d(6) _ inv(5), of GraylogStatus]
    by simp
  note keep = settled_kept [OF patch con(3) d(4) [simplified ok] _ inv(3)] settled_kept [OF patch con(4) d(5) [simplified ok] _ inv(4)]
    settled_kept [OF patch con(5) d(6) [simplified ok] _ inv(5)]
  note settle = runs_settle [OF laws patch quiet]
  have settled: "settled fluentd_entry s5" "settled fluentbit_entry s5" "settled ha_entry s5" "settled eventsreader_entry s5"
    using settle(1) [OF inv(2) d(3) [simplified ok]] settle(2) [OF inv(3) d(4) [simplified ok]] settle(3) [OF inv(4) d(5) [simplified ok]]
      settle(4) [OF inv(5) d(6) [simplified ok]] keep by simp_all
  from d(7) ok have "run_state (ComponentsPending_Run c) s5 = (Some (Inr True), t)"
    by (auto simp: await_components_def case_prod_beta prod_eq_iff split: option.splits sum.splits)
  note p = ComponentsPending_Run_success [OF patch inv(6) this]
  show "os_pending t = []" and "status_inv (conds t)" by (fact p(1), fact p(2))
  have gone: "lookup_condition (cmp_StatusName en) (conds t) = None" if "settled en s5" for en
    using that p(4) [of en] p(6) unfolding settled_def by blast
  show "lookup_condition r (conds t) = None"
    if "r \<in> {GraylogStatus, FluentdStatus, FluentbitStatus, HAFluentStatus, EventsReaderStatus, ComponentPendingStatus}"
    using that p(5) p(6) [OF graylog] settled [THEN gone] by auto
qed

subsection \<open>A failing cycle\<close>

lemma pending_loop_error:
  assumes law: "patch_law c"
  shows "run_state (pending_loop c ns start fuel) s = (Some (Inl e), t) \<Longrightarrow> pending_progress s t"
proof (induction fuel arbitrary: s)
  case (Suc fuel)
  obtain now w where now: "run_state (sys_Now c) (os_world s) = (now, w)" by fastforce
  let ?s = "s\<lparr>os_world := w\<rparr>"
  obtain r u where r: "run_state (check_components c ns (length (os_pending s))) ?s = (r, u)" by fastforce
  have "pending_progress s ?s" by (simp add: pending_progress_def)
  from pending_progress.frame_trans [OF this check_components_progress [OF law]] r have su: "pending_progress s u"
    by (metis le_refl opstate.select_convs(2) opstate.surjective opstate.update_convs(3) snd_conv)
  obtain y w' where sl: "run_state (sys_Sleep c Interval) (os_world u) = (y, w')" by (metis prod.collapse)
  let ?u = "u\<lparr>os_world := w'\<rparr>"
  have "pending_progress u ?u" by (simp add: pending_progress_def)
  with su have su': "pending_progress s ?u" by (rule pending_progress.frame_trans)
  from Suc.prems now r sl have "u = t \<or> run_state (pending_loop c ns start fuel) ?u = (Some (Inl e), t)"
    by (auto simp: run_in_world case_prod_beta split: if_splits sum.splits)
  then show ?case using su pending_progress.frame_trans [OF su' Suc.IH] by blast
qed simp

lemma ComponentsPending_Run_error:
  assumes law: "patch_law c" and inv: "status_inv (conds s)" and run: "run_state (ComponentsPending_Run c) s = (Some (Inl e), t)"
  shows "status_inv (conds t)"
proof -
  let ?s = "after (start_status c ComponentPendingStatus ''Start reconcile of ComponentsPending'') s"
  obtain x w1 where w1: "run_state (sys_Sleep c InitialDelay) (os_world ?s) = (x, w1)" by (metis prod.collapse)
  obtain start w2 where w2: "run_state (sys_Now c) w1 = (start, w2)" by fastforce
  have "status_frame {ComponentPendingStatus} s ?s" by (rule keepsD [OF keeps_status_start [OF law]]) simp_all
  with inv have i: "status_inv (conds ?s)" by (simp add: status_frame_def)
  from run have "run_state (pending_loop c (namespace_of ?s) start pending_fuel) (?s\<lparr>os_world := w2\<rparr>) = (Some (Inl e), t)"
    using w1 w2
    by (auto simp: ComponentsPending_Run_def run_in_world case_prod_beta prod_eq_iff split: if_splits option.splits sum.splits)
  from pending_loop_error [OF law this] i show ?thesis by (simp add: pending_progress_def)
qed

lemma await_failed:
  assumes law: "patch_law c" and inv: "status_inv (conds s)"
    and names: "cmp_StatusName ` set (os_pending s) \<subseteq> A" and A: "[] \<notin> A" "ComponentPendingStatus \<notin> A"
    and run: "run_state (await_components c) s = (Some b, t)"
    and failed: "\<not> b \<or> (\<exists>r \<in> A. is_failed (conds s) r \<and> r \<notin> cmp_StatusName ` set (os_pending s))"
  shows "\<exists>r \<in> insert ComponentPendingStatus A. is_failed (conds t) r"
proof -
  obtain x u where x: "run_state (ComponentsPending_Run c) s = (x, u)" by fastforce
  from run x consider (error) e where "x = Some (Inl e)"
      "t = after (UpdateStatus c ComponentPendingStatus Failed False (''Reason: '' @ error_text e)) u"
    | (timeout) "x = Some (Inr False)" "\<not> b" "t = u" | (success) "x = Some (Inr True)" "b" "t = u"
    by (auto simp: await_components_def case_prod_beta split: option.splits sum.splits)
  then show ?thesis
  proof cases
    case error
    then show ?thesis
      using UpdateStatus_Failed(1) [OF law ComponentsPending_Run_error [OF law inv]] x by simp
  next
    case timeout
    have "\<forall>p \<in> set (os_pending s). cmp_StatusName p \<noteq> [] \<and> cmp_StatusName p \<noteq> ComponentPendingStatus"
      using names A by (auto simp: subset_iff)
    note w = ComponentsPending_Run_timeout [OF law inv this x [unfolded timeout]]
    from w(1) obtain p where p: "p \<in> set (os_pending u)" by (cases "os_pending u") auto
    then have "p \<in> set (os_pending s)" using w(2) by (rule rev_subsetD)
    then have "cmp_StatusName p \<in> A" by (rule subsetD [OF names imageI])
    then show ?thesis using w(3) [OF p] timeout(3) by blast
  next
    case success
    then obtain r where r: "r \<in> A" "is_failed (conds s) r" "r \<notin> cmp_StatusName ` set (os_pending s)" using failed by blast
    with A have cp: "r \<noteq> ComponentPendingStatus" by blast
    let ?s = "after (start_status c ComponentPendingStatus ''Start reconcile of ComponentsPending'') s"
    from ComponentsPending_Run_last [OF law x [unfolded success(1)]] obtain m where m: "pending_progress ?s m"
      and u: "u = after (RemoveStatus c ComponentPendingStatus) m" by auto
    have fr: "status_frame {ComponentPendingStatus} s ?s" by (rule keepsD [OF keeps_status_start [OF law]]) simp_all
    have pe: "os_pending ?s = os_pending s"
      unfolding start_status_def by (auto simp: case_prod_beta after_UpdateStatus(2) [OF law])
    have "lookup_condition r (conds m) = lookup_condition r (conds s)" and im: "status_inv (conds m)"
      using m fr inv pe r cp by (auto simp: status_frame_def pending_progress_def)
    moreover have "status_frame {ComponentPendingStatus} m u" unfolding u by (rule keepsD [OF keeps_status_RemoveStatus [OF law]]) simp
    ultimately have "lookup_condition r (conds u) = lookup_condition r (conds s)" using cp by (simp add: status_frame_def)
    then show ?thesis using r success by (auto simp: is_failed_def)
  qed
qed

text \<open>The Fluent Bit section of the resource, which decides whether Fluent Bit runs on its own or behind
  an aggregator. The operator never changes it, and the response to a status patch carries the section
  that was sent unless somebody edits the resource during the cycle.\<close>

definition section_law :: "'w client \<Rightarrow> bool" where
  "section_law c \<longleftrightarrow> (\<forall>cr w cr' w'. run_state (cl_PatchStatus c cr) w = (Inr cr', w') \<longrightarrow>
     spec_Fluentbit (ls_Spec cr') = spec_Fluentbit (ls_Spec cr))"

definition section_frame :: "'w opstate \<Rightarrow> 'w opstate \<Rightarrow> bool" where
  "section_frame s t \<longleftrightarrow> spec_Fluentbit (ls_Spec (os_cr t)) = spec_Fluentbit (ls_Spec (os_cr s))"

interpretation section_frame: effect_frame section_frame
  by unfold_locales (auto simp: section_frame_def)

lemma section_state_ops:
  "keeps section_frame get_cr" "keeps section_frame get_pending" "keeps section_frame (put_pending ps)"
  "keeps section_frame (append_pending p)" "keeps section_frame (in_world m)" "keeps section_frame (with_cr n)"
  by (auto intro!: keepsI simp: section_frame_def append_pending_def run_in_world run_with_cr case_prod_beta)

lemma section_modify: "(\<And>cr. spec_Fluentbit (ls_Spec (f cr)) = spec_Fluentbit (ls_Spec cr)) \<Longrightarrow> keeps section_frame (modify_cr f)"
  by (rule keepsI) (simp add: section_frame_def)

lemma section_patch: "section_law c \<Longrightarrow> keeps section_frame (patch c)"
  by (rule keepsI)
    (auto simp: patch_def run_tryM run_in_world section_frame_def section_law_def split: prod.split sum.split)

lemma section_status:
  assumes "section_law c"
  shows "keeps section_frame (UpdateStatus c r t b m)" and "keeps section_frame (RemoveStatus c r)"
    and "keeps section_frame (start_status c r m)"
proof -
  show u: "keeps section_frame (UpdateStatus c r t b m)" for r t b m
    unfolding UpdateStatus_def
    by (intro section_frame.keeps_rules section_state_ops)
      (auto simp: Let_def split: prod.split intro!: section_frame.keeps_rules section_modify section_patch assms)
  show "keeps section_frame (RemoveStatus c r)"
    unfolding RemoveStatus_def by (auto intro!: section_frame.keeps_rules section_state_ops section_modify section_patch assms)
  show "keeps section_frame (start_status c r m)"
    unfolding start_status_def by (intro section_frame.keeps_rules section_state_ops u)
qed

lemma section_fluentbit_Run:
  assumes "section_law c"
  shows "keeps section_frame (fluentbit_Run c assets cfg rt)"
  unfolding fluentbit_Run_def fluentbit_handleConfigSecret_def fluentbit_handleDaemonSet_def fluentbit_handleService_def fluentbit_uninstall_def
  by (intro section_frame.keeps_rules section_state_ops section_status section_modify assms;
      simp add: fluentbit_note_runtime_def set_runtime_def)

text \<open>A component that has failed and is not pending: later deployments leave it so.\<close>

definition abandoned :: "string \<Rightarrow> 'w opstate \<Rightarrow> bool" where
  "abandoned r s \<longleftrightarrow> is_failed (conds s) r \<and> r \<notin> cmp_StatusName ` set (os_pending s)"

lemma abandoned_kept:
  assumes "patch_law c" and "component_contract run own entry view keys" and "run_state (deploy c status run) s = (b, t)"
    and "status \<noteq> []" and "status_inv (conds s)" and "r \<noteq> own" and "cmp_StatusName entry = own" and "abandoned r s"
  shows "abandoned r t"
  using deploy_frame(3) [OF assms(1-6)] deploy_frame(5) [OF assms(1-5)] assms(6-8) by (auto simp: abandoned_def)

lemma deploy_pending_error:
  assumes "patch_law c" and "error_queues_nothing run" and "run_state (deploy c status run) s = (False, t)"
  shows "os_pending t = os_pending s"
proof -
  from assms(3) obtain e s' where "run_state run s = (Inl e, s')"
    "t = after (UpdateStatus c status Failed False (''Reason: '' @ error_text e)) s'" by (elim deploy_run) auto
  then show ?thesis using assms(2) after_UpdateStatus(2) [OF assms(1), where s = s'] by (simp add: error_queues_nothing_def)
qed

lemma deploy_abandons:
  assumes "patch_law c" and "component_contract run own entry view keys" and "run_state (deploy c status run) s = (False, t)"
    and "status \<noteq> []" and "status_inv (conds s)" and "error_queues_nothing run"
    and "status \<notin> cmp_StatusName ` set (os_pending s)"
  shows "abandoned status t"
  using deploy_pending_error [OF assms(1,6,3)] deploy_frame(6) [OF assms(1-5)] assms(7) by (simp add: abandoned_def)

text \<open>When the HA run fails Fluent Bit is configured behind an aggregator, so that its own run has
  queued nothing.\<close>

lemma ha_failed_excludes:
  assumes laws: "cluster_laws c view" and patch: "patch_law c" and "section": "section_law c"
    and fb: "run_state (deploy c FluentbitStatus (fluentbit_Run c ba cfg rt)) s2 = (b, s3)"
    and ha: "run_state (ha_Run c aa wa cfg rt) s3 = (Inl e, u)"
  shows "os_pending s3 = os_pending s2"
proof (cases b)
  case False
  then show ?thesis using deploy_pending_error [OF patch runs_queue_nothing_on_error(2) [OF patch]] fb by simp
next
  case True
  then obtain v where v: "run_state (fluentbit_Run c ba cfg rt) s2 = (Inr v, s3)" using fb by (elim deploy_run) auto
  let ?h = "after (start_status c HAFluentStatus ''Start reconcile of Fluentbit-Forwarder-Aggregator'') s3"
  let ?f = "after (start_status c FluentbitStatus ''Start reconcile of Fluentbit'') s2"
  have "ha_installed (os_cr ?h)"
    using ha by (auto simp: ha_Run_def case_prod_beta split: if_splits)
  moreover have "section_frame s3 ?h" "section_frame s2 ?f" "section_frame s2 s3"
    using keepsD [OF section_status(3) [OF "section"]] keeps_run [OF section_fluentbit_Run [OF "section"] v] by blast+
  then have "spec_Fluentbit (ls_Spec (os_cr ?f)) = spec_Fluentbit (ls_Spec (os_cr ?h))" by (simp add: section_frame_def)
  ultimately have "\<not> fluentbit_installed (os_cr ?f)"
    by (auto simp: ha_installed_def fluentbit_installed_def split: option.splits)
  then show ?thesis using fluentbit_Run_done [OF laws patch] v by simp
qed

lemma graylog_deploy_pending:
  assumes patch: "patch_law c" and run: "run_state (deploy c x (graylog_Run c ga cfg)) s = (b, t)"
  shows "os_pending t = os_pending s"
proof -
  from run obtain r s' where r: "run_state (graylog_Run c ga cfg) s = (r, s')" and "os_pending t = os_pending s'"
    using after_UpdateStatus(2) [OF patch] by (elim deploy_run) (auto split: if_splits)
  moreover have "os_pending s' = os_pending s"
    using keeps_run [OF graylog_Run_frames(2) [OF patch, where P = "{}"] r] by (simp add: pending_frame_def)
  ultimately show ?thesis by simp
qed

lemma cycle_abandoned:
  assumes laws: "cluster_laws c view" and patch: "patch_law c" and quiet: "quiet_laws c view" and remote: "remote_laws c view"
    and "section": "section_law c" and start: "status_inv (conds s)" and d1: "run_state (cycle_start c rt0) s = (rt, s0)"
    and d2: "run_state (deploy c GraylogStatus (graylog_Run c ga cfg)) s0 = (g, s1)"
    and d3: "run_state (deploy c FluentdStatus (fluentd_Run c fa cfg rt)) s1 = (f, s2)"
    and d4: "run_state (deploy c FluentbitStatus (fluentbit_Run c ba cfg rt)) s2 = (b, s3)"
    and d5: "run_state (deploy c FluentbitStatus (ha_Run c aa wa cfg rt)) s3 = (h, s4)"
    and d6: "run_state (deploy c EventsReaderStatus (eventsreader_Run c cfg)) s4 = (e, s5)"
  shows "set (os_pending s5) \<subseteq> {fluentd_entry, fluentbit_entry, ha_entry, eventsreader_entry}"
    and "\<not> (g \<and> f \<and> b \<and> h \<and> e) \<Longrightarrow> \<exists>r \<in> {GraylogStatus, FluentdStatus, FluentbitStatus, EventsReaderStatus}. abandoned r s5"
proof -
  note inv = cycle_invs [OF laws patch quiet remote start d1 d2 d3 d4 d5 d6]
  note con = graylog_contract [OF laws patch quiet remote, where entry = fluentd_entry] fluentd_contract [OF laws patch quiet]
    fluentbit_contract [OF laws patch quiet] ha_contract [OF laws patch quiet] eventsreader_contract [OF laws patch quiet]
  note silent = runs_queue_nothing_on_error [OF patch]
  have p1: "os_pending s1 = []" using graylog_deploy_pending [OF patch d2] cycle_start_inv(2) [OF patch start d1] by simp
  have p2: "set (os_pending s2) \<subseteq> {fluentd_entry}" using deploy_frame(5) [OF patch con(2) d3 _ inv(2)] p1 by simp
  have p3: "set (os_pending s3) \<subseteq> {fluentd_entry, fluentbit_entry}" using deploy_frame(5) [OF patch con(3) d4 _ inv(3)] p2 by auto
  have p4: "set (os_pending s4) \<subseteq> {fluentd_entry, fluentbit_entry, ha_entry}" using deploy_frame(5) [OF patch con(4) d5 _ inv(4)] p3 by auto
  show "set (os_pending s5) \<subseteq> {fluentd_entry, fluentbit_entry, ha_entry, eventsreader_entry}"
    using deploy_frame(5) [OF patch con(5) d6 _ inv(5)] p4 by auto
  note kept = abandoned_kept [OF patch con(2) d3 _ inv(2)] abandoned_kept [OF patch con(3) d4 _ inv(3)]
    abandoned_kept [OF patch con(4) d5 _ inv(4)] abandoned_kept [OF patch con(5) d6 _ inv(5)]
  have G: "abandoned GraylogStatus s5" if "\<not> g"
  proof -
    have "abandoned GraylogStatus s1" using deploy_frame(6) [OF patch con(1) d2 _ inv(1)] that p1 by (simp add: abandoned_def)
    then show ?thesis using kept by simp
  qed
  have names: "FluentbitStatus \<notin> cmp_StatusName ` set (os_pending s2)" "EventsReaderStatus \<notin> cmp_StatusName ` set (os_pending s4)"
    using p2 p4 by (auto dest!: subsetD)
  have F: "abandoned FluentdStatus s5" if "\<not> f"
    using deploy_abandons [OF patch con(2) d3 [simplified that] _ inv(2) silent(1)] p1 kept(2-) by simp
  have B: "abandoned FluentbitStatus s5" if "\<not> b"
    using deploy_abandons [OF patch con(3) d4 [simplified that] _ inv(3) silent(2) names(1)] kept(3-) by simp
  have E: "abandoned EventsReaderStatus s5" if "\<not> e"
    using deploy_abandons [OF patch con(5) d6 [simplified that] _ inv(5) silent(4) names(2)] by simp
  have H: "abandoned FluentbitStatus s5" if "\<not> h"
  proof -
    from d5 that obtain x u where "run_state (ha_Run c aa wa cfg rt) s3 = (Inl x, u)" by (elim deploy_run) auto
    from ha_failed_excludes [OF laws patch "section" d4 this] names have "FluentbitStatus \<notin> cmp_StatusName ` set (os_pending s3)" by simp
    then show ?thesis using deploy_abandons [OF patch con(4) d5 [simplified that] _ inv(4) silent(3)] kept(4) by simp
  qed
  show "\<exists>r \<in> {GraylogStatus, FluentdStatus, FluentbitStatus, EventsReaderStatus}. abandoned r s5" if "\<not> (g \<and> f \<and> b \<and> h \<and> e)"
    using that G F B H E by blast
qed

text \<open>A cycle that does not succeed leaves a failed condition that says why.\<close>

lemma cycle_failure:
  assumes laws: "cluster_laws c view" and patch: "patch_law c" and quiet: "quiet_laws c view" and remote: "remote_laws c view"
    and "section": "section_law c" and start: "status_inv (conds s)"
    and run: "run_state (ReconcileLoggingServiceCluster c assets rt0) s = ((Some False, rt), t)"
  shows "\<exists>r \<in> {GraylogStatus, FluentdStatus, FluentbitStatus, HAFluentStatus, EventsReaderStatus, ComponentPendingStatus}.
    is_failed (conds t) r"
proof -
  from run obtain s0 g s1 f s2 b s3 h s4 e s5 st where d: "run_state (cycle_start c rt0) s = (rt, s0)"
    "run_state (deploy c GraylogStatus (graylog_Run c (ea_graylog assets) defaults_Get)) s0 = (g, s1)"
    "run_state (deploy c FluentdStatus (fluentd_Run c (ea_fluentd assets) defaults_Get rt)) s1 = (f, s2)"
    "run_state (deploy c FluentbitStatus (fluentbit_Run c (ea_fluentbit assets) defaults_Get rt)) s2 = (b, s3)"
    "run_state (deploy c FluentbitStatus (ha_Run c (ea_aggregator assets) (ea_forwarder assets) defaults_Get rt)) s3 = (h, s4)"
    "run_state (deploy c EventsReaderStatus (eventsreader_Run c defaults_Get)) s4 = (e, s5)"
    "run_state (await_components c) s5 = (st, t)" and res: "Some False = map_option (\<lambda>x. x \<and> g \<and> f \<and> b \<and> h \<and> e) st"
    by (rule cycle_states)
  note inv = cycle_invs [OF laws patch quiet remote start d(1-6)]
  note ab = cycle_abandoned [OF laws patch quiet remote "section" start d(1-6)]
  let ?A = "{GraylogStatus, FluentdStatus, FluentbitStatus, HAFluentStatus, EventsReaderStatus}"
  from res obtain x where x: "st = Some x" "\<not> (x \<and> g \<and> f \<and> b \<and> h \<and> e)" by (cases st) auto
  have "\<exists>r \<in> insert ComponentPendingStatus ?A. is_failed (conds t) r"
  proof (rule await_failed [OF patch inv(6)])
    show "cmp_StatusName ` set (os_pending s5) \<subseteq> ?A" using ab(1) by auto
    show "run_state (await_components c) s5 = (Some x, t)" using d(7) x by simp
    show "\<not> x \<or> (\<exists>r \<in> ?A. is_failed (conds s5) r \<and> r \<notin> cmp_StatusName ` set (os_pending s5))"
      using ab(2) x unfolding abandoned_def by blast
  qed simp_all
  then show ?thesis by blast
qed

end
