(* ===== verification/Operator_Properties.thy ===== *)
theory Operator_Properties
  imports Operator Component_Properties
begin

text \<open>
  The properties of the controller: what a reconcile cycle reports, how it is retried, which events
  reach it, and the container runtime it works with.
\<close>

section \<open>What a cycle reports\<close>


definition sample_embedded :: embedded_assets where
  "sample_embedded = \<lparr>ea_graylog = sample_assets, ea_fluentd = sample_assets, ea_fluentbit = sample_assets, ea_aggregator = sample_assets,
     ea_forwarder = sample_assets\<rparr>"

definition initial_reconciler :: LoggingServiceReconciler where
  "initial_reconciler = \<lparr>lr_TimeoutOnFailedReconcile = InitialTimeoutOnFailedReconcile, lr_ContainerRuntimeType = []\<rparr>"

lemma await_returns:
  assumes "clock_law c clk"
  shows "\<exists>b. fst (run_state (await_components c) s) = Some b"
proof -
  obtain r t where r: "run_state (ComponentsPending_Run c) s = (r, t)" by fastforce
  with ComponentsPending_Run_returns [OF assms, of s] obtain x where "r = Some x" by auto
  with r show ?thesis by (cases x) (auto simp: await_components_def case_prod_beta)
qed

lemma cycle_returns:
  assumes "clock_law c clk"
  obtains b rt t where "run_state (ReconcileLoggingServiceCluster c assets rt0) s = ((Some b, rt), t)"
proof -
  obtain res rt t where run: "run_state (ReconcileLoggingServiceCluster c assets rt0) s = ((res, rt), t)"
    by (metis prod.collapse)
  from run obtain s5 st g f b h e where "run_state (await_components c) s5 = (st, t)"
    "res = map_option (\<lambda>x. x \<and> g \<and> f \<and> b \<and> h \<and> e) st" by (rule cycle_states)
  with await_returns [OF assms, of s5] have "\<exists>y. res = Some y" by auto
  then show ?thesis using that run by blast
qed








section \<open>Retries\<close>

text \<open>The reconciler after a history of requests, with the number of failed cycles since the last
  success. A request for a resource that cannot be read changes nothing.\<close>

inductive operator_history :: "'w client \<Rightarrow> embedded_assets \<Rightarrow> nat \<Rightarrow> LoggingServiceReconciler \<Rightarrow> bool" for c assets where
  started: "operator_history c assets 0 initial_reconciler"
| skipped: "operator_history c assets n r \<Longrightarrow> run_state (cl_GetLoggingService c ns nm) w = (Inl e, w1) \<Longrightarrow>
     run_state (Reconcile c assets r ns nm) w = ((res, r'), w') \<Longrightarrow> operator_history c assets n r'"
| cycle: "operator_history c assets n r \<Longrightarrow> run_state (cl_GetLoggingService c ns nm) w = (Inr cr, w1) \<Longrightarrow>
     run_state (ReconcileLoggingServiceCluster c assets (lr_ContainerRuntimeType r)) \<lparr>os_cr = cr, os_pending = [], os_world = w1\<rparr>
       = ((Some b, rt), s) \<Longrightarrow>
     run_state (Reconcile c assets r ns nm) w = ((res, r'), w') \<Longrightarrow> operator_history c assets (if b then 0 else Suc n) r'"

lemma Reconcile_skip:
  "run_state (cl_GetLoggingService c ns nm) w = (Inl e, w1) \<Longrightarrow>
   run_state (Reconcile c assets r ns nm) w = ((Some (if IsNotFound e then Inr 0 else Inl e), r), w1)"
  by (simp add: Reconcile_def)

lemma Reconcile_cycle:
  assumes "run_state (cl_GetLoggingService c ns nm) w = (Inr cr, w1)"
    and "run_state (ReconcileLoggingServiceCluster c assets (lr_ContainerRuntimeType r)) \<lparr>os_cr = cr, os_pending = [], os_world = w1\<rparr>
       = ((Some b, rt), s)"
  shows "fst (run_state (Reconcile c assets r ns nm) w) =
    (if b then (Some (Inr 0), r\<lparr>lr_ContainerRuntimeType := rt, lr_TimeoutOnFailedReconcile := InitialTimeoutOnFailedReconcile\<rparr>)
     else (Some (Inr (lr_TimeoutOnFailedReconcile r)),
       r\<lparr>lr_ContainerRuntimeType := rt, lr_TimeoutOnFailedReconcile := int64_of (lr_TimeoutOnFailedReconcile r * 2)\<rparr>))"
  using assms by (simp add: Reconcile_def reconcile_instance_def case_prod_beta)

lemma int64_of_double: "int64_of (int64_of x * 2) = int64_of (x * 2)"
proof -
  define q where "q = (x + 2 ^ 63) div 2 ^ 64"
  have "x + 2 ^ 63 = q * 2 ^ 64 + (x + 2 ^ 63) mod 2 ^ 64" unfolding q_def by (rule div_mult_mod_eq [symmetric])
  then have "int64_of x * 2 + 2 ^ 63 = (x * 2 + 2 ^ 63) + (- 2 * q) * 2 ^ 64" by (simp add: int64_of_def)
  then have "(int64_of x * 2 + 2 ^ 63) mod 2 ^ 64 = (x * 2 + 2 ^ 63) mod 2 ^ 64" by (simp only: mod_mult_self1)
  then show ?thesis by (simp add: int64_of_def [of "int64_of x * 2"] int64_of_def [of "x * 2"])
qed

lemma history_delay: "operator_history c assets n r \<Longrightarrow> lr_TimeoutOnFailedReconcile r = int64_of (10 ^ 9 * 2 ^ n)"
proof (induction rule: operator_history.induct)
  case started
  show ?case by (simp add: initial_reconciler_def InitialTimeoutOnFailedReconcile_def int64_of_def)
next
  case (skipped n r ns nm w e w1 res r' w')
  then show ?case using Reconcile_skip [OF skipped.hyps(2), of assets r] by simp
next
  case (cycle n r ns nm w cr w1 b rt s res r' w')
  then show ?case
    using Reconcile_cycle [OF cycle.hyps(2,3)] int64_of_double [of "10 ^ 9 * 2 ^ n"]
    by (cases b) (auto simp: InitialTimeoutOnFailedReconcile_def int64_of_def [of 1000000000] mult.commute mult.left_commute)
qed

lemma int64_of_bounds: "- (2 ^ 63) \<le> int64_of x" "int64_of x < 2 ^ 63"
  using pos_mod_sign [of "2 ^ 64" "x + 2 ^ 63"] pos_mod_bound [of "2 ^ 64" "x + 2 ^ 63"] by (simp_all add: int64_of_def)

lemma delay_exact: "int64_of (10 ^ 9 * 2 ^ n) = 10 ^ 9 * 2 ^ n \<longleftrightarrow> n \<le> 33"
proof
  assume "int64_of (10 ^ 9 * 2 ^ n) = 10 ^ 9 * 2 ^ n"
  with int64_of_bounds(2) [of "10 ^ 9 * 2 ^ n"] have "(10::int) ^ 9 * 2 ^ n < 2 ^ 63" by simp
  moreover have "(10::int) ^ 9 * 2 ^ 34 \<le> 10 ^ 9 * 2 ^ n" if "34 \<le> n" using power_increasing [OF that, of "2 :: int"] by simp
  ultimately show "n \<le> 33" by (cases "34 \<le> n") auto
next
  assume "n \<le> 33"
  then have "(10::int) ^ 9 * 2 ^ n \<le> 10 ^ 9 * 2 ^ 33" using power_increasing [of n 33 "2 :: int"] by simp
  then have "10 ^ 9 * 2 ^ n + 2 ^ 63 < (2::int) ^ 64" by simp
  moreover have "0 \<le> (10::int) ^ 9 * 2 ^ n + 2 ^ 63" by simp
  ultimately show "int64_of (10 ^ 9 * 2 ^ n) = 10 ^ 9 * 2 ^ n" unfolding int64_of_def by (subst mod_pos_pos_trivial) auto
qed

lemma delay_zero: "55 \<le> n \<Longrightarrow> int64_of (10 ^ 9 * 2 ^ n) = 0"
proof -
  assume "55 \<le> n"
  then obtain k where "n = 55 + k" using le_Suc_ex by blast
  then have "(10::int) ^ 9 * 2 ^ n + 2 ^ 63 = 2 ^ 63 + (1953125 * 2 ^ k) * 2 ^ 64" by (simp add: power_add)
  then have "((10::int) ^ 9 * 2 ^ n + 2 ^ 63) mod 2 ^ 64 = 2 ^ 63 mod 2 ^ 64" by (simp only: mod_mult_self1)
  then show "int64_of (10 ^ 9 * 2 ^ n) = 0" by (simp add: int64_of_def)
qed

text \<open>C13: the retry delay. After \<open>n\<close> failed cycles in a row the next failed cycle is retried after
  \<open>2^n\<close> seconds, computed in 64-bit nanoseconds: the delay is exact for the first 34 failures and no
  longer after that, and from the 56th on it is 0, which the work queue takes as no retry. A successful
  cycle starts again at one second.\<close>

theorem retry_delay_doubles:
  assumes "operator_history c assets n r" and "run_state (cl_GetLoggingService c ns nm) w = (Inr cr, w1)"
    and "run_state (ReconcileLoggingServiceCluster c assets (lr_ContainerRuntimeType r)) \<lparr>os_cr = cr, os_pending = [], os_world = w1\<rparr>
       = ((Some b, rt), s)"
  shows "case fst (run_state (Reconcile c assets r ns nm) w) of (result, r') \<Rightarrow>
     \<exists>delay. result = Some (Inr delay)
      \<and> (if b then delay = 0 \<and> lr_TimeoutOnFailedReconcile r' = 10 ^ 9
         else (delay = 10 ^ 9 * 2 ^ n) = (n \<le> 33) \<and> (55 \<le> n \<longrightarrow> delay = 0)
           \<and> lr_TimeoutOnFailedReconcile r' = int64_of (10 ^ 9 * 2 ^ Suc n))"
proof -
  note d = history_delay [OF assms(1)]
  have "int64_of (lr_TimeoutOnFailedReconcile r * 2) = int64_of (10 ^ 9 * 2 ^ Suc n)"
    unfolding d int64_of_double by (simp add: mult.commute mult.left_commute)
  then show ?thesis
    using Reconcile_cycle [OF assms(2,3)] delay_exact [of n] delay_zero [of n] d by (simp add: InitialTimeoutOnFailedReconcile_def)
qed

definition sample_cr_world :: store where
  "sample_cr_world = sample_world\<lparr>st_crs := [([], []) \<mapsto> zero_logging_service]\<rparr>"

theorem retry_delay_doubles_witness:
  "fst (fst (run_state (Reconcile store_client sample_embedded initial_reconciler [] []) sample_cr_world))
     \<in> {Some (Inr 0), Some (Inr (10 ^ 9))}"
proof -
  have get: "run_state (cl_GetLoggingService store_client [] []) sample_cr_world = (Inr zero_logging_service, sample_cr_world)"
    by (simp add: store_client_def sample_cr_world_def)
  obtain b rt s where "run_state (ReconcileLoggingServiceCluster store_client sample_embedded (lr_ContainerRuntimeType initial_reconciler))
      \<lparr>os_cr = zero_logging_service, os_pending = [], os_world = sample_cr_world\<rparr> = ((Some b, rt), s)"
    by (rule cycle_returns [OF store_clock_law])
  from retry_delay_doubles [OF operator_history.started get this] show ?thesis by (auto split: if_splits)
qed

section \<open>The container runtime\<close>

text \<open>The runtimes of the nodes as a set.\<close>

definition node_runtimes :: "string list \<Rightarrow> string set" where
  "node_runtimes versions = node_runtime ` {v \<in> set versions. v \<noteq> []}"

lemma count_runtime_keys:
  "distinct (map fst counts) \<Longrightarrow> distinct (map fst (count_runtime r counts)) \<and> fst ` set (count_runtime r counts) = insert r (fst ` set counts)"
proof (induction counts)
  case (Cons x counts)
  then show ?case by (cases x) (cases "fst x = r"; simp add: insert_commute)
qed simp

lemma count_nodes_keys:
  assumes "distinct (map fst counts)"
  shows "distinct (map fst (snd (count_nodes versions current counts)))
    \<and> fst ` set (snd (count_nodes versions current counts)) = fst ` set counts \<union> node_runtimes versions"
  using assms
proof (induction versions current counts rule: count_nodes.induct)
  case (2 version versions current counts)
  show ?case
  proof (cases "version = []")
    case True
    then have "node_runtimes (version # versions) = node_runtimes versions" by (auto simp: node_runtimes_def)
    then show ?thesis using 2 True by simp
  next
    case False
    note k = count_runtime_keys [OF "2.prems", of "node_runtime version"]
    from "2.IH"(1) False k show ?thesis by (auto simp: node_runtimes_def)
  qed
qed (simp add: node_runtimes_def)

lemma count_nodes_length:
  "length (snd (count_nodes versions [] [])) = card (node_runtimes versions)"
  using count_nodes_keys [of "[]" versions "[]"] distinct_card [of "map fst (snd (count_nodes versions [] []))"] by simp

lemma count_nodes_single:
  "length (snd (count_nodes versions [] [])) = 1 \<Longrightarrow> node_runtimes versions = {fst (hd (snd (count_nodes versions [] [])))}"
  using count_nodes_keys [of "[]" versions "[]"] by (auto simp: length_Suc_conv)

text \<open>C32: the container runtime. The one set in the custom resource wins, then the one already
  detected; otherwise it is the runtime all nodes agree on, and containerd when they do not agree or
  cannot be listed. When no node reports a runtime none is detected.\<close>

theorem runtime_detected:
  "fst (run_state (updateDynamicParameters c rt) s) =
    (let set_runtime = spec_ContainerRuntimeType (ls_Spec (os_cr s))
     in if set_runtime \<noteq> [] then set_runtime else if rt \<noteq> [] then rt
        else case fst (run_state (cl_ListNodes c) (os_world s)) of
               Inl _ \<Rightarrow> ''containerd''
             | Inr nodes \<Rightarrow>
                 if nodes = [] \<or> 1 < card (node_runtimes nodes) then ''containerd''
                 else if node_runtimes nodes = {} then [] else the_elem (node_runtimes nodes))"
proof -
  have few: "node_runtimes nodes = {}" if "card (node_runtimes nodes) \<noteq> 1" "\<not> 1 < card (node_runtimes nodes)" for nodes
    using that by (auto simp: node_runtimes_def card_gt_0_iff dest!: not_less_iff_gr_or_eq [THEN iffD1])
  have one: "the_elem (node_runtimes nodes) = fst (hd (snd (count_nodes nodes [] [])))" "node_runtimes nodes \<noteq> {}"
    if "card (node_runtimes nodes) = 1" for nodes
    using count_nodes_single [of nodes] that by (simp_all add: count_nodes_length)
  show ?thesis
    by (auto simp: updateDynamicParameters_def run_in_world case_prod_beta Let_def DefaultContainerRuntimeType_def count_nodes_length
        one split: sum.split dest: few simp del: One_nat_def)
qed

end
