(* ===== verification/Secret_Events.thy ===== *)
theory Secret_Events
  imports Operator Cluster_Properties
begin

text \<open>
  Credential rotation: the events of the controller (\<open>SetupWithManager\<close>) leave out a custom resource only if
  the change cannot alter any credential the operator resolves for it. What an operation reads is stated
  by comparing two runs: its result is determined by a set of keys when two worlds whose Secrets have the
  same data there give the same result.
\<close>

section \<open>What a result depends on\<close>

definition data_of :: "object option \<Rightarrow> string gomap option" where
  "data_of x = map_option secret_data x"

definition determined :: "('w \<Rightarrow> obj_key \<Rightarrow> object option) \<Rightarrow> obj_key set \<Rightarrow> ('w, 'a) state \<Rightarrow> bool" where
  "determined view K m \<longleftrightarrow> (\<forall>w w'. (\<forall>k \<in> K. data_of (view w k) = data_of (view w' k)) \<longrightarrow>
     fst (run_state m w) = fst (run_state m w') \<and> (\<forall>k \<in> K. data_of (view (after m w) k) = data_of (view (after m w') k)))"


lemma determined_return: "determined view K (State_Monad.return x)"
  by (simp add: determined_def)

lemma determined_bind:
  assumes "determined view K m" and "\<And>x. determined view K (f x)"
  shows "determined view K (State_Monad.bind m f)"
  unfolding determined_def
proof (intro allI impI)
  fix w w'
  assume agree: "\<forall>k \<in> K. data_of (view w k) = data_of (view w' k)"
  obtain x v y v' where m: "run_state m w = (x, v)" "run_state m w' = (y, v')" by fastforce
  with assms(1) agree have "x = y" "\<forall>k \<in> K. data_of (view v k) = data_of (view v' k)" unfolding determined_def by (metis fst_conv, metis snd_conv)
  then show "fst (run_state (State_Monad.bind m f) w) = fst (run_state (State_Monad.bind m f) w')
      \<and> (\<forall>k \<in> K. data_of (view (after (State_Monad.bind m f) w) k) = data_of (view (after (State_Monad.bind m f) w') k))"
    using assms(2) [of y] m unfolding determined_def by simp
qed

lemma determined_tryM: "determined view K m \<Longrightarrow> (\<And>x. determined view K (f x)) \<Longrightarrow> determined view K (tryM m f)"
  unfolding tryM_def by (rule determined_bind) (auto split: sum.split intro: determined_return)

lemmas determined_rules = determined_return determined_bind determined_tryM

text \<open>A read answers with the object, or with an error that does not depend on anything else.\<close>

definition read_law :: "'w client \<Rightarrow> ('w \<Rightarrow> obj_key \<Rightarrow> object option) \<Rightarrow> bool" where
  "read_law c view \<longleftrightarrow> (\<exists>missing. \<forall>k ns n w. fst (run_state (cl_Get c k ns n) w) =
     (case view w (k, ns, n) of None \<Rightarrow> Inl (missing k ns n) | Some x \<Rightarrow> Inr x))"

text \<open>The references the mapping looks at are those of the outputs that are resolved.\<close>

lemma fluentd_outputs_references:
  assumes "Option.bind (spec_Fluentd (ls_Spec cr)) fd_Output = Some out"
    and "x \<in> set (fluentd_outputs out)" and "oa_Enabled x" and "authReferencesSecret (oa_Auth x) n"
  shows "fluentdReferencesSecret cr n"
  using assms by (cases "odt_Loki out"; cases "odt_Http out") (auto simp: fluentdReferencesSecret_def fluentd_outputs_def)

lemma fluentbit_output_references:
  assumes "x \<in> set (fluentbit_outputs out)" and "oa_Enabled x" and "authReferencesSecret (oa_Auth x) n"
  shows "outputReferencesSecret (Some out) n"
  using assms by (cases "obt_Loki out"; cases "obt_Http out"; cases "obt_Otel out") (auto simp: outputReferencesSecret_def fluentbit_outputs_def)

lemma fluentbit_outputs_references:
  assumes "x \<in> set (fluentbit_outputs out)" and "oa_Enabled x" and "authReferencesSecret (oa_Auth x) n"
  shows "Option.bind (spec_Fluentbit (ls_Spec cr)) fb_Output = Some out \<Longrightarrow> fluentbitReferencesSecret cr n"
    and "Option.bind (Option.bind (spec_Fluentbit (ls_Spec cr)) fb_Aggregator) ag_Output = Some out \<Longrightarrow> fluentbitReferencesSecret cr n"
  using fluentbit_output_references [OF assms] by (auto simp: fluentbitReferencesSecret_def bind_eq_Some_conv)

locale secret_reader =
  fixes c :: "'w client" and view :: "'w \<Rightarrow> obj_key \<Rightarrow> object option"
  assumes reader_cluster: "cluster_laws c view" and reader_read: "read_law c view"
begin

lemma determined_key:
  assumes "(KSecret, ns, sks_Name sel) \<in> K"
  shows "determined view K (ResolveSecretKeyValue c ns (Some sel))"
proof -
  from reader_read obtain missing where get: "fst (run_state (cl_Get c KSecret ns n) w) =
      (case view w (KSecret, ns, n) of None \<Rightarrow> Inl (missing KSecret ns n) | Some x \<Rightarrow> Inr x)" for n w
    unfolding read_law_def by blast
  have same: "view (after (cl_Get c KSecret ns n) w) = view w" for n w
    using cluster_laws_get(1) [OF reader_cluster] by (metis prod.collapse)
  define answer :: "string gomap option \<Rightarrow> go_error + string" where "answer d = (case d of
      None \<Rightarrow> Inl (read_error (sks_Name sel) ns (missing KSecret ns (sks_Name sel)))
    | Some data \<Rightarrow> (case mget data (sks_Key sel) of
          None \<Rightarrow> Inl (missing_key_error (sks_Key sel) (sks_Name sel) ns)
        | Some value \<Rightarrow> if length value = 0 then Inl (missing_key_error (sks_Key sel) (sks_Name sel) ns) else Inr value))" for d
  have "run_state (ResolveSecretKeyValue c ns (Some sel)) w =
      (answer (data_of (view w (KSecret, ns, sks_Name sel))), after (cl_Get c KSecret ns (sks_Name sel)) w)" for w
    using get [of "sks_Name sel" w]
    by (cases "run_state (cl_Get c KSecret ns (sks_Name sel)) w"; cases "view w (KSecret, ns, sks_Name sel)")
      (auto simp: ResolveSecretKeyValue_def answer_def data_of_def split: option.split)
  then show ?thesis using assms by (simp add: determined_def same)
qed

lemma determined_field:
  assumes "\<And>sel. selector = Some sel \<Longrightarrow> (KSecret, ns, sks_Name sel) \<in> K"
  shows "determined view K (resolve_field c ns validate selector target vals)"
  unfolding resolve_field_def okM_def failM_def using assms
  by (auto split: option.split intro!: determined_rules determined_key)

lemma determined_auth:
  assumes "\<And>n. authReferencesSecret (Some a) n \<Longrightarrow> (KSecret, ns, n) \<in> K"
  shows "determined view K (resolveAuthValues c ns a validate)"
  unfolding resolveAuthValues_def
  by (intro determined_rules determined_field assms) (simp_all add: authReferencesSecret_def)

lemma determined_outputs:
  assumes "\<And>out n. out \<in> set outputs \<Longrightarrow> oa_Enabled out \<Longrightarrow> authReferencesSecret (oa_Auth out) n \<Longrightarrow> (KSecret, ns, n) \<in> K"
  shows "determined view K (resolveOutputAuth c ns validate outputs creds)"
  using assms
proof (induction outputs arbitrary: creds)
  case Nil
  show ?case by (simp add: okM_def determined_return)
next
  case (Cons out outs)
  have IH: "determined view K (resolveOutputAuth c ns validate outs x)" for x
    by (rule Cons.IH) (use Cons.prems in auto)
  show ?case
  proof (cases "oa_Auth out")
    case (Some a)
    then have "oa_Enabled out \<Longrightarrow> determined view K (resolveAuthValues c ns a validate)"
      using Cons.prems [of out] by (intro determined_auth) simp
    then show ?thesis using IH Some by (auto split: option.split intro: determined_tryM)
  qed (use IH in simp)
qed

lemma credentials_determined:
  defines "K \<equiv> \<lambda>cr P. {(KSecret, om_Namespace (ls_ObjectMeta cr), n) | n. P cr n}"
  shows "determined view (K cr fluentdReferencesSecret) (fluentd_resolveOutputCredentials c cr)"
    and "determined view (K cr fluentbitReferencesSecret) (fluentbit_resolveOutputCredentials c cr)"
    and "determined view (K cr fluentbitReferencesSecret) (resolveAggregatorOutputCredentials c cr)"
proof -
  have zero: "determined view L (okM x)" for L and x :: 'x by (simp add: okM_def determined_return)
  show "determined view (K cr fluentdReferencesSecret) (fluentd_resolveOutputCredentials c cr)"
  proof (cases "Option.bind (spec_Fluentd (ls_Spec cr)) fd_Output")
    case None
    then show ?thesis by (auto simp: fluentd_resolveOutputCredentials_def zero split: option.splits)
  next
    case (Some out)
    then have "fluentd_resolveOutputCredentials c cr = resolveOutputAuth c (om_Namespace (ls_ObjectMeta cr)) validateSingleLineValue
        (fluentd_outputs out) zero_fluentd_credentials"
      by (auto simp: fluentd_resolveOutputCredentials_def ResolveFluentdOutputAuth_def bind_eq_Some_conv)
    then show ?thesis using fluentd_outputs_references [OF Some] by (auto intro!: determined_outputs simp: K_def)
  qed
  show "determined view (K cr fluentbitReferencesSecret) (fluentbit_resolveOutputCredentials c cr)"
  proof (cases "Option.bind (spec_Fluentbit (ls_Spec cr)) fb_Output")
    case None
    then show ?thesis by (auto simp: fluentbit_resolveOutputCredentials_def zero split: option.splits)
  next
    case (Some out)
    then have "fluentbit_resolveOutputCredentials c cr = resolveOutputAuth c (om_Namespace (ls_ObjectMeta cr)) validateFluentbitValue
        (fluentbit_outputs out) zero_fluentbit_credentials"
      by (auto simp: fluentbit_resolveOutputCredentials_def ResolveFluentbitOutputAuth_def bind_eq_Some_conv)
    then show ?thesis using fluentbit_outputs_references(1) [OF _ _ _ Some] by (auto intro!: determined_outputs simp: K_def)
  qed
  show "determined view (K cr fluentbitReferencesSecret) (resolveAggregatorOutputCredentials c cr)"
    using fluentbit_outputs_references(2) [where cr = cr]
    by (auto simp: resolveAggregatorOutputCredentials_def ResolveFluentbitOutputAuth_def zero K_def split: option.split
        intro!: determined_outputs)
qed

end

lemma store_read_law: "read_law store_client store_view"
  unfolding read_law_def
  by (rule exI [of _ "\<lambda>k ns n. notFound"]) (simp add: store_client_def split: option.split)

interpretation store_reader: secret_reader store_client store_view
  by (intro secret_reader.intro store_client_laws store_read_law)

section \<open>The mapping\<close>








end
