(* ===== verification/Graylog_Properties.thy ===== *)
theory Graylog_Properties
  imports Graylog_Contract Component_Properties
begin

text \<open>
  The properties of the Graylog reconciler and of the content management behind it.
\<close>

section \<open>A run\<close>



section \<open>Content\<close>





section \<open>Authorization\<close>

text \<open>The reference decoder of base64.\<close>

fun alphabet_index :: "char \<Rightarrow> string \<Rightarrow> nat" where
  "alphabet_index x [] = 0"
| "alphabet_index x (y # ys) = (if x = y then 0 else Suc (alphabet_index x ys))"

definition base64_value :: "char \<Rightarrow> nat" where
  "base64_value x = alphabet_index x ''ABCDEFGHIJKLMNOPQRSTUVWXYZabcdefghijklmnopqrstuvwxyz0123456789+/''"

fun base64_decode :: "string \<Rightarrow> nat list" where
  "base64_decode (p # q # r # t # rest) =
     (let a = base64_value p * 4 + base64_value q div 16;
          b = base64_value q mod 16 * 16 + base64_value r div 4;
          d = base64_value r mod 4 * 64 + base64_value t
      in if r = CHR ''='' then [a] else if t = CHR ''='' then [a, b] else [a, b, d] @ base64_decode rest)"
| "base64_decode _ = []"

lemma base64_value_char: "n < 64 \<Longrightarrow> base64_value (base64_char n) = n \<and> base64_char n \<noteq> CHR ''=''"
proof -
  have "list_all (\<lambda>n. base64_value (base64_char n) = n \<and> base64_char n \<noteq> CHR ''='') [0..<64]" by code_simp
  then show "n < 64 \<Longrightarrow> base64_value (base64_char n) = n \<and> base64_char n \<noteq> CHR ''=''" by (simp add: list_all_iff)
qed

lemma base64_bytes_decode: "list_all (\<lambda>b. b < 256) bs \<Longrightarrow> base64_decode (base64_bytes bs) = bs"
proof (induction bs rule: base64_bytes.induct)
  case (2 a)
  then have "a div 4 < 64" "a mod 4 * 16 < 64" by auto
  then show ?case by (simp add: base64_value_char)
next
  case (3 a b)
  then have "a div 4 < 64" "a mod 4 * 16 + b div 16 < 64" "b mod 16 * 4 < 64" by auto
  moreover have "(a mod 4 * 16 + b div 16) div 16 = a mod 4" "(a mod 4 * 16 + b div 16) mod 16 = b div 16" using 3 by auto
  ultimately show ?case by (simp add: base64_value_char Let_def)
next
  case (4 a b d bs)
  then have lt: "a div 4 < 64" "a mod 4 * 16 + b div 16 < 64" "b mod 16 * 4 + d div 64 < 64" "d mod 64 < 64" by auto
  moreover have "(a mod 4 * 16 + b div 16) div 16 = a mod 4" "(a mod 4 * 16 + b div 16) mod 16 = b div 16"
    "(b mod 16 * 4 + d div 64) div 4 = b mod 16" "(b mod 16 * 4 + d div 64) mod 4 = d div 64" using 4 by auto
  ultimately show ?case using 4 by (simp add: base64_value_char Let_def)
qed simp

lemma base64_roundtrip: "map char_of (base64_decode (base64_EncodeToString s)) = s"
proof -
  have "list_all (\<lambda>b. b < 256) (map of_char s :: nat list)" by (simp add: list_all_iff)
  then show ?thesis by (simp add: base64_EncodeToString_def base64_bytes_decode comp_def)
qed

lemma go_Cut_colon: "x \<notin> set b \<Longrightarrow> go_Cut (b @ x # a) [x] = (b, a, True)"
  by (induction b) auto

text \<open>C28: the Authorization header carries the credentials: decoding it and cutting at the first colon
  gives back the user and the password, for every password and every user without a colon; a token is
  sent as it is.\<close>

theorem auth_header_roundtrip:
  "if cr_Name a \<noteq> [] \<and> cr_Password a \<noteq> []
   then \<exists>e. auth_header a = ''Basic '' @ e \<and> map char_of (base64_decode e) = cr_Name a @ '':'' @ cr_Password a
     \<and> (CHR '':'' \<in> set (cr_Name a) \<or> go_Cut (map char_of (base64_decode e)) '':'' = (cr_Name a, cr_Password a, True))
   else auth_header a = (if cr_Token a = [] then [] else ''Bearer '' @ cr_Token a)"
  using go_Cut_colon [of "CHR '':''" "cr_Name a" "cr_Password a"]
  by (auto simp: auth_header_def base64_roundtrip)

section \<open>Streams\<close>

lemma enabled_streams_titles: "st_Title ` set (enabled_streams ss) \<subseteq> str_Name ` set ss"
  by (induction ss) (auto simp: Let_def to_Stream_def)

lemma enabled_streams_distinct: "distinct (map st_Title (enabled_streams ss))"
proof (induction ss)
  case (Cons s ss)
  then show ?case using enabled_streams_titles [of ss] by (auto simp: Let_def to_Stream_def list_ex_iff)
qed simp

lemma enabled_streams_known: "list_all (\<lambda>s. table GraylogStreamsRules (st_Title s) \<noteq> None) (enabled_streams ss)"
  by (induction ss) (auto simp: Let_def to_Stream_def)

lemma find_append: "find P (xs @ ys) = (case find P xs of None \<Rightarrow> find P ys | Some x \<Rightarrow> Some x)"
  by (induction xs) auto

text \<open>A title is enabled when its last entry is to be installed.\<close>

lemma enabled_streams_last:
  "nm \<in> set (map st_Title (enabled_streams ss)) \<longleftrightarrow>
   (table GraylogStreamsRules nm \<noteq> None \<and> (\<exists>s. find (\<lambda>s. str_Name s = nm) (rev ss) = Some s \<and> str_Install s))"
proof (induction ss)
  case (Cons s ss)
  have "list_ex (\<lambda>t. str_Name s = str_Name t) ss \<longleftrightarrow> find (\<lambda>t. str_Name t = str_Name s) (rev ss) \<noteq> None"
    by (simp add: list_ex_iff find_None_iff eq_commute [of "str_Name s"] Bex_def)
  then show ?case using Cons by (auto simp: Let_def to_Stream_def find_append split: option.splits)
qed simp

lemma fold_string_ascii: "list_all (\<lambda>x. of_char x < (128 :: nat)) s \<Longrightarrow> fold_string s = map fold_char s"
proof (induction s rule: fold_string.induct)
  case (1 a b s)
  have "a \<noteq> CHR 0xC5" "a \<noteq> CHR 0xE2" using "1.prems" by auto
  then show ?case
    using "1.prems" "1.IH"(3,4) by (cases s) (simp_all del: fold_string.simps add: fold_string.simps(1) [of a b] fold_string.simps(3))
qed simp_all

lemma required_names:
  "go_EqualFold GraylogAuditStream ''audit logs''" "go_EqualFold GraylogSystemStream ''system logs''"
  "\<not> go_EqualFold GraylogAuditStream ''system logs''" "\<not> go_EqualFold GraylogSystemStream ''audit logs''"
proof -
  have "list_all (\<lambda>x. of_char x < (128 :: nat)) ''audit logs''" "list_all (\<lambda>x. of_char x < (128 :: nat)) ''system logs''"
    "list_all (\<lambda>x. of_char x < (128 :: nat)) ''Audit logs''" "list_all (\<lambda>x. of_char x < (128 :: nat)) ''System logs''" by code_simp+
  note f = this [THEN fold_string_ascii]
  have "map fold_char ''audit logs'' = ''audit logs''" "map fold_char ''system logs'' = ''system logs''"
    "map fold_char ''Audit logs'' = ''audit logs''" "map fold_char ''System logs'' = ''system logs''" by code_simp+
  with f show "go_EqualFold GraylogAuditStream ''audit logs''" "go_EqualFold GraylogSystemStream ''system logs''"
    "\<not> go_EqualFold GraylogAuditStream ''system logs''" "\<not> go_EqualFold GraylogSystemStream ''audit logs''"
    unfolding go_EqualFold_def GraylogAuditStream_def GraylogSystemStream_def by simp_all
qed

lemma ManageRequiredStreams_idem: "ManageRequiredStreams (ManageRequiredStreams ss) = ManageRequiredStreams ss"
  using required_names by (simp add: ManageRequiredStreams_def Let_def required_audit_def required_system_def)

definition wanted_streams :: "graylog \<Rightarrow> stream_spec list" where
  "wanted_streams g = (if gl_Streams g = [] then GetDefaultStreams else ManageRequiredStreams (gl_Streams g))"

lemma find_all:
  assumes "\<exists>x \<in> set xs. P x" and "\<And>x. x \<in> set xs \<Longrightarrow> P x \<Longrightarrow> Q x"
  shows "\<exists>x. find P xs = Some x \<and> Q x"
  using assms by (induction xs) auto

text \<open>The entries that could stand for a required stream have its exact name and are to be installed.\<close>

definition stands_for :: "string \<Rightarrow> string \<Rightarrow> stream_spec list \<Rightarrow> bool" where
  "stands_for nm folded ss \<longleftrightarrow> list_all (\<lambda>s. go_EqualFold (str_Name s) folded = (str_Name s = nm \<and> str_Install s)) ss"

lemma ManageRequiredStreams_set:
  "set (ManageRequiredStreams ss) = set ss
     \<union> (if \<exists>s \<in> set ss. go_EqualFold (str_Name s) ''audit logs'' then {} else {required_audit})
     \<union> (if \<exists>s \<in> set ss. go_EqualFold (str_Name s) ''system logs'' then {} else {required_system})"
  by (simp add: ManageRequiredStreams_def Let_def list_ex_iff)

lemma required_sel:
  "str_Name required_audit = GraylogAuditStream" "str_Install required_audit"
  "str_Name required_system = GraylogSystemStream" "str_Install required_system"
  by (simp_all add: required_audit_def required_system_def)

lemma stands_for_found:
  assumes "stands_for nm folded ss" and "go_EqualFold nm folded"
    and "set xs = set ss \<union> (if \<exists>s \<in> set ss. go_EqualFold (str_Name s) folded then {} else {r}) \<union> E"
    and r: "str_Name r = nm" "str_Install r" and E: "\<And>e. e \<in> E \<Longrightarrow> str_Install e"
  shows "\<exists>s. find (\<lambda>s. str_Name s = nm) (rev xs) = Some s \<and> str_Install s"
proof (rule find_all)
  have exact: "go_EqualFold (str_Name s) folded = (str_Name s = nm \<and> str_Install s)" if "s \<in> set ss" for s
    using assms(1) that by (simp add: stands_for_def list_all_iff)
  show "\<exists>s \<in> set (rev xs). str_Name s = nm"
  proof (cases "\<exists>s \<in> set ss. go_EqualFold (str_Name s) folded")
    case True
    then show ?thesis using exact assms(3) by auto
  next
    case False
    then have "r \<in> set (rev xs)" using assms(3) by simp
    then show ?thesis using r by blast
  qed
  show "str_Install s" if "s \<in> set (rev xs)" "str_Name s = nm" for s
  proof (cases "s \<in> set ss")
    case True
    then show ?thesis using exact [OF True] that(2) assms(2) by simp
  next
    case False
    then have "s = r \<or> s \<in> E" using that(1) assms(3) by (simp split: if_splits)
    then show ?thesis using r E by blast
  qed
qed

lemma required_found:
  shows "stands_for GraylogAuditStream ''audit logs'' ss \<Longrightarrow>
      \<exists>s. find (\<lambda>s. str_Name s = GraylogAuditStream) (rev (ManageRequiredStreams ss)) = Some s \<and> str_Install s"
    and "stands_for GraylogSystemStream ''system logs'' ss \<Longrightarrow>
      \<exists>s. find (\<lambda>s. str_Name s = GraylogSystemStream) (rev (ManageRequiredStreams ss)) = Some s \<and> str_Install s"
proof -
  assume a: "stands_for GraylogAuditStream ''audit logs'' ss"
  show "\<exists>s. find (\<lambda>s. str_Name s = GraylogAuditStream) (rev (ManageRequiredStreams ss)) = Some s \<and> str_Install s"
    by (rule stands_for_found [OF a required_names(1) ManageRequiredStreams_set required_sel(1,2)])
      (auto simp: required_sel split: if_splits)
next
  assume a: "stands_for GraylogSystemStream ''system logs'' ss"
  show "\<exists>s. find (\<lambda>s. str_Name s = GraylogSystemStream) (rev (ManageRequiredStreams ss)) = Some s \<and> str_Install s"
    by (rule stands_for_found [OF a required_names(2) ManageRequiredStreams_set [unfolded Un_assoc, unfolded Un_commute [of "if _ then {} else {required_audit}"],
          folded Un_assoc] required_sel(3,4)])
      (auto simp: required_sel split: if_splits)
qed

text \<open>C29: the streams to set up. Every title is set up once; a title is set up exactly when it has a
  routing rule and its last entry, after the required streams have been added, is to be installed;
  choosing the streams again for the resource as left behind gives the same. The audit and system
  streams are set up whenever the entries that could stand for them have the exact name and are to be
  installed.\<close>

theorem streams_selected:
  "case GetStreams g of (streams, g') \<Rightarrow>
     distinct (map st_Title streams)
     \<and> (\<forall>nm. nm \<in> set (map st_Title streams) \<longleftrightarrow> table GraylogStreamsRules nm \<noteq> None
          \<and> (\<exists>s. find (\<lambda>s. str_Name s = nm) (rev (wanted_streams g)) = Some s \<and> str_Install s))
     \<and> GetStreams g' = (streams, g')
     \<and> (stands_for GraylogAuditStream ''audit logs'' (gl_Streams g) \<and> stands_for GraylogSystemStream ''system logs'' (gl_Streams g)
          \<longrightarrow> {GraylogAuditStream, GraylogSystemStream} \<subseteq> set (map st_Title streams))"
proof -
  let ?es = "enabled_streams (wanted_streams g)"
  have get: "GetStreams g = (?es, g\<lparr>gl_Streams := if gl_Streams g = [] then [] else ManageRequiredStreams (gl_Streams g)\<rparr>)"
    by (simp add: GetStreams_def wanted_streams_def Let_def)
  have nonempty: "ManageRequiredStreams ss \<noteq> []" if "ss \<noteq> []" for ss
    using that by (simp add: ManageRequiredStreams_def Let_def)
  have rules: "table GraylogStreamsRules GraylogAuditStream \<noteq> None" "table GraylogStreamsRules GraylogSystemStream \<noteq> None" by code_simp+
  have default: "{GraylogAuditStream, GraylogSystemStream} \<subseteq> set (map st_Title (enabled_streams GetDefaultStreams))"
    using rules unfolding insert_subset enabled_streams_last
    by (simp add: GetDefaultStreams_def GraylogAuditStream_def GraylogSystemStream_def GraylogKubernetesEventsStream_def)
  have again: "GetStreams (snd (GetStreams g)) = GetStreams g"
    using nonempty [of "gl_Streams g"] by (simp add: GetStreams_def Let_def ManageRequiredStreams_idem)
  have required: "{GraylogAuditStream, GraylogSystemStream} \<subseteq> set (map st_Title ?es)"
    if "stands_for GraylogAuditStream ''audit logs'' (gl_Streams g)" "stands_for GraylogSystemStream ''system logs'' (gl_Streams g)"
  proof (cases "gl_Streams g = []")
    case True
    then show ?thesis using default by (simp add: wanted_streams_def)
  next
    case False
    then have "wanted_streams g = ManageRequiredStreams (gl_Streams g)" by (simp add: wanted_streams_def)
    then show ?thesis using required_found that rules enabled_streams_last by simp
  qed
  show ?thesis
    using enabled_streams_distinct [of "wanted_streams g"] enabled_streams_last [of _ "wanted_streams g"] again required
    unfolding get by simp
qed

theorem streams_selected_witness:
  "{GraylogAuditStream, GraylogSystemStream} \<subseteq> set (map st_Title (fst (GetStreams zero_graylog)))"
proof -
  have "stands_for GraylogAuditStream ''audit logs'' (gl_Streams zero_graylog)" "stands_for GraylogSystemStream ''system logs'' (gl_Streams zero_graylog)"
    by (simp_all add: stands_for_def zero_graylog_def)
  with streams_selected [of zero_graylog] show ?thesis
    by (simp only: case_prod_beta)
qed

section \<open>The hash of the root password\<close>

text \<open>\<open>hex.EncodeToString\<close> of a SHA-256 sum: 64 lower case hexadecimal digits.\<close>

definition hex_digits :: "char set" where
  "hex_digits = set ''0123456789abcdef''"

definition sha_law :: "'w client \<Rightarrow> bool" where
  "sha_law c \<longleftrightarrow> (\<forall>p. length (sys_SHA256Hex c p) = 64 \<and> set (sys_SHA256Hex c p) \<subseteq> hex_digits)"

lemma hex_not_space: "e \<in> set space_encodings \<Longrightarrow> e \<noteq> [] \<and> hd e \<notin> hex_digits \<and> last e \<notin> hex_digits"
proof -
  have "list_all (\<lambda>e. e \<noteq> [] \<and> hd e \<notin> hex_digits \<and> last e \<notin> hex_digits) space_encodings" by code_simp
  then show "e \<in> set space_encodings \<Longrightarrow> ?thesis" by (simp add: list_all_iff)
qed

lemma hex_TrimSpace:
  assumes "set s \<subseteq> hex_digits"
  shows "go_TrimSpace s = s"
proof -
  have "\<not> prefix e s \<and> \<not> suffix e s" if e: "e \<in> set space_encodings" for e
  proof
    note h = hex_not_space [OF e]
    then have "hd e \<in> set e" "last e \<in> set e" by auto
    then show "\<not> prefix e s" and "\<not> suffix e s" using h assms set_mono_prefix [of e s] set_mono_suffix [of e s] by blast+
  qed
  then have "filter (\<lambda>e. prefix e s) space_encodings = []" "filter (\<lambda>e. suffix e s) space_encodings = []"
    by (auto simp: filter_empty_conv)
  then have "leading_space s = 0" "trailing_space s = 0" by (simp_all add: leading_space_def trailing_space_def)
  then show ?thesis by (simp add: go_TrimSpace_def trim_space_left.simps trim_space_right.simps)
qed

text \<open>C30: the hash of the root password in the Graylog Secret. Afterwards the Secret holds the hash of
  the plain password under its key, up to surrounding white space, whatever was there before; every other
  key and the metadata are as before; it is reported as changed exactly when it was changed, and a second
  time nothing changes.\<close>

theorem root_password_hash:
  assumes "sha_law c"
  shows "case EnsureSecretRootPasswordSHA2 c secret plain of (secret', changed) \<Rightarrow>
     (\<exists>v. mget (se_Data secret') GraylogSecretKeyRootPasswordSHA2 = Some v \<and> go_TrimSpace v = sys_SHA256Hex c plain)
     \<and> (\<forall>k. k = GraylogSecretKeyRootPasswordSHA2 \<or> mget (se_Data secret') k = mget (se_Data secret) k)
     \<and> se_Meta secret' = se_Meta secret \<and> se_Type secret' = se_Type secret
     \<and> changed = (secret' \<noteq> secret)
     \<and> EnsureSecretRootPasswordSHA2 c secret' plain = (secret', False)"
proof -
  let ?want = "sys_SHA256Hex c plain"
  let ?key = GraylogSecretKeyRootPasswordSHA2
  let ?got = "\<lambda>s. case mget (se_Data s) ?key of None \<Rightarrow> [] | Some v \<Rightarrow> go_TrimSpace v"
  from assms have hex: "set ?want \<subseteq> hex_digits" "length ?want = 64" by (simp_all add: sha_law_def)
  then have want: "go_TrimSpace ?want = ?want" "?want \<noteq> []" using hex_TrimSpace by auto
  have run: "EnsureSecretRootPasswordSHA2 c s plain = (if ?got s = ?want then (s, False)
      else (s\<lparr>se_Data := Some ((mcontents (se_Data s))(?key \<mapsto> ?want))\<rparr>, True))" for s
    by (simp add: EnsureSecretRootPasswordSHA2_def Let_def)
  show ?thesis
  proof (cases "?got secret = ?want")
    case True
    then show ?thesis using want(2) by (simp add: run split: option.splits)
  next
    case False
    let ?s = "secret\<lparr>se_Data := Some ((mcontents (se_Data secret))(?key \<mapsto> ?want))\<rparr>"
    have key: "mget (se_Data ?s) ?key = Some ?want" by (simp add: mget_def)
    then have got: "?got ?s = ?want" using want(1) by simp
    have other: "k = ?key \<or> mget (se_Data ?s) k = mget (se_Data secret) k" for k
      by (simp add: mget_def mcontents_def split: option.split)
    have "?s \<noteq> secret" using got False by metis
    then show ?thesis using False key got other want(1) by (simp add: run)
  qed
qed

definition sample_sha_client :: "store client" where
  "sample_sha_client = store_client\<lparr>sys_SHA256Hex := \<lambda>_. replicate 64 (CHR ''a'')\<rparr>"

theorem root_password_hash_witness:
  "\<exists>v. mget (se_Data (fst (EnsureSecretRootPasswordSHA2 sample_sha_client sample_secret ''password''))) GraylogSecretKeyRootPasswordSHA2
      = Some v \<and> go_TrimSpace v = replicate 64 (CHR ''a'')"
proof -
  have "sha_law sample_sha_client" by (simp add: sha_law_def sample_sha_client_def hex_digits_def)
  from root_password_hash [OF this, where secret = sample_secret and plain = "''password''"] show ?thesis
    by (simp add: case_prod_beta) (simp add: sample_sha_client_def)
qed

section \<open>Archives\<close>

text \<open>Writing a file changes that file only; making directories and reading archives change no file.\<close>

definition file_laws :: "'w client \<Rightarrow> ('w \<Rightarrow> string \<Rightarrow> string option) \<Rightarrow> bool" where
  "file_laws c files \<longleftrightarrow>
     (\<forall>p q w. q \<noteq> p \<longrightarrow> files (after (os_Create c p) w) q = files w q)
     \<and> (\<forall>p t q w. q \<noteq> p \<longrightarrow> files (after (os_Copy c p t) w) q = files w q)
     \<and> (\<forall>p w. files (after (os_MkdirAll c p) w) = files w)
     \<and> (\<forall>p w. files (after (zip_Open c p) w) = files w) \<and> (\<forall>p f w. files (after (zip_Read c p f) w) = files w)"

definition only_writes :: "('w \<Rightarrow> string \<Rightarrow> string option) \<Rightarrow> (string \<Rightarrow> bool) \<Rightarrow> 'w \<Rightarrow> 'w \<Rightarrow> bool" where
  "only_writes files P w w' \<longleftrightarrow> (\<forall>q. P q \<or> files w' q = files w q)"

interpretation only_writes: effect_frame "only_writes files P" for files P
  by unfold_locales (simp_all add: only_writes_def, metis)

lemma writes_files:
  assumes "file_laws c files"
  shows "P p \<Longrightarrow> keeps (only_writes files P) (os_Create c p)" "P p \<Longrightarrow> keeps (only_writes files P) (os_Copy c p t)"
    "keeps (only_writes files P) (os_MkdirAll c p)" "keeps (only_writes files P) (zip_Open c p)" "keeps (only_writes files P) (zip_Read c p f)"
  using assms unfolding keeps_def only_writes_def file_laws_def by metis+

text \<open>C17: an archive is unpacked inside its directory. Whatever the names of its entries are, unpacking
  changes no file outside the destination, and on success every path it reports is inside.\<close>

theorem unzip_stays_inside:
  assumes "file_laws c files"
  shows "(\<forall>q. prefix (filepath_Clean dest @ ''/'') q \<or> files (after (Unzip c src dest) w) q = files w q)
    \<and> (case fst (run_state (Unzip c src dest) w) of
         Inl e \<Rightarrow> True | Inr names \<Rightarrow> list_all (prefix (filepath_Clean dest @ ''/'')) names)"
proof
  let ?P = "prefix (filepath_Clean dest @ ''/'')"
  have "keeps (only_writes files ?P) (unzip_files c src dest entries names)" for entries names
  proof (induction entries arbitrary: names)
    case (Cons f entries)
    show ?case
      unfolding unzip_files.simps Let_def
      by (intro only_writes.keeps_rules writes_files [OF assms] Cons.IH) (simp_all add: go_HasPrefix_def)
  qed (simp add: only_writes.keeps_okM)
  then have "keeps (only_writes files ?P) (Unzip c src dest)"
    unfolding Unzip_def by (intro only_writes.keeps_rules writes_files [OF assms])
  from keepsD [OF this, of w] show "\<forall>q. ?P q \<or> files (after (Unzip c src dest) w) q = files w q"
    unfolding only_writes_def .
  have names: "list_all ?P names'" if "run_state (unzip_files c src dest entries names) v = (Inr names', v')" "list_all ?P names"
    for entries names names' v v'
    using that
  proof (induction entries arbitrary: names v)
    case (Cons f entries)
    show ?case
    proof (cases "?P (filepath_Join [dest, zf_Name f])")
      case True
      then have ok: "list_all ?P (names @ [filepath_Join [dest, zf_Name f]])" using Cons.prems(2) by simp
      from Cons.prems(1) True obtain v'' where
        "run_state (unzip_files c src dest entries (names @ [filepath_Join [dest, zf_Name f]])) v'' = (Inr names', v')"
        by (auto simp: Let_def go_HasPrefix_def split: if_splits elim!: tryM_InrE)
      from Cons.IH [OF this ok] show ?thesis .
    next
      case False
      then show ?thesis using Cons.prems(1) by (simp add: Let_def go_HasPrefix_def)
    qed
  qed simp
  show "case fst (run_state (Unzip c src dest) w) of Inl e \<Rightarrow> True | Inr names \<Rightarrow> list_all ?P names"
  proof (cases "run_state (Unzip c src dest) w")
    case (Pair r w')
    then show ?thesis using names by (cases r) (auto simp: Unzip_def elim!: tryM_InrE)
  qed
qed

text \<open>A client that keeps the files it writes in a log, and an archive with an entry that climbs out.\<close>

definition file_entry :: "string \<Rightarrow> string \<Rightarrow> http_request" where
  "file_entry p t = \<lparr>rq_Method = ''FILE'', rq_URL = p, rq_Headers = [], rq_Body = t, rq_TLS = None\<rparr>"

definition sample_files :: "store \<Rightarrow> string \<Rightarrow> string option" where
  "sample_files w p = map_option rq_Body (find (\<lambda>rq. rq_URL rq = p) (rev (st_sent w)))"

definition sample_file_client :: "store client" where
  "sample_file_client = store_client\<lparr>
     os_Create := \<lambda>p. State (\<lambda>w. (Inr (), w\<lparr>st_sent := st_sent w @ [file_entry p []]\<rparr>)),
     os_Copy := \<lambda>p t. State (\<lambda>w. (Inr (), w\<lparr>st_sent := st_sent w @ [file_entry p t]\<rparr>)),
     zip_Open := \<lambda>_. okM [\<lparr>zf_Name = ''pack.json'', zf_IsDir = False\<rparr>, \<lparr>zf_Name = ''../../etc/passwd'', zf_IsDir = False\<rparr>]\<rparr>"

theorem unzip_stays_inside_witness:
  "sample_files (after (Unzip sample_file_client ''/tmp/packs.zip'' ''/tmp/packs'') sample_world) ''/etc/passwd'' = None"
proof -
  have "file_laws sample_file_client sample_files"
    by (simp add: file_laws_def sample_file_client_def store_client_def sample_files_def file_entry_def)
  from unzip_stays_inside [OF this, of "''/tmp/packs''" "''/tmp/packs.zip''" sample_world]
  have "prefix (filepath_Clean ''/tmp/packs'' @ ''/'') ''/etc/passwd''
      \<or> sample_files (after (Unzip sample_file_client ''/tmp/packs.zip'' ''/tmp/packs'') sample_world) ''/etc/passwd''
        = sample_files sample_world ''/etc/passwd''" by blast
  moreover have "\<not> prefix (filepath_Clean ''/tmp/packs'' @ ''/'') ''/etc/passwd''" by code_simp
  ultimately show ?thesis by (simp add: sample_files_def sample_world_def)
qed

end
