(* ===== verification/Graylog_Watch.thy ===== *)
theory Graylog_Watch
  imports Graylog_Properties
begin

text \<open>
  The watcher of the Graylog Secret (\<open>controllers/graylog/utils/watch-secret.go\<close>), which every successful
  Graylog run starts as a goroutine. It works on the custom resource it was started with, which it shares
  with the reconcile cycle. The watch channel delivers a list of events and is then closed; a channel
  that could not be opened is nil, and receiving from it never returns.
\<close>

section \<open>Definitions\<close>

datatype event_type = Added | Modified | Removed | Bookmark | ErrorEvent

datatype event_object = SecretObject secret | OtherObject

text \<open>\<open>bufio.Scanner\<close> with its default split function and its default buffer of 64 KiB, which a line
  must not fill.\<close>

definition scan_lines :: "string \<Rightarrow> go_error + string list" where
  "scan_lines text =
     (let lines = raw_lines text []
      in if list_ex (\<lambda>l. length l \<ge> 65536) lines then Inl (errors_New ''bufio.Scanner: token too long'')
         else Inr (map drop_cr lines))"

definition crlf :: string where
  "crlf = [CHR 0x0D, CHR 0x0A]"

text \<open>The loop over the lines of the configuration: the new text and whether a line was replaced.\<close>

definition set_field :: "string \<Rightarrow> string \<Rightarrow> string \<Rightarrow> string" where
  "set_field field value line = (if go_HasPrefix line field then field @ '' = '' @ value else line)"

definition rewrite_field :: "string \<Rightarrow> string \<Rightarrow> string list \<Rightarrow> string \<times> bool" where
  "rewrite_field field value lines =
     (concat (map (\<lambda>l. set_field field value l @ crlf) lines), list_ex (\<lambda>l. go_HasPrefix l field) lines)"

definition secret_value_error :: "string \<Rightarrow> logging_service \<Rightarrow> go_error" where
  "secret_value_error what cr = errors_New (''Can not find '' @ what @ '' for Graylog in the secret ''
     @ gl_GraylogSecretName (graylog_of cr) @ '' in the namespace '' @ om_Namespace (ls_ObjectMeta cr))"

definition config_text :: "config_map \<Rightarrow> string" where
  "config_text cm = mstr (cm_Data cm) GraylogConfigFileName"

text \<open>The part the two update methods share: rewrite a field of the configuration in the ConfigMap.\<close>

definition update_config_field :: "'w client \<Rightarrow> string \<Rightarrow> string \<Rightarrow> logging_service \<Rightarrow> ('w, unit) eff" where
  "update_config_field c field value cr =
     tryM (cl_Get c KConfigMap (om_Namespace (ls_ObjectMeta cr)) GraylogComponentName) (\<lambda>obj.
       case obj of
         OConfigMap cm \<Rightarrow>
           if config_text cm = [] then okM ()
           else tryM (pureE (scan_lines (config_text cm))) (\<lambda>lines.
             let (result, changed) = rewrite_field field value lines
             in if changed
                then cl_Update c (OConfigMap (cm\<lparr>cm_Data := Some ((mcontents (cm_Data cm))(GraylogConfigFileName \<mapsto> result))\<rparr>))
                else okM ())
       | _ \<Rightarrow> failM (errors_New ''not a ConfigMap''))"

definition syncRootPasswordSHA2SecretKey :: "'w client \<Rightarrow> string \<Rightarrow> logging_service \<Rightarrow> ('w, unit) eff" where
  "syncRootPasswordSHA2SecretKey c plainPassword cr =
     tryM (get_secret c (om_Namespace (ls_ObjectMeta cr)) (gl_GraylogSecretName (graylog_of cr))) (\<lambda>sec.
       case EnsureSecretRootPasswordSHA2 c sec plainPassword of
         (sec', changed) \<Rightarrow> if \<not> changed then okM () else cl_Update c (OSecret sec'))"

definition updateUser :: "'w client \<Rightarrow> secret \<Rightarrow> ('w opstate, unit) eff" where
  "updateUser c secret = do {
     cr \<leftarrow> get_cr;
     case nonempty_value secret ''user'' of
       None \<Rightarrow> failM (secret_value_error ''user'' cr)
     | Some usr \<Rightarrow>
         if gl_User (graylog_of cr) = usr then okM ()
         else do {
           _ \<leftarrow> modify_cr (modify_graylog (\<lambda>g. g\<lparr>gl_User := usr\<rparr>));
           with_cr (update_config_field c GraylogUserField usr) } }"

definition updatePassword :: "'w client \<Rightarrow> secret \<Rightarrow> ('w opstate, unit) eff" where
  "updatePassword c secret = do {
     cr \<leftarrow> get_cr;
     case nonempty_value secret ''password'' of
       None \<Rightarrow> failM (secret_value_error ''password'' cr)
     | Some pwd \<Rightarrow>
         if gl_Password (graylog_of cr) = pwd then with_cr (syncRootPasswordSHA2SecretKey c pwd)
         else do {
           _ \<leftarrow> modify_cr (modify_graylog (\<lambda>g. g\<lparr>gl_Password := pwd\<rparr>));
           tryM (with_cr (update_config_field c GraylogPasswordField (sys_SHA256Hex c pwd))) (\<lambda>_.
             with_cr (syncRootPasswordSHA2SecretKey c pwd)) } }"

text \<open>The loop of \<open>Watch\<close>: an event on anything but the Graylog Secret ends it.\<close>

fun watch_loop :: "'w client \<Rightarrow> (event_type \<times> event_object) list \<Rightarrow> ('w opstate, unit) state" where
  "watch_loop c [] = State_Monad.return ()"
| "watch_loop c ((t, obj) # events) =
     (case obj of
        OtherObject \<Rightarrow> State_Monad.return ()
      | SecretObject secret \<Rightarrow> do {
          cr \<leftarrow> get_cr;
          if om_Name (se_Meta secret) \<noteq> gl_GraylogSecretName (graylog_of cr) then State_Monad.return ()
          else do {
            _ \<leftarrow> (case t of
                   Modified \<Rightarrow> do { _ \<leftarrow> logged (updateUser c secret); logged (updatePassword c secret) }
                 | _ \<Rightarrow> State_Monad.return ());
            watch_loop c events } })"

text \<open>\<^const>\<open>None\<close> when the goroutine blocks for ever.\<close>

definition Watch :: "'w client \<Rightarrow> (event_type \<times> event_object) list option \<Rightarrow> ('w opstate, unit option) state" where
  "Watch c channel =
     (case channel of
        None \<Rightarrow> State_Monad.return None
      | Some events \<Rightarrow> do { _ \<leftarrow> watch_loop c events; State_Monad.return (Some ()) })"

section \<open>Lines\<close>

text \<open>What the watcher writes it reads back as the same lines.\<close>

lemma scan_written:
  assumes "list_all (\<lambda>l. CHR 0x0A \<notin> set l \<and> length l < 65535) lines"
  shows "scan_lines (concat (map (\<lambda>l. l @ crlf) lines)) = Inr lines"
proof -
  have "raw_lines (concat (map (\<lambda>l. l @ crlf) lines)) [] = map (\<lambda>l. l @ [CHR 0x0D]) lines"
    using assms
  proof (induction lines)
    case (Cons l lines)
    then have "CHR 0x0A \<notin> set (l @ [CHR 0x0D])" by simp
    from raw_lines_crlf [OF this, of "concat (map (\<lambda>l. l @ crlf) lines)" "[]"] Cons show ?case by (simp add: crlf_def)
  qed simp
  with assms show ?thesis by (auto simp: scan_lines_def Let_def drop_cr_snoc comp_def list_ex_iff list_all_iff)
qed

lemma scanned_lines:
  assumes "scan_lines content = Inr lines"
  shows "list_all (\<lambda>l. CHR 0x0A \<notin> set l \<and> length l < 65536) lines"
proof -
  have raw: "list_all (\<lambda>l. CHR 0x0A \<notin> set l) (raw_lines content line)" if "CHR 0x0A \<notin> set line" for line
    using that by (induction content line rule: raw_lines.induct) auto
  have cr: "set (drop_cr l) \<subseteq> set l" "length (drop_cr l) \<le> length l" for l
    by (auto simp: drop_cr_def dest: in_set_butlastD)
  from assms have lines: "lines = map drop_cr (raw_lines content [])"
    and short: "\<forall>l \<in> set (raw_lines content []). length l < 65536"
    by (auto simp: scan_lines_def Let_def list_ex_iff not_le split: if_splits)
  show ?thesis unfolding lines list_all_iff set_map
  proof (intro ballI, elim imageE)
    fix l r assume "l = drop_cr r" "r \<in> set (raw_lines content [])"
    with raw [of "[]"] short cr [of r] show "CHR 0x0A \<notin> set l \<and> length l < 65536"
      by (auto simp: list_all_iff intro: le_less_trans)
  qed
qed

section \<open>The configuration in the ConfigMap\<close>

abbreviation config_key :: "logging_service \<Rightarrow> obj_key" where
  "config_key cr \<equiv> (KConfigMap, om_Namespace (ls_ObjectMeta cr), GraylogComponentName)"

abbreviation credentials_key :: "logging_service \<Rightarrow> obj_key" where
  "credentials_key cr \<equiv> (KSecret, om_Namespace (ls_ObjectMeta cr), gl_GraylogSecretName (graylog_of cr))"

lemma rewrite_field_scan:
  assumes "list_all (\<lambda>l. CHR 0x0A \<notin> set l \<and> length l < 65535) lines"
    and "CHR 0x0A \<notin> set (field @ '' = '' @ value)" and "length (field @ '' = '' @ value) < 65535"
  shows "scan_lines (fst (rewrite_field field value lines)) = Inr (map (set_field field value) lines)"
proof -
  have "list_all (\<lambda>l. CHR 0x0A \<notin> set l \<and> length l < 65535) (map (set_field field value) lines)"
    using assms by (auto simp: list_all_iff set_field_def)
  from scan_written [OF this] show ?thesis by (simp add: rewrite_field_def comp_def)
qed

lemma rewrite_field_unchanged: "\<not> snd (rewrite_field field value lines) \<Longrightarrow> map (set_field field value) lines = lines"
  by (auto simp: rewrite_field_def list_ex_iff set_field_def intro: map_idI)

lemma stored_config_map:
  assumes "stored_as (OConfigMap cm) obj"
  obtains cm' where "obj = OConfigMap cm'" and "mcontents (cm_Data cm') = mcontents (cm_Data cm)"
  using assms by (cases obj) (auto simp: stored_as_def key_of_def payload_def)

lemma mcontents_mget: "mget m = mcontents m"
  by (rule ext) (simp add: mget_def mcontents_def split: option.split)

lemma config_text_contents: "config_text cm = (case mcontents (cm_Data cm) GraylogConfigFileName of None \<Rightarrow> [] | Some v \<Rightarrow> v)"
  by (simp add: config_text_def mstr_def mcontents_mget)

text \<open>What \<open>cm\<close> holds afterwards: the lines of the configuration with the field replaced, and every other
  file as before.\<close>

definition field_written :: "string \<Rightarrow> string \<Rightarrow> config_map \<Rightarrow> config_map \<Rightarrow> bool" where
  "field_written field value cm cm' \<longleftrightarrow>
     scan_lines (config_text cm') = map_sum id (map (set_field field value)) (scan_lines (config_text cm))
     \<and> (\<forall>k. k = GraylogConfigFileName \<or> mget (cm_Data cm') k = mget (cm_Data cm) k)"

lemma config_field_update:
  assumes laws: "cluster_laws c view" and upd: "run_state (cl_Update c (OConfigMap (cm\<lparr>cm_Data := Some ((mcontents (cm_Data cm))
      (GraylogConfigFileName \<mapsto> fst (rewrite_field field value lines)))\<rparr>))) w1 = (r, w')"
    and v: "view w1 = view w" and key: "key_of (OConfigMap cm) = config_key cr"
    and lines: "scan_lines (config_text cm) = Inr lines" "list_all (\<lambda>l. length l < 65535) lines"
    and field: "CHR 0x0A \<notin> set (field @ '' = '' @ value)" "length (field @ '' = '' @ value) < 65535"
  shows "only_changes view {config_key cr} w w' \<and>
     (r = Inr () \<longrightarrow> (\<exists>cm'. view w' (config_key cr) = Some (OConfigMap cm') \<and> field_written field value cm cm'))"
proof -
  let ?cm = "cm\<lparr>cm_Data := Some ((mcontents (cm_Data cm))(GraylogConfigFileName \<mapsto> fst (rewrite_field field value lines)))\<rparr>"
  have k: "key_of (OConfigMap ?cm) = config_key cr" using key by (simp add: key_of_def)
  note u = cluster_laws_update [OF laws upd]
  have "list_all (\<lambda>l. CHR 0x0A \<notin> set l \<and> length l < 65535) lines"
    using scanned_lines [OF lines(1)] lines(2) by (simp add: list_all_iff)
  note scan = rewrite_field_scan [OF this field]
  show ?thesis
  proof (cases r)
    case (Inl e)
    with u(2) v show ?thesis by (auto intro: only_changes_view)
  next
    case (Inr u)
    from u(1) [OF Inr] obtain obj' where st: "stored_as (OConfigMap ?cm) obj'" "view w' = (view w1)(config_key cr \<mapsto> obj')"
      unfolding k by blast
    from st(1) obtain cm' where cm': "obj' = OConfigMap cm'" "mcontents (cm_Data cm') = mcontents (cm_Data ?cm)"
      by (rule stored_config_map)
    from cm'(2) scan lines(1) have "field_written field value cm cm'"
      unfolding field_written_def config_text_contents mcontents_mget by simp
    with st(2) cm'(1) v show ?thesis by (auto simp: only_changes_def)
  qed
qed

lemma update_config_field_cases:
  assumes laws: "cluster_laws c view" and run: "run_state (update_config_field c field value cr) w = (r, w')"
    and cm: "view w (config_key cr) = Some (OConfigMap cm)"
    and lines: "scan_lines (config_text cm) = Inr lines" "list_all (\<lambda>l. length l < 65535) lines"
    and field: "CHR 0x0A \<notin> set (field @ '' = '' @ value)" "length (field @ '' = '' @ value) < 65535"
  shows "only_changes view {config_key cr} w w'"
    and "r = Inr () \<Longrightarrow> \<exists>cm'. view w' (config_key cr) = Some (OConfigMap cm') \<and> field_written field value cm cm'"
proof -
  let ?out = "rewrite_field field value lines"
  obtain g w1 where g: "run_state (cl_Get c KConfigMap (om_Namespace (ls_ObjectMeta cr)) GraylogComponentName) w = (g, w1)" by fastforce
  note got = cluster_laws_get [OF laws g]
  have same: "field_written field value cm cm" if "map (set_field field value) lines = lines"
    using that lines(1) by (simp add: field_written_def)
  have "only_changes view {config_key cr} w w' \<and>
     (r = Inr () \<longrightarrow> (\<exists>cm'. view w' (config_key cr) = Some (OConfigMap cm') \<and> field_written field value cm cm'))"
  proof (cases g)
    case (Inl e)
    with g run got(1) show ?thesis by (auto simp: update_config_field_def intro: only_changes_view)
  next
    case (Inr obj)
    with got(2) [OF Inr] cm have obj: "obj = OConfigMap cm" and key: "key_of (OConfigMap cm) = config_key cr" by simp_all
    show ?thesis
    proof (cases "config_text cm \<noteq> [] \<and> snd ?out")
      case False
      then have "r = Inr ()" "w' = w1"
        using run g Inr obj lines(1) by (auto simp: update_config_field_def case_prod_beta Let_def run_tryM split: if_splits)
      moreover have "map (set_field field value) lines = lines"
        using False lines(1) rewrite_field_unchanged by (cases "config_text cm = []") (auto simp: scan_lines_def)
      ultimately show ?thesis using got(1) cm same by (auto intro: only_changes_view)
    next
      case True
      then show ?thesis
        using run g Inr obj lines(1)
        by (intro config_field_update [OF laws _ got(1) key lines field])
          (simp add: update_config_field_def case_prod_beta Let_def run_tryM)
    qed
  qed
  then show "only_changes view {config_key cr} w w'"
    and "r = Inr () \<Longrightarrow> \<exists>cm'. view w' (config_key cr) = Some (OConfigMap cm') \<and> field_written field value cm cm'" by blast+
qed

section \<open>The hash in the Secret\<close>

definition hash_stored :: "'w client \<Rightarrow> string \<Rightarrow> secret \<Rightarrow> bool" where
  "hash_stored c plain secret \<longleftrightarrow>
     (\<exists>v. mget (se_Data secret) GraylogSecretKeyRootPasswordSHA2 = Some v \<and> go_TrimSpace v = sys_SHA256Hex c plain)"

lemma ensured_hash:
  assumes "sha_law c" and "EnsureSecretRootPasswordSHA2 c secret plain = (secret', changed)"
  shows "hash_stored c plain secret'" and "se_Meta secret' = se_Meta secret" and "\<not> changed \<Longrightarrow> secret' = secret"
proof -
  from assms(1) have "set (sys_SHA256Hex c plain) \<subseteq> hex_digits" "length (sys_SHA256Hex c plain) = 64"
    by (simp_all add: sha_law_def)
  then have "go_TrimSpace (sys_SHA256Hex c plain) = sys_SHA256Hex c plain" "sys_SHA256Hex c plain \<noteq> []" using hex_TrimSpace by auto
  with assms(2) show "hash_stored c plain secret'" "se_Meta secret' = se_Meta secret" "\<not> changed \<Longrightarrow> secret' = secret"
    by (auto simp: EnsureSecretRootPasswordSHA2_def Let_def hash_stored_def split: if_splits option.splits)
qed

lemma stored_hash:
  assumes "stored_as (OSecret secret) obj" and "hash_stored c plain secret"
  obtains secret' where "obj = OSecret secret'" and "hash_stored c plain secret'"
  using assms by (cases obj) (auto simp: stored_as_def key_of_def payload_def hash_stored_def mcontents_mget)

lemma sync_cases:
  assumes laws: "cluster_laws c view" and sha: "sha_law c"
    and run: "run_state (syncRootPasswordSHA2SecretKey c plain cr) w = (r, w')"
  shows "only_changes view {credentials_key cr} w w'"
    and "r = Inr () \<Longrightarrow> \<exists>sec. view w' (credentials_key cr) = Some (OSecret sec) \<and> hash_stored c plain sec"
proof -
  obtain g w1 where g: "run_state (get_secret c (om_Namespace (ls_ObjectMeta cr)) (gl_GraylogSecretName (graylog_of cr))) w = (g, w1)"
    by fastforce
  have "only_changes view {credentials_key cr} w w' \<and>
     (r = Inr () \<longrightarrow> (\<exists>sec. view w' (credentials_key cr) = Some (OSecret sec) \<and> hash_stored c plain sec))"
  proof (cases g)
    case (Inl e)
    with g run have "r = Inl e" "w' = w1" by (simp_all add: syncRootPasswordSHA2SecretKey_def)
    with keepsD [OF keeps_get_secret [OF laws, where K = "{credentials_key cr}"], of w] g show ?thesis by (metis Inl sum.distinct(1) snd_conv)
  next
    case (Inr sec)
    note got = get_secret_key [OF laws g [unfolded Inr]]
    obtain sec' changed where e: "EnsureSecretRootPasswordSHA2 c sec plain = (sec', changed)" by fastforce
    note h = ensured_hash [OF sha e]
    show ?thesis
    proof (cases changed)
      case False
      with run g Inr e have "r = Inr ()" "w' = w1" by (simp_all add: syncRootPasswordSHA2SecretKey_def)
      with h(1) h(3) [OF False] got show ?thesis by (auto intro: only_changes_view)
    next
      case True
      with run g Inr e have upd: "run_state (cl_Update c (OSecret sec')) w1 = (r, w')"
        by (simp add: syncRootPasswordSHA2SecretKey_def)
      have k: "key_of (OSecret sec') = credentials_key cr" using got(1) h(2) by (simp add: key_of_def)
      note u = cluster_laws_update [OF laws upd]
      show ?thesis
      proof (cases r)
        case (Inl e)
        with u(2) got(3) show ?thesis by (auto intro: only_changes_view)
      next
        case (Inr u)
        from u(1) [OF Inr] obtain obj where st: "stored_as (OSecret sec') obj" "view w' = (view w1)(credentials_key cr \<mapsto> obj)"
          unfolding k by blast
        from st(1) h(1) obtain sec2 where "obj = OSecret sec2" "hash_stored c plain sec2" by (rule stored_hash)
        with st(2) got(3) show ?thesis by (auto simp: only_changes_def)
      qed
    qed
  qed
  then show "only_changes view {credentials_key cr} w w'"
    and "r = Inr () \<Longrightarrow> \<exists>sec. view w' (credentials_key cr) = Some (OSecret sec) \<and> hash_stored c plain sec" by blast+
qed

text \<open>C18: a new password of Graylog reaches both places that hold its hash. When the watched Secret brings a
  password that differs from the one in use, a successful update leaves a configuration whose lines are
  those before with \<open>root_password_sha2\<close> set to the hash, the other files of the ConfigMap as they were, and
  the hash under its key in the stored Secret. No other object of the cluster is touched, and the password
  in use is the new one also when an object could not be written.\<close>

theorem password_change_applied:
  assumes "cluster_laws c view" and "sha_law c"
    and "spec_Graylog (ls_Spec (os_cr s)) = Some g" and "gl_Password g \<noteq> pwd"
    and "nonempty_value secret ''password'' = Some pwd"
    and "view (os_world s) (config_key (os_cr s)) = Some (OConfigMap cm)"
    and "scan_lines (config_text cm) = Inr lines" and "list_all (\<lambda>l. length l < 65535) lines"
  shows "case run_state (updatePassword c secret) s of (r, s') \<Rightarrow>
     gl_Password (graylog_of (os_cr s')) = pwd
     \<and> only_changes view {config_key (os_cr s), credentials_key (os_cr s)} (os_world s) (os_world s')
     \<and> (r = Inr () \<longrightarrow>
         (\<exists>cm'. view (os_world s') (config_key (os_cr s)) = Some (OConfigMap cm')
            \<and> field_written GraylogPasswordField (sys_SHA256Hex c pwd) cm cm')
         \<and> (\<exists>sec. view (os_world s') (credentials_key (os_cr s)) = Some (OSecret sec) \<and> hash_stored c pwd sec))"
proof -
  let ?cr = "modify_graylog (\<lambda>g. g\<lparr>gl_Password := pwd\<rparr>) (os_cr s)"
  have cr: "graylog_of ?cr = g\<lparr>gl_Password := pwd\<rparr>" "ls_ObjectMeta ?cr = ls_ObjectMeta (os_cr s)"
    using assms(3) by (simp_all add: modify_graylog_def)
  then have keys: "config_key ?cr = config_key (os_cr s)" "credentials_key ?cr = credentials_key (os_cr s)"
    using assms(3) by simp_all
  obtain r1 w1 where r1: "run_state (update_config_field c GraylogPasswordField (sys_SHA256Hex c pwd) ?cr) (os_world s) = (r1, w1)"
    by fastforce
  have hash: "set (sys_SHA256Hex c pwd) \<subseteq> hex_digits" "length (sys_SHA256Hex c pwd) = 64"
    using assms(2) by (simp_all add: sha_law_def)
  have field: "CHR 0x0A \<notin> set (GraylogPasswordField @ '' = '' @ sys_SHA256Hex c pwd)"
    "length (GraylogPasswordField @ '' = '' @ sys_SHA256Hex c pwd) < 65535"
    using hash by (auto simp: GraylogPasswordField_def hex_digits_def)
  note c1 = update_config_field_cases [OF assms(1) r1 [unfolded cr(2)] _ assms(7,8) field, unfolded keys, OF assms(6)]
  obtain r2 w2 where r2: "run_state (syncRootPasswordSHA2SecretKey c pwd ?cr) w1 = (r2, w2)" by fastforce
  note c2 = sync_cases [OF assms(1,2) r2, unfolded keys]
  have run: "run_state (updatePassword c secret) s = (case r1 of
      Inl e \<Rightarrow> (Inl e, s\<lparr>os_cr := ?cr, os_world := w1\<rparr>) | Inr _ \<Rightarrow> (r2, s\<lparr>os_cr := ?cr, os_world := w2\<rparr>))"
    using assms(3-5) r1 r2 by (cases r1) (simp_all add: updatePassword_def run_with_cr run_tryM)
  show ?thesis
  proof (cases r1)
    case (Inl e)
    with run c1(1) cr(1) show ?thesis by (auto simp: only_changes_def)
  next
    case (Inr u)
    from c1(2) Inr obtain cm' where "view w1 (config_key (os_cr s)) = Some (OConfigMap cm')"
      "field_written GraylogPasswordField (sys_SHA256Hex c pwd) cm cm'" by auto
    with c2(1) have "\<exists>cm'. view w2 (config_key (os_cr s)) = Some (OConfigMap cm')
      \<and> field_written GraylogPasswordField (sys_SHA256Hex c pwd) cm cm'" by (simp add: only_changes_def)
    moreover have "only_changes view {config_key (os_cr s), credentials_key (os_cr s)} (os_world s) w2"
      using c1(1) c2(1) by (simp add: only_changes_def)
    ultimately show ?thesis using run Inr c2(2) cr(1) by simp
  qed
qed

definition sample_graylog_config :: config_map where
  "sample_graylog_config = \<lparr>cm_Meta = meta_named GraylogComponentName [],
     cm_Data = Some [GraylogConfigFileName \<mapsto> ''is_leader = true'' @ CHR 0x0A # ''root_password_sha2 = none''],
     cm_BinaryData = None\<rparr>"

definition sample_graylog_secret :: "string \<Rightarrow> secret" where
  "sample_graylog_secret pwd = \<lparr>se_Meta = meta_named ''graylog-secret'' [], se_Type = ''Opaque'',
     se_Data = Some [''password'' \<mapsto> pwd]\<rparr>"

definition sample_watch_state :: "store opstate" where
  "sample_watch_state = \<lparr>
     os_cr = zero_logging_service\<lparr>ls_Spec := zero_logging_service_spec\<lparr>spec_Graylog :=
       Some (zero_graylog\<lparr>gl_GraylogSecretName := ''graylog-secret''\<rparr>)\<rparr>\<rparr>,
     os_pending = [],
     os_world = sample_world\<lparr>st_objects := [
       (KConfigMap, [], GraylogComponentName) \<mapsto> OConfigMap sample_graylog_config,
       (KSecret, [], ''graylog-secret'') \<mapsto> OSecret (sample_graylog_secret ''secret'')]\<rparr>\<rparr>"

lemma sample_sha_laws: "cluster_laws sample_sha_client store_view" "sha_law sample_sha_client"
  using store_client_laws
  by (simp_all add: cluster_laws_def get_law_def create_law_def update_law_def delete_law_def owner_law_def
      sample_sha_client_def sha_law_def hex_digits_def)

lemma sample_config_scan:
  "scan_lines (config_text sample_graylog_config) = Inr [''is_leader = true'', ''root_password_sha2 = none'']"
  by (simp add: sample_graylog_config_def config_text_def mstr_def scan_lines_def drop_cr_def)

lemma sample_config_run:
  assumes "om_Namespace (ls_ObjectMeta cr) = []"
  obtains cm where "run_state (update_config_field sample_sha_client GraylogPasswordField h cr) (os_world sample_watch_state)
      = (Inr (), (os_world sample_watch_state)\<lparr>st_objects := (st_objects (os_world sample_watch_state))
          ((KConfigMap, [], GraylogComponentName) \<mapsto> OConfigMap cm)\<rparr>)"
proof -
  have "config_text sample_graylog_config \<noteq> []" by (simp add: sample_graylog_config_def config_text_def mstr_def)
  with assms sample_config_scan show thesis
    by (intro that) (simp add: update_config_field_def run_tryM sample_sha_client_def store_client_def store_view_def sample_watch_state_def
        sample_graylog_config_def key_of_def meta_named_def rewrite_field_def Let_def go_HasPrefix_def GraylogPasswordField_def)
qed

lemma sample_sync_run:
  assumes "om_Namespace (ls_ObjectMeta cr) = []" and "gl_GraylogSecretName (graylog_of cr) = ''graylog-secret''"
    and "st_objects w (KSecret, [], ''graylog-secret'') = Some (OSecret (sample_graylog_secret p))"
  shows "fst (run_state (syncRootPasswordSHA2SecretKey sample_sha_client pwd cr) w) = Inr ()"
  using assms by (simp add: syncRootPasswordSHA2SecretKey_def get_secret_def run_tryM sample_sha_client_def store_client_def
      store_view_def sample_graylog_secret_def key_of_def meta_named_def EnsureSecretRootPasswordSHA2_def GraylogSecretKeyRootPasswordSHA2_def)

lemma sample_watch_run: "fst (run_state (updatePassword sample_sha_client (sample_graylog_secret ''secret'')) sample_watch_state) = Inr ()"
proof -
  let ?cr = "modify_graylog (\<lambda>g. g\<lparr>gl_Password := ''secret''\<rparr>) (os_cr sample_watch_state)"
  have cr: "om_Namespace (ls_ObjectMeta ?cr) = []" "gl_GraylogSecretName (graylog_of ?cr) = ''graylog-secret''"
    "gl_Password (graylog_of (os_cr sample_watch_state)) = []"
    by (simp_all add: modify_graylog_def sample_watch_state_def zero_logging_service_def meta_named_def zero_graylog_def)
  have new: "nonempty_value (sample_graylog_secret ''secret'') ''password'' = Some ''secret''"
    by (simp add: nonempty_value_def sample_graylog_secret_def)
  obtain cm where "run_state (update_config_field sample_sha_client GraylogPasswordField (sys_SHA256Hex sample_sha_client ''secret'') ?cr)
      (os_world sample_watch_state) = (Inr (), (os_world sample_watch_state)\<lparr>st_objects := (st_objects (os_world sample_watch_state))
          ((KConfigMap, [], GraylogComponentName) \<mapsto> OConfigMap cm)\<rparr>)" (is "_ = (_, ?w)")
    by (rule sample_config_run [OF cr(1)])
  moreover have "fst (run_state (syncRootPasswordSHA2SecretKey sample_sha_client ''secret'' ?cr) ?w) = Inr ()"
    by (rule sample_sync_run [OF cr(1,2), where p = "''secret''"]) (simp add: sample_watch_state_def)
  ultimately show ?thesis using new cr(3) by (simp add: updatePassword_def run_with_cr run_tryM case_prod_beta)
qed

theorem password_change_applied_witness:
  "\<exists>sec. store_view (os_world (snd (run_state (updatePassword sample_sha_client (sample_graylog_secret ''secret'')) sample_watch_state)))
      (credentials_key (os_cr sample_watch_state)) = Some (OSecret sec) \<and> hash_stored sample_sha_client ''secret'' sec"
proof -
  let ?g = "zero_graylog\<lparr>gl_GraylogSecretName := ''graylog-secret''\<rparr>"
  have "spec_Graylog (ls_Spec (os_cr sample_watch_state)) = Some ?g" "gl_Password ?g \<noteq> ''secret''"
    "nonempty_value (sample_graylog_secret ''secret'') ''password'' = Some ''secret''"
    "store_view (os_world sample_watch_state) (config_key (os_cr sample_watch_state)) = Some (OConfigMap sample_graylog_config)"
    by (simp_all add: sample_watch_state_def zero_graylog_def nonempty_value_def sample_graylog_secret_def store_view_def
        zero_logging_service_def sample_graylog_config_def key_of_def meta_named_def)
  from password_change_applied [OF sample_sha_laws this sample_config_scan] sample_watch_run
  show ?thesis by (simp add: case_prod_beta)
qed

end
