(* ===== verification/Pipeline_Records.thy ===== *)
theory Pipeline_Records
  imports Labels "HOL-Library.Finite_Map" "HOL-Library.List_Lexorder" "HOL-Library.Char_ord"
begin

text \<open>
  The records of the fluent pipeline test (\<open>test/fluent-pipeline/stage/testing/util.go\<close>): decoded JSON
  values, the metadata of an expected record, the selection of output records, the comparison of
  records and the report of their differences. A Go map is a finite map; a number is the rational
  number it stands for, so that \<open>reflect.DeepEqual\<close> on decoded values is equality. Where the code
  ranges over a map and the order could matter, the order is a parameter.
\<close>

section \<open>Values\<close>

datatype jvalue = JNil | JBool bool | JNum rat | JStr string | JArr "jvalue list" | JObj "(string, jvalue) fmap"

type_synonym jmap = "(string, jvalue) fmap"

lemma fmpred_fundef_cong [fundef_cong]:
  assumes "m = n" and "\<And>k v. fmlookup n k = Some v \<Longrightarrow> P k v = Q k v"
  shows "fmpred P m = fmpred Q n"
  using assms by (auto simp: fmpred_iff)

lemma size_fmap_member:
  assumes "fmlookup m k = Some v"
  shows "size v < size_fmap (\<lambda>_. 0) size m + 1"
proof -
  have "(k, v) \<in> fset (fset_of_fmap m)" using assms by (simp add: fset_of_fmap.rep_eq set_of_map_def)
  then have "size v \<le> size_fset (\<lambda>(a, b). 0 + size b) (fset_of_fmap m)"
    unfolding size_fset_simps by (intro order_trans [OF _ member_le_sum [of "(k, v)"]]) auto
  then show ?thesis by simp
qed

section \<open>Metadata\<close>

definition testMetadataKey :: string where
  "testMetadataKey = ''_test''"

definition defaultMatchOn :: "string list" where
  "defaultMatchOn = [''time'']"

record testMetadata =
  md_ID :: string
  md_MatchOn :: "string list"
  md_Partial :: bool
  md_Absent :: "string list"
  md_Dropped :: bool

definition zero_testMetadata :: testMetadata where
  "zero_testMetadata = \<lparr>md_ID = [], md_MatchOn = [], md_Partial = False, md_Absent = [], md_Dropped = False\<rparr>"

text \<open>\<open>json.Unmarshal\<close> into the fields of the struct: \<open>null\<close> leaves a string or a flag as it is and empties
  a slice, and an element \<open>null\<close> of an array keeps what the slice had there. A value of another type is
  an error.\<close>

definition decode_string :: "string \<Rightarrow> jvalue \<Rightarrow> string option" where
  "decode_string old v = (case v of JStr s \<Rightarrow> Some s | JNil \<Rightarrow> Some old | _ \<Rightarrow> None)"

definition decode_bool :: "bool \<Rightarrow> jvalue \<Rightarrow> bool option" where
  "decode_bool old v = (case v of JBool b \<Rightarrow> Some b | JNil \<Rightarrow> Some old | _ \<Rightarrow> None)"

fun decode_elements :: "string list \<Rightarrow> jvalue list \<Rightarrow> string list option" where
  "decode_elements old [] = Some []"
| "decode_elements old (v # vs) =
     (case (decode_string (case old of [] \<Rightarrow> [] | x # _ \<Rightarrow> x) v, decode_elements (drop 1 old) vs) of
        (Some s, Some ss) \<Rightarrow> Some (s # ss)
      | _ \<Rightarrow> None)"

definition decode_strings :: "string list \<Rightarrow> jvalue \<Rightarrow> string list option" where
  "decode_strings old v = (case v of JArr vs \<Rightarrow> decode_elements old vs | JNil \<Rightarrow> Some [] | _ \<Rightarrow> None)"

text \<open>One member of the object. Names are matched without regard to case, an unknown one is ignored.\<close>

definition decode_member :: "string \<Rightarrow> jvalue \<Rightarrow> testMetadata \<Rightarrow> testMetadata option" where
  "decode_member k v m =
     (if go_EqualFold k ''id'' then map_option (\<lambda>x. m\<lparr>md_ID := x\<rparr>) (decode_string (md_ID m) v)
      else if go_EqualFold k ''matchOn'' then map_option (\<lambda>x. m\<lparr>md_MatchOn := x\<rparr>) (decode_strings (md_MatchOn m) v)
      else if go_EqualFold k ''partial'' then map_option (\<lambda>x. m\<lparr>md_Partial := x\<rparr>) (decode_bool (md_Partial m) v)
      else if go_EqualFold k ''absent'' then map_option (\<lambda>x. m\<lparr>md_Absent := x\<rparr>) (decode_strings (md_Absent m) v)
      else if go_EqualFold k ''dropped'' then map_option (\<lambda>x. m\<lparr>md_Dropped := x\<rparr>) (decode_bool (md_Dropped m) v)
      else Some m)"

text \<open>The members in the order in which \<open>json.Marshal\<close> writes them.\<close>

fun decode_members :: "(string \<times> jvalue) list \<Rightarrow> testMetadata \<Rightarrow> testMetadata option" where
  "decode_members [] m = Some m"
| "decode_members ((k, v) # kvs) m = Option.bind (decode_member k v m) (decode_members kvs)"

definition sorted_members :: "jmap \<Rightarrow> (string \<times> jvalue) list" where
  "sorted_members m = map (\<lambda>k. (k, the (fmlookup m k))) (sorted_list_of_fset (fmdom m))"

definition getTestMetadata :: "jmap \<Rightarrow> testMetadata option" where
  "getTestMetadata expected =
     (case fmlookup expected testMetadataKey of
        None \<Rightarrow> None
      | Some raw \<Rightarrow>
          (case raw of
             JObj m \<Rightarrow> decode_members (sorted_members m) zero_testMetadata
           | JNil \<Rightarrow> Some zero_testMetadata
           | _ \<Rightarrow> None))"

definition matchFields :: "testMetadata \<Rightarrow> string list" where
  "matchFields m = (if md_MatchOn m = [] then defaultMatchOn else md_MatchOn m)"

section \<open>Selection\<close>

fun lookup_parts :: "jvalue \<Rightarrow> string list \<Rightarrow> jvalue option" where
  "lookup_parts v [] = Some v"
| "lookup_parts v (part # parts) =
     (case v of
        JObj obj \<Rightarrow> (case fmlookup obj part of None \<Rightarrow> None | Some w \<Rightarrow> lookup_parts w parts)
      | _ \<Rightarrow> None)"

definition lookupField :: "jmap \<Rightarrow> string \<Rightarrow> jvalue option" where
  "lookupField r path = lookup_parts (JObj r) (go_Split path ''.'')"

text \<open>The values to select by, and the first match field that is missing or the empty string.\<close>

fun selector_loop :: "jmap \<Rightarrow> string list \<Rightarrow> jmap \<Rightarrow> jmap \<times> string" where
  "selector_loop expected [] values = (values, [])"
| "selector_loop expected (field # rest) values =
     (case lookupField expected field of
        None \<Rightarrow> (fmempty, field)
      | Some v \<Rightarrow> selector_loop expected rest (fmupd field v values))"

definition selectorValues :: "jmap \<Rightarrow> testMetadata \<Rightarrow> jmap \<times> string" where
  "selectorValues expected metadata = selector_loop expected (matchFields metadata) fmempty"

definition carriesValues :: "jmap \<Rightarrow> jmap \<Rightarrow> bool" where
  "carriesValues actual values = fmpred (\<lambda>field v. lookupField actual field = Some v) values"

definition findActualRecords :: "jmap list \<Rightarrow> jmap \<Rightarrow> nat list" where
  "findActualRecords actualRecords values =
     filter (\<lambda>i. carriesValues (actualRecords ! i) values) [0..<length actualRecords]"

section \<open>Comparison\<close>

function isSubset :: "jmap \<Rightarrow> jmap \<Rightarrow> bool" where
  "isSubset expected actual =
     fmpred (\<lambda>key expectedValue.
       case fmlookup actual key of
         None \<Rightarrow> False
       | Some actualValue \<Rightarrow>
           (case expectedValue of
              JObj expectedMap \<Rightarrow> (case actualValue of JObj actualMap \<Rightarrow> isSubset expectedMap actualMap | _ \<Rightarrow> False)
            | _ \<Rightarrow> expectedValue = actualValue)) expected"
  by pat_completeness auto

termination
  by (relation "measure (\<lambda>(expected, _). size_fmap (\<lambda>_. 0) size expected)") (auto dest!: size_fmap_member)

declare isSubset.simps [simp del]

definition compareRecord :: "jmap \<Rightarrow> jmap \<Rightarrow> testMetadata \<Rightarrow> bool" where
  "compareRecord expected actual metadata =
     (let expectedFields = fmdrop testMetadataKey expected
      in if \<not> md_Partial metadata then expectedFields = actual
         else isSubset expectedFields actual
           \<and> list_all (\<lambda>field. lookupField actual field = None) (md_Absent metadata))"

text \<open>The only modification: the time FluentD adds is taken from the output. Go returns \<open>nil\<close> for a
  key that is not there.\<close>

definition ignoreFluentdTime :: "string \<Rightarrow> jmap \<Rightarrow> jmap \<Rightarrow> string \<Rightarrow> jmap" where
  "ignoreFluentdTime ignoreFluentdTimeFiles expected actual file =
     (if file \<in> set (go_Split ignoreFluentdTimeFiles '','')
      then fmupd ''fluentd_time'' (case fmlookup actual ''fluentd_time'' of None \<Rightarrow> JNil | Some v \<Rightarrow> v) expected
      else expected)"

type_synonym modify_func = "jmap \<Rightarrow> jmap \<Rightarrow> string \<Rightarrow> jmap"

definition GetModificationFuncs :: "string \<Rightarrow> string \<Rightarrow> modify_func list" where
  "GetModificationFuncs agent ignoreFluentdTimeFiles =
     (if go_EqualFold agent ''fluentd'' \<and> length ignoreFluentdTimeFiles > 0
      then [ignoreFluentdTime ignoreFluentdTimeFiles] else [])"

definition applyModificationFuncs :: "jmap \<Rightarrow> jmap \<Rightarrow> string \<Rightarrow> modify_func list \<Rightarrow> jmap" where
  "applyModificationFuncs r actual file fs = fold (\<lambda>f r. f r actual file) fs r"

section \<open>Differences\<close>

text \<open>\<open>keys\<close> gives the order in which a map is ranged over.\<close>

definition range_law :: "(jmap \<Rightarrow> string list) \<Rightarrow> bool" where
  "range_law keys \<longleftrightarrow> (\<forall>m. distinct (keys m) \<and> set (keys m) = fset (fmdom m))"

function flatten_walk :: "(jmap \<Rightarrow> string list) \<Rightarrow> string \<Rightarrow> jmap \<Rightarrow> jmap \<Rightarrow> jmap" where
  "flatten_walk keys pre value flat =
     fold (\<lambda>key flat.
       case fmlookup value key of
         None \<Rightarrow> flat
       | Some nested \<Rightarrow>
           (let path = (if pre \<noteq> [] then pre @ ''.'' @ key else key)
            in case nested of
                 JObj obj \<Rightarrow> if obj \<noteq> fmempty then flatten_walk keys path obj flat else fmupd path nested flat
               | _ \<Rightarrow> fmupd path nested flat)) (keys value) flat"
  by pat_completeness auto

termination
  by (relation "measure (\<lambda>(_, _, value, _). size_fmap (\<lambda>_. 0) size value)") (auto dest!: size_fmap_member)

declare flatten_walk.simps [simp del]

definition flattenRecord :: "(jmap \<Rightarrow> string list) \<Rightarrow> jmap \<Rightarrow> jmap" where
  "flattenRecord keys r = flatten_walk keys [] r fmempty"

definition describedValueLimit :: nat where
  "describedValueLimit = 120"

text \<open>\<open>enc\<close> is \<open>json.Marshal\<close> on a decoded value, which does not fail; the ellipsis is the UTF-8
  encoding of U+2026.\<close>

definition describeValue :: "(jvalue \<Rightarrow> string) \<Rightarrow> jvalue option \<Rightarrow> string" where
  "describeValue enc v =
     (case v of
        None \<Rightarrow> ''(no field)''
      | Some v \<Rightarrow> if length (enc v) > describedValueLimit
                  then take describedValueLimit (enc v) @ [CHR 0xE2, CHR 0x80, CHR 0xA6] else enc v)"

definition difference_paths :: "(jmap \<Rightarrow> string list) \<Rightarrow> jmap \<Rightarrow> jmap \<Rightarrow> bool \<Rightarrow> string list" where
  "difference_paths keys expectedFields actualFields partial =
     sort (keys expectedFields
       @ filter (\<lambda>path. fmlookup expectedFields path = None \<and> \<not> partial) (keys actualFields))"

definition recordDifferences ::
  "(jmap \<Rightarrow> string list) \<Rightarrow> (jvalue \<Rightarrow> string) \<Rightarrow> jmap \<Rightarrow> jmap \<Rightarrow> testMetadata \<Rightarrow> string list" where
  "recordDifferences keys enc expected actual metadata =
     (let stated = fmdrop testMetadataKey expected;
          expectedFields = flattenRecord keys stated;
          actualFields = flattenRecord keys actual;
          paths = difference_paths keys expectedFields actualFields (md_Partial metadata)
      in map (\<lambda>path. path @ '': '' @ describeValue enc (fmlookup expectedFields path) @ '' -> ''
                @ describeValue enc (fmlookup actualFields path))
           (filter (\<lambda>path. \<not> (fmlookup expectedFields path \<noteq> None \<and> fmlookup expectedFields path = fmlookup actualFields path)) paths)
         @ map (\<lambda>field. field @ '': (must be absent) -> '' @ describeValue enc (lookupField actual field))
             (filter (\<lambda>field. lookupField actual field \<noteq> None) (md_Absent metadata)))"

end
