(* ===== verification/Pipeline_Paths.thy ===== *)
theory Pipeline_Paths
  imports Pipeline_Records
begin

text \<open>
  Paths into a record: the field a path names, the flattened record as a map from paths, and what two
  flattened records say about the records. A key is plain when it is not empty and has no dot; for
  records with plain keys a path names one field.
\<close>

section \<open>Paths as strings\<close>

abbreviation plain_key :: "string \<Rightarrow> bool" where
  "plain_key k \<equiv> k \<noteq> [] \<and> CHR ''.'' \<notin> set k"

lemma go_Join_snoc: "ps \<noteq> [] \<Longrightarrow> go_Join (ps @ [p]) sep = go_Join ps sep @ sep @ p"
  by (induction ps sep rule: go_Join.induct) auto

lemma go_Split_Join:
  assumes "ps \<noteq> []" and "list_all (\<lambda>p. c \<notin> set p) ps"
  shows "go_Split (go_Join ps [c]) [c] = ps"
  using assms
proof (induction ps "[c]" rule: go_Join.induct)
  case (3 x y xs)
  then show ?case by (simp add: go_Split_char_step)
qed (simp_all add: go_Split_char_notin)

lemma go_Join_Split: "go_Join (go_Split s [c]) [c] = s"
proof (induction "length s" arbitrary: s rule: less_induct)
  case less
  show ?case
  proof (cases "c \<in> set s")
    case False
    then show ?thesis by (simp add: go_Split_char_notin)
  next
    case True
    then obtain u v where s: "s = u @ c # v" "c \<notin> set u" by (meson split_list_first)
    with less [of v] have "go_Join (go_Split v [c]) [c] = v" by simp
    then show ?thesis using s by (cases "go_Split v [c]") (simp_all add: go_Split_char_step)
  qed
qed

lemma go_Split_eq_iff:
  assumes "ps \<noteq> []" and "list_all plain_key ps"
  shows "go_Split s ''.'' = ps \<longleftrightarrow> s = go_Join ps ''.''"
proof -
  have "list_all (\<lambda>p. CHR ''.'' \<notin> set p) ps" using assms(2) by (simp add: list_all_iff)
  then show ?thesis using go_Split_Join [OF assms(1)] go_Join_Split [of s] by metis
qed

section \<open>Leaves\<close>

text \<open>What the flattened record keeps: every value but an object with members.\<close>

definition leaf :: "jvalue \<Rightarrow> bool" where
  "leaf v = (case v of JObj m \<Rightarrow> m = fmempty | _ \<Rightarrow> True)"

definition leaf_at :: "jvalue \<Rightarrow> string list \<Rightarrow> jvalue option" where
  "leaf_at v ps = (case lookup_parts v ps of None \<Rightarrow> None | Some w \<Rightarrow> if leaf w then Some w else None)"

lemma leaf_at_simps [simp]:
  "leaf_at v [] = (if leaf v then Some v else None)"
  "leaf_at (JObj m) (p # ps) = (case fmlookup m p of None \<Rightarrow> None | Some w \<Rightarrow> leaf_at w ps)"
  by (simp_all add: leaf_at_def split: option.split)

lemma leaf_at_leaf: "leaf v \<Longrightarrow> ps \<noteq> [] \<Longrightarrow> leaf_at v ps = None"
  by (cases ps) (auto simp: leaf_at_def leaf_def split: jvalue.splits)

text \<open>Records whose keys are plain, at every level the walk reaches.\<close>

function plain_keys :: "jmap \<Rightarrow> bool" where
  "plain_keys m = fmpred (\<lambda>k v. plain_key k \<and> (case v of JObj n \<Rightarrow> plain_keys n | _ \<Rightarrow> True)) m"
  by pat_completeness auto

termination
  by (relation "measure (size_fmap (\<lambda>_. 0) size)") (auto dest!: size_fmap_member)

declare plain_keys.simps [simp del]

lemma plain_keysD:
  assumes "plain_keys m" and "fmlookup m k = Some v"
  shows "plain_key k" and "v = JObj n \<Longrightarrow> plain_keys n"
  using assms by (force simp: plain_keys.simps [of m] fmpred_iff)+

section \<open>The flattened record\<close>

lemma fold_lookup:
  assumes "\<And>k flat. k \<in> set ks \<Longrightarrow> fmlookup (f k flat) path = (case g k of None \<Rightarrow> fmlookup flat path | Some v \<Rightarrow> Some v)"
    and "\<And>k. k \<in> set ks \<Longrightarrow> k \<noteq> k0 \<Longrightarrow> g k = None"
  shows "fmlookup (fold f ks flat) path
    = (if k0 \<in> set ks then case g k0 of None \<Rightarrow> fmlookup flat path | Some v \<Rightarrow> Some v else fmlookup flat path)"
  using assms
proof (induction ks arbitrary: flat)
  case (Cons k ks)
  then show ?case by (cases "k = k0") (simp_all split: option.splits)
qed simp

text \<open>The leaf a path names below the parts \<open>P\<close>.\<close>

definition leaf_below :: "string list \<Rightarrow> jmap \<Rightarrow> string list \<Rightarrow> jvalue option" where
  "leaf_below P m parts =
     (if take (length P) parts = P \<and> length P < length parts then leaf_at (JObj m) (drop (length P) parts) else None)"

lemma walk_lookup:
  assumes "range_law keys" and "plain_keys m" and "list_all plain_key P"
  shows "fmlookup (flatten_walk keys (go_Join P ''.'') m flat) path
    = (case leaf_below P m (go_Split path ''.'') of None \<Rightarrow> fmlookup flat path | Some v \<Rightarrow> Some v)"
  using assms(2,3)
proof (induction "size_fmap (\<lambda>_. 0) size m" arbitrary: m P flat rule: less_induct)
  case less
  let ?parts = "go_Split path ''.''"
  let ?at = "\<lambda>k. take (length P) ?parts = P \<and> length P < length ?parts \<and> ?parts ! length P = k"
  define g where "g = (\<lambda>k. if ?at k then Option.bind (fmlookup m k) (\<lambda>w. leaf_at w (drop (Suc (length P)) ?parts)) else None)"
  define f where "f = (\<lambda>key flat. case fmlookup m key of None \<Rightarrow> flat | Some nested \<Rightarrow>
      (let path = (if go_Join P ''.'' \<noteq> [] then go_Join P ''.'' @ ''.'' @ key else key)
       in case nested of
            JObj obj \<Rightarrow> if obj \<noteq> fmempty then flatten_walk keys path obj flat else fmupd path nested flat
          | _ \<Rightarrow> fmupd path nested flat))"
  have ks: "set (keys m) = fset (fmdom m)" using assms(1) by (simp add: range_law_def)
  have step: "fmlookup (f k flat) path = (case g k of None \<Rightarrow> fmlookup flat path | Some v \<Rightarrow> Some v)" if k: "k \<in> set (keys m)" for k flat
  proof -
    from k ks obtain w where w: "fmlookup m k = Some w" by (auto simp: fmlookup_dom_iff)
    note pl = plain_keysD [OF less.prems(1) w]
    have "P = [] \<longleftrightarrow> go_Join P ''.'' = []" using less.prems(2) by (cases P rule: remdups_adj.cases) auto
    then have j: "(if go_Join P ''.'' \<noteq> [] then go_Join P ''.'' @ ''.'' @ k else k) = go_Join (P @ [k]) ''.''"
      by (cases "P = []") (simp_all add: go_Join_snoc)
    have all: "list_all plain_key (P @ [k])" using less.prems(2) pl(1) by simp
    show ?thesis
    proof (cases "leaf w")
      case True
      have "f k flat = fmupd (go_Join (P @ [k]) ''.'') w flat"
        using w True unfolding f_def j by (simp add: leaf_def split: jvalue.splits)
      moreover have "path = go_Join (P @ [k]) ''.'' \<longleftrightarrow> ?parts = P @ [k]"
        using go_Split_eq_iff [OF _ all] by simp
      moreover have "?parts = P @ [k] \<longleftrightarrow> ?at k \<and> drop (Suc (length P)) ?parts = []"
        by (auto simp: take_Suc_conv_app_nth simp del: drop_eq_Nil) (metis append_take_drop_id append_Nil2 take_Suc_conv_app_nth)
      ultimately show ?thesis using w True leaf_at_leaf [OF True] by (auto simp: g_def)
    next
      case False
      then obtain obj where obj: "w = JObj obj" "obj \<noteq> fmempty" by (auto simp: leaf_def split: jvalue.splits)
      have "size_fmap (\<lambda>_. 0) size obj < size_fmap (\<lambda>_. 0) size m" using size_fmap_member [OF w] obj by simp
      note ih = less.hyps [OF this pl(2) [OF obj(1)] all]
      have "f k flat = flatten_walk keys (go_Join (P @ [k]) ''.'') obj flat"
        using w obj unfolding f_def j by simp
      moreover have "leaf_below (P @ [k]) obj ?parts = g k"
        unfolding leaf_below_def g_def using w obj False
        by (auto simp: take_Suc_conv_app_nth Suc_le_eq)
      ultimately show ?thesis using ih by simp
    qed
  qed
  have "fmlookup (fold f (keys m) flat) path
    = (if ?parts ! length P \<in> set (keys m) then case g (?parts ! length P) of None \<Rightarrow> fmlookup flat path | Some v \<Rightarrow> Some v
       else fmlookup flat path)"
    by (rule fold_lookup [OF step]) (simp_all add: g_def)
  moreover have "g (?parts ! length P) = leaf_below P m ?parts"
    unfolding g_def leaf_below_def by (auto simp: Cons_nth_drop_Suc [symmetric] split: option.split)
  moreover have "?parts ! length P \<notin> set (keys m) \<Longrightarrow> leaf_below P m ?parts = None"
    unfolding leaf_below_def ks by (auto simp: Cons_nth_drop_Suc [symmetric] split: option.split)
  ultimately show ?case unfolding flatten_walk.simps [of keys "go_Join P ''.''" m flat] f_def by auto
qed

lemma flattenRecord_lookup:
  assumes "range_law keys" and "plain_keys m"
  shows "fmlookup (flattenRecord keys m) path = leaf_at (JObj m) (go_Split path ''.'')"
  using walk_lookup [OF assms, where P = "[]" and flat = fmempty and path = path]
  by (simp add: flattenRecord_def leaf_below_def split: option.split)

section \<open>What the leaves determine\<close>

lemma leaf_exists: "\<exists>ps. leaf_at v ps \<noteq> None"
proof (induction v)
  case (JObj m)
  show ?case
  proof (cases "m = fmempty")
    case True
    then show ?thesis by (intro exI [of _ "[]"]) (simp add: leaf_def)
  next
    case False
    then obtain k w where w: "fmlookup m k = Some w" by (metis fmap_ext fmempty_lookup option.exhaust)
    then obtain ps where "leaf_at w ps \<noteq> None" using JObj [of w] by (auto intro: fmran'I)
    then show ?thesis using w by (intro exI [of _ "k # ps"]) simp
  qed
qed (rule exI [of _ "[]"], simp add: leaf_def)+

lemma same_leaves_members:
  assumes "\<And>ps. ps \<noteq> [] \<Longrightarrow> leaf_at (JObj m) ps = leaf_at (JObj n) ps" and "fmlookup m k = Some v"
  obtains w where "fmlookup n k = Some w" and "\<And>ps. leaf_at v ps = leaf_at w ps"
proof -
  have v: "leaf_at (JObj n) (k # ps) = leaf_at v ps" for ps using assms(1) [of "k # ps"] assms(2) by simp
  obtain ps where "leaf_at v ps \<noteq> None" using leaf_exists by blast
  with v [of ps] obtain w where w: "fmlookup n k = Some w" by (auto split: option.splits)
  with v that show thesis by simp
qed

lemma leaf_scalar [simp]: "leaf JNil" "leaf (JBool b)" "leaf (JNum q)" "leaf (JStr s)" "leaf (JArr vs)"
  by (simp_all add: leaf_def)

lemma same_leaf: "leaf v \<Longrightarrow> leaf_at v [] = leaf_at w [] \<Longrightarrow> v = w"
  by (simp split: if_splits)

lemma same_leaves:
  assumes "\<And>ps. leaf_at v ps = leaf_at w ps"
  shows "v = w"
  using assms
proof (induction v arbitrary: w)
  case (JObj m)
  show ?case
  proof (cases "m = fmempty")
    case True
    then show ?thesis using JObj.prems [of "[]"] by (simp add: leaf_def split: if_splits)
  next
    case False
    then have "\<not> leaf w" using JObj.prems [of "[]"] by (simp add: leaf_def split: if_splits)
    then obtain n where w: "w = JObj n" by (auto simp: leaf_def split: jvalue.splits)
    have "fmlookup m k = fmlookup n k" for k
    proof (cases "fmlookup m k")
      case None
      show ?thesis
      proof (rule ccontr)
        assume "fmlookup m k \<noteq> fmlookup n k"
        then obtain y where "fmlookup n k = Some y" using None by (cases "fmlookup n k") auto
        then obtain x where "fmlookup m k = Some x"
          using same_leaves_members [of n m k y] JObj.prems w by metis
        with None show False by simp
      qed
    next
      case (Some v)
      obtain y where "fmlookup n k = Some y" "\<And>ps. leaf_at v ps = leaf_at y ps"
        using same_leaves_members [of m n k v] JObj.prems w Some by metis
      then show ?thesis using JObj.IH [of v y] Some by (auto intro: fmran'I)
    qed
    then show ?thesis using w by (simp add: fmap_ext)
  qed
qed (blast intro: same_leaf leaf_scalar)+

lemma same_leaves_map:
  assumes "\<And>ps. ps \<noteq> [] \<Longrightarrow> leaf_at (JObj m) ps = leaf_at (JObj n) ps"
  shows "m = n"
proof (rule fmap_ext)
  fix k
  show "fmlookup m k = fmlookup n k"
  proof (cases "fmlookup m k")
    case None
    then show ?thesis using same_leaves_members [of n m k] assms by (metis not_Some_eq)
  next
    case (Some v)
    then show ?thesis using same_leaves_members [of m n k v] assms same_leaves by metis
  qed
qed

text \<open>Records without empty objects, where a subset is a subset of the leaves.\<close>

function solid :: "jmap \<Rightarrow> bool" where
  "solid m = fmpred (\<lambda>k v. case v of JObj n \<Rightarrow> n \<noteq> fmempty \<and> solid n | _ \<Rightarrow> True) m"
  by pat_completeness auto

termination
  by (relation "measure (size_fmap (\<lambda>_. 0) size)") (auto dest!: size_fmap_member)

declare solid.simps [simp del]

lemma solidD: "solid m \<Longrightarrow> fmlookup m k = Some (JObj n) \<Longrightarrow> n \<noteq> fmempty \<and> solid n"
  by (force simp: solid.simps [of m] fmpred_iff)

definition leaves_within :: "jvalue \<Rightarrow> jvalue \<Rightarrow> bool" where
  "leaves_within v w \<longleftrightarrow> (\<forall>ps x. leaf_at v ps = Some x \<longrightarrow> leaf_at w ps = Some x)"

lemma leaves_within_leaf: "leaf v \<Longrightarrow> leaves_within v w \<longleftrightarrow> v = w"
  unfolding leaves_within_def
  by (metis leaf_at_leaf leaf_at_simps(1) option.distinct(1) option.inject)

lemma leaves_within_obj:
  assumes "m \<noteq> fmempty"
  shows "leaves_within (JObj m) (JObj n) \<longleftrightarrow>
    (\<forall>k v. fmlookup m k = Some v \<longrightarrow> (\<exists>w. fmlookup n k = Some w \<and> leaves_within v w))" (is "_ \<longleftrightarrow> (\<forall>k v. ?in k v)")
proof
  assume l: "leaves_within (JObj m) (JObj n)"
  show "\<forall>k v. ?in k v"
  proof (intro allI impI)
    fix k v assume v: "fmlookup m k = Some v"
    have sub: "leaf_at (JObj n) (k # ps) = Some x" if "leaf_at v ps = Some x" for ps x
      using l v that unfolding leaves_within_def by (metis leaf_at_simps(2) option.simps(5))
    obtain ps x where "leaf_at v ps = Some x" using leaf_exists by blast
    from sub [OF this] obtain w where w: "fmlookup n k = Some w" by (auto split: option.splits)
    with sub show "\<exists>w. fmlookup n k = Some w \<and> leaves_within v w" by (auto simp: leaves_within_def)
  qed
next
  assume r: "\<forall>k v. ?in k v"
  show "leaves_within (JObj m) (JObj n)" unfolding leaves_within_def
  proof (intro allI impI)
    fix ps x assume "leaf_at (JObj m) ps = Some x"
    then obtain k ps' v where ps: "ps = k # ps'" "fmlookup m k = Some v" "leaf_at v ps' = Some x"
      using assms by (cases ps) (auto simp: leaf_def split: option.splits)
    with r obtain w where "fmlookup n k = Some w" "leaves_within v w" by blast
    then show "leaf_at (JObj n) ps = Some x" using ps by (simp add: leaves_within_def)
  qed
qed

lemma leaves_within_obj_only:
  assumes "m \<noteq> fmempty" and "leaves_within (JObj m) w"
  shows "\<exists>n. w = JObj n"
proof -
  obtain ps x where x: "leaf_at (JObj m) ps = Some x" using leaf_exists by blast
  then have "ps \<noteq> []" using assms(1) by (auto simp: leaf_def)
  with assms(2) x leaf_at_leaf [of w ps] have "\<not> leaf w" by (auto simp: leaves_within_def)
  then show ?thesis by (auto simp: leaf_def split: jvalue.splits)
qed

lemma isSubset_leaves:
  assumes "solid m"
  shows "isSubset m n \<longleftrightarrow> (\<forall>k v. fmlookup m k = Some v \<longrightarrow> (\<exists>w. fmlookup n k = Some w \<and> leaves_within v w))"
  using assms
proof (induction m n rule: isSubset.induct)
  case (1 m n)
  have "(case fmlookup n k of None \<Rightarrow> False | Some w \<Rightarrow>
           (case v of JObj m' \<Rightarrow> (case w of JObj n' \<Rightarrow> isSubset m' n' | _ \<Rightarrow> False) | _ \<Rightarrow> v = w))
     \<longleftrightarrow> (\<exists>w. fmlookup n k = Some w \<and> leaves_within v w)" if v: "fmlookup m k = Some v" for k v
  proof (cases "\<exists>m'. v = JObj m'")
    case False
    then have "leaf v" by (simp add: leaf_def split: jvalue.split)
    then show ?thesis using False by (auto simp: leaves_within_leaf split: option.split jvalue.split)
  next
    case True
    then obtain m' where m': "v = JObj m'" by blast
    with v solidD 1(2) have so: "m' \<noteq> fmempty" "solid m'" by blast+
    show ?thesis
    proof (cases "\<exists>n'. fmlookup n k = Some (JObj n')")
      case True
      then obtain n' where n': "fmlookup n k = Some (JObj n')" by blast
      from 1(1) [OF v n' m' refl so(2)] leaves_within_obj [OF so(1), of n'] show ?thesis using m' n' by simp
    next
      case False
      then have "\<not> leaves_within (JObj m') w" if "fmlookup n k = Some w" for w
        using leaves_within_obj_only [OF so(1)] that by blast
      then show ?thesis using False m' by (auto split: option.split jvalue.split)
    qed
  qed
  then show ?case by (auto simp: isSubset.simps [of m n] fmpred_iff)
qed

section \<open>The reported differences\<close>

lemma leaf_at_plain:
  assumes "plain_keys m" and "leaf_at (JObj m) ps \<noteq> None"
  shows "list_all plain_key ps"
  using assms
proof (induction ps arbitrary: m)
  case (Cons p ps)
  then obtain v where v: "fmlookup m p = Some v" "leaf_at v ps \<noteq> None" by (auto split: option.splits)
  note pl = plain_keysD [OF Cons.prems(1) v(1)]
  show ?case
  proof (cases "\<exists>n. v = JObj n")
    case True
    then show ?thesis using Cons.IH pl v(2) by auto
  next
    case False
    then have "leaf v" by (simp add: leaf_def split: jvalue.split)
    with v(2) leaf_at_leaf have "ps = []" by metis
    then show ?thesis using pl(1) by simp
  qed
qed simp

text \<open>A path for every place a leaf can be at.\<close>

lemma leaf_paths:
  assumes "plain_keys m" and "leaf_at (JObj m) ps = Some x" and "ps \<noteq> []"
  obtains path where "go_Split path ''.'' = ps"
  using leaf_at_plain [OF assms(1), of ps] assms(2,3) go_Split_eq_iff [of ps "go_Join ps ''.''"] by auto

lemma flatten_within:
  assumes "range_law keys" and "plain_keys m" and "plain_keys n"
  shows "(\<forall>path. fmlookup (flattenRecord keys m) path \<noteq> None
            \<longrightarrow> fmlookup (flattenRecord keys m) path = fmlookup (flattenRecord keys n) path)
     \<longleftrightarrow> (\<forall>ps x. ps \<noteq> [] \<longrightarrow> leaf_at (JObj m) ps = Some x \<longrightarrow> leaf_at (JObj n) ps = Some x)"
  (is "?flat \<longleftrightarrow> ?leaves")
proof
  note flat = flattenRecord_lookup [OF assms(1)]
  assume ?flat
  show ?leaves
  proof (intro allI impI)
    fix ps x assume ps: "ps \<noteq> []" "leaf_at (JObj m) ps = Some x"
    with leaf_paths [OF assms(2)] obtain path where "go_Split path ''.'' = ps" by metis
    with \<open>?flat\<close> ps(2) show "leaf_at (JObj n) ps = Some x"
      by (metis flat assms(2,3) option.distinct(1))
  qed
next
  assume ?leaves
  then show ?flat by (auto simp: flattenRecord_lookup [OF assms(1)] assms(2,3))
qed

lemma flatten_inject:
  assumes "range_law keys" and "plain_keys m" and "plain_keys n"
  shows "flattenRecord keys m = flattenRecord keys n \<longleftrightarrow> m = n"
proof
  assume eq: "flattenRecord keys m = flattenRecord keys n"
  have "leaf_at (JObj m) ps = leaf_at (JObj n) ps" if "ps \<noteq> []" for ps
    using flatten_within [OF assms] flatten_within [OF assms(1,3,2)] eq that by (metis option.exhaust)
  then show "m = n" by (rule same_leaves_map)
qed simp

lemma isSubset_flatten:
  assumes "range_law keys" and "plain_keys m" and "plain_keys n" and "solid m"
  shows "isSubset m n \<longleftrightarrow> (\<forall>path. fmlookup (flattenRecord keys m) path \<noteq> None
            \<longrightarrow> fmlookup (flattenRecord keys m) path = fmlookup (flattenRecord keys n) path)"
proof -
  have "(\<forall>k v. fmlookup m k = Some v \<longrightarrow> (\<exists>w. fmlookup n k = Some w \<and> leaves_within v w))
      \<longleftrightarrow> (\<forall>ps x. ps \<noteq> [] \<longrightarrow> leaf_at (JObj m) ps = Some x \<longrightarrow> leaf_at (JObj n) ps = Some x)"
    (is "?members \<longleftrightarrow> ?leaves")
  proof
    assume ?members
    show ?leaves
    proof (intro allI impI)
      fix ps x assume "ps \<noteq> []" "leaf_at (JObj m) ps = Some x"
      then obtain k qs v where "ps = k # qs" "fmlookup m k = Some v" "leaf_at v qs = Some x"
        by (cases ps) (auto split: option.splits)
      with \<open>?members\<close> show "leaf_at (JObj n) ps = Some x" by (fastforce simp: leaves_within_def)
    qed
  next
    assume r: ?leaves
    show ?members
    proof (intro allI impI)
      fix k v assume v: "fmlookup m k = Some v"
      then have sub: "leaf_at (JObj n) (k # qs) = Some x" if "leaf_at v qs = Some x" for qs x
        using r [rule_format, of "k # qs" x] that by simp
      obtain qs x where "leaf_at v qs = Some x" using leaf_exists by blast
      from sub [OF this] obtain w where "fmlookup n k = Some w" by (auto split: option.splits)
      with sub show "\<exists>w. fmlookup n k = Some w \<and> leaves_within v w" by (auto simp: leaves_within_def)
    qed
  qed
  then show ?thesis using isSubset_leaves [OF assms(4)] flatten_within [OF assms(1-3)] by simp
qed

lemma range_lawD: "range_law keys \<Longrightarrow> path \<in> set (keys m) \<longleftrightarrow> fmlookup m path \<noteq> None"
  by (auto simp: range_law_def fmlookup_dom_iff)

lemma recordDifferences_Nil:
  assumes "range_law keys"
  shows "recordDifferences keys enc expected actual md = [] \<longleftrightarrow>
    (let E = flattenRecord keys (fmdrop testMetadataKey expected); A = flattenRecord keys actual
     in (if md_Partial md then \<forall>path. fmlookup E path \<noteq> None \<longrightarrow> fmlookup E path = fmlookup A path else E = A)
        \<and> list_all (\<lambda>field. lookupField actual field = None) (md_Absent md))"
proof -
  let ?E = "flattenRecord keys (fmdrop testMetadataKey expected)" and ?A = "flattenRecord keys actual"
  have "(\<forall>path \<in> set (difference_paths keys ?E ?A (md_Partial md)). fmlookup ?E path \<noteq> None \<and> fmlookup ?E path = fmlookup ?A path)
     \<longleftrightarrow> (if md_Partial md then \<forall>path. fmlookup ?E path \<noteq> None \<longrightarrow> fmlookup ?E path = fmlookup ?A path else ?E = ?A)"
  proof (cases "md_Partial md")
    case True
    then show ?thesis by (simp add: difference_paths_def Ball_def range_lawD [OF assms])
  next
    case False
    have "?E = ?A \<longleftrightarrow> (\<forall>path. fmlookup ?E path = fmlookup ?A path)" by (auto intro: fmap_ext)
    moreover have "(\<forall>path. fmlookup ?E path = fmlookup ?A path) \<longleftrightarrow>
      (\<forall>path. fmlookup ?E path \<noteq> None \<or> fmlookup ?A path \<noteq> None \<longrightarrow> fmlookup ?E path \<noteq> None \<and> fmlookup ?E path = fmlookup ?A path)"
      by metis
    moreover have "path \<in> set (difference_paths keys ?E ?A False) \<longleftrightarrow> fmlookup ?E path \<noteq> None \<or> fmlookup ?A path \<noteq> None" for path
      by (cases "fmlookup ?E path") (simp_all add: difference_paths_def range_lawD [OF assms])
    ultimately show ?thesis using False by (simp only: Ball_def if_False)
  qed
  then show ?thesis unfolding recordDifferences_def Let_def append_is_Nil_conv map_is_Nil_conv filter_empty_conv
    by (simp add: list_all_iff)
qed

end
