(* ===== verification/Pipeline_Compare.thy ===== *)
theory Pipeline_Compare
  imports Api_Types Go_Text Pipeline_Records
begin

text \<open>
  The comparison stage of the fluent pipeline test (\<open>test/fluent-pipeline/stage/testing/testing.go\<close>): the
  records of the agent output are read, every expected record of every expected file claims the output
  records it selects, and what nobody claims is unexpected. Files, the directory walk and the JSON
  decoder are a parameter. What is only printed is left out; the report that is printed is part of the
  state.
\<close>

section \<open>The environment\<close>

text \<open>An entry of \<open>filepath.Walk\<close>, in the order of the walk.\<close>

record walk_entry =
  we_path :: string
  we_IsDir :: bool
  we_err :: "go_error option"

record pipeline_env =
  env_ReadFile :: "string \<Rightarrow> go_error + string"
  env_Walk :: "string \<Rightarrow> walk_entry list"
  env_ReadIn :: "string \<Rightarrow> string \<Rightarrow> go_error + string"
  env_Record :: "string \<Rightarrow> go_error + jmap"
  env_Records :: "string \<Rightarrow> go_error + jmap list"

section \<open>State\<close>

definition colored :: "string \<Rightarrow> string \<Rightarrow> string" where
  "colored code t = CHR 0x1B # ''['' @ code @ ''m'' @ t @ CHR 0x1B # ''[0m''"

definition succeeded :: string where "succeeded = colored ''32'' ''Succeeded''"
definition failed :: string where "failed = colored ''31'' ''Failed''"
definition differencesStatus :: string where "differencesStatus = colored ''33;20'' ''Log is processed, but with differences''"
definition logNotFoundStatus :: string where "logNotFoundStatus = colored ''31'' ''Log is not found in output''"
definition moreThanOneLogStatus :: string where "moreThanOneLogStatus = colored ''31'' ''More than one matching log in output''"
definition notDroppedStatus :: string where "notDroppedStatus = colored ''31'' ''Log is in output but was expected to be dropped''"
definition alreadyMatchedStatus :: string where
  "alreadyMatchedStatus = colored ''31'' ''Another expected record already matches this output record''"

definition actualLogsDir :: string where "actualLogsDir = filepath_Join [''output-logs'', ''actual'']"
definition expectedLogsDir :: string where "expectedLogsDir = filepath_Join [''output-logs'', ''expected'']"

record reportRow =
  rr_id :: string
  rr_status :: string
  rr_details :: string

record comparison =
  cp_actualRecords :: "jmap list"
  cp_claimedBy :: "string list"
  cp_modificationFuncs :: "modify_func list"
  cp_report :: "reportRow list"
  cp_filesWithoutTestID :: "string list"
  cp_unexpected :: "jmap list"
  cp_success :: bool

section \<open>Reading the output\<close>

text \<open>The scanner stops at a line that fills its buffer of 10 MiB; the lines before it are handled first.\<close>

definition scanner_limit :: nat where
  "scanner_limit = 10 * 1024 * 1024"

fun parse_lines :: "pipeline_env \<Rightarrow> nat \<Rightarrow> string list \<Rightarrow> jmap list \<Rightarrow> go_error + jmap list" where
  "parse_lines env limit [] records = Inr records"
| "parse_lines env limit (raw # rest) records =
     (if length raw \<ge> limit
      then Inl (Errorf [Lit ''scan pipeline output: '', ArgW (errors_New ''bufio.Scanner: token too long'')])
      else let line = go_TrimSpace (drop_cr raw)
           in if line = [] then parse_lines env limit rest records
              else if hd line \<noteq> CHR ''{'' then parse_lines env limit rest records
              else case env_Record env line of
                     Inl e \<Rightarrow> Inl (Errorf [Lit ''parse pipeline output as JSON: '', ArgW e])
                   | Inr r \<Rightarrow> parse_lines env limit rest (records @ [r]))"

definition readActualRecords :: "pipeline_env \<Rightarrow> string \<Rightarrow> go_error + jmap list" where
  "readActualRecords env path =
     (case env_ReadFile env path of
        Inl e \<Rightarrow> Inl e
      | Inr actual \<Rightarrow> parse_lines env scanner_limit (raw_lines actual []) [])"

section \<open>Claims\<close>

definition claim :: "nat list \<Rightarrow> string \<Rightarrow> comparison \<Rightarrow> comparison" where
  "claim indexes i c = c\<lparr>cp_claimedBy :=
     fold (\<lambda>index owners. if owners ! index = [] then owners[index := i] else owners) indexes (cp_claimedBy c)\<rparr>"

text \<open>The owner of the first of the records that is claimed, or the empty string.\<close>

fun claimant :: "nat list \<Rightarrow> comparison \<Rightarrow> string" where
  "claimant [] c = []"
| "claimant (index # indexes) c = (if cp_claimedBy c ! index \<noteq> [] then cp_claimedBy c ! index else claimant indexes c)"

definition claim_record :: "jmap \<Rightarrow> comparison \<Rightarrow> comparison" where
  "claim_record r c =
     (case getTestMetadata r of
        None \<Rightarrow> c
      | Some metadata \<Rightarrow>
          (case selectorValues r metadata of
             (values, missing) \<Rightarrow>
               if missing = [] then claim (findActualRecords (cp_actualRecords c) values) (md_ID metadata) c else c))"

definition claimRecords :: "jmap list \<Rightarrow> comparison \<Rightarrow> comparison" where
  "claimRecords expectedRecords c = fold claim_record expectedRecords c"

definition collectUnexpected :: "comparison \<Rightarrow> comparison" where
  "collectUnexpected c =
     (let unexpected = cp_unexpected c
            @ map (nth (cp_actualRecords c)) (filter (\<lambda>index. cp_claimedBy c ! index = []) [0..<length (cp_actualRecords c)])
      in c\<lparr>cp_unexpected := unexpected, cp_success := (if length unexpected > 0 then False else cp_success c)\<rparr>)"

section \<open>Expected records\<close>

definition cp_fail :: "string \<Rightarrow> string \<Rightarrow> comparison \<Rightarrow> comparison" where
  "cp_fail i details c =
     c\<lparr>cp_success := False, cp_report := cp_report c @ [\<lparr>rr_id = i, rr_status = failed, rr_details = details\<rparr>]\<rparr>"

definition cp_succeed :: "string \<Rightarrow> comparison \<Rightarrow> comparison" where
  "cp_succeed i c = c\<lparr>cp_report := cp_report c @ [\<lparr>rr_id = i, rr_status = succeeded, rr_details = []\<rparr>]\<rparr>"

text \<open>The method returns no error on any path, so its result is the state.\<close>

definition compareExpectedRecord :: "string \<Rightarrow> jmap \<Rightarrow> comparison \<Rightarrow> comparison" where
  "compareExpectedRecord expectedFile r c =
     (case getTestMetadata r of
        None \<Rightarrow> c\<lparr>cp_success := False, cp_filesWithoutTestID := cp_filesWithoutTestID c @ [expectedFile]\<rparr>
      | Some metadata \<Rightarrow>
          if md_ID metadata = []
          then c\<lparr>cp_success := False, cp_filesWithoutTestID := cp_filesWithoutTestID c @ [expectedFile]\<rparr>
          else case selectorValues r metadata of
            (values, missing) \<Rightarrow>
              if missing \<noteq> []
              then cp_fail (md_ID metadata) (''expected record has no '' @ go_Quote missing @ '' field to match on'') c
              else let indexes = findActualRecords (cp_actualRecords c) values
                   in if claimant indexes c \<noteq> [] then cp_fail (md_ID metadata) alreadyMatchedStatus c
                      else let c = claim indexes (md_ID metadata) c
                           in if md_Dropped metadata then
                                (if length indexes = 0 then cp_succeed (md_ID metadata) c
                                 else cp_fail (md_ID metadata) notDroppedStatus c)
                              else if length indexes > 1 then cp_fail (md_ID metadata) moreThanOneLogStatus c
                              else if length indexes = 0 then cp_fail (md_ID metadata) logNotFoundStatus c
                              else let actualRecord = cp_actualRecords c ! (indexes ! 0);
                                       r = applyModificationFuncs r actualRecord expectedFile (cp_modificationFuncs c)
                                   in if compareRecord r actualRecord metadata then cp_succeed (md_ID metadata) c
                                      else cp_fail (md_ID metadata) differencesStatus c)"

definition compareRecords :: "string \<Rightarrow> jmap list \<Rightarrow> comparison \<Rightarrow> comparison" where
  "compareRecords expectedFile expectedRecords c = fold (compareExpectedRecord expectedFile) expectedRecords c"

section \<open>The run\<close>

text \<open>The function called for an entry of the walk: an error ends the walk.\<close>

definition visit_entry :: "pipeline_env \<Rightarrow> string \<Rightarrow> string list \<Rightarrow> walk_entry \<Rightarrow> comparison \<Rightarrow> go_error option \<times> comparison" where
  "visit_entry env root ignoreFiles entry c =
     (case we_err entry of
        Some e \<Rightarrow> (Some e, c)
      | None \<Rightarrow>
          if we_IsDir entry \<or> \<not> go_HasSuffix (we_path entry) ''.log.json'' then (None, c)
          else let expectedFile = snd (filepath_Split (we_path entry))
               in case env_ReadIn env root expectedFile of
                    Inl e \<Rightarrow> (Some e, c\<lparr>cp_success := False\<rparr>)
                  | Inr expected \<Rightarrow>
                      (case env_Records env expected of
                         Inl e \<Rightarrow> (Some e, c\<lparr>cp_success := False\<rparr>)
                       | Inr expectedRecords \<Rightarrow>
                           if expectedFile \<in> set ignoreFiles then (None, claimRecords expectedRecords c)
                           else (None, compareRecords expectedFile expectedRecords c)))"

fun visit_entries :: "pipeline_env \<Rightarrow> string \<Rightarrow> string list \<Rightarrow> walk_entry list \<Rightarrow> comparison \<Rightarrow> go_error option \<times> comparison" where
  "visit_entries env root ignoreFiles [] c = (None, c)"
| "visit_entries env root ignoreFiles (entry # entries) c =
     (case visit_entry env root ignoreFiles entry c of
        (Some e, c) \<Rightarrow> (Some e, c)
      | (None, c) \<Rightarrow> visit_entries env root ignoreFiles entries c)"

definition compareExpectedFiles :: "pipeline_env \<Rightarrow> string \<Rightarrow> string list \<Rightarrow> comparison \<Rightarrow> go_error option \<times> comparison" where
  "compareExpectedFiles env root ignoreFiles c = visit_entries env root ignoreFiles (env_Walk env root) c"

definition new_comparison :: "jmap list \<Rightarrow> modify_func list \<Rightarrow> comparison" where
  "new_comparison actualRecords fs = \<lparr>cp_actualRecords = actualRecords, cp_claimedBy = replicate (length actualRecords) [],
     cp_modificationFuncs = fs, cp_report = [], cp_filesWithoutTestID = [], cp_unexpected = [], cp_success = True\<rparr>"

definition testJson :: "pipeline_env \<Rightarrow> string \<Rightarrow> string \<Rightarrow> modify_func list \<Rightarrow> go_error + bool" where
  "testJson env ignore outputLogFileName fs =
     (if length outputLogFileName = 0 then Inr False
      else case readActualRecords env (filepath_Join [actualLogsDir, outputLogFileName]) of
             Inl e \<Rightarrow> Inl e
           | Inr actualRecords \<Rightarrow>
               (case compareExpectedFiles env expectedLogsDir (go_Split ignore '','') (new_comparison actualRecords fs) of
                  (Some e, _) \<Rightarrow> Inl e
                | (None, c) \<Rightarrow> Inr (cp_success (collectUnexpected c))))"

text \<open>The exit code of the process.\<close>

definition CompareLogs :: "pipeline_env \<Rightarrow> string \<Rightarrow> string \<Rightarrow> modify_func list \<Rightarrow> nat" where
  "CompareLogs env ignoreFiles outputLogFileName fs =
     (case testJson env ignoreFiles outputLogFileName fs of Inl _ \<Rightarrow> 1 | Inr success \<Rightarrow> if \<not> success then 1 else 0)"

end
