(* ===== verification/Pipeline_Claims.thy ===== *)
theory Pipeline_Claims
  imports Pipeline_Compare
begin

text \<open>
  What a comparison run decides, without its state: every expected record is described by the output,
  no record is claimed twice, and every output record is claimed. The run of \<open>Pipeline_Compare\<close>, which
  keeps the claims in a list and looks at the records one after the other, comes to the same verdict.
\<close>

section \<open>Specification\<close>

definition selects :: "jmap list \<Rightarrow> jmap \<Rightarrow> nat list" where
  "selects actual r =
     (case getTestMetadata r of
        None \<Rightarrow> []
      | Some md \<Rightarrow> (case selectorValues r md of (values, missing) \<Rightarrow> if missing = [] then findActualRecords actual values else []))"

definition test_id :: "jmap \<Rightarrow> string" where
  "test_id r = (case getTestMetadata r of None \<Rightarrow> [] | Some md \<Rightarrow> md_ID md)"

definition is_dropped :: "jmap \<Rightarrow> bool" where
  "is_dropped r = (case getTestMetadata r of None \<Rightarrow> False | Some md \<Rightarrow> md_Dropped md)"

text \<open>The output records an expected record accounts for.\<close>

definition claims :: "jmap list \<Rightarrow> jmap \<Rightarrow> nat set" where
  "claims actual r = (if test_id r = [] then {} else set (selects actual r))"

text \<open>The output has what an expected record of a file asks for: no selected record when it is a probe for
  a dropped line, and otherwise exactly one, which compares equal.\<close>

definition described :: "jmap list \<Rightarrow> modify_func list \<Rightarrow> string \<Rightarrow> jmap \<Rightarrow> bool" where
  "described actual fs file r =
     (case getTestMetadata r of
        None \<Rightarrow> False
      | Some md \<Rightarrow> md_ID md \<noteq> [] \<and> snd (selectorValues r md) = []
          \<and> (if md_Dropped md then selects actual r = []
             else case selects actual r of
                    [i] \<Rightarrow> compareRecord (applyModificationFuncs r (actual ! i) file fs) (actual ! i) md
                  | _ \<Rightarrow> False))"

datatype item = Ignored jmap | Checked string jmap

fun item_record :: "item \<Rightarrow> jmap" where
  "item_record (Ignored r) = r"
| "item_record (Checked _ r) = r"

fun item_passes :: "jmap list \<Rightarrow> modify_func list \<Rightarrow> nat set \<Rightarrow> item \<Rightarrow> bool" where
  "item_passes actual fs taken (Ignored r) = True"
| "item_passes actual fs taken (Checked file r) \<longleftrightarrow> described actual fs file r \<and> set (selects actual r) \<inter> taken = {}"

text \<open>The items in order, each looked at with the claims of those before it.\<close>

definition accounted :: "jmap list \<Rightarrow> modify_func list \<Rightarrow> item list \<Rightarrow> bool" where
  "accounted actual fs items \<longleftrightarrow>
     (\<forall>j < length items. item_passes actual fs (\<Union>it \<in> set (take j items). claims actual (item_record it)) (items ! j))
     \<and> (\<forall>i < length actual. \<exists>it \<in> set items. i \<in> claims actual (item_record it))"

text \<open>The expected records a walk finds.\<close>

definition entry_items :: "pipeline_env \<Rightarrow> string \<Rightarrow> string list \<Rightarrow> walk_entry \<Rightarrow> go_error + item list" where
  "entry_items env root ignoreFiles entry =
     (case we_err entry of
        Some e \<Rightarrow> Inl e
      | None \<Rightarrow>
          if we_IsDir entry \<or> \<not> go_HasSuffix (we_path entry) ''.log.json'' then Inr []
          else let file = snd (filepath_Split (we_path entry))
               in case env_ReadIn env root file of
                    Inl e \<Rightarrow> Inl e
                  | Inr expected \<Rightarrow>
                      map_sum id (map (if file \<in> set ignoreFiles then Ignored else Checked file)) (env_Records env expected))"

fun walk_items :: "pipeline_env \<Rightarrow> string \<Rightarrow> string list \<Rightarrow> walk_entry list \<Rightarrow> go_error + item list" where
  "walk_items env root ignoreFiles [] = Inr []"
| "walk_items env root ignoreFiles (entry # entries) =
     (case entry_items env root ignoreFiles entry of
        Inl e \<Rightarrow> Inl e
      | Inr items \<Rightarrow> map_sum id (\<lambda>rest. items @ rest) (walk_items env root ignoreFiles entries))"

section \<open>Claims\<close>

definition taken :: "comparison \<Rightarrow> nat set" where
  "taken c = {i. i < length (cp_claimedBy c) \<and> cp_claimedBy c ! i \<noteq> []}"

text \<open>What the steps of a run leave alone.\<close>

definition same_run :: "comparison \<Rightarrow> comparison \<Rightarrow> bool" where
  "same_run c d \<longleftrightarrow> cp_actualRecords d = cp_actualRecords c \<and> cp_modificationFuncs d = cp_modificationFuncs c
     \<and> length (cp_claimedBy d) = length (cp_claimedBy c) \<and> cp_unexpected d = cp_unexpected c"

abbreviation claim_all :: "string \<Rightarrow> nat list \<Rightarrow> string list \<Rightarrow> string list" where
  "claim_all i \<equiv> fold (\<lambda>index owners. if owners ! index = [] then owners[index := i] else owners)"

lemma claim_fold:
  assumes "set indexes \<subseteq> {..<length owners}"
  shows "length (claim_all i indexes owners) = length owners"
    and "k < length owners \<Longrightarrow> claim_all i indexes owners ! k \<noteq> [] \<longleftrightarrow> owners ! k \<noteq> [] \<or> (i \<noteq> [] \<and> k \<in> set indexes)"
  using assms
proof (induction indexes arbitrary: owners)
  case (Cons x xs)
  {
    case 1
    then show ?case using Cons(1) [of "if owners ! x = [] then owners[x := i] else owners"] by (simp split: if_splits)
  next
    case 2
    then show ?case using Cons(2) [of "if owners ! x = [] then owners[x := i] else owners"]
      by (auto simp: nth_list_update split: if_splits)
  }
qed simp_all

lemma claim_same_run: "set indexes \<subseteq> {..<length (cp_claimedBy c)} \<Longrightarrow> same_run c (claim indexes i c)"
  using claim_fold(1) [of indexes "cp_claimedBy c" i] by (simp add: same_run_def claim_def)

lemma taken_claim:
  "set indexes \<subseteq> {..<length (cp_claimedBy c)} \<Longrightarrow> taken (claim indexes i c) = taken c \<union> (if i = [] then {} else set indexes)"
  using claim_fold [of indexes "cp_claimedBy c"] by (auto simp: taken_def claim_def)

lemma claimant_iff:
  "set indexes \<subseteq> {..<length (cp_claimedBy c)} \<Longrightarrow> claimant indexes c \<noteq> [] \<longleftrightarrow> set indexes \<inter> taken c \<noteq> {}"
  by (induction indexes) (auto simp: taken_def)

lemma findActualRecords_bound: "set (findActualRecords actual values) \<subseteq> {..<length actual}"
  by (auto simp: findActualRecords_def)

lemma claim_success [simp]: "cp_success (claim indexes i c) = cp_success c"
  by (simp add: claim_def)

section \<open>Steps\<close>

fun run_item :: "item \<Rightarrow> comparison \<Rightarrow> comparison" where
  "run_item (Ignored r) c = claim_record r c"
| "run_item (Checked file r) c = compareExpectedRecord file r c"

lemma same_run_trans: "same_run a b \<Longrightarrow> same_run b c \<Longrightarrow> same_run a c"
  by (simp add: same_run_def)

lemma claim_record_step:
  assumes "length (cp_claimedBy c) = length (cp_actualRecords c)"
  shows "same_run c (claim_record r c)" and "taken (claim_record r c) = taken c \<union> claims (cp_actualRecords c) r"
    and "cp_success (claim_record r c) = cp_success c"
proof -
  have b: "set (findActualRecords (cp_actualRecords c) v) \<subseteq> {..<length (cp_claimedBy c)}" for v
    using findActualRecords_bound assms by simp
  show "same_run c (claim_record r c)"
    using claim_same_run [OF b] by (auto simp: claim_record_def same_run_def split: option.split prod.split)
  show "taken (claim_record r c) = taken c \<union> claims (cp_actualRecords c) r"
    using taken_claim [OF b] by (auto simp: claim_record_def claims_def test_id_def selects_def split: option.split prod.split)
  show "cp_success (claim_record r c) = cp_success c"
    by (simp add: claim_record_def split: option.split prod.split)
qed

lemma compareExpectedRecord_step:
  fixes c src r
  assumes "length (cp_claimedBy c) = length (cp_actualRecords c)"
  defines "d \<equiv> compareExpectedRecord src r c"
  shows "same_run c d"
    and "cp_success d \<longleftrightarrow> cp_success c \<and> item_passes (cp_actualRecords c) (cp_modificationFuncs c) (taken c) (Checked src r)"
    and "cp_success d \<Longrightarrow> taken d = taken c \<union> claims (cp_actualRecords c) r"
proof -
  let ?actual = "cp_actualRecords c"
  have "same_run c d \<and> (cp_success d \<longleftrightarrow> cp_success c \<and> item_passes ?actual (cp_modificationFuncs c) (taken c) (Checked src r))
      \<and> (cp_success d \<longrightarrow> taken d = taken c \<union> claims ?actual r)"
  proof (cases "getTestMetadata r")
    case None
    then show ?thesis by (simp add: d_def compareExpectedRecord_def same_run_def described_def)
  next
    case (Some md)
    obtain v missing where sv: "selectorValues r md = (v, missing)" by fastforce
    show ?thesis
    proof (cases "md_ID md = [] \<or> missing \<noteq> []")
      case True
      then show ?thesis using Some sv by (auto simp: d_def compareExpectedRecord_def cp_fail_def same_run_def described_def)
    next
      case False
      let ?ix = "findActualRecords ?actual v" and ?c = "claim (findActualRecords ?actual v) (md_ID md) c"
      have sel: "selects ?actual r = ?ix" using Some sv False by (simp add: selects_def)
      have b: "set ?ix \<subseteq> {..<length (cp_claimedBy c)}" using findActualRecords_bound assms(1) by simp
      note cl = claim_same_run [OF b, of "md_ID md"] taken_claim [OF b, of "md_ID md"] claimant_iff [OF b]
      have claims: "claims ?actual r = set ?ix" using Some sel False by (simp add: claims_def test_id_def)
      show ?thesis
      proof (cases "set ?ix \<inter> taken c = {}")
        case taken: False
        then show ?thesis using Some sv False sel cl(3) by (auto simp: d_def compareExpectedRecord_def cp_fail_def same_run_def described_def)
      next
        case disj: True
        let ?ok = "if md_Dropped md then ?ix = [] else case ?ix of
            [i] \<Rightarrow> compareRecord (applyModificationFuncs r (?actual ! i) src (cp_modificationFuncs c)) (?actual ! i) md | _ \<Rightarrow> False"
        have fr: "cp_actualRecords ?c = ?actual" "cp_modificationFuncs ?c = cp_modificationFuncs c" using cl(1) by (simp_all add: same_run_def)
        have d: "d = (if ?ok then cp_succeed (md_ID md) ?c else cp_fail (md_ID md)
            (if md_Dropped md then notDroppedStatus else if length ?ix > 1 then moreThanOneLogStatus
             else if length ?ix = 0 then logNotFoundStatus else differencesStatus) ?c)"
          using Some sv False cl(3) disj fr
          by (auto simp: d_def compareExpectedRecord_def Let_def split: list.split)
        have "described ?actual (cp_modificationFuncs c) src r \<longleftrightarrow> ?ok" using Some sv False sel by (simp add: described_def)
        then show ?thesis using d cl(1,2) disj sel claims False
          by (auto simp: cp_succeed_def cp_fail_def same_run_def taken_def)
      qed
    qed
  qed
  then show "same_run c d"
    and "cp_success d \<longleftrightarrow> cp_success c \<and> item_passes ?actual (cp_modificationFuncs c) (taken c) (Checked src r)"
    and "cp_success d \<Longrightarrow> taken d = taken c \<union> claims ?actual r" by blast+
qed

lemma run_item_step:
  assumes "length (cp_claimedBy c) = length (cp_actualRecords c)"
  shows "same_run c (run_item it c)"
    and "cp_success (run_item it c) \<longleftrightarrow> cp_success c \<and> item_passes (cp_actualRecords c) (cp_modificationFuncs c) (taken c) it"
    and "cp_success (run_item it c) \<Longrightarrow> taken (run_item it c) = taken c \<union> claims (cp_actualRecords c) (item_record it)"
  using claim_record_step [OF assms] compareExpectedRecord_step [OF assms] by (cases it; simp)+

section \<open>Runs\<close>

lemma run_items:
  fixes c items
  assumes "length (cp_claimedBy c) = length (cp_actualRecords c)"
  defines "d \<equiv> fold run_item items c"
  shows "same_run c d"
    and "cp_success d \<longleftrightarrow> cp_success c \<and> (\<forall>j < length items. item_passes (cp_actualRecords c) (cp_modificationFuncs c)
           (taken c \<union> (\<Union>it \<in> set (take j items). claims (cp_actualRecords c) (item_record it))) (items ! j))"
    and "cp_success d \<Longrightarrow> taken d = taken c \<union> (\<Union>it \<in> set items. claims (cp_actualRecords c) (item_record it))"
  using assms(1) unfolding d_def
proof (induction items arbitrary: c)
  case Nil
  { case 1 then show ?case by (simp add: same_run_def) }
  { case 2 then show ?case by simp }
  { case 3 then show ?case by simp }
next
  case (Cons it items)
  note step = run_item_step [where it = it]
  have len: "length (cp_claimedBy (run_item it c)) = length (cp_actualRecords (run_item it c))"
    and fr: "cp_actualRecords (run_item it c) = cp_actualRecords c" "cp_modificationFuncs (run_item it c) = cp_modificationFuncs c"
    if "length (cp_claimedBy c) = length (cp_actualRecords c)" for c using step(1) [OF that] that by (simp_all add: same_run_def)
  { case 1 show ?case using same_run_trans [OF step(1) [OF 1] Cons(1) [OF len [OF 1]]] by simp }
  {
    case 2
    note ih = Cons(2) [OF len [OF 2]]
    show ?case
    proof (cases "cp_success (run_item it c)")
      case False
      then show ?thesis using ih step(2) [OF 2] by auto
    next
      case True
      have "(\<forall>j < length (it # items). item_passes (cp_actualRecords c) (cp_modificationFuncs c)
              (taken c \<union> (\<Union>it \<in> set (take j (it # items)). claims (cp_actualRecords c) (item_record it))) ((it # items) ! j))
         \<longleftrightarrow> item_passes (cp_actualRecords c) (cp_modificationFuncs c) (taken c) it
           \<and> (\<forall>j < length items. item_passes (cp_actualRecords c) (cp_modificationFuncs c)
               (taken (run_item it c) \<union> (\<Union>it \<in> set (take j items). claims (cp_actualRecords c) (item_record it))) (items ! j))"
        using step(3) [OF 2 True] by (simp add: All_less_Suc2 Un_assoc)
      then show ?thesis using ih step(2) [OF 2] True by (simp add: fr [OF 2])
    qed
  }
  {
    case 3
    then have "cp_success (run_item it c)" using Cons(2) [OF len [OF 3(2)]] by simp
    from Cons(3) [OF _ len [OF 3(2)]] 3(1) step(3) [OF 3(2) this] show ?case by (simp add: fr [OF 3(2)] Un_assoc)
  }
qed

lemma run_item_eta: "run_item (Ignored r) = claim_record r" "run_item (Checked f r) = compareExpectedRecord f r"
  by (rule ext, simp)+

lemma fold_items:
  "claimRecords rs c = fold run_item (map Ignored rs) c"
  "compareRecords file rs c = fold run_item (map (Checked file) rs) c"
  by (simp_all add: claimRecords_def compareRecords_def fold_map comp_def run_item_eta)

lemma visit_entry_items:
  "case entry_items env root ignoreFiles entry of
     Inl e \<Rightarrow> fst (visit_entry env root ignoreFiles entry c) = Some e
   | Inr items \<Rightarrow> visit_entry env root ignoreFiles entry c = (None, fold run_item items c)"
  by (auto simp: entry_items_def visit_entry_def Let_def fold_items split: option.split sum.split)

lemma visit_entries_items:
  "case walk_items env root ignoreFiles entries of
     Inl e \<Rightarrow> fst (visit_entries env root ignoreFiles entries c) = Some e
   | Inr items \<Rightarrow> visit_entries env root ignoreFiles entries c = (None, fold run_item items c)"
proof (induction entries arbitrary: c)
  case (Cons entry entries)
  show ?case
  proof (cases "entry_items env root ignoreFiles entry")
    case (Inl e)
    then have "fst (visit_entry env root ignoreFiles entry c) = Some e" using visit_entry_items [of env root ignoreFiles entry c] by simp
    with Inl show ?thesis by (cases "visit_entry env root ignoreFiles entry c") simp
  next
    case (Inr items)
    then have "visit_entry env root ignoreFiles entry c = (None, fold run_item items c)"
      using visit_entry_items [of env root ignoreFiles entry c] by simp
    with Inr Cons.IH [of "fold run_item items c"] show ?thesis by (simp split: sum.splits)
  qed
qed simp

lemma collectUnexpected_success:
  assumes "length (cp_claimedBy c) = length (cp_actualRecords c)" and "cp_unexpected c = []"
  shows "cp_success (collectUnexpected c) \<longleftrightarrow> cp_success c \<and> {..<length (cp_actualRecords c)} \<subseteq> taken c"
  using assms by (auto simp: collectUnexpected_def Let_def filter_empty_conv taken_def)

text \<open>The verdict of a run on given records.\<close>

lemma run_verdict:
  "cp_success (collectUnexpected (fold run_item items (new_comparison actual fs))) \<longleftrightarrow> accounted actual fs items"
proof -
  let ?c = "new_comparison actual fs" and ?d = "fold run_item items (new_comparison actual fs)"
  have start: "length (cp_claimedBy ?c) = length (cp_actualRecords ?c)" "taken ?c = {}" "cp_success ?c"
    "cp_actualRecords ?c = actual" "cp_modificationFuncs ?c = fs" "cp_unexpected ?c = []"
    by (auto simp: new_comparison_def taken_def)
  note r = run_items [OF start(1), of items, unfolded start(2-5)]
  have d: "length (cp_claimedBy ?d) = length (cp_actualRecords ?d)" "cp_unexpected ?d = []" "cp_actualRecords ?d = actual"
    using r(1) start by (simp_all add: same_run_def)
  have "{..<length actual} \<subseteq> taken ?d \<longleftrightarrow> (\<forall>i < length actual. \<exists>it \<in> set items. i \<in> claims actual (item_record it))"
    if "cp_success ?d"
    using r(3) [OF that] by auto
  then show ?thesis
    unfolding accounted_def using r(2) start(3) collectUnexpected_success [OF d(1,2), unfolded d(3)] by auto
qed

end
