(* ===== verification/Pipeline_Properties.thy ===== *)
theory Pipeline_Properties
  imports Pipeline_Paths Pipeline_Claims
begin

text \<open>
  Properties of the fluent pipeline test: its verdict, and the differences it reports.
\<close>

section \<open>The verdict\<close>

text \<open>C8: the verdict of the pipeline test is exact. The comparison exits with 0 exactly when the agent has an
  output file, the output and all expected files can be read, every expected record of a file that is not
  ignored finds what it describes among the output records nobody before it has claimed, and every
  output record is claimed. Otherwise it exits with 1.\<close>

theorem pipeline_verdict:
  "CompareLogs env ignore name fs =
     (if name \<noteq> [] \<and> (\<exists>actual items.
          readActualRecords env (filepath_Join [actualLogsDir, name]) = Inr actual
          \<and> walk_items env expectedLogsDir (go_Split ignore '','') (env_Walk env expectedLogsDir) = Inr items
          \<and> accounted actual fs items)
      then 0 else 1)"
proof (cases "readActualRecords env (filepath_Join [actualLogsDir, name])")
  case (Inl e)
  then show ?thesis by (simp add: CompareLogs_def testJson_def)
next
  case (Inr actual)
  let ?ign = "go_Split ignore '',''" and ?entries = "env_Walk env expectedLogsDir"
  let ?run = "visit_entries env expectedLogsDir ?ign ?entries (new_comparison actual fs)"
  note v = visit_entries_items [of env expectedLogsDir ?ign ?entries "new_comparison actual fs"]
  show ?thesis
  proof (cases "walk_items env expectedLogsDir ?ign ?entries")
    case (Inl e)
    with v obtain c where "?run = (Some e, c)" by (cases ?run) simp
    with Inl Inr show ?thesis by (simp add: CompareLogs_def testJson_def compareExpectedFiles_def)
  next
    case items: (Inr items)
    with v have "?run = (None, fold run_item items (new_comparison actual fs))" by simp
    with items Inr show ?thesis by (simp add: CompareLogs_def testJson_def compareExpectedFiles_def run_verdict)
  qed
qed

lemma described_cases:
  assumes "described actual fs file r"
  obtains (dropped) "is_dropped r" and "selects actual r = []" and "test_id r \<noteq> []"
    | (kept) md i where "\<not> is_dropped r" and "getTestMetadata r = Some md" and "selects actual r = [i]" and "test_id r \<noteq> []"
        and "compareRecord (applyModificationFuncs r (actual ! i) file fs) (actual ! i) md"
  using assms by (auto simp: described_def is_dropped_def test_id_def split: option.splits if_splits list.splits)

lemma selects_bound: "set (selects actual r) \<subseteq> {..<length actual}"
  using findActualRecords_bound by (auto simp: selects_def split: option.splits prod.splits if_splits)

lemma accounted_item:
  assumes acc: "accounted actual fs (map (case_prod Checked) expected)" and j: "j < length expected"
  shows "described actual fs (fst (expected ! j)) (snd (expected ! j))"
    and "j' < j \<Longrightarrow> set (selects actual (snd (expected ! j))) \<inter> claims actual (snd (expected ! j')) = {}"
proof -
  let ?items = "map (case_prod Checked) expected"
  from acc j have *: "item_passes actual fs (\<Union>it \<in> set (take j ?items). claims actual (item_record it))
      (Checked (fst (expected ! j)) (snd (expected ! j)))"
    unfolding accounted_def by (metis (mono_tags, lifting) case_prod_beta length_map nth_map)
  then show "described actual fs (fst (expected ! j)) (snd (expected ! j))" by simp
  assume "j' < j"
  then have "?items ! j' \<in> set (take j ?items)" using j by (auto simp: in_set_conv_nth)
  moreover have "item_record (?items ! j') = snd (expected ! j')" using \<open>j' < j\<close> j by (simp add: case_prod_beta)
  ultimately have "claims actual (snd (expected ! j')) \<subseteq> (\<Union>it \<in> set (take j ?items). claims actual (item_record it))" by force
  with * show "set (selects actual (snd (expected ! j))) \<inter> claims actual (snd (expected ! j')) = {}" by auto
qed

lemma described_selects:
  assumes "described actual fs f r"
  shows "is_dropped r \<Longrightarrow> selects actual r = []"
    and "\<not> is_dropped r \<Longrightarrow> selects actual r = [hd (selects actual r)] \<and> claims actual r = {hd (selects actual r)}"
  using assms by (auto elim!: described_cases simp: claims_def)

lemma accounted_bij:
  assumes acc: "accounted actual fs (map (case_prod Checked) expected)"
  defines "m \<equiv> \<lambda>j. hd (selects actual (snd (expected ! j)))"
  shows "bij_betw m {j. j < length expected \<and> \<not> is_dropped (snd (expected ! j))} {..<length actual}" (is "bij_betw m ?kept _")
proof (rule bij_betw_imageI)
  have kept: "selects actual (snd (expected ! j)) = [m j] \<and> claims actual (snd (expected ! j)) = {m j}" if "j \<in> ?kept" for j
    using described_selects(2) [OF accounted_item(1) [OF acc]] that by (simp add: m_def)
  show "inj_on m ?kept"
  proof (rule linorder_inj_onI')
    fix j' j assume jj: "j' \<in> ?kept" "j \<in> ?kept" "j' < j"
    then show "m j' \<noteq> m j" using accounted_item(2) [OF acc, of j j'] kept [OF jj(1)] kept [OF jj(2)] by auto
  qed
  show "m ` ?kept = {..<length actual}"
  proof
    show "m ` ?kept \<subseteq> {..<length actual}"
    proof (rule image_subsetI)
      fix j assume "j \<in> ?kept"
      from kept [OF this] selects_bound [of actual "snd (expected ! j)"] show "m j \<in> {..<length actual}" by simp
    qed
    show "{..<length actual} \<subseteq> m ` ?kept"
    proof
      fix i assume "i \<in> {..<length actual}"
      then obtain j where j: "j < length expected" "i \<in> claims actual (snd (expected ! j))"
        using acc unfolding accounted_def by (force simp: in_set_conv_nth case_prod_beta)
      with described_selects(1) [OF accounted_item(1) [OF acc j(1)]] have "j \<in> ?kept"
        by (cases "j \<in> ?kept") (simp_all add: claims_def split: if_splits)
      with kept [of j] j(2) show "i \<in> m ` ?kept" by auto
    qed
  qed
qed

text \<open>C16: a passing run is a one-to-one match. When no expected file is ignored and the comparison exits
  with 0, the expected records that are not probes for dropped lines correspond one to one to the
  output records: each selects its own record only and compares equal to it, no output record is left
  over, and a probe selects none.\<close>

theorem pipeline_match:
  assumes "CompareLogs env ignore name fs = 0"
    and "readActualRecords env (filepath_Join [actualLogsDir, name]) = Inr actual"
    and "walk_items env expectedLogsDir (go_Split ignore '','') (env_Walk env expectedLogsDir) = Inr (map (case_prod Checked) expected)"
  shows "\<exists>m. bij_betw m {j. j < length expected \<and> \<not> is_dropped (snd (expected ! j))} {..<length actual}
    \<and> (\<forall>j < length expected. case expected ! j of (f, r) \<Rightarrow>
         if is_dropped r then selects actual r = []
         else selects actual r = [m j]
           \<and> (\<exists>md. getTestMetadata r = Some md
                \<and> compareRecord (applyModificationFuncs r (actual ! m j) f fs) (actual ! m j) md))"
proof -
  have acc: "accounted actual fs (map (case_prod Checked) expected)"
    using assms unfolding CompareLogs_def testJson_def
    using visit_entries_items [of env expectedLogsDir "go_Split ignore '',''" "env_Walk env expectedLogsDir" "new_comparison actual fs"]
    by (auto simp: compareExpectedFiles_def run_verdict split: if_splits sum.splits)
  let ?m = "\<lambda>j. hd (selects actual (snd (expected ! j)))"
  have "case expected ! j of (f, r) \<Rightarrow> if is_dropped r then selects actual r = []
      else selects actual r = [?m j] \<and> (\<exists>md. getTestMetadata r = Some md
        \<and> compareRecord (applyModificationFuncs r (actual ! ?m j) f fs) (actual ! ?m j) md)" if j: "j < length expected" for j
    using accounted_item(1) [OF acc j] by (cases rule: described_cases) (auto simp: case_prod_beta)
  with accounted_bij [OF acc] show ?thesis by (intro exI [of _ ?m]) simp
qed

definition sample_output :: jmap where
  "sample_output = fmap_of_list [(''time'', JStr ''t1''), (''log'', JObj (fmap_of_list [(''level'', JStr ''info'')]))]"

definition sample_expected :: jmap where
  "sample_expected = fmap_of_list [(''_test'', JObj (fmap_of_list [(''id'', JStr ''case-1'')])), (''time'', JStr ''t1''),
     (''log'', JObj (fmap_of_list [(''level'', JStr ''info'')]))]"

definition sample_env :: pipeline_env where
  "sample_env = \<lparr>env_ReadFile = \<lambda>_. Inr ''{}'',
     env_Walk = \<lambda>_. [\<lparr>we_path = ''output-logs/expected/a.log.json'', we_IsDir = False, we_err = None\<rparr>],
     env_ReadIn = \<lambda>_ _. Inr [], env_Record = \<lambda>_. Inr sample_output, env_Records = \<lambda>_. Inr [sample_expected]\<rparr>"

lemma sample_read: "readActualRecords sample_env path = Inr [sample_output]"
proof -
  have "go_TrimSpace ''{}'' = ''{}''" by code_simp
  then show ?thesis by (simp add: readActualRecords_def sample_env_def scanner_limit_def drop_cr_def)
qed

lemma sample_items:
  "walk_items sample_env expectedLogsDir [[]] (env_Walk sample_env expectedLogsDir) = Inr (map (case_prod Checked) [(''a.log.json'', sample_expected)])"
  by (simp add: sample_env_def entry_items_def go_HasSuffix_def filepath_Split_def suffix_def)

lemma sample_metadata: "getTestMetadata sample_expected = Some (zero_testMetadata\<lparr>md_ID := ''case-1''\<rparr>)"
  by code_simp

lemma sample_selector:
  "selectorValues sample_expected (zero_testMetadata\<lparr>md_ID := ''case-1''\<rparr>) = (fmupd ''time'' (JStr ''t1'') fmempty, [])"
  by code_simp

lemma sample_find: "findActualRecords [sample_output] (fmupd ''time'' (JStr ''t1'') fmempty) = [0]"
  by code_simp

lemma sample_selects: "selects [sample_output] sample_expected = [0]"
  by (simp add: selects_def sample_metadata sample_selector sample_find)

lemma sample_compare: "compareRecord sample_expected sample_output (zero_testMetadata\<lparr>md_ID := ''case-1''\<rparr>)"
  by code_simp

theorem pipeline_match_witness:
  "\<exists>m. bij_betw m {j. j < length [(''a.log.json'', sample_expected)] \<and> \<not> is_dropped (snd ([(''a.log.json'', sample_expected)] ! j))}
     {..<length [sample_output]}"
proof -
  have "accounted [sample_output] [] [Checked ''a.log.json'' sample_expected]"
    using sample_metadata sample_selects sample_compare sample_selector
    by (simp add: accounted_def described_def claims_def test_id_def applyModificationFuncs_def zero_testMetadata_def)
  moreover have split: "go_Split [] '','' = [[]]" by (simp add: go_Split_char_notin)
  ultimately have "CompareLogs sample_env [] ''output-log'' [] = 0"
    using run_verdict [of "[Checked ''a.log.json'' sample_expected]" "[sample_output]" "[]"] sample_read
      visit_entries_items [of sample_env expectedLogsDir "[[]]" "env_Walk sample_env expectedLogsDir" "new_comparison [sample_output] []"]
      sample_items
    by (simp add: CompareLogs_def testJson_def compareExpectedFiles_def)
  from pipeline_match [OF this sample_read, of "[(''a.log.json'', sample_expected)]"] sample_items split show ?thesis
    unfolding split by blast
qed

section \<open>Differences\<close>

text \<open>C26: a mismatch is reported by the fields that differ. For records whose keys are not empty and have no
  dot, the list of differences is empty exactly when the records compare equal; in whatever order the
  maps are ranged over. For a partial comparison the expected record must not have empty objects, for
  a full one no field may be listed as absent.\<close>

theorem differences_exact:
  assumes "range_law keys" and "plain_keys (fmdrop testMetadataKey expected)" and "plain_keys actual"
    and "if md_Partial md then solid (fmdrop testMetadataKey expected) else md_Absent md = []"
  shows "recordDifferences keys enc expected actual md = [] \<longleftrightarrow> compareRecord expected actual md"
  unfolding recordDifferences_Nil [OF assms(1)] compareRecord_def Let_def
  using flatten_inject [OF assms(1-3)] isSubset_flatten [OF assms(1-3)] assms(4) by (auto split: if_splits)

definition sorted_keys :: "jmap \<Rightarrow> string list" where
  "sorted_keys m = sorted_list_of_fset (fmdom m)"

lemma sorted_keys_law: "range_law sorted_keys"
  by (simp add: range_law_def sorted_keys_def sorted_list_of_fset.rep_eq)

theorem differences_exact_witness:
  "recordDifferences sorted_keys (\<lambda>_. []) sample_expected sample_output (zero_testMetadata\<lparr>md_ID := ''case-1''\<rparr>) = []"
proof -
  have "plain_keys (fmdrop testMetadataKey sample_expected)" "plain_keys sample_output" by code_simp+
  then show ?thesis using differences_exact [OF sorted_keys_law, of sample_expected sample_output] sample_compare
    by (simp add: zero_testMetadata_def)
qed

end
