(* ===== verification/Parser_Contracts.thy ===== *)
theory Parser_Contracts
  imports Pipeline_Compare
begin

text \<open>
  The parser contracts of the fluent pipeline test
  (\<open>test/fluent-pipeline/stage/parsercontract/parsercontract.go\<close>): a manifest of cases, each an input line
  for one parser, is turned into a Fluent Bit configuration that runs every case through its parser and
  into the expected records the comparison stage reads. Files, the JSON decoder of the manifest and the
  encoder are a parameter over an abstract world.
\<close>

section \<open>The environment\<close>

record 'w tool_env =
  te_ReadFile :: "string \<Rightarrow> ('w, string) eff"
  te_MkdirAll :: "string \<Rightarrow> ('w, unit) eff"
  te_WriteFile :: "string \<Rightarrow> string \<Rightarrow> ('w, unit) eff"

section \<open>Cases\<close>

text \<open>A slice that is \<open>nil\<close> is encoded as \<open>null\<close>, so the absent fields are an option.\<close>

record parser_case =
  pc_ID :: string
  pc_Parser :: string
  pc_Match :: bool
  pc_Input :: string
  pc_Expected :: jmap
  pc_Absent :: "string list option"

type_synonym manifest = "parser_case list"

text \<open>The expression \<open>^[a-z0-9][a-z0-9_-]*$\<close>.\<close>

definition id_char :: "char \<Rightarrow> bool" where
  "id_char c \<longleftrightarrow> c \<in> set ''abcdefghijklmnopqrstuvwxyz0123456789''"

definition safeID :: "string \<Rightarrow> bool" where
  "safeID s = (case s of [] \<Rightarrow> False | c # cs \<Rightarrow> id_char c \<and> list_all (\<lambda>c. id_char c \<or> c \<in> set ''_-'') cs)"

definition validateCase :: "parser_case \<Rightarrow> go_error option" where
  "validateCase tc =
     (if \<not> safeID (pc_ID tc)
      then Some (Errorf [Lit ''parser contract ID '', ArgQ (pc_ID tc), Lit '' must match ^[a-z0-9][a-z0-9_-]*$''])
      else if pc_Parser tc = [] \<or> go_ContainsAny (pc_Parser tc) [CHR 0x20, CHR 0x09, CHR 0x0D, CHR 0x0A]
      then Some (Errorf [Lit ''parser contract '', ArgQ (pc_ID tc), Lit '' has invalid parser '', ArgQ (pc_Parser tc)])
      else if pc_Input tc = [] \<or> go_ContainsAny (pc_Input tc) [CHR 0x0D, CHR 0x0A]
      then Some (Errorf [Lit ''parser contract '', ArgQ (pc_ID tc), Lit '' input must contain exactly one non-empty line''])
      else None)"

definition ReadManifest :: "'w tool_env \<Rightarrow> (string \<Rightarrow> go_error + manifest) \<Rightarrow> string \<Rightarrow> ('w, manifest) eff" where
  "ReadManifest env unmarshal path =
     tryM (te_ReadFile env path) (\<lambda>content.
       case unmarshal content of
         Inl e \<Rightarrow> failM (Errorf [Lit ''parse parser contract manifest: '', ArgW e])
       | Inr m \<Rightarrow> okM m)"

section \<open>Parsers of a configuration\<close>

text \<open>The scanner has its default limit; the parsers found before an error are not used with it.\<close>

definition max_scan_token :: nat where
  "max_scan_token = 64 * 1024"

fun parser_lines :: "nat \<Rightarrow> string list \<Rightarrow> bool \<Rightarrow> string list \<Rightarrow> go_error + string list" where
  "parser_lines limit [] inParser parsers = Inr parsers"
| "parser_lines limit (raw # rest) inParser parsers =
     (if length raw \<ge> limit then Inl (errors_New ''bufio.Scanner: token too long'')
      else let line = go_TrimSpace (drop_cr raw)
           in if go_HasPrefix line ''['' then parser_lines limit rest (line = ''[PARSER]'') parsers
              else let fields = go_Fields line
                   in if inParser \<and> length fields = 2 \<and> fields ! 0 = ''Name'' \<and> fields ! 1 \<noteq> ''logId-test''
                      then parser_lines limit rest inParser (parsers @ [fields ! 1])
                      else parser_lines limit rest inParser parsers)"

definition ParserNames :: "'w tool_env \<Rightarrow> string \<Rightarrow> ('w, string list) eff" where
  "ParserNames env path =
     tryM (te_ReadFile env path) (\<lambda>content. pureE (parser_lines max_scan_token (raw_lines content []) False []))"

section \<open>Coverage\<close>

definition CoveredParsers :: "manifest \<Rightarrow> (string \<rightharpoonup> (bool \<rightharpoonup> bool))" where
  "CoveredParsers m =
     fold (\<lambda>tc covered.
       covered(pc_Parser tc \<mapsto> (case covered (pc_Parser tc) of None \<Rightarrow> Map.empty | Some ms \<Rightarrow> ms)(pc_Match tc \<mapsto> True))) m Map.empty"

definition is_covered :: "(string \<rightharpoonup> (bool \<rightharpoonup> bool)) \<Rightarrow> string \<Rightarrow> bool \<Rightarrow> bool" where
  "is_covered covered parser b =
     (case covered parser of None \<Rightarrow> False | Some ms \<Rightarrow> (case ms b of None \<Rightarrow> False | Some v \<Rightarrow> v))"

definition StaleCases :: "manifest \<Rightarrow> string list \<Rightarrow> string list" where
  "StaleCases m parsers =
     sort (map (\<lambda>tc. pc_ID tc @ '' ('' @ pc_Parser tc @ '')'') (filter (\<lambda>tc. pc_Parser tc \<notin> set parsers) m))"

definition MissingCases :: "manifest \<Rightarrow> string list \<Rightarrow> string list" where
  "MissingCases m parsers =
     (let covered = CoveredParsers m
      in sort (concat (map (\<lambda>parser.
           (if \<not> is_covered covered parser True then [parser @ '': matching''] else [])
         @ (if \<not> is_covered covered parser False then [parser @ '': non-matching''] else [])) parsers)))"

section \<open>Preparation\<close>

text \<open>The expected record of a case, as the encoder writes it and the comparison reads it.\<close>

definition expectation :: "parser_case \<Rightarrow> jmap" where
  "expectation tc =
     fmupd ''_test'' (JObj (fmap_of_list
         [(''id'', JStr (pc_ID tc)), (''matchOn'', JArr [JStr ''test_case'']), (''partial'', JBool True),
          (''absent'', case pc_Absent tc of None \<Rightarrow> JNil | Some fs \<Rightarrow> JArr (map JStr fs))]))
       (fmupd ''test_case'' (JStr (pc_ID tc)) (pc_Expected tc))"

definition service_section :: string where
  "service_section = unlines [''[SERVICE]'', ''    Flush 1'', ''    Log_Level error'',
     ''    Parsers_File /fluent-bit/etc/parsers.conf'', []]"

definition input_section :: "parser_case \<Rightarrow> string \<Rightarrow> string" where
  "input_section tc inputName = unlines [''[INPUT]'', ''    Name tail'', ''    Tag contract.'' @ pc_ID tc,
     ''    Path /parser-input/'' @ inputName, ''    Parser '' @ pc_Parser tc, ''    Read_from_Head On'',
     ''    Refresh_Interval 1'', []]"

definition filter_section :: "parser_case \<Rightarrow> string" where
  "filter_section tc = unlines [''[FILTER]'', ''    Name record_modifier'', ''    Match contract.'' @ pc_ID tc,
     ''    Record test_case '' @ pc_ID tc, []]"

definition output_section :: string where
  "output_section = unlines [''[OUTPUT]'', ''    Name file'', ''    Match contract.*'', ''    Format plain'',
     ''    Path /parser-output'', ''    File output-log'']"

record prepared =
  pr_skipped :: "string list"
  pr_config :: string
  pr_expectations :: "jmap list"

fun prepare_cases :: "'w tool_env \<Rightarrow> string \<Rightarrow> string list \<Rightarrow> manifest \<Rightarrow> prepared \<Rightarrow> ('w, prepared) eff" where
  "prepare_cases env targetDir parserNames [] p = okM p"
| "prepare_cases env targetDir parserNames (tc # rest) p =
     (case validateCase tc of
        Some e \<Rightarrow> failM e
      | None \<Rightarrow>
          if pc_Parser tc \<notin> set parserNames
          then prepare_cases env targetDir parserNames rest (p\<lparr>pr_skipped := pr_skipped p @ [pc_ID tc]\<rparr>)
          else let inputName = pc_ID tc @ ''.log''
               in tryM (te_WriteFile env (filepath_Join [targetDir, ''input'', inputName]) (pc_Input tc @ [CHR 0x0A])) (\<lambda>_.
                    prepare_cases env targetDir parserNames rest
                      (p\<lparr>pr_config := pr_config p @ input_section tc inputName @ filter_section tc,
                         pr_expectations := pr_expectations p @ [expectation tc]\<rparr>)))"

definition Prepare :: "'w tool_env \<Rightarrow> (string \<Rightarrow> go_error + manifest) \<Rightarrow> (jmap list \<Rightarrow> go_error + string)
    \<Rightarrow> string \<Rightarrow> string \<Rightarrow> string \<Rightarrow> ('w, unit) eff" where
  "Prepare env unmarshal marshal manifestPath parsersPath targetDir =
     tryM (ReadManifest env unmarshal manifestPath) (\<lambda>m.
     tryM (for_each [''input'', ''expected'', ''output''] (\<lambda>name. te_MkdirAll env (filepath_Join [targetDir, name]))) (\<lambda>_.
     do {
       r \<leftarrow> te_ReadFile env parsersPath;
       case r of
         Inl e \<Rightarrow> failM (Errorf [Lit ''read rendered parsers: '', ArgW e])
       | Inr parsers \<Rightarrow>
           tryM (te_WriteFile env (filepath_Join [targetDir, ''parsers.conf'']) parsers) (\<lambda>_.
           tryM (ParserNames env parsersPath) (\<lambda>parserNames.
           tryM (prepare_cases env targetDir parserNames m
                   \<lparr>pr_skipped = [], pr_config = service_section, pr_expectations = []\<rparr>) (\<lambda>p.
           tryM (te_WriteFile env (filepath_Join [targetDir, ''fluent-bit.conf'']) (pr_config p @ output_section)) (\<lambda>_.
           tryM (pureE (marshal (pr_expectations p))) (\<lambda>expectedJSON.
           te_WriteFile env (filepath_Join [targetDir, ''expected'', ''parser-contracts.log.json'']) (expectedJSON @ [CHR 0x0A]))))))
     }))"

end
