(* ===== verification/Pipeline_Prepare.thy ===== *)
theory Pipeline_Prepare
  imports Client Parser_Contracts
begin

text \<open>
  The preparing stage of the fluent pipeline test and its command line
  (\<open>test/fluent-pipeline/agent/agent.go\<close>, \<open>stage/preparing/preparing.go\<close>, \<open>stage/kubeapi/kubeapi.go\<close> and
  \<open>main.go\<close>): the agents and the sections of the custom resource they take, the rendered configuration,
  the tree of container logs, the answers of the fake API server, and the choice of the stage. The file
  system, the template engine and the decoder of the custom resource are a parameter.
\<close>

section \<open>Agents\<close>

datatype agent = Fluentbit | Fluentd | FluentbitForwarder | FluentbitAggregator

definition inputCustomConf :: string where "inputCustomConf = ''input-custom.conf''"
definition filterCustomConf :: string where "filterCustomConf = ''filter-custom.conf''"
definition outputCustomConf :: string where "outputCustomConf = ''output-custom.conf''"

text \<open>\<open>None\<close> is the panic of a nil pointer.\<close>

fun UpdateCustomConfiguration :: "agent \<Rightarrow> (string \<rightharpoonup> string) \<Rightarrow> logging_service \<Rightarrow> (string \<rightharpoonup> string) option" where
  "UpdateCustomConfiguration Fluentbit data cr =
     (case spec_Fluentbit (ls_Spec cr) of
        None \<Rightarrow> None
      | Some spec \<Rightarrow> Some (data(inputCustomConf \<mapsto> fb_CustomInputConf spec, filterCustomConf \<mapsto> fb_CustomFilterConf spec,
                            outputCustomConf \<mapsto> fb_CustomOutputConf spec)))"
| "UpdateCustomConfiguration Fluentd data cr =
     (case spec_Fluentd (ls_Spec cr) of
        None \<Rightarrow> None
      | Some spec \<Rightarrow> Some (data(inputCustomConf \<mapsto> fd_CustomInputConf spec, filterCustomConf \<mapsto> fd_CustomFilterConf spec,
                            outputCustomConf \<mapsto> fd_CustomOutputConf spec)))"
| "UpdateCustomConfiguration FluentbitForwarder data cr =
     (case spec_Fluentbit (ls_Spec cr) of
        None \<Rightarrow> None
      | Some spec \<Rightarrow> Some (data(inputCustomConf \<mapsto> fb_CustomInputConf spec, filterCustomConf \<mapsto> fb_CustomFilterConf spec)))"
| "UpdateCustomConfiguration FluentbitAggregator data cr =
     (case Option.bind (spec_Fluentbit (ls_Spec cr)) fb_Aggregator of
        None \<Rightarrow> None
      | Some spec \<Rightarrow> Some (data(filterCustomConf \<mapsto> ag_CustomFilterConf spec, outputCustomConf \<mapsto> ag_CustomOutputConf spec)))"

fun agent_String :: "agent \<Rightarrow> string" where
  "agent_String Fluentbit = ''Fluent Bit''"
| "agent_String Fluentd = ''Fluentd''"
| "agent_String FluentbitForwarder = ''Fluent Bit forwarder''"
| "agent_String FluentbitAggregator = ''Fluent Bit aggregator''"

fun GetOutputFileName :: "agent \<Rightarrow> string" where
  "GetOutputFileName Fluentd = ''fake-fluent.log''"
| "GetOutputFileName _ = ''output-log''"

text \<open>The three expressions for Fluent Bit, with their optional dashes.\<close>

definition initAgent :: "string \<Rightarrow> agent option" where
  "initAgent agentString =
     (let s = ascii_ToLower agentString
      in if go_EqualFold agentString ''fluentd'' then Some Fluentd
         else if s \<in> set [''fluentbit'', ''fluent-bit''] then Some Fluentbit
         else if s \<in> set [''fluentbitforwarder'', ''fluentbit-forwarder'', ''fluent-bitforwarder'', ''fluent-bit-forwarder'']
         then Some FluentbitForwarder
         else if s \<in> set [''fluentbitaggregator'', ''fluentbit-aggregator'', ''fluent-bitaggregator'', ''fluent-bit-aggregator'']
         then Some FluentbitAggregator
         else None)"

section \<open>Configuration\<close>

text \<open>An entry of \<open>fs.WalkDir\<close>: whether it is a directory, or nothing when the root cannot be read.\<close>

record dir_entry =
  de_path :: string
  de_dir :: "bool option"

record 'w prepare_env = "'w tool_env" +
  pe_Create :: "string \<Rightarrow> ('w, unit) eff"
  pe_Write :: "string \<Rightarrow> string \<Rightarrow> ('w, unit) eff"
  pe_Close :: "string \<Rightarrow> ('w, unit) eff"
  pe_WalkDir :: "string \<Rightarrow> ('w, dir_entry list) state"
  pe_ParseTemplate :: "string \<Rightarrow> string \<Rightarrow> template_parameters \<Rightarrow> ('w, string) eff"
  pe_Decode :: "string \<Rightarrow> go_error + string \<times> logging_service"
  pe_Range :: "(string \<rightharpoonup> string) \<Rightarrow> string list"
  pe_View :: "'w \<Rightarrow> pipeline_env"
  pe_Manifest :: "string \<Rightarrow> go_error + manifest"
  pe_MarshalIndent :: "jmap list \<Rightarrow> go_error + string"
  pe_SelfSigned :: "string \<Rightarrow> ('w, string \<times> string) eff"
  pe_X509KeyPair :: "string \<Rightarrow> string \<Rightarrow> go_error + string \<times> string"
  pe_FileOrder :: "(string \<times> string) list \<Rightarrow> (string \<times> string) list"
  pe_ListenAndServeTLS :: "string \<times> string \<Rightarrow> string \<Rightarrow> string \<Rightarrow> ('w, unit) eff"

definition sourceConfigPath :: string where "sourceConfigPath = ''/config-templates.d''"
definition targetConfigPath :: string where "targetConfigPath = ''/configuration.d''"
definition containerLogsRoot :: string where "containerLogsRoot = ''logs/containers''"

text \<open>A custom resource of another kind is left as nil.\<close>

definition readCustomResource :: "'w prepare_env \<Rightarrow> string \<Rightarrow> ('w, logging_service option) eff" where
  "readCustomResource env path =
     tryM (te_ReadFile env path) (\<lambda>crFile.
       case pe_Decode env crFile of
         Inl e \<Rightarrow> failM e
       | Inr (kind, obj) \<Rightarrow> okM (if kind = ''LoggingService'' then Some obj else None))"

definition placeholderCredentials :: fluentbit_credentials where
  "placeholderCredentials =
     (let values = \<lparr>av_Token = ''placeholder-token'', av_User = ''placeholder-user'', av_Password = ''placeholder-password''\<rparr>
      in \<lparr>fbc_Loki = values, fbc_Http = values, fbc_Otel = values\<rparr>)"

fun fill_templates :: "'w prepare_env \<Rightarrow> string \<Rightarrow> template_parameters \<Rightarrow> dir_entry list \<Rightarrow> (string \<rightharpoonup> string) \<Rightarrow> ('w, string \<rightharpoonup> string) eff" where
  "fill_templates env directoryPath parameters [] data = okM data"
| "fill_templates env directoryPath parameters (d # ds) data =
     (case de_dir d of
        None \<Rightarrow> failM (Errorf [Lit ''directory '', ArgQ directoryPath,
                  Lit '' is not found. Probably you forgot to mount configuration templates''])
      | Some True \<Rightarrow> fill_templates env directoryPath parameters ds data
      | Some False \<Rightarrow>
          tryM (te_ReadFile env (filepath_Join [directoryPath, de_path d])) (\<lambda>configPart.
          tryM (pe_ParseTemplate env configPart (de_path d) parameters) (\<lambda>text.
            fill_templates env directoryPath parameters ds (data(snd (filepath_Split (de_path d)) \<mapsto> text)))))"

definition fillConfigurationTemplates :: "'w prepare_env \<Rightarrow> string \<Rightarrow> template_parameters \<Rightarrow> ('w, string \<rightharpoonup> string) eff" where
  "fillConfigurationTemplates env directoryPath parameters = do {
     ds \<leftarrow> pe_WalkDir env directoryPath;
     fill_templates env directoryPath parameters ds Map.empty
   }"

text \<open>The parameters have the fields of those of Fluent Bit. \<open>Inr None\<close> is a panic.\<close>

definition getConfiguration :: "'w prepare_env \<Rightarrow> agent \<Rightarrow> logging_service option \<Rightarrow> ('w, (string \<rightharpoonup> string) option) eff" where
  "getConfiguration env agent cr =
     (case cr of
        None \<Rightarrow> okM None
      | Some cr \<Rightarrow>
          tryM (fillConfigurationTemplates env sourceConfigPath (FluentbitParameters (ToParams cr) placeholderCredentials)) (\<lambda>data.
            okM (UpdateCustomConfiguration agent data cr)))"

definition save_file :: "'w prepare_env \<Rightarrow> string \<Rightarrow> string \<Rightarrow> ('w, unit) eff" where
  "save_file env path content =
     tryM (pe_Create env path) (\<lambda>_. tryM (pe_Write env path content) (\<lambda>_. pe_Close env path))"

definition saveDataToDirectory :: "'w prepare_env \<Rightarrow> string \<Rightarrow> (string \<rightharpoonup> string) \<Rightarrow> ('w, unit) eff" where
  "saveDataToDirectory env dir data =
     for_each (pe_Range env data) (\<lambda>fileName.
       case data fileName of None \<Rightarrow> okM () | Some content \<Rightarrow> save_file env (filepath_Join [dir, fileName]) content)"

text \<open>The status the process exits with, or 0 when it goes on: 1 after an error, 2 after a panic.\<close>

definition exit_of :: "go_error + 'a option \<Rightarrow> nat" where
  "exit_of r = (case r of Inl _ \<Rightarrow> 1 | Inr None \<Rightarrow> 2 | Inr (Some _) \<Rightarrow> 0)"

definition PrepareConfiguration :: "'w prepare_env \<Rightarrow> string \<Rightarrow> agent \<Rightarrow> ('w, nat) state" where
  "PrepareConfiguration env crPath agent = do {
     r \<leftarrow> tryM (readCustomResource env crPath) (\<lambda>cr.
          tryM (getConfiguration env agent cr) (\<lambda>d.
          case d of None \<Rightarrow> okM None | Some data \<Rightarrow>
            tryM (saveDataToDirectory env targetConfigPath data) (\<lambda>_. okM (Some ()))));
     State_Monad.return (exit_of r)
   }"

section \<open>Logs\<close>

definition strings_TrimPrefix :: "string \<Rightarrow> string \<Rightarrow> string" where
  "strings_TrimPrefix s p = (if prefix p s then drop (length p) s else s)"

definition deploymentName :: "string \<Rightarrow> string" where
  "deploymentName dirs = go_ReplaceAll (strings_TrimPrefix (butlast dirs) (containerLogsRoot @ ''/'')) ''/'' ''-''"

definition targetFilePath :: "string \<Rightarrow> string \<Rightarrow> string" where
  "targetFilePath dirs fileName = filepath_Join [''/var/log/pods/'',
     ''test-namespace_'' @ deploymentName dirs @ ''_100000000000000000000000000000000000'', fileName]"

fun copy_logs :: "'w prepare_env \<Rightarrow> string \<Rightarrow> dir_entry list \<Rightarrow> ('w, unit option) eff" where
  "copy_logs env targetDir [] = okM (Some ())"
| "copy_logs env targetDir (d # ds) =
     (case de_dir d of
        None \<Rightarrow> okM None
      | Some True \<Rightarrow> copy_logs env targetDir ds
      | Some False \<Rightarrow>
          tryM (te_ReadFile env (filepath_Join [''/logs'', de_path d])) (\<lambda>bytes.
            case filepath_Split (de_path d) of
              (dirs, fileName) \<Rightarrow>
                if \<not> go_HasPrefix dirs containerLogsRoot then copy_logs env targetDir ds
                else tryM (te_MkdirAll env (filepath_Join [targetDir, targetFilePath dirs fileName])) (\<lambda>_.
                     tryM (save_file env (filepath_Join [targetDir, targetFilePath dirs fileName, ''0.log'']) bytes) (\<lambda>_.
                       copy_logs env targetDir ds))))"

definition readInputLogs :: "'w prepare_env \<Rightarrow> string \<Rightarrow> ('w, unit option) eff" where
  "readInputLogs env targetDir = do { ds \<leftarrow> pe_WalkDir env ''/logs''; copy_logs env targetDir ds }"

definition PrepareTestLogs :: "'w prepare_env \<Rightarrow> string \<Rightarrow> ('w, nat) state" where
  "PrepareTestLogs env targetDir = do { r \<leftarrow> readInputLogs env targetDir; State_Monad.return (exit_of r) }"

section \<open>The fake API server\<close>

text \<open>The expression \<open>^/api/v1/namespaces/([^/]+)/pods/([^/]+)$\<close> with its two groups.\<close>

definition podRequest :: "string \<Rightarrow> (string \<times> string) option" where
  "podRequest path =
     (case go_Split path ''/'' of
        [root, api, v1, namespaces, namespace, pods, pod] \<Rightarrow>
          if root = [] \<and> api = ''api'' \<and> v1 = ''v1'' \<and> namespaces = ''namespaces'' \<and> pods = ''pods'' \<and> namespace \<noteq> [] \<and> pod \<noteq> []
          then Some (namespace, pod) else None
      | _ \<Rightarrow> None)"

record http_answer =
  an_Status :: nat
  an_ContentType :: string
  an_Body :: string

definition bare_pod :: "string \<Rightarrow> string \<Rightarrow> jvalue" where
  "bare_pod namespace pod = JObj (fmap_of_list [(''kind'', JStr ''Pod''), (''apiVersion'', JStr ''v1''),
     (''metadata'', JObj (fmap_of_list [(''name'', JStr pod), (''namespace'', JStr namespace)])),
     (''status'', JObj (fmap_of_list [(''phase'', JStr ''Running'')]))])"

definition metadata_file :: "string \<Rightarrow> string \<Rightarrow> string \<Rightarrow> string" where
  "metadata_file metadataDir namespace pod = filepath_Join [metadataDir, namespace @ ''_'' @ pod @ ''.json'']"

text \<open>\<open>http.NotFound\<close> and \<open>http.Error\<close> answer with plain text.\<close>

definition answer :: "(string \<Rightarrow> go_error + string) \<Rightarrow> (jvalue \<Rightarrow> go_error + string) \<Rightarrow> string \<Rightarrow> string \<Rightarrow> http_answer" where
  "answer read marshal metadataDir path =
     (case podRequest path of
        None \<Rightarrow> \<lparr>an_Status = 404, an_ContentType = ''text/plain; charset=utf-8'', an_Body = unlines [''404 page not found'']\<rparr>
      | Some (namespace, pod) \<Rightarrow>
          (let json = \<lambda>body. \<lparr>an_Status = 200, an_ContentType = ''application/json'', an_Body = body\<rparr>
           in case read (metadata_file metadataDir namespace pod) of
                Inr body \<Rightarrow> json body
              | Inl _ \<Rightarrow>
                  (case marshal (bare_pod namespace pod) of
                     Inl e \<Rightarrow> \<lparr>an_Status = 500, an_ContentType = ''text/plain; charset=utf-8'', an_Body = unlines [error_text e]\<rparr>
                   | Inr body \<Rightarrow> json body)))"

text \<open>The certificate and the key come from one call; the files are written in the order in which the map is
  ranged over.\<close>

definition certificateHost :: string where "certificateHost = ''kubernetes.default.svc''"
definition serviceAccount :: string where "serviceAccount = ''fake-service-account-token''"

definition write_credential :: "'w prepare_env \<Rightarrow> string \<Rightarrow> string \<times> string \<Rightarrow> ('w, unit) eff" where
  "write_credential env dir = (\<lambda>(name, content). do {
     r \<leftarrow> te_WriteFile env (filepath_Join [dir, name]) content;
     case r of Inl e \<Rightarrow> failM (Errorf [Lit ''write '', ArgS name, Lit '': '', ArgW e]) | Inr _ \<Rightarrow> okM ()
   })"

definition writeCredentials :: "'w prepare_env \<Rightarrow> string \<Rightarrow> ('w, string \<times> string) eff" where
  "writeCredentials env dir =
     tryM (pe_SelfSigned env certificateHost) (\<lambda>(certificatePEM, keyPEM).
     tryM (te_MkdirAll env dir) (\<lambda>_.
     tryM (for_each (pe_FileOrder env [(''ca.crt'', certificatePEM), (''tls.crt'', certificatePEM), (''tls.key'', keyPEM),
                      (''token'', serviceAccount)]) (write_credential env dir)) (\<lambda>_.
     pureE (pe_X509KeyPair env certificatePEM keyPEM))))"

definition Serve :: "'w prepare_env \<Rightarrow> string \<Rightarrow> string \<Rightarrow> string \<Rightarrow> ('w, unit) eff" where
  "Serve env metadataDir credentialsDir address =
     tryM (writeCredentials env credentialsDir) (\<lambda>certificate. pe_ListenAndServeTLS env certificate metadataDir address)"

section \<open>The command line\<close>

record tool_flags =
  fl_stage :: string
  fl_agent :: string
  fl_cr :: string
  fl_parserCases :: string
  fl_parsers :: string
  fl_parserTarget :: string
  fl_ignore :: string
  fl_ignoreFluentdTime :: string
  fl_podMetadata :: string
  fl_credentials :: string
  fl_apiAddress :: string

definition default_flags :: tool_flags where
  "default_flags = \<lparr>fl_stage = ''test'', fl_agent = ''fluentbit'', fl_cr = ''/assets/logging-service-test-fluentbit.yaml'',
     fl_parserCases = ''/parser-contracts/cases.json'', fl_parsers = ''/rendered-config/parsers.conf'',
     fl_parserTarget = ''/parser-contracts/generated'', fl_ignore = [],
     fl_ignoreFluentdTime = ''audit.log.json,kubernetes.audit.log.json,varlogsyslog.log.json'',
     fl_podMetadata = ''/pod-metadata'', fl_credentials = ''/serviceaccount'', fl_apiAddress = '':443''\<rparr>"

definition or_exit :: "('w, unit) eff \<Rightarrow> ('w, nat) state" where
  "or_exit m = do { r \<leftarrow> m; State_Monad.return (case r of Inl _ \<Rightarrow> 1 | Inr _ \<Rightarrow> 0) }"

definition tool_main :: "'w prepare_env \<Rightarrow> tool_flags \<Rightarrow> ('w, nat) state" where
  "tool_main env fl =
     (case initAgent (fl_agent fl) of
        None \<Rightarrow> State_Monad.return 1
      | Some agent \<Rightarrow>
          if go_EqualFold (fl_stage fl) ''test''
          then State (\<lambda>w. (CompareLogs (pe_View env w) (fl_ignore fl) (GetOutputFileName agent)
                             (GetModificationFuncs (fl_agent fl) (fl_ignoreFluentdTime fl)), w))
          else if go_EqualFold (fl_stage fl) ''prepare-parser-contracts''
          then or_exit (Prepare (tool_env.truncate env) (pe_Manifest env) (pe_MarshalIndent env)
                          (fl_parserCases fl) (fl_parsers fl) (fl_parserTarget fl))
          else if go_EqualFold (fl_stage fl) ''prepare'' then do {
            code \<leftarrow> PrepareConfiguration env (fl_cr fl) agent;
            if code \<noteq> 0 then State_Monad.return code else PrepareTestLogs env ''/testdata/''
          }
          else if go_EqualFold (fl_stage fl) ''render'' then PrepareConfiguration env (fl_cr fl) agent
          else if go_EqualFold (fl_stage fl) ''kube-api''
          then or_exit (Serve env (fl_podMetadata fl) (fl_credentials fl) (fl_apiAddress fl))
          else State_Monad.return 1)"

end
