(* ===== verification/Parser_Properties.thy ===== *)
theory Parser_Properties
  imports Parser_Contracts Pipeline_Claims Pipeline_Paths
begin

text \<open>
  Properties of the parser contracts: what the preparation writes, that the comparison of its expected
  records decides whether the parsers keep their contracts, and that gaps in the contracts are found.
\<close>

section \<open>Expectations\<close>

definition contract_metadata :: "parser_case \<Rightarrow> testMetadata" where
  "contract_metadata tc = \<lparr>md_ID = pc_ID tc, md_MatchOn = [''test_case''], md_Partial = True,
     md_Absent = (case pc_Absent tc of None \<Rightarrow> [] | Some fs \<Rightarrow> fs), md_Dropped = False\<rparr>"

lemma decode_elements_strings: "decode_elements old (map JStr fs) = Some fs"
  by (induction fs arbitrary: old) (simp_all add: decode_string_def)

lemma metadata_keys:
  "sorted_list_of_fset (fmdom (fmap_of_list [(''id'', a), (''matchOn'', b), (''partial'', c), (''absent'', d)]))
     = [''absent'', ''id'', ''matchOn'', ''partial'']"
proof -
  have "fmdom (fmap_of_list [(''id'', a), (''matchOn'', b), (''partial'', c), (''absent'', d)]) = {|''id'', ''matchOn'', ''partial'', ''absent''|}"
    by auto
  moreover have "sorted_list_of_fset {|''id'', ''matchOn'', ''partial'', ''absent''|} = [''absent'', ''id'', ''matchOn'', ''partial'']"
    by code_simp
  ultimately show ?thesis by simp
qed

lemma metadata_names:
  "go_EqualFold ''id'' ''id''" "go_EqualFold ''matchOn'' ''matchOn''" "go_EqualFold ''partial'' ''partial''" "go_EqualFold ''absent'' ''absent''"
  "\<not> go_EqualFold ''matchOn'' ''id''" "\<not> go_EqualFold ''partial'' ''id''" "\<not> go_EqualFold ''partial'' ''matchOn''"
  "\<not> go_EqualFold ''absent'' ''id''" "\<not> go_EqualFold ''absent'' ''matchOn''" "\<not> go_EqualFold ''absent'' ''partial''"
  by code_simp+

lemma expectation_metadata: "getTestMetadata (expectation tc) = Some (contract_metadata tc)"
  by (cases "pc_Absent tc")
    (simp_all add: getTestMetadata_def expectation_def testMetadataKey_def sorted_members_def metadata_keys [simplified]
      decode_member_def metadata_names decode_strings_def decode_string_def decode_bool_def decode_elements_strings
      zero_testMetadata_def contract_metadata_def)

lemma split_test_case: "go_Split ''test_case'' ''.'' = [''test_case'']"
  by (rule go_Split_char_notin) simp

lemma lookup_test_case: "lookupField r ''test_case'' = fmlookup r ''test_case''"
  by (simp add: lookupField_def split_test_case split: option.split)

lemma expectation_selector:
  "selectorValues (expectation tc) (contract_metadata tc) = (fmupd ''test_case'' (JStr (pc_ID tc)) fmempty, [])"
  by (simp add: selectorValues_def matchFields_def contract_metadata_def lookup_test_case expectation_def)

abbreviation case_of :: "jmap \<Rightarrow> jvalue option" where
  "case_of r \<equiv> fmlookup r ''test_case''"

lemma expectation_selects:
  "selects actual (expectation tc) = filter (\<lambda>i. case_of (actual ! i) = Some (JStr (pc_ID tc))) [0..<length actual]"
proof -
  have "carriesValues r (fmupd ''test_case'' v fmempty) \<longleftrightarrow> case_of r = Some v" for r v
    by (auto simp: carriesValues_def fmpred_iff lookup_test_case split: if_splits)
  then show ?thesis by (simp add: selects_def expectation_metadata expectation_selector findActualRecords_def)
qed

text \<open>An output record is what a case asks for.\<close>

definition meets :: "parser_case \<Rightarrow> jmap \<Rightarrow> bool" where
  "meets tc r \<longleftrightarrow> isSubset (fmupd ''test_case'' (JStr (pc_ID tc)) (fmdrop ''_test'' (pc_Expected tc))) r
     \<and> list_all (\<lambda>f. lookupField r f = None) (case pc_Absent tc of None \<Rightarrow> [] | Some fs \<Rightarrow> fs)"

lemma expectation_compare: "compareRecord (expectation tc) r (contract_metadata tc) \<longleftrightarrow> meets tc r"
  by (simp add: compareRecord_def meets_def contract_metadata_def expectation_def testMetadataKey_def fmdrop_fmupd)

lemma expectation_claims:
  "pc_ID tc \<noteq> [] \<Longrightarrow> claims actual (expectation tc) = {i. i < length actual \<and> case_of (actual ! i) = Some (JStr (pc_ID tc))}"
  by (auto simp: claims_def test_id_def expectation_metadata contract_metadata_def expectation_selects)

lemma expectation_described:
  assumes "pc_ID tc \<noteq> []"
  shows "described actual [] f (expectation tc) \<longleftrightarrow>
    (\<exists>i. selects actual (expectation tc) = [i] \<and> meets tc (actual ! i))"
proof -
  have "md_ID (contract_metadata tc) = pc_ID tc" "\<not> md_Dropped (contract_metadata tc)" by (simp_all add: contract_metadata_def)
  with assms show ?thesis
    by (simp add: described_def expectation_metadata expectation_selector expectation_compare applyModificationFuncs_def split: list.split)
qed

section \<open>The verdict on parser contracts\<close>

lemma filter_upt_single: "filter P [0..<n] = [i] \<longleftrightarrow> {j. j < n \<and> P j} = {i}"
proof
  assume "filter P [0..<n] = [i]"
  then have "set (filter P [0..<n]) = {i}" by simp
  then show "{j. j < n \<and> P j} = {i}" by simp
next
  assume *: "{j. j < n \<and> P j} = {i}"
  have "sorted_list_of_set (set (filter P [0..<n])) = filter P [0..<n]" by (intro sorted_list_of_set.idem_if_sorted_distinct) (auto intro: sorted_wrt_filter)
  with * show "filter P [0..<n] = [i]" by simp
qed

lemma distinct_before: "distinct xs \<longleftrightarrow> (\<forall>j < length xs. xs ! j \<notin> set (take j xs))"
  by (induction xs rule: rev_induct) (auto simp: nth_append less_Suc_eq)

abbreviation case_key :: "parser_case \<Rightarrow> jvalue option" where
  "case_key tc \<equiv> Some (JStr (pc_ID tc))"

text \<open>The output records of a case.\<close>

definition outputs_of :: "jmap list \<Rightarrow> parser_case \<Rightarrow> nat set" where
  "outputs_of actual tc = {i. i < length actual \<and> case_of (actual ! i) = case_key tc}"

lemma outputs_of_disjoint:
  "outputs_of actual tc \<noteq> {} \<Longrightarrow> outputs_of actual tc \<inter> outputs_of actual tc' = {} \<longleftrightarrow> pc_ID tc \<noteq> pc_ID tc'"
  by (auto simp: outputs_of_def)

lemma contracts_pass:
  assumes "\<forall>tc \<in> set cases. pc_ID tc \<noteq> []"
  shows "accounted actual [] (map (\<lambda>tc. Checked f (expectation tc)) cases) \<longleftrightarrow>
    distinct (map pc_ID cases) \<and> (\<forall>tc \<in> set cases. \<exists>i. outputs_of actual tc = {i} \<and> meets tc (actual ! i))
    \<and> (\<forall>i < length actual. \<exists>tc \<in> set cases. i \<in> outputs_of actual tc)"
proof -
  have sel: "selects actual (expectation tc) = [i] \<longleftrightarrow> outputs_of actual tc = {i}" for tc i
    by (simp add: expectation_selects outputs_of_def filter_upt_single)
  have claim: "claims actual (expectation tc) = outputs_of actual tc" "set (selects actual (expectation tc)) = outputs_of actual tc"
    if "tc \<in> set cases" for tc
    using that assms by (auto simp: expectation_claims expectation_selects outputs_of_def)
  have "(\<Union>it \<in> set (take j (map (\<lambda>tc. Checked f (expectation tc)) cases)). claims actual (item_record it))
      = (\<Union>tc \<in> set (take j cases). outputs_of actual tc)" for j
    using claim(1) by (auto simp: take_map dest: in_set_takeD)
  then have "accounted actual [] (map (\<lambda>tc. Checked f (expectation tc)) cases) \<longleftrightarrow>
      (\<forall>j < length cases. (\<exists>i. outputs_of actual (cases ! j) = {i} \<and> meets (cases ! j) (actual ! i))
         \<and> outputs_of actual (cases ! j) \<inter> (\<Union>tc \<in> set (take j cases). outputs_of actual tc) = {})
      \<and> (\<forall>i < length actual. \<exists>tc \<in> set cases. i \<in> outputs_of actual tc)"
    using assms claim by (simp add: accounted_def expectation_described sel)
  moreover have "(\<forall>j < length cases. outputs_of actual (cases ! j) \<inter> (\<Union>tc \<in> set (take j cases). outputs_of actual tc) = {})
      \<longleftrightarrow> distinct (map pc_ID cases)"
    if "\<forall>j < length cases. \<exists>i. outputs_of actual (cases ! j) = {i} \<and> meets (cases ! j) (actual ! i)"
  proof -
    from that have "\<forall>j < length cases. outputs_of actual (cases ! j) \<noteq> {}" by force
    then have "outputs_of actual (cases ! j) \<inter> (\<Union>tc \<in> set (take j cases). outputs_of actual tc) = {}
        \<longleftrightarrow> pc_ID (cases ! j) \<notin> pc_ID ` set (take j cases)" if "j < length cases" for j
      using that outputs_of_disjoint [of actual "cases ! j"] by blast
    then show ?thesis by (auto simp: distinct_before take_map)
  qed
  ultimately show ?thesis by (auto simp: all_set_conv_all_nth)
qed

section \<open>Preparation\<close>

text \<open>What the operating system promises of files: \<open>files\<close> gives the contents by path.\<close>

definition files_law :: "'w tool_env \<Rightarrow> ('w \<Rightarrow> string \<rightharpoonup> string) \<Rightarrow> bool" where
  "files_law env files \<longleftrightarrow>
     (\<forall>p w c w'. run_state (te_ReadFile env p) w = (Inr c, w') \<longrightarrow> files w p = Some c \<and> files w' = files w)
     \<and> (\<forall>p w w'. run_state (te_MkdirAll env p) w = (Inr (), w') \<longrightarrow> files w' = files w)
     \<and> (\<forall>p c w w'. run_state (te_WriteFile env p c) w = (Inr (), w') \<longrightarrow> files w' = (files w)(p \<mapsto> c))"

lemma files_lawD:
  assumes "files_law env files"
  shows "run_state (te_ReadFile env p) w = (Inr c, w') \<Longrightarrow> files w p = Some c \<and> files w' = files w"
    and "run_state (te_MkdirAll env p) w = (Inr u, w') \<Longrightarrow> files w' = files w"
    and "run_state (te_WriteFile env p c) w = (Inr u, w') \<Longrightarrow> files w' = (files w)(p \<mapsto> c)"
  using assms unfolding files_law_def by (auto simp: old.unit.exhaust)

lemma go_Split_snoc: "c \<notin> set x \<Longrightarrow> go_Split (s @ c # x) [c] = go_Split s [c] @ [x]"
proof (induction "length s" arbitrary: s rule: less_induct)
  case less
  show ?case
  proof (cases "c \<in> set s")
    case False
    then show ?thesis using less.prems by (simp add: go_Split_char_step go_Split_char_notin)
  next
    case True
    then obtain u v where "s = u @ c # v" "c \<notin> set u" by (meson split_list_first)
    then show ?thesis using less.hyps [of v] less.prems by (simp add: go_Split_char_step)
  qed
qed

definition plain_name :: "string \<Rightarrow> bool" where
  "plain_name x \<longleftrightarrow> CHR ''/'' \<notin> set x \<and> x \<noteq> [] \<and> x \<noteq> ''.'' \<and> x \<noteq> ''..''"

lemma Clean_last:
  assumes "plain_name x" and "p = x \<or> (\<exists>s. p = s @ CHR ''/'' # x)"
  shows "last (go_Split (filepath_Clean p) ''/'') = x"
proof -
  from assms(1) have x: "CHR ''/'' \<notin> set x" "x \<noteq> []" "x \<noteq> ''.''" "x \<noteq> ''..''" by (simp_all add: plain_name_def)
  from assms(2) obtain ps where "go_Split p ''/'' = ps @ [x]"
    using go_Split_char_notin [OF x(1)] go_Split_snoc [OF x(1)] by (metis append_Nil)
  then obtain out where out: "clean_elements p = out @ [x]" by (simp add: clean_elements_def clean_step_def x)
  define t where "t = (if p \<noteq> [] \<and> hd p = CHR ''/'' then ''/'' else []) @ go_Join (out @ [x]) ''/''"
  have "t = x \<or> (\<exists>s. t = s @ CHR ''/'' # x)"
    by (cases "out = []") (auto simp: t_def go_Join_snoc)
  then have "last (go_Split t ''/'') = x" using go_Split_char_notin [OF x(1)] go_Split_char_append [OF x(1)] by auto
  moreover have "t \<noteq> []" using x(2) by (cases "out = []") (simp_all add: t_def go_Join_snoc)
  ultimately show ?thesis by (simp add: filepath_Clean_def out t_def [symmetric] Let_def)
qed

lemma Join_last:
  assumes "plain_name x"
  shows "last (go_Split (filepath_Join (es @ [x])) ''/'') = x"
proof -
  have "x \<noteq> []" using assms by (simp add: plain_name_def)
  then have "dropWhile (\<lambda>e. e = []) (es @ [x]) = dropWhile (\<lambda>e. e = []) es @ [x]" by (induction es) auto
  then obtain es' where es': "dropWhile (\<lambda>e. e = []) (es @ [x]) = es' @ [x]" by blast
  have "go_Join (es' @ [x]) ''/'' = x \<or> (\<exists>s. go_Join (es' @ [x]) ''/'' = s @ CHR ''/'' # x)"
    by (cases "es' = []") (auto simp: go_Join_snoc)
  from Clean_last [OF assms this] show ?thesis
    unfolding filepath_Join_def es' by (cases "es' @ [x]") simp_all
qed

text \<open>The cases a configuration runs, and the files they are fed from.\<close>

definition runnable :: "string list \<Rightarrow> manifest \<Rightarrow> manifest" where
  "runnable names m = filter (\<lambda>tc. pc_Parser tc \<in> set names) m"

definition input_path :: "string \<Rightarrow> parser_case \<Rightarrow> string" where
  "input_path targetDir tc = filepath_Join [targetDir, ''input'', pc_ID tc @ ''.log'']"

definition case_section :: "parser_case \<Rightarrow> string" where
  "case_section tc = input_section tc (pc_ID tc @ ''.log'') @ filter_section tc"

lemma prepare_cases_run:
  assumes "files_law env files" and "run_state (prepare_cases env targetDir names cases p) w = (Inr p', w')"
  shows "(\<forall>tc \<in> set cases. validateCase tc = None)
    \<and> pr_config p' = pr_config p @ concat (map case_section (runnable names cases))
    \<and> pr_expectations p' = pr_expectations p @ map expectation (runnable names cases)
    \<and> files w' = fold (\<lambda>tc fs. fs(input_path targetDir tc \<mapsto> pc_Input tc @ [CHR 0x0A])) (runnable names cases) (files w)"
  using assms(2)
proof (induction cases arbitrary: p w)
  case (Cons tc cases)
  from Cons.prems have v: "validateCase tc = None" by (cases "validateCase tc") simp_all
  show ?case
  proof (cases "pc_Parser tc \<in> set names")
    case False
    with Cons.prems v have "run_state (prepare_cases env targetDir names cases (p\<lparr>pr_skipped := pr_skipped p @ [pc_ID tc]\<rparr>)) w = (Inr p', w')"
      by simp
    from Cons.IH [OF this] v False show ?thesis by (simp add: runnable_def)
  next
    case True
    with Cons.prems v obtain w1 where
      w1: "run_state (te_WriteFile env (input_path targetDir tc) (pc_Input tc @ [CHR 0x0A])) w = (Inr (), w1)"
      and rest: "run_state (prepare_cases env targetDir names cases (p\<lparr>pr_config := pr_config p @ case_section tc,
          pr_expectations := pr_expectations p @ [expectation tc]\<rparr>)) w1 = (Inr p', w')"
      by (auto simp: Let_def input_path_def case_section_def elim!: tryM_InrE)
    from Cons.IH [OF rest] files_lawD(3) [OF assms(1) w1] v True show ?thesis by (simp add: runnable_def)
  qed
qed (simp add: runnable_def)

lemma fold_upd_other:
  "p \<notin> f ` set xs \<Longrightarrow> fold (\<lambda>x m. m(f x \<mapsto> g x)) xs m p = m p"
  by (induction xs arbitrary: m) auto

lemma fold_upd_distinct:
  "distinct (map f xs) \<Longrightarrow> x \<in> set xs \<Longrightarrow> fold (\<lambda>x m. m(f x \<mapsto> g x)) xs m (f x) = Some (g x)"
  by (induction xs arbitrary: m) (auto simp: fold_upd_other)

lemma valid_name:
  assumes "validateCase tc = None"
  shows "pc_ID tc \<noteq> []" and "plain_name (pc_ID tc @ ''.log'')"
proof -
  from assms have "safeID (pc_ID tc)" by (simp add: validateCase_def split: if_splits)
  then have "\<forall>c \<in> set (pc_ID tc). id_char c \<or> c \<in> set ''_-''" "pc_ID tc \<noteq> []"
    by (auto simp: safeID_def list_all_iff split: list.splits)
  moreover have "\<not> id_char (CHR ''/'')" by code_simp
  moreover from calculation obtain c cs where "pc_ID tc = c # cs" by (cases "pc_ID tc") simp_all
  ultimately show "pc_ID tc \<noteq> []" "plain_name (pc_ID tc @ ''.log'')" by (auto simp: plain_name_def)
qed

lemma input_path_last: "validateCase tc = None \<Longrightarrow> last (go_Split (input_path targetDir tc) ''/'') = pc_ID tc @ ''.log''"
  using Join_last [OF valid_name(2), of tc "[targetDir, ''input'']"] by (simp add: input_path_def)

lemma fixed_last:
  "last (go_Split (filepath_Join [targetDir, ''parsers.conf'']) ''/'') = ''parsers.conf''"
  "last (go_Split (filepath_Join [targetDir, ''fluent-bit.conf'']) ''/'') = ''fluent-bit.conf''"
  "last (go_Split (filepath_Join [targetDir, ''expected'', ''parser-contracts.log.json'']) ''/'') = ''parser-contracts.log.json''"
  using Join_last [of "''parsers.conf''" "[targetDir]"] Join_last [of "''fluent-bit.conf''" "[targetDir]"]
    Join_last [of "''parser-contracts.log.json''" "[targetDir, ''expected'']"]
  by (simp_all add: plain_name_def)

lemma for_each_files:
  assumes "\<And>x w w'. x \<in> set xs \<Longrightarrow> run_state (f x) w = (Inr (), w') \<Longrightarrow> files w' = files w"
    and "run_state (for_each xs f) w = (Inr (), w')"
  shows "files w' = files w"
  using assms
proof (induction xs arbitrary: w)
  case (Cons x xs)
  from Cons.prems(2) obtain w1 where "run_state (f x) w = (Inr (), w1)" "run_state (for_each xs f) w1 = (Inr (), w')"
    by (auto elim!: tryM_InrE)
  moreover from this have "files w' = files w1" using Cons.prems(1) by (intro Cons.IH) auto
  ultimately show ?case using Cons.prems(1) [of x w w1] by simp
qed simp

lemma Prepare_run:
  assumes "files_law env files"
    and "run_state (Prepare env unmarshal marshal manifestPath parsersPath targetDir) w = (Inr (), w')"
  obtains content m parsers names json where "files w manifestPath = Some content" and "unmarshal content = Inr m"
    and "files w parsersPath = Some parsers" and "parser_lines max_scan_token (raw_lines parsers []) False [] = Inr names"
    and "\<forall>tc \<in> set m. validateCase tc = None" and "marshal (map expectation (runnable names m)) = Inr json"
    and "files w' = (fold (\<lambda>tc fs. fs(input_path targetDir tc \<mapsto> pc_Input tc @ [CHR 0x0A])) (runnable names m)
           ((files w)(filepath_Join [targetDir, ''parsers.conf''] \<mapsto> parsers)))
         (filepath_Join [targetDir, ''fluent-bit.conf'']
            \<mapsto> service_section @ concat (map case_section (runnable names m)) @ output_section,
          filepath_Join [targetDir, ''expected'', ''parser-contracts.log.json''] \<mapsto> json @ [CHR 0x0A])"
proof -
  note law = files_lawD [OF assms(1)]
  note run = assms(2) [unfolded Prepare_def]
  obtain m w1 where m: "run_state (ReadManifest env unmarshal manifestPath) w = (Inr m, w1)" using run by (rule tryM_InrE)
  obtain w2 where dirs: "run_state (for_each [''input'', ''expected'', ''output''] (\<lambda>name. te_MkdirAll env (filepath_Join [targetDir, name]))) w1 = (Inr (), w2)"
    using run unfolding run_tryM_Inr [OF m] by (auto elim: tryM_InrE)
  obtain r w3 where r: "run_state (te_ReadFile env parsersPath) w2 = (r, w3)" by fastforce
  note run = run [unfolded run_tryM_Inr [OF m] run_tryM_Inr [OF dirs] run_state_bind r, simplified]
  obtain parsers where [simp]: "r = Inr parsers" using run by (cases r) simp_all
  from run obtain w4 w5 w6 w7 names p json where
    w4: "run_state (te_WriteFile env (filepath_Join [targetDir, ''parsers.conf'']) parsers) w3 = (Inr (), w4)"
    and names: "run_state (ParserNames env parsersPath) w4 = (Inr names, w5)"
    and p: "run_state (prepare_cases env targetDir names m \<lparr>pr_skipped = [], pr_config = service_section, pr_expectations = []\<rparr>) w5 = (Inr p, w6)"
    and w7: "run_state (te_WriteFile env (filepath_Join [targetDir, ''fluent-bit.conf'']) (pr_config p @ output_section)) w6 = (Inr (), w7)"
    and json: "marshal (pr_expectations p) = Inr json"
    and w': "run_state (te_WriteFile env (filepath_Join [targetDir, ''expected'', ''parser-contracts.log.json'']) (json @ [CHR 0x0A])) w7 = (Inr (), w')"
    by (auto elim!: tryM_InrE)
  from m obtain content where content: "files w manifestPath = Some content" "unmarshal content = Inr m" "files w1 = files w"
    unfolding ReadManifest_def by (auto elim!: tryM_InrE dest!: law(1) split: sum.splits)
  have f2: "files w2 = files w1" by (rule for_each_files [OF _ dirs]) (rule law(2))
  have f3: "files w2 parsersPath = Some parsers" "files w3 = files w2" using law(1) [of parsersPath w2 parsers w3] r by simp_all
  note f4 = law(3) [OF w4]
  have f5: "files w5 = files w4" "parser_lines max_scan_token (raw_lines parsers []) False [] = Inr names"
    using names f4 f3 unfolding ParserNames_def by (auto elim!: tryM_InrE dest!: law(1) split: if_splits)
  note q = prepare_cases_run [OF assms(1) p]
  from content f2 f3 f4 f5 q json law(3) [OF w7] law(3) [OF w'] show ?thesis
    by (intro that [of content m parsers names json]) simp_all
qed

lemma input_path_fixed:
  assumes "\<forall>tc \<in> set run. validateCase tc = None" and "tc \<in> set run"
  shows "input_path targetDir tc \<notin> {filepath_Join [targetDir, ''parsers.conf''], filepath_Join [targetDir, ''fluent-bit.conf''],
    filepath_Join [targetDir, ''expected'', ''parser-contracts.log.json'']}"
proof -
  have "pc_ID tc @ ''.log'' \<noteq> ''parsers.conf''" "pc_ID tc @ ''.log'' \<noteq> ''fluent-bit.conf''"
    "pc_ID tc @ ''.log'' \<noteq> ''parser-contracts.log.json''"
    by (rule notI, drule arg_cong [where f = last], simp)+
  then show ?thesis using input_path_last [of tc targetDir] fixed_last [of targetDir] assms by auto
qed

lemma input_paths_distinct:
  assumes "\<forall>tc \<in> set run. validateCase tc = None" and "distinct (map pc_ID run)"
  shows "distinct (map (input_path targetDir) run)"
proof -
  have "a = b" if "a \<in> set run" "b \<in> set run" "input_path targetDir a = input_path targetDir b" for a b
  proof -
    from that have "pc_ID a @ ''.log'' = pc_ID b @ ''.log''" using input_path_last assms(1) by metis
    with that assms(2) show ?thesis by (auto simp: distinct_map dest: inj_onD)
  qed
  then show ?thesis using assms(2) by (auto simp: distinct_map inj_on_def)
qed

text \<open>C25: what a successful preparation of the parser contracts leaves. Every case of the manifest was valid; the
  Fluent Bit configuration has one input and one filter for every case whose parser the configuration
  defines, in the order of the manifest; the expected records are those of the same cases; the input
  file of every such case holds its line, when no two of them have the same ID; and no other file is
  touched.\<close>

theorem contracts_prepared:
  assumes "files_law env files"
    and "run_state (Prepare env unmarshal marshal manifestPath parsersPath targetDir) w = (Inr (), w')"
  shows "\<exists>content m parsers names json. files w manifestPath = Some content \<and> unmarshal content = Inr m
    \<and> files w parsersPath = Some parsers \<and> parser_lines max_scan_token (raw_lines parsers []) False [] = Inr names
    \<and> (\<forall>tc \<in> set m. validateCase tc = None) \<and> marshal (map expectation (runnable names m)) = Inr json
    \<and> files w' (filepath_Join [targetDir, ''parsers.conf'']) = Some parsers
    \<and> files w' (filepath_Join [targetDir, ''fluent-bit.conf''])
        = Some (service_section @ concat (map case_section (runnable names m)) @ output_section)
    \<and> files w' (filepath_Join [targetDir, ''expected'', ''parser-contracts.log.json'']) = Some (json @ [CHR 0x0A])
    \<and> (distinct (map pc_ID (runnable names m)) \<longrightarrow>
        (\<forall>tc \<in> set (runnable names m). files w' (input_path targetDir tc) = Some (pc_Input tc @ [CHR 0x0A])))
    \<and> (\<forall>p. p \<notin> {filepath_Join [targetDir, ''parsers.conf''], filepath_Join [targetDir, ''fluent-bit.conf''],
            filepath_Join [targetDir, ''expected'', ''parser-contracts.log.json'']} \<union> input_path targetDir ` set (runnable names m)
          \<longrightarrow> files w' p = files w p)"
proof (rule Prepare_run [OF assms], goal_cases)
  case (1 content m parsers names json)
  let ?run = "runnable names m" and ?conf = "filepath_Join [targetDir, ''fluent-bit.conf'']" and ?parsers = "filepath_Join [targetDir, ''parsers.conf'']"
    and ?expected = "filepath_Join [targetDir, ''expected'', ''parser-contracts.log.json'']"
  have valid: "\<forall>tc \<in> set ?run. validateCase tc = None" using 1(5) by (simp add: runnable_def)
  note input = input_path_fixed [OF valid, of _ targetDir] and inj = input_paths_distinct [OF valid, of targetDir]
  have fixed: "?parsers \<noteq> ?conf" "?parsers \<noteq> ?expected" "?conf \<noteq> ?expected" using fixed_last [of targetDir] by auto
  have "files w' (input_path targetDir tc) = Some (pc_Input tc @ [CHR 0x0A])" if "distinct (map pc_ID ?run)" "tc \<in> set ?run" for tc
    using fold_upd_distinct [OF inj [OF that(1)] that(2), of "\<lambda>tc. pc_Input tc @ [CHR 0x0A]"] input [OF that(2)] unfolding 1(7) by simp
  moreover have "?parsers \<notin> input_path targetDir ` set ?run"
  proof
    assume "?parsers \<in> input_path targetDir ` set ?run"
    then obtain tc where "?parsers = input_path targetDir tc" "tc \<in> set ?run" by (rule imageE)
    with input [of tc] show False by simp
  qed
  then have "files w' ?parsers = Some parsers" using fixed unfolding 1(7) by (simp add: fold_upd_other)
  moreover have "files w' p = files w p" if "p \<notin> {?parsers, ?conf, ?expected} \<union> input_path targetDir ` set ?run" for p
    using that unfolding 1(7) by (simp add: fold_upd_other)
  moreover have "files w' ?conf = Some (service_section @ concat (map case_section ?run) @ output_section)"
    "files w' ?expected = Some (json @ [CHR 0x0A])" using fixed unfolding 1(7) by simp_all
  ultimately show ?case using 1(1-6) by (intro exI conjI) blast+
qed

text \<open>Files in memory.\<close>

definition memory_env :: "(string \<rightharpoonup> string) tool_env" where
  "memory_env = \<lparr>te_ReadFile = \<lambda>p. State (\<lambda>w. (case w p of None \<Rightarrow> Inl (errors_New ''file does not exist'') | Some c \<Rightarrow> Inr c, w)),
     te_MkdirAll = \<lambda>p. okM (), te_WriteFile = \<lambda>p c. State (\<lambda>w. (Inr (), w(p \<mapsto> c)))\<rparr>"

lemma memory_law: "files_law memory_env (\<lambda>w. w)"
  by (auto simp: files_law_def memory_env_def split: option.splits)

definition sample_case :: parser_case where
  "sample_case = \<lparr>pc_ID = ''json-1'', pc_Parser = ''json'', pc_Match = True, pc_Input = ''{}'', pc_Expected = fmempty, pc_Absent = None\<rparr>"

definition sample_files :: "string \<rightharpoonup> string" where
  "sample_files = [''/cases.json'' \<mapsto> [], ''/parsers.conf'' \<mapsto> unlines [''[PARSER]'', ''    Name json'']]"

lemma sample_valid: "validateCase sample_case = None"
  by code_simp

lemma sample_names: "parser_lines max_scan_token (raw_lines (unlines [''[PARSER]'', ''    Name json'']) []) False [] = Inr [''json'']"
proof -
  have "go_TrimSpace ''[PARSER]'' = ''[PARSER]''" "go_TrimSpace ''    Name json'' = ''Name json''" "go_Fields ''Name json'' = [''Name'', ''json'']"
    by code_simp+
  then show ?thesis by (simp add: unlines_def drop_cr_def max_scan_token_def go_HasPrefix_def)
qed

definition sample_prepare :: "(go_error + unit) \<times> (string \<rightharpoonup> string)" where
  "sample_prepare = run_state (Prepare memory_env (\<lambda>_. Inr [sample_case]) (\<lambda>_. Inr ''[]'') ''/cases.json'' ''/parsers.conf'' ''/target'') sample_files"

lemma sample_prepare_ok: "fst sample_prepare = Inr ()"
proof -
  have "filepath_Join [''/target'', ''parsers.conf''] \<noteq> ''/parsers.conf''" by code_simp
  moreover have "''json'' = pc_Parser sample_case" by (simp add: sample_case_def)
  ultimately show ?thesis using sample_names sample_valid
    by (simp add: sample_prepare_def Prepare_def ReadManifest_def ParserNames_def memory_env_def sample_files_def run_tryM Let_def)
qed

theorem contracts_prepared_witness:
  "snd sample_prepare (filepath_Join [''/target'', ''fluent-bit.conf'']) = Some (service_section @ case_section sample_case @ output_section)"
proof -
  have "run_state (Prepare memory_env (\<lambda>_. Inr [sample_case]) (\<lambda>_. Inr ''[]'') ''/cases.json'' ''/parsers.conf'' ''/target'') sample_files = (Inr (), snd sample_prepare)"
    using sample_prepare_ok by (simp add: sample_prepare_def prod_eq_iff)
  moreover have "runnable [''json''] [sample_case] = [sample_case]" by (simp add: runnable_def sample_case_def)
  ultimately show ?thesis using contracts_prepared [OF memory_law] sample_names by (fastforce simp: sample_files_def)
qed

section \<open>The verdict\<close>

text \<open>C12: a parser contract run passes exactly when the parsers keep their contracts. On the expected records
  prepared from valid cases the comparison exits with 0 exactly when no two cases have the same ID, every case
  has exactly one output record and that record has the stated fields and none of the absent ones,
  and every output record belongs to a case.\<close>

theorem contracts_verdict:
  assumes "\<forall>tc \<in> set cases. validateCase tc = None" and "name \<noteq> []"
    and "readActualRecords env (filepath_Join [actualLogsDir, name]) = Inr actual"
    and "walk_items env expectedLogsDir (go_Split ignore '','') (env_Walk env expectedLogsDir)
      = Inr (map (\<lambda>tc. Checked f (expectation tc)) cases)"
  shows "CompareLogs env ignore name [] = 0 \<longleftrightarrow>
    distinct (map pc_ID cases)
    \<and> (\<forall>tc \<in> set cases. \<exists>i. {j. j < length actual \<and> fmlookup (actual ! j) ''test_case'' = Some (JStr (pc_ID tc))} = {i}
         \<and> meets tc (actual ! i))
    \<and> (\<forall>r \<in> set actual. \<exists>tc \<in> set cases. fmlookup r ''test_case'' = Some (JStr (pc_ID tc)))"
proof -
  have "CompareLogs env ignore name [] = 0 \<longleftrightarrow> accounted actual [] (map (\<lambda>tc. Checked f (expectation tc)) cases)"
    using assms(2-4) visit_entries_items [of env expectedLogsDir "go_Split ignore '',''" "env_Walk env expectedLogsDir" "new_comparison actual []"]
    by (simp add: CompareLogs_def testJson_def compareExpectedFiles_def run_verdict)
  moreover have "\<forall>tc \<in> set cases. pc_ID tc \<noteq> []" using assms(1) valid_name(1) by blast
  ultimately show ?thesis unfolding outputs_of_def [symmetric] by (auto simp: contracts_pass outputs_of_def all_set_conv_all_nth)
qed

definition contract_output :: jmap where
  "contract_output = fmap_of_list [(''test_case'', JStr ''json-1'')]"

definition contract_env :: pipeline_env where
  "contract_env = \<lparr>env_ReadFile = \<lambda>_. Inr ''{}'',
     env_Walk = \<lambda>_. [\<lparr>we_path = ''output-logs/expected/parser-contracts.log.json'', we_IsDir = False, we_err = None\<rparr>],
     env_ReadIn = \<lambda>_ _. Inr [], env_Record = \<lambda>_. Inr contract_output, env_Records = \<lambda>_. Inr [expectation sample_case]\<rparr>"

theorem contracts_verdict_witness: "CompareLogs contract_env [] ''output-log'' [] = 0"
proof -
  have "go_TrimSpace ''{}'' = ''{}''" by code_simp
  then have "readActualRecords contract_env (filepath_Join [actualLogsDir, ''output-log'']) = Inr [contract_output]"
    by (simp add: readActualRecords_def contract_env_def scanner_limit_def drop_cr_def)
  moreover have "walk_items contract_env expectedLogsDir (go_Split [] '','') (env_Walk contract_env expectedLogsDir)
      = Inr (map (\<lambda>tc. Checked ''parser-contracts.log.json'' (expectation tc)) [sample_case])"
    by (simp add: contract_env_def entry_items_def go_HasSuffix_def filepath_Split_def suffix_def go_Split_char_notin)
  moreover have "meets sample_case contract_output" by code_simp
  moreover have "fmlookup contract_output ''test_case'' = Some (JStr (pc_ID sample_case))" by code_simp
  moreover from this have "{j. j = 0 \<and> fmlookup ([contract_output] ! j) ''test_case'' = Some (JStr (pc_ID sample_case))} = {0}" by auto
  ultimately show ?thesis
    using contracts_verdict [of "[sample_case]" "''output-log''" contract_env "[contract_output]" "[]" "''parser-contracts.log.json''"] sample_valid
    by (auto intro!: exI [of _ 0])
qed

section \<open>Coverage\<close>

lemma covered_iff: "is_covered (CoveredParsers m) p b \<longleftrightarrow> (p, b) \<in> (\<lambda>tc. (pc_Parser tc, pc_Match tc)) ` set m"
proof -
  define add :: "parser_case \<Rightarrow> _" where "add = (\<lambda>tc covered.
       covered(pc_Parser tc \<mapsto> (case covered (pc_Parser tc) of None \<Rightarrow> Map.empty | Some ms \<Rightarrow> ms)(pc_Match tc \<mapsto> True)))"
  have step: "is_covered (add tc c) p b \<longleftrightarrow> (pc_Parser tc = p \<and> pc_Match tc = b) \<or> is_covered c p b" for tc c
    by (auto simp: add_def is_covered_def split: option.splits)
  have "is_covered (fold add m c) p b \<longleftrightarrow> (p, b) \<in> (\<lambda>tc. (pc_Parser tc, pc_Match tc)) ` set m \<or> is_covered c p b" for c
    by (induction m arbitrary: c) (auto simp: step)
  then show ?thesis by (simp add: CoveredParsers_def add_def is_covered_def)
qed

text \<open>C39: the gaps of the contracts are found. Nothing is reported as missing exactly when every parser has
  a case that matches and one that does not, and nothing as stale exactly when the preparation would run every
  case; what is reported is sorted, and names the parser and the kind of the missing case.\<close>

theorem contract_gaps_found:
  "(MissingCases m parsers = [] \<longleftrightarrow> set parsers \<times> UNIV \<subseteq> (\<lambda>tc. (pc_Parser tc, pc_Match tc)) ` set m)
   \<and> set (MissingCases m parsers) = {p @ (if b then '': matching'' else '': non-matching'') |p b.
       p \<in> set parsers \<and> (p, b) \<notin> (\<lambda>tc. (pc_Parser tc, pc_Match tc)) ` set m}
   \<and> (StaleCases m parsers = [] \<longleftrightarrow> runnable parsers m = m)
   \<and> sorted (MissingCases m parsers) \<and> sorted (StaleCases m parsers)"
proof -
  let ?gaps = "\<lambda>parser. (if \<not> is_covered (CoveredParsers m) parser True then [parser @ '': matching''] else [])
      @ (if \<not> is_covered (CoveredParsers m) parser False then [parser @ '': non-matching''] else [])"
  have gaps: "set (?gaps p) = {p @ (if b then '': matching'' else '': non-matching'') |b. (p, b) \<notin> (\<lambda>tc. (pc_Parser tc, pc_Match tc)) ` set m}" for p
    unfolding covered_iff ex_bool_eq [symmetric] by (auto simp: ex_bool_eq simp del: append_same_eq same_append_eq)
  have missing: "set (MissingCases m parsers) = {p @ (if b then '': matching'' else '': non-matching'') |p b.
     p \<in> set parsers \<and> (p, b) \<notin> (\<lambda>tc. (pc_Parser tc, pc_Match tc)) ` set m}"
    unfolding MissingCases_def Let_def set_sort set_concat set_map image_image gaps by blast
  have "MissingCases m parsers = [] \<longleftrightarrow> set (MissingCases m parsers) = {}" by simp
  then have empty: "MissingCases m parsers = [] \<longleftrightarrow> set parsers \<times> UNIV \<subseteq> (\<lambda>tc. (pc_Parser tc, pc_Match tc)) ` set m"
    unfolding missing by blast
  have "StaleCases m parsers = [] \<longleftrightarrow> set (StaleCases m parsers) = {}" by simp
  then have "StaleCases m parsers = [] \<longleftrightarrow> runnable parsers m = m"
    by (simp add: StaleCases_def runnable_def filter_id_conv filter_empty_conv Ball_def)
  moreover have "sorted (MissingCases m parsers)" "sorted (StaleCases m parsers)" by (simp_all add: MissingCases_def StaleCases_def Let_def)
  ultimately show ?thesis using missing empty by blast
qed

end
