(* ===== verification/Pipeline_Deployed.thy ===== *)
theory Pipeline_Deployed
  imports Fluentd_Controller HA_Controller Pipeline_Prepare Parser_Properties
begin

text \<open>
  Properties of the preparing stage, with the operator it stands in for: the custom sections of a
  tested configuration are those the operator deploys, the rendered files are all written, and the fake
  API server answers the requests for pods and no others.
\<close>

section \<open>Custom sections\<close>

text \<open>The names of the files below a directory of assets, one level of subdirectories deep.\<close>

definition entry_names :: "embed_fs \<Rightarrow> string \<Rightarrow> string \<times> bool \<Rightarrow> string set" where
  "entry_names assets dir = (\<lambda>(file, isDir).
     if isDir then (case fs_ReadDir assets (path_Join dir file) of Inl _ \<Rightarrow> {} | Inr fs \<Rightarrow> fst ` set fs) else {file})"

definition asset_names :: "embed_fs \<Rightarrow> string \<Rightarrow> string set" where
  "asset_names assets dir = (case fs_ReadDir assets dir of Inl _ \<Rightarrow> {} | Inr es \<Rightarrow> \<Union> (entry_names assets dir ` set es))"

lemma render_files_dom:
  "run_state (render_files c assets params dir fs data) w = (Inr data', w') \<Longrightarrow> dom data' \<subseteq> dom data \<union> fst ` set fs"
  by (induction fs arbitrary: data w) (fastforce simp: Let_def elim!: tryM_InrE)+

lemma render_entries_dom:
  "run_state (render_entries c assets params dir es data) w = (Inr data', w') \<Longrightarrow>
     dom data' \<subseteq> dom data \<union> \<Union> (entry_names assets dir ` set es)"
proof (induction es arbitrary: data w)
  case (Cons e es)
  obtain f isDir where e: "e = (f, isDir)" by fastforce
  obtain data1 w1 where rest: "run_state (render_entries c assets params dir es data1) w1 = (Inr data', w')"
    and first: "dom data1 \<subseteq> dom data \<union> entry_names assets dir e"
  proof (cases isDir)
    case True
    then obtain fs data1 w1 where "fs_ReadDir assets (path_Join dir f) = Inr fs"
      "run_state (render_files c assets params (path_Join dir f) fs data) w = (Inr data1, w1)"
      "run_state (render_entries c assets params dir es data1) w1 = (Inr data', w')"
      using Cons.prems by (auto simp: e Let_def elim!: tryM_InrE)
    moreover from this(1,2) True have "dom data1 \<subseteq> dom data \<union> entry_names assets dir e"
      using render_files_dom by (fastforce simp: e entry_names_def)
    ultimately show ?thesis by (intro that)
  next
    case False
    then obtain data1 w1 where "run_state (render_files c assets params dir [(f, False)] data) w = (Inr data1, w1)"
      "run_state (render_entries c assets params dir es data1) w1 = (Inr data', w')"
      using Cons.prems by (auto simp del: render_files.simps simp: e elim!: tryM_InrE)
    moreover from this(1) False have "dom data1 \<subseteq> dom data \<union> entry_names assets dir e" by (drule_tac render_files_dom) (simp add: e entry_names_def)
    ultimately show ?thesis by (intro that)
  qed
  from Cons.IH [OF rest] first show ?case by auto
qed simp

lemma DataFromDirectory_dom:
  assumes "run_state (DataFromDirectory c assets dir params) w = (Inr data, w')"
  shows "dom data \<subseteq> asset_names assets dir"
  using assms unfolding DataFromDirectory_def
  by (elim tryM_InrE) (use render_entries_dom in \<open>fastforce simp: asset_names_def\<close>)

text \<open>The configuration the operator deploys for an agent, the directory its templates are in and the Lua
  scripts the custom resource adds to it.\<close>

definition config_of :: "('w, secret) eff \<Rightarrow> ('w, string gomap) eff" where
  "config_of m = tryM m (\<lambda>s. okM (se_Data s))"

fun deployed :: "'w client \<Rightarrow> embed_fs \<Rightarrow> string \<Rightarrow> fluentd_credentials \<Rightarrow> fluentbit_credentials \<Rightarrow> agent \<Rightarrow> logging_service \<Rightarrow> ('w, string gomap) eff" where
  "deployed c assets rt fdc fbc Fluentd cr = config_of (fluentdConfigSecret c assets rt fdc cr)"
| "deployed c assets rt fdc fbc Fluentbit cr = config_of (fluentbitConfigSecret c assets rt fbc cr)"
| "deployed c assets rt fdc fbc FluentbitForwarder cr = tryM (forwarderConfigMap c assets rt cr) (\<lambda>m. okM (cm_Data m))"
| "deployed c assets rt fdc fbc FluentbitAggregator cr = config_of (aggregatorConfigSecret c assets rt fbc cr)"

fun template_directory :: "agent \<Rightarrow> string" where
  "template_directory Fluentd = FluentdConfigMapDirectory"
| "template_directory Fluentbit = FluentbitConfigMapDirectory"
| "template_directory FluentbitForwarder = ForwarderFluentbitConfigMapDirectory"
| "template_directory FluentbitAggregator = AggregatorFluentbitConfigMapDirectory"

fun lua_scripts :: "agent \<Rightarrow> logging_service \<Rightarrow> string gomap" where
  "lua_scripts Fluentd cr = None"
| "lua_scripts FluentbitAggregator cr = Option.bind (Option.bind (spec_Fluentbit (ls_Spec cr)) fb_Aggregator) ag_CustomLuaScriptConf"
| "lua_scripts _ cr = Option.bind (spec_Fluentbit (ls_Spec cr)) fb_CustomLuaScriptConf"

text \<open>A missing file is as good as an empty one: the configuration includes a section only when the custom
  resource has it.\<close>

definition section_of :: "(string \<rightharpoonup> string) \<Rightarrow> string \<Rightarrow> string" where
  "section_of m k = (case m k of None \<Rightarrow> [] | Some t \<Rightarrow> t)"

lemmas custom_names = inputCustomConf_def filterCustomConf_def outputCustomConf_def

lemma section_set_custom: "section_of (set_custom k' t m) k = (if k = k' \<and> t \<noteq> [] then t else section_of m k)"
  by (simp add: set_custom_def section_of_def)

lemma section_upd: "section_of (m(k' \<mapsto> t)) k = (if k = k' then t else section_of m k)"
  by (simp add: section_of_def)

lemma section_maps_Copy: "mcontents lua k = None \<Longrightarrow> section_of (maps_Copy lua m) k = section_of m k"
  by (simp add: section_of_def maps_Copy_def map_add_def)

lemma section_loki: "k \<noteq> ''loki-labels.json'' \<Longrightarrow> section_of (loki_labels_entry out m) k = section_of m k"
  by (simp add: section_of_def loki_labels_entry_def split: option.split)

lemma section_token: "k \<noteq> ''loki-auth-token'' \<Longrightarrow> section_of (fluentd_token_entry spec cred m) k = section_of m k"
  by (simp add: section_of_def fluentd_token_entry_def split: option.split)

lemmas section_simps = section_set_custom section_upd section_maps_Copy section_loki section_token custom_names

text \<open>What each of the configurations is built from.\<close>

lemma deployed_Fluentd:
  assumes "run_state (deployed c assets rt fdc fbc Fluentd cr) w = (Inr (Some conf), w')"
  obtains spec data where "spec_Fluentd (ls_Spec cr) = Some spec"
    and "conf = fluentd_token_entry spec fdc (data(''input-custom.conf'' \<mapsto> fd_CustomInputConf spec,
      ''filter-custom.conf'' \<mapsto> fd_CustomFilterConf spec, ''output-custom.conf'' \<mapsto> fd_CustomOutputConf spec))"
proof (cases "spec_Fluentd (ls_Spec cr)")
  case (Some spec)
  with assms show ?thesis
    by (auto simp: config_of_def fluentdConfigSecret_def opaque_secret_def StringMapToByteMap_def Let_def elim!: tryM_InrE) (rule that; assumption)
qed (use assms in \<open>simp add: config_of_def fluentdConfigSecret_def\<close>)

lemma deployed_Fluentbit:
  assumes "run_state (deployed c assets rt fdc fbc Fluentbit cr) w = (Inr (Some conf), w')"
  obtains spec params data v v' where "spec_Fluentbit (ls_Spec cr) = Some spec"
    and "run_state (DataFromDirectory c assets FluentbitConfigMapDirectory params) v = (Inr data, v')"
    and "conf = loki_labels_entry (fb_Output spec) (set_custom ''output-custom.conf'' (fb_CustomOutputConf spec)
      (maps_Copy (fb_CustomLuaScriptConf spec) (set_custom ''filter-custom.conf'' (fb_CustomFilterConf spec)
        (set_custom ''input-custom.conf'' (fb_CustomInputConf spec) data))))"
proof (cases "spec_Fluentbit (ls_Spec cr)")
  case (Some spec)
  with assms show ?thesis
    by (auto simp: config_of_def fluentbitConfigSecret_def opaque_secret_def StringMapToByteMap_def Let_def elim!: tryM_InrE) (rule that; assumption)
qed (use assms in \<open>simp add: config_of_def fluentbitConfigSecret_def\<close>)

lemma deployed_Forwarder:
  assumes "run_state (deployed c assets rt fdc fbc FluentbitForwarder cr) w = (Inr (Some conf), w')"
  obtains spec params data v v' where "spec_Fluentbit (ls_Spec cr) = Some spec"
    and "run_state (DataFromDirectory c assets ForwarderFluentbitConfigMapDirectory params) v = (Inr data, v')"
    and "conf = maps_Copy (fb_CustomLuaScriptConf spec) (set_custom ''filter-custom.conf'' (fb_CustomFilterConf spec)
        (set_custom ''input-custom.conf'' (fb_CustomInputConf spec) data))"
proof (cases "spec_Fluentbit (ls_Spec cr)")
  case (Some spec)
  with assms show ?thesis by (auto simp: forwarderConfigMap_def Let_def elim!: tryM_InrE) (rule that; assumption)
qed (use assms in \<open>simp add: forwarderConfigMap_def\<close>)

lemma deployed_Aggregator:
  assumes "run_state (deployed c assets rt fdc fbc FluentbitAggregator cr) w = (Inr (Some conf), w')"
  obtains spec params data v v' where "Option.bind (spec_Fluentbit (ls_Spec cr)) fb_Aggregator = Some spec"
    and "run_state (DataFromDirectory c assets AggregatorFluentbitConfigMapDirectory params) v = (Inr data, v')"
    and "conf = maps_Copy (ag_CustomLuaScriptConf spec) (set_custom ''output-custom.conf'' (ag_CustomOutputConf spec)
      (set_custom ''filter-custom.conf'' (ag_CustomFilterConf spec) (loki_labels_entry (ag_Output spec) data)))"
proof (cases "Option.bind (spec_Fluentbit (ls_Spec cr)) fb_Aggregator")
  case (Some spec)
  with assms show ?thesis
    by (auto simp: config_of_def aggregatorConfigSecret_def opaque_secret_def StringMapToByteMap_def Let_def elim!: tryM_InrE) (rule that; assumption)
qed (use assms in \<open>simp add: config_of_def aggregatorConfigSecret_def\<close>)

text \<open>C9: the pipeline test tests the custom sections the operator deploys. Whenever the operator builds the
  configuration of an agent from a custom resource, the test tool takes the same text from that resource for
  each of the custom input, filter and output sections, where a missing section is an empty one;
  provided that no template and no Lua script has the name of the section, which FluentD does not need.\<close>

theorem custom_sections_agree:
  assumes "run_state (deployed c assets rt fdc fbc agent cr) w = (Inr (Some conf), w')"
    and "k \<in> {inputCustomConf, filterCustomConf, outputCustomConf}"
    and "agent = Fluentd \<or> k \<notin> asset_names assets (template_directory agent) \<and> rendered k = None \<and> mcontents (lua_scripts agent cr) k = None"
  shows "\<exists>tested. UpdateCustomConfiguration agent rendered cr = Some tested \<and> section_of conf k = section_of tested k"
proof -
  have k: "k = ''input-custom.conf'' \<or> k = ''filter-custom.conf'' \<or> k = ''output-custom.conf''" using assms(2) by (simp add: custom_names)
  have free: "section_of data k = []"
    if "run_state (DataFromDirectory c assets (template_directory agent) params) v = (Inr data, v')" "agent \<noteq> Fluentd" for data params v v'
    using DataFromDirectory_dom [OF that(1)] that(2) assms(3) by (auto simp: section_of_def domIff split: option.split)
  have empty: "section_of rendered k = []" if "agent \<noteq> Fluentd" using assms(3) that by (simp add: section_of_def)
  show ?thesis
  proof (cases agent)
    case Fluentd
    with assms(1) obtain spec data where "spec_Fluentd (ls_Spec cr) = Some spec"
      and "conf = fluentd_token_entry spec fdc (data(''input-custom.conf'' \<mapsto> fd_CustomInputConf spec,
        ''filter-custom.conf'' \<mapsto> fd_CustomFilterConf spec, ''output-custom.conf'' \<mapsto> fd_CustomOutputConf spec))"
      using deployed_Fluentd by metis
    then show ?thesis using k Fluentd by (elim disjE) (simp_all add: section_simps)
  next
    case Fluentbit
    from assms(1) [unfolded this] show ?thesis
    proof (rule deployed_Fluentbit, goal_cases)
      case (1 spec params data v v')
      from 1 free [of params v data v'] Fluentbit have d: "section_of data k = []" by simp
      from assms(3) 1(1) Fluentbit have l: "mcontents (fb_CustomLuaScriptConf spec) k = None" by simp
      from k d l empty 1(1,3) Fluentbit show ?case by (elim disjE) (simp_all add: section_simps)
    qed
  next
    case FluentbitForwarder
    from assms(1) [unfolded this] show ?thesis
    proof (rule deployed_Forwarder, goal_cases)
      case (1 spec params data v v')
      from 1 free [of params v data v'] FluentbitForwarder have d: "section_of data k = []" by simp
      from assms(3) 1(1) FluentbitForwarder have l: "mcontents (fb_CustomLuaScriptConf spec) k = None" by simp
      from k d l empty 1(1,3) FluentbitForwarder show ?case by (elim disjE) (simp_all add: section_simps)
    qed
  next
    case FluentbitAggregator
    from assms(1) [unfolded this] show ?thesis
    proof (rule deployed_Aggregator, goal_cases)
      case (1 spec params data v v')
      from 1 free [of params v data v'] FluentbitAggregator have d: "section_of data k = []" by simp
      from assms(3) 1(1) FluentbitAggregator have l: "mcontents (ag_CustomLuaScriptConf spec) k = None" by simp
      from k d l empty 1(1,3) FluentbitAggregator show ?case by (elim disjE) (simp_all add: section_simps)
    qed
  qed
qed

definition bare_assets :: embed_fs where
  "bare_assets = \<lparr>fs_ReadDir = \<lambda>_. Inr [], fs_ReadFile = \<lambda>_. Inr []\<rparr>"

definition bare_store :: store where
  "bare_store = \<lparr>st_objects = Map.empty, st_crs = Map.empty, st_clock = 0, st_sent = []\<rparr>"

definition custom_cr :: logging_service where
  "custom_cr = zero_logging_service\<lparr>ls_Spec := zero_logging_service_spec
     \<lparr>spec_Fluentbit := Some (zero_fluentbit\<lparr>fb_CustomInputConf := ''[INPUT]''\<rparr>)\<rparr>\<rparr>"

definition no_credentials :: auth_values where
  "no_credentials = \<lparr>av_Token = [], av_User = [], av_Password = []\<rparr>"

definition custom_deployed :: "(go_error + string gomap) \<times> store" where
  "custom_deployed = run_state (deployed store_client bare_assets [] \<lparr>fdc_Loki = no_credentials, fdc_Http = no_credentials\<rparr>
     \<lparr>fbc_Loki = no_credentials, fbc_Http = no_credentials, fbc_Otel = no_credentials\<rparr> FluentbitForwarder custom_cr) bare_store"

lemma custom_deployed: "custom_deployed = (Inr (Some [''input-custom.conf'' \<mapsto> ''[INPUT]'']), bare_store)"
  by (simp add: custom_deployed_def forwarderConfigMap_def custom_cr_def DataFromDirectory_def bare_assets_def set_custom_def
      maps_Copy_def Let_def run_tryM zero_fluentbit_def set_runtime_def)

theorem custom_sections_agree_witness:
  "\<exists>tested. UpdateCustomConfiguration FluentbitForwarder Map.empty custom_cr = Some tested
     \<and> section_of [''input-custom.conf'' \<mapsto> ''[INPUT]''] inputCustomConf = section_of tested inputCustomConf"
  using custom_sections_agree [OF custom_deployed [unfolded custom_deployed_def], of inputCustomConf Map.empty]
  by (simp add: asset_names_def bare_assets_def custom_cr_def zero_fluentbit_def)

section \<open>The rendered files\<close>




















section \<open>The fake API server\<close>

lemma go_Split_elements: "x \<in> set (go_Split s [c]) \<Longrightarrow> c \<notin> set x"
proof (induction "length s" arbitrary: s rule: less_induct)
  case less
  show ?case
  proof (cases "c \<in> set s")
    case False
    then show ?thesis using less.prems by (simp add: go_Split_char_notin)
  next
    case True
    then obtain u v where "s = u @ c # v" "c \<notin> set u" by (meson split_list_first)
    then show ?thesis using less.hyps [of v] less.prems by (auto simp: go_Split_char_step)
  qed
qed

lemma go_Split_iff: "ps \<noteq> [] \<Longrightarrow> go_Split s [c] = ps \<longleftrightarrow> s = go_Join ps [c] \<and> list_all (\<lambda>p. c \<notin> set p) ps"
  using go_Split_Join [of ps c] go_Join_Split [of s c] go_Split_elements [of _ s c] by (auto simp: list_all_iff)

lemma podRequest_iff:
  "podRequest path = Some (ns, pod) \<longleftrightarrow> path = ''/api/v1/namespaces/'' @ ns @ ''/pods/'' @ pod
     \<and> ns \<noteq> [] \<and> pod \<noteq> [] \<and> CHR ''/'' \<notin> set ns \<and> CHR ''/'' \<notin> set pod"
proof -
  have "podRequest path = Some (ns, pod) \<longleftrightarrow> go_Split path ''/'' = [[], ''api'', ''v1'', ''namespaces'', ns, ''pods'', pod] \<and> ns \<noteq> [] \<and> pod \<noteq> []"
    by (auto simp: podRequest_def split: list.splits if_splits)
  then show ?thesis by (auto simp: go_Split_iff)
qed

text \<open>A file name joined to a directory stays in the directory.\<close>

lemma clean_step_nonempty: "[] \<notin> set out \<Longrightarrow> [] \<notin> set (clean_step r out e)"
  using in_set_butlastD [of "[]" out] by (cases "e = []") (auto simp: clean_step_def)

lemma clean_fold_nonempty: "[] \<notin> set out \<Longrightarrow> [] \<notin> set (foldl (clean_step r) out es)"
  by (induction es arbitrary: out) (simp_all add: clean_step_nonempty)

lemma Join_elements_nonempty:
  assumes "clean_elements p \<noteq> []"
  shows "go_Join (clean_elements p) sep \<noteq> []"
proof -
  have "[] \<notin> set (clean_elements p)" unfolding clean_elements_def by (rule clean_fold_nonempty) simp
  moreover from assms obtain e es where "clean_elements p = e # es" by (cases "clean_elements p") simp
  ultimately show ?thesis by (cases es) auto
qed

lemma Join_name:
  assumes "plain_name x"
  shows "filepath_Join [dir, x] = (if clean_elements dir = [] then if dir \<noteq> [] \<and> hd dir = CHR ''/'' then ''/'' else []
    else filepath_Clean dir @ ''/'') @ x"
proof -
  from assms have x: "CHR ''/'' \<notin> set x" "x \<noteq> []" "x \<noteq> ''.''" "x \<noteq> ''..''" by (simp_all add: plain_name_def)
  have one: "clean_step r out x = out @ [x]" for r out by (simp add: clean_step_def x)
  show ?thesis
  proof (cases "dir = []")
    case True
    have "clean_elements x = [x]" by (simp add: clean_elements_def go_Split_char_notin [OF x(1)] one)
    moreover have "hd x \<noteq> CHR ''/''" using x(1,2) by (cases x) auto
    ultimately show ?thesis using True x(2)
      by (simp add: filepath_Join_def filepath_Clean_def clean_elements_def go_Split_char_notin clean_step_def)
  next
    case False
    then have "clean_elements (dir @ ''/'' @ x) = clean_elements dir @ [x]"
      by (simp add: clean_elements_def go_Split_snoc [OF x(1)] one)
    with False x(2) show ?thesis
      by (cases "clean_elements dir = []") (simp_all add: filepath_Join_def filepath_Clean_def Let_def go_Join_snoc Join_elements_nonempty)
  qed
qed

text \<open>The fake API server answers for pods and for nothing else. A path is answered as a pod exactly when it is
  that of a pod of a namespace, and then from the file of that pod, which lies directly in the metadata
  directory whatever the names are; every other path is not found, and nothing else is.\<close>

lemma pod_requests_answered:
  "(podRequest path = Some (ns, pod) \<longleftrightarrow> path = ''/api/v1/namespaces/'' @ ns @ ''/pods/'' @ pod
     \<and> ns \<noteq> [] \<and> pod \<noteq> [] \<and> CHR ''/'' \<notin> set ns \<and> CHR ''/'' \<notin> set pod)
   \<and> (an_Status (answer read marshal dir path) = 404 \<longleftrightarrow> podRequest path = None)
   \<and> (podRequest path = Some (ns, pod) \<longrightarrow>
        metadata_file dir ns pod = (if clean_elements dir = [] then if dir \<noteq> [] \<and> hd dir = CHR ''/'' then ''/'' else []
          else filepath_Clean dir @ ''/'') @ ns @ ''_'' @ pod @ ''.json'')"
proof (intro conjI impI)
  show "podRequest path = Some (ns, pod) \<longleftrightarrow> path = ''/api/v1/namespaces/'' @ ns @ ''/pods/'' @ pod
     \<and> ns \<noteq> [] \<and> pod \<noteq> [] \<and> CHR ''/'' \<notin> set ns \<and> CHR ''/'' \<notin> set pod" by (rule podRequest_iff)
  show "an_Status (answer read marshal dir path) = 404 \<longleftrightarrow> podRequest path = None"
    by (simp add: answer_def Let_def split: option.split prod.split sum.split)
  assume "podRequest path = Some (ns, pod)"
  then have "plain_name (ns @ ''_'' @ pod @ ''.json'')" unfolding podRequest_iff
    by (auto simp: plain_name_def append_eq_Cons_conv)
  from Join_name [OF this] show "metadata_file dir ns pod = (if clean_elements dir = [] then if dir \<noteq> [] \<and> hd dir = CHR ''/'' then ''/'' else []
          else filepath_Clean dir @ ''/'') @ ns @ ''_'' @ pod @ ''.json''" by (simp add: metadata_file_def)
qed

end
