(* ===== verification/Monitors.thy ===== *)
theory Monitors
  imports Go_Text Builder
begin

text \<open>
  Starting the operator: the PodMonitor for its own metrics (\<open>internal/utils/service-monitor.go\<close>,
  \<open>ResourceExists\<close> of \<open>internal/utils/common.go\<close>), the level of its logger (\<open>internal/utils/logger.go\<close>) and the
  manager (\<open>internal/manager/manager.go\<close>, \<open>cmd/operator/main.go\<close>). The discovery client, the client of the
  monitoring API and the calls of controller-runtime are a parameter.
\<close>

section \<open>Pod monitors\<close>

record api_resource_list =
  arl_GroupVersion :: string
  arl_Kinds :: "string list"

record pod_metrics_endpoint =
  pme_Port :: string
  pme_Interval :: string
  pme_ScrapeTimeout :: string

record pod_monitor =
  pm_Meta :: object_meta
  pm_MatchLabels :: "string gomap"
  pm_PodMetricsEndpoints :: "pod_metrics_endpoint list"

record 'w monitor_env =
  me_ServerGroupsAndResources :: "('w, api_resource_list list) eff"
  me_CreatePodMonitor :: "string \<Rightarrow> pod_monitor \<Rightarrow> ('w, unit) eff"

definition ErrPodMonitorNotPresent :: go_error where
  "ErrPodMonitorNotPresent = errors_New ''no PodMonitor registered with the API''"

definition SelectorLabels :: "string gomap" where
  "SelectorLabels = Some [''name'' \<mapsto> ''logging-operator'']"

definition ResourceExists :: "'w monitor_env \<Rightarrow> string \<Rightarrow> string \<Rightarrow> ('w, bool) eff" where
  "ResourceExists env apiGroupVersion kind =
     tryM (me_ServerGroupsAndResources env) (\<lambda>apiLists.
       okM (list_ex (\<lambda>apiList. arl_GroupVersion apiList = apiGroupVersion \<and> list_ex (\<lambda>r. r = kind) (arl_Kinds apiList)) apiLists))"

definition hasPodMonitor :: "'w monitor_env \<Rightarrow> ('w, bool) eff" where
  "hasPodMonitor env = ResourceExists env ''monitoring.coreos.com/v1'' ''PodMonitor''"

definition populateEndpointsFromServicePorts :: "service \<Rightarrow> string \<Rightarrow> string \<Rightarrow> pod_metrics_endpoint list" where
  "populateEndpointsFromServicePorts s sInterval sTimeout =
     map (\<lambda>port. \<lparr>pme_Port = sp_Name port, pme_Interval = sInterval, pme_ScrapeTimeout = sTimeout\<rparr>) (svs_Ports (sv_Spec s))"

definition GeneratePodMonitor :: "service \<Rightarrow> string \<Rightarrow> string \<Rightarrow> pod_monitor" where
  "GeneratePodMonitor s sInterval sTimeout =
     (let nm = om_Name (sv_Meta s); ns = om_Namespace (sv_Meta s)
      in \<lparr>pm_Meta = (meta_named nm ns)\<lparr>om_Labels := MergeLabels [ResourceLabels nm ComponentMonitoring,
              Some [''app.kubernetes.io/instance'' \<mapsto> GetInstanceLabel nm ns]]\<rparr>,
          pm_MatchLabels = SelectorLabels,
          pm_PodMetricsEndpoints = populateEndpointsFromServicePorts s sInterval sTimeout\<rparr>)"

text \<open>A nil service is skipped; a monitor that exists already ends the loop without an error.\<close>

fun create_monitors :: "'w monitor_env \<Rightarrow> string \<Rightarrow> service option list \<Rightarrow> string \<Rightarrow> string \<Rightarrow> ('w, unit) eff" where
  "create_monitors env ns [] sInterval sTimeout = okM ()"
| "create_monitors env ns (None # services) sInterval sTimeout = create_monitors env ns services sInterval sTimeout"
| "create_monitors env ns (Some s # services) sInterval sTimeout = do {
     r \<leftarrow> me_CreatePodMonitor env ns (GeneratePodMonitor s sInterval sTimeout);
     case r of
       Inl e \<Rightarrow> if IsAlreadyExists e then okM () else failM e
     | Inr _ \<Rightarrow> create_monitors env ns services sInterval sTimeout }"

definition CreatePodMonitors :: "'w monitor_env \<Rightarrow> string \<Rightarrow> service option list \<Rightarrow> string \<Rightarrow> string \<Rightarrow> ('w, unit) eff" where
  "CreatePodMonitors env ns services sInterval sTimeout =
     tryM (hasPodMonitor env) (\<lambda>found.
       if \<not> found then failM ErrPodMonitorNotPresent else create_monitors env ns services sInterval sTimeout)"

section \<open>The manager\<close>

definition metricsPort :: int where "metricsPort = 8080"

definition metrics_service :: "string \<Rightarrow> service" where
  "metrics_service namespace =
     (let serviceName = ''logging-operator-metrics'';
          labels = MergeLabels [ResourceLabels serviceName ''logging-operator'',
            Some [''app.kubernetes.io/instance'' \<mapsto> GetInstanceLabel serviceName namespace]]
      in \<lparr>sv_Meta = (meta_named serviceName namespace)\<lparr>om_Labels := labels\<rparr>,
          sv_Spec = \<lparr>svs_Type = [], svs_ClusterIP = [],
            svs_Ports = [\<lparr>sp_Name = ''http-metrics'', sp_Port = metricsPort, sp_Protocol = ''TCP'', sp_TargetPort = metricsPort\<rparr>],
            svs_Selector = labels, svs_IPFamilies = [], svs_IPFamilyPolicy = None\<rparr>\<rparr>)"

text \<open>\<open>getenv\<close> gives the empty string for a variable that is not set. An error is logged.\<close>

definition createMetricsPodMonitor :: "'w monitor_env \<Rightarrow> (string \<Rightarrow> string) \<Rightarrow> string \<Rightarrow> ('w, unit) state" where
  "createMetricsPodMonitor env getenv namespace =
     (if getenv ''SKIP_METRICS_SERVICE'' = ''true'' then State_Monad.return ()
      else logged (CreatePodMonitors env namespace [Some (metrics_service namespace)] (getenv ''SCRAPE_INTERVAL'') (getenv ''SCRAPE_TIMEOUT'')))"

record manager_flags =
  mf_metricsAddr :: string
  mf_probeAddr :: string
  mf_pprofEnabled :: bool
  mf_pprofAddr :: string
  mf_leaderElection :: bool
  mf_leaderElectNamespace :: string
  mf_leaderElectionID :: string

definition default_manager_flags :: manager_flags where
  "default_manager_flags = \<lparr>mf_metricsAddr = '':8080'', mf_probeAddr = '':8081'', mf_pprofEnabled = True, mf_pprofAddr = '':9180'',
     mf_leaderElection = False, mf_leaderElectNamespace = [], mf_leaderElectionID = ''asd23ha2.logging.netcracker.com''\<rparr>"

record manager_options =
  mo_MetricsBindAddress :: string
  mo_HealthProbeBindAddress :: string
  mo_PprofBindAddress :: string
  mo_ReadinessEndpointName :: string
  mo_LivenessEndpointName :: string
  mo_LeaderElection :: bool
  mo_LeaderElectionNamespace :: string
  mo_LeaderElectionID :: string
  mo_CacheNamespaces :: "string list"

record 'w manager_env = "'w monitor_env" +
  mg_Parse :: "string list \<Rightarrow> go_error + manager_flags"
  mg_LookupEnv :: "string \<Rightarrow> string option"
  mg_NewManager :: "manager_options \<Rightarrow> ('w, unit) eff"
  mg_AddHealthzCheck :: "string \<Rightarrow> ('w, unit) eff"
  mg_AddReadyzCheck :: "string \<Rightarrow> ('w, unit) eff"
  mg_SetupController :: "('w, unit) eff"
  mg_Start :: "('w, unit) eff"

definition manager_namespace :: "'w manager_env \<Rightarrow> string" where
  "manager_namespace env = (case mg_LookupEnv env ''WATCH_NAMESPACE'' of None \<Rightarrow> ''logging'' | Some ns \<Rightarrow> ns)"

definition manager_options_of :: "'w manager_env \<Rightarrow> manager_flags \<Rightarrow> manager_options" where
  "manager_options_of env fl = \<lparr>mo_MetricsBindAddress = mf_metricsAddr fl, mo_HealthProbeBindAddress = mf_probeAddr fl,
     mo_PprofBindAddress = (if mf_pprofEnabled fl then mf_pprofAddr fl else []), mo_ReadinessEndpointName = ''/ready'',
     mo_LivenessEndpointName = ''/health'', mo_LeaderElection = mf_leaderElection fl,
     mo_LeaderElectionNamespace = mf_leaderElectNamespace fl, mo_LeaderElectionID = mf_leaderElectionID fl,
     mo_CacheNamespaces = [manager_namespace env]\<rparr>"

text \<open>\<open>fmt.Errorf\<close> with a message and the error of a step.\<close>

definition wrapped :: "string \<Rightarrow> ('w, 'a) eff \<Rightarrow> ('w, 'a) eff" where
  "wrapped msg m = do { r \<leftarrow> m; State_Monad.return (case r of Inl e \<Rightarrow> Inl (Errorf [Lit msg, ArgW e]) | Inr x \<Rightarrow> Inr x) }"

definition getenv_of :: "'w manager_env \<Rightarrow> string \<Rightarrow> string" where
  "getenv_of env name = (case mg_LookupEnv env name of None \<Rightarrow> [] | Some v \<Rightarrow> v)"

definition RunManager :: "'w manager_env \<Rightarrow> string list \<Rightarrow> ('w, unit) eff" where
  "RunManager env args =
     tryM (wrapped ''cannot parse provided flags: '' (pureE (mg_Parse env args))) (\<lambda>fl.
     tryM (wrapped ''unable to create manager: '' (mg_NewManager env (manager_options_of env fl))) (\<lambda>_.
     tryM (wrapped ''unable to set up health check: '' (mg_AddHealthzCheck env ''health'')) (\<lambda>_.
     tryM (wrapped ''unable to set up ready check: '' (mg_AddReadyzCheck env ''ready'')) (\<lambda>_.
     tryM (wrapped ''unable to create the LoggingService controller: '' (mg_SetupController env)) (\<lambda>_. do {
       _ \<leftarrow> createMetricsPodMonitor (monitor_env.truncate env) (getenv_of env) (manager_namespace env);
       wrapped ''problem running manager: '' (mg_Start env)
     })))))"

text \<open>The exit status of the operator.\<close>

definition operator_main :: "'w manager_env \<Rightarrow> string list \<Rightarrow> ('w, nat) state" where
  "operator_main env args = do { r \<leftarrow> RunManager env args; State_Monad.return (case r of Inl _ \<Rightarrow> 1 | Inr _ \<Rightarrow> 0) }"

section \<open>The logger\<close>

datatype log_level = DebugLevel | InfoLevel | WarnLevel | ErrorLevel

definition GetLogLevel :: "(string \<Rightarrow> string) \<Rightarrow> log_level" where
  "GetLogLevel getenv =
     (let level = ascii_ToLower (getenv ''LOG_LEVEL'')
      in if level = ''debug'' then DebugLevel else if level = ''error'' then ErrorLevel
         else if level = ''warn'' then WarnLevel else InfoLevel)"

section \<open>What starting the operator does\<close>









text \<open>The metrics cannot keep the operator from running. When the flags parse and the manager, its two health
  checks and the controller are set up, the manager is started, whatever becomes of the PodMonitor, and
  the operator exits with 0 exactly when the manager stops without an error; when one of these steps
  fails, the operator exits with 1.\<close>

lemma operator_starts:
  "fst (run_state (operator_main env args) w) =
     (case run_state (tryM (pureE (mg_Parse env args)) (\<lambda>fl. tryM (mg_NewManager env (manager_options_of env fl)) (\<lambda>_.
        tryM (mg_AddHealthzCheck env ''health'') (\<lambda>_. tryM (mg_AddReadyzCheck env ''ready'') (\<lambda>_. mg_SetupController env))))) w of
        (Inl e, _) \<Rightarrow> 1
      | (Inr _, w1) \<Rightarrow>
          let w2 = snd (run_state (createMetricsPodMonitor (monitor_env.truncate env) (getenv_of env) (manager_namespace env)) w1)
          in case fst (run_state (mg_Start env) w2) of Inl _ \<Rightarrow> 1 | Inr _ \<Rightarrow> 0)"
  by (auto simp: operator_main_def RunManager_def wrapped_def run_tryM Let_def split: sum.splits prod.splits)

end
