(* ===== verification/Template_Functions.thy ===== *)
theory Template_Functions
  imports Prelude "HOL-Library.Word"
begin

text \<open>
  The functions \<open>ParseTemplate\<close> adds to the template language to check numbers of the custom resource
  (\<open>internal/utils/files.go\<close>), with \<open>strconv.Atoi\<close>. A template hands them a value of any type; an \<open>int\<close> has 64
  bits.
\<close>

section \<open>Numbers\<close>

definition is_digit :: "char \<Rightarrow> bool" where
  "is_digit c \<longleftrightarrow> 48 \<le> (of_char c :: nat) \<and> (of_char c :: nat) \<le> 57"

fun digits_value :: "nat \<Rightarrow> string \<Rightarrow> nat" where
  "digits_value acc [] = acc"
| "digits_value acc (c # cs) = digits_value (10 * acc + (of_char c - 48)) cs"

text \<open>\<open>strconv.Atoi\<close>: an optional sign, at least one digit, nothing else, and a result that fits.\<close>

definition go_Atoi :: "string \<Rightarrow> int option" where
  "go_Atoi s =
     (let neg = (s \<noteq> [] \<and> hd s = CHR ''-'');
          digits = (if s \<noteq> [] \<and> hd s \<in> set ''+-'' then tl s else s);
          n = int (digits_value 0 digits);
          i = (if neg then - n else n)
      in if digits = [] \<or> \<not> list_all is_digit digits then None
         else if - (2 ^ 63) \<le> i \<and> i < 2 ^ 63 then Some i else None)"

section \<open>Validity\<close>

datatype template_value = VIntPtr "(64 word) option" | VInt "64 word" | VInt64 "64 word" | VString string | VOther

definition isValidShards :: "template_value \<Rightarrow> bool" where
  "isValidShards v =
     (case v of
        VIntPtr p \<Rightarrow> (case p of None \<Rightarrow> False | Some i \<Rightarrow> sint i \<ge> 1)
      | VInt i \<Rightarrow> sint i \<ge> 1
      | VInt64 i \<Rightarrow> sint i \<ge> 1
      | VString s \<Rightarrow> (case go_Atoi s of None \<Rightarrow> False | Some i \<Rightarrow> i \<ge> 1)
      | VOther \<Rightarrow> False)"

definition isValidReplicas :: "template_value \<Rightarrow> bool" where
  "isValidReplicas v =
     (case v of
        VIntPtr p \<Rightarrow> (case p of None \<Rightarrow> False | Some i \<Rightarrow> sint i \<ge> 0)
      | VInt i \<Rightarrow> sint i \<ge> 0
      | VInt64 i \<Rightarrow> sint i \<ge> 0
      | VString s \<Rightarrow> (case go_Atoi s of None \<Rightarrow> False | Some i \<Rightarrow> i \<ge> 0)
      | VOther \<Rightarrow> False)"

section \<open>Decimal text\<close>

lemma digits_value_append: "digits_value acc (xs @ ys) = digits_value (digits_value acc xs) ys"
  by (induction xs arbitrary: acc) simp_all

lemma digit_char: "d < 10 \<Longrightarrow> of_char (char_of (48 + d) :: char) = (48 + d :: nat)"
  by (simp add: of_char_of)

lemma nat_digits_value: "digits_value 0 (nat_digits n) = n"
proof (induction n rule: nat_digits.induct)
  case (1 n)
  show ?case
  proof (cases "n < 10")
    case True
    then show ?thesis by (subst nat_digits.simps) (simp add: digit_char)
  next
    case False
    with 1 show ?thesis by (subst nat_digits.simps) (simp add: digits_value_append digit_char)
  qed
qed

lemma nat_digits_digits: "nat_digits n \<noteq> [] \<and> list_all is_digit (nat_digits n)"
proof (induction n rule: nat_digits.induct)
  case (1 n)
  have d: "is_digit (char_of (48 + m mod 10))" for m :: nat by (simp add: is_digit_def digit_char)
  then have "n < 10 \<Longrightarrow> is_digit (char_of (48 + n))" using d [of n] by simp
  then show ?case using 1 d by (subst (1 2) nat_digits.simps) simp
qed

lemma nat_digits_sign: "hd (nat_digits n) \<notin> set ''+-''"
proof -
  have "is_digit (hd (nat_digits n))" using nat_digits_digits [of n] by (cases "nat_digits n") simp_all
  moreover have "\<not> is_digit (CHR ''+'')" "\<not> is_digit (CHR ''-'')" by (simp_all add: is_digit_def)
  ultimately show ?thesis by auto
qed

lemma go_Atoi_Itoa: "go_Atoi (go_Itoa i) = (if - (2 ^ 63) \<le> i \<and> i < 2 ^ 63 then Some i else None)"
  using nat_digits_digits [of "nat i"] nat_digits_digits [of "nat (- i)"] nat_digits_sign [of "nat i"]
  by (cases "i < 0") (auto simp: go_Atoi_def go_Itoa_def Let_def nat_digits_value nat_less_iff)

text \<open>A number is judged alike however a template passes it. A 64-bit number is a valid number of shards
  exactly when it is at least one, and of replicas exactly when it is not negative, as an integer, through
  a pointer or as its decimal text; the text of a number that does not fit 64 bits is rejected, and so
  are a nil pointer, an empty text and any other type.\<close>

lemma template_numbers:
  "isValidShards (VInt i) = (sint i \<ge> 1) \<and> isValidReplicas (VInt i) = (sint i \<ge> 0)
   \<and> (\<forall>valid \<in> {isValidShards, isValidReplicas}.
        valid (VIntPtr (Some i)) = valid (VInt i) \<and> valid (VInt64 i) = valid (VInt i)
        \<and> valid (VString (go_Itoa (sint i))) = valid (VInt i)
        \<and> \<not> valid (VIntPtr None) \<and> \<not> valid VOther \<and> \<not> valid (VString [])
        \<and> (n \<notin> {- (2 ^ 63)..<2 ^ 63} \<longrightarrow> \<not> valid (VString (go_Itoa n))))"
proof -
  have "- (2 ^ 63) \<le> sint i \<and> sint i < 2 ^ 63" using sint_greater_eq [of i] sint_less [of i] by simp
  then have "go_Atoi (go_Itoa (sint i)) = Some (sint i)" by (simp add: go_Atoi_Itoa)
  moreover have "n \<notin> {- (2 ^ 63)..<2 ^ 63} \<Longrightarrow> go_Atoi (go_Itoa n) = None" by (auto simp: go_Atoi_Itoa)
  moreover have "go_Atoi [] = None" by (simp add: go_Atoi_def)
  ultimately show ?thesis by (auto simp: isValidShards_def isValidReplicas_def)
qed

end
