(* ===== verification/Text_Helpers.thy ===== *)
theory Text_Helpers
  imports Credentials Template_Functions
begin

text \<open>
  The helpers of \<open>internal/utils/common.go\<close> that make texts, and \<open>ParseTemplate\<close> of
  \<open>internal/utils/files.go\<close>, which hands the template engine the functions of package sprig and those
  of the operator. The engine, the JSON encoder and the printing of quantities are parameters;
  \<open>time.Duration.String\<close> is modelled.
\<close>

section \<open>Durations\<close>

text \<open>The last \<open>prec\<close> decimal digits of a number, behind a point and without the zeros at their end.\<close>

fun last_digits :: "nat \<Rightarrow> nat \<Rightarrow> string" where
  "last_digits 0 n = []"
| "last_digits (Suc prec) n = last_digits prec (n div 10) @ [char_of (48 + n mod 10)]"

definition fraction_text :: "nat \<Rightarrow> nat \<Rightarrow> string" where
  "fraction_text prec n =
     (let ds = rev (dropWhile (\<lambda>c. c = CHR ''0'') (rev (last_digits prec n)))
      in if ds = [] then [] else CHR ''.'' # ds)"

definition seconds_text :: "nat \<Rightarrow> string" where
  "seconds_text u =
     (let s = u div 10 ^ 9; m = s div 60; h = m div 60
      in (if h > 0 then nat_digits h @ ''h'' else [])
         @ (if m > 0 then nat_digits (m mod 60) @ ''m'' else [])
         @ nat_digits (s mod 60) @ fraction_text 9 u @ ''s'')"

text \<open>\<open>time.Duration.String\<close> on a number of nanoseconds; the micro sign takes two bytes.\<close>

definition duration_String :: "int \<Rightarrow> string" where
  "duration_String d =
     (let u = nat \<bar>d\<bar>
      in (if d < 0 then ''-'' else [])
         @ (if u = 0 then ''0s''
            else if u < 10 ^ 3 then nat_digits u @ ''ns''
            else if u < 10 ^ 6 then nat_digits (u div 10 ^ 3) @ fraction_text 3 u @ [CHR 0xC2, CHR 0xB5, CHR ''s'']
            else if u < 10 ^ 9 then nat_digits (u div 10 ^ 6) @ fraction_text 6 u @ ''ms''
            else seconds_text u))"

text \<open>The remainder of Go has the sign of the dividend.\<close>

definition ToString :: "int \<Rightarrow> string" where
  "ToString duration = duration_String (duration - sgn duration * (\<bar>duration\<bar> mod 10 ^ 6))"

section \<open>Encodings and quantities\<close>

definition ToJSON :: "('a \<Rightarrow> go_error + string) \<Rightarrow> 'a \<Rightarrow> string" where
  "ToJSON marshal x = (case marshal x of Inl _ \<Rightarrow> [] | Inr text \<Rightarrow> text)"

definition GetTimeNow :: "('t \<Rightarrow> string \<Rightarrow> string) \<Rightarrow> 't \<Rightarrow> string" where
  "GetTimeNow format now = format now ''2006-01-02T15:04:05Z07:00''"

text \<open>A missing key gives the zero quantity.\<close>

definition GetFromResourceMap :: "(quantity \<Rightarrow> string) \<Rightarrow> quantity gomap \<Rightarrow> string \<Rightarrow> string" where
  "GetFromResourceMap print_quantity resourceList key =
     print_quantity (case mget resourceList key of Some q \<Rightarrow> q | None \<Rightarrow> Quantity ''0'')"

section \<open>Templates\<close>

datatype template_function =
    ResIndex "quantity gomap \<Rightarrow> string \<Rightarrow> string"
  | TimeNow string
  | GetAggregators "int \<Rightarrow> int list option"
  | QuoteText "string \<Rightarrow> string"
  | CheckNumber "template_value \<Rightarrow> bool"
  | LibraryFunction string

text \<open>
  The engine parses the text of a template with the functions it may call, and executing it gives what was
  written, and the error when it stopped.
\<close>

record ('t, 'p) template_engine =
  tpl_TxtFuncMap :: "string \<rightharpoonup> template_function"
  tpl_Parse :: "string \<Rightarrow> (string \<rightharpoonup> template_function) \<Rightarrow> string \<Rightarrow> go_error + 't"
  tpl_Execute :: "'t \<Rightarrow> 'p \<Rightarrow> string \<times> go_error option"

definition template_functions :: "('t, 'p) template_engine \<Rightarrow> (quantity \<Rightarrow> string) \<Rightarrow> string \<Rightarrow> (string \<rightharpoonup> template_function)" where
  "template_functions te print_quantity now = (tpl_TxtFuncMap te)(
     ''resIndex'' \<mapsto> ResIndex (GetFromResourceMap print_quantity),
     ''timeNow'' \<mapsto> TimeNow now,
     ''getAggregators'' \<mapsto> GetAggregators GetAggregatorIds,
     ''fluentdQuote'' \<mapsto> QuoteText FluentdQuote,
     ''isValidShards'' \<mapsto> CheckNumber isValidShards,
     ''isValidReplicas'' \<mapsto> CheckNumber isValidReplicas)"

definition ParseTemplate :: "('t, 'p) template_engine \<Rightarrow> (quantity \<Rightarrow> string) \<Rightarrow> string \<Rightarrow> string \<Rightarrow> string \<Rightarrow> 'p \<Rightarrow> go_error + string" where
  "ParseTemplate te print_quantity now fileContent filePath parameters =
     (case tpl_Parse te filePath (template_functions te print_quantity now) fileContent of
        Inl e \<Rightarrow> Inl e
      | Inr goTemplate \<Rightarrow>
          (case tpl_Execute te goTemplate parameters of
             (_, Some e) \<Rightarrow> Inl e
           | (text, None) \<Rightarrow> Inr text))"

section \<open>Properties\<close>

text \<open>
  Log messages show durations in whole milliseconds: what is below a millisecond is dropped toward zero, so a
  duration shorter than a second is printed as its number of milliseconds, and one shorter than a
  millisecond as \<open>0s\<close>.
\<close>

lemma ToString_truncates: "ToString d = duration_String (sgn d * (\<bar>d\<bar> div 10 ^ 6) * 10 ^ 6)"
proof -
  have "d = sgn d * \<bar>d\<bar>" by (simp add: sgn_mult_abs)
  then have "d - sgn d * (\<bar>d\<bar> mod 10 ^ 6) = sgn d * (\<bar>d\<bar> - \<bar>d\<bar> mod 10 ^ 6)"
    by (simp add: algebra_simps)
  also have "\<bar>d\<bar> - \<bar>d\<bar> mod 10 ^ 6 = \<bar>d\<bar> div 10 ^ 6 * 10 ^ 6"
    by (rule minus_mod_eq_div_mult)
  finally show ?thesis by (simp add: ToString_def mult.assoc)
qed

lemma last_digits_zeros: "n mod 10 ^ prec = 0 \<Longrightarrow> list_all (\<lambda>c. c = CHR ''0'') (last_digits prec n)"
proof (induction prec arbitrary: n)
  case (Suc prec)
  have "n mod 10 = n mod 10 ^ Suc prec mod 10" by (simp add: mod_mult2_eq)
  with Suc.prems have "n mod 10 = 0" by simp
  moreover have "n div 10 mod 10 ^ prec = 0"
    using Suc.prems by (auto simp: mod_mult2_eq)
  moreover have "char_of (48 :: nat) = CHR ''0''" by code_simp
  ultimately show ?case using Suc.IH by simp
qed simp

lemma fraction_text_zero: "n mod 10 ^ prec = 0 \<Longrightarrow> fraction_text prec n = []"
  using last_digits_zeros [of n prec] by (simp add: fraction_text_def list_all_iff dropWhile_eq_Nil_conv)

lemma milliseconds_text:
  assumes "0 < m" and "m < 1000"
  shows "duration_String (int m * 10 ^ 6) = nat_digits m @ ''ms''"
proof -
  have "nat \<bar>int m * 10 ^ 6\<bar> = m * 10 ^ 6" by (simp add: nat_mult_distrib abs_mult)
  moreover have "fraction_text 6 (m * 10 ^ 6) = []" by (rule fraction_text_zero) simp
  ultimately show ?thesis using assms by (simp add: duration_String_def Let_def)
qed

lemma ToString_milliseconds:
  assumes "0 \<le> d" and "d < 10 ^ 9"
  shows "ToString d = (if d < 10 ^ 6 then ''0s'' else nat_digits (nat (d div 10 ^ 6)) @ ''ms'')"
proof (cases "d < 10 ^ 6")
  case True
  then show ?thesis using assms by (simp add: ToString_truncates duration_String_def)
next
  case False
  have "ToString d = duration_String (int (nat (d div 10 ^ 6)) * 10 ^ 6)"
    using assms False by (simp add: ToString_truncates)
  also have "\<dots> = nat_digits (nat (d div 10 ^ 6)) @ ''ms''"
    by (rule milliseconds_text) (use False assms in simp_all)
  finally show ?thesis unfolding if_not_P [OF False] .
qed

text \<open>A failure of a template leaves no text, and the operator's functions win over those of sprig.\<close>

lemma ParseTemplate_Inr:
  "ParseTemplate te pq now content path params = Inr text \<longleftrightarrow>
     (\<exists>t. tpl_Parse te path (template_functions te pq now) content = Inr t \<and> tpl_Execute te t params = (text, None))"
  by (auto simp: ParseTemplate_def split: sum.splits prod.splits option.splits)

end
