(* ===== verification/Golden.thy ===== *)
theory Golden
  imports Parser_Properties
begin

text \<open>
  The golden-file tests of the builders (\<open>internal/builder/buildertest/golden.go\<close>): every custom
  resource of the test data is a case, the objects a builder makes for it are compared with the files
  of the case, or written to them when the update flag is set. The file system, the YAML package and the
  comparison of texts are parameters. The lemmas show that a comparison passes exactly when the files hold
  what the builder makes, and that the files an update run leaves are accepted by the next
  comparison with the same outcome for every case.
\<close>

section \<open>Definitions\<close>

record ('w, 'o) golden_env = "'w tool_env" +
  ge_Glob :: "string \<Rightarrow> ('w, string list) eff"
  ge_UnmarshalStrict :: "string \<Rightarrow> go_error + logging_service"
  ge_Marshal :: "'o \<Rightarrow> go_error + string"
  ge_Diff :: "string \<Rightarrow> string \<Rightarrow> string"

text \<open>The result of a subtest; a call of \<open>Fatalf\<close> or \<open>Errorf\<close> fails it, \<open>Skip\<close> ends it.\<close>

datatype test_outcome = TestPassed | TestSkipped | TestFailed

definition casesDir :: string where "casesDir = ''../testdata''"

definition strings_TrimSuffix :: "string \<Rightarrow> string \<Rightarrow> string" where
  "strings_TrimSuffix s t = (if go_HasSuffix s t then take (length s - length t) s else s)"

text \<open>\<open>if err != nil { t.Fatalf(...) }\<close> with the parts of the message around the error.\<close>

definition or_fatal :: "fmt_part list \<Rightarrow> fmt_part list \<Rightarrow> ('w, 'a) eff \<Rightarrow> ('w, 'a) eff" where
  "or_fatal before after m = do {
     r \<leftarrow> m;
     case r of Inl e \<Rightarrow> failM (Errorf (before @ [ArgW e] @ after)) | Inr x \<Rightarrow> okM x }"

definition readCR :: "('w, 'o) golden_env \<Rightarrow> string \<Rightarrow> ('w, logging_service) eff" where
  "readCR env path =
     tryM (or_fatal [Lit ''read '', ArgS path, Lit '': ''] [] (te_ReadFile env path)) (\<lambda>raw.
       or_fatal [Lit ''parse '', ArgS path, Lit '': ''] [] (pureE (ge_UnmarshalStrict env raw)))"

text \<open>The value is the list of errors reported by \<open>Errorf\<close>.\<close>

definition compare :: "bool \<Rightarrow> ('w, 'o) golden_env \<Rightarrow> string \<Rightarrow> 'o \<Rightarrow> ('w, string list) eff" where
  "compare update env path object =
     tryM (or_fatal [Lit ''marshal '', ArgS path, Lit '': ''] [] (pureE (ge_Marshal env object))) (\<lambda>got.
       if update then
         tryM (or_fatal [Lit ''create '', ArgS (filepath_Dir path), Lit '': ''] []
           (te_MkdirAll env (filepath_Dir path))) (\<lambda>_.
         tryM (or_fatal [Lit ''write '', ArgS path, Lit '': ''] [] (te_WriteFile env path got)) (\<lambda>_.
         okM []))
       else
         tryM (or_fatal [Lit ''read '', ArgS path, Lit '': '']
           [Lit ''; run the tests with -args -update to create it''] (te_ReadFile env path)) (\<lambda>want.
         let diff = ge_Diff env want got
         in okM (if diff \<noteq> [] then [path @ '' differs from the builder output (-want +got):'' @ [CHR 0x0A] @ diff]
                 else [])))"

definition case_name :: "string \<Rightarrow> string" where
  "case_name path = strings_TrimSuffix (filepath_Base path) ''.yaml''"

definition golden_path :: "string \<Rightarrow> string \<Rightarrow> string" where
  "golden_path name key = filepath_Join [''testdata'', name, key @ ''.yaml'']"

fun compare_keys :: "bool \<Rightarrow> ('w, 'o) golden_env \<Rightarrow> string \<Rightarrow> (string \<times> 'o) list \<Rightarrow> string list \<Rightarrow> ('w, string list) eff" where
  "compare_keys update env name objects [] = okM []"
| "compare_keys update env name objects (key # keys) =
     tryM (compare update env (golden_path name key) (the (map_of objects key))) (\<lambda>errs.
     tryM (compare_keys update env name objects keys) (\<lambda>errs'. okM (errs @ errs')))"

type_synonym 'o build = "logging_service \<Rightarrow> (string \<times> 'o) list"

text \<open>One subtest; no value when it is skipped.\<close>

definition golden_subtest :: "bool \<Rightarrow> ('w, 'o) golden_env \<Rightarrow> 'o build \<Rightarrow> string \<Rightarrow> ('w, string list option) eff" where
  "golden_subtest update env build path =
     tryM (readCR env path) (\<lambda>cr.
       let objects = build cr
       in if length objects = 0 then okM None
          else tryM (compare_keys update env (case_name path) objects (sort (map fst objects)))
                 (\<lambda>errs. okM (Some errs)))"

fun subtest_outcome :: "go_error + string list option \<Rightarrow> test_outcome" where
  "subtest_outcome (Inl _) = TestFailed"
| "subtest_outcome (Inr None) = TestSkipped"
| "subtest_outcome (Inr (Some errs)) = (if errs = [] then TestPassed else TestFailed)"

fun golden_cases :: "bool \<Rightarrow> ('w, 'o) golden_env \<Rightarrow> 'o build \<Rightarrow> string list \<Rightarrow> ('w, (string \<times> test_outcome) list) state" where
  "golden_cases update env build [] = State_Monad.return []"
| "golden_cases update env build (path # paths) = do {
     r \<leftarrow> golden_subtest update env build path;
     rs \<leftarrow> golden_cases update env build paths;
     State_Monad.return ((case_name path, subtest_outcome r) # rs) }"

definition golden_Run :: "bool \<Rightarrow> ('w, 'o) golden_env \<Rightarrow> 'o build \<Rightarrow> ('w, (string \<times> test_outcome) list) eff" where
  "golden_Run update env build = do {
     r \<leftarrow> ge_Glob env (filepath_Join [casesDir, ''*.yaml'']);
     case r of
       Inl e \<Rightarrow> failM (Errorf [Lit ''no test cases in '', ArgS casesDir, Lit '': '', ArgW e])
     | Inr paths \<Rightarrow>
         if length paths = 0 then failM (Errorf [Lit ''no test cases in '', ArgS casesDir, Lit '': <nil>''])
         else do {
           rs \<leftarrow> golden_cases update env build paths;
           State_Monad.return (Inr rs) } }"

section \<open>A comparison is exact\<close>

text \<open>
  What the tests rely on: files hold what was written to them, a file that exists can be read, and
  the comparison of two texts is empty exactly when they are equal.
\<close>

definition golden_law :: "('w, 'o) golden_env \<Rightarrow> ('w \<Rightarrow> string \<rightharpoonup> string) \<Rightarrow> bool" where
  "golden_law env files \<longleftrightarrow>
     files_law (tool_env.truncate env) files
     \<and> (\<forall>w p c. files w p = Some c \<longrightarrow> fst (run_state (te_ReadFile env p) w) = Inr c)
     \<and> (\<forall>a b. ge_Diff env a b = [] \<longleftrightarrow> a = b)"

lemma golden_lawD:
  assumes "golden_law env files"
  shows "run_state (te_ReadFile env p) w = (Inr c, w') \<Longrightarrow> files w p = Some c \<and> files w' = files w"
    and "run_state (te_MkdirAll env p) w = (Inr u, w') \<Longrightarrow> files w' = files w"
    and "run_state (te_WriteFile env p c) w = (Inr u, w') \<Longrightarrow> files w' = (files w)(p \<mapsto> c)"
    and "ge_Diff env a b = [] \<longleftrightarrow> a = b"
  using assms files_lawD [of "tool_env.truncate env" files]
  by (simp_all add: golden_law_def tool_env.truncate_def)

lemma read_existing:
  assumes "golden_law env files" and "files w p = Some c"
  obtains w' where "run_state (te_ReadFile env p) w = (Inr c, w')" "files w' = files w"
proof -
  obtain r w' where r: "run_state (te_ReadFile env p) w = (r, w')" by fastforce
  have "fst (run_state (te_ReadFile env p) w) = Inr c"
    using assms unfolding golden_law_def by blast
  with r have r': "run_state (te_ReadFile env p) w = (Inr c, w')" by simp
  with golden_lawD(1) [OF assms(1)] that show thesis by blast
qed

lemma or_fatal_Inr: "run_state (or_fatal x y m) w = (Inr v, w') \<longleftrightarrow> run_state m w = (Inr v, w')"
  by (auto simp: or_fatal_def split: prod.splits sum.splits)

lemma readCR_Inr:
  "run_state (readCR env p) w = (Inr cr, w') \<longleftrightarrow>
     (\<exists>raw. run_state (te_ReadFile env p) w = (Inr raw, w') \<and> ge_UnmarshalStrict env raw = Inr cr)"
  by (auto simp: readCR_def or_fatal_Inr or_fatal_def run_tryM split: prod.splits sum.splits)

text \<open>The file of an object holds what the builder makes.\<close>

definition golden_holds :: "('w, 'o) golden_env \<Rightarrow> (string \<rightharpoonup> string) \<Rightarrow> string \<Rightarrow> 'o \<Rightarrow> bool" where
  "golden_holds env fs p x \<longleftrightarrow> (case ge_Marshal env x of Inl _ \<Rightarrow> False | Inr got \<Rightarrow> fs p = Some got)"

lemma compare_passes:
  assumes "golden_law env files" and "run_state (compare False env p x) w = (Inr errs, w')"
  shows "files w' = files w \<and> (errs = [] \<longleftrightarrow> golden_holds env (files w) p x)"
  using assms(2) golden_lawD(4) [OF assms(1)]
  by (auto simp: compare_def golden_holds_def Let_def elim!: tryM_InrE split: if_splits
    dest!: or_fatal_Inr [THEN iffD1] golden_lawD(1) [OF assms(1)])

lemma compare_holds:
  assumes "golden_law env files" and "golden_holds env (files w) p x"
  shows "\<exists>w'. run_state (compare False env p x) w = (Inr [], w') \<and> files w' = files w"
proof -
  from assms obtain got where g: "ge_Marshal env x = Inr got" "files w p = Some got"
    by (auto simp: golden_holds_def split: sum.splits)
  from read_existing [OF assms(1) g(2)] obtain w'
    where "run_state (te_ReadFile env p) w = (Inr got, w')" "files w' = files w" .
  with g golden_lawD(4) [OF assms(1)] show ?thesis
    by (simp add: compare_def or_fatal_def Let_def run_tryM)
qed

lemma compare_updates:
  assumes "golden_law env files" and "run_state (compare True env p x) w = (Inr errs, w')"
  shows "\<exists>got. ge_Marshal env x = Inr got \<and> files w' = (files w)(p \<mapsto> got) \<and> errs = []"
  using assms(2)
  by (auto simp: compare_def elim!: tryM_InrE
    dest!: or_fatal_Inr [THEN iffD1] golden_lawD(2,3) [OF assms(1)])

lemma compare_keys_passes:
  assumes L: "golden_law env files" and "run_state (compare_keys False env name objects keys) w = (Inr errs, w')"
  shows "files w' = files w \<and>
    (errs = [] \<longleftrightarrow> (\<forall>k \<in> set keys. golden_holds env (files w) (golden_path name k) (the (map_of objects k))))"
  using assms(2)
proof (induction keys arbitrary: w errs)
  case (Cons k keys)
  from Cons.prems obtain e w1 e' where
    1: "run_state (compare False env (golden_path name k) (the (map_of objects k))) w = (Inr e, w1)" and
    2: "run_state (compare_keys False env name objects keys) w1 = (Inr e', w')" "errs = e @ e'"
    by (auto elim!: tryM_InrE)
  from Cons.IH [OF 2(1)] compare_passes [OF L 1] 2(2) show ?case by simp
qed simp

lemma compare_keys_holds:
  assumes L: "golden_law env files"
    and "\<forall>k \<in> set keys. golden_holds env (files w) (golden_path name k) (the (map_of objects k))"
  shows "\<exists>w'. run_state (compare_keys False env name objects keys) w = (Inr [], w') \<and> files w' = files w"
  using assms(2)
proof (induction keys arbitrary: w)
  case (Cons k keys)
  then have "golden_holds env (files w) (golden_path name k) (the (map_of objects k))" by simp
  from compare_holds [OF L this] obtain w1 where
    1: "run_state (compare False env (golden_path name k) (the (map_of objects k))) w = (Inr [], w1)" "files w1 = files w"
    by blast
  from Cons.prems 1(2) have "\<forall>k \<in> set keys. golden_holds env (files w1) (golden_path name k) (the (map_of objects k))"
    by simp
  from Cons.IH [OF this] 1 show ?case by auto
qed simp

text \<open>A subtest without the update flag passes exactly when all files hold what the builder makes.\<close>

lemma subtest_passes_iff:
  assumes L: "golden_law env files" and "files w path = Some raw" and "ge_UnmarshalStrict env raw = Inr cr"
  shows "subtest_outcome (fst (run_state (golden_subtest False env build path) w)) = TestPassed \<longleftrightarrow>
    build cr \<noteq> [] \<and>
    (\<forall>k \<in> fst ` set (build cr). golden_holds env (files w) (golden_path (case_name path) k) (the (map_of (build cr) k)))"
    (is "?passed \<longleftrightarrow> ?holds")
proof -
  from read_existing [OF L assms(2)] obtain w1 where
    w1: "run_state (te_ReadFile env path) w = (Inr raw, w1)" "files w1 = files w" .
  with assms(3) have cr: "run_state (readCR env path) w = (Inr cr, w1)" by (auto simp: readCR_Inr)
  let ?keys = "sort (map fst (build cr))"
  obtain r w2 where r: "run_state (compare_keys False env (case_name path) (build cr) ?keys) w1 = (r, w2)" by fastforce
  show ?thesis
  proof
    assume ?passed
    then show ?holds
      using cr r compare_keys_passes [OF L, of "case_name path" "build cr" ?keys w1] w1(2)
      by (auto simp: golden_subtest_def Let_def run_tryM split: sum.splits if_splits)
  next
    assume h: ?holds
    then have "\<forall>k \<in> set ?keys. golden_holds env (files w1) (golden_path (case_name path) k) (the (map_of (build cr) k))"
      using w1(2) by simp
    from compare_keys_holds [OF L this] r h cr show ?passed
      by (auto simp: golden_subtest_def Let_def)
  qed
qed

section \<open>What an update leaves\<close>

text \<open>
  The layout of the test data: the case files are distinct, a builder names each object once, and the expected
  files of different cases and keys are different files, none of which is a case file.
\<close>

definition golden_layout :: "'o build \<Rightarrow> string list \<Rightarrow> bool" where
  "golden_layout build paths \<longleftrightarrow>
     distinct paths \<and> (\<forall>cr. distinct (map fst (build cr))) \<and>
     (\<forall>f \<in> set paths. \<forall>g \<in> set paths. \<forall>cr cr'. \<forall>k \<in> fst ` set (build cr). \<forall>l \<in> fst ` set (build cr').
        golden_path (case_name f) k \<noteq> g \<and>
        (golden_path (case_name f) k = golden_path (case_name g) l \<longrightarrow> f = g \<and> k = l))"

lemma compare_keys_updates:
  assumes L: "golden_law env files" and "run_state (compare_keys True env name objects keys) w = (Inr errs, w')"
    and "distinct keys" and "inj_on (golden_path name) (set keys)"
  shows "errs = [] \<and> (\<forall>p. p \<notin> golden_path name ` set keys \<longrightarrow> files w' p = files w p) \<and>
    (\<forall>k \<in> set keys. golden_holds env (files w') (golden_path name k) (the (map_of objects k)))"
  using assms(2-)
proof (induction keys arbitrary: w errs)
  case (Cons k keys)
  from Cons.prems(1) obtain e w1 e' where
    1: "run_state (compare True env (golden_path name k) (the (map_of objects k))) w = (Inr e, w1)" and
    2: "run_state (compare_keys True env name objects keys) w1 = (Inr e', w')" "errs = e @ e'"
    by (auto elim!: tryM_InrE)
  from compare_updates [OF L 1] obtain got where g: "ge_Marshal env (the (map_of objects k)) = Inr got"
    "files w1 = (files w)(golden_path name k \<mapsto> got)" "e = []" by blast
  from Cons.prems(2,3) have "distinct keys" "inj_on (golden_path name) (set keys)"
    "golden_path name k \<notin> golden_path name ` set keys" by auto
  with Cons.IH [OF 2(1)] g 2(2) show ?case by (auto simp: golden_holds_def)
qed simp

lemma golden_layoutD:
  assumes "golden_layout build paths" and "f \<in> set paths"
  shows "distinct (map fst (build cr))" and "inj_on (golden_path (case_name f)) (fst ` set (build cr))"
    and "golden_path (case_name f) ` fst ` set (build cr) \<inter> set paths = {}"
    and "g \<in> set paths \<Longrightarrow> g \<noteq> f \<Longrightarrow>
      golden_path (case_name f) ` fst ` set (build cr) \<inter> golden_path (case_name g) ` fst ` set (build cr') = {}"
proof -
  show "distinct (map fst (build cr))" using assms unfolding golden_layout_def by blast
  show "inj_on (golden_path (case_name f)) (fst ` set (build cr))"
    using assms unfolding golden_layout_def inj_on_def by blast
  show "golden_path (case_name f) ` fst ` set (build cr) \<inter> set paths = {}"
    using assms unfolding golden_layout_def by blast
  show "golden_path (case_name f) ` fst ` set (build cr) \<inter> golden_path (case_name g) ` fst ` set (build cr') = {}"
    if "g \<in> set paths" "g \<noteq> f"
    using assms that unfolding golden_layout_def by blast
qed

text \<open>What holds of a case that an update run did not fail.\<close>

definition case_accepted :: "('w, 'o) golden_env \<Rightarrow> 'o build \<Rightarrow> (string \<rightharpoonup> string) \<Rightarrow> string \<Rightarrow> bool" where
  "case_accepted env build fs path \<longleftrightarrow>
     (\<exists>raw cr. fs path = Some raw \<and> ge_UnmarshalStrict env raw = Inr cr \<and>
        (\<forall>k \<in> fst ` set (build cr). golden_holds env fs (golden_path (case_name path) k) (the (map_of (build cr) k))))"

definition case_outcome :: "('w, 'o) golden_env \<Rightarrow> 'o build \<Rightarrow> (string \<rightharpoonup> string) \<Rightarrow> string \<Rightarrow> test_outcome" where
  "case_outcome env build fs path =
     (case fs path of
        None \<Rightarrow> TestFailed
      | Some raw \<Rightarrow>
          (case ge_UnmarshalStrict env raw of
             Inl _ \<Rightarrow> TestFailed
           | Inr cr \<Rightarrow> if build cr = [] then TestSkipped else TestPassed))"

lemma subtest_updates:
  assumes L: "golden_law env files" and lay: "golden_layout build paths" and "path \<in> set paths"
    and run: "run_state (golden_subtest True env build path) w = (r, w')" and "subtest_outcome r \<noteq> TestFailed"
  shows "case_accepted env build (files w') path \<and> subtest_outcome r = case_outcome env build (files w) path \<and>
    (\<exists>cr. \<forall>p. p \<notin> golden_path (case_name path) ` fst ` set (build cr) \<longrightarrow> files w' p = files w p)"
proof -
  from assms(5) obtain v where v: "r = Inr v" by (cases r) auto
  with run obtain cr w1 where cr: "run_state (readCR env path) w = (Inr cr, w1)" and
    rest: "run_state (if length (build cr) = 0 then okM None
      else tryM (compare_keys True env (case_name path) (build cr) (sort (map fst (build cr)))) (\<lambda>errs. okM (Some errs))) w1 = (Inr v, w')"
    unfolding golden_subtest_def Let_def by (auto elim!: tryM_InrE)
  from cr obtain raw where raw: "files w path = Some raw" "files w1 = files w" "ge_UnmarshalStrict env raw = Inr cr"
    unfolding readCR_Inr using golden_lawD(1) [OF L] by blast
  have st: "(\<forall>p. p \<notin> golden_path (case_name path) ` fst ` set (build cr) \<longrightarrow> files w' p = files w1 p) \<and>
    (\<forall>k \<in> fst ` set (build cr). golden_holds env (files w') (golden_path (case_name path) k) (the (map_of (build cr) k)))"
  proof (cases "build cr = []")
    case True
    with rest show ?thesis by simp
  next
    case False
    with rest obtain errs where
      "run_state (compare_keys True env (case_name path) (build cr) (sort (map fst (build cr)))) w1 = (Inr errs, w')"
      by (auto elim!: tryM_InrE)
    from compare_keys_updates [OF L this] golden_layoutD(1,2) [OF lay assms(3), of cr] show ?thesis by simp
  qed
  have "path \<notin> golden_path (case_name path) ` fst ` set (build cr)"
    using golden_layoutD(3) [OF lay assms(3), of cr] assms(3) by blast
  with st have "files w' path = files w path" using raw(2) by simp
  moreover have "subtest_outcome r = case_outcome env build (files w) path"
    using assms(5) v raw(1,3) rest
    by (cases "build cr = []") (auto simp: case_outcome_def elim!: tryM_InrE split: if_splits)
  ultimately show ?thesis using st raw unfolding case_accepted_def by auto
qed

lemma case_accepted_kept:
  assumes "golden_layout build paths" and "f \<in> set paths" and "g \<in> set paths" and "f \<noteq> g"
    and "case_accepted env build fs g"
    and "\<forall>p. p \<notin> golden_path (case_name f) ` fst ` set (build cr) \<longrightarrow> fs' p = fs p"
  shows "case_accepted env build fs' g"
proof -
  from assms(5) obtain raw cr' where c: "fs g = Some raw" "ge_UnmarshalStrict env raw = Inr cr'"
    "\<forall>k \<in> fst ` set (build cr'). golden_holds env fs (golden_path (case_name g) k) (the (map_of (build cr') k))"
    unfolding case_accepted_def by blast
  have "fs' g = fs g"
    using assms(6) golden_layoutD(3) [OF assms(1,2), of cr] assms(3) by auto
  moreover have "fs' (golden_path (case_name g) k) = fs (golden_path (case_name g) k)" if "k \<in> fst ` set (build cr')" for k
    using assms(6) golden_layoutD(4) [OF assms(1,2,3), of cr cr'] assms(4) that by auto
  then have "golden_holds env fs' (golden_path (case_name g) k) x = golden_holds env fs (golden_path (case_name g) k) x"
    if "k \<in> fst ` set (build cr')" for k x
    unfolding golden_holds_def using that by presburger
  ultimately show ?thesis using c unfolding case_accepted_def by metis
qed

lemma cases_updated:
  assumes L: "golden_law env files" and lay: "golden_layout build paths"
    and "set ps \<subseteq> set paths" and "distinct ps"
    and "run_state (golden_cases True env build ps) w = (rs, w')" and "TestFailed \<notin> snd ` set rs"
  shows "(\<forall>f \<in> set ps. case_accepted env build (files w') f) \<and>
    rs = map (\<lambda>f. (case_name f, case_outcome env build (files w) f)) ps \<and>
    (\<forall>f \<in> set paths. files w' f = files w f) \<and>
    (\<forall>f \<in> set paths - set ps. case_accepted env build (files w) f \<longrightarrow> case_accepted env build (files w') f)"
  using assms(3-)
proof (induction ps arbitrary: w rs)
  case (Cons f ps)
  from Cons.prems(3) obtain r w1 rs' where
    1: "run_state (golden_subtest True env build f) w = (r, w1)" and
    2: "run_state (golden_cases True env build ps) w1 = (rs', w')" "rs = (case_name f, subtest_outcome r) # rs'"
    by (auto split: prod.splits)
  have f: "f \<in> set paths" "subtest_outcome r \<noteq> TestFailed" using Cons.prems(1,4) 2(2) by auto
  from subtest_updates [OF L lay f(1) 1 f(2)] obtain cr where u: "case_accepted env build (files w1) f"
    "subtest_outcome r = case_outcome env build (files w) f"
    "\<forall>p. p \<notin> golden_path (case_name f) ` fst ` set (build cr) \<longrightarrow> files w1 p = files w p" by blast
  have IH: "\<forall>g \<in> set ps. case_accepted env build (files w') g"
    "rs' = map (\<lambda>f. (case_name f, case_outcome env build (files w1) f)) ps"
    "\<forall>g \<in> set paths. files w' g = files w1 g"
    "\<forall>g \<in> set paths - set ps. case_accepted env build (files w1) g \<longrightarrow> case_accepted env build (files w') g"
    using Cons.IH [OF _ _ 2(1)] Cons.prems 2(2) by auto
  have same: "files w1 g = files w g" if "g \<in> set paths" for g
    using u(3) golden_layoutD(3) [OF lay f(1), of cr] that by blast
  then have "rs' = map (\<lambda>f. (case_name f, case_outcome env build (files w) f)) ps"
    using IH(2) Cons.prems(1) by (auto simp: case_outcome_def)
  moreover have "case_accepted env build (files w1) g"
    if "g \<in> set paths - set (f # ps)" "case_accepted env build (files w) g" for g
    using case_accepted_kept [OF lay f(1) _ _ that(2) u(3)] that(1) by auto
  ultimately show ?case using IH u(1,2) f(1) Cons.prems(2) 2(2) same by auto
qed simp

lemma cases_accepted_pass:
  assumes L: "golden_law env files" and "\<forall>f \<in> set ps. case_accepted env build (files w) f"
  shows "\<exists>w'. run_state (golden_cases False env build ps) w =
    (map (\<lambda>f. (case_name f, case_outcome env build (files w) f)) ps, w') \<and> files w' = files w"
  using assms(2)
proof (induction ps arbitrary: w)
  case (Cons f ps)
  then obtain raw cr where c: "files w f = Some raw" "ge_UnmarshalStrict env raw = Inr cr"
    "\<forall>k \<in> fst ` set (build cr). golden_holds env (files w) (golden_path (case_name f) k) (the (map_of (build cr) k))"
    unfolding case_accepted_def by fastforce
  from read_existing [OF L c(1)] obtain w1 where
    w1: "run_state (te_ReadFile env f) w = (Inr raw, w1)" "files w1 = files w" .
  with c(2) have cr: "run_state (readCR env f) w = (Inr cr, w1)" by (auto simp: readCR_Inr)
  obtain w2 where k: "run_state (compare_keys False env (case_name f) (build cr) (sort (map fst (build cr)))) w1 = (Inr [], w2)"
    "files w2 = files w1"
    using compare_keys_holds [OF L, of "sort (map fst (build cr))" w1 "case_name f" "build cr"] c(3) w1(2) by auto
  obtain v w3 where sub: "run_state (golden_subtest False env build f) w = (Inr v, w3)" "files w3 = files w"
    "subtest_outcome (Inr v) = case_outcome env build (files w) f"
    using cr k w1(2) c(1,2) by (cases "build cr = []") (auto simp: golden_subtest_def case_outcome_def Let_def)
  with Cons.prems have "\<forall>g \<in> set ps. case_accepted env build (files w3) g" by simp
  from Cons.IH [OF this] sub show ?case by auto
qed simp

section \<open>Properties\<close>

text \<open>The case files are found, and looking for them changes no file.\<close>

definition cases_found :: "('w, 'o) golden_env \<Rightarrow> ('w \<Rightarrow> string \<rightharpoonup> string) \<Rightarrow> string list \<Rightarrow> bool" where
  "cases_found env files paths \<longleftrightarrow>
     (\<forall>w. \<exists>w'. run_state (ge_Glob env (filepath_Join [casesDir, ''*.yaml''])) w = (Inr paths, w') \<and> files w' = files w)"

text \<open>C40: the files a golden-file update leaves are accepted. When a run of the builder tests with the update flag
  fails no case, the run without the flag that follows has the same outcome for every case: what was
  rewritten passes, what is not configured is skipped, and none fails.\<close>

theorem golden_update_accepted:
  assumes "golden_law env files" and "golden_layout build paths" and "cases_found env files paths"
    and "run_state (golden_Run True env build) w = (Inr rs, w')" and "TestFailed \<notin> snd ` set rs"
  shows "\<exists>w''. run_state (golden_Run False env build) w' = (Inr rs, w'') \<and> files w'' = files w'"
proof -
  obtain w1 where w1: "run_state (ge_Glob env (filepath_Join [casesDir, ''*.yaml''])) w = (Inr paths, w1)"
    using assms(3) unfolding cases_found_def by blast
  with assms(4) have ne: "paths \<noteq> []" and run: "run_state (golden_cases True env build paths) w1 = (rs, w')"
    by (auto simp: golden_Run_def split: if_splits prod.splits)
  have "distinct paths" using assms(2) by (simp add: golden_layout_def)
  with cases_updated [OF assms(1,2) _ _ run assms(5)] have u: "\<forall>f \<in> set paths. case_accepted env build (files w') f"
    "rs = map (\<lambda>f. (case_name f, case_outcome env build (files w') f)) paths"
    by (auto simp: case_outcome_def)
  obtain w2 where w2: "run_state (ge_Glob env (filepath_Join [casesDir, ''*.yaml''])) w' = (Inr paths, w2)" "files w2 = files w'"
    using assms(3) unfolding cases_found_def by blast
  with u(1) have "\<forall>f \<in> set paths. case_accepted env build (files w2) f" by simp
  from cases_accepted_pass [OF assms(1) this] ne u(2) w2 show ?thesis
    by (auto simp: golden_Run_def)
qed

definition memory_golden :: "(string \<rightharpoonup> string, string) golden_env" where
  "memory_golden = tool_env.extend memory_env (golden_env.fields (\<lambda>_. okM [''../testdata/a.yaml''])
     (\<lambda>_. Inr zero_logging_service) Inr (\<lambda>a b. if a = b then [] else ''-''))"

lemma memory_golden_law: "golden_law memory_golden (\<lambda>w. w)"
  by (auto simp: golden_law_def files_law_def memory_golden_def memory_env_def tool_env.defs golden_env.defs
    split: option.splits)

lemma memory_layout: "golden_layout (\<lambda>_. [(''service'', ''kind: Service'')]) [''../testdata/a.yaml'']"
proof -
  have "golden_path (case_name ''../testdata/a.yaml'') ''service'' = ''testdata/a/service.yaml''" by code_simp
  then show ?thesis by (simp add: golden_layout_def)
qed

theorem golden_update_accepted_witness:
  "\<exists>w''. run_state (golden_Run False memory_golden (\<lambda>_. [(''service'', ''kind: Service'')]))
     [''../testdata/a.yaml'' \<mapsto> [], ''testdata/a/service.yaml'' \<mapsto> ''kind: Service''] = (Inr [(''a'', TestPassed)], w'')"
proof -
  have p: "golden_path (case_name ''../testdata/a.yaml'') ''service'' = ''testdata/a/service.yaml''"
    "case_name ''../testdata/a.yaml'' = ''a''" by code_simp+
  let ?build = "\<lambda>_ :: logging_service. [(''service'', ''kind: Service'')]"
  have "cases_found memory_golden (\<lambda>w. w) [''../testdata/a.yaml'']"
    by (simp add: cases_found_def memory_golden_def tool_env.defs golden_env.defs memory_env_def)
  moreover have "run_state (golden_Run True memory_golden ?build) [''../testdata/a.yaml'' \<mapsto> []] =
      (Inr [(''a'', TestPassed)], [''../testdata/a.yaml'' \<mapsto> [], ''testdata/a/service.yaml'' \<mapsto> ''kind: Service''])"
    using p by (simp add: golden_Run_def golden_subtest_def readCR_def or_fatal_def compare_def Let_def run_tryM
      memory_golden_def tool_env.defs golden_env.defs memory_env_def)
  ultimately show ?thesis
    using golden_update_accepted [OF memory_golden_law memory_layout] by fastforce
qed

end
