(* ===== verification/Go_Heap.thy ===== *)
theory Go_Heap
  imports Prelude "HOL-Library.Sublist"
begin

text \<open>
  The part of Go's memory that deep copies are about. A value of a struct type is a list of named
  fields; a pointer, a slice or a map is a location of the heap or nil, so that assigning a struct
  copies its scalars and shares everything behind its references. The types of the API package are
  not recursive, so a value is described by recursion on its type: \<open>shape_of\<close> reads a value of a
  type from the heap as a tree whose inner nodes carry the locations they come from, and is undefined
  when the value does not have that type. Forgetting the locations (\<open>contents\<close>) leaves what the
  program can observe of the value without comparing pointers; the locations that occur
  (\<open>set_shape\<close>) are its footprint.
\<close>

section \<open>Types, values and the heap\<close>

datatype gotype =
    Flat
  | Pointer gotype
  | Slice gotype
  | MapOf gotype
  | Struct "(string \<times> gotype) list"

text \<open>\<open>Flat\<close> is a type of scalars: strings, numbers and booleans, each with its own literals.\<close>

datatype hval =
    Scalar string
  | Loc "nat option"
  | Fields "(string \<times> hval) list"

datatype cell =
    Pointee hval
  | Elements "hval list"
  | Entries "(string \<times> hval) list"

text \<open>
  A heap is the list of the cells allocated so far. The entries of a map stand in the order in which
  a \<open>range\<close> loop visits them, which Go leaves open.
\<close>

type_synonym heap = "cell list"

fun cell_at :: "heap \<Rightarrow> nat \<Rightarrow> cell option" where
  "cell_at h a = (if a < length h then Some (h ! a) else None)"

declare cell_at.simps [simp del]

definition pointee_at :: "heap \<Rightarrow> nat \<Rightarrow> hval" where
  "pointee_at h a = (case cell_at h a of Some (Pointee v) \<Rightarrow> v | _ \<Rightarrow> Scalar [])"

definition elements_at :: "heap \<Rightarrow> nat \<Rightarrow> hval list" where
  "elements_at h a = (case cell_at h a of Some (Elements vs) \<Rightarrow> vs | _ \<Rightarrow> [])"

definition entries_at :: "heap \<Rightarrow> nat \<Rightarrow> (string \<times> hval) list" where
  "entries_at h a = (case cell_at h a of Some (Entries kvs) \<Rightarrow> kvs | _ \<Rightarrow> [])"

text \<open>The zero value of a type, which \<open>new\<close> and \<open>make\<close> put into the cells they allocate.\<close>

fun zero_value :: "gotype \<Rightarrow> hval" where
  "zero_value Flat = Scalar []"
| "zero_value (Pointer T) = Loc None"
| "zero_value (Slice T) = Loc None"
| "zero_value (MapOf T) = Loc None"
| "zero_value (Struct ts) = Fields (map (\<lambda>(n, T). (n, zero_value T)) ts)"

section \<open>What a value of a type holds\<close>

datatype 'a shape =
    ScalarShape string
  | NilShape
  | PointerShape 'a "'a shape"
  | SliceShape 'a "'a shape list"
  | MapShape 'a "(string \<times> 'a shape) list"
  | StructShape "(string \<times> 'a shape) list"

fun shape_of :: "heap \<Rightarrow> gotype \<Rightarrow> hval \<Rightarrow> nat shape option"
  and fields_shape :: "heap \<Rightarrow> (string \<times> gotype) list \<Rightarrow> (string \<times> hval) list \<Rightarrow>
         (string \<times> nat shape) list option" where
  "shape_of h Flat v = (case v of Scalar s \<Rightarrow> Some (ScalarShape s) | _ \<Rightarrow> None)"
| "shape_of h (Pointer T) v =
     (case v of
        Loc None \<Rightarrow> Some NilShape
      | Loc (Some a) \<Rightarrow>
          (case cell_at h a of
             Some (Pointee u) \<Rightarrow> map_option (PointerShape a) (shape_of h T u)
           | _ \<Rightarrow> None)
      | _ \<Rightarrow> None)"
| "shape_of h (Slice T) v =
     (case v of
        Loc None \<Rightarrow> Some NilShape
      | Loc (Some a) \<Rightarrow>
          (case cell_at h a of
             Some (Elements us) \<Rightarrow> map_option (SliceShape a) (those (map (shape_of h T) us))
           | _ \<Rightarrow> None)
      | _ \<Rightarrow> None)"
| "shape_of h (MapOf T) v =
     (case v of
        Loc None \<Rightarrow> Some NilShape
      | Loc (Some a) \<Rightarrow>
          (case cell_at h a of
             Some (Entries kvs) \<Rightarrow>
               (if distinct (map fst kvs)
                then map_option (\<lambda>ss. MapShape a (zip (map fst kvs) ss))
                       (those (map (\<lambda>kv. shape_of h T (snd kv)) kvs))
                else None)
           | _ \<Rightarrow> None)
      | _ \<Rightarrow> None)"
| "shape_of h (Struct ts) v =
     (case v of Fields fs \<Rightarrow> map_option StructShape (fields_shape h ts fs) | _ \<Rightarrow> None)"
| "fields_shape h [] fs = (if fs = [] then Some [] else None)"
| "fields_shape h (nT # ts) fs =
     (case fs of
        [] \<Rightarrow> None
      | nu # us \<Rightarrow>
          (if fst nu = fst nT
           then (case shape_of h (snd nT) (snd nu) of
                   None \<Rightarrow> None
                 | Some s \<Rightarrow> map_option (Cons (fst nT, s)) (fields_shape h ts us))
           else None))"

abbreviation contents :: "'a shape \<Rightarrow> unit shape" where
  "contents s \<equiv> map_shape (\<lambda>_. ()) s"

text \<open>Types without references: assigning a value of such a type copies it.\<close>

fun flat_type :: "gotype \<Rightarrow> bool" where
  "flat_type Flat = True"
| "flat_type (Struct ts) = list_all (\<lambda>nT. flat_type (snd nT)) ts"
| "flat_type _ = False"

section \<open>Reading depends on the footprint only\<close>

lemma those_map_nth:
  "those (map f xs) = Some ys \<longleftrightarrow> length ys = length xs \<and> (\<forall>i<length xs. f (xs ! i) = Some (ys ! i))"
proof (induction xs arbitrary: ys)
  case (Cons x xs)
  show ?case
  proof (cases ys)
    case (Cons y ys')
    then show ?thesis
      using Cons.IH [of ys'] by (auto simp: All_less_Suc2 split: option.splits)
  qed (simp split: option.splits)
qed auto

lemma cell_at_SomeD: "cell_at h a = Some c \<Longrightarrow> a < length h"
  by (simp add: cell_at.simps split: if_splits)

lemma cell_at_append [simp]: "a < length h \<Longrightarrow> cell_at (h @ xs) a = cell_at h a"
  by (simp add: cell_at.simps nth_append)

lemma set_shape_slice [simp]:
  "set_shape (SliceShape a ss) = insert a (\<Union>i<length ss. set_shape (ss ! i))"
  by (auto simp: set_conv_nth)

lemma set_shape_map [simp]:
  "length ks = length ss \<Longrightarrow>
     set_shape (MapShape a (zip ks ss)) = insert a (\<Union>i<length ss. set_shape (ss ! i))"
  by (auto simp: prod_set_defs set_conv_nth)

lemma set_shape_struct [simp]:
  "set_shape (StructShape ss) = (\<Union>i<length ss. set_shape (snd (ss ! i)))"
  by (auto simp: prod_set_defs set_conv_nth)

declare shape.set [simp del]

lemmas set_shape_simps [simp] = shape.set(1-3)

text \<open>The shapes a value of each kind of type can have.\<close>

lemma shape_of_Flat:
  "shape_of h Flat v = Some s \<longleftrightarrow> (\<exists>x. v = Scalar x \<and> s = ScalarShape x)"
  by (cases v) auto

lemma shape_of_Pointer:
  "shape_of h (Pointer T) v = Some s \<longleftrightarrow>
     v = Loc None \<and> s = NilShape \<or>
     (\<exists>a u t. v = Loc (Some a) \<and> cell_at h a = Some (Pointee u) \<and> shape_of h T u = Some t \<and>
        s = PointerShape a t)"
  by (auto split: hval.splits option.splits cell.splits)

lemma shape_of_Slice:
  "shape_of h (Slice T) v = Some s \<longleftrightarrow>
     v = Loc None \<and> s = NilShape \<or>
     (\<exists>a us ts. v = Loc (Some a) \<and> cell_at h a = Some (Elements us) \<and> length ts = length us \<and>
        (\<forall>i<length us. shape_of h T (us ! i) = Some (ts ! i)) \<and> s = SliceShape a ts)"
  by (auto simp: those_map_nth split: hval.splits option.splits cell.splits)

lemma shape_of_Map:
  "shape_of h (MapOf T) v = Some s \<longleftrightarrow>
     v = Loc None \<and> s = NilShape \<or>
     (\<exists>a kvs ts. v = Loc (Some a) \<and> cell_at h a = Some (Entries kvs) \<and> distinct (map fst kvs) \<and>
        length ts = length kvs \<and> (\<forall>i<length kvs. shape_of h T (snd (kvs ! i)) = Some (ts ! i)) \<and>
        s = MapShape a (zip (map fst kvs) ts))"
  by (auto simp: those_map_nth split: hval.splits option.splits cell.splits)

lemma fields_shape_nth:
  "fields_shape h ts fs = Some ss \<longleftrightarrow>
     map fst fs = map fst ts \<and> map fst ss = map fst ts \<and>
     (\<forall>i<length ts. shape_of h (snd (ts ! i)) (snd (fs ! i)) = Some (snd (ss ! i)))"
proof (induction ts arbitrary: fs ss)
  case (Cons t ts)
  show ?case
  proof (cases fs)
    case (Cons f fs')
    then show ?thesis
      using Cons.IH [of fs'] 
      by (cases ss) (auto simp: All_less_Suc2 prod_eq_iff split: option.splits)
  qed simp
qed auto

lemma shape_of_Struct:
  "shape_of h (Struct ts) v = Some s \<longleftrightarrow>
     (\<exists>fs ss. v = Fields fs \<and> s = StructShape ss \<and> map fst fs = map fst ts \<and> map fst ss = map fst ts \<and>
        (\<forall>i<length ts. shape_of h (snd (ts ! i)) (snd (fs ! i)) = Some (snd (ss ! i))))"
  by (cases v) (auto simp: fields_shape_nth)

lemmas shape_of_iffs = shape_of_Flat shape_of_Pointer shape_of_Slice shape_of_Map shape_of_Struct

declare shape_of.simps [simp del] fields_shape.simps [simp del]

lemma gotype_induct_nth [case_names Flat Pointer Slice MapOf Struct, induct type: gotype]:
  assumes "P Flat" and "\<And>T. P T \<Longrightarrow> P (Pointer T)" and "\<And>T. P T \<Longrightarrow> P (Slice T)"
    and "\<And>T. P T \<Longrightarrow> P (MapOf T)"
    and "\<And>ts. (\<And>i. i < length ts \<Longrightarrow> P (snd (ts ! i))) \<Longrightarrow> P (Struct ts)"
  shows "P T"
proof (induction T rule: gotype.induct)
  case (Struct ts)
  then show ?case by (intro assms(5)) (metis nth_mem prod_set_simps(2) singletonI snds.intros)
qed (rule assms; assumption)+

lemma same_fstsD: "map fst xs = map fst ys \<Longrightarrow> length xs = length ys"
  by (drule arg_cong [where f = length]) simp

lemma shape_of_frame:
  assumes "shape_of h T v = Some s" and "\<And>a. a \<in> set_shape s \<Longrightarrow> cell_at h' a = cell_at h a"
  shows "shape_of h' T v = Some s"
  using assms
proof (induction T arbitrary: v s)
  case (Slice T)
  from Slice.prems(1) [unfolded shape_of_Slice] show ?case
  proof (elim disjE exE conjE)
    fix a us ts
    assume A: "v = Loc (Some a)" "cell_at h a = Some (Elements us)" "length ts = length us"
      "\<forall>i<length us. shape_of h T (us ! i) = Some (ts ! i)" "s = SliceShape a ts"
    have "\<forall>i<length us. shape_of h' T (us ! i) = Some (ts ! i)"
      using A Slice.prems(2) by (auto intro!: Slice.IH)
    with A show ?thesis using Slice.prems(2) by (simp add: shape_of_Slice)
  qed (simp add: shape_of_Slice)
next
  case (MapOf T)
  from MapOf.prems(1) [unfolded shape_of_Map] show ?case
  proof (elim disjE exE conjE)
    fix a kvs ts
    assume A: "v = Loc (Some a)" "cell_at h a = Some (Entries kvs)" "distinct (map fst kvs)"
      "length ts = length kvs" "\<forall>i<length kvs. shape_of h T (snd (kvs ! i)) = Some (ts ! i)"
      "s = MapShape a (zip (map fst kvs) ts)"
    have "\<forall>i<length kvs. shape_of h' T (snd (kvs ! i)) = Some (ts ! i)"
      using A MapOf.prems(2) by (auto intro!: MapOf.IH)
    with A show ?thesis using MapOf.prems(2) by (auto simp: shape_of_Map)
  qed (simp add: shape_of_Map)
next
  case (Struct ts)
  from Struct.prems show ?case
    unfolding shape_of_Struct by (fastforce intro!: Struct.IH dest: same_fstsD)
qed (auto simp: shape_of_Flat shape_of_Pointer)

lemma shape_of_bound:
  "shape_of h T v = Some s \<Longrightarrow> set_shape s \<subseteq> {..<length h}"
proof (induction T arbitrary: v s)
  case (Slice T)
  from Slice.prems show ?case
    unfolding shape_of_Slice by (fastforce dest: cell_at_SomeD Slice.IH)
next
  case (MapOf T)
  from MapOf.prems show ?case
    unfolding shape_of_Map by (fastforce dest: cell_at_SomeD MapOf.IH)
next
  case (Struct ts)
  from Struct.prems show ?case
    unfolding shape_of_Struct by (fastforce dest: same_fstsD Struct.IH)
qed (fastforce simp: shape_of_Flat shape_of_Pointer dest: cell_at_SomeD)+

lemma flat_shape:
  "flat_type T \<Longrightarrow> shape_of h T v = Some s \<Longrightarrow> set_shape s = {}"
proof (induction T arbitrary: v s)
  case (Struct ts)
  from Struct.prems show ?case
    unfolding shape_of_Struct by (fastforce dest: same_fstsD Struct.IH simp: list_all_length)
qed (auto simp: shape_of_Flat)

lemma flat_shape_of:
  "flat_type T \<Longrightarrow> shape_of h T v = Some s \<Longrightarrow> shape_of h' T v = Some s"
  using flat_shape shape_of_frame by blast

end
