(* ===== verification/Deep_Copy.thy ===== *)
theory Deep_Copy
  imports Go_Heap
begin

text \<open>
  The statements that generated copy functions are made of, and what a copy function promises. A
  function \<open>in.DeepCopyInto(out)\<close> is modelled as a \<open>copier\<close>: from the value of \<open>*in\<close> and the heap
  it gives the value left in \<open>*out\<close> and the heap with the cells it allocated. The generated bodies
  assign \<open>*out = *in\<close> and then overwrite, one field after the other, those that hold references.
  The locale \<open>deep_copy\<close> states the promise (the same contents, in cells allocated by the
  call, and nothing else of the heap touched) and proves what callers rely on.
\<close>

section \<open>The statements of the generated functions\<close>

type_synonym copier = "hval \<Rightarrow> heap \<Rightarrow> hval \<times> heap"

text \<open>\<open>out.X = in.X\<close>\<close>

definition assign_value :: copier where
  "assign_value v h = (v, h)"

text \<open>\<open>*out = new(T); (*in).DeepCopyInto(*out)\<close>, skipped when the pointer is nil.\<close>

definition copy_pointer :: "gotype \<Rightarrow> copier \<Rightarrow> copier" where
  "copy_pointer T f v h =
     (case v of
        Loc (Some a) \<Rightarrow>
          (let out = length h;
               (u, h') = f (pointee_at h a) (h @ [Pointee (zero_value T)])
           in (Loc (Some out), h'[out := Pointee u]))
      | _ \<Rightarrow> (v, h))"

text \<open>\<open>*out = make([]T, len(*in)); copy(*out, *in)\<close>, skipped when the slice is nil.\<close>

definition copy_slice :: copier where
  "copy_slice v h =
     (case v of
        Loc (Some a) \<Rightarrow> (Loc (Some (length h)), h @ [Elements (elements_at h a)])
      | _ \<Rightarrow> (v, h))"

text \<open>
  \<open>*out = make([]T, len(*in))\<close> and a loop that runs \<open>(*in)[i].DeepCopyInto(&(*out)[i])\<close> for every
  index, skipped when the slice is nil. Where the elements are pointers, the body of the loop is
  \<^const>\<open>copy_pointer\<close>.
\<close>

fun copy_loop :: "copier \<Rightarrow> nat \<Rightarrow> nat \<Rightarrow> hval list \<Rightarrow> heap \<Rightarrow> heap" where
  "copy_loop f out i [] h = h"
| "copy_loop f out i (u # us) h =
     (let (u', h') = f u h
      in copy_loop f out (Suc i) us (h'[out := Elements ((elements_at h' out)[i := u'])]))"

definition copy_elements :: "gotype \<Rightarrow> copier \<Rightarrow> copier" where
  "copy_elements T f v h =
     (case v of
        Loc (Some a) \<Rightarrow>
          (let us = elements_at h a; out = length h
           in (Loc (Some out),
               copy_loop f out 0 us (h @ [Elements (replicate (length us) (zero_value T))])))
      | _ \<Rightarrow> (v, h))"

text \<open>
  \<open>*out = make(map[string]string, len(*in))\<close> and a loop that sets \<open>(*out)[key] = val\<close> for every
  entry, skipped when the map is nil.
\<close>

fun put_entry :: "string \<Rightarrow> hval \<Rightarrow> (string \<times> hval) list \<Rightarrow> (string \<times> hval) list" where
  "put_entry k v [] = [(k, v)]"
| "put_entry k v (kv # kvs) = (if fst kv = k then (k, v) # kvs else kv # put_entry k v kvs)"

definition copy_map :: copier where
  "copy_map v h =
     (case v of
        Loc (Some a) \<Rightarrow>
          (Loc (Some (length h)),
           h @ [Entries (fold (\<lambda>(key, val). put_entry key val) (entries_at h a) [])])
      | _ \<Rightarrow> (v, h))"

text \<open>A body: \<open>*out = *in\<close>, then the statements for the fields, each reading from \<open>in\<close>.\<close>

definition field :: "string \<Rightarrow> hval \<Rightarrow> hval" where
  "field n v = (case v of Fields fs \<Rightarrow> (case map_of fs n of Some u \<Rightarrow> u | None \<Rightarrow> v) | _ \<Rightarrow> v)"

definition set_field :: "string \<Rightarrow> hval \<Rightarrow> hval \<Rightarrow> hval" where
  "set_field n u v =
     (case v of Fields fs \<Rightarrow> Fields (map (\<lambda>nw. if fst nw = n then (n, u) else nw) fs) | _ \<Rightarrow> v)"

fun copy_fields :: "(string \<times> copier) list \<Rightarrow> hval \<Rightarrow> hval \<Rightarrow> heap \<Rightarrow> hval \<times> heap" where
  "copy_fields [] v out h = (out, h)"
| "copy_fields ((n, f) # steps) v out h =
     (let (u, h') = f (field n v) h in copy_fields steps v (set_field n u out) h')"

definition copy_struct :: "(string \<times> copier) list \<Rightarrow> copier" where
  "copy_struct steps v h = copy_fields steps v v h"

section \<open>What a copy function promises\<close>

definition copies_to :: "heap \<Rightarrow> gotype \<Rightarrow> nat shape \<Rightarrow> hval \<Rightarrow> heap \<Rightarrow> bool" where
  "copies_to h T s v' h' \<longleftrightarrow>
     (\<exists>t. shape_of h' T v' = Some t \<and> contents t = contents s \<and> set_shape t \<subseteq> {length h..<length h'})"

definition copies :: "gotype \<Rightarrow> copier \<Rightarrow> bool" where
  "copies T f \<longleftrightarrow>
     (\<forall>h v s v' h'. shape_of h T v = Some s \<longrightarrow> f v h = (v', h') \<longrightarrow>
        prefix h h' \<and> copies_to h T s v' h')"

lemma copiesI:
  "(\<And>h v s v' h'. shape_of h T v = Some s \<Longrightarrow> f v h = (v', h') \<Longrightarrow>
      prefix h h' \<and> copies_to h T s v' h') \<Longrightarrow> copies T f"
  by (auto simp: copies_def)

lemma copiesE:
  assumes "copies T f" and "shape_of h T v = Some s" and "f v h = (v', h')"
  obtains t where "prefix h h'" "shape_of h' T v' = Some t" "contents t = contents s"
    "set_shape t \<subseteq> {length h..<length h'}"
  using assms unfolding copies_def copies_to_def by blast

lemma shape_of_prefix:
  assumes "shape_of h T v = Some s" and "prefix h h'"
  shows "shape_of h' T v = Some s"
proof (rule shape_of_frame [OF assms(1)])
  fix a
  assume "a \<in> set_shape s"
  with shape_of_bound [OF assms(1)] have "a < length h" by auto
  with assms(2) show "cell_at h' a = cell_at h a" by (auto simp: prefix_def)
qed

lemma prefix_cell_at:
  "prefix h h' \<longleftrightarrow> length h \<le> length h' \<and> (\<forall>a<length h. cell_at h' a = cell_at h a)"
proof
  assume *: "length h \<le> length h' \<and> (\<forall>a<length h. cell_at h' a = cell_at h a)"
  then have "take (length h) h' = h"
    by (intro nth_equalityI) (auto simp: cell_at.simps split: if_splits)
  then show "prefix h h'" by (metis take_is_prefix)
qed (auto simp: prefix_def)

lemma copies_assign_value: "flat_type T \<Longrightarrow> copies T assign_value"
  by (rule copiesI) (auto simp: copies_to_def assign_value_def dest: flat_shape)

lemma shape_of_update:
  assumes "shape_of h T v = Some s" and "a \<notin> set_shape s"
  shows "shape_of (h[a := c]) T v = Some s"
proof (rule shape_of_frame [OF assms(1)])
  fix b
  assume "b \<in> set_shape s"
  with assms(2) have "a \<noteq> b" by auto
  then show "cell_at (h[a := c]) b = cell_at h b" by (simp add: cell_at.simps)
qed

lemma copies_pointer:
  assumes f: "copies T f"
  shows "copies (Pointer T) (copy_pointer T f)"
proof (rule copiesI)
  fix h v s v' h'
  assume s: "shape_of h (Pointer T) v = Some s" and run: "copy_pointer T f v h = (v', h')"
  show "prefix h h' \<and> copies_to h (Pointer T) s v' h'"
  proof (cases "v = Loc None")
    case True
    with s run show ?thesis by (auto simp: copy_pointer_def copies_to_def shape_of_Pointer)
  next
    case False
    with s obtain a u t where v: "v = Loc (Some a)" "cell_at h a = Some (Pointee u)"
      "shape_of h T u = Some t" "s = PointerShape a t"
      unfolding shape_of_Pointer by auto
    let ?h = "h @ [Pointee (zero_value T)]"
    obtain u' h1 where r: "f u ?h = (u', h1)" by fastforce
    have "shape_of ?h T u = Some t" by (rule shape_of_prefix [OF v(3)]) simp
    from f this r obtain t' where t': "prefix ?h h1" "shape_of h1 T u' = Some t'"
      "contents t' = contents t" "set_shape t' \<subseteq> {length ?h..<length h1}" by (rule copiesE)
    from t'(1) obtain xs where h1: "h1 = h @ Pointee (zero_value T) # xs" by (auto simp: prefix_def)
    have res: "v' = Loc (Some (length h))" "h' = h1[length h := Pointee u']"
      using run r v by (auto simp: copy_pointer_def pointee_at_def Let_def)
    have "shape_of h' T u' = Some t'"
      unfolding res(2) by (rule shape_of_update [OF t'(2)]) (use t'(4) in auto)
    with res t' h1 v show ?thesis
      by (fastforce simp: copies_to_def shape_of_Pointer cell_at.simps)
  qed
qed

lemma copies_slice:
  assumes "flat_type T"
  shows "copies (Slice T) copy_slice"
proof (rule copiesI)
  fix h v s v' h'
  assume s: "shape_of h (Slice T) v = Some s" and run: "copy_slice v h = (v', h')"
  show "prefix h h' \<and> copies_to h (Slice T) s v' h'"
  proof (cases "v = Loc None")
    case True
    with s run show ?thesis by (auto simp: copy_slice_def copies_to_def shape_of_Slice)
  next
    case False
    with s obtain a us ts where v: "v = Loc (Some a)" "cell_at h a = Some (Elements us)"
      "length ts = length us" "\<forall>i<length us. shape_of h T (us ! i) = Some (ts ! i)"
      "s = SliceShape a ts"
      unfolding shape_of_Slice by auto
    have res: "v' = Loc (Some (length h))" "h' = h @ [Elements us]"
      using run v by (auto simp: copy_slice_def elements_at_def)
    have "\<forall>i<length us. shape_of h' T (us ! i) = Some (ts ! i)"
      using v(4) res(2) by (auto intro: shape_of_prefix)
    then have "shape_of h' (Slice T) v' = Some (SliceShape (length h) ts)"
      using v res by (simp add: shape_of_Slice cell_at.simps)
    moreover have "\<forall>i<length us. set_shape (ts ! i) = {}"
      using v(4) flat_shape [OF assms] by blast
    ultimately show ?thesis
      using res v by (auto simp: copies_to_def)
  qed
qed

text \<open>The loop over the elements of a slice.\<close>

lemma copies_to_later:
  assumes "copies_to h T s v h1" and "length h0 \<le> length h" and "length h1 \<le> length h'"
    and "\<And>a. a < length h1 \<Longrightarrow> length h \<le> a \<Longrightarrow> cell_at h' a = cell_at h1 a"
  shows "copies_to h0 T s v h'"
proof -
  from assms(1) obtain t where t: "shape_of h1 T v = Some t" "contents t = contents s"
    "set_shape t \<subseteq> {length h..<length h1}" by (auto simp: copies_to_def)
  from t(1) have "shape_of h' T v = Some t"
    by (rule shape_of_frame) (use t(3) assms(4) in auto)
  with t assms(2,3) show ?thesis by (fastforce simp: copies_to_def)
qed

lemma copies_to_earlier:
  "copies_to h T s v h' \<Longrightarrow> length h0 \<le> length h \<Longrightarrow> copies_to h0 T s v h'"
  by (rule copies_to_later) auto

lemma copy_loop_copies:
  assumes "copies T f" and "out < length h" and "cell_at h out = Some (Elements (ds @ zs))"
    and "length zs = length us" and "length ss = length us"
    and "\<forall>j<length us. shape_of h T (us ! j) = Some (ss ! j) \<and> out \<notin> set_shape (ss ! j)"
  shows "\<exists>vs h'. copy_loop f out (length ds) us h = h' \<and> length vs = length us \<and>
     cell_at h' out = Some (Elements (ds @ vs)) \<and> length h \<le> length h' \<and>
     (\<forall>a<length h. a \<noteq> out \<longrightarrow> cell_at h' a = cell_at h a) \<and>
     (\<forall>j<length us. copies_to h T (ss ! j) (vs ! j) h')"
  using assms(2-)
proof (induction us arbitrary: h ds zs ss)
  case (Cons u us)
  from Cons.prems(3) obtain z zs' where zs: "zs = z # zs'" by (cases zs) auto
  from Cons.prems(4) obtain s ss' where ss: "ss = s # ss'" by (cases ss) auto
  have su: "shape_of h T u = Some s" and
    sus: "\<forall>j<length us. shape_of h T (us ! j) = Some (ss' ! j) \<and> out \<notin> set_shape (ss' ! j)"
    using Cons.prems(5) ss by (auto simp: All_less_Suc2)
  obtain u1 h1 where r: "f u h = (u1, h1)" by fastforce
  with assms(1) su have c: "prefix h h1" "copies_to h T s u1 h1" unfolding copies_def by blast+
  then obtain xs where h1: "h1 = h @ xs" by (auto simp: prefix_def)
  let ?h2 = "h1[out := Elements (ds @ u1 # zs')]"
  have el: "(elements_at h1 out)[length ds := u1] = ds @ u1 # zs'"
    using Cons.prems(1,2) h1 zs by (simp add: elements_at_def)
  have p1: "\<forall>j<length us. shape_of ?h2 T (us ! j) = Some (ss' ! j) \<and> out \<notin> set_shape (ss' ! j)"
    using sus shape_of_prefix [OF _ c(1)] shape_of_update by blast
  have p2: "out < length ?h2" "cell_at ?h2 out = Some (Elements ((ds @ [u1]) @ zs'))"
    using Cons.prems(1) h1 by (simp_all add: cell_at.simps)
  have p3: "length zs' = length us" "length ss' = length us"
    using Cons.prems(3,4) zs ss by simp_all
  obtain vs h' where IH: "copy_loop f out (length (ds @ [u1])) us ?h2 = h'"
    "length vs = length us" "cell_at h' out = Some (Elements ((ds @ [u1]) @ vs))"
    "length ?h2 \<le> length h'" "\<forall>a<length ?h2. a \<noteq> out \<longrightarrow> cell_at h' a = cell_at ?h2 a"
    "\<forall>j<length us. copies_to ?h2 T (ss' ! j) (vs ! j) h'"
    using Cons.IH [OF p2 p3 p1] by blast
  have keep: "cell_at h' a = cell_at h1 a" if "a < length h1" "a \<noteq> out" for a
    using IH(5) that by (simp add: cell_at.simps)
  have "copies_to h T s u1 h'"
    by (rule copies_to_later [OF c(2)]) (use IH(4) keep Cons.prems(1) in auto)
  moreover have "\<forall>j<length us. copies_to h T (ss' ! j) (vs ! j) h'"
    using IH(6) h1 by (simp add: copies_to_earlier [where h = ?h2])
  ultimately have "\<forall>j<length (u # us). copies_to h T (ss ! j) ((u1 # vs) ! j) h'"
    by (simp add: ss All_less_Suc2)
  moreover have "copy_loop f out (length ds) (u # us) h = h'"
    using IH(1) r el by simp
  moreover have "\<forall>a<length h. a \<noteq> out \<longrightarrow> cell_at h' a = cell_at h a"
    using keep h1 by simp
  ultimately show ?case
    using IH(2,3,4) h1 by (intro exI [of _ "u1 # vs"] exI [of _ h']) simp
qed simp

lemma copies_elements:
  assumes f: "copies T f"
  shows "copies (Slice T) (copy_elements T f)"
proof (rule copiesI)
  fix h v s v' h'
  assume s: "shape_of h (Slice T) v = Some s" and run: "copy_elements T f v h = (v', h')"
  show "prefix h h' \<and> copies_to h (Slice T) s v' h'"
  proof (cases "v = Loc None")
    case True
    with s run show ?thesis by (auto simp: copy_elements_def copies_to_def shape_of_Slice)
  next
    case False
    with s obtain a us ts where v: "v = Loc (Some a)" "cell_at h a = Some (Elements us)"
      "length ts = length us" "\<forall>i<length us. shape_of h T (us ! i) = Some (ts ! i)"
      "s = SliceShape a ts"
      unfolding shape_of_Slice by auto
    let ?zs = "replicate (length us) (zero_value T)"
    let ?h = "h @ [Elements ?zs]"
    have "\<forall>j<length us. shape_of ?h T (us ! j) = Some (ts ! j) \<and> length h \<notin> set_shape (ts ! j)"
      using v(4) shape_of_bound by (fastforce intro: shape_of_prefix)
    from copy_loop_copies [where ds = "[]" and zs = ?zs, OF f _ _ _ v(3) this]
    obtain vs h2 where l: "copy_loop f (length h) 0 us ?h = h2" "length vs = length us"
      "cell_at h2 (length h) = Some (Elements vs)" "length ?h \<le> length h2"
      "\<forall>a<length ?h. a \<noteq> length h \<longrightarrow> cell_at h2 a = cell_at ?h a"
      "\<forall>j<length us. copies_to ?h T (ts ! j) (vs ! j) h2"
      by (auto simp: cell_at.simps)
    have res: "v' = Loc (Some (length h))" "h' = h2"
      using run v l(1) by (auto simp: copy_elements_def elements_at_def Let_def)
    have "\<forall>j<length us. \<exists>t. shape_of h2 T (vs ! j) = Some t \<and> contents t = contents (ts ! j) \<and>
        set_shape t \<subseteq> {length ?h..<length h2}"
      using l(6) by (simp add: copies_to_def)
    then obtain ts' where ts': "length ts' = length us" "\<forall>j<length us. shape_of h2 T (vs ! j) =
        Some (ts' ! j) \<and> contents (ts' ! j) = contents (ts ! j) \<and>
        set_shape (ts' ! j) \<subseteq> {length ?h..<length h2}"
      unfolding Skolem_list_nth by blast
    then have "shape_of h' (Slice T) v' = Some (SliceShape (length h) ts')"
      using l res by (simp add: shape_of_Slice)
    moreover have "contents (SliceShape (length h) ts') = contents s"
      using ts' v by (auto intro!: nth_equalityI)
    moreover have "prefix h h'"
      using l(4,5) res(2) by (auto simp: prefix_cell_at)
    ultimately show ?thesis
      using ts' l(4) res by (fastforce simp: copies_to_def)
  qed
qed

lemma put_entries:
  "distinct (map fst (acc @ kvs)) \<Longrightarrow> fold (\<lambda>(key, val). put_entry key val) kvs acc = acc @ kvs"
proof (induction kvs arbitrary: acc)
  case (Cons kv kvs)
  have "fst kv \<notin> fst ` set acc \<Longrightarrow> put_entry (fst kv) (snd kv) acc = acc @ [kv]"
    by (induction acc) auto
  with Cons.prems Cons.IH [of "acc @ [kv]"] show ?case
    by (cases kv) auto
qed simp

lemma copies_map:
  assumes "flat_type T"
  shows "copies (MapOf T) copy_map"
proof (rule copiesI)
  fix h v s v' h'
  assume s: "shape_of h (MapOf T) v = Some s" and run: "copy_map v h = (v', h')"
  show "prefix h h' \<and> copies_to h (MapOf T) s v' h'"
  proof (cases "v = Loc None")
    case True
    with s run show ?thesis by (auto simp: copy_map_def copies_to_def shape_of_Map)
  next
    case False
    with s obtain a kvs ts where v: "v = Loc (Some a)" "cell_at h a = Some (Entries kvs)"
      "distinct (map fst kvs)" "length ts = length kvs"
      "\<forall>i<length kvs. shape_of h T (snd (kvs ! i)) = Some (ts ! i)"
      "s = MapShape a (zip (map fst kvs) ts)"
      unfolding shape_of_Map by auto
    have res: "v' = Loc (Some (length h))" "h' = h @ [Entries kvs]"
      using run v put_entries [of "[]" kvs] by (auto simp: copy_map_def entries_at_def)
    have "\<forall>i<length kvs. shape_of h' T (snd (kvs ! i)) = Some (ts ! i)"
      using v(5) res(2) by (auto intro: shape_of_prefix)
    then have "shape_of h' (MapOf T) v' = Some (MapShape (length h) (zip (map fst kvs) ts))"
      using v res by (auto simp: shape_of_Map cell_at.simps)
    moreover have "\<forall>i<length kvs. set_shape (ts ! i) = {}"
      using v(5) flat_shape [OF assms] by blast
    ultimately show ?thesis
      using res v by (auto simp: copies_to_def)
  qed
qed

section \<open>Bodies of copy functions\<close>

text \<open>
  The statements of a body follow the fields of the struct; a field without a statement must have a
  type without references, and the statement of a field must copy values of its type.
\<close>

inductive copies_fields :: "(string \<times> gotype) list \<Rightarrow> (string \<times> copier) list \<Rightarrow> bool" where
  copies_none: "copies_fields [] []"
| copies_flat: "flat_type T \<Longrightarrow> copies_fields ts steps \<Longrightarrow> copies_fields ((n, T) # ts) steps"
| copies_step: "copies T f \<Longrightarrow> copies_fields ts steps \<Longrightarrow> copies_fields ((n, T) # ts) ((n, f) # steps)"

lemma field_here [simp]:
  "n \<notin> fst ` set as \<Longrightarrow> field n (Fields (as @ (n, u) # fs)) = u"
  by (simp add: field_def map_add_def map_of_eq_None_iff [THEN iffD2])

lemma set_field_here [simp]:
  "n \<notin> fst ` set bs \<Longrightarrow> n \<notin> fst ` set fs \<Longrightarrow>
     set_field n u (Fields (bs @ (n, w) # fs)) = Fields (bs @ (n, u) # fs)"
  by (auto simp: set_field_def rev_image_eqI intro!: map_idI)

lemma fields_shape_Cons:
  assumes "map fst fs = map fst ((n, T) # ts)" and "map fst ss = map fst ((n, T) # ts)"
    and "\<forall>i<length ((n, T) # ts).
      shape_of h (snd (((n, T) # ts) ! i)) (snd (fs ! i)) = Some (snd (ss ! i))"
  obtains u fs' s ss' where "fs = (n, u) # fs'" "map fst fs' = map fst ts"
    "ss = (n, s) # ss'" "map fst ss' = map fst ts" "shape_of h T u = Some s"
    "\<forall>i<length ts. shape_of h (snd (ts ! i)) (snd (fs' ! i)) = Some (snd (ss' ! i))"
proof -
  from assms(1) obtain u fs' where fs: "fs = (n, u) # fs'" "map fst fs' = map fst ts"
    by (cases fs) auto
  from assms(2) obtain s ss' where ss: "ss = (n, s) # ss'" "map fst ss' = map fst ts"
    by (cases ss) auto
  from assms(3) fs ss that show thesis by (auto simp: All_less_Suc2)
qed

text \<open>
  The fields \<open>as\<close> before those still to be handled have become \<open>bs\<close>; the rest is as the assignment
  \<open>*out = *in\<close> left it.
\<close>

lemma copy_fields_copies:
  assumes "copies_fields ts steps" and "map fst fs = map fst ts" and "map fst ss = map fst ts"
    and "\<forall>i<length ts. shape_of h (snd (ts ! i)) (snd (fs ! i)) = Some (snd (ss ! i))"
    and "fst ` set bs = fst ` set as" and "distinct (map fst (as @ fs))"
  shows "\<exists>gs h'. copy_fields steps (Fields (as @ fs)) (Fields (bs @ fs)) h = (Fields (bs @ gs), h') \<and>
     map fst gs = map fst ts \<and> prefix h h' \<and>
     (\<forall>i<length ts. copies_to h (snd (ts ! i)) (snd (ss ! i)) (snd (gs ! i)) h')"
  using assms
proof (induction arbitrary: fs ss as bs h)
  case copies_none
  then show ?case by auto
next
  case (copies_flat T ts steps n)
  from copies_flat.prems(1-3) obtain u fs' s ss' where fs: "fs = (n, u) # fs'"
    "map fst fs' = map fst ts" and ss: "ss = (n, s) # ss'" "map fst ss' = map fst ts"
    and sh: "shape_of h T u = Some s"
    "\<forall>i<length ts. shape_of h (snd (ts ! i)) (snd (fs' ! i)) = Some (snd (ss' ! i))"
    by (rule fields_shape_Cons)
  have "fst ` set (bs @ [(n, u)]) = fst ` set (as @ [(n, u)])" "distinct (map fst ((as @ [(n, u)]) @ fs'))"
    using copies_flat.prems(4,5) fs by auto
  from copies_flat.IH [OF fs(2) ss(2) sh(2) this] obtain gs h' where IH:
    "copy_fields steps (Fields (as @ fs)) (Fields (bs @ fs)) h = (Fields (bs @ (n, u) # gs), h')"
    "map fst gs = map fst ts" "prefix h h'"
    "\<forall>i<length ts. copies_to h (snd (ts ! i)) (snd (ss' ! i)) (snd (gs ! i)) h'"
    using fs by auto
  have "copies_to h T s u h'"
    using shape_of_prefix [OF sh(1) IH(3)] flat_shape [OF copies_flat.hyps(1) sh(1)]
    by (simp add: copies_to_def)
  then show ?case
    using IH ss fs by (intro exI [of _ "(n, u) # gs"] exI [of _ h']) (simp add: All_less_Suc2)
next
  case (copies_step T f ts steps n)
  from copies_step.prems(1-3) obtain u fs' s ss' where fs: "fs = (n, u) # fs'"
    "map fst fs' = map fst ts" and ss: "ss = (n, s) # ss'" "map fst ss' = map fst ts"
    and sh: "shape_of h T u = Some s"
    "\<forall>i<length ts. shape_of h (snd (ts ! i)) (snd (fs' ! i)) = Some (snd (ss' ! i))"
    by (rule fields_shape_Cons)
  obtain u1 h1 where r: "f u h = (u1, h1)" by fastforce
  with copies_step.hyps(1) sh(1) have c: "prefix h h1" "copies_to h T s u1 h1"
    unfolding copies_def by blast+
  have sh1: "\<forall>i<length ts. shape_of h1 (snd (ts ! i)) (snd (fs' ! i)) = Some (snd (ss' ! i))"
    using sh(2) c(1) shape_of_prefix by blast
  have d: "n \<notin> fst ` set as" "n \<notin> fst ` set bs" "n \<notin> fst ` set fs'"
    using copies_step.prems(4,5) fs(1) by simp_all
  have "fst ` set (bs @ [(n, u1)]) = fst ` set (as @ [(n, u)])" "distinct (map fst ((as @ [(n, u)]) @ fs'))"
    using copies_step.prems(4,5) fs by auto
  from copies_step.IH [OF fs(2) ss(2) sh1 this] obtain gs h' where IH:
    "copy_fields steps (Fields (as @ fs)) (Fields (bs @ (n, u1) # fs')) h1 = (Fields (bs @ (n, u1) # gs), h')"
    "map fst gs = map fst ts" "prefix h1 h'"
    "\<forall>i<length ts. copies_to h1 (snd (ts ! i)) (snd (ss' ! i)) (snd (gs ! i)) h'"
    using fs by auto
  have run: "copy_fields ((n, f) # steps) (Fields (as @ fs)) (Fields (bs @ fs)) h = (Fields (bs @ (n, u1) # gs), h')"
    using IH(1) r d fs by simp
  have "copies_to h T s u1 h'"
    by (rule copies_to_later [OF c(2)]) (use IH(3) in \<open>auto simp: prefix_cell_at\<close>)
  moreover have "\<forall>i<length ts. copies_to h (snd (ts ! i)) (snd (ss' ! i)) (snd (gs ! i)) h'"
    using IH(4) prefix_length_le [OF c(1)] by (simp add: copies_to_earlier [where h = h1])
  ultimately show ?case
    using run IH(2) ss fs prefix_order.trans [OF c(1) IH(3)]
    by (intro exI [of _ "(n, u1) # gs"] exI [of _ h']) (simp add: All_less_Suc2)
qed

lemma copies_struct:
  assumes "copies_fields ts steps" and "distinct (map fst ts)"
  shows "copies (Struct ts) (copy_struct steps)"
proof (rule copiesI)
  fix h v s v' h'
  assume s: "shape_of h (Struct ts) v = Some s" and run: "copy_struct steps v h = (v', h')"
  from s obtain fs ss where v: "v = Fields fs" "s = StructShape ss" "map fst fs = map fst ts"
    "map fst ss = map fst ts"
    "\<forall>i<length ts. shape_of h (snd (ts ! i)) (snd (fs ! i)) = Some (snd (ss ! i))"
    unfolding shape_of_Struct by auto
  from copy_fields_copies [where as = "[]" and bs = "[]", OF assms(1) v(3-5)] assms(2) run v
  obtain gs where r: "v' = Fields gs" "map fst gs = map fst ts" "prefix h h'"
    "\<forall>i<length ts. copies_to h (snd (ts ! i)) (snd (ss ! i)) (snd (gs ! i)) h'"
    by (auto simp: copy_struct_def)
  have "\<forall>i<length ts. \<exists>t. shape_of h' (snd (ts ! i)) (snd (gs ! i)) = Some t \<and>
      contents t = contents (snd (ss ! i)) \<and> set_shape t \<subseteq> {length h..<length h'}"
    using r(4) by (simp add: copies_to_def)
  then obtain us where us: "length us = length ts" "\<forall>i<length ts.
      shape_of h' (snd (ts ! i)) (snd (gs ! i)) = Some (us ! i) \<and>
      contents (us ! i) = contents (snd (ss ! i)) \<and> set_shape (us ! i) \<subseteq> {length h..<length h'}"
    unfolding Skolem_list_nth by blast
  let ?t = "StructShape (zip (map fst ts) us)"
  have "shape_of h' (Struct ts) v' = Some ?t"
    using r us by (simp add: shape_of_Struct)
  moreover have "contents ?t = contents s"
    using us v(2,4) same_fstsD [OF v(4)] nth_map [of _ ss fst] nth_map [of _ ts fst]
    by (auto intro!: nth_equalityI simp: prod_eq_iff)
  moreover have "set_shape ?t \<subseteq> {length h..<length h'}"
    using us by fastforce
  ultimately show "prefix h h' \<and> copies_to h (Struct ts) s v' h'"
    using r(3) by (auto simp: copies_to_def)
qed

section \<open>Independence of copies\<close>

text \<open>
  What code does that holds the locations \<open>A\<close>: it writes to the cells it holds and allocates cells,
  which it then holds too.
\<close>

inductive writes_within :: "nat set \<Rightarrow> heap \<Rightarrow> heap \<Rightarrow> bool" where
  no_write: "writes_within A h h"
| write_cell: "a \<in> A \<Longrightarrow> writes_within A (h[a := c]) h' \<Longrightarrow> writes_within A h h'"
| alloc_cell: "writes_within (insert (length h) A) (h @ [c]) h' \<Longrightarrow> writes_within A h h'"

lemma writes_within_outside:
  "writes_within A h h' \<Longrightarrow> a < length h \<Longrightarrow> a \<notin> A \<Longrightarrow> cell_at h' a = cell_at h a"
proof (induction rule: writes_within.induct)
  case (write_cell b A h c h')
  then have "b \<noteq> a" by auto
  with write_cell show ?case by (simp add: cell_at.simps)
next
  case (alloc_cell h A c h')
  then show ?case by simp
qed simp

lemma writes_within_shape:
  assumes "writes_within A h h'" and "shape_of h T v = Some s" and "A \<inter> set_shape s = {}"
  shows "shape_of h' T v = Some s"
proof (rule shape_of_frame [OF assms(2)])
  fix a
  assume "a \<in> set_shape s"
  with assms(3) shape_of_bound [OF assms(2)] have "a \<notin> A" "a < length h" by auto
  with assms(1) show "cell_at h' a = cell_at h a" by (simp add: writes_within_outside)
qed

text \<open>
  The generated \<open>DeepCopy\<close> returns nil for a nil receiver and otherwise a new object filled by
  \<open>DeepCopyInto\<close>, which is the statement for a pointer field; \<open>DeepCopyObject\<close> returns
  the copy as an interface value, nil when there is none.
\<close>

definition copy_object :: "copier \<Rightarrow> hval \<Rightarrow> heap \<Rightarrow> hval option \<times> heap" where
  "copy_object f v h = (let (c, h') = f v h in (if c \<noteq> Loc None then Some c else None, h'))"

locale deep_copy =
  fixes T :: gotype and f :: copier
  assumes copies: "copies T f"
begin

lemma type_kept:
  "shape_of h T v = Some s \<Longrightarrow> f v h = (v', h') \<Longrightarrow> \<exists>t. shape_of h' T v' = Some t"
  using copies copiesE by metis

lemma nil_kept: "copy_pointer T f (Loc None) h = (Loc None, h)"
  by (simp add: copy_pointer_def)

lemma fresh:
  assumes "shape_of h (Pointer T) p = Some s" and "copy_pointer T f p h = (q, h')"
  obtains t where "shape_of h' (Pointer T) p = Some s" and "shape_of h' (Pointer T) q = Some t"
    and "contents t = contents s" and "set_shape t \<inter> set_shape s = {}"
proof -
  from copies_pointer [OF copies] assms obtain t where t: "prefix h h'"
    "shape_of h' (Pointer T) q = Some t" "contents t = contents s"
    "set_shape t \<subseteq> {length h..<length h'}" by (rule copiesE)
  have "set_shape t \<inter> set_shape s = {}"
    using t(4) shape_of_bound [OF assms(1)] by fastforce
  with that t(2,3) shape_of_prefix [OF assms(1) t(1)] show thesis by blast
qed

lemma independent:
  assumes "shape_of h (Pointer T) p = Some s" and "copy_pointer T f p h = (q, h')"
  shows "\<exists>t. shape_of h' (Pointer T) p = Some s \<and> shape_of h' (Pointer T) q = Some t \<and>
     contents t = contents s \<and> set_shape t \<inter> set_shape s = {} \<and>
     (\<forall>h''. writes_within (set_shape t) h' h'' \<longrightarrow> shape_of h'' (Pointer T) p = Some s) \<and>
     (\<forall>h''. writes_within (set_shape s) h' h'' \<longrightarrow> shape_of h'' (Pointer T) q = Some t)"
proof -
  from assms obtain t where t: "shape_of h' (Pointer T) p = Some s"
    "shape_of h' (Pointer T) q = Some t" "contents t = contents s" "set_shape t \<inter> set_shape s = {}"
    by (rule fresh)
  have "writes_within (set_shape t) h' h'' \<Longrightarrow> shape_of h'' (Pointer T) p = Some s" for h''
    using writes_within_shape t(1,4) by blast
  moreover have "writes_within (set_shape s) h' h'' \<Longrightarrow> shape_of h'' (Pointer T) q = Some t" for h''
    using writes_within_shape t(2,4) by blast
  ultimately show ?thesis using t by blast
qed

end

end
