(* ===== verification/Api_Copies.thy ===== *)
theory Api_Copies
  imports Deep_Copy
begin

text \<open>
  The generated copy functions of the API package (\<open>api/v1/zz_generated.deepcopy.go\<close>). Every struct
  \<open>X\<close> of the package has a type \<open>X_type\<close>, the fields of the struct with their Go types, and the
  functions \<open>X_DeepCopyInto\<close>, whose list has one entry per statement of the generated body in its
  order, and \<open>X_DeepCopy\<close>; the two registered objects have \<open>DeepCopyObject\<close> besides. The types of
  the Kubernetes packages and their own copy functions are the parameter \<open>K\<close>, by the
  name of the type.
\<close>

section \<open>The types of the Kubernetes packages\<close>

record kube_types =
  kube_type :: "string \<Rightarrow> gotype"
  kube_DeepCopyInto :: "string \<Rightarrow> copier"

text \<open>
  What the generated code relies on: every \<open>DeepCopyInto\<close> of the Kubernetes packages copies the values
  of its type, and \<open>metav1.TypeMeta\<close>, which is assigned, holds no references.
\<close>

definition kube_copies :: "kube_types \<Rightarrow> bool" where
  "kube_copies K \<longleftrightarrow>
     flat_type (kube_type K ''TypeMeta'') \<and> (\<forall>n. copies (kube_type K n) (kube_DeepCopyInto K n))"

definition copy_kube_pointer :: "kube_types \<Rightarrow> string \<Rightarrow> copier" where
  "copy_kube_pointer K n = copy_pointer (kube_type K n) (kube_DeepCopyInto K n)"

section \<open>The structs and their copy functions\<close>

definition Auth_type :: "kube_types \<Rightarrow> gotype" where
  "Auth_type K = Struct
    [(''Token'', Pointer (kube_type K ''SecretKeySelector'')),
     (''User'', Pointer (kube_type K ''SecretKeySelector'')),
     (''Password'', Pointer (kube_type K ''SecretKeySelector''))]"

definition Auth_DeepCopyInto :: "kube_types \<Rightarrow> copier" where
  "Auth_DeepCopyInto K = copy_struct
    [(''Token'', copy_kube_pointer K ''SecretKeySelector''),
     (''User'', copy_kube_pointer K ''SecretKeySelector''),
     (''Password'', copy_kube_pointer K ''SecretKeySelector'')]"

definition Auth_DeepCopy :: "kube_types \<Rightarrow> copier" where
  "Auth_DeepCopy K = copy_pointer (Auth_type K) (Auth_DeepCopyInto K)"

definition CA_type :: gotype where
  "CA_type = Struct
    [(''SecretName'', Flat), (''SecretKey'', Flat)]"

definition CA_DeepCopyInto :: copier where
  "CA_DeepCopyInto = copy_struct []"

definition CA_DeepCopy :: copier where
  "CA_DeepCopy = copy_pointer CA_type CA_DeepCopyInto"

definition Cert_type :: gotype where
  "Cert_type = Struct
    [(''SecretName'', Flat), (''SecretKey'', Flat)]"

definition Cert_DeepCopyInto :: copier where
  "Cert_DeepCopyInto = copy_struct []"

definition Cert_DeepCopy :: copier where
  "Cert_DeepCopy = copy_pointer Cert_type Cert_DeepCopyInto"

definition Key_type :: gotype where
  "Key_type = Struct
    [(''SecretName'', Flat), (''SecretKey'', Flat)]"

definition Key_DeepCopyInto :: copier where
  "Key_DeepCopyInto = copy_struct []"

definition Key_DeepCopy :: copier where
  "Key_DeepCopy = copy_pointer Key_type Key_DeepCopyInto"

definition AuthProxy_type :: "kube_types \<Rightarrow> gotype" where
  "AuthProxy_type K = Struct
    [(''Resources'', Pointer (kube_type K ''ResourceRequirements'')),
     (''BindPasswordSecret'', Pointer (kube_type K ''SecretKeySelector'')), (''CA'', CA_type),
     (''Cert'', Cert_type), (''Key'', Key_type), (''Image'', Flat), (''Install'', Flat)]"

definition AuthProxy_DeepCopyInto :: "kube_types \<Rightarrow> copier" where
  "AuthProxy_DeepCopyInto K = copy_struct
    [(''Resources'', copy_kube_pointer K ''ResourceRequirements''),
     (''BindPasswordSecret'', copy_kube_pointer K ''SecretKeySelector''),
     (''CA'', assign_value), (''Cert'', assign_value), (''Key'', assign_value)]"

definition AuthProxy_DeepCopy :: "kube_types \<Rightarrow> copier" where
  "AuthProxy_DeepCopy K = copy_pointer (AuthProxy_type K) (AuthProxy_DeepCopyInto K)"

definition Certificates_type :: gotype where
  "Certificates_type = Struct
    [(''CA'', Pointer CA_type), (''Cert'', Pointer Cert_type), (''Key'', Pointer Key_type)]"

definition Certificates_DeepCopyInto :: copier where
  "Certificates_DeepCopyInto = copy_struct
    [(''CA'', copy_pointer CA_type assign_value), (''Cert'', copy_pointer Cert_type assign_value),
     (''Key'', copy_pointer Key_type assign_value)]"

definition Certificates_DeepCopy :: copier where
  "Certificates_DeepCopy = copy_pointer Certificates_type Certificates_DeepCopyInto"

definition CloudEventsReader_type :: "kube_types \<Rightarrow> gotype" where
  "CloudEventsReader_type K = Struct
    [(''Resources'', Pointer (kube_type K ''ResourceRequirements'')), (''DockerImage'', Flat),
     (''PriorityClassName'', Flat), (''NodeSelectorKey'', Flat), (''NodeSelectorValue'', Flat),
     (''Affinity'', Pointer (kube_type K ''Affinity'')), (''Labels'', MapOf Flat),
     (''Annotations'', MapOf Flat), (''Args'', Slice Flat), (''Install'', Flat)]"

definition CloudEventsReader_DeepCopyInto :: "kube_types \<Rightarrow> copier" where
  "CloudEventsReader_DeepCopyInto K = copy_struct
    [(''Resources'', copy_kube_pointer K ''ResourceRequirements''),
     (''Affinity'', copy_kube_pointer K ''Affinity''),
     (''Labels'', copy_map), (''Annotations'', copy_map), (''Args'', copy_slice)]"

definition CloudEventsReader_DeepCopy :: "kube_types \<Rightarrow> copier" where
  "CloudEventsReader_DeepCopy K =
     copy_pointer (CloudEventsReader_type K) (CloudEventsReader_DeepCopyInto K)"

definition ConfigmapReload_type :: "kube_types \<Rightarrow> gotype" where
  "ConfigmapReload_type K = Struct
    [(''DockerImage'', Flat), (''Resources'', Pointer (kube_type K ''ResourceRequirements''))]"

definition ConfigmapReload_DeepCopyInto :: "kube_types \<Rightarrow> copier" where
  "ConfigmapReload_DeepCopyInto K = copy_struct
    [(''Resources'', copy_kube_pointer K ''ResourceRequirements'')]"

definition ConfigmapReload_DeepCopy :: "kube_types \<Rightarrow> copier" where
  "ConfigmapReload_DeepCopy K =
     copy_pointer (ConfigmapReload_type K) (ConfigmapReload_DeepCopyInto K)"

definition Credentials_type :: "kube_types \<Rightarrow> gotype" where
  "Credentials_type K = Struct
    [(''User'', Pointer (kube_type K ''SecretKeySelector'')),
     (''Password'', Pointer (kube_type K ''SecretKeySelector''))]"

definition Credentials_DeepCopyInto :: "kube_types \<Rightarrow> copier" where
  "Credentials_DeepCopyInto K = copy_struct
    [(''User'', copy_kube_pointer K ''SecretKeySelector''),
     (''Password'', copy_kube_pointer K ''SecretKeySelector'')]"

definition Credentials_DeepCopy :: "kube_types \<Rightarrow> copier" where
  "Credentials_DeepCopy K = copy_pointer (Credentials_type K) (Credentials_DeepCopyInto K)"

definition TLSConfig_type :: "kube_types \<Rightarrow> gotype" where
  "TLSConfig_type K = Struct
    [(''CA'', Pointer (kube_type K ''SecretKeySelector'')),
     (''Cert'', Pointer (kube_type K ''SecretKeySelector'')),
     (''Key'', Pointer (kube_type K ''SecretKeySelector'')), (''InsecureSkipVerify'', Flat)]"

definition TLSConfig_DeepCopyInto :: "kube_types \<Rightarrow> copier" where
  "TLSConfig_DeepCopyInto K = copy_struct
    [(''CA'', copy_kube_pointer K ''SecretKeySelector''),
     (''Cert'', copy_kube_pointer K ''SecretKeySelector''),
     (''Key'', copy_kube_pointer K ''SecretKeySelector'')]"

definition TLSConfig_DeepCopy :: "kube_types \<Rightarrow> copier" where
  "TLSConfig_DeepCopy K = copy_pointer (TLSConfig_type K) (TLSConfig_DeepCopyInto K)"

definition HTTPConfig_type :: "kube_types \<Rightarrow> gotype" where
  "HTTPConfig_type K = Struct
    [(''Credentials'', Pointer (Credentials_type K)),
     (''TLSConfig'', Pointer (TLSConfig_type K))]"

definition HTTPConfig_DeepCopyInto :: "kube_types \<Rightarrow> copier" where
  "HTTPConfig_DeepCopyInto K = copy_struct
    [(''Credentials'', copy_pointer (Credentials_type K) (Credentials_DeepCopyInto K)),
     (''TLSConfig'', copy_pointer (TLSConfig_type K) (TLSConfig_DeepCopyInto K))]"

definition HTTPConfig_DeepCopy :: "kube_types \<Rightarrow> copier" where
  "HTTPConfig_DeepCopy K = copy_pointer (HTTPConfig_type K) (HTTPConfig_DeepCopyInto K)"

definition ContentPackPathHTTPConfig_type :: "kube_types \<Rightarrow> gotype" where
  "ContentPackPathHTTPConfig_type K = Struct
    [(''HTTPConfig'', Pointer (HTTPConfig_type K)), (''URL'', Flat)]"

definition ContentPackPathHTTPConfig_DeepCopyInto :: "kube_types \<Rightarrow> copier" where
  "ContentPackPathHTTPConfig_DeepCopyInto K = copy_struct
    [(''HTTPConfig'', copy_pointer (HTTPConfig_type K) (HTTPConfig_DeepCopyInto K))]"

definition ContentPackPathHTTPConfig_DeepCopy :: "kube_types \<Rightarrow> copier" where
  "ContentPackPathHTTPConfig_DeepCopy K =
     copy_pointer (ContentPackPathHTTPConfig_type K) (ContentPackPathHTTPConfig_DeepCopyInto K)"

definition FluentbitTLSParams_type :: gotype where
  "FluentbitTLSParams_type = Struct
    [(''KeyPasswd'', Flat), (''Enabled'', Flat), (''Verify'', Flat)]"

definition FluentbitTLSParams_DeepCopyInto :: copier where
  "FluentbitTLSParams_DeepCopyInto = copy_struct []"

definition FluentbitTLSParams_DeepCopy :: copier where
  "FluentbitTLSParams_DeepCopy =
     copy_pointer FluentbitTLSParams_type FluentbitTLSParams_DeepCopyInto"

definition GenerateCerts_type :: gotype where
  "GenerateCerts_type = Struct
    [(''SecretName'', Flat), (''Enabled'', Flat)]"

definition GenerateCerts_DeepCopyInto :: copier where
  "GenerateCerts_DeepCopyInto = copy_struct []"

definition GenerateCerts_DeepCopy :: copier where
  "GenerateCerts_DeepCopy = copy_pointer GenerateCerts_type GenerateCerts_DeepCopyInto"

definition TLS_type :: gotype where
  "TLS_type = Struct
    [(''GenerateCerts'', Pointer GenerateCerts_type), (''Certificates'', Certificates_type)]"

definition TLS_DeepCopyInto :: copier where
  "TLS_DeepCopyInto = copy_struct
    [(''GenerateCerts'', copy_pointer GenerateCerts_type assign_value),
     (''Certificates'', Certificates_DeepCopyInto)]"

definition TLS_DeepCopy :: copier where
  "TLS_DeepCopy = copy_pointer TLS_type TLS_DeepCopyInto"

definition FluentbitTLS_type :: gotype where
  "FluentbitTLS_type = Struct
    [(''TLS'', TLS_type), (''FluentbitTLSParams'', FluentbitTLSParams_type)]"

definition FluentbitTLS_DeepCopyInto :: copier where
  "FluentbitTLS_DeepCopyInto = copy_struct
    [(''TLS'', TLS_DeepCopyInto), (''FluentbitTLSParams'', assign_value)]"

definition FluentbitTLS_DeepCopy :: copier where
  "FluentbitTLS_DeepCopy = copy_pointer FluentbitTLS_type FluentbitTLS_DeepCopyInto"

definition FluentbitHTTPRouting_type :: gotype where
  "FluentbitHTTPRouting_type = Struct
    [(''Enabled'', Flat), (''HeaderTag'', Flat)]"

definition FluentbitHTTPRouting_DeepCopyInto :: copier where
  "FluentbitHTTPRouting_DeepCopyInto = copy_struct []"

definition FluentbitHTTPRouting_DeepCopy :: copier where
  "FluentbitHTTPRouting_DeepCopy =
     copy_pointer FluentbitHTTPRouting_type FluentbitHTTPRouting_DeepCopyInto"

definition FluentbitHttpTLS_type :: gotype where
  "FluentbitHttpTLS_type = Struct
    [(''Certificates'', Certificates_type), (''FluentbitTLSParams'', FluentbitTLSParams_type)]"

definition FluentbitHttpTLS_DeepCopyInto :: copier where
  "FluentbitHttpTLS_DeepCopyInto = copy_struct
    [(''Certificates'', Certificates_DeepCopyInto), (''FluentbitTLSParams'', assign_value)]"

definition FluentbitHttpTLS_DeepCopy :: copier where
  "FluentbitHttpTLS_DeepCopy = copy_pointer FluentbitHttpTLS_type FluentbitHttpTLS_DeepCopyInto"

definition HttpFluentbit_type :: "kube_types \<Rightarrow> gotype" where
  "HttpFluentbit_type K = Struct
    [(''Enabled'', Flat), (''Routing'', Pointer FluentbitHTTPRouting_type), (''Host'', Flat),
     (''Port'', Flat), (''Uri'', Flat), (''Auth'', Pointer (Auth_type K)), (''Compress'', Flat),
     (''TLS'', Pointer FluentbitHttpTLS_type), (''JsonDateFormat'', Flat), (''Format'', Flat),
     (''ExtraParams'', Flat)]"

definition HttpFluentbit_DeepCopyInto :: "kube_types \<Rightarrow> copier" where
  "HttpFluentbit_DeepCopyInto K = copy_struct
    [(''Routing'', copy_pointer FluentbitHTTPRouting_type assign_value),
     (''Auth'', copy_pointer (Auth_type K) (Auth_DeepCopyInto K)),
     (''TLS'', copy_pointer FluentbitHttpTLS_type FluentbitHttpTLS_DeepCopyInto)]"

definition HttpFluentbit_DeepCopy :: "kube_types \<Rightarrow> copier" where
  "HttpFluentbit_DeepCopy K = copy_pointer (HttpFluentbit_type K) (HttpFluentbit_DeepCopyInto K)"

definition FluentbitLokiTLS_type :: gotype where
  "FluentbitLokiTLS_type = Struct
    [(''Certificates'', Certificates_type), (''FluentbitTLSParams'', FluentbitTLSParams_type)]"

definition FluentbitLokiTLS_DeepCopyInto :: copier where
  "FluentbitLokiTLS_DeepCopyInto = copy_struct
    [(''Certificates'', Certificates_DeepCopyInto), (''FluentbitTLSParams'', assign_value)]"

definition FluentbitLokiTLS_DeepCopy :: copier where
  "FluentbitLokiTLS_DeepCopy = copy_pointer FluentbitLokiTLS_type FluentbitLokiTLS_DeepCopyInto"

definition LokiFluentbit_type :: "kube_types \<Rightarrow> gotype" where
  "LokiFluentbit_type K = Struct
    [(''Enabled'', Flat), (''Host'', Flat), (''Tenant'', Flat), (''Auth'', Pointer (Auth_type K)),
     (''StaticLabels'', Flat), (''LabelsMapping'', Flat),
     (''TLS'', Pointer FluentbitLokiTLS_type), (''ExtraParams'', Flat)]"

definition LokiFluentbit_DeepCopyInto :: "kube_types \<Rightarrow> copier" where
  "LokiFluentbit_DeepCopyInto K = copy_struct
    [(''Auth'', copy_pointer (Auth_type K) (Auth_DeepCopyInto K)),
     (''TLS'', copy_pointer FluentbitLokiTLS_type FluentbitLokiTLS_DeepCopyInto)]"

definition LokiFluentbit_DeepCopy :: "kube_types \<Rightarrow> copier" where
  "LokiFluentbit_DeepCopy K = copy_pointer (LokiFluentbit_type K) (LokiFluentbit_DeepCopyInto K)"

definition OtelFluentbit_type :: "kube_types \<Rightarrow> gotype" where
  "OtelFluentbit_type K = Struct
    [(''Enabled'', Flat), (''Host'', Flat), (''Port'', Flat), (''LogsUri'', Flat),
     (''Target'', Flat), (''LogSuppressInterval'', Flat), (''Auth'', Pointer (Auth_type K)),
     (''Compress'', Flat), (''TLS'', Pointer FluentbitHttpTLS_type), (''ExtraParams'', Flat)]"

definition OtelFluentbit_DeepCopyInto :: "kube_types \<Rightarrow> copier" where
  "OtelFluentbit_DeepCopyInto K = copy_struct
    [(''Auth'', copy_pointer (Auth_type K) (Auth_DeepCopyInto K)),
     (''TLS'', copy_pointer FluentbitHttpTLS_type FluentbitHttpTLS_DeepCopyInto)]"

definition OtelFluentbit_DeepCopy :: "kube_types \<Rightarrow> copier" where
  "OtelFluentbit_DeepCopy K = copy_pointer (OtelFluentbit_type K) (OtelFluentbit_DeepCopyInto K)"

definition OutputFluentbit_type :: "kube_types \<Rightarrow> gotype" where
  "OutputFluentbit_type K = Struct
    [(''Loki'', Pointer (LokiFluentbit_type K)), (''Http'', Pointer (HttpFluentbit_type K)),
     (''Otel'', Pointer (OtelFluentbit_type K))]"

definition OutputFluentbit_DeepCopyInto :: "kube_types \<Rightarrow> copier" where
  "OutputFluentbit_DeepCopyInto K = copy_struct
    [(''Loki'', copy_pointer (LokiFluentbit_type K) (LokiFluentbit_DeepCopyInto K)),
     (''Http'', copy_pointer (HttpFluentbit_type K) (HttpFluentbit_DeepCopyInto K)),
     (''Otel'', copy_pointer (OtelFluentbit_type K) (OtelFluentbit_DeepCopyInto K))]"

definition OutputFluentbit_DeepCopy :: "kube_types \<Rightarrow> copier" where
  "OutputFluentbit_DeepCopy K =
     copy_pointer (OutputFluentbit_type K) (OutputFluentbit_DeepCopyInto K)"

definition Volume_type :: gotype where
  "Volume_type = Struct
    [(''StorageClassName'', Flat), (''StorageSize'', Flat), (''Bind'', Flat)]"

definition Volume_DeepCopyInto :: copier where
  "Volume_DeepCopyInto = copy_struct []"

definition Volume_DeepCopy :: copier where
  "Volume_DeepCopy = copy_pointer Volume_type Volume_DeepCopyInto"

definition FluentbitAggregator_type :: "kube_types \<Rightarrow> gotype" where
  "FluentbitAggregator_type K = Struct
    [(''Labels'', MapOf Flat), (''Volume'', Pointer Volume_type),
     (''Resources'', Pointer (kube_type K ''ResourceRequirements'')),
     (''Annotations'', MapOf Flat), (''ExtraFields'', MapOf Flat), (''MemBufLimit'', Flat),
     (''DockerImage'', Flat), (''ConfigmapReload'', Pointer (ConfigmapReload_type K)),
     (''NodeSelectorValue'', Flat), (''MultilineOtherLinesRegexp'', Flat),
     (''GraylogHost'', Flat), (''MultilineFirstLineRegexp'', Flat), (''GraylogProtocol'', Flat),
     (''NodeSelectorKey'', Flat), (''PriorityClassName'', Flat), (''TotalLimitSize'', Flat),
     (''StorageSizeLimit'', Flat), (''CustomFilterConf'', Flat), (''CustomOutputConf'', Flat),
     (''CustomLuaScriptConf'', MapOf Flat), (''TLS'', FluentbitTLS_type),
     (''Tolerations'', Slice (kube_type K ''Toleration'')),
     (''Affinity'', Pointer (kube_type K ''Affinity'')), (''StartupTimeout'', Flat),
     (''Replicas'', Flat), (''GraylogPort'', Flat), (''Install'', Flat),
     (''SecurityContextPrivileged'', Flat), (''GraylogOutput'', Flat),
     (''Output'', Pointer (OutputFluentbit_type K)), (''InputMemBufLimit'', Flat)]"

definition FluentbitAggregator_DeepCopyInto :: "kube_types \<Rightarrow> copier" where
  "FluentbitAggregator_DeepCopyInto K = copy_struct
    [(''Labels'', copy_map), (''Volume'', copy_pointer Volume_type assign_value),
     (''Resources'', copy_kube_pointer K ''ResourceRequirements''),
     (''Annotations'', copy_map), (''ExtraFields'', copy_map),
     (''ConfigmapReload'', copy_pointer (ConfigmapReload_type K) (ConfigmapReload_DeepCopyInto K)),
     (''CustomLuaScriptConf'', copy_map), (''TLS'', FluentbitTLS_DeepCopyInto),
     (''Tolerations'', copy_elements (kube_type K ''Toleration'') (kube_DeepCopyInto K ''Toleration'')),
     (''Affinity'', copy_kube_pointer K ''Affinity''),
     (''Output'', copy_pointer (OutputFluentbit_type K) (OutputFluentbit_DeepCopyInto K))]"

definition FluentbitAggregator_DeepCopy :: "kube_types \<Rightarrow> copier" where
  "FluentbitAggregator_DeepCopy K =
     copy_pointer (FluentbitAggregator_type K) (FluentbitAggregator_DeepCopyInto K)"

definition FluentbitDB_type :: gotype where
  "FluentbitDB_type = Struct
    [(''Enabled'', Pointer Flat), (''JournalMode'', Flat), (''Sync'', Flat),
     (''Locking'', Pointer Flat)]"

definition FluentbitDB_DeepCopyInto :: copier where
  "FluentbitDB_DeepCopyInto = copy_struct
    [(''Enabled'', copy_pointer Flat assign_value),
     (''Locking'', copy_pointer Flat assign_value)]"

definition FluentbitDB_DeepCopy :: copier where
  "FluentbitDB_DeepCopy = copy_pointer FluentbitDB_type FluentbitDB_DeepCopyInto"

definition Fluentbit_type :: "kube_types \<Rightarrow> gotype" where
  "Fluentbit_type K = Struct
    [(''Resources'', Pointer (kube_type K ''ResourceRequirements'')),
     (''Annotations'', MapOf Flat), (''Labels'', MapOf Flat), (''ExtraFields'', MapOf Flat),
     (''Aggregator'', Pointer (FluentbitAggregator_type K)), (''MemBufLimit'', Flat),
     (''SystemLogType'', Flat), (''GraylogHost'', Flat), (''NodeSelectorValue'', Flat),
     (''GraylogProtocol'', Flat), (''DockerImage'', Flat),
     (''ConfigmapReload'', Pointer (ConfigmapReload_type K)), (''PriorityClassName'', Flat),
     (''TotalLimitSize'', Flat), (''CustomInputConf'', Flat), (''CustomFilterConf'', Flat),
     (''CustomOutputConf'', Flat), (''CustomLuaScriptConf'', MapOf Flat), (''LogLevel'', Flat),
     (''MultilineFirstLineRegexp'', Flat), (''NodeSelectorKey'', Flat),
     (''MultilineOtherLinesRegexp'', Flat), (''TLS'', FluentbitTLS_type),
     (''AdditionalVolumes'', Slice (kube_type K ''Volume'')),
     (''AdditionalVolumeMounts'', Slice (kube_type K ''VolumeMount'')),
     (''Tolerations'', Slice (kube_type K ''Toleration'')),
     (''Affinity'', Pointer (kube_type K ''Affinity'')), (''GraylogPort'', Flat),
     (''SecurityContextPrivileged'', Flat), (''WatchKubernetesMetadata'', Flat),
     (''MockKubeData'', Flat), (''SystemLogging'', Flat), (''BillCycleConf'', Flat),
     (''GraylogOutput'', Flat), (''SystemAuditLogging'', Flat), (''KubeAuditLogging'', Flat),
     (''KubeApiserverAuditLogging'', Flat), (''ContainerLogging'', Flat), (''ExcludePath'', Flat),
     (''SelfLogging'', Flat), (''Output'', Pointer (OutputFluentbit_type K)), (''Flush'', Flat),
     (''StorageProfile'', Flat), (''MemoryOnlyStateSizeLimit'', Flat),
     (''InputMemBufLimit'', Flat), (''DB'', FluentbitDB_type)]"

definition Fluentbit_DeepCopyInto :: "kube_types \<Rightarrow> copier" where
  "Fluentbit_DeepCopyInto K = copy_struct
    [(''Resources'', copy_kube_pointer K ''ResourceRequirements''),
     (''Annotations'', copy_map), (''Labels'', copy_map), (''ExtraFields'', copy_map),
     (''Aggregator'', copy_pointer (FluentbitAggregator_type K) (FluentbitAggregator_DeepCopyInto K)),
     (''ConfigmapReload'', copy_pointer (ConfigmapReload_type K) (ConfigmapReload_DeepCopyInto K)),
     (''CustomLuaScriptConf'', copy_map), (''TLS'', FluentbitTLS_DeepCopyInto),
     (''AdditionalVolumes'', copy_elements (kube_type K ''Volume'') (kube_DeepCopyInto K ''Volume'')),
     (''AdditionalVolumeMounts'', copy_elements (kube_type K ''VolumeMount'') (kube_DeepCopyInto K ''VolumeMount'')),
     (''Tolerations'', copy_elements (kube_type K ''Toleration'') (kube_DeepCopyInto K ''Toleration'')),
     (''Affinity'', copy_kube_pointer K ''Affinity''),
     (''Output'', copy_pointer (OutputFluentbit_type K) (OutputFluentbit_DeepCopyInto K)),
     (''DB'', FluentbitDB_DeepCopyInto)]"

definition Fluentbit_DeepCopy :: "kube_types \<Rightarrow> copier" where
  "Fluentbit_DeepCopy K = copy_pointer (Fluentbit_type K) (Fluentbit_DeepCopyInto K)"

definition FluentdTLSParams_type :: gotype where
  "FluentdTLSParams_type = Struct
    [(''Version'', Flat), (''Enabled'', Flat), (''NoDefaultCA'', Flat), (''AllCiphers'', Flat),
     (''RescueSslErrors'', Flat), (''NoVerify'', Flat)]"

definition FluentdTLSParams_DeepCopyInto :: copier where
  "FluentdTLSParams_DeepCopyInto = copy_struct []"

definition FluentdTLSParams_DeepCopy :: copier where
  "FluentdTLSParams_DeepCopy = copy_pointer FluentdTLSParams_type FluentdTLSParams_DeepCopyInto"

definition FluentdTLS_type :: gotype where
  "FluentdTLS_type = Struct
    [(''TLS'', TLS_type), (''FluentdTLSParams'', FluentdTLSParams_type)]"

definition FluentdTLS_DeepCopyInto :: copier where
  "FluentdTLS_DeepCopyInto = copy_struct
    [(''TLS'', TLS_DeepCopyInto), (''FluentdTLSParams'', assign_value)]"

definition FluentdTLS_DeepCopy :: copier where
  "FluentdTLS_DeepCopy = copy_pointer FluentdTLS_type FluentdTLS_DeepCopyInto"

definition FluentdHTTPRouting_type :: gotype where
  "FluentdHTTPRouting_type = Struct
    [(''Enabled'', Flat), (''LogCategoryHeader'', Flat)]"

definition FluentdHTTPRouting_DeepCopyInto :: copier where
  "FluentdHTTPRouting_DeepCopyInto = copy_struct []"

definition FluentdHTTPRouting_DeepCopy :: copier where
  "FluentdHTTPRouting_DeepCopy =
     copy_pointer FluentdHTTPRouting_type FluentdHTTPRouting_DeepCopyInto"

definition FluentdHttpTLSParams_type :: gotype where
  "FluentdHttpTLSParams_type = Struct
    [(''Enabled'', Flat), (''VerifyMode'', Flat), (''Version'', Flat), (''Ciphers'', Flat)]"

definition FluentdHttpTLSParams_DeepCopyInto :: copier where
  "FluentdHttpTLSParams_DeepCopyInto = copy_struct []"

definition FluentdHttpTLSParams_DeepCopy :: copier where
  "FluentdHttpTLSParams_DeepCopy =
     copy_pointer FluentdHttpTLSParams_type FluentdHttpTLSParams_DeepCopyInto"

definition FluentdHttpTLS_type :: gotype where
  "FluentdHttpTLS_type = Struct
    [(''Certificates'', Certificates_type),
     (''FluentdHttpTLSParams'', FluentdHttpTLSParams_type)]"

definition FluentdHttpTLS_DeepCopyInto :: copier where
  "FluentdHttpTLS_DeepCopyInto = copy_struct
    [(''Certificates'', Certificates_DeepCopyInto), (''FluentdHttpTLSParams'', assign_value)]"

definition FluentdHttpTLS_DeepCopy :: copier where
  "FluentdHttpTLS_DeepCopy = copy_pointer FluentdHttpTLS_type FluentdHttpTLS_DeepCopyInto"

definition HttpFluentd_type :: "kube_types \<Rightarrow> gotype" where
  "HttpFluentd_type K = Struct
    [(''Enabled'', Flat), (''Routing'', FluentdHTTPRouting_type), (''Host'', Flat),
     (''Path'', Flat), (''Compress'', Flat), (''Headers'', MapOf Flat),
     (''Auth'', Pointer (Auth_type K)), (''TLS'', Pointer FluentdHttpTLS_type),
     (''ExtraParams'', Flat)]"

definition HttpFluentd_DeepCopyInto :: "kube_types \<Rightarrow> copier" where
  "HttpFluentd_DeepCopyInto K = copy_struct
    [(''Routing'', assign_value), (''Headers'', copy_map),
     (''Auth'', copy_pointer (Auth_type K) (Auth_DeepCopyInto K)),
     (''TLS'', copy_pointer FluentdHttpTLS_type FluentdHttpTLS_DeepCopyInto)]"

definition HttpFluentd_DeepCopy :: "kube_types \<Rightarrow> copier" where
  "HttpFluentd_DeepCopy K = copy_pointer (HttpFluentd_type K) (HttpFluentd_DeepCopyInto K)"

definition FluentdLokiTLS_type :: gotype where
  "FluentdLokiTLS_type = Struct
    [(''Certificates'', Certificates_type), (''FluentdTLSParams'', FluentdTLSParams_type)]"

definition FluentdLokiTLS_DeepCopyInto :: copier where
  "FluentdLokiTLS_DeepCopyInto = copy_struct
    [(''Certificates'', Certificates_DeepCopyInto), (''FluentdTLSParams'', assign_value)]"

definition FluentdLokiTLS_DeepCopy :: copier where
  "FluentdLokiTLS_DeepCopy = copy_pointer FluentdLokiTLS_type FluentdLokiTLS_DeepCopyInto"

definition LokiFluentd_type :: "kube_types \<Rightarrow> gotype" where
  "LokiFluentd_type K = Struct
    [(''Enabled'', Flat), (''Host'', Flat), (''Tenant'', Flat), (''Auth'', Pointer (Auth_type K)),
     (''StaticLabels'', Flat), (''LabelsMapping'', Flat), (''TLS'', Pointer FluentdLokiTLS_type),
     (''ExtraParams'', Flat)]"

definition LokiFluentd_DeepCopyInto :: "kube_types \<Rightarrow> copier" where
  "LokiFluentd_DeepCopyInto K = copy_struct
    [(''Auth'', copy_pointer (Auth_type K) (Auth_DeepCopyInto K)),
     (''TLS'', copy_pointer FluentdLokiTLS_type FluentdLokiTLS_DeepCopyInto)]"

definition LokiFluentd_DeepCopy :: "kube_types \<Rightarrow> copier" where
  "LokiFluentd_DeepCopy K = copy_pointer (LokiFluentd_type K) (LokiFluentd_DeepCopyInto K)"

definition OutputFluentd_type :: "kube_types \<Rightarrow> gotype" where
  "OutputFluentd_type K = Struct
    [(''Loki'', Pointer (LokiFluentd_type K)), (''Http'', Pointer (HttpFluentd_type K))]"

definition OutputFluentd_DeepCopyInto :: "kube_types \<Rightarrow> copier" where
  "OutputFluentd_DeepCopyInto K = copy_struct
    [(''Loki'', copy_pointer (LokiFluentd_type K) (LokiFluentd_DeepCopyInto K)),
     (''Http'', copy_pointer (HttpFluentd_type K) (HttpFluentd_DeepCopyInto K))]"

definition OutputFluentd_DeepCopy :: "kube_types \<Rightarrow> copier" where
  "OutputFluentd_DeepCopy K = copy_pointer (OutputFluentd_type K) (OutputFluentd_DeepCopyInto K)"

definition Fluentd_type :: "kube_types \<Rightarrow> gotype" where
  "Fluentd_type K = Struct
    [(''Resources'', Pointer (kube_type K ''ResourceRequirements'')),
     (''Annotations'', MapOf Flat), (''Labels'', MapOf Flat), (''ExtraFields'', MapOf Flat),
     (''CustomFilterConf'', Flat), (''SystemLogType'', Flat), (''CloudEventsReaderFormat'', Flat),
     (''GraylogHost'', Flat), (''DockerImage'', Flat),
     (''ConfigmapReload'', Pointer (ConfigmapReload_type K)), (''GraylogProtocol'', Flat),
     (''PriorityClassName'', Flat), (''MultilineFirstLineRegexp'', Flat), (''LogLevel'', Flat),
     (''TotalLimitSize'', Flat), (''CustomInputConf'', Flat), (''NodeSelectorKey'', Flat),
     (''CustomOutputConf'', Flat), (''NodeSelectorValue'', Flat), (''TLS'', FluentdTLS_type),
     (''AdditionalVolumeMounts'', Slice (kube_type K ''VolumeMount'')),
     (''ExcludePath'', Slice Flat), (''AdditionalVolumes'', Slice (kube_type K ''Volume'')),
     (''Tolerations'', Slice (kube_type K ''Toleration'')),
     (''Affinity'', Pointer (kube_type K ''Affinity'')), (''QueueLimitLength'', Flat),
     (''GraylogPort'', Flat), (''BillCycleConf'', Flat), (''SystemLogging'', Flat),
     (''SystemAuditLogging'', Flat), (''KubeAuditLogging'', Flat),
     (''KubeApiserverAuditLogging'', Flat), (''ContainerLogging'', Flat),
     (''WatchKubernetesMetadata'', Flat), (''SecurityContextPrivileged'', Flat),
     (''FileStorage'', Flat), (''GraylogOutput'', Flat), (''GraylogBufferFlushInterval'', Flat),
     (''Compress'', Flat), (''MockKubeData'', Flat),
     (''Output'', Pointer (OutputFluentd_type K))]"

definition Fluentd_DeepCopyInto :: "kube_types \<Rightarrow> copier" where
  "Fluentd_DeepCopyInto K = copy_struct
    [(''Resources'', copy_kube_pointer K ''ResourceRequirements''),
     (''Annotations'', copy_map), (''Labels'', copy_map), (''ExtraFields'', copy_map),
     (''ConfigmapReload'', copy_pointer (ConfigmapReload_type K) (ConfigmapReload_DeepCopyInto K)),
     (''TLS'', FluentdTLS_DeepCopyInto),
     (''AdditionalVolumeMounts'', copy_elements (kube_type K ''VolumeMount'') (kube_DeepCopyInto K ''VolumeMount'')),
     (''ExcludePath'', copy_slice),
     (''AdditionalVolumes'', copy_elements (kube_type K ''Volume'') (kube_DeepCopyInto K ''Volume'')),
     (''Tolerations'', copy_elements (kube_type K ''Toleration'') (kube_DeepCopyInto K ''Toleration'')),
     (''Affinity'', copy_kube_pointer K ''Affinity''),
     (''Output'', copy_pointer (OutputFluentd_type K) (OutputFluentd_DeepCopyInto K))]"

definition Fluentd_DeepCopy :: "kube_types \<Rightarrow> copier" where
  "Fluentd_DeepCopy K = copy_pointer (Fluentd_type K) (Fluentd_DeepCopyInto K)"

definition HTTPGraylogTLS_type :: gotype where
  "HTTPGraylogTLS_type = Struct
    [(''GenerateCerts'', Pointer GenerateCerts_type), (''Cert'', Pointer Cert_type),
     (''Key'', Pointer Key_type), (''CACerts'', Flat), (''KeyFilePassword'', Flat),
     (''Enabled'', Flat), (''InsecureSkipVerify'', Flat)]"

definition HTTPGraylogTLS_DeepCopyInto :: copier where
  "HTTPGraylogTLS_DeepCopyInto = copy_struct
    [(''GenerateCerts'', copy_pointer GenerateCerts_type assign_value),
     (''Cert'', copy_pointer Cert_type assign_value),
     (''Key'', copy_pointer Key_type assign_value)]"

definition HTTPGraylogTLS_DeepCopy :: copier where
  "HTTPGraylogTLS_DeepCopy = copy_pointer HTTPGraylogTLS_type HTTPGraylogTLS_DeepCopyInto"

definition InputGraylogTLS_type :: gotype where
  "InputGraylogTLS_type = Struct
    [(''TLS'', TLS_type), (''KeyFilePassword'', Flat), (''Enabled'', Flat),
     (''InsecureSkipVerify'', Flat)]"

definition InputGraylogTLS_DeepCopyInto :: copier where
  "InputGraylogTLS_DeepCopyInto = copy_struct
    [(''TLS'', TLS_DeepCopyInto)]"

definition InputGraylogTLS_DeepCopy :: copier where
  "InputGraylogTLS_DeepCopy = copy_pointer InputGraylogTLS_type InputGraylogTLS_DeepCopyInto"

definition GraylogTLS_type :: gotype where
  "GraylogTLS_type = Struct
    [(''HTTP'', Pointer HTTPGraylogTLS_type), (''Input'', Pointer InputGraylogTLS_type)]"

definition GraylogTLS_DeepCopyInto :: copier where
  "GraylogTLS_DeepCopyInto = copy_struct
    [(''HTTP'', copy_pointer HTTPGraylogTLS_type HTTPGraylogTLS_DeepCopyInto),
     (''Input'', copy_pointer InputGraylogTLS_type InputGraylogTLS_DeepCopyInto)]"

definition GraylogTLS_DeepCopy :: copier where
  "GraylogTLS_DeepCopy = copy_pointer GraylogTLS_type GraylogTLS_DeepCopyInto"

definition MongoDBUpgrade_type :: gotype where
  "MongoDBUpgrade_type = Struct
    [(''MongoDBImage40'', Flat), (''MongoDBImage42'', Flat), (''MongoDBImage44'', Flat)]"

definition MongoDBUpgrade_DeepCopyInto :: copier where
  "MongoDBUpgrade_DeepCopyInto = copy_struct []"

definition MongoDBUpgrade_DeepCopy :: copier where
  "MongoDBUpgrade_DeepCopy = copy_pointer MongoDBUpgrade_type MongoDBUpgrade_DeepCopyInto"

definition OpenSearch_type :: "kube_types \<Rightarrow> gotype" where
  "OpenSearch_type K = Struct
    [(''HTTPConfig'', Pointer (HTTPConfig_type K)), (''Host'', Flat)]"

definition OpenSearch_DeepCopyInto :: "kube_types \<Rightarrow> copier" where
  "OpenSearch_DeepCopyInto K = copy_struct
    [(''HTTPConfig'', copy_pointer (HTTPConfig_type K) (HTTPConfig_DeepCopyInto K))]"

definition OpenSearch_DeepCopy :: "kube_types \<Rightarrow> copier" where
  "OpenSearch_DeepCopy K = copy_pointer (OpenSearch_type K) (OpenSearch_DeepCopyInto K)"

definition Stream_type :: gotype where
  "Stream_type = Struct
    [(''Name'', Flat), (''RotationStrategy'', Flat), (''RotationPeriod'', Flat),
     (''MaxSize'', Flat), (''MaxNumberOfIndices'', Flat), (''Install'', Flat)]"

definition Stream_DeepCopyInto :: copier where
  "Stream_DeepCopyInto = copy_struct []"

definition Stream_DeepCopy :: copier where
  "Stream_DeepCopy = copy_pointer Stream_type Stream_DeepCopyInto"

definition Graylog_type :: "kube_types \<Rightarrow> gotype" where
  "Graylog_type K = Struct
    [(''GraylogResources'', Pointer (kube_type K ''ResourceRequirements'')),
     (''MongoResources'', Pointer (kube_type K ''ResourceRequirements'')),
     (''InitResources'', Pointer (kube_type K ''ResourceRequirements'')),
     (''MongoDBUpgrade'', Pointer MongoDBUpgrade_type),
     (''AuthProxy'', Pointer (AuthProxy_type K)), (''TLS'', Pointer GraylogTLS_type),
     (''OpenSearch'', Pointer (OpenSearch_type K)),
     (''Affinity'', Pointer (kube_type K ''Affinity'')), (''Annotations'', MapOf Flat),
     (''Labels'', MapOf Flat), (''NodeSelectorValue'', Flat), (''PathRepo'', Flat),
     (''PriorityClassName'', Flat), (''DockerImage'', Flat), (''MongoDBImage'', Flat),
     (''LogLevel'', Flat), (''ContentDeployPolicy'', Flat), (''JavaOpts'', Flat),
     (''ContentPackPaths'', Flat), (''CustomPluginsPaths'', Flat), (''Host'', Flat),
     (''InitSetupImage'', Flat), (''User'', Flat), (''Password'', Flat),
     (''ElasticsearchHost'', Flat), (''NodeSelectorKey'', Flat),
     (''InitContainerDockerImage'', Flat), (''GraylogSecretName'', Flat),
     (''ContentPacks'', Slice (Pointer (ContentPackPathHTTPConfig_type K))),
     (''Streams'', Slice Stream_type), (''ProcessbufferProcessors'', Flat),
     (''OutputbufferProcessorThreadsMaxPoolSize'', Flat), (''RingSize'', Flat),
     (''ElasticsearchMaxTotalConnectionsPerRoute'', Flat),
     (''ElasticsearchMaxTotalConnections'', Flat), (''OutputBatchSize'', Flat),
     (''InputbufferRingSize'', Flat), (''OutputbufferProcessors'', Flat), (''MaxSize'', Flat),
     (''InputbufferProcessors'', Flat), (''StartupTimeout'', Flat),
     (''IndexShards'', Pointer Flat), (''IndexReplicas'', Pointer Flat),
     (''MaxNumberOfIndices'', Flat), (''LogsRotationSizeGb'', Flat), (''InputPort'', Flat),
     (''Replicas'', Pointer Flat), (''S3Archive'', Flat)]"

definition Graylog_DeepCopyInto :: "kube_types \<Rightarrow> copier" where
  "Graylog_DeepCopyInto K = copy_struct
    [(''GraylogResources'', copy_kube_pointer K ''ResourceRequirements''),
     (''MongoResources'', copy_kube_pointer K ''ResourceRequirements''),
     (''InitResources'', copy_kube_pointer K ''ResourceRequirements''),
     (''MongoDBUpgrade'', copy_pointer MongoDBUpgrade_type assign_value),
     (''AuthProxy'', copy_pointer (AuthProxy_type K) (AuthProxy_DeepCopyInto K)),
     (''TLS'', copy_pointer GraylogTLS_type GraylogTLS_DeepCopyInto),
     (''OpenSearch'', copy_pointer (OpenSearch_type K) (OpenSearch_DeepCopyInto K)),
     (''Affinity'', copy_kube_pointer K ''Affinity''),
     (''Annotations'', copy_map), (''Labels'', copy_map),
     (''ContentPacks'', copy_elements (Pointer (ContentPackPathHTTPConfig_type K))
       (copy_pointer (ContentPackPathHTTPConfig_type K) (ContentPackPathHTTPConfig_DeepCopyInto K))),
     (''Streams'', copy_slice), (''IndexShards'', copy_pointer Flat assign_value),
     (''IndexReplicas'', copy_pointer Flat assign_value),
     (''Replicas'', copy_pointer Flat assign_value)]"

definition Graylog_DeepCopy :: "kube_types \<Rightarrow> copier" where
  "Graylog_DeepCopy K = copy_pointer (Graylog_type K) (Graylog_DeepCopyInto K)"

definition MonitoringAgentLoggingPlugin_type :: "kube_types \<Rightarrow> gotype" where
  "MonitoringAgentLoggingPlugin_type K = Struct
    [(''Resources'', Pointer (kube_type K ''ResourceRequirements'')),
     (''Annotations'', MapOf Flat), (''Labels'', MapOf Flat), (''InfluxDBName'', Flat),
     (''InfluxDBSecretName'', Flat), (''InfluxDBHost'', Flat), (''NodeSelectorKey'', Flat),
     (''NodeSelectorValue'', Flat), (''SaSecret'', Flat), (''SaSecretVolume'', Flat),
     (''PriorityClassName'', Flat), (''DockerImage'', Flat), (''InfluxDBPort'', Flat),
     (''InfluxDBMode'', Flat)]"

definition MonitoringAgentLoggingPlugin_DeepCopyInto :: "kube_types \<Rightarrow> copier" where
  "MonitoringAgentLoggingPlugin_DeepCopyInto K = copy_struct
    [(''Resources'', copy_kube_pointer K ''ResourceRequirements''),
     (''Annotations'', copy_map), (''Labels'', copy_map)]"

definition MonitoringAgentLoggingPlugin_DeepCopy :: "kube_types \<Rightarrow> copier" where
  "MonitoringAgentLoggingPlugin_DeepCopy K =
     copy_pointer (MonitoringAgentLoggingPlugin_type K) (MonitoringAgentLoggingPlugin_DeepCopyInto K)"

definition LoggingServiceSpec_type :: "kube_types \<Rightarrow> gotype" where
  "LoggingServiceSpec_type K = Struct
    [(''Graylog'', Pointer (Graylog_type K)), (''Fluentd'', Pointer (Fluentd_type K)),
     (''Fluentbit'', Pointer (Fluentbit_type K)),
     (''CloudEventsReader'', Pointer (CloudEventsReader_type K)),
     (''MonitoringAgentLoggingPlugin'', Pointer (MonitoringAgentLoggingPlugin_type K)),
     (''CloudURL'', Flat), (''OSKind'', Flat), (''ContainerRuntimeType'', Flat), (''Ipv6'', Flat),
     (''OpenshiftDeploy'', Flat)]"

definition LoggingServiceSpec_DeepCopyInto :: "kube_types \<Rightarrow> copier" where
  "LoggingServiceSpec_DeepCopyInto K = copy_struct
    [(''Graylog'', copy_pointer (Graylog_type K) (Graylog_DeepCopyInto K)),
     (''Fluentd'', copy_pointer (Fluentd_type K) (Fluentd_DeepCopyInto K)),
     (''Fluentbit'', copy_pointer (Fluentbit_type K) (Fluentbit_DeepCopyInto K)),
     (''CloudEventsReader'', copy_pointer (CloudEventsReader_type K) (CloudEventsReader_DeepCopyInto K)),
     (''MonitoringAgentLoggingPlugin'', copy_pointer (MonitoringAgentLoggingPlugin_type K) (MonitoringAgentLoggingPlugin_DeepCopyInto K))]"

definition LoggingServiceSpec_DeepCopy :: "kube_types \<Rightarrow> copier" where
  "LoggingServiceSpec_DeepCopy K =
     copy_pointer (LoggingServiceSpec_type K) (LoggingServiceSpec_DeepCopyInto K)"

definition LoggingServiceCondition_type :: gotype where
  "LoggingServiceCondition_type = Struct
    [(''Type'', Flat), (''Reason'', Flat), (''Message'', Flat), (''LastTransitionTime'', Flat),
     (''Status'', Flat)]"

definition LoggingServiceCondition_DeepCopyInto :: copier where
  "LoggingServiceCondition_DeepCopyInto = copy_struct []"

definition LoggingServiceCondition_DeepCopy :: copier where
  "LoggingServiceCondition_DeepCopy =
     copy_pointer LoggingServiceCondition_type LoggingServiceCondition_DeepCopyInto"

definition LoggingServiceStatus_type :: gotype where
  "LoggingServiceStatus_type = Struct
    [(''Conditions'', Slice LoggingServiceCondition_type)]"

definition LoggingServiceStatus_DeepCopyInto :: copier where
  "LoggingServiceStatus_DeepCopyInto = copy_struct
    [(''Conditions'', copy_slice)]"

definition LoggingServiceStatus_DeepCopy :: copier where
  "LoggingServiceStatus_DeepCopy =
     copy_pointer LoggingServiceStatus_type LoggingServiceStatus_DeepCopyInto"

definition LoggingService_type :: "kube_types \<Rightarrow> gotype" where
  "LoggingService_type K = Struct
    [(''TypeMeta'', kube_type K ''TypeMeta''), (''ObjectMeta'', kube_type K ''ObjectMeta''),
     (''Spec'', LoggingServiceSpec_type K), (''Status'', LoggingServiceStatus_type)]"

definition LoggingService_DeepCopyInto :: "kube_types \<Rightarrow> copier" where
  "LoggingService_DeepCopyInto K = copy_struct
    [(''TypeMeta'', assign_value), (''ObjectMeta'', kube_DeepCopyInto K ''ObjectMeta''),
     (''Spec'', LoggingServiceSpec_DeepCopyInto K),
     (''Status'', LoggingServiceStatus_DeepCopyInto)]"

definition LoggingService_DeepCopy :: "kube_types \<Rightarrow> copier" where
  "LoggingService_DeepCopy K = copy_pointer (LoggingService_type K) (LoggingService_DeepCopyInto K)"

definition LoggingService_DeepCopyObject ::
  "kube_types \<Rightarrow> hval \<Rightarrow> heap \<Rightarrow> hval option \<times> heap" where
  "LoggingService_DeepCopyObject K = copy_object (LoggingService_DeepCopy K)"

definition LoggingServiceList_type :: "kube_types \<Rightarrow> gotype" where
  "LoggingServiceList_type K = Struct
    [(''TypeMeta'', kube_type K ''TypeMeta''), (''ListMeta'', kube_type K ''ListMeta''),
     (''Items'', Slice (LoggingService_type K))]"

definition LoggingServiceList_DeepCopyInto :: "kube_types \<Rightarrow> copier" where
  "LoggingServiceList_DeepCopyInto K = copy_struct
    [(''TypeMeta'', assign_value), (''ListMeta'', kube_DeepCopyInto K ''ListMeta''),
     (''Items'', copy_elements (LoggingService_type K) (LoggingService_DeepCopyInto K))]"

definition LoggingServiceList_DeepCopy :: "kube_types \<Rightarrow> copier" where
  "LoggingServiceList_DeepCopy K =
     copy_pointer (LoggingServiceList_type K) (LoggingServiceList_DeepCopyInto K)"

definition LoggingServiceList_DeepCopyObject ::
  "kube_types \<Rightarrow> hval \<Rightarrow> heap \<Rightarrow> hval option \<times> heap" where
  "LoggingServiceList_DeepCopyObject K = copy_object (LoggingServiceList_DeepCopy K)"

definition Release_type :: gotype where
  "Release_type = Struct
    [(''Namespace'', Flat)]"

definition Release_DeepCopyInto :: copier where
  "Release_DeepCopyInto = copy_struct []"

definition Release_DeepCopy :: copier where
  "Release_DeepCopy = copy_pointer Release_type Release_DeepCopyInto"

definition LoggingServiceParameters_type :: "kube_types \<Rightarrow> gotype" where
  "LoggingServiceParameters_type K = Struct
    [(''Release'', Release_type), (''Values'', LoggingServiceSpec_type K)]"

definition LoggingServiceParameters_DeepCopyInto :: "kube_types \<Rightarrow> copier" where
  "LoggingServiceParameters_DeepCopyInto K = copy_struct
    [(''Release'', assign_value), (''Values'', LoggingServiceSpec_DeepCopyInto K)]"

definition LoggingServiceParameters_DeepCopy :: "kube_types \<Rightarrow> copier" where
  "LoggingServiceParameters_DeepCopy K =
     copy_pointer (LoggingServiceParameters_type K) (LoggingServiceParameters_DeepCopyInto K)"

text \<open>All of them.\<close>

definition api_copy_functions :: "kube_types \<Rightarrow> (gotype \<times> copier) list" where
  "api_copy_functions K =
    [(Auth_type K, Auth_DeepCopyInto K), (AuthProxy_type K, AuthProxy_DeepCopyInto K),
     (CA_type, CA_DeepCopyInto), (Cert_type, Cert_DeepCopyInto),
     (Certificates_type, Certificates_DeepCopyInto),
     (CloudEventsReader_type K, CloudEventsReader_DeepCopyInto K),
     (ConfigmapReload_type K, ConfigmapReload_DeepCopyInto K),
     (ContentPackPathHTTPConfig_type K, ContentPackPathHTTPConfig_DeepCopyInto K),
     (Credentials_type K, Credentials_DeepCopyInto K),
     (Fluentbit_type K, Fluentbit_DeepCopyInto K),
     (FluentbitAggregator_type K, FluentbitAggregator_DeepCopyInto K),
     (FluentbitDB_type, FluentbitDB_DeepCopyInto),
     (FluentbitHTTPRouting_type, FluentbitHTTPRouting_DeepCopyInto),
     (FluentbitHttpTLS_type, FluentbitHttpTLS_DeepCopyInto),
     (FluentbitLokiTLS_type, FluentbitLokiTLS_DeepCopyInto),
     (FluentbitTLS_type, FluentbitTLS_DeepCopyInto),
     (FluentbitTLSParams_type, FluentbitTLSParams_DeepCopyInto),
     (Fluentd_type K, Fluentd_DeepCopyInto K),
     (FluentdHTTPRouting_type, FluentdHTTPRouting_DeepCopyInto),
     (FluentdHttpTLS_type, FluentdHttpTLS_DeepCopyInto),
     (FluentdHttpTLSParams_type, FluentdHttpTLSParams_DeepCopyInto),
     (FluentdLokiTLS_type, FluentdLokiTLS_DeepCopyInto),
     (FluentdTLS_type, FluentdTLS_DeepCopyInto),
     (FluentdTLSParams_type, FluentdTLSParams_DeepCopyInto),
     (GenerateCerts_type, GenerateCerts_DeepCopyInto), (Graylog_type K, Graylog_DeepCopyInto K),
     (GraylogTLS_type, GraylogTLS_DeepCopyInto), (HTTPConfig_type K, HTTPConfig_DeepCopyInto K),
     (HTTPGraylogTLS_type, HTTPGraylogTLS_DeepCopyInto),
     (HttpFluentbit_type K, HttpFluentbit_DeepCopyInto K),
     (HttpFluentd_type K, HttpFluentd_DeepCopyInto K),
     (InputGraylogTLS_type, InputGraylogTLS_DeepCopyInto), (Key_type, Key_DeepCopyInto),
     (LoggingService_type K, LoggingService_DeepCopyInto K),
     (LoggingServiceCondition_type, LoggingServiceCondition_DeepCopyInto),
     (LoggingServiceList_type K, LoggingServiceList_DeepCopyInto K),
     (LoggingServiceParameters_type K, LoggingServiceParameters_DeepCopyInto K),
     (LoggingServiceSpec_type K, LoggingServiceSpec_DeepCopyInto K),
     (LoggingServiceStatus_type, LoggingServiceStatus_DeepCopyInto),
     (LokiFluentbit_type K, LokiFluentbit_DeepCopyInto K),
     (LokiFluentd_type K, LokiFluentd_DeepCopyInto K),
     (MongoDBUpgrade_type, MongoDBUpgrade_DeepCopyInto),
     (MonitoringAgentLoggingPlugin_type K, MonitoringAgentLoggingPlugin_DeepCopyInto K),
     (OpenSearch_type K, OpenSearch_DeepCopyInto K),
     (OtelFluentbit_type K, OtelFluentbit_DeepCopyInto K),
     (OutputFluentbit_type K, OutputFluentbit_DeepCopyInto K),
     (OutputFluentd_type K, OutputFluentd_DeepCopyInto K), (Release_type, Release_DeepCopyInto),
     (Stream_type, Stream_DeepCopyInto), (TLS_type, TLS_DeepCopyInto),
     (TLSConfig_type K, TLSConfig_DeepCopyInto K), (Volume_type, Volume_DeepCopyInto)]"

section \<open>Every function copies\<close>

named_theorems copies_rules \<open>what the statements of the copy functions copy\<close>

lemma kube_copies_type [copies_rules]:
  "kube_copies K \<Longrightarrow> copies (kube_type K n) (kube_DeepCopyInto K n)"
  by (simp add: kube_copies_def)

lemma kube_copies_meta [simp]: "kube_copies K \<Longrightarrow> flat_type (kube_type K ''TypeMeta'')"
  by (simp add: kube_copies_def)

lemma copies_kube_pointer [copies_rules]:
  "kube_copies K \<Longrightarrow> copies (Pointer (kube_type K n)) (copy_kube_pointer K n)"
  by (simp add: kube_copies_def copy_kube_pointer_def copies_pointer)

declare copies_flat [copies_rules] copies_step [copies_rules] copies_none [copies_rules]
  copies_pointer [copies_rules] copies_slice [copies_rules] copies_elements [copies_rules]
  copies_map [copies_rules] copies_assign_value [copies_rules]

lemma CA_flat [simp]: "flat_type CA_type"
  by (simp add: CA_type_def)

lemma Cert_flat [simp]: "flat_type Cert_type"
  by (simp add: Cert_type_def)

lemma Key_flat [simp]: "flat_type Key_type"
  by (simp add: Key_type_def)

lemma FluentbitTLSParams_flat [simp]: "flat_type FluentbitTLSParams_type"
  by (simp add: FluentbitTLSParams_type_def)

lemma GenerateCerts_flat [simp]: "flat_type GenerateCerts_type"
  by (simp add: GenerateCerts_type_def)

lemma FluentbitHTTPRouting_flat [simp]: "flat_type FluentbitHTTPRouting_type"
  by (simp add: FluentbitHTTPRouting_type_def)

lemma Volume_flat [simp]: "flat_type Volume_type"
  by (simp add: Volume_type_def)

lemma FluentdTLSParams_flat [simp]: "flat_type FluentdTLSParams_type"
  by (simp add: FluentdTLSParams_type_def)

lemma FluentdHTTPRouting_flat [simp]: "flat_type FluentdHTTPRouting_type"
  by (simp add: FluentdHTTPRouting_type_def)

lemma FluentdHttpTLSParams_flat [simp]: "flat_type FluentdHttpTLSParams_type"
  by (simp add: FluentdHttpTLSParams_type_def)

lemma MongoDBUpgrade_flat [simp]: "flat_type MongoDBUpgrade_type"
  by (simp add: MongoDBUpgrade_type_def)

lemma Stream_flat [simp]: "flat_type Stream_type"
  by (simp add: Stream_type_def)

lemma LoggingServiceCondition_flat [simp]: "flat_type LoggingServiceCondition_type"
  by (simp add: LoggingServiceCondition_type_def)

lemma Release_flat [simp]: "flat_type Release_type"
  by (simp add: Release_type_def)

lemma Auth_copies [copies_rules]:
  "kube_copies K \<Longrightarrow> copies (Auth_type K) (Auth_DeepCopyInto K)"
  unfolding Auth_type_def Auth_DeepCopyInto_def
  by (rule copies_struct) ((rule copies_rules | assumption | simp)+)

lemma CA_copies [copies_rules]:
  "copies CA_type CA_DeepCopyInto"
  unfolding CA_type_def CA_DeepCopyInto_def
  by (rule copies_struct) ((rule copies_rules | assumption | simp)+)

lemma Cert_copies [copies_rules]:
  "copies Cert_type Cert_DeepCopyInto"
  unfolding Cert_type_def Cert_DeepCopyInto_def
  by (rule copies_struct) ((rule copies_rules | assumption | simp)+)

lemma Key_copies [copies_rules]:
  "copies Key_type Key_DeepCopyInto"
  unfolding Key_type_def Key_DeepCopyInto_def
  by (rule copies_struct) ((rule copies_rules | assumption | simp)+)

lemma AuthProxy_copies [copies_rules]:
  "kube_copies K \<Longrightarrow> copies (AuthProxy_type K) (AuthProxy_DeepCopyInto K)"
  unfolding AuthProxy_type_def AuthProxy_DeepCopyInto_def
  by (rule copies_struct) ((rule copies_rules | assumption | simp)+)

lemma Certificates_copies [copies_rules]:
  "copies Certificates_type Certificates_DeepCopyInto"
  unfolding Certificates_type_def Certificates_DeepCopyInto_def
  by (rule copies_struct) ((rule copies_rules | assumption | simp)+)

lemma CloudEventsReader_copies [copies_rules]:
  "kube_copies K \<Longrightarrow>
     copies (CloudEventsReader_type K) (CloudEventsReader_DeepCopyInto K)"
  unfolding CloudEventsReader_type_def CloudEventsReader_DeepCopyInto_def
  by (rule copies_struct) ((rule copies_rules | assumption | simp)+)

lemma ConfigmapReload_copies [copies_rules]:
  "kube_copies K \<Longrightarrow>
     copies (ConfigmapReload_type K) (ConfigmapReload_DeepCopyInto K)"
  unfolding ConfigmapReload_type_def ConfigmapReload_DeepCopyInto_def
  by (rule copies_struct) ((rule copies_rules | assumption | simp)+)

lemma Credentials_copies [copies_rules]:
  "kube_copies K \<Longrightarrow>
     copies (Credentials_type K) (Credentials_DeepCopyInto K)"
  unfolding Credentials_type_def Credentials_DeepCopyInto_def
  by (rule copies_struct) ((rule copies_rules | assumption | simp)+)

lemma TLSConfig_copies [copies_rules]:
  "kube_copies K \<Longrightarrow> copies (TLSConfig_type K) (TLSConfig_DeepCopyInto K)"
  unfolding TLSConfig_type_def TLSConfig_DeepCopyInto_def
  by (rule copies_struct) ((rule copies_rules | assumption | simp)+)

lemma HTTPConfig_copies [copies_rules]:
  "kube_copies K \<Longrightarrow>
     copies (HTTPConfig_type K) (HTTPConfig_DeepCopyInto K)"
  unfolding HTTPConfig_type_def HTTPConfig_DeepCopyInto_def
  by (rule copies_struct) ((rule copies_rules | assumption | simp)+)

lemma ContentPackPathHTTPConfig_copies [copies_rules]:
  "kube_copies K \<Longrightarrow>
     copies (ContentPackPathHTTPConfig_type K) (ContentPackPathHTTPConfig_DeepCopyInto K)"
  unfolding ContentPackPathHTTPConfig_type_def ContentPackPathHTTPConfig_DeepCopyInto_def
  by (rule copies_struct) ((rule copies_rules | assumption | simp)+)

lemma FluentbitTLSParams_copies [copies_rules]:
  "copies FluentbitTLSParams_type FluentbitTLSParams_DeepCopyInto"
  unfolding FluentbitTLSParams_type_def FluentbitTLSParams_DeepCopyInto_def
  by (rule copies_struct) ((rule copies_rules | assumption | simp)+)

lemma GenerateCerts_copies [copies_rules]:
  "copies GenerateCerts_type GenerateCerts_DeepCopyInto"
  unfolding GenerateCerts_type_def GenerateCerts_DeepCopyInto_def
  by (rule copies_struct) ((rule copies_rules | assumption | simp)+)

lemma TLS_copies [copies_rules]:
  "copies TLS_type TLS_DeepCopyInto"
  unfolding TLS_type_def TLS_DeepCopyInto_def
  by (rule copies_struct) ((rule copies_rules | assumption | simp)+)

lemma FluentbitTLS_copies [copies_rules]:
  "copies FluentbitTLS_type FluentbitTLS_DeepCopyInto"
  unfolding FluentbitTLS_type_def FluentbitTLS_DeepCopyInto_def
  by (rule copies_struct) ((rule copies_rules | assumption | simp)+)

lemma FluentbitHTTPRouting_copies [copies_rules]:
  "copies FluentbitHTTPRouting_type FluentbitHTTPRouting_DeepCopyInto"
  unfolding FluentbitHTTPRouting_type_def FluentbitHTTPRouting_DeepCopyInto_def
  by (rule copies_struct) ((rule copies_rules | assumption | simp)+)

lemma FluentbitHttpTLS_copies [copies_rules]:
  "copies FluentbitHttpTLS_type FluentbitHttpTLS_DeepCopyInto"
  unfolding FluentbitHttpTLS_type_def FluentbitHttpTLS_DeepCopyInto_def
  by (rule copies_struct) ((rule copies_rules | assumption | simp)+)

lemma HttpFluentbit_copies [copies_rules]:
  "kube_copies K \<Longrightarrow>
     copies (HttpFluentbit_type K) (HttpFluentbit_DeepCopyInto K)"
  unfolding HttpFluentbit_type_def HttpFluentbit_DeepCopyInto_def
  by (rule copies_struct) ((rule copies_rules | assumption | simp)+)

lemma FluentbitLokiTLS_copies [copies_rules]:
  "copies FluentbitLokiTLS_type FluentbitLokiTLS_DeepCopyInto"
  unfolding FluentbitLokiTLS_type_def FluentbitLokiTLS_DeepCopyInto_def
  by (rule copies_struct) ((rule copies_rules | assumption | simp)+)

lemma LokiFluentbit_copies [copies_rules]:
  "kube_copies K \<Longrightarrow>
     copies (LokiFluentbit_type K) (LokiFluentbit_DeepCopyInto K)"
  unfolding LokiFluentbit_type_def LokiFluentbit_DeepCopyInto_def
  by (rule copies_struct) ((rule copies_rules | assumption | simp)+)

lemma OtelFluentbit_copies [copies_rules]:
  "kube_copies K \<Longrightarrow>
     copies (OtelFluentbit_type K) (OtelFluentbit_DeepCopyInto K)"
  unfolding OtelFluentbit_type_def OtelFluentbit_DeepCopyInto_def
  by (rule copies_struct) ((rule copies_rules | assumption | simp)+)

lemma OutputFluentbit_copies [copies_rules]:
  "kube_copies K \<Longrightarrow>
     copies (OutputFluentbit_type K) (OutputFluentbit_DeepCopyInto K)"
  unfolding OutputFluentbit_type_def OutputFluentbit_DeepCopyInto_def
  by (rule copies_struct) ((rule copies_rules | assumption | simp)+)

lemma Volume_copies [copies_rules]:
  "copies Volume_type Volume_DeepCopyInto"
  unfolding Volume_type_def Volume_DeepCopyInto_def
  by (rule copies_struct) ((rule copies_rules | assumption | simp)+)

lemma FluentbitAggregator_copies [copies_rules]:
  "kube_copies K \<Longrightarrow>
     copies (FluentbitAggregator_type K) (FluentbitAggregator_DeepCopyInto K)"
  unfolding FluentbitAggregator_type_def FluentbitAggregator_DeepCopyInto_def
  by (rule copies_struct) ((rule copies_rules | assumption | simp)+)

lemma FluentbitDB_copies [copies_rules]:
  "copies FluentbitDB_type FluentbitDB_DeepCopyInto"
  unfolding FluentbitDB_type_def FluentbitDB_DeepCopyInto_def
  by (rule copies_struct) ((rule copies_rules | assumption | simp)+)

lemma Fluentbit_copies [copies_rules]:
  "kube_copies K \<Longrightarrow> copies (Fluentbit_type K) (Fluentbit_DeepCopyInto K)"
  unfolding Fluentbit_type_def Fluentbit_DeepCopyInto_def
  by (rule copies_struct) ((rule copies_rules | assumption | simp)+)

lemma FluentdTLSParams_copies [copies_rules]:
  "copies FluentdTLSParams_type FluentdTLSParams_DeepCopyInto"
  unfolding FluentdTLSParams_type_def FluentdTLSParams_DeepCopyInto_def
  by (rule copies_struct) ((rule copies_rules | assumption | simp)+)

lemma FluentdTLS_copies [copies_rules]:
  "copies FluentdTLS_type FluentdTLS_DeepCopyInto"
  unfolding FluentdTLS_type_def FluentdTLS_DeepCopyInto_def
  by (rule copies_struct) ((rule copies_rules | assumption | simp)+)

lemma FluentdHTTPRouting_copies [copies_rules]:
  "copies FluentdHTTPRouting_type FluentdHTTPRouting_DeepCopyInto"
  unfolding FluentdHTTPRouting_type_def FluentdHTTPRouting_DeepCopyInto_def
  by (rule copies_struct) ((rule copies_rules | assumption | simp)+)

lemma FluentdHttpTLSParams_copies [copies_rules]:
  "copies FluentdHttpTLSParams_type FluentdHttpTLSParams_DeepCopyInto"
  unfolding FluentdHttpTLSParams_type_def FluentdHttpTLSParams_DeepCopyInto_def
  by (rule copies_struct) ((rule copies_rules | assumption | simp)+)

lemma FluentdHttpTLS_copies [copies_rules]:
  "copies FluentdHttpTLS_type FluentdHttpTLS_DeepCopyInto"
  unfolding FluentdHttpTLS_type_def FluentdHttpTLS_DeepCopyInto_def
  by (rule copies_struct) ((rule copies_rules | assumption | simp)+)

lemma HttpFluentd_copies [copies_rules]:
  "kube_copies K \<Longrightarrow>
     copies (HttpFluentd_type K) (HttpFluentd_DeepCopyInto K)"
  unfolding HttpFluentd_type_def HttpFluentd_DeepCopyInto_def
  by (rule copies_struct) ((rule copies_rules | assumption | simp)+)

lemma FluentdLokiTLS_copies [copies_rules]:
  "copies FluentdLokiTLS_type FluentdLokiTLS_DeepCopyInto"
  unfolding FluentdLokiTLS_type_def FluentdLokiTLS_DeepCopyInto_def
  by (rule copies_struct) ((rule copies_rules | assumption | simp)+)

lemma LokiFluentd_copies [copies_rules]:
  "kube_copies K \<Longrightarrow>
     copies (LokiFluentd_type K) (LokiFluentd_DeepCopyInto K)"
  unfolding LokiFluentd_type_def LokiFluentd_DeepCopyInto_def
  by (rule copies_struct) ((rule copies_rules | assumption | simp)+)

lemma OutputFluentd_copies [copies_rules]:
  "kube_copies K \<Longrightarrow>
     copies (OutputFluentd_type K) (OutputFluentd_DeepCopyInto K)"
  unfolding OutputFluentd_type_def OutputFluentd_DeepCopyInto_def
  by (rule copies_struct) ((rule copies_rules | assumption | simp)+)

lemma Fluentd_copies [copies_rules]:
  "kube_copies K \<Longrightarrow> copies (Fluentd_type K) (Fluentd_DeepCopyInto K)"
  unfolding Fluentd_type_def Fluentd_DeepCopyInto_def
  by (rule copies_struct) ((rule copies_rules | assumption | simp)+)

lemma HTTPGraylogTLS_copies [copies_rules]:
  "copies HTTPGraylogTLS_type HTTPGraylogTLS_DeepCopyInto"
  unfolding HTTPGraylogTLS_type_def HTTPGraylogTLS_DeepCopyInto_def
  by (rule copies_struct) ((rule copies_rules | assumption | simp)+)

lemma InputGraylogTLS_copies [copies_rules]:
  "copies InputGraylogTLS_type InputGraylogTLS_DeepCopyInto"
  unfolding InputGraylogTLS_type_def InputGraylogTLS_DeepCopyInto_def
  by (rule copies_struct) ((rule copies_rules | assumption | simp)+)

lemma GraylogTLS_copies [copies_rules]:
  "copies GraylogTLS_type GraylogTLS_DeepCopyInto"
  unfolding GraylogTLS_type_def GraylogTLS_DeepCopyInto_def
  by (rule copies_struct) ((rule copies_rules | assumption | simp)+)

lemma MongoDBUpgrade_copies [copies_rules]:
  "copies MongoDBUpgrade_type MongoDBUpgrade_DeepCopyInto"
  unfolding MongoDBUpgrade_type_def MongoDBUpgrade_DeepCopyInto_def
  by (rule copies_struct) ((rule copies_rules | assumption | simp)+)

lemma OpenSearch_copies [copies_rules]:
  "kube_copies K \<Longrightarrow>
     copies (OpenSearch_type K) (OpenSearch_DeepCopyInto K)"
  unfolding OpenSearch_type_def OpenSearch_DeepCopyInto_def
  by (rule copies_struct) ((rule copies_rules | assumption | simp)+)

lemma Stream_copies [copies_rules]:
  "copies Stream_type Stream_DeepCopyInto"
  unfolding Stream_type_def Stream_DeepCopyInto_def
  by (rule copies_struct) ((rule copies_rules | assumption | simp)+)

lemma Graylog_copies [copies_rules]:
  "kube_copies K \<Longrightarrow> copies (Graylog_type K) (Graylog_DeepCopyInto K)"
  unfolding Graylog_type_def Graylog_DeepCopyInto_def
  by (rule copies_struct) ((rule copies_rules | assumption | simp)+)

lemma MonitoringAgentLoggingPlugin_copies [copies_rules]:
  "kube_copies K \<Longrightarrow>
     copies (MonitoringAgentLoggingPlugin_type K) (MonitoringAgentLoggingPlugin_DeepCopyInto K)"
  unfolding MonitoringAgentLoggingPlugin_type_def MonitoringAgentLoggingPlugin_DeepCopyInto_def
  by (rule copies_struct) ((rule copies_rules | assumption | simp)+)

lemma LoggingServiceSpec_copies [copies_rules]:
  "kube_copies K \<Longrightarrow>
     copies (LoggingServiceSpec_type K) (LoggingServiceSpec_DeepCopyInto K)"
  unfolding LoggingServiceSpec_type_def LoggingServiceSpec_DeepCopyInto_def
  by (rule copies_struct) ((rule copies_rules | assumption | simp)+)

lemma LoggingServiceCondition_copies [copies_rules]:
  "copies LoggingServiceCondition_type LoggingServiceCondition_DeepCopyInto"
  unfolding LoggingServiceCondition_type_def LoggingServiceCondition_DeepCopyInto_def
  by (rule copies_struct) ((rule copies_rules | assumption | simp)+)

lemma LoggingServiceStatus_copies [copies_rules]:
  "copies LoggingServiceStatus_type LoggingServiceStatus_DeepCopyInto"
  unfolding LoggingServiceStatus_type_def LoggingServiceStatus_DeepCopyInto_def
  by (rule copies_struct) ((rule copies_rules | assumption | simp)+)

lemma LoggingService_copies [copies_rules]:
  "kube_copies K \<Longrightarrow>
     copies (LoggingService_type K) (LoggingService_DeepCopyInto K)"
  unfolding LoggingService_type_def LoggingService_DeepCopyInto_def
  by (rule copies_struct) ((rule copies_rules | assumption | simp)+)

lemma LoggingServiceList_copies [copies_rules]:
  "kube_copies K \<Longrightarrow>
     copies (LoggingServiceList_type K) (LoggingServiceList_DeepCopyInto K)"
  unfolding LoggingServiceList_type_def LoggingServiceList_DeepCopyInto_def
  by (rule copies_struct) ((rule copies_rules | assumption | simp)+)

lemma Release_copies [copies_rules]:
  "copies Release_type Release_DeepCopyInto"
  unfolding Release_type_def Release_DeepCopyInto_def
  by (rule copies_struct) ((rule copies_rules | assumption | simp)+)

lemma LoggingServiceParameters_copies [copies_rules]:
  "kube_copies K \<Longrightarrow>
     copies (LoggingServiceParameters_type K) (LoggingServiceParameters_DeepCopyInto K)"
  unfolding LoggingServiceParameters_type_def LoggingServiceParameters_DeepCopyInto_def
  by (rule copies_struct) ((rule copies_rules | assumption | simp)+)

lemma api_copies:
  "kube_copies K \<Longrightarrow> list_all (\<lambda>(T, f). copies T f) (api_copy_functions K)"
  by (simp add: api_copy_functions_def copies_rules)

text \<open>The locale on the structs of the package that need nothing of Kubernetes.\<close>

interpretation tls_copy: deep_copy TLS_type TLS_DeepCopyInto
  by unfold_locales (rule TLS_copies)

interpretation graylog_tls_copy: deep_copy GraylogTLS_type GraylogTLS_DeepCopyInto
  by unfold_locales (rule GraylogTLS_copies)

interpretation status_copy: deep_copy LoggingServiceStatus_type LoggingServiceStatus_DeepCopyInto
  by unfold_locales (rule LoggingServiceStatus_copies)

section \<open>Properties\<close>

text \<open>
  A model of the Kubernetes packages for the examples: \<open>v1.SecretKeySelector\<close> with its optional flag
  behind a pointer, every other type without references.
\<close>

definition example_kube :: kube_types where
  "example_kube = \<lparr>
     kube_type = (\<lambda>n. if n = ''SecretKeySelector''
       then Struct [(''LocalObjectReference'', Struct [(''Name'', Flat)]), (''Key'', Flat),
              (''Optional'', Pointer Flat)]
       else Flat),
     kube_DeepCopyInto = (\<lambda>n. if n = ''SecretKeySelector''
       then copy_struct [(''LocalObjectReference'', assign_value),
              (''Optional'', copy_pointer Flat assign_value)]
       else assign_value)\<rparr>"

lemma example_kube_copies: "kube_copies example_kube"
proof -
  have "copies (kube_type example_kube ''SecretKeySelector'')
      (kube_DeepCopyInto example_kube ''SecretKeySelector'')"
    unfolding example_kube_def
    by (simp, rule copies_struct) ((rule copies_rules | simp)+)
  then show ?thesis
    by (auto simp: kube_copies_def example_kube_def copies_assign_value)
qed

text \<open>An object in the heap whose status holds one condition.\<close>

definition example_heap :: heap where
  "example_heap =
     [Pointee (set_field ''Status'' (Fields [(''Conditions'', Loc (Some 1))])
        (zero_value (LoggingService_type example_kube))),
      Elements [Fields [(''Type'', Scalar ''Successful''), (''Reason'', Scalar ''FluentbitReconcile''),
        (''Message'', Scalar ''ok''), (''LastTransitionTime'', Scalar ''0''), (''Status'', Scalar ''true'')]]]"

lemma example_heap_typed:
  "shape_of example_heap (Pointer (LoggingService_type example_kube)) (Loc (Some 0)) \<noteq> None"
  by (simp add: example_heap_def example_kube_def LoggingService_type_def LoggingServiceSpec_type_def
    LoggingServiceStatus_type_def LoggingServiceCondition_type_def set_field_def cell_at.simps
    shape_of.simps fields_shape.simps)

text \<open>C20: type preservation of all generated copy functions. Let the copy functions of the
  Kubernetes packages copy the values of their types. Then each of the 52 functions \<open>DeepCopyInto\<close> of
  the API package, run on a value of its struct type, leaves in \<open>*out\<close> a value of the same type with
  the same contents; it allocates every cell the copy refers to and changes no cell that existed
  before.\<close>

theorem DeepCopyInto_keeps_types:
  assumes "kube_copies K" and "(T, f) \<in> set (api_copy_functions K)"
    and "shape_of h T v = Some s" and "f v h = (v', h')"
  shows "prefix h h' \<and>
     (\<exists>t. shape_of h' T v' = Some t \<and> contents t = contents s \<and> set_shape t \<subseteq> {length h..<length h'})"
proof -
  have "copies T f"
    using api_copies [OF assms(1)] assms(2) by (auto simp: list_all_iff)
  then show ?thesis
    using assms(3,4) by (auto elim: copiesE)
qed

theorem DeepCopyInto_keeps_types_witness:
  "\<exists>v' h' t. LoggingServiceStatus_DeepCopyInto (Fields [(''Conditions'', Loc (Some 1))]) example_heap = (v', h') \<and>
     prefix example_heap h' \<and> shape_of h' LoggingServiceStatus_type v' = Some t \<and>
     set_shape t \<subseteq> {2..<length h'}"
proof -
  let ?v = "Fields [(''Conditions'', Loc (Some 1))]"
  have "(LoggingServiceStatus_type, LoggingServiceStatus_DeepCopyInto) \<in> set (api_copy_functions example_kube)"
    by (simp add: api_copy_functions_def)
  moreover have "shape_of example_heap LoggingServiceStatus_type ?v \<noteq> None"
    by (simp add: example_heap_def LoggingServiceStatus_type_def LoggingServiceCondition_type_def
      cell_at.simps shape_of.simps fields_shape.simps)
  then obtain s where "shape_of example_heap LoggingServiceStatus_type ?v = Some s" by blast
  moreover obtain v' h' where r: "LoggingServiceStatus_DeepCopyInto ?v example_heap = (v', h')" by fastforce
  moreover have "length example_heap = 2" by (simp add: example_heap_def)
  ultimately show ?thesis
    using DeepCopyInto_keeps_types [OF example_kube_copies] by fastforce
qed

text \<open>C14: independence of copied objects. \<open>DeepCopyObject\<close>, the copy function of the interface
  \<open>runtime.Object\<close>, returns nil for a nil receiver, and for a \<open>LoggingService\<close> a pointer to an object of the
  same type and contents. Original and copy share no location: whatever code does that holds the
  locations of the copy, writing to its cells and to cells it allocates, the original stays as it is,
  and the other way round.\<close>

theorem DeepCopyObject_independent:
  assumes "kube_copies K"
    and "shape_of h (Pointer (LoggingService_type K)) (Loc (Some a)) = Some s"
  shows "LoggingService_DeepCopyObject K (Loc None) h = (None, h) \<and>
     (\<exists>q h' t. LoggingService_DeepCopyObject K (Loc (Some a)) h = (Some q, h') \<and>
        shape_of h' (Pointer (LoggingService_type K)) (Loc (Some a)) = Some s \<and>
        shape_of h' (Pointer (LoggingService_type K)) q = Some t \<and>
        contents t = contents s \<and> set_shape t \<inter> set_shape s = {} \<and>
        (\<forall>h''. writes_within (set_shape t) h' h'' \<longrightarrow>
           shape_of h'' (Pointer (LoggingService_type K)) (Loc (Some a)) = Some s) \<and>
        (\<forall>h''. writes_within (set_shape s) h' h'' \<longrightarrow>
           shape_of h'' (Pointer (LoggingService_type K)) q = Some t))"
proof -
  note dc = deep_copy.intro [OF LoggingService_copies [OF assms(1)]]
  obtain q h' where q: "LoggingService_DeepCopy K (Loc (Some a)) h = (q, h')" by fastforce
  have "q \<noteq> Loc None"
    using q by (auto simp: LoggingService_DeepCopy_def copy_pointer_def Let_def split: prod.splits)
  with q have "LoggingService_DeepCopyObject K (Loc (Some a)) h = (Some q, h')"
    by (simp add: LoggingService_DeepCopyObject_def copy_object_def)
  moreover have "LoggingService_DeepCopyObject K (Loc None) h = (None, h)"
    by (simp add: LoggingService_DeepCopyObject_def LoggingService_DeepCopy_def copy_object_def
      deep_copy.nil_kept [OF dc])
  ultimately show ?thesis
    using deep_copy.independent [OF dc assms(2) q [unfolded LoggingService_DeepCopy_def]] by blast
qed

theorem DeepCopyObject_independent_witness:
  "\<exists>s t q h'. shape_of example_heap (Pointer (LoggingService_type example_kube)) (Loc (Some 0)) = Some s \<and>
     LoggingService_DeepCopyObject example_kube (Loc (Some 0)) example_heap = (Some q, h') \<and>
     shape_of h' (Pointer (LoggingService_type example_kube)) q = Some t \<and>
     contents t = contents s \<and> set_shape t \<inter> set_shape s = {}"
proof -
  obtain s where s: "shape_of example_heap (Pointer (LoggingService_type example_kube)) (Loc (Some 0)) = Some s"
    using example_heap_typed by blast
  from DeepCopyObject_independent [OF example_kube_copies s] show ?thesis
    using s by blast
qed

end
