(* ===== verification/Spec2Isabelle.thy ===== *)
theory Spec2Isabelle
  imports Component_Properties Operator_Properties Secret_Events Graylog_Watch Pipeline_Properties Pipeline_Deployed Monitors Text_Helpers
    Golden Api_Copies
begin

text \<open>
  The logging operator: a Kubernetes operator that installs log collectors (FluentD, Fluent Bit, Fluent
  Bit as forwarder and aggregator, Cloud Events Reader) and Graylog from one custom resource. Beside it
  stands the fluent pipeline test, a tool that renders the configuration of a collector, runs recorded
  logs through it and compares what comes out with what is expected.

  \<^bold>\<open>Parts of the program and the theories that model them.\<close>
  \<^item> \<open>Prelude\<close>: strings, Go maps, fixed-width integers, the effect monad \<open>('w, 'a) eff\<close> (a state
    monad over \<open>error + 'a\<close>) and the locale \<open>effect_frame\<close>, from which every frame property follows.
  \<^item> \<open>K8s_Types\<close>, \<open>Api_Types\<close>: the Kubernetes objects and the custom resource
    (\<open>api/v1/loggingservice_types.go\<close>) as records with the fields of the source.
  \<^item> \<open>Labels\<close>, \<open>Vars\<close>: \<open>utils/labels.go\<close>, \<open>utils/vars.go\<close>.
  \<^item> \<open>Builder\<close> and the five \<open>_Builder\<close> theories: \<open>internal/builder\<close> and \<open>internal/defaults\<close>, the
    pure functions from custom resource to workload and Service.
  \<^item> \<open>Client\<close>: the API server, clock, template engine and other code outside the repository as a record
    \<open>'w client\<close> of operations on an abstract world \<open>'w\<close>. What the code relies on are the hypotheses
    \<open>cluster_laws\<close>, \<open>patch_law\<close>, \<open>clock_law\<close> and \<open>quiet_laws\<close>; \<open>store_client\<close> is a concrete client, an
    in-memory object store, that satisfies them all.
  \<^item> \<open>Reconcilers\<close>: \<open>internal/reconcilers\<close>, \<open>utils/common.go\<close>, \<open>utils/config_secret.go\<close>.
  \<^item> \<open>Credentials\<close>: \<open>utils/output_credentials.go\<close>. \<open>Status\<close>: \<open>utils/status.go\<close>, \<open>utils/predicate.go\<close>.
    \<open>Pod_Manager\<close>: \<open>utils/pod_manager.go\<close>, \<open>utils/waiter.go\<close>.
  \<^item> \<open>Component_Base\<close> and the \<open>_Controller\<close> theories: the component reconcilers under
    \<open>internal/controllers\<close>, as effects on \<open>'w opstate\<close>: the custom resource in memory, the list of
    pending components and the world.

  \<^item> \<open>Api_Secrets\<close>: the readers of certificates and credentials of \<open>api/v1/loggingservice_types.go\<close>.
  \<^item> \<open>Graylog_Rest\<close>, \<open>Graylog_Content\<close>, \<open>Graylog_Routing\<close>, \<open>Graylog_Packs\<close>: the REST client and the
    configuration of Graylog (\<open>controllers/graylog/utils\<close>) and the downloads, archives and authorization
    header of \<open>utils/files.go\<close>. \<open>Graylog_Frames\<close> holds what these requests leave alone.
  \<^item> \<open>Graylog_Controller\<close> and \<open>Graylog_Contract\<close>: the Graylog reconciler (\<open>controllers/graylog\<close>) and what
    it promises. \<open>Graylog_Watch\<close>: the watcher of the Graylog Secret (\<open>watch-secret.go\<close>).
  \<^item> \<open>Operator\<close>: \<open>controllers/loggingservice_controller.go\<close>, which runs the five component reconcilers one
    after the other, waits for the pending components and sets the condition of the logging service, and
    the events that queue a custom resource (\<open>SetupWithManager\<close>).
  \<^item> \<open>Monitors\<close>: the start of the operator: \<open>utils/service-monitor.go\<close>, \<open>manager/manager.go\<close>, \<open>cmd/operator/main.go\<close>
    and the log level of \<open>utils/logger.go\<close>. \<open>Template_Functions\<close>: the functions \<open>utils/files.go\<close> adds to the
    templates to check numbers. \<open>Text_Helpers\<close>: \<open>ParseTemplate\<close> of the same file and the helpers of
    \<open>utils/common.go\<close> that make texts.
  \<^item> \<open>Go_Heap\<close>, \<open>Deep_Copy\<close>, \<open>Api_Copies\<close>: the copy functions of \<open>api/v1/zz_generated.deepcopy.go\<close>. \<open>Go_Heap\<close> is
    the heap they run on, with structs as lists of fields and pointers, slices and maps as locations, and the reading of a
    value of a type from it; \<open>Deep_Copy\<close> has the statements the functions consist of; \<open>Api_Copies\<close> has for every
    struct \<open>X\<close> its type \<open>X_type\<close> and \<open>X_DeepCopyInto\<close>, \<open>X_DeepCopy\<close> and, for the two objects, \<open>X_DeepCopyObject\<close>.
  \<^item> \<open>Golden\<close>: the golden-file tests of the builders, \<open>internal/builder/buildertest/golden.go\<close>.
  \<^item> \<open>Go_Text\<close>: paths, lines and words as the standard library handles them.
  \<^item> \<open>Pipeline_Records\<close>, \<open>Pipeline_Compare\<close>: the comparison stage of the pipeline test
    (\<open>test/fluent-pipeline/stage/testing\<close>): \<open>util.go\<close> on single records, \<open>testing.go\<close> on a run. \<open>Parser_Contracts\<close>:
    \<open>stage/parsercontract\<close>. \<open>Pipeline_Prepare\<close>: \<open>agent/agent.go\<close>, \<open>stage/preparing\<close>, \<open>stage/kubeapi\<close> and \<open>main.go\<close>.

  \<^bold>\<open>How they interact.\<close> \<open>Reconcile\<close> reads the custom resource and starts a cycle on it. Each component
  reconciler writes its conditions into that resource through the status updater, builds its objects with
  its builder, writes them with the generic reconcilers and appends what is not yet available to the
  pending list; the wait at the end of the cycle empties that list. An event on a Secret is mapped back to
  the custom resources that name it. The Graylog watcher shares the custom resource of the cycle that
  started it. The pipeline test renders the templates of the operator with the sections of a custom resource,
  as the operator does; its parser contracts generate the expected records that its comparison
  stage reads.

  \<^bold>\<open>Interfaces.\<close> These are locales, each interpreted on the definitions of the model:
  \<^item> \<open>effect_frame\<close>: relations between states that the control structures keep; extended by
    \<open>content_frame\<close> and \<open>pack_frame\<close> to the whole configuration of Graylog.
  \<^item> \<open>workload_contract\<close>: what a builder promises of an object.
  \<^item> \<open>condition_map\<close>: the conditions as a map keyed by reason.
  \<^item> \<open>line_validator\<close>: what a validator of credentials rejects.
  \<^item> \<open>operator_client\<close>, extended by \<open>graylog_client_laws\<close>: the laws of the cluster and of the network.
  \<^item> \<open>component_contract\<close>: what a component reconciler leaves alone.
  \<^item> \<open>secret_reader\<close>: a client whose reads depend on the objects read only.
  \<^item> \<open>deep_copy\<close>: a copy function and its type, and that copy and original do not affect each other.

  \<^bold>\<open>Hypotheses on code outside the repository.\<close> \<open>cluster_laws\<close> (the API server as a map of objects),
  \<open>patch_law\<close> (status patches), \<open>quiet_laws\<close> and \<open>remote_laws\<close> (listing, rendering, files and HTTP requests
  change no object), \<open>section_law\<close> (a status patch keeps the specification), \<open>clock_law\<close> (sleeping advances the
  clock), \<open>sent_laws\<close> (which operations send HTTP requests), \<open>file_laws\<close> (which files an operation writes),
  \<open>read_law\<close> (a read returns what is stored), \<open>sha_law\<close> (a hexadecimal SHA-256 has 64 digits). \<open>store_client\<close>
  and its variants satisfy them. For the pipeline test: \<open>files_law\<close> and \<open>save_law\<close> (a file holds what was written
  to it), \<open>walk_law\<close> (the last element of the path of a file is a name) and \<open>range_law\<close> (ranging over a map visits
  every key once), satisfied by \<open>memory_env\<close>, \<open>memory_prepare\<close> and \<open>sorted_keys\<close>. For the start of the operator:
  \<open>monitor_law\<close> (the monitoring API as a map of PodMonitors), satisfied by \<open>monitor_store\<close>. For the copy functions:
  \<open>kube_copies\<close> (the copy functions of the Kubernetes packages copy the values of their types, and \<open>TypeMeta\<close> holds
  no references), satisfied by \<open>example_kube\<close>. For the golden files: \<open>golden_law\<close> (files hold what was written, a file
  that exists can be read, the comparison of texts is empty exactly for equal texts), \<open>golden_layout\<close> (the expected files
  of different cases and objects are different files) and \<open>cases_found\<close> (the pattern matches the case files), satisfied
  by \<open>memory_golden\<close>.

  \<^bold>\<open>What is shown.\<close>
  \<^item> \<open>Workload_Properties\<close>: the objects the builders produce are consistent (selectors, Services, volumes,
    labels, privileges).
  \<^item> \<open>Cluster_Properties\<close>: credentials, creation, update and deletion of objects, the condition list, the
    wait for pending components.
  \<^item> \<open>Component_Properties\<close>: each collector's run as a whole: what a successful run has written, and what
    no run touches.
  \<^item> \<open>Graylog_Properties\<close>: the Graylog run, that existing content is kept unless an update is forced, the
    authorization header, the streams, the hash of the root password, and that an archive writes below
    its directory only. \<open>Graylog_Watch\<close>: a changed password reaches configuration and Secret.
  \<^item> \<open>Operator_Properties\<close>: a cycle ends and its status is the truth, the retry delay, the container
    runtime. \<open>Secret_Events\<close>: a change of a Secret whose event queues nothing for a custom resource cannot
    change the credentials that are resolved for it.
  \<^item> \<open>Monitors\<close>: which PodMonitors are created, and that nothing about them keeps the operator from
    starting. \<open>Template_Functions\<close>: a number is judged alike as an integer and as text.
  \<^item> \<open>Api_Copies\<close>: every copy function yields a value of the same type and contents in cells of its own and changes
    no other cell; a copied object and its original share no location, so no write through the one is seen through the
    other. The rest of the development, where values are immutable, relies on this.
  \<^item> \<open>Golden\<close>: a comparison passes exactly when the files hold what the builder makes, and the files an update leaves
    are accepted by the comparison that follows, with the same outcome for every case. \<open>Text_Helpers\<close>: durations are printed in whole milliseconds.
  \<^item> \<open>Pipeline_Paths\<close>, \<open>Pipeline_Claims\<close>, \<open>Pipeline_Properties\<close>: the verdict of the comparison, which keeps its
    claims in a list, is that of a specification without state; a passing run is a one-to-one match of
    expected and output records; the reported differences are empty exactly for equal records.
  \<^item> \<open>Parser_Properties\<close>: the files a preparation writes, the verdict on its expected records, and the gaps
    that are found. \<open>Pipeline_Deployed\<close>: the custom sections that are tested are those the operator
    deploys, the rendered configuration is complete, and the fake API server answers for pods only.

  \<^bold>\<open>Bounds.\<close> The wait for pending components sleeps ten seconds a round and gives up after 300
  seconds, so \<open>pending_fuel\<close> is 31 rounds; \<open>pending_wait_ends\<close> shows that this is enough.
  Durations and replica counts are integers cut to 64 and 32 bits where the code computes with them.
  The watcher of the Graylog Secret handles a finite list of events; a channel that never opens blocks it,
  which is the value \<^const>\<open>None\<close>.

  The walk over a directory is a finite list of entries; the readers of lines stop at the limits of their
  scanners, 64 KiB and 10 MiB.

  \<^bold>\<open>Not modelled.\<close> The registration of the types with the scheme of controller-runtime, the
  construction of the logger, log lines and printed reports, and the parsing of command lines. Templates, JSON, YAML,
  URLs, HTTP, certificates and archives are read by parameters. Slices that share a part of an array are not
  represented in the heap. The watcher's goroutine is a sequence of handled events; its interleaving with a cycle is
  not modelled.
\<close>

end
